(* ===== verification/Prelude.thy ===== *)
theory Prelude
  imports Main "HOL-Library.AList" "HOL-Library.List_Lexorder" "HOL-Library.Char_ord"
    "HOL-Library.Product_Lexorder"
begin

text \<open>
  Vocabulary shared by every component: the result type of fallible Python code
  (\<open>error + 'a\<close>, an exception on the left), its sequencing, loops over sequences that stop at
  the first exception, and insertion-ordered dictionaries as association lists.
  The locales \<open>fallible_machine\<close> and \<open>ordered_machine\<close> state once what "every step keeps
  the invariant" and "every step moves forward" give for whole runs; the reducer, the
  session and the setup handshake interpret them.
\<close>

named_theorems result_simps \<open>sequencing of fallible code, inverted\<close>
named_theorems wf_intros \<open>preservation of the well-formedness invariants\<close>
named_theorems string_simps \<open>evaluation of the string operations\<close>

section \<open>Results\<close>

definition ebind :: "'e + 'a \<Rightarrow> ('a \<Rightarrow> 'e + 'b) \<Rightarrow> 'e + 'b" where
  "ebind m f = (case m of Inl e \<Rightarrow> Inl e | Inr x \<Rightarrow> f x)"

definition raise_if :: "bool \<Rightarrow> 'e \<Rightarrow> 'e + unit" where
  "raise_if b e = (if b then Inl e else Inr ())"

definition of_option :: "'e \<Rightarrow> 'a option \<Rightarrow> 'e + 'a" where
  "of_option e x = (case x of None \<Rightarrow> Inl e | Some v \<Rightarrow> Inr v)"

text \<open>A loop or comprehension over a sequence; the first exception ends it.\<close>

fun emap :: "('a \<Rightarrow> 'e + 'b) \<Rightarrow> 'a list \<Rightarrow> 'e + 'b list" where
  "emap f [] = Inr []"
| "emap f (x # xs) = ebind (f x) (\<lambda>y. ebind (emap f xs) (\<lambda>ys. Inr (y # ys)))"

fun efold :: "('s \<Rightarrow> 'i \<Rightarrow> 'e + 's) \<Rightarrow> 's \<Rightarrow> 'i list \<Rightarrow> 'e + 's" where
  "efold f s [] = Inr s"
| "efold f s (x # xs) = ebind (f s x) (\<lambda>s'. efold f s' xs)"

lemma ebind_Inl [simp]: "ebind (Inl e) f = Inl e"
  by (simp add: ebind_def)

lemma ebind_Inr [simp]: "ebind (Inr x) f = f x"
  by (simp add: ebind_def)

lemma ebind_eq_Inr [result_simps]:
  "ebind m f = Inr y \<longleftrightarrow> (\<exists>x. m = Inr x \<and> f x = Inr y)"
  by (cases m) simp_all

lemma ebind_eq_Inl [result_simps]:
  "ebind m f = Inl e \<longleftrightarrow> m = Inl e \<or> (\<exists>x. m = Inr x \<and> f x = Inl e)"
  by (cases m) simp_all

lemma ebind_assoc: "ebind (ebind m f) g = ebind m (\<lambda>x. ebind (f x) g)"
  by (cases m) simp_all

lemma ebind_cong [fundef_cong]:
  "m = m' \<Longrightarrow> (\<And>x. m' = Inr x \<Longrightarrow> f x = f' x) \<Longrightarrow> ebind m f = ebind m' f'"
  by (cases m') simp_all

lemma raise_if_eq_Inr [result_simps]: "raise_if b e = Inr u \<longleftrightarrow> \<not> b"
  by (simp add: raise_if_def)

lemma raise_if_eq_Inl [result_simps]: "raise_if b e = Inl e' \<longleftrightarrow> b \<and> e' = e"
  by (auto simp: raise_if_def)

lemma raise_if_simps [simp]: "raise_if True e = Inl e" "raise_if False e = Inr ()"
  by (simp_all add: raise_if_def)

lemma of_option_eq_Inr [result_simps]: "of_option e x = Inr v \<longleftrightarrow> x = Some v"
  by (cases x) (simp_all add: of_option_def)

lemma of_option_eq_Inl [result_simps]: "of_option e x = Inl e' \<longleftrightarrow> x = None \<and> e' = e"
  by (cases x) (auto simp: of_option_def)

lemma of_option_simps [simp]: "of_option e None = Inl e" "of_option e (Some v) = Inr v"
  by (simp_all add: of_option_def)

lemma emap_eq_Inr:
  "emap f xs = Inr ys \<longleftrightarrow> list_all2 (\<lambda>x y. f x = Inr y) xs ys"
  by (induction xs arbitrary: ys) (auto simp: result_simps list_all2_Cons1)

lemma emap_Inr_length: "emap f xs = Inr ys \<Longrightarrow> length ys = length xs"
  by (simp add: emap_eq_Inr list_all2_lengthD)

lemma emap_Inr_in_set:
  assumes "emap f xs = Inr ys" "y \<in> set ys"
  shows "\<exists>x\<in>set xs. f x = Inr y"
proof -
  from assms(1) have "list_all2 (\<lambda>x y. f x = Inr y) xs ys" by (simp add: emap_eq_Inr)
  with assms(2) show ?thesis
    by (fastforce simp: in_set_conv_nth list_all2_conv_all_nth)
qed

lemma emap_eq_Inl:
  "emap f xs = Inl e \<Longrightarrow> \<exists>x\<in>set xs. f x = Inl e"
  by (induction xs) (auto simp: result_simps)

lemma efold_append:
  "efold f s (xs @ ys) = ebind (efold f s xs) (\<lambda>s'. efold f s' ys)"
  by (induction xs arbitrary: s) (simp_all add: ebind_assoc)

section \<open>Which exceptions code can raise\<close>

text \<open>
  \<open>raises E m\<close>: the exceptions of \<open>m\<close> are in \<open>E\<close>. The rules follow the structure of the code,
  so that the exceptions of a function are found by \<open>intro raises_rules\<close>.
\<close>

named_theorems raises_rules \<open>exceptions of composed code\<close>

definition raises :: "'e set \<Rightarrow> 'e + 'a \<Rightarrow> bool" where
  "raises E m \<longleftrightarrow> (\<forall>e. m = Inl e \<longrightarrow> e \<in> E)"

lemma raises_simps [simp]: "raises E (Inr x)" "raises E (Inl e) \<longleftrightarrow> e \<in> E"
  by (auto simp: raises_def)

lemma raises_structure [raises_rules]:
  "raises E m \<Longrightarrow> (\<And>x. raises E (f x)) \<Longrightarrow> raises E (ebind m f)"
  "(b \<Longrightarrow> raises E t) \<Longrightarrow> (\<not> b \<Longrightarrow> raises E u) \<Longrightarrow> raises E (if b then t else u)"
  "raises E n \<Longrightarrow> (\<And>v. raises E (g v)) \<Longrightarrow> raises E (case z of None \<Rightarrow> n | Some v \<Rightarrow> g v)"
  "(\<And>a c. raises E (h a c)) \<Longrightarrow> raises E (case p of (a, c) \<Rightarrow> h a c)"
  by (auto simp: raises_def ebind_def split: sum.split option.split prod.split)

lemma raises_raise_if [raises_rules]: "e \<in> E \<Longrightarrow> raises E (raise_if b e)"
  by (simp add: raises_def raise_if_def)

lemma raises_of_option [raises_rules]: "e \<in> E \<Longrightarrow> raises E (of_option e x)"
  by (cases x) (simp_all add: of_option_def)

lemma raises_emap [raises_rules]: "(\<And>x. raises E (f x)) \<Longrightarrow> raises E (emap f xs)"
proof (induction xs)
  case (Cons x xs)
  then show ?case unfolding emap.simps by (intro raises_structure) simp_all
qed simp

lemma raises_mono: "raises E m \<Longrightarrow> E \<subseteq> E' \<Longrightarrow> raises E' m"
  by (auto simp: raises_def)

section \<open>Machines whose steps can fail\<close>

locale fallible_machine =
  fixes step :: "'s \<Rightarrow> 'i \<Rightarrow> 'e + 's"
    and inv :: "'s \<Rightarrow> bool"
  assumes inv_step: "inv s \<Longrightarrow> step s i = Inr s' \<Longrightarrow> inv s'"
begin

lemma inv_run: "inv s \<Longrightarrow> efold step s is = Inr s' \<Longrightarrow> inv s'"
  by (induction "is" arbitrary: s) (auto simp: result_simps dest: inv_step)

lemma inv_prefix:
  assumes "inv s" "efold step s (is @ js) = Inr s'"
  shows "\<exists>t. efold step s is = Inr t \<and> inv t \<and> efold step t js = Inr s'"
  using assms inv_run by (auto simp: efold_append result_simps)

end

text \<open>
  A machine that also moves forward along a preorder (an index that grows, a history that
  is only appended to): the preorder relates the ends of every run.
\<close>

locale ordered_machine = fallible_machine step inv
  for step :: "'s \<Rightarrow> 'i \<Rightarrow> 'e + 's" and inv :: "'s \<Rightarrow> bool" +
  fixes le :: "'s \<Rightarrow> 's \<Rightarrow> bool"
  assumes le_refl: "le s s"
    and le_trans: "le s t \<Longrightarrow> le t u \<Longrightarrow> le s u"
    and le_step: "inv s \<Longrightarrow> step s i = Inr s' \<Longrightarrow> le s s'"
begin

lemma le_run: "inv s \<Longrightarrow> efold step s is = Inr s' \<Longrightarrow> le s s'"
proof (induction "is" arbitrary: s)
  case Nil
  then show ?case by (simp add: le_refl)
next
  case (Cons i "is")
  then obtain t where t: "step s i = Inr t" "efold step t is = Inr s'"
    by (auto simp: result_simps)
  with Cons have "le t s'" by (blast intro: inv_step)
  with t(1) Cons.prems(1) show ?case by (blast intro: le_trans le_step)
qed

end

section \<open>Positions in a sequence\<close>

fun find_index :: "('a \<Rightarrow> bool) \<Rightarrow> 'a list \<Rightarrow> nat option" where
  "find_index p [] = None"
| "find_index p (x # xs) = (if p x then Some 0 else map_option Suc (find_index p xs))"

lemma find_index_eq_Some:
  "find_index p xs = Some i \<longleftrightarrow> i < length xs \<and> p (xs ! i) \<and> (\<forall>j<i. \<not> p (xs ! j))"
proof (induction xs arbitrary: i)
  case Nil
  then show ?case by simp
next
  case (Cons x xs)
  then show ?case
    by (cases i) (auto simp: nth_Cons' less_Suc_eq_0_disj All_less_Suc2 split: if_splits)
qed

lemma find_index_less: "find_index p xs = Some i \<Longrightarrow> i < length xs"
  by (simp add: find_index_eq_Some)

lemma find_index_eq_None: "find_index p xs = None \<longleftrightarrow> (\<forall>x\<in>set xs. \<not> p x)"
  by (induction xs) auto

lemma find_index_cong:
  "xs = ys \<Longrightarrow> (\<And>y. y \<in> set ys \<Longrightarrow> p y = q y) \<Longrightarrow> find_index p xs = find_index q ys"
  by (induction ys arbitrary: xs) auto

section \<open>Dictionaries in insertion order\<close>

text \<open>
  A Python \<open>dict\<close> keeps the position of a key that is assigned again and appends a new
  one, as \<open>AList.update\<close> does; \<open>dict(items)\<close> assigns the items from left to right.
\<close>

definition dict_of :: "('k \<times> 'v) list \<Rightarrow> ('k \<times> 'v) list" where
  "dict_of kvs = fold (\<lambda>(k, v). AList.update k v) kvs []"

lemma distinct_fst_update [simp]:
  "distinct (map fst al) \<Longrightarrow> distinct (map fst (AList.update k v al))"
  by (rule distinct_update)

lemma distinct_dict_of [simp]: "distinct (map fst (dict_of kvs))"
proof -
  have "distinct (map fst al) \<Longrightarrow>
      distinct (map fst (fold (\<lambda>(k, v). AList.update k v) kvs al))" for al :: "('a \<times> 'b) list"
    by (induction kvs arbitrary: al) auto
  then show ?thesis by (simp add: dict_of_def)
qed

lemma update_notin:
  "k \<notin> set (map fst al) \<Longrightarrow> AList.update k v al = al @ [(k, v)]"
  by (induction al) auto

lemma dict_of_distinct:
  assumes "distinct (map fst kvs)"
  shows "dict_of kvs = kvs"
proof -
  have "distinct (map fst (al @ kvs)) \<Longrightarrow>
      fold (\<lambda>(k, v). AList.update k v) kvs al = al @ kvs" for al :: "('a \<times> 'b) list"
    by (induction kvs arbitrary: al) (auto simp: update_notin)
  from this [of "[]"] assms show ?thesis by (simp add: dict_of_def)
qed

lemma map_of_dict_of: "map_of (dict_of kvs) = map_of (rev kvs)"
proof -
  have "map_of (fold (\<lambda>(k, v). AList.update k v) kvs al) = map_of (rev kvs @ al)"
    for al :: "('a \<times> 'b) list"
    by (induction kvs arbitrary: al) (auto simp: update_conv' fun_eq_iff map_add_def split: option.splits)
  from this [of "[]"] show ?thesis by (simp add: dict_of_def)
qed

lemma in_set_update:
  "(k', v') \<in> set (AList.update k v al) \<Longrightarrow> k' = k \<and> v' = v \<or> (k', v') \<in> set al"
  by (induction al) (auto split: if_splits)

end
