(* ===== verification/Py_Strings.thy ===== *)
theory Py_Strings
  imports Prelude
begin

text \<open>
  The operations of Python's \<open>str\<close> that the source uses. A \<open>char\<close> stands for a code
  point from U+0000 to U+00FF; the character classes and \<open>lower\<close> are those of Python
  on that range (\<open>isdigit\<close> accepts superscripts, \<open>int\<close> accepts underscores between
  digits, surrounding white space and a sign, and refuses more than 4300 digits). Order is
  by code point, as \<open>List_Lexorder\<close> over \<open>Char_ord\<close>.
\<close>

section \<open>Character classes\<close>

definition code :: "char \<Rightarrow> nat" where
  "code c = of_char c"

definition is_ascii :: "char \<Rightarrow> bool" where
  "is_ascii c \<longleftrightarrow> code c < 128"

definition is_dec :: "char \<Rightarrow> bool" where
  "is_dec c \<longleftrightarrow> 48 \<le> code c \<and> code c \<le> 57"

definition is_digit :: "char \<Rightarrow> bool" where
  "is_digit c \<longleftrightarrow> is_dec c \<or> code c \<in> {178, 179, 185}"

definition is_alpha :: "char \<Rightarrow> bool" where
  "is_alpha c \<longleftrightarrow> (65 \<le> code c \<and> code c \<le> 90) \<or> (97 \<le> code c \<and> code c \<le> 122)
     \<or> code c \<in> {170, 181, 186} \<or> (192 \<le> code c \<and> code c \<noteq> 215 \<and> code c \<noteq> 247)"

definition is_alnum :: "char \<Rightarrow> bool" where
  "is_alnum c \<longleftrightarrow> is_alpha c \<or> is_digit c \<or> code c \<in> {188, 189, 190}"

definition is_space :: "char \<Rightarrow> bool" where
  "is_space c \<longleftrightarrow> (9 \<le> code c \<and> code c \<le> 13) \<or> (28 \<le> code c \<and> code c \<le> 32)
     \<or> code c = 133 \<or> code c = 160"

definition is_printable :: "char \<Rightarrow> bool" where
  "is_printable c \<longleftrightarrow> (32 \<le> code c \<and> code c \<le> 126) \<or> (161 \<le> code c \<and> code c \<noteq> 173)"

definition lower_char :: "char \<Rightarrow> char" where
  "lower_char c =
     (if (65 \<le> code c \<and> code c \<le> 90) \<or> (192 \<le> code c \<and> code c \<le> 222 \<and> code c \<noteq> 215)
      then char_of (code c + 32) else c)"

definition lower :: "string \<Rightarrow> string" where
  "lower s = map lower_char s"

lemmas char_class_defs = code_def is_ascii_def is_dec_def is_digit_def is_alpha_def
  is_alnum_def is_space_def is_printable_def lower_char_def

lemma code_less: "code c < 256"
  by (simp add: code_def of_char_def)

lemma code_lower_char: "code (lower_char c) = (if (65 \<le> code c \<and> code c \<le> 90)
    \<or> (192 \<le> code c \<and> code c \<le> 222 \<and> code c \<noteq> 215) then code c + 32 else code c)"
  by (auto simp: lower_char_def code_def)

lemma lower_char_idem [simp]: "lower_char (lower_char c) = lower_char c"
  by (subst lower_char_def) (auto simp: code_lower_char)

lemma lower_idem [simp]: "lower (lower s) = lower s"
  by (simp add: lower_def)

lemma lower_append [simp]: "lower (s @ t) = lower s @ lower t"
  by (simp add: lower_def)

section \<open>Prefixes, suffixes, substrings\<close>

definition starts_with :: "string \<Rightarrow> string \<Rightarrow> bool" where
  "starts_with p s \<longleftrightarrow> take (length p) s = p"

definition ends_with :: "string \<Rightarrow> string \<Rightarrow> bool" where
  "ends_with q s \<longleftrightarrow> length q \<le> length s \<and> drop (length s - length q) s = q"

definition remove_prefix :: "string \<Rightarrow> string \<Rightarrow> string" where
  "remove_prefix p s = (if starts_with p s then drop (length p) s else s)"

lemma starts_with_iff: "starts_with p s \<longleftrightarrow> (\<exists>t. s = p @ t)"
  by (metis append_eq_conv_conj append_take_drop_id starts_with_def)

lemma starts_with_append [simp]: "starts_with p (p @ t)"
  by (auto simp: starts_with_iff)

lemma starts_with_code [string_simps]:
  "starts_with [] s \<longleftrightarrow> True"
  "starts_with (c # p) [] \<longleftrightarrow> False"
  "starts_with (c # p) (d # s) \<longleftrightarrow> c = d \<and> starts_with p s"
  by (auto simp: starts_with_def)

text \<open>The first occurrence of a separator: the text before it and the text after it.\<close>

fun cut_at :: "string \<Rightarrow> string \<Rightarrow> (string \<times> string) option" where
  "cut_at sep [] = (if sep = [] then Some ([], []) else None)"
| "cut_at sep (c # s) =
     (if starts_with sep (c # s) then Some ([], drop (length sep) (c # s))
      else map_option (\<lambda>(a, b). (c # a, b)) (cut_at sep s))"

definition contains :: "string \<Rightarrow> string \<Rightarrow> bool" where
  "contains sub s \<longleftrightarrow> cut_at sub s \<noteq> None"

lemma cut_at_Some: "cut_at sep s = Some (a, b) \<Longrightarrow> s = a @ sep @ b"
proof (induction s arbitrary: a)
  case Nil
  then show ?case by (simp split: if_splits)
next
  case (Cons c s)
  then show ?case
    by (auto simp: starts_with_iff split: if_splits)
qed

lemma cut_at_length: "cut_at sep s = Some (a, b) \<Longrightarrow> sep \<noteq> [] \<Longrightarrow> length b < length s"
  by (drule cut_at_Some) simp

section \<open>Splitting and joining\<close>

fun split_on :: "char \<Rightarrow> string \<Rightarrow> string list" where
  "split_on c [] = [[]]"
| "split_on c (x # xs) =
     (if x = c then [] # split_on c xs
      else (case split_on c xs of [] \<Rightarrow> [[x]] | w # ws \<Rightarrow> (x # w) # ws))"

fun join_with :: "string \<Rightarrow> string list \<Rightarrow> string" where
  "join_with sep [] = []"
| "join_with sep [w] = w"
| "join_with sep (w # ws) = w @ sep @ join_with sep ws"

text \<open>\<open>s.split(sep)\<close> for a separator of several characters.\<close>

function split_str :: "string \<Rightarrow> string \<Rightarrow> string list" where
  "split_str sep s =
     (if sep = [] then [s]
      else (case cut_at sep s of None \<Rightarrow> [s] | Some (a, b) \<Rightarrow> a # split_str sep b))"
  by pat_completeness auto
termination
  by (relation "measure (\<lambda>(sep, s). length s)") (auto dest: cut_at_length)

declare split_str.simps [simp del]

text \<open>\<open>s.split(c, n)\<close>: at most \<open>n\<close> cuts, from the left.\<close>

fun split_max :: "nat \<Rightarrow> char \<Rightarrow> string \<Rightarrow> string list" where
  "split_max 0 c s = [s]"
| "split_max (Suc n) c s =
     (case cut_at [c] s of None \<Rightarrow> [s] | Some (a, b) \<Rightarrow> a # split_max n c b)"

lemma split_on_not_Nil [simp]: "split_on c s \<noteq> []"
  by (induction s) (auto split: list.splits)

lemma split_on_no_sep: "c \<notin> set s \<Longrightarrow> split_on c s = [s]"
  by (induction s) auto

lemma split_on_pieces: "w \<in> set (split_on c s) \<Longrightarrow> c \<notin> set w"
proof (induction s arbitrary: w)
  case Nil
  then show ?case by simp
next
  case (Cons x s)
  then show ?case by (cases "split_on c s") (auto split: if_splits)
qed

lemma split_on_append_sep:
  "c \<notin> set w \<Longrightarrow> split_on c (w @ c # s) = w # split_on c s"
  by (induction w) auto

lemma join_split_on: "join_with [c] (split_on c s) = s"
proof (induction s)
  case Nil
  then show ?case by simp
next
  case (Cons x s)
  then show ?case
    by (cases "split_on c s"; cases "tl (split_on c s)") auto
qed

lemma split_on_join:
  "ws \<noteq> [] \<Longrightarrow> \<forall>w\<in>set ws. c \<notin> set w \<Longrightarrow> split_on c (join_with [c] ws) = ws"
  by (induction "[c]" ws rule: join_with.induct) (auto simp: split_on_no_sep split_on_append_sep)

lemma length_split_on: "length (split_on c s) = Suc (count_list s c)"
proof (induction s)
  case Nil
  then show ?case by simp
next
  case (Cons x s)
  then show ?case by (cases "split_on c s") auto
qed

section \<open>Trimming\<close>

definition lstrip_by :: "(char \<Rightarrow> bool) \<Rightarrow> string \<Rightarrow> string" where
  "lstrip_by p s = dropWhile p s"

definition rstrip_by :: "(char \<Rightarrow> bool) \<Rightarrow> string \<Rightarrow> string" where
  "rstrip_by p s = rev (dropWhile p (rev s))"

definition strip :: "string \<Rightarrow> string" where
  "strip s = rstrip_by is_space (lstrip_by is_space s)"

definition rstrip :: "string \<Rightarrow> string" where
  "rstrip s = rstrip_by is_space s"

section \<open>Decimal numbers\<close>

definition dec_value :: "char \<Rightarrow> nat" where
  "dec_value c = code c - 48"

definition dec_char :: "nat \<Rightarrow> char" where
  "dec_char d = char_of (48 + d)"

fun show_nat :: "nat \<Rightarrow> string" where
  "show_nat n = (if n < 10 then [dec_char n] else show_nat (n div 10) @ [dec_char (n mod 10)])"

declare show_nat.simps [simp del]

definition show_int :: "int \<Rightarrow> string" where
  "show_int i = (if i < 0 then CHR ''-'' # show_nat (nat (- i)) else show_nat (nat i))"

text \<open>
  Digits with single underscores between them: the value read so far and the number of
  digits; \<open>prev\<close> says whether the character before was a digit.
\<close>

fun int_digits :: "bool \<Rightarrow> nat \<Rightarrow> nat \<Rightarrow> string \<Rightarrow> (nat \<times> nat) option" where
  "int_digits prev acc n [] = (if prev then Some (acc, n) else None)"
| "int_digits prev acc n (c # cs) =
     (if is_dec c then int_digits True (10 * acc + dec_value c) (Suc n) cs
      else if c = CHR ''_'' \<and> prev then int_digits False acc n cs
      else None)"

definition int_space :: "char \<Rightarrow> bool" where
  "int_space c \<longleftrightarrow> (9 \<le> code c \<and> code c \<le> 13) \<or> code c = 32 \<or> code c = 133 \<or> code c = 160"

definition max_int_digits :: nat where
  "max_int_digits = 4300"

text \<open>\<open>int(s)\<close>; \<open>None\<close> is \<open>ValueError\<close>.\<close>

definition py_int :: "string \<Rightarrow> int option" where
  "py_int s =
     (let t = rstrip_by int_space (lstrip_by int_space s);
          (neg, body) = (case t of [] \<Rightarrow> (False, [])
             | c # cs \<Rightarrow> if c = CHR ''-'' then (True, cs)
                         else if c = CHR ''+'' then (False, cs) else (False, t))
      in case int_digits False 0 0 body of
           None \<Rightarrow> None
         | Some (v, n) \<Rightarrow>
             if max_int_digits < n then None else Some (if neg then - int v else int v))"

lemma code_dec_char: "d < 10 \<Longrightarrow> code (dec_char d) = 48 + d"
  by (simp add: dec_char_def code_def)

lemma is_dec_dec_char [simp]: "d < 10 \<Longrightarrow> is_dec (dec_char d)"
  by (simp add: is_dec_def code_dec_char)

lemma dec_value_dec_char [simp]: "d < 10 \<Longrightarrow> dec_value (dec_char d) = d"
  by (simp add: dec_value_def code_dec_char)

lemma show_nat_not_Nil [simp]: "show_nat n \<noteq> []"
  by (subst show_nat.simps) simp

lemma show_nat_digits: "c \<in> set (show_nat n) \<Longrightarrow> is_dec c"
proof (induction n rule: show_nat.induct)
  case (1 n)
  then show ?case
    by (subst (asm) show_nat.simps) (auto split: if_splits)
qed

lemma int_digits_append_digit:
  "int_digits p a k s = Some (v, n) \<Longrightarrow> d < 10 \<Longrightarrow>
   int_digits p a k (s @ [dec_char d]) = Some (10 * v + d, Suc n)"
proof (induction p a k s rule: int_digits.induct)
  case (1 prev acc n)
  then show ?case by (simp split: if_splits)
next
  case (2 prev acc n c cs)
  then show ?case by (auto split: if_splits)
qed

lemma int_digits_show_nat: "int_digits False 0 0 (show_nat n) = Some (n, length (show_nat n))"
proof (induction n rule: show_nat.induct)
  case (1 n)
  show ?case
  proof (cases "n < 10")
    case True
    then show ?thesis by (simp add: show_nat.simps [of n])
  next
    case False
    with 1 have "int_digits False 0 0 (show_nat (n div 10)) =
        Some (n div 10, length (show_nat (n div 10)))" by simp
    from int_digits_append_digit [OF this, of "n mod 10"] False show ?thesis
      by (simp add: show_nat.simps [of n])
  qed
qed

lemma show_nat_inj: "show_nat m = show_nat n \<Longrightarrow> m = n"
  by (metis int_digits_show_nat option.inject prod.inject)

lemma is_dec_not_special: "is_dec c \<Longrightarrow> c \<noteq> CHR ''-'' \<and> c \<noteq> CHR ''|'' \<and> c \<noteq> CHR ''+''
    \<and> c \<noteq> CHR '' '' \<and> \<not> int_space c"
  by (auto simp: is_dec_def int_space_def code_def)

lemma show_int_inj: "show_int i = show_int j \<Longrightarrow> i = j"
proof -
  have minus: "CHR ''-'' # s \<noteq> show_nat n" for s n
    using show_nat_digits [of "CHR ''-''" n] is_dec_not_special by (metis list.set_intros(1))
  assume "show_int i = show_int j"
  with minus minus [symmetric] show ?thesis
    by (auto simp: show_int_def dest!: show_nat_inj split: if_splits)
qed

lemma rstrip_by_id: "s = [] \<or> \<not> p (last s) \<Longrightarrow> rstrip_by p s = s"
  by (cases s rule: rev_cases) (auto simp: rstrip_by_def)

lemma lstrip_by_id: "s = [] \<or> \<not> p (hd s) \<Longrightarrow> lstrip_by p s = s"
  by (cases s) (auto simp: lstrip_by_def)

lemma py_int_show_nat:
  assumes "length (show_nat n) \<le> max_int_digits"
  shows "py_int (show_nat n) = Some (int n)"
proof -
  obtain c cs where s: "show_nat n = c # cs" by (cases "show_nat n") auto
  have dec: "\<forall>d\<in>set (c # cs). is_dec d" using show_nat_digits s by metis
  then have "is_dec c" "is_dec (last (c # cs))" using last_in_set [of "c # cs"] by simp_all
  then have "\<not> int_space c" "\<not> int_space (last (c # cs))" "c \<noteq> CHR ''-''" "c \<noteq> CHR ''+''"
    using is_dec_not_special by blast+
  then have "rstrip_by int_space (lstrip_by int_space (show_nat n)) = c # cs"
    by (simp add: lstrip_by_id rstrip_by_id s)
  with assms int_digits_show_nat [of n] s \<open>c \<noteq> CHR ''-''\<close> \<open>c \<noteq> CHR ''+''\<close> show ?thesis
    by (simp add: py_int_def)
qed

section \<open>Showdown identifiers\<close>

text \<open>
  \<open>toID\<close>, which four modules define alike: \<open>parser._to_id\<close>, \<open>battle_coordinator._to_id\<close>,
  \<open>challenge_state_reader._to_id\<close> and \<open>public_projection.to_showdown_id\<close>.
\<close>

definition to_id :: "string \<Rightarrow> string" where
  "to_id s = filter (\<lambda>c. is_ascii c \<and> is_alnum c) (lower s)"

definition is_id_char :: "char \<Rightarrow> bool" where
  "is_id_char c \<longleftrightarrow> (97 \<le> code c \<and> code c \<le> 122) \<or> is_dec c"

lemma lower_char_id_char: "is_id_char c \<Longrightarrow> lower_char c = c"
  by (auto simp: is_id_char_def lower_char_def is_dec_def)

lemma id_char_iff: "is_id_char (lower_char c) \<longleftrightarrow> is_ascii (lower_char c) \<and> is_alnum (lower_char c)"
  by (auto simp: is_id_char_def is_ascii_def is_alnum_def is_alpha_def is_digit_def is_dec_def
      code_lower_char)

lemma set_to_id: "c \<in> set (to_id s) \<Longrightarrow> is_id_char c"
  using id_char_iff by (auto simp: to_id_def lower_def)

lemma to_id_idem [simp]: "to_id (to_id s) = to_id s"
proof -
  have "lower (to_id s) = to_id s"
    unfolding lower_def by (rule map_idI) (use set_to_id lower_char_id_char in blast)
  moreover have "\<forall>c\<in>set (to_id s). is_ascii c \<and> is_alnum c"
    by (simp add: to_id_def)
  ultimately show ?thesis
    by (simp add: to_id_def [of "to_id s"])
qed

lemma to_id_lower: "to_id (lower s) = to_id s"
  by (simp add: to_id_def)

end
