(* ===== verification/Errors.thy ===== *)
theory Errors
  imports Prelude
begin

text \<open>
  The exceptions the program raises, one constructor per class
  (\<open>battlebelief_core/errors.py\<close>, \<open>battlebelief_runtime/errors/\<close>, and the built-in classes the
  source lets escape). Texts of messages are not modelled, except where a class carries
  the wire text it was raised with, which callers and telemetry see. \<open>exc_code\<close> is the
  class attribute \<open>code\<close>, the public error taxonomy.
\<close>

datatype py_exc =
    ReducerInvariantError
  | StaleRequestIdentity
  | LocalActionGateRejection
  | NoLegalActionError
  | TraceSinkFailure
  | DecisionRecordConstructionFailure
  | UnknownProtocolEvent string
  | MalformedProtocolMessage
  | RequestStateReconciliationMismatch
  | TransportTimeout
  | Disconnect
  | TimerOrForfeit string
  | ReducerInvariantFailure
  | ServerInvalidChoice string
  | ServerUnavailableChoice string
  | TeamValidationError
  | ChallengeSetupError string
  | ValueError
  | TypeError
  | KeyError
  | IndexError
  | AssertionError
  | RuntimeError string

definition core_code :: "py_exc \<Rightarrow> string option" where
  "core_code e = (case e of
     ReducerInvariantError \<Rightarrow> Some ''reducer_invariant_failure''
   | StaleRequestIdentity \<Rightarrow> Some ''stale_rqid''
   | LocalActionGateRejection \<Rightarrow> Some ''local_action_gate_rejection''
   | NoLegalActionError \<Rightarrow> Some ''no_legal_action_available''
   | TraceSinkFailure \<Rightarrow> Some ''trace_sink_failure''
   | DecisionRecordConstructionFailure \<Rightarrow> Some ''decision_record_construction_failure''
   | _ \<Rightarrow> None)"

definition protocol_code :: "py_exc \<Rightarrow> string option" where
  "protocol_code e = (case e of
     UnknownProtocolEvent _ \<Rightarrow> Some ''unknown_protocol_event''
   | MalformedProtocolMessage \<Rightarrow> Some ''malformed_protocol_message''
   | RequestStateReconciliationMismatch \<Rightarrow> Some ''request_state_reconciliation_mismatch''
   | TransportTimeout \<Rightarrow> Some ''transport_timeout''
   | Disconnect \<Rightarrow> Some ''disconnect''
   | TimerOrForfeit _ \<Rightarrow> Some ''timer_or_forfeit''
   | ReducerInvariantFailure \<Rightarrow> Some ''reducer_invariant_failure''
   | _ \<Rightarrow> None)"

definition action_code :: "py_exc \<Rightarrow> string option" where
  "action_code e = (case e of
     ServerInvalidChoice _ \<Rightarrow> Some ''server_invalid_choice''
   | ServerUnavailableChoice _ \<Rightarrow> Some ''server_unavailable_choice''
   | _ \<Rightarrow> None)"

definition setup_code :: "py_exc \<Rightarrow> string option" where
  "setup_code e = (case e of
     TeamValidationError \<Rightarrow> Some ''team_validation_error''
   | ChallengeSetupError _ \<Rightarrow> Some ''challenge_setup_error''
   | _ \<Rightarrow> None)"

text \<open>\<open>getattr(error, "code", "")\<close>: the empty string for a class without a code.\<close>

definition exc_code :: "py_exc \<Rightarrow> string" where
  "exc_code e =
     (case core_code e of Some c \<Rightarrow> c | None \<Rightarrow>
     (case protocol_code e of Some c \<Rightarrow> c | None \<Rightarrow>
     (case action_code e of Some c \<Rightarrow> c | None \<Rightarrow>
     (case setup_code e of Some c \<Rightarrow> c | None \<Rightarrow> []))))"

definition allowed_subcodes :: "string list" where
  "allowed_subcodes = [''challenge_command_rejected_explicit'', ''challenge_not_pending'',
     ''challenge_setup_timeout'']"

definition challenge_setup_error :: "string \<Rightarrow> py_exc" where
  "challenge_setup_error subcode =
     (if subcode \<notin> set allowed_subcodes then ValueError else ChallengeSetupError subcode)"

lemmas exc_code_defs =
  exc_code_def core_code_def protocol_code_def action_code_def setup_code_def

end
