(* ===== verification/Json.thy ===== *)
theory Json
  imports Py_Strings Errors
begin

text \<open>
  Python's \<open>json\<close> module as the source uses it. \<open>json_loads\<close> follows the scanner of
  \<open>json.decoder\<close>: strict strings, \<open>NaN\<close> and the infinities, integers of at most 4300 digits
  (a longer one is a \<open>ValueError\<close> that is no \<open>JSONDecodeError\<close>), objects whose repeated
  keys keep the last value. A float keeps its text. The hooks of \<open>json.loads\<close> (for the pairs of
  an object, for constants and for floats) are arguments, \<open>json_hooks\<close>; a hook that raises
  \<open>ValueError\<close> gives \<open>Json_Hook_Error\<close>. Strings are sequences of \<open>char\<close>, so an
  escape beyond U+00FF ends in \<open>Json_Beyond_Latin1\<close>, a text outside of the model.
  The scanner takes fuel, one unit per nesting or element; \<open>json_loads_fuel\<close> shows that
  \<open>json_loads\<close> gives it enough.
\<close>

datatype json =
    JNull
  | JBool bool
  | JInt int
  | JFloat string
  | JString string
  | JList "json list"
  | JObject "(string \<times> json) list"

datatype json_error =
    Json_Decode_Error | Json_Int_Limit | Json_Hook_Error | Json_Beyond_Latin1 | Json_Out_Of_Fuel

record json_hooks =
  jh_pairs :: "(string \<times> json) list \<Rightarrow> json_error + json"
  jh_constant :: "string \<Rightarrow> json_error + json"
  jh_float :: "string \<Rightarrow> json_error + json"

definition default_hooks :: json_hooks where
  "default_hooks = \<lparr>jh_pairs = \<lambda>kvs. Inr (JObject (dict_of kvs)),
     jh_constant = \<lambda>w. Inr (JFloat w), jh_float = \<lambda>t. Inr (JFloat t)\<rparr>"

definition json_space :: "char \<Rightarrow> bool" where
  "json_space c \<longleftrightarrow> code c \<in> {9, 10, 13, 32}"

definition skip_space :: "string \<Rightarrow> string" where
  "skip_space s = dropWhile json_space s"

definition hex_value :: "char \<Rightarrow> nat option" where
  "hex_value c =
     (if is_dec c then Some (code c - 48)
      else if 97 \<le> code c \<and> code c \<le> 102 then Some (code c - 87)
      else if 65 \<le> code c \<and> code c \<le> 70 then Some (code c - 55)
      else None)"

definition hex4 :: "char \<Rightarrow> char \<Rightarrow> char \<Rightarrow> char \<Rightarrow> nat option" where
  "hex4 a b c d =
     (case (hex_value a, hex_value b, hex_value c, hex_value d) of
        (Some w, Some x, Some y, Some z) \<Rightarrow> Some (((w * 16 + x) * 16 + y) * 16 + z)
      | _ \<Rightarrow> None)"

definition simple_escape :: "char \<Rightarrow> char option" where
  "simple_escape c =
     map_of [(CHR 0x22, CHR 0x22), (CHR 0x5C, CHR 0x5C), (CHR ''/'', CHR ''/''),
       (CHR ''b'', CHR 0x08), (CHR ''f'', CHR 0x0C), (CHR ''n'', CHR 0x0A),
       (CHR ''r'', CHR 0x0D), (CHR ''t'', CHR 0x09)] c"

text \<open>The rest of a string literal after its opening quote.\<close>

fun scan_string :: "string \<Rightarrow> json_error + (string \<times> string)" where
  "scan_string [] = Inl Json_Decode_Error"
| "scan_string (c # s) =
     (if c = CHR 0x22 then Inr ([], s)
      else if c = CHR 0x5C then
        (case s of
           [] \<Rightarrow> Inl Json_Decode_Error
         | e # t \<Rightarrow>
             if e = CHR ''u'' then
               (case t of
                  w # x # y # z # u \<Rightarrow>
                    (case hex4 w x y z of
                       None \<Rightarrow> Inl Json_Decode_Error
                     | Some n \<Rightarrow>
                         if 256 \<le> n then Inl Json_Beyond_Latin1
                         else ebind (scan_string u) (\<lambda>(r, rest). Inr (char_of n # r, rest)))
                | _ \<Rightarrow> Inl Json_Decode_Error)
             else
               (case simple_escape e of
                  None \<Rightarrow> Inl Json_Decode_Error
                | Some d \<Rightarrow> ebind (scan_string t) (\<lambda>(r, rest). Inr (d # r, rest))))
      else if code c < 32 then Inl Json_Decode_Error
      else ebind (scan_string s) (\<lambda>(r, rest). Inr (c # r, rest)))"

definition digits_value :: "string \<Rightarrow> int" where
  "digits_value ds = foldl (\<lambda>n d. n * 10 + int (dec_value d)) 0 ds"

text \<open>The optional fraction and exponent after the integer part; the empty text for none.\<close>

definition scan_fraction :: "string \<Rightarrow> string \<times> string" where
  "scan_fraction s =
     (case s of
        c # t \<Rightarrow> if c = CHR ''.'' \<and> takeWhile is_dec t \<noteq> []
                 then (c # takeWhile is_dec t, dropWhile is_dec t) else ([], s)
      | [] \<Rightarrow> ([], s))"

definition scan_exponent :: "string \<Rightarrow> string \<times> string" where
  "scan_exponent s =
     (case s of
        c # t \<Rightarrow>
          if c = CHR ''e'' \<or> c = CHR ''E'' then
            (let sg = (case t of g # _ \<Rightarrow> if g = CHR ''+'' \<or> g = CHR ''-'' then [g] else [] | [] \<Rightarrow> []);
                 u = drop (length sg) t
             in if takeWhile is_dec u \<noteq> []
                then (c # sg @ takeWhile is_dec u, dropWhile is_dec u) else ([], s))
          else ([], s)
      | [] \<Rightarrow> ([], s))"

definition scan_number :: "json_hooks \<Rightarrow> string \<Rightarrow> json_error + (json \<times> string)" where
  "scan_number h s =
     (let neg = (case s of c # _ \<Rightarrow> c = CHR ''-'' | [] \<Rightarrow> False);
          t = (if neg then drop 1 s else s);
          ds = (case t of c # _ \<Rightarrow> if c = CHR ''0'' then [c] else takeWhile is_dec t | [] \<Rightarrow> []);
          u = drop (length ds) t;
          (fraction, v) = scan_fraction u;
          (exponent, w) = scan_exponent v
      in if ds = [] then Inl Json_Decode_Error
         else if fraction = [] \<and> exponent = [] then
           (if max_int_digits < length ds then Inl Json_Int_Limit
            else Inr (JInt (if neg then - digits_value ds else digits_value ds), w))
         else ebind (jh_float h ((if neg then ''-'' else []) @ ds @ fraction @ exponent)) (\<lambda>v. Inr (v, w)))"

text \<open>Constants, then numbers: what a value is when it starts with no quote or bracket.\<close>

fun scan_word :: "(string \<times> (json_error + json)) list \<Rightarrow> string \<Rightarrow>
    ((json_error + json) \<times> string) option" where
  "scan_word [] s = None"
| "scan_word ((w, v) # ws) s =
     (if starts_with w s then Some (v, drop (length w) s) else scan_word ws s)"

definition json_words :: "json_hooks \<Rightarrow> (string \<times> (json_error + json)) list" where
  "json_words h = [(''null'', Inr JNull), (''true'', Inr (JBool True)),
     (''false'', Inr (JBool False)), (''NaN'', jh_constant h ''NaN''),
     (''Infinity'', jh_constant h ''Infinity''), (''-Infinity'', jh_constant h ''-Infinity'')]"

definition scan_plain :: "json_hooks \<Rightarrow> string \<Rightarrow> json_error + (json \<times> string)" where
  "scan_plain h s =
     (case scan_word (json_words h) s of
        Some (v, rest) \<Rightarrow> ebind v (\<lambda>v'. Inr (v', rest))
      | None \<Rightarrow> scan_number h s)"

definition expect :: "char \<Rightarrow> string \<Rightarrow> json_error + string" where
  "expect c s = (case s of d # t \<Rightarrow> if d = c then Inr t else Inl Json_Decode_Error
     | [] \<Rightarrow> Inl Json_Decode_Error)"

fun scan_value :: "json_hooks \<Rightarrow> nat \<Rightarrow> string \<Rightarrow> json_error + (json \<times> string)"
  and scan_elements :: "json_hooks \<Rightarrow> nat \<Rightarrow> string \<Rightarrow> json_error + (json list \<times> string)"
  and scan_members :: "json_hooks \<Rightarrow> nat \<Rightarrow> string \<Rightarrow> json_error + ((string \<times> json) list \<times> string)" where
  "scan_value h 0 s = Inl Json_Out_Of_Fuel"
| "scan_value h (Suc n) s =
     (case s of
        [] \<Rightarrow> Inl Json_Decode_Error
      | c # t \<Rightarrow>
          if c = CHR 0x22 then
            ebind (scan_string t) (\<lambda>(r, rest). Inr (JString r, rest))
          else if c = CHR ''{'' then
            (case skip_space t of
               d # u \<Rightarrow> if d = CHR ''}'' then ebind (jh_pairs h []) (\<lambda>v. Inr (v, u))
                 else ebind (scan_members h n (skip_space t)) (\<lambda>(kvs, rest).
                   ebind (jh_pairs h kvs) (\<lambda>v. Inr (v, rest)))
             | [] \<Rightarrow> Inl Json_Decode_Error)
          else if c = CHR ''['' then
            (case skip_space t of
               d # u \<Rightarrow> if d = CHR '']'' then Inr (JList [], u)
                 else ebind (scan_elements h n (skip_space t)) (\<lambda>(vs, rest). Inr (JList vs, rest))
             | [] \<Rightarrow> Inl Json_Decode_Error)
          else scan_plain h s)"
| "scan_elements h 0 s = Inl Json_Out_Of_Fuel"
| "scan_elements h (Suc n) s =
     ebind (scan_value h n s) (\<lambda>(v, rest).
       (case skip_space rest of
          [] \<Rightarrow> Inl Json_Decode_Error
        | d # u \<Rightarrow>
            if d = CHR '']'' then Inr ([v], u)
            else if d = CHR '','' then
              ebind (scan_elements h n (skip_space u)) (\<lambda>(vs, rest'). Inr (v # vs, rest'))
            else Inl Json_Decode_Error))"
| "scan_members h 0 s = Inl Json_Out_Of_Fuel"
| "scan_members h (Suc n) s =
     ebind (expect CHR 0x22 s) (\<lambda>t.
     ebind (scan_string t) (\<lambda>(k, t1).
     ebind (expect CHR '':'' (skip_space t1)) (\<lambda>t2.
     ebind (scan_value h n (skip_space t2)) (\<lambda>(v, rest).
       (case skip_space rest of
          [] \<Rightarrow> Inl Json_Decode_Error
        | d # u \<Rightarrow>
            if d = CHR ''}'' then Inr ([(k, v)], u)
            else if d = CHR '','' then
              ebind (scan_members h n (skip_space u)) (\<lambda>(kvs, rest'). Inr ((k, v) # kvs, rest'))
            else Inl Json_Decode_Error)))))"

definition json_loads_with :: "json_hooks \<Rightarrow> string \<Rightarrow> json_error + json" where
  "json_loads_with h s =
     ebind (scan_value h (Suc (2 * length s)) (skip_space s)) (\<lambda>(v, rest).
       if skip_space rest = [] then Inr v else Inl Json_Decode_Error)"

definition json_loads :: "string \<Rightarrow> json_error + json" where
  "json_loads = json_loads_with default_hooks"

section \<open>The fuel is enough\<close>

text \<open>Hooks that do not pretend to have run out of fuel, as no hook of the source does.\<close>

definition fuel_free :: "json_hooks \<Rightarrow> bool" where
  "fuel_free h \<longleftrightarrow> (\<forall>kvs. jh_pairs h kvs \<noteq> Inl Json_Out_Of_Fuel)
     \<and> (\<forall>w. jh_constant h w \<noteq> Inl Json_Out_Of_Fuel) \<and> (\<forall>w. jh_float h w \<noteq> Inl Json_Out_Of_Fuel)"

lemma fuel_free_default: "fuel_free default_hooks"
  by (simp add: fuel_free_def default_hooks_def)

text \<open>
  \<open>shrinks n r\<close>: the scan has not run out of fuel, and what it leaves is shorter than \<open>n\<close>.
\<close>

definition shrinks :: "nat \<Rightarrow> json_error + ('a \<times> string) \<Rightarrow> bool" where
  "shrinks n r \<longleftrightarrow>
     (case r of Inl e \<Rightarrow> e \<noteq> Json_Out_Of_Fuel | Inr (_, rest) \<Rightarrow> length rest < n)"

lemma shrinks_simps [simp]:
  "shrinks n (Inl e) \<longleftrightarrow> e \<noteq> Json_Out_Of_Fuel"
  "shrinks n (Inr (v, rest)) \<longleftrightarrow> length rest < n"
  by (simp_all add: shrinks_def)

lemma shrinks_Inr: "shrinks n r \<Longrightarrow> r = Inr (v, rest) \<Longrightarrow> length rest < n"
  by simp

lemma shrinks_bind:
  assumes "shrinks m r" "\<And>v rest. r = Inr (v, rest) \<Longrightarrow> length rest < m \<Longrightarrow> shrinks n (f v rest)"
  shows "shrinks n (ebind r (\<lambda>(v, rest). f v rest))"
  using assms by (cases r) auto

lemma shrinks_map:
  assumes "shrinks m r" "m \<le> n"
  shows "shrinks n (ebind r (\<lambda>(v, rest). Inr (f v, rest)))"
  using assms by (intro shrinks_bind) auto

lemma shrinks_skip:
  assumes "\<And>d u. s = d # u \<Longrightarrow> shrinks n (f d u)"
  shows "shrinks n (case s of [] \<Rightarrow> Inl Json_Decode_Error | d # u \<Rightarrow> f d u)"
  using assms by (cases s) auto

lemma length_skip_space: "length (skip_space s) \<le> length s"
  by (simp add: skip_space_def length_dropWhile_le)

lemma skip_space_Cons_less: "skip_space s = c # t \<Longrightarrow> length t < length s"
  using length_skip_space [of s] by simp

lemma scan_string_shrinks: "shrinks (length s) (scan_string s)"
proof (induction s rule: length_induct)
  case (1 s)
  have rec: "shrinks n (ebind (scan_string u) (\<lambda>(r, rest). Inr (f r, rest)))"
    if "length u < length s" "length u \<le> n" for u n f
    using 1 that by (blast intro: shrinks_map)
  show ?case
  proof (cases s)
    case (Cons c t)
    then show ?thesis
      by (simp only: scan_string.simps) (simp add: rec del: scan_string.simps split: list.split option.split)
  qed simp
qed

lemma expect_Inr: "expect c s = Inr t \<longleftrightarrow> s = c # t"
  by (auto simp: expect_def split: list.splits)

lemma shrinks_expect:
  assumes "\<And>t. s = c # t \<Longrightarrow> shrinks n (f t)"
  shows "shrinks n (ebind (expect c s) f)"
  using assms by (cases s) (auto simp: expect_def)

lemma length_dropWhile_bound: "length xs \<le> n \<Longrightarrow> length (dropWhile p xs) \<le> n"
  using length_dropWhile_le le_trans by blast

lemma scan_fraction_shorter: "scan_fraction s = (f, v) \<Longrightarrow> length v \<le> length s"
  by (auto simp: scan_fraction_def length_dropWhile_bound split: list.splits if_splits)

lemma scan_exponent_shorter: "scan_exponent s = (f, v) \<Longrightarrow> length v \<le> length s"
  by (auto simp: scan_exponent_def Let_def length_dropWhile_bound split: list.splits if_splits)

lemma shrinks_hook:
  "m \<noteq> Inl Json_Out_Of_Fuel \<Longrightarrow> length rest < n \<Longrightarrow> shrinks n (ebind m (\<lambda>v. Inr (f v, rest)))"
  by (cases m) auto

lemma scan_number_shrinks:
  assumes "fuel_free h"
  shows "shrinks (length s) (scan_number h s)"
proof -
  define neg where "neg = (case s of c # _ \<Rightarrow> c = CHR ''-'' | [] \<Rightarrow> False)"
  define t where "t = (if neg then drop 1 s else s)"
  define ds where "ds = (case t of c # _ \<Rightarrow> if c = CHR ''0'' then [c] else takeWhile is_dec t | [] \<Rightarrow> [])"
  obtain f u where f: "scan_fraction (drop (length ds) t) = (f, u)" by fastforce
  obtain e w where e: "scan_exponent u = (e, w)" by fastforce
  have len: "length w \<le> length t - length ds"
    using scan_fraction_shorter [OF f] scan_exponent_shorter [OF e] by simp
  have "length w < length s" if ne: "ds \<noteq> []"
  proof -
    have "t \<noteq> []" using ne by (auto simp: ds_def)
    moreover have "length t \<le> length s" by (simp add: t_def)
    ultimately show ?thesis using ne len by (cases ds; cases t) auto
  qed
  then show ?thesis
    unfolding scan_number_def neg_def [symmetric] t_def [symmetric] ds_def [symmetric] Let_def f
    using assms by (auto simp: e fuel_free_def intro!: shrinks_hook [where f = "\<lambda>v. v"])
qed

lemma scan_word_shorter:
  "scan_word ws s = Some (v, rest) \<Longrightarrow> \<forall>(w, _)\<in>set ws. w \<noteq> [] \<Longrightarrow> length rest < length s"
  by (induction ws s rule: scan_word.induct) (auto simp: starts_with_iff split: if_splits)

lemma scan_word_value: "scan_word ws s = Some (v, rest) \<Longrightarrow> v \<in> snd ` set ws"
  by (induction ws s rule: scan_word.induct) (auto split: if_splits)

lemma scan_plain_shrinks:
  assumes h: "fuel_free h"
  shows "shrinks (length s) (scan_plain h s)"
proof (cases "scan_word (json_words h) s")
  case None
  then show ?thesis by (simp add: scan_plain_def scan_number_shrinks h)
next
  case (Some r)
  then obtain v rest where w: "scan_word (json_words h) s = Some (v, rest)" by (cases r) simp
  moreover from this have "length rest < length s"
    by (rule scan_word_shorter) (simp add: json_words_def)
  moreover have "v \<noteq> Inl Json_Out_Of_Fuel"
    using scan_word_value [OF w] h by (auto simp: json_words_def fuel_free_def)
  ultimately show ?thesis
    by (simp add: scan_plain_def shrinks_hook [where f = "\<lambda>v. v"])
qed

lemma scan_shrinks:
  assumes h: "fuel_free h"
  shows "(2 * length s < n \<longrightarrow> shrinks (length s) (scan_value h n s))
   \<and> (2 * length s + 1 < n \<longrightarrow> shrinks (length s) (scan_elements h n s))
   \<and> (2 * length s + 1 < n \<longrightarrow> shrinks (length s) (scan_members h n s))"
proof (induction n arbitrary: s)
  case (Suc n)
  have val: "shrinks (length u) (scan_value h n u)" if "2 * length u < n" for u
    using Suc that by blast
  have els: "shrinks (length u) (scan_elements h n u)" "shrinks (length u) (scan_members h n u)"
    if "2 * length u + 1 < n" for u using Suc that by blast+
  have val_step: "shrinks (length s) (scan_value h (Suc n) s)" if len: "2 * length s < Suc n"
  proof (cases s)
    case (Cons c t)
    have sp: "length (skip_space t) \<le> length t" by (rule length_skip_space)
    with len Cons have fuel: "2 * length (skip_space t) + 1 < n" by simp
    have str: "shrinks (length s) (ebind (scan_string t) (\<lambda>(r, rest). Inr (JString r, rest)))"
      using Cons by (intro shrinks_map [OF scan_string_shrinks]) simp
    have pairs: "shrinks (length s) (ebind (jh_pairs h kvs) (\<lambda>v. Inr (v, rest)))"
      if "length rest < length s" for kvs rest
      using h that by (intro shrinks_hook [where f = "\<lambda>v. v"]) (simp_all add: fuel_free_def)
    have obj: "shrinks (length s) (ebind (scan_members h n (skip_space t))
        (\<lambda>(kvs, rest). ebind (jh_pairs h kvs) (\<lambda>v. Inr (v, rest))))"
      using Cons sp by (intro shrinks_bind [OF els(2) [OF fuel]] pairs) simp
    have arr: "shrinks (length s) (ebind (scan_elements h n (skip_space t))
        (\<lambda>(vs, rest). Inr (JList vs, rest)))"
      using Cons sp by (intro shrinks_map [OF els(1) [OF fuel]]) simp
    have brackets: "shrinks (length s) (case skip_space t of [] \<Rightarrow> Inl Json_Decode_Error
        | d # u \<Rightarrow> if d = z then f u else rest)"
      if "shrinks (length s) rest" "\<And>u. length u < length s \<Longrightarrow> shrinks (length s) (f u)"
      for z f and rest :: "json_error + (json \<times> string)"
      using that skip_space_Cons_less [of t] Cons by (auto split: list.split)
    show ?thesis
      using str scan_plain_shrinks [OF h, of s] brackets [OF obj pairs] brackets [OF arr]
      by (simp add: Cons)
  qed simp
  have after: "shrinks m (case skip_space r of [] \<Rightarrow> Inl Json_Decode_Error
      | d # u \<Rightarrow> if d = z then Inr (w, u)
          else if d = CHR '','' then more u else Inl Json_Decode_Error)"
    if "length r < m" "\<And>u. length u < length r \<Longrightarrow> shrinks m (more u)" for r m z w
      and more :: "string \<Rightarrow> json_error + ('b \<times> string)"
    using that skip_space_Cons_less [of r] by (auto split: list.split dest: order_less_trans)
  have elements: "shrinks (length s) (scan_elements h (Suc n) s)" if len: "2 * length s + 1 < Suc n"
    unfolding scan_elements.simps
  proof (rule shrinks_bind [OF val], goal_cases)
    case (2 v rest)
    have "shrinks (length s) (ebind (scan_elements h n (skip_space u)) (\<lambda>(vs, rest'). Inr (v # vs, rest')))"
      if "length u < length rest" for u
      by (rule shrinks_map [OF els(1)]) (use that 2 len length_skip_space [of u] in auto)
    with 2 show ?case by (intro after)
  qed (use len in simp)
  have members: "shrinks (length s) (scan_members h (Suc n) s)" if len: "2 * length s + 1 < Suc n"
    unfolding scan_members.simps
  proof (rule shrinks_expect, rule shrinks_bind [OF scan_string_shrinks], rule shrinks_expect,
      rule shrinks_bind [OF val], goal_cases)
    case (1 t k t1 t2)
    then show ?case using skip_space_Cons_less [of t1] length_skip_space [of t2] len by simp
  next
    case (2 t k t1 t2 v rest)
    have lt: "length rest < length s"
      using 2 skip_space_Cons_less [of t1] length_skip_space [of t2] by simp
    have "shrinks (length s) (ebind (scan_members h n (skip_space u))
        (\<lambda>(kvs, rest'). Inr ((k, v) # kvs, rest')))" if "length u < length rest" for u
      by (rule shrinks_map [OF els(2)]) (use that lt len length_skip_space [of u] in auto)
    with lt show ?case by (intro after)
  qed
  from val_step elements members show ?case by blast
qed simp

lemma json_loads_with_fuel:
  assumes "fuel_free h"
  shows "json_loads_with h s \<noteq> Inl Json_Out_Of_Fuel"
proof -
  have "2 * length (skip_space s) < Suc (2 * length s)" using length_skip_space [of s] by simp
  then have "shrinks (length (skip_space s)) (scan_value h (Suc (2 * length s)) (skip_space s))"
    using scan_shrinks [OF assms] by blast
  then have "scan_value h (Suc (2 * length s)) (skip_space s) \<noteq> Inl Json_Out_Of_Fuel"
    by (auto simp: shrinks_def)
  then show ?thesis
    unfolding json_loads_with_def by (auto simp: ebind_eq_Inl split: if_splits prod.splits)
qed

lemma json_loads_fuel: "json_loads s \<noteq> Inl Json_Out_Of_Fuel"
  by (simp add: json_loads_def json_loads_with_fuel fuel_free_default)

section \<open>Errors of the reader\<close>

text \<open>
  The callers turn a \<open>JSONDecodeError\<close> into a \<open>MalformedProtocolMessage\<close>; the \<open>ValueError\<close> of a
  too long integer is none and goes on. A text outside of the model is marked as such.
\<close>

definition loads_checked :: "string \<Rightarrow> py_exc + json" where
  "loads_checked s =
     (case json_loads s of
        Inl Json_Decode_Error \<Rightarrow> Inl MalformedProtocolMessage
      | Inl Json_Int_Limit \<Rightarrow> Inl ValueError
      | Inl Json_Hook_Error \<Rightarrow> Inl ValueError
      | Inl Json_Beyond_Latin1 \<Rightarrow> Inl (RuntimeError ''text outside the model'')
      | Inl Json_Out_Of_Fuel \<Rightarrow> Inl (RuntimeError ''out of fuel'')
      | Inr v \<Rightarrow> Inr v)"

lemma loads_checked_Inr: "loads_checked s = Inr v \<longleftrightarrow> json_loads s = Inr v"
  by (auto simp: loads_checked_def split: sum.split json_error.split)

lemma loads_checked_Inl:
  "loads_checked s = Inl e \<Longrightarrow>
   e \<in> {MalformedProtocolMessage, ValueError, RuntimeError ''text outside the model''}"
  using json_loads_fuel [of s] by (auto simp: loads_checked_def split: sum.splits json_error.splits)

end
