(* ===== verification/Battle_State.thy ===== *)
theory Battle_State
  imports Errors Py_Strings
begin

text \<open>
  The immutable observation state of \<open>battlebelief_core/domain/state\<close>: values, the view of
  one Pokemon, of one side and of the whole battle. Each frozen dataclass is a record
  (\<open>dataclasses.replace\<close> is a record update) and each check of a \<open>__post_init__\<close> is a
  constructor function that can fail.
\<close>

section \<open>Values (\<open>values.py\<close>, \<open>events/evidence.py\<close>)\<close>

datatype hp_precision = Exact | Percent | Pixel

instantiation hp_precision :: enum
begin

definition "enum_hp_precision = [Exact, Percent, Pixel]"
definition "enum_all_hp_precision P \<longleftrightarrow> P Exact \<and> P Percent \<and> P Pixel"
definition "enum_ex_hp_precision P \<longleftrightarrow> P Exact \<or> P Percent \<or> P Pixel"

instance
  by standard
    (auto simp: enum_hp_precision_def enum_all_hp_precision_def enum_ex_hp_precision_def
      intro: hp_precision.exhaust, (metis hp_precision.exhaust)+)

end

definition precision_value :: "hp_precision \<Rightarrow> string" where
  "precision_value p = (case p of Exact \<Rightarrow> ''exact'' | Percent \<Rightarrow> ''percent'' | Pixel \<Rightarrow> ''pixel'')"

record hp_observation =
  hp_current :: int
  hp_maximum :: int
  hp_precision :: hp_precision
  hp_fainted :: bool

definition make_hp :: "int \<Rightarrow> int \<Rightarrow> hp_precision \<Rightarrow> bool \<Rightarrow> py_exc + hp_observation" where
  "make_hp current maximum precision fainted =
     (if maximum \<le> 0 \<or> current < 0 \<or> current > maximum then Inl ValueError
      else if fainted \<and> current \<noteq> 0 then Inl ValueError
      else Inr \<lparr>hp_current = current, hp_maximum = maximum, hp_precision = precision,
                hp_fainted = fainted\<rparr>)"

definition wf_hp :: "hp_observation \<Rightarrow> bool" where
  "wf_hp h \<longleftrightarrow> 0 < hp_maximum h \<and> 0 \<le> hp_current h \<and> hp_current h \<le> hp_maximum h
     \<and> (hp_fainted h \<longrightarrow> hp_current h = 0)"

lemma make_hp_eq_Inr [result_simps]:
  "make_hp c m p f = Inr h \<longleftrightarrow>
     h = \<lparr>hp_current = c, hp_maximum = m, hp_precision = p, hp_fainted = f\<rparr> \<and> wf_hp h"
  by (auto simp: make_hp_def wf_hp_def)

record hp_token =
  tok_current :: int
  tok_maximum :: int
  tok_status :: "string option"
  tok_fainted :: bool

record evidence_interval =
  iv_value :: "string option"
  iv_source :: int
  iv_from :: int
  iv_until :: "int option"

record effect_counter =
  ec_effect_id :: string
  ec_count :: int

record preview_pokemon =
  pp_details :: string
  pp_has_item :: bool

record visible_evidence =
  ve_index :: int
  ve_kind :: string
  ve_side_id :: "string option"
  ve_slot :: "int option"
  ve_nickname :: "string option"
  ve_effect :: "string option"
  ve_annotations :: "string list"

section \<open>One Pokemon (\<open>pokemon_view.py\<close>)\<close>

definition boost_stats :: "string list" where
  "boost_stats = [''atk'', ''def'', ''spa'', ''spd'', ''spe'', ''acc'', ''eva'']"

definition zero_boosts :: "int list" where
  "zero_boosts = [0, 0, 0, 0, 0, 0, 0]"

text \<open>Drops the parts of a details string that start with \<open>tera:\<close>.\<close>

definition normalize_identity_details :: "string \<Rightarrow> string" where
  "normalize_identity_details details =
     join_with '', '' (filter (\<lambda>p. \<not> starts_with ''tera:'' p) (split_str '', '' details))"

record pokemon_view =
  pv_side_id :: string
  pv_nickname :: string
  pv_identity_intervals :: "evidence_interval list"
  pv_preview_details :: "string option"
  pv_switch_identity :: string
  pv_current_details :: "string option"
  pv_active :: bool
  pv_hp :: "hp_observation option"
  pv_status :: "string option"
  pv_fainted :: bool
  pv_revealed_moves :: "string list"
  pv_item_intervals :: "evidence_interval list"
  pv_ability_intervals :: "evidence_interval list"
  pv_tera_type :: "string option"
  pv_boosts :: "int list"
  pv_volatiles :: "string list"
  pv_recharging :: bool
  pv_transform_target :: "string option"

definition new_pokemon_view :: "string \<Rightarrow> string \<Rightarrow> string option \<Rightarrow> pokemon_view" where
  "new_pokemon_view side_id nickname details =
     \<lparr>pv_side_id = side_id,
      pv_nickname = nickname,
      pv_identity_intervals = [],
      pv_preview_details = None,
      pv_switch_identity =
        (case details of Some d \<Rightarrow> if d \<noteq> [] then normalize_identity_details d else []
                       | None \<Rightarrow> []),
      pv_current_details = details,
      pv_active = False,
      pv_hp = None,
      pv_status = None,
      pv_fainted = False,
      pv_revealed_moves = [],
      pv_item_intervals = [],
      pv_ability_intervals = [],
      pv_tera_type = None,
      pv_boosts = zero_boosts,
      pv_volatiles = [],
      pv_recharging = False,
      pv_transform_target = None\<rparr>"

section \<open>One side and the battle (\<open>side_view.py\<close>, \<open>observed_state.py\<close>)\<close>

record side_view =
  sv_side_id :: string
  sv_user_id :: "string option"
  sv_display_name :: "string option"
  sv_team_size :: "int option"
  sv_preview_roster :: "preview_pokemon list"
  sv_active_slot :: "int option"
  sv_pokemon :: "pokemon_view list"
  sv_side_conditions :: "(string \<times> int) list"

definition empty_side :: "string \<Rightarrow> side_view" where
  "empty_side side_id =
     \<lparr>sv_side_id = side_id, sv_user_id = None, sv_display_name = None, sv_team_size = None,
      sv_preview_roster = [], sv_active_slot = None, sv_pokemon = [], sv_side_conditions = []\<rparr>"

record observed_state =
  os_our_user_id :: string
  os_event_index :: int
  os_room_initialized :: bool
  os_generation :: "int option"
  os_game_type :: "string option"
  os_tier :: "string option"
  os_rated :: "bool option"
  os_rules :: "string list"
  os_turn :: int
  os_battle_started :: bool
  os_team_preview_started :: bool
  os_winner :: "string option"
  os_tied :: bool
  os_our_side :: "string option"
  os_p1 :: side_view
  os_p2 :: side_view
  os_weather :: "string option"
  os_field_conditions :: "string list"
  os_visible_evidence :: "visible_evidence list"
  os_ignored_display_count :: int

definition initial_state :: "string \<Rightarrow> observed_state" where
  "initial_state our_user_id =
     \<lparr>os_our_user_id = our_user_id,
      os_event_index = -1,
      os_room_initialized = False,
      os_generation = None,
      os_game_type = None,
      os_tier = None,
      os_rated = None,
      os_rules = [],
      os_turn = 0,
      os_battle_started = False,
      os_team_preview_started = False,
      os_winner = None,
      os_tied = False,
      os_our_side = None,
      os_p1 = empty_side ''p1'',
      os_p2 = empty_side ''p2'',
      os_weather = None,
      os_field_conditions = [],
      os_visible_evidence = [],
      os_ignored_display_count = 0\<rparr>"

definition side :: "observed_state \<Rightarrow> string \<Rightarrow> py_exc + side_view" where
  "side st side_id =
     (if side_id = ''p1'' then Inr (os_p1 st)
      else if side_id = ''p2'' then Inr (os_p2 st)
      else Inl ReducerInvariantError)"

lemma side_eq_Inr [result_simps]:
  "side st i = Inr s \<longleftrightarrow> i = ''p1'' \<and> s = os_p1 st \<or> i = ''p2'' \<and> s = os_p2 st"
  by (auto simp: side_def)

end
