(* ===== verification/Actions.thy ===== *)
theory Actions
  imports Battle_State
begin

text \<open>
  Actions and their safety: \<open>domain/actions\<close> (submissions, request identities, decision
  requests), \<open>application/decision/heuristic_policy.py\<close>, \<open>application/safety/action_gate.py\<close>
  and the wire encoding of \<open>adapters/showdown_protocol/command_encoder.py\<close>.
  The locale \<open>decision_policy\<close> is the contract of the protocol class \<open>DecisionPolicy\<close>; the
  heuristic policy interprets it.
\<close>

section \<open>Submissions\<close>

datatype action_kind = Move | Switch | Revive | Team | Default

datatype action_provenance = Explicit_Request | Server_Default

definition action_kind_value :: "action_kind \<Rightarrow> string" where
  "action_kind_value k = (case k of Move \<Rightarrow> ''move'' | Switch \<Rightarrow> ''switch'' | Revive \<Rightarrow> ''revive''
     | Team \<Rightarrow> ''team'' | Default \<Rightarrow> ''default'')"

definition provenance_value :: "action_provenance \<Rightarrow> string" where
  "provenance_value p = (case p of Explicit_Request \<Rightarrow> ''explicit_request''
     | Server_Default \<Rightarrow> ''server_default'')"

record request_identity =
  ri_room_id :: string
  ri_rqid :: int
  ri_request_digest :: string

record battle_submission =
  bs_kind :: action_kind
  bs_provenance :: action_provenance
  bs_slot :: "int option"
  bs_move_id :: "string option"
  bs_terastallize :: bool
  bs_team_order :: "int list"

text \<open>The regular expression \<open>[a-z0-9]{1,100}\<close>, matched against the whole text.\<close>

definition is_move_id :: "string \<Rightarrow> bool" where
  "is_move_id s \<longleftrightarrow> 1 \<le> length s \<and> length s \<le> 100
     \<and> list_all (\<lambda>c. (97 \<le> code c \<and> code c \<le> 122) \<or> (48 \<le> code c \<and> code c \<le> 57)) s"

definition slot_in :: "int \<Rightarrow> int option \<Rightarrow> bool" where
  "slot_in hi slot \<longleftrightarrow> (case slot of None \<Rightarrow> False | Some k \<Rightarrow> 1 \<le> k \<and> k \<le> hi)"

text \<open>
  The checks of \<open>BattleSubmission.__post_init__\<close> in order; every failure is a
  \<open>ValueError\<close>. The checks of Python types hold by the types of the fields.
\<close>

definition post_init :: "battle_submission \<Rightarrow> py_exc + unit" where
  "post_init b =
     ebind (raise_if (bs_move_id b \<noteq> None \<and> \<not> is_move_id (the (bs_move_id b))) ValueError) (\<lambda>_.
     (case bs_kind b of
        Move \<Rightarrow>
          ebind (raise_if (\<not> slot_in 4 (bs_slot b)) ValueError) (\<lambda>_.
          ebind (raise_if (bs_move_id b = None \<or> bs_move_id b = Some []) ValueError) (\<lambda>_.
          ebind (raise_if (bs_team_order b \<noteq> []) ValueError) (\<lambda>_.
          raise_if (bs_provenance b \<noteq> Explicit_Request) ValueError)))
      | Switch \<Rightarrow>
          ebind (raise_if (\<not> slot_in 6 (bs_slot b)) ValueError) (\<lambda>_.
          ebind (raise_if (bs_terastallize b) ValueError) (\<lambda>_.
          ebind (raise_if (bs_move_id b \<noteq> None) ValueError) (\<lambda>_.
          ebind (raise_if (bs_team_order b \<noteq> []) ValueError) (\<lambda>_.
          raise_if (bs_provenance b \<noteq> Explicit_Request) ValueError))))
      | Revive \<Rightarrow>
          ebind (raise_if (\<not> slot_in 6 (bs_slot b)) ValueError) (\<lambda>_.
          ebind (raise_if (bs_terastallize b) ValueError) (\<lambda>_.
          ebind (raise_if (bs_move_id b \<noteq> None) ValueError) (\<lambda>_.
          ebind (raise_if (bs_team_order b \<noteq> []) ValueError) (\<lambda>_.
          raise_if (bs_provenance b \<noteq> Explicit_Request) ValueError))))
      | Team \<Rightarrow>
          ebind (raise_if (bs_team_order b = []) ValueError) (\<lambda>_.
          ebind (raise_if (\<not> distinct (bs_team_order b)
              \<or> \<not> list_all (\<lambda>k. 1 \<le> k \<and> k \<le> 6) (bs_team_order b)) ValueError) (\<lambda>_.
          ebind (raise_if (bs_slot b \<noteq> None) ValueError) (\<lambda>_.
          ebind (raise_if (bs_terastallize b) ValueError) (\<lambda>_.
          ebind (raise_if (bs_move_id b \<noteq> None) ValueError) (\<lambda>_.
          raise_if (bs_provenance b \<noteq> Explicit_Request) ValueError)))))
      | Default \<Rightarrow>
          ebind (raise_if (bs_provenance b \<noteq> Server_Default) ValueError) (\<lambda>_.
          ebind (raise_if (bs_slot b \<noteq> None) ValueError) (\<lambda>_.
          ebind (raise_if (bs_move_id b \<noteq> None) ValueError) (\<lambda>_.
          ebind (raise_if (bs_terastallize b) ValueError) (\<lambda>_.
          raise_if (bs_team_order b \<noteq> []) ValueError))))))"

definition make_submission ::
    "action_kind \<Rightarrow> action_provenance \<Rightarrow> int option \<Rightarrow> string option \<Rightarrow> bool \<Rightarrow> int list
     \<Rightarrow> py_exc + battle_submission" where
  "make_submission kind provenance slot move_id tera team_order =
     (let b = \<lparr>bs_kind = kind, bs_provenance = provenance, bs_slot = slot, bs_move_id = move_id,
               bs_terastallize = tera, bs_team_order = team_order\<rparr>
      in ebind (post_init b) (\<lambda>_. Inr b))"

record safe_submission_set =
  ss_request_identity :: request_identity
  ss_submissions :: "battle_submission list"

definition contains_submission :: "safe_submission_set \<Rightarrow> battle_submission \<Rightarrow> bool" where
  "contains_submission latest submission \<longleftrightarrow> submission \<in> set (ss_submissions latest)"

datatype request_kind = Move_Request | Forced_Switch | Revival | Team_Preview | Wait

record decision_request =
  dr_identity :: request_identity
  dr_kind :: request_kind
  dr_side_id :: string
  dr_team_member_count :: int
  dr_active_identity :: "string option"
  dr_safe_submissions :: safe_submission_set
  dr_is_update :: bool

text \<open>What a constructed submission satisfies, kind by kind.\<close>

definition valid_submission :: "battle_submission \<Rightarrow> bool" where
  "valid_submission b \<longleftrightarrow>
     (case bs_kind b of
        Move \<Rightarrow> slot_in 4 (bs_slot b) \<and> (\<exists>m. bs_move_id b = Some m \<and> is_move_id m)
          \<and> bs_team_order b = [] \<and> bs_provenance b = Explicit_Request
      | Switch \<Rightarrow> slot_in 6 (bs_slot b) \<and> \<not> bs_terastallize b \<and> bs_move_id b = None
          \<and> bs_team_order b = [] \<and> bs_provenance b = Explicit_Request
      | Revive \<Rightarrow> slot_in 6 (bs_slot b) \<and> \<not> bs_terastallize b \<and> bs_move_id b = None
          \<and> bs_team_order b = [] \<and> bs_provenance b = Explicit_Request
      | Team \<Rightarrow> bs_team_order b \<noteq> [] \<and> distinct (bs_team_order b)
          \<and> (\<forall>k\<in>set (bs_team_order b). 1 \<le> k \<and> k \<le> 6) \<and> bs_slot b = None
          \<and> \<not> bs_terastallize b \<and> bs_move_id b = None \<and> bs_provenance b = Explicit_Request
      | Default \<Rightarrow> bs_provenance b = Server_Default \<and> bs_slot b = None \<and> bs_move_id b = None
          \<and> \<not> bs_terastallize b \<and> bs_team_order b = [])"

lemma post_init_iff: "post_init b = Inr u \<longleftrightarrow> valid_submission b"
  by (cases "bs_kind b")
    (auto simp: post_init_def valid_submission_def result_simps list_all_iff is_move_id_def)

lemma post_init_error: "post_init b = Inl e \<Longrightarrow> e = ValueError"
  by (cases "bs_kind b") (auto simp: post_init_def result_simps)

lemma make_submission_Inr:
  "make_submission k p sl m t o' = Inr b \<longleftrightarrow>
     b = \<lparr>bs_kind = k, bs_provenance = p, bs_slot = sl, bs_move_id = m, bs_terastallize = t,
          bs_team_order = o'\<rparr> \<and> valid_submission b"
  by (auto simp: make_submission_def Let_def result_simps post_init_iff)

lemma valid_provenance:
  "valid_submission b \<Longrightarrow> bs_provenance b = Server_Default \<longleftrightarrow> bs_kind b = Default"
  by (auto simp: valid_submission_def split: action_kind.splits)

section \<open>The heuristic policy\<close>

definition priority :: "battle_submission \<Rightarrow> nat" where
  "priority sub =
     (if bs_kind sub = Move \<and> \<not> bs_terastallize sub then 0
      else if bs_kind sub = Revive then 1
      else if bs_kind sub = Switch then 2
      else if bs_kind sub = Team then 3
      else if bs_kind sub = Move \<and> bs_terastallize sub then 4
      else 5)"

text \<open>Python's \<open>min(xs, key=f)\<close>: the first of the elements with the least key.\<close>

fun min_by :: "('a \<Rightarrow> nat) \<Rightarrow> 'a \<Rightarrow> 'a list \<Rightarrow> 'a" where
  "min_by f best [] = best"
| "min_by f best (x # xs) = (if f x < f best then min_by f x xs else min_by f best xs)"

definition heuristic_select :: "decision_request \<Rightarrow> py_exc + battle_submission" where
  "heuristic_select request =
     (case ss_submissions (dr_safe_submissions request) of
        [] \<Rightarrow> Inl NoLegalActionError
      | x # xs \<Rightarrow> Inr (min_by priority x xs))"

lemma min_by_in: "min_by f b xs \<in> set (b # xs)"
proof (induction xs arbitrary: b)
  case (Cons x xs)
  from Cons [of x] Cons [of b] show ?case by auto
qed simp

lemma min_by_least: "x \<in> set (b # xs) \<Longrightarrow> f (min_by f b xs) \<le> f x"
proof (induction xs arbitrary: b x)
  case (Cons y ys)
  have "f (min_by f y ys) \<le> f y" "f (min_by f b ys) \<le> f b"
    and "\<forall>z\<in>set ys. f (min_by f y ys) \<le> f z \<and> f (min_by f b ys) \<le> f z"
    using Cons.IH by simp_all
  with Cons.prems show ?case by auto
qed simp

text \<open>Ties go to the earliest element: everything before the choice has a larger key.\<close>

lemma min_by_first:
  "\<exists>ys zs. b # xs = ys @ min_by f b xs # zs \<and> (\<forall>y\<in>set ys. f (min_by f b xs) < f y)"
proof (induction xs arbitrary: b)
  case Nil
  show ?case by (rule exI [of _ "[]"]) simp
next
  case (Cons x xs)
  show ?case
  proof (cases "f x < f b")
    case True
    from Cons [of x] obtain ys zs where yz: "x # xs = ys @ min_by f x xs # zs"
      "\<forall>y\<in>set ys. f (min_by f x xs) < f y" by blast
    have "f (min_by f x xs) < f b"
      using min_by_least [of x x xs f] True by simp
    with yz(2) have below: "\<forall>y\<in>set (b # ys). f (min_by f x xs) < f y" by simp
    have eq: "min_by f b (x # xs) = min_by f x xs" using True by simp
    have "b # x # xs = (b # ys) @ min_by f x xs # zs" using yz(1) by simp
    with below show ?thesis unfolding eq by blast
  next
    case False
    from Cons [of b] obtain ys zs where yz: "b # xs = ys @ min_by f b xs # zs"
      "\<forall>y\<in>set ys. f (min_by f b xs) < f y" by blast
    show ?thesis
    proof (cases ys)
      case Nil
      with yz(1) have m: "min_by f b xs = b" by (metis append_Nil list.inject)
      have eq: "min_by f b (x # xs) = b" using False m by simp
      have "b # x # xs = [] @ b # x # xs" by simp
      then show ?thesis unfolding eq by (metis empty_iff empty_set)
    next
      case (Cons y ys')
      with yz have "y = b" "f (min_by f b xs) < f b" "xs = ys' @ min_by f b xs # zs"
        by auto
      with yz(2) Cons False have below: "\<forall>y\<in>set (b # x # ys'). f (min_by f b xs) < f y" by auto
      have eq: "min_by f b (x # xs) = min_by f b xs" using False by simp
      have "b # x # xs = (b # x # ys') @ min_by f b xs # zs"
        using \<open>xs = ys' @ min_by f b xs # zs\<close> by simp
      with below show ?thesis unfolding eq by blast
    qed
  qed
qed

section \<open>The action gate\<close>

definition authorize ::
    "battle_submission \<Rightarrow> request_identity \<Rightarrow> safe_submission_set \<Rightarrow> py_exc + battle_submission" where
  "authorize candidate candidate_request latest =
     (if candidate_request \<noteq> ss_request_identity latest then Inl StaleRequestIdentity
      else if \<not> contains_submission latest candidate then Inl LocalActionGateRejection
      else Inr candidate)"

lemma authorize_eq_Inr:
  "authorize c i latest = Inr b \<longleftrightarrow>
     b = c \<and> i = ss_request_identity latest \<and> c \<in> set (ss_submissions latest)"
  by (auto simp: authorize_def contains_submission_def)

section \<open>Policies\<close>

text \<open>
  A policy answers with a member of the request's safe set, or refuses because the set
  is empty. The gate then authorizes every answer to a request that carries its own identity.
\<close>

locale decision_policy =
  fixes select :: "decision_request \<Rightarrow> py_exc + battle_submission"
  assumes select_member:
      "select r = Inr b \<Longrightarrow> b \<in> set (ss_submissions (dr_safe_submissions r))"
    and select_refuses: "select r = Inl e \<Longrightarrow> e = NoLegalActionError"
    and select_total: "ss_submissions (dr_safe_submissions r) \<noteq> [] \<Longrightarrow> \<exists>b. select r = Inr b"
begin

lemma gate_accepts:
  "dr_identity r = ss_request_identity (dr_safe_submissions r) \<Longrightarrow> select r = Inr b \<Longrightarrow>
   authorize b (dr_identity r) (dr_safe_submissions r) = Inr b"
  using select_member by (simp add: authorize_eq_Inr)

lemma refuses_only_empty: "select r = Inl e \<Longrightarrow> ss_submissions (dr_safe_submissions r) = []"
  using select_total by fastforce

lemma selected_valid:
  "\<forall>b\<in>set (ss_submissions (dr_safe_submissions r)). valid_submission b \<Longrightarrow> select r = Inr b \<Longrightarrow>
   valid_submission b"
  using select_member by blast

end

lemma heuristic_select_Inr:
  "heuristic_select r = Inr b \<longleftrightarrow> (\<exists>x xs. ss_submissions (dr_safe_submissions r) = x # xs
     \<and> b = min_by priority x xs)"
  by (auto simp: heuristic_select_def split: list.splits)

interpretation heuristic: decision_policy heuristic_select
proof
  fix r b e
  show "b \<in> set (ss_submissions (dr_safe_submissions r))" if "heuristic_select r = Inr b"
    using that min_by_in by (fastforce simp: heuristic_select_Inr)
  show "e = NoLegalActionError" if "heuristic_select r = Inl e"
    using that by (simp add: heuristic_select_def split: list.splits)
  show "\<exists>b. heuristic_select r = Inr b" if "ss_submissions (dr_safe_submissions r) \<noteq> []"
    using that by (auto simp: heuristic_select_def split: list.splits)
qed

section \<open>The command encoder\<close>

text \<open>
  A constructed submission always has the fields its kind needs; Python would print a
  missing slot as \<open>None\<close>.
\<close>

definition show_slot :: "int option \<Rightarrow> string" where
  "show_slot slot = (case slot of None \<Rightarrow> ''None'' | Some k \<Rightarrow> show_int k)"

definition encode_submission :: "battle_submission \<Rightarrow> string" where
  "encode_submission b =
     (if bs_kind b = Default then ''default''
      else if bs_kind b = Move then
        (let base = ''move '' @ show_slot (bs_slot b)
         in if bs_terastallize b then base @ '' terastallize'' else base)
      else if bs_kind b \<in> {Switch, Revive} then ''switch '' @ show_slot (bs_slot b)
      else ''team '' @ concat (map show_int (bs_team_order b)))"

end
