(* ===== verification/Public_Projection.thy ===== *)
theory Public_Projection
  imports Json Actions Battle_State
begin

text \<open>
  \<open>domain/records/public_projection.py\<close> and \<open>canonicalization.py\<close>: which part of a request,
  a submission and an observation a decision record may show. A projection is a \<open>json\<close>
  value; \<open>_freeze\<close> and \<open>_thaw\<close>, which only change the Python container types, are the
  identity here. The canonical form of RFC 8785 is a third-party package and SHA-256 a digest,
  so \<open>manifest_digest\<close> is an argument, called \<open>manifest\<close>; it may raise.
  \<open>project_anonymous\<close> shows that names, user-chosen texts and internal keys do not reach
  the projection.
\<close>

type_synonym digest_fn = "json \<Rightarrow> py_exc + string"

definition max_safe_integer :: int where
  "max_safe_integer = 9007199254740991"

text \<open>The regular expression \<open>sha256:[0-9a-f]{64}\<close>, on the whole text.\<close>

definition is_hex_lower :: "char \<Rightarrow> bool" where
  "is_hex_lower c \<longleftrightarrow> is_dec c \<or> (97 \<le> code c \<and> code c \<le> 102)"

definition is_digest_text :: "string \<Rightarrow> bool" where
  "is_digest_text s \<longleftrightarrow> starts_with ''sha256:'' s \<and> length s = 71
     \<and> list_all is_hex_lower (drop 7 s)"

record public_request_identity =
  pi_rqid :: int
  pi_request_digest :: string

definition make_public_identity :: "int \<Rightarrow> string \<Rightarrow> py_exc + public_request_identity" where
  "make_public_identity rqid digest =
     ebind (raise_if (\<not> (0 \<le> rqid \<and> rqid \<le> max_safe_integer)) ValueError) (\<lambda>_.
     ebind (raise_if (\<not> is_digest_text digest) ValueError) (\<lambda>_.
       Inr \<lparr>pi_rqid = rqid, pi_request_digest = digest\<rparr>))"

definition from_internal :: "request_identity \<Rightarrow> py_exc + public_request_identity" where
  "from_internal ident = make_public_identity (ri_rqid ident) (ri_request_digest ident)"

definition project_public_identity :: "public_request_identity \<Rightarrow> json" where
  "project_public_identity p =
     JObject [(''rqid'', JInt (pi_rqid p)), (''request_digest'', JString (pi_request_digest p))]"

definition project_request_identity :: "request_identity \<Rightarrow> py_exc + json" where
  "project_request_identity ident = ebind (from_internal ident) (\<lambda>p. Inr (project_public_identity p))"

definition request_identity_digest :: "digest_fn \<Rightarrow> request_identity \<Rightarrow> py_exc + string" where
  "request_identity_digest manifest ident = ebind (project_request_identity ident) manifest"

definition json_opt :: "('a \<Rightarrow> json) \<Rightarrow> 'a option \<Rightarrow> json" where
  "json_opt f v = (case v of None \<Rightarrow> JNull | Some x \<Rightarrow> f x)"

definition project_battle_submission :: "battle_submission \<Rightarrow> json" where
  "project_battle_submission b =
     JObject [(''kind'', JString (action_kind_value (bs_kind b))),
       (''provenance'', JString (provenance_value (bs_provenance b))),
       (''slot'', json_opt JInt (bs_slot b)),
       (''move_id'', json_opt JString (bs_move_id b)),
       (''terastallize'', JBool (bs_terastallize b)),
       (''team_order'', JList (map JInt (bs_team_order b)))]"

definition battle_submission_digest :: "digest_fn \<Rightarrow> battle_submission \<Rightarrow> py_exc + string" where
  "battle_submission_digest manifest b = manifest (project_battle_submission b)"

definition project_safe_submission_set :: "safe_submission_set \<Rightarrow> py_exc + json" where
  "project_safe_submission_set s =
     ebind (project_request_identity (ss_request_identity s)) (\<lambda>ident.
       Inr (JObject [(''request_identity'', ident),
         (''submissions'', JList (map project_battle_submission (ss_submissions s)))]))"

definition safe_submission_set_digest :: "digest_fn \<Rightarrow> safe_submission_set \<Rightarrow> py_exc + string" where
  "safe_submission_set_digest manifest s = ebind (project_safe_submission_set s) manifest"

section \<open>The observation\<close>

definition project_interval :: "evidence_interval \<Rightarrow> json" where
  "project_interval iv =
     JObject [(''value'', json_opt JString (iv_value iv)),
       (''source_event_index'', JInt (iv_source iv)),
       (''valid_from'', JInt (iv_from iv)),
       (''valid_until'', json_opt JInt (iv_until iv))]"

definition project_hp :: "hp_observation option \<Rightarrow> json" where
  "project_hp h = json_opt (\<lambda>hp.
     JObject [(''current'', JInt (hp_current hp)), (''maximum'', JInt (hp_maximum hp)),
       (''precision'', JString (precision_value (hp_precision hp))),
       (''fainted'', JBool (hp_fainted hp))]) h"

definition project_preview :: "preview_pokemon \<Rightarrow> json" where
  "project_preview p =
     JObject [(''details'', JString (pp_details p)), (''has_item'', JBool (pp_has_item p))]"

definition project_pokemon :: "pokemon_view \<Rightarrow> json" where
  "project_pokemon pv =
     JObject [(''identity_intervals'', JList (map project_interval (pv_identity_intervals pv))),
       (''preview_details'', json_opt JString (pv_preview_details pv)),
       (''current_details'', json_opt JString (pv_current_details pv)),
       (''active'', JBool (pv_active pv)),
       (''hp'', project_hp (pv_hp pv)),
       (''status'', json_opt JString (pv_status pv)),
       (''fainted'', JBool (pv_fainted pv)),
       (''revealed_moves'', JList (map JString (pv_revealed_moves pv))),
       (''item_intervals'', JList (map project_interval (pv_item_intervals pv))),
       (''ability_intervals'', JList (map project_interval (pv_ability_intervals pv))),
       (''tera_type'', json_opt JString (pv_tera_type pv)),
       (''boosts'', JList (map JInt (pv_boosts pv))),
       (''volatiles'', JList (map JString (pv_volatiles pv))),
       (''recharging'', JBool (pv_recharging pv)),
       (''transformed'', JBool (pv_transform_target pv \<noteq> None))]"

definition project_side :: "side_view \<Rightarrow> json" where
  "project_side s =
     JObject [(''side_id'', JString (sv_side_id s)),
       (''team_size'', json_opt JInt (sv_team_size s)),
       (''preview_roster'', JList (map project_preview (sv_preview_roster s))),
       (''active_slot'', json_opt JInt (sv_active_slot s)),
       (''pokemon'', JList (map project_pokemon (sv_pokemon s))),
       (''side_conditions'', JList (map (\<lambda>(c, n).
          JObject [(''condition'', JString c), (''count'', JInt n)]) (sv_side_conditions s)))]"

text \<open>\<open>_showdown_id\<close> is \<open>to_id\<close>. The loop over the two sides returns at the first match.\<close>

definition winning_side :: "observed_state \<Rightarrow> string \<Rightarrow> side_view list \<Rightarrow> string option" where
  "winning_side st winner sides =
     (case List.find (\<lambda>s. \<exists>u\<in>set_option (sv_user_id s). winner = to_id u) sides of
        None \<Rightarrow> None
      | Some s \<Rightarrow> Some (if Some (sv_side_id s) = os_our_side st then ''our_side'' else ''opponent_side''))"

definition winner_projection :: "observed_state \<Rightarrow> string option" where
  "winner_projection st =
     (if os_tied st then Some ''tie''
      else (case os_winner st of
        None \<Rightarrow> None
      | Some w \<Rightarrow>
          if to_id w = to_id (os_our_user_id st) then Some ''our_side''
          else winning_side st (to_id w) [os_p1 st, os_p2 st]))"

definition annotation_types :: "string list" where
  "annotation_types = [''already'', ''from'', ''of'', ''silent'', ''still'', ''upkeep'', ''wisher'']"

definition effect_types :: "string list" where
  "effect_types = [''ability'', ''condition'', ''item'', ''move'']"

definition annotation_position :: "string \<Rightarrow> (string \<times> json) list" where
  "annotation_position target =
     (case cut_at '': '' target of
        None \<Rightarrow> []
      | Some (position, _) \<Rightarrow>
          if length position = 3 \<and> take 2 position \<in> {''p1'', ''p2''} \<and> position ! 2 = CHR ''a''
          then [(''side_id'', JString (take 2 position)), (''slot'', JInt 1)] else [])"

definition project_annotation :: "string \<Rightarrow> json" where
  "project_annotation annotation =
     (if \<not> starts_with ''['' annotation \<or> CHR '']'' \<notin> set annotation then
        JObject [(''type'', JString ''unknown'')]
      else
        (case cut_at '']'' (drop 1 annotation) of
           None \<Rightarrow> JObject [(''type'', JString ''unknown'')]
         | Some (label, remainder) \<Rightarrow>
             JObject ((''type'', JString (if to_id label \<in> set annotation_types then to_id label
                                          else ''unknown''))
               # annotation_position (strip remainder))))"

definition effect_type_entry :: "string \<Rightarrow> (string \<times> json) list" where
  "effect_type_entry effect =
     (case cut_at '':'' effect of
        None \<Rightarrow> []
      | Some (effect_type, effect_value) \<Rightarrow>
          if to_id effect_type \<in> set effect_types \<and> to_id (strip effect_value) \<noteq> []
          then [(''effect_type'', JString (to_id effect_type))] else [])"

definition effect_or_empty :: "visible_evidence \<Rightarrow> string" where
  "effect_or_empty ve = (case ve_effect ve of None \<Rightarrow> [] | Some e \<Rightarrow> e)"

definition effect_kinds :: "string list" where
  "effect_kinds = [''activate'', ''block'', ''prepare'', ''fieldactivate'']"

definition project_visible_evidence :: "visible_evidence \<Rightarrow> json" where
  "project_visible_evidence ve =
     JObject ([(''event_index'', JInt (ve_index ve)), (''kind'', JString (ve_kind ve)),
        (''side_id'', json_opt JString (ve_side_id ve)), (''slot'', json_opt JInt (ve_slot ve))]
      @ (if ve_kind ve = ''hitcount'' then
           (case py_int (effect_or_empty ve) of
              Some n \<Rightarrow> if 0 \<le> n \<and> n \<le> max_safe_integer then [(''hit_count'', JInt n)] else []
            | None \<Rightarrow> [])
         else if ve_kind ve \<in> set effect_kinds then effect_type_entry (effect_or_empty ve)
         else [])
      @ (if ve_annotations ve \<noteq> [] then
           [(''annotations'', JList (map project_annotation (ve_annotations ve)))] else []))"

definition project_observed_state :: "observed_state \<Rightarrow> json" where
  "project_observed_state st =
     JObject [(''event_index'', JInt (os_event_index st)),
       (''room_initialized'', JBool (os_room_initialized st)),
       (''generation'', json_opt JInt (os_generation st)),
       (''game_type'', json_opt JString (os_game_type st)),
       (''tier'', json_opt JString (os_tier st)),
       (''rated'', json_opt JBool (os_rated st)),
       (''rules'', JList (map JString (os_rules st))),
       (''turn'', JInt (os_turn st)),
       (''battle_started'', JBool (os_battle_started st)),
       (''team_preview_started'', JBool (os_team_preview_started st)),
       (''winner'', json_opt JString (winner_projection st)),
       (''tied'', JBool (os_tied st)),
       (''our_side'', json_opt JString (os_our_side st)),
       (''p1'', project_side (os_p1 st)),
       (''p2'', project_side (os_p2 st)),
       (''weather'', json_opt JString (os_weather st)),
       (''field_conditions'', JList (map JString (os_field_conditions st))),
       (''visible_evidence'', JList (map project_visible_evidence (os_visible_evidence st))),
       (''ignored_display_count'', JInt (os_ignored_display_count st))]"

definition observed_state_digest :: "digest_fn \<Rightarrow> observed_state \<Rightarrow> py_exc + string" where
  "observed_state_digest manifest st = manifest (project_observed_state st)"

section \<open>What the projection leaves out\<close>

text \<open>
  \<open>anonymous\<close> wipes everything that names a player or a Pokemon or is an internal key:
  nicknames, display names, switch keys, transformation targets, the nickname of
  evidence, and its effect where the effect is a free text.
\<close>

definition anonymous_pokemon :: "pokemon_view \<Rightarrow> pokemon_view" where
  "anonymous_pokemon pv = pv\<lparr>pv_side_id := [], pv_nickname := [], pv_switch_identity := [],
     pv_transform_target := map_option (\<lambda>_. []) (pv_transform_target pv)\<rparr>"

definition anonymous_side :: "side_view \<Rightarrow> side_view" where
  "anonymous_side s = s\<lparr>sv_display_name := None, sv_user_id := map_option to_id (sv_user_id s),
     sv_pokemon := map anonymous_pokemon (sv_pokemon s)\<rparr>"

definition anonymous_evidence :: "visible_evidence \<Rightarrow> visible_evidence" where
  "anonymous_evidence ve = ve\<lparr>ve_nickname := None,
     ve_effect := (if ve_kind ve = ''hitcount'' \<or> ve_kind ve \<in> set effect_kinds
                   then ve_effect ve else None)\<rparr>"

definition anonymous :: "observed_state \<Rightarrow> observed_state" where
  "anonymous st = st\<lparr>os_p1 := anonymous_side (os_p1 st), os_p2 := anonymous_side (os_p2 st),
     os_visible_evidence := map anonymous_evidence (os_visible_evidence st)\<rparr>"

lemma project_anonymous_pokemon [simp]: "project_pokemon (anonymous_pokemon pv) = project_pokemon pv"
  by (simp add: project_pokemon_def anonymous_pokemon_def)

lemma project_anonymous_side [simp]: "project_side (anonymous_side s) = project_side s"
  by (simp add: project_side_def anonymous_side_def comp_def)

lemma project_anonymous_evidence [simp]:
  "project_visible_evidence (anonymous_evidence ve) = project_visible_evidence ve"
  by (simp add: project_visible_evidence_def anonymous_evidence_def effect_or_empty_def)

lemma anonymous_state_sides:
  "os_p1 (anonymous st) = anonymous_side (os_p1 st)"
  "os_p2 (anonymous st) = anonymous_side (os_p2 st)"
  by (simp_all add: anonymous_def)

lemma winner_anonymous: "winner_projection (anonymous st) = winner_projection st"
proof -
  have "winning_side (anonymous st) w (map anonymous_side ss) = winning_side st w ss" for w ss
    by (induction ss)
      (auto simp: winning_side_def anonymous_def anonymous_side_def split: option.splits)
  then have sides: "winning_side (anonymous st) w [os_p1 (anonymous st), os_p2 (anonymous st)] =
      winning_side st w [os_p1 st, os_p2 st]" for w
    by (metis (no_types, lifting) anonymous_state_sides list.simps(8,9))
  have "os_tied (anonymous st) = os_tied st" "os_winner (anonymous st) = os_winner st"
    "os_our_user_id (anonymous st) = os_our_user_id st" by (simp_all add: anonymous_def)
  with sides show ?thesis by (simp only: winner_projection_def)
qed

lemma project_anonymous: "project_observed_state (anonymous st) = project_observed_state st"
proof -
  have "winner_projection (anonymous st) = winner_projection st" by (rule winner_anonymous)
  then show ?thesis
    unfolding project_observed_state_def by (simp add: anonymous_def comp_def)
qed

lemma winner_projection_values:
  "winner_projection st \<in> {None, Some ''tie'', Some ''our_side'', Some ''opponent_side''}"
  by (auto simp: winner_projection_def winning_side_def split: option.splits)

lemma make_public_identity_Inr:
  "make_public_identity n d = Inr p \<longleftrightarrow> 0 \<le> n \<and> n \<le> max_safe_integer \<and> is_digest_text d
     \<and> p = \<lparr>pi_rqid = n, pi_request_digest = d\<rparr>"
  by (auto simp: make_public_identity_def ebind_eq_Inr raise_if_eq_Inr)

text \<open>The room of a request does not reach its projection.\<close>

lemma project_identity_room:
  "project_request_identity (ident\<lparr>ri_room_id := room\<rparr>) = project_request_identity ident"
  by (simp add: project_request_identity_def from_internal_def)

text \<open>A submission can be read back from its projection.\<close>

lemma json_opt_inj: "inj f \<Longrightarrow> (\<And>x. f x \<noteq> JNull) \<Longrightarrow> json_opt f a = json_opt f b \<Longrightarrow> a = b"
  by (cases a; cases b) (auto simp: json_opt_def dest: injD, metis)

lemma project_submission_inj:
  assumes "project_battle_submission b = project_battle_submission c"
  shows "b = c"
proof -
  from assms have eqs: "action_kind_value (bs_kind b) = action_kind_value (bs_kind c)"
    "provenance_value (bs_provenance b) = provenance_value (bs_provenance c)"
    "json_opt JInt (bs_slot b) = json_opt JInt (bs_slot c)"
    "json_opt JString (bs_move_id b) = json_opt JString (bs_move_id c)"
    "bs_terastallize b = bs_terastallize c"
    "map JInt (bs_team_order b) = map JInt (bs_team_order c)"
    unfolding project_battle_submission_def by simp_all
  have "bs_kind b = bs_kind c"
    using eqs(1) by (simp add: action_kind_value_def split: action_kind.splits)
  moreover have "bs_provenance b = bs_provenance c"
    using eqs(2) by (simp add: provenance_value_def split: action_provenance.splits)
  moreover have "bs_slot b = bs_slot c" "bs_move_id b = bs_move_id c"
    using json_opt_inj [OF _ _ eqs(3)] json_opt_inj [OF _ _ eqs(4)] by (simp_all add: inj_def)
  moreover have "bs_team_order b = bs_team_order c"
    using eqs(6) by (simp add: inj_map_eq_map inj_def)
  ultimately show ?thesis using eqs(5) by (cases b; cases c) simp
qed

end
