(* ===== verification/Decision_Record.thy ===== *)
theory Decision_Record
  imports Public_Projection
begin

text \<open>
  \<open>domain/records/decision_record.py\<close>: statuses and error codes, the run context with its
  chain of digests, and the decision record. As in \<open>Public_Projection\<close>, \<open>manifest\<close> stands
  for \<open>manifest_digest\<close>. A document is a JSON object. The lemmas show which combinations of
  status, submission and error code a record can have, and that the envelope of a record and the
  document of a context pass the validators of the same file.
\<close>

section \<open>Statuses and error codes\<close>

datatype record_status =
    Submitted | Wait_Noop | Policy_Rejected | Action_Gate_Rejected | Command_Encoding_Failed
  | Send_Failed | Session_Aborted | Superseded_Before_Selection | Terminally_Discarded
  | Reconciliation_Rejected | Freshness_Invalidated

definition record_status_value :: "record_status \<Rightarrow> string" where
  "record_status_value s = (case s of
     Submitted \<Rightarrow> ''submitted'' | Wait_Noop \<Rightarrow> ''wait_noop''
   | Policy_Rejected \<Rightarrow> ''policy_rejected'' | Action_Gate_Rejected \<Rightarrow> ''action_gate_rejected''
   | Command_Encoding_Failed \<Rightarrow> ''command_encoding_failed'' | Send_Failed \<Rightarrow> ''send_failed''
   | Session_Aborted \<Rightarrow> ''session_aborted''
   | Superseded_Before_Selection \<Rightarrow> ''superseded_before_selection''
   | Terminally_Discarded \<Rightarrow> ''terminally_discarded''
   | Reconciliation_Rejected \<Rightarrow> ''reconciliation_rejected''
   | Freshness_Invalidated \<Rightarrow> ''freshness_invalidated'')"

datatype record_error_code =
    Rc_No_Legal_Action_Available | Rc_Local_Action_Gate_Rejection | Rc_Command_Encoding_Failed
  | Rc_Send_Failed | Rc_Server_Invalid_Choice | Rc_Server_Unavailable_Choice
  | Rc_Request_State_Reconciliation_Mismatch | Rc_Stale_Rqid | Rc_Disconnect
  | Rc_Transport_Timeout | Rc_Timer_Or_Forfeit | Rc_Unknown_Protocol_Event
  | Rc_Malformed_Protocol_Message | Rc_Reducer_Invariant_Failure

definition record_error_codes :: "(string \<times> record_error_code) list" where
  "record_error_codes =
     [(''no_legal_action_available'', Rc_No_Legal_Action_Available),
      (''local_action_gate_rejection'', Rc_Local_Action_Gate_Rejection),
      (''command_encoding_failed'', Rc_Command_Encoding_Failed),
      (''send_failed'', Rc_Send_Failed),
      (''server_invalid_choice'', Rc_Server_Invalid_Choice),
      (''server_unavailable_choice'', Rc_Server_Unavailable_Choice),
      (''request_state_reconciliation_mismatch'', Rc_Request_State_Reconciliation_Mismatch),
      (''stale_rqid'', Rc_Stale_Rqid),
      (''disconnect'', Rc_Disconnect),
      (''transport_timeout'', Rc_Transport_Timeout),
      (''timer_or_forfeit'', Rc_Timer_Or_Forfeit),
      (''unknown_protocol_event'', Rc_Unknown_Protocol_Event),
      (''malformed_protocol_message'', Rc_Malformed_Protocol_Message),
      (''reducer_invariant_failure'', Rc_Reducer_Invariant_Failure)]"

text \<open>\<open>DecisionRecordErrorCode(value)\<close>, and the value of a member.\<close>

definition error_code_of :: "string \<Rightarrow> record_error_code option" where
  "error_code_of s = map_of record_error_codes s"

definition error_code_value :: "record_error_code \<Rightarrow> string" where
  "error_code_value c = fst (the (List.find (\<lambda>p. snd p = c) record_error_codes))"

text \<open>\<open>None\<close> for a status that is not a key of the table.\<close>

definition status_error_codes :: "record_status \<Rightarrow> record_error_code list option" where
  "status_error_codes s = (case s of
     Policy_Rejected \<Rightarrow> Some [Rc_No_Legal_Action_Available]
   | Action_Gate_Rejected \<Rightarrow> Some [Rc_Local_Action_Gate_Rejection]
   | Command_Encoding_Failed \<Rightarrow> Some [Rc_Command_Encoding_Failed]
   | Send_Failed \<Rightarrow> Some [Rc_Send_Failed, Rc_Server_Invalid_Choice, Rc_Server_Unavailable_Choice]
   | Session_Aborted \<Rightarrow> Some [Rc_Disconnect, Rc_Transport_Timeout, Rc_Timer_Or_Forfeit,
       Rc_Unknown_Protocol_Event, Rc_Malformed_Protocol_Message, Rc_Reducer_Invariant_Failure]
   | Reconciliation_Rejected \<Rightarrow> Some [Rc_Request_State_Reconciliation_Mismatch, Rc_Stale_Rqid]
   | _ \<Rightarrow> None)"

section \<open>The run context\<close>

definition require_safe_integer :: "int \<Rightarrow> py_exc + unit" where
  "require_safe_integer n = raise_if (\<not> (0 \<le> n \<and> n \<le> max_safe_integer)) ValueError"

definition require_digest :: "string \<Rightarrow> py_exc + unit" where
  "require_digest s = raise_if (\<not> is_digest_text s) ValueError"

definition require_digests :: "string list \<Rightarrow> py_exc + unit" where
  "require_digests ds = ebind (emap require_digest ds) (\<lambda>_. Inr ())"

definition is_id_lower :: "char \<Rightarrow> bool" where
  "is_id_lower c \<longleftrightarrow> is_dec c \<or> (97 \<le> code c \<and> code c \<le> 122)"

text \<open>The regular expression \<open>[a-z0-9]+(?:[-_][a-z0-9]+)*\<close>; \<open>prev\<close>: a letter or digit before.\<close>

fun arm_id_from :: "bool \<Rightarrow> string \<Rightarrow> bool" where
  "arm_id_from prev [] \<longleftrightarrow> prev"
| "arm_id_from prev (c # cs) \<longleftrightarrow>
     (if is_id_lower c then arm_id_from True cs
      else prev \<and> c \<in> {CHR ''-'', CHR ''_''} \<and> arm_id_from False cs)"

definition is_arm_id :: "string \<Rightarrow> bool" where
  "is_arm_id s \<longleftrightarrow> arm_id_from False s"

record runtime_digests =
  rd_runtime_digest :: string
  rd_contract_set_digest :: string
  rd_policy_digest :: string
  rd_fallback_and_safety_digest :: string

definition check_runtime_digests :: "runtime_digests \<Rightarrow> py_exc + unit" where
  "check_runtime_digests d = require_digests [rd_runtime_digest d, rd_contract_set_digest d,
     rd_policy_digest d, rd_fallback_and_safety_digest d]"

definition runtime_digests_dict :: "runtime_digests \<Rightarrow> json" where
  "runtime_digests_dict d =
     JObject [(''runtime_digest'', JString (rd_runtime_digest d)),
       (''contract_set_digest'', JString (rd_contract_set_digest d)),
       (''policy_digest'', JString (rd_policy_digest d)),
       (''fallback_and_safety_digest'', JString (rd_fallback_and_safety_digest d))]"

record run_context_payload =
  rc_schema_version :: int
  rc_evaluation_run_binding_digest :: string
  rc_run_scope_digest :: string
  rc_battle_id_digest :: string
  rc_battle_ordinal :: int

definition check_context_payload :: "run_context_payload \<Rightarrow> py_exc + unit" where
  "check_context_payload p =
     ebind (raise_if (rc_schema_version p \<noteq> 1) ValueError) (\<lambda>_.
     ebind (require_digests [rc_evaluation_run_binding_digest p, rc_run_scope_digest p,
       rc_battle_id_digest p]) (\<lambda>_.
       require_safe_integer (rc_battle_ordinal p)))"

definition context_payload_items :: "run_context_payload \<Rightarrow> (string \<times> json) list" where
  "context_payload_items p =
     [(''schema_version'', JInt (rc_schema_version p)),
      (''evaluation_run_binding_digest'', JString (rc_evaluation_run_binding_digest p)),
      (''run_scope_digest'', JString (rc_run_scope_digest p)),
      (''battle_id_digest'', JString (rc_battle_id_digest p)),
      (''battle_ordinal'', JInt (rc_battle_ordinal p))]"

record run_scope_payload =
  rs_registration_digest :: string
  rs_arm_binding_digest :: string
  rs_schedule_digest :: string
  rs_schedule_row_id :: string
  rs_budget_profile_digest :: string
  rs_seed_family_digest :: string
  rs_runtime_digest :: string
  rs_contract_set_digest :: string

definition check_run_scope :: "run_scope_payload \<Rightarrow> py_exc + unit" where
  "check_run_scope s =
     ebind (require_digests [rs_registration_digest s, rs_arm_binding_digest s,
       rs_schedule_digest s, rs_budget_profile_digest s, rs_seed_family_digest s,
       rs_runtime_digest s, rs_contract_set_digest s]) (\<lambda>_.
       raise_if (rs_schedule_row_id s = []) ValueError)"

definition run_scope_dict :: "run_scope_payload \<Rightarrow> json" where
  "run_scope_dict s =
     JObject [(''registration_digest'', JString (rs_registration_digest s)),
       (''arm_binding_digest'', JString (rs_arm_binding_digest s)),
       (''schedule_digest'', JString (rs_schedule_digest s)),
       (''schedule_row_id'', JString (rs_schedule_row_id s)),
       (''budget_profile_digest'', JString (rs_budget_profile_digest s)),
       (''seed_family_digest'', JString (rs_seed_family_digest s)),
       (''runtime_digest'', JString (rs_runtime_digest s)),
       (''contract_set_digest'', JString (rs_contract_set_digest s))]"

record resolved_binding =
  rb_evaluation_run_binding_digest :: string
  rb_registration_digest :: string
  rb_arm_binding_digest :: string
  rb_schedule_digest :: string
  rb_budget_profile_digest :: string
  rb_seed_family_digest :: string
  rb_arm_id :: string
  rb_runtime_and_contract_digests :: runtime_digests

definition check_binding :: "resolved_binding \<Rightarrow> py_exc + unit" where
  "check_binding b =
     ebind (require_digests [rb_evaluation_run_binding_digest b, rb_registration_digest b,
       rb_arm_binding_digest b, rb_schedule_digest b, rb_budget_profile_digest b,
       rb_seed_family_digest b]) (\<lambda>_.
       raise_if (128 < length (rb_arm_id b) \<or> \<not> is_arm_id (rb_arm_id b)) ValueError)"

record measurement_run_context =
  mc_payload :: run_context_payload
  mc_run_context_digest :: string
  mc_run_scope :: run_scope_payload
  mc_resolved_binding :: "resolved_binding option"

definition derive_run_scope_digest :: "digest_fn \<Rightarrow> run_scope_payload \<Rightarrow> py_exc + string" where
  "derive_run_scope_digest manifest s = manifest (run_scope_dict s)"

definition derive_battle_id_digest :: "digest_fn \<Rightarrow> string \<Rightarrow> string \<Rightarrow> int \<Rightarrow> py_exc + string" where
  "derive_battle_id_digest manifest scope_digest row_id ordinal =
     ebind (require_safe_integer ordinal) (\<lambda>_.
       manifest (JObject [(''run_scope_digest'', JString scope_digest),
         (''schedule_row_id'', JString row_id), (''battle_ordinal'', JInt ordinal)]))"

text \<open>The fields of the scope that repeat the binding, in the order they are compared.\<close>

definition expected_scope :: "resolved_binding \<Rightarrow> string list" where
  "expected_scope b = [rb_registration_digest b, rb_arm_binding_digest b, rb_schedule_digest b,
     rb_budget_profile_digest b, rb_seed_family_digest b,
     rd_runtime_digest (rb_runtime_and_contract_digests b),
     rd_contract_set_digest (rb_runtime_and_contract_digests b)]"

definition actual_scope :: "run_scope_payload \<Rightarrow> string list" where
  "actual_scope s = [rs_registration_digest s, rs_arm_binding_digest s, rs_schedule_digest s,
     rs_budget_profile_digest s, rs_seed_family_digest s, rs_runtime_digest s,
     rs_contract_set_digest s]"

definition check_run_context :: "digest_fn \<Rightarrow> measurement_run_context \<Rightarrow> py_exc + unit" where
  "check_run_context manifest c =
     ebind (require_digest (mc_run_context_digest c)) (\<lambda>_.
     ebind (manifest (JObject (context_payload_items (mc_payload c)))) (\<lambda>expected.
     ebind (raise_if (mc_run_context_digest c \<noteq> expected) ValueError) (\<lambda>_.
     ebind (of_option ValueError (mc_resolved_binding c)) (\<lambda>b.
     ebind (raise_if (rc_evaluation_run_binding_digest (mc_payload c)
        \<noteq> rb_evaluation_run_binding_digest b) ValueError) (\<lambda>_.
     ebind (derive_run_scope_digest manifest (mc_run_scope c)) (\<lambda>scope_digest.
     ebind (raise_if (scope_digest \<noteq> rc_run_scope_digest (mc_payload c)) ValueError) (\<lambda>_.
     ebind (derive_battle_id_digest manifest (rc_run_scope_digest (mc_payload c))
        (rs_schedule_row_id (mc_run_scope c)) (rc_battle_ordinal (mc_payload c))) (\<lambda>battle_id.
     ebind (raise_if (rc_battle_id_digest (mc_payload c) \<noteq> battle_id) ValueError) (\<lambda>_.
       raise_if (actual_scope (mc_run_scope c) \<noteq> expected_scope b) ValueError)))))))))"

definition create_run_context ::
    "digest_fn \<Rightarrow> resolved_binding \<Rightarrow> run_scope_payload \<Rightarrow> int \<Rightarrow> py_exc + measurement_run_context" where
  "create_run_context manifest b s ordinal =
     ebind (derive_run_scope_digest manifest s) (\<lambda>scope_digest.
     ebind (raise_if (actual_scope s \<noteq> expected_scope b) ValueError) (\<lambda>_.
     ebind (derive_battle_id_digest manifest scope_digest (rs_schedule_row_id s) ordinal) (\<lambda>battle_id.
     (let payload = \<lparr>rc_schema_version = 1,
             rc_evaluation_run_binding_digest = rb_evaluation_run_binding_digest b,
             rc_run_scope_digest = scope_digest, rc_battle_id_digest = battle_id,
             rc_battle_ordinal = ordinal\<rparr> in
      ebind (check_context_payload payload) (\<lambda>_.
      ebind (manifest (JObject (context_payload_items payload))) (\<lambda>digest.
      (let c = \<lparr>mc_payload = payload, mc_run_context_digest = digest, mc_run_scope = s,
                mc_resolved_binding = Some b\<rparr> in
       ebind (check_run_context manifest c) (\<lambda>_. Inr c))))))))"

definition run_context_items :: "measurement_run_context \<Rightarrow> (string \<times> json) list" where
  "run_context_items c = AList.update ''run_context_digest'' (JString (mc_run_context_digest c))
     (context_payload_items (mc_payload c))"

section \<open>Identities of records\<close>

definition derive_record_id ::
    "digest_fn \<Rightarrow> json \<Rightarrow> json \<Rightarrow> int \<Rightarrow> (string \<times> json) list \<Rightarrow> py_exc + string" where
  "derive_record_id manifest run_context_digest battle_id_digest decision_index identity =
     ebind (require_safe_integer decision_index) (\<lambda>_.
       manifest (JObject [(''run_context_digest'', run_context_digest),
         (''battle_id_digest'', battle_id_digest), (''decision_index'', JInt decision_index),
         (''request_identity'', JObject identity)]))"

definition digest_record_envelope :: "digest_fn \<Rightarrow> string \<Rightarrow> (string \<times> json) list \<Rightarrow> py_exc + string" where
  "digest_record_envelope manifest record_id payload =
     manifest (JObject [(''record_id'', JString record_id), (''payload'', JObject payload)])"

section \<open>The record\<close>

datatype record_identity = Internal request_identity | Public public_request_identity

record decision_record =
  de_record_schema_version :: int
  de_record_status :: record_status
  de_run_context_digest :: string
  de_battle_id_digest :: string
  de_decision_index :: int
  de_request_identity :: public_request_identity
  de_observed_state_digest :: string
  de_safe_submission_set_digest :: string
  de_selected_submission :: "battle_submission option"
  de_submission_provenance :: "action_provenance option"
  de_fallback_or_error_class :: "record_error_code option"
  de_policy_or_arm_id :: string
  de_runtime_and_contract_digests :: runtime_digests
  de_run_context :: measurement_run_context
  de_resolved_binding :: resolved_binding

text \<open>The regular expression \<open>[a-z][a-z0-9_]{0,63}\<close>.\<close>

definition is_error_code_text :: "string \<Rightarrow> bool" where
  "is_error_code_text s \<longleftrightarrow>
     (case s of [] \<Rightarrow> False
      | c # cs \<Rightarrow> 97 \<le> code c \<and> code c \<le> 122 \<and> length cs \<le> 63
          \<and> list_all (\<lambda>d. is_id_lower d \<or> d = CHR ''_'') cs)"

definition parse_error_class :: "string option \<Rightarrow> py_exc + record_error_code option" where
  "parse_error_class text =
     (case text of None \<Rightarrow> Inr None
      | Some s \<Rightarrow> ebind (raise_if (\<not> is_error_code_text s) ValueError) (\<lambda>_.
          ebind (of_option ValueError (error_code_of s)) (\<lambda>c. Inr (Some c))))"

definition selected_required :: "record_status list" where
  "selected_required = [Submitted, Action_Gate_Rejected, Command_Encoding_Failed, Send_Failed]"

definition selection_forbidden :: "record_status list" where
  "selection_forbidden = [Wait_Noop, Policy_Rejected, Superseded_Before_Selection,
     Terminally_Discarded, Reconciliation_Rejected, Freshness_Invalidated]"

definition error_forbidden :: "record_status list" where
  "error_forbidden = [Submitted, Wait_Noop, Superseded_Before_Selection, Terminally_Discarded,
     Freshness_Invalidated]"

text \<open>The checks on submission, provenance and error class that end \<open>__post_init__\<close>.\<close>

definition check_outcome ::
    "record_status \<Rightarrow> battle_submission option \<Rightarrow> action_provenance option \<Rightarrow> record_error_code option
     \<Rightarrow> py_exc + unit" where
  "check_outcome status selected provenance error =
     ebind (raise_if (selected = None \<and> provenance \<noteq> None) ValueError) (\<lambda>_.
     ebind (raise_if (selected \<noteq> None \<and> provenance \<noteq> map_option bs_provenance selected) ValueError) (\<lambda>_.
     ebind (raise_if (status \<in> set selected_required \<and> selected = None) ValueError) (\<lambda>_.
     ebind (raise_if (status \<in> set selection_forbidden \<and> selected \<noteq> None) ValueError) (\<lambda>_.
     ebind (raise_if (status \<in> set error_forbidden \<and> error \<noteq> None) ValueError) (\<lambda>_.
     ebind (raise_if (status_error_codes status \<noteq> None \<and> error = None) ValueError) (\<lambda>_.
       raise_if (\<exists>cs\<in>set_option (status_error_codes status). the error \<notin> set cs) ValueError))))))"

definition to_public_identity :: "record_identity \<Rightarrow> py_exc + public_request_identity" where
  "to_public_identity i = (case i of Internal r \<Rightarrow> from_internal r | Public p \<Rightarrow> Inr p)"

definition make_record ::
    "int \<Rightarrow> record_status \<Rightarrow> measurement_run_context \<Rightarrow> resolved_binding \<Rightarrow> int \<Rightarrow> record_identity
     \<Rightarrow> string \<Rightarrow> string \<Rightarrow> battle_submission option \<Rightarrow> action_provenance option \<Rightarrow> string option
     \<Rightarrow> py_exc + decision_record" where
  "make_record version status ctx b index ident state_digest set_digest selected provenance error_text =
     ebind (raise_if (mc_resolved_binding ctx = None) ValueError) (\<lambda>_.
     ebind (raise_if (mc_resolved_binding ctx \<noteq> Some b) ValueError) (\<lambda>_.
     ebind (raise_if (version \<noteq> 1 \<and> version \<noteq> 2) ValueError) (\<lambda>_.
     ebind (raise_if (status = Freshness_Invalidated \<and> version \<noteq> 2) ValueError) (\<lambda>_.
     ebind (require_safe_integer index) (\<lambda>_.
     ebind (to_public_identity ident) (\<lambda>public.
     ebind (require_digests [mc_run_context_digest ctx, rc_battle_id_digest (mc_payload ctx),
        pi_request_digest public, state_digest, set_digest]) (\<lambda>_.
     ebind (raise_if (\<not> is_arm_id (rb_arm_id b)) ValueError) (\<lambda>_.
     ebind (parse_error_class error_text) (\<lambda>error.
     ebind (check_outcome status selected provenance error) (\<lambda>_.
       Inr \<lparr>de_record_schema_version = version, de_record_status = status,
            de_run_context_digest = mc_run_context_digest ctx,
            de_battle_id_digest = rc_battle_id_digest (mc_payload ctx),
            de_decision_index = index, de_request_identity = public,
            de_observed_state_digest = state_digest, de_safe_submission_set_digest = set_digest,
            de_selected_submission = selected, de_submission_provenance = provenance,
            de_fallback_or_error_class = error, de_policy_or_arm_id = rb_arm_id b,
            de_runtime_and_contract_digests = rb_runtime_and_contract_digests b,
            de_run_context = ctx, de_resolved_binding = b\<rparr>))))))))))"

definition public_identity_items :: "public_request_identity \<Rightarrow> (string \<times> json) list" where
  "public_identity_items p =
     [(''rqid'', JInt (pi_rqid p)), (''request_digest'', JString (pi_request_digest p))]"

definition record_payload :: "decision_record \<Rightarrow> (string \<times> json) list" where
  "record_payload r =
     [(''record_schema_version'', JInt (de_record_schema_version r)),
      (''record_status'', JString (record_status_value (de_record_status r))),
      (''run_context_digest'', JString (de_run_context_digest r)),
      (''battle_id_digest'', JString (de_battle_id_digest r)),
      (''decision_index'', JInt (de_decision_index r)),
      (''request_identity'', JObject (public_identity_items (de_request_identity r))),
      (''observed_state_digest'', JString (de_observed_state_digest r)),
      (''safe_submission_set_digest'', JString (de_safe_submission_set_digest r)),
      (''selected_submission'', json_opt project_battle_submission (de_selected_submission r)),
      (''submission_provenance'', json_opt (JString \<circ> provenance_value) (de_submission_provenance r)),
      (''fallback_or_error_class'',
        json_opt (JString \<circ> error_code_value) (de_fallback_or_error_class r)),
      (''policy_or_arm_id'', JString (de_policy_or_arm_id r)),
      (''runtime_and_contract_digests'', runtime_digests_dict (de_runtime_and_contract_digests r))]"

definition record_id :: "digest_fn \<Rightarrow> decision_record \<Rightarrow> py_exc + string" where
  "record_id manifest r = derive_record_id manifest (JString (de_run_context_digest r))
     (JString (de_battle_id_digest r)) (de_decision_index r)
     (public_identity_items (de_request_identity r))"

definition record_digest :: "digest_fn \<Rightarrow> decision_record \<Rightarrow> py_exc + string" where
  "record_digest manifest r =
     ebind (record_id manifest r) (\<lambda>i. digest_record_envelope manifest i (record_payload r))"

definition to_envelope :: "digest_fn \<Rightarrow> decision_record \<Rightarrow> py_exc + (string \<times> json) list" where
  "to_envelope manifest r =
     ebind (record_id manifest r) (\<lambda>i.
     ebind (record_digest manifest r) (\<lambda>d.
       Inr [(''record_id'', JString i), (''record_digest'', JString d),
            (''payload'', JObject (record_payload r))]))"

section \<open>Validation of documents\<close>

definition lookup_json :: "(string \<times> json) list \<Rightarrow> string \<Rightarrow> json" where
  "lookup_json d k = (case map_of d k of None \<Rightarrow> JNull | Some v \<Rightarrow> v)"

definition has_keys :: "string list \<Rightarrow> (string \<times> json) list \<Rightarrow> bool" where
  "has_keys ks d \<longleftrightarrow> list_all (\<lambda>k. map_of d k \<noteq> None) ks"

text \<open>A digest that is not a string makes \<open>fullmatch\<close> raise a \<open>TypeError\<close>.\<close>

definition json_text :: "json \<Rightarrow> py_exc + string" where
  "json_text v = (case v of JString s \<Rightarrow> Inr s | _ \<Rightarrow> Inl TypeError)"

definition json_digest :: "json \<Rightarrow> py_exc + string" where
  "json_digest v = ebind (json_text v) (\<lambda>s. ebind (require_digest s) (\<lambda>_. Inr s))"

definition json_int :: "json \<Rightarrow> py_exc + int" where
  "json_int v = (case v of JInt n \<Rightarrow> Inr n | _ \<Rightarrow> Inl ValueError)"

definition context_payload_of :: "(string \<times> json) list \<Rightarrow> py_exc + run_context_payload" where
  "context_payload_of d =
     ebind (json_int (lookup_json d ''schema_version'')) (\<lambda>v.
     ebind (raise_if (v \<noteq> 1) ValueError) (\<lambda>_.
     ebind (json_digest (lookup_json d ''evaluation_run_binding_digest'')) (\<lambda>e.
     ebind (json_digest (lookup_json d ''run_scope_digest'')) (\<lambda>s.
     ebind (json_digest (lookup_json d ''battle_id_digest'')) (\<lambda>b.
     ebind (json_int (lookup_json d ''battle_ordinal'')) (\<lambda>n.
     ebind (require_safe_integer n) (\<lambda>_.
       Inr \<lparr>rc_schema_version = v, rc_evaluation_run_binding_digest = e, rc_run_scope_digest = s,
            rc_battle_id_digest = b, rc_battle_ordinal = n\<rparr>)))))))"

datatype validation_error =
    Context_Fields_Missing | Context_Payload_Invalid | Context_Digest_Mismatch
  | Record_Payload_Missing | Record_Fields_Missing | Record_Identity_Invalid
  | Record_Id_Mismatch | Record_Digest_Mismatch

text \<open>\<open>except (TypeError, ValueError)\<close>: one finding; any other exception goes on.\<close>

definition or_invalid ::
    "validation_error \<Rightarrow> py_exc + 'a \<Rightarrow> ('a \<Rightarrow> validation_error list) \<Rightarrow> py_exc + validation_error list" where
  "or_invalid err r f =
     (case r of
        Inl e \<Rightarrow> if e = TypeError \<or> e = ValueError then Inr [err] else Inl e
      | Inr x \<Rightarrow> Inr (f x))"

definition validate_measurement_run_context ::
    "digest_fn \<Rightarrow> (string \<times> json) list \<Rightarrow> py_exc + validation_error list" where
  "validate_measurement_run_context manifest d =
     (if \<not> has_keys [''schema_version'', ''evaluation_run_binding_digest'', ''run_scope_digest'',
            ''battle_id_digest'', ''battle_ordinal'', ''run_context_digest''] d
      then Inr [Context_Fields_Missing]
      else or_invalid Context_Payload_Invalid
        (ebind (context_payload_of d) (\<lambda>p. manifest (JObject (context_payload_items p))))
        (\<lambda>expected. if lookup_json d ''run_context_digest'' \<noteq> JString expected
                    then [Context_Digest_Mismatch] else []))"

text \<open>
  \<open>dict(value)\<close>: a mapping, or a sequence of pairs, or an empty sequence. A pair whose key is
  no string ends in an exception that the validator reports like the others.
\<close>

definition json_pair :: "json \<Rightarrow> py_exc + (string \<times> json)" where
  "json_pair v =
     (case v of
        JList [JString k, x] \<Rightarrow> Inr (k, x)
      | JString [a, b] \<Rightarrow> Inr ([a], JString [b])
      | JObject [(a, _), (b, _)] \<Rightarrow> Inr (a, JString b)
      | _ \<Rightarrow> Inl TypeError)"

definition json_dict_of :: "json \<Rightarrow> py_exc + (string \<times> json) list" where
  "json_dict_of v =
     (case v of
        JObject d \<Rightarrow> Inr d
      | JList items \<Rightarrow> ebind (emap json_pair items) (\<lambda>kvs. Inr (dict_of kvs))
      | JString [] \<Rightarrow> Inr []
      | _ \<Rightarrow> Inl TypeError)"

definition validate_decision_record_envelope ::
    "digest_fn \<Rightarrow> (string \<times> json) list \<Rightarrow> py_exc + validation_error list" where
  "validate_decision_record_envelope manifest d =
     (case lookup_json d ''payload'' of
        JObject payload \<Rightarrow>
          if \<not> has_keys [''run_context_digest'', ''battle_id_digest'', ''decision_index'',
                ''request_identity''] payload
             \<or> \<not> has_keys [''record_id'', ''record_digest''] d
          then Inr [Record_Fields_Missing]
          else or_invalid Record_Identity_Invalid
            (ebind (json_int (lookup_json payload ''decision_index'')) (\<lambda>n.
             ebind (require_safe_integer n) (\<lambda>_.
             ebind (json_dict_of (lookup_json payload ''request_identity'')) (\<lambda>ident.
             ebind (derive_record_id manifest (lookup_json payload ''run_context_digest'')
               (lookup_json payload ''battle_id_digest'') n ident) (\<lambda>expected_id.
             ebind (digest_record_envelope manifest expected_id payload) (\<lambda>expected_digest.
               Inr (expected_id, expected_digest)))))))
            (\<lambda>(expected_id, expected_digest).
               (if lookup_json d ''record_id'' \<noteq> JString expected_id
                then [Record_Id_Mismatch] else [])
               @ (if lookup_json d ''record_digest'' \<noteq> JString expected_digest
                  then [Record_Digest_Mismatch] else []))
      | _ \<Rightarrow> Inr [Record_Payload_Missing])"

section \<open>Which records exist\<close>

definition outcome_agrees ::
    "record_status \<Rightarrow> battle_submission option \<Rightarrow> action_provenance option \<Rightarrow> record_error_code option
     \<Rightarrow> bool" where
  "outcome_agrees status selected provenance error \<longleftrightarrow>
     provenance = map_option bs_provenance selected
     \<and> (selected \<noteq> None \<longrightarrow> status \<in> set (Session_Aborted # selected_required))
     \<and> (status \<in> set selected_required \<longrightarrow> selected \<noteq> None)
     \<and> (case status_error_codes status of None \<Rightarrow> error = None
        | Some cs \<Rightarrow> \<exists>c\<in>set cs. error = Some c)"

lemma check_outcome_iff:
  "check_outcome status selected provenance error = Inr () \<longleftrightarrow>
     outcome_agrees status selected provenance error"
  by (cases status; cases selected; cases provenance; cases error)
    (auto simp: check_outcome_def outcome_agrees_def selected_required_def selection_forbidden_def
      error_forbidden_def status_error_codes_def ebind_eq_Inr raise_if_eq_Inr)

lemma error_code_round_trip [simp]: "error_code_of (error_code_value c) = Some c"
  by (cases c) (simp_all add: error_code_of_def error_code_value_def record_error_codes_def)

lemma error_code_text [simp]: "is_error_code_text (error_code_value c)"
  by (cases c) (simp_all add: error_code_value_def record_error_codes_def is_error_code_text_def
      is_id_lower_def is_dec_def code_def)

lemma parse_error_class_value [simp]:
  "parse_error_class (map_option error_code_value e) = Inr e"
  by (cases e) (simp_all add: parse_error_class_def)

lemma emap_require: "emap require_digest ds = Inr us \<longleftrightarrow> us = map (\<lambda>_. ()) ds \<and> (\<forall>d\<in>set ds. is_digest_text d)"
  by (induction ds arbitrary: us) (auto simp: ebind_eq_Inr require_digest_def raise_if_eq_Inr)

lemma require_digests_Inr: "require_digests ds = Inr u \<longleftrightarrow> (\<forall>d\<in>set ds. is_digest_text d)"
  by (simp add: require_digests_def ebind_eq_Inr emap_require)

lemma require_safe_integer_Inr:
  "require_safe_integer n = Inr u \<longleftrightarrow> 0 \<le> n \<and> n \<le> max_safe_integer"
  by (simp add: require_safe_integer_def raise_if_eq_Inr)

lemma make_record_Inr:
  assumes "make_record v st ctx b i ident sd ss sel prov err = Inr r"
  shows "de_record_status r = st" "de_selected_submission r = sel"
    "de_submission_provenance r = prov" "parse_error_class err = Inr (de_fallback_or_error_class r)"
    "outcome_agrees st sel prov (de_fallback_or_error_class r)"
    "0 \<le> de_decision_index r \<and> de_decision_index r \<le> max_safe_integer"
    "to_public_identity ident = Inr (de_request_identity r)"
    "de_decision_index r = i"
  using assms
  by (auto simp: make_record_def ebind_eq_Inr raise_if_eq_Inr require_safe_integer_Inr
      check_outcome_iff [symmetric])

text \<open>The envelope of a record passes the validator.\<close>

lemma envelope_valid:
  assumes "to_envelope manifest r = Inr env" 
  shows "validate_decision_record_envelope manifest env = Inr []"
proof -
  let ?p = "record_payload r"
  from assms obtain i d where i: "record_id manifest r = Inr i" and d: "record_digest manifest r = Inr d"
    and env: "env = [(''record_id'', JString i), (''record_digest'', JString d), (''payload'', JObject ?p)]"
    by (auto simp: to_envelope_def ebind_eq_Inr)
  have look: "lookup_json ?p ''run_context_digest'' = JString (de_run_context_digest r)"
    "lookup_json ?p ''battle_id_digest'' = JString (de_battle_id_digest r)"
    "lookup_json ?p ''decision_index'' = JInt (de_decision_index r)"
    "lookup_json ?p ''request_identity'' = JObject (public_identity_items (de_request_identity r))"
    by (simp_all add: lookup_json_def record_payload_def)
  have keys: "has_keys [''run_context_digest'', ''battle_id_digest'', ''decision_index'',
      ''request_identity''] ?p" "has_keys [''record_id'', ''record_digest''] env"
    by (simp_all add: has_keys_def record_payload_def env)
  have env_look: "lookup_json env ''payload'' = JObject ?p" "lookup_json env ''record_id'' = JString i"
    "lookup_json env ''record_digest'' = JString d" by (simp_all add: lookup_json_def env)
  have safe: "require_safe_integer (de_decision_index r) = Inr ()"
    using i by (auto simp: record_id_def derive_record_id_def ebind_eq_Inr)
  have id: "derive_record_id manifest (JString (de_run_context_digest r))
      (JString (de_battle_id_digest r)) (de_decision_index r)
      (public_identity_items (de_request_identity r)) = Inr i"
    using i by (simp add: record_id_def)
  have dig: "digest_record_envelope manifest i ?p = Inr d"
    using d i by (simp add: record_digest_def)
  show ?thesis
    unfolding validate_decision_record_envelope_def env_look
    by (simp add: keys look json_int_def safe json_dict_of_def id dig or_invalid_def)
qed

text \<open>The document of a created context passes the validator of contexts.\<close>

lemma context_payload_of_items:
  assumes "check_context_payload p = Inr u"
  shows "context_payload_of (run_context_items \<lparr>mc_payload = p, mc_run_context_digest = d,
      mc_run_scope = s, mc_resolved_binding = b\<rparr>) = Inr p"
  using assms
  by (cases p) (auto simp: check_context_payload_def context_payload_of_def run_context_items_def
      context_payload_items_def lookup_json_def json_int_def json_digest_def json_text_def
      require_digest_def ebind_eq_Inr raise_if_eq_Inr require_digests_Inr)

lemma created_context_valid:
  assumes "create_run_context manifest b s n = Inr c"
  shows "validate_measurement_run_context manifest (run_context_items c) = Inr []"
proof -
  from assms obtain p digest where p: "check_context_payload p = Inr ()"
    and digest: "manifest (JObject (context_payload_items p)) = Inr digest"
    and c: "c = \<lparr>mc_payload = p, mc_run_context_digest = digest, mc_run_scope = s,
      mc_resolved_binding = Some b\<rparr>"
    by (auto simp: create_run_context_def ebind_eq_Inr Let_def)
  have keys: "has_keys [''schema_version'', ''evaluation_run_binding_digest'', ''run_scope_digest'',
      ''battle_id_digest'', ''battle_ordinal'', ''run_context_digest''] (run_context_items c)"
    by (simp add: has_keys_def run_context_items_def context_payload_items_def c)
  have look: "lookup_json (run_context_items c) ''run_context_digest'' = JString digest"
    by (simp add: lookup_json_def run_context_items_def context_payload_items_def c)
  have pay: "context_payload_of (run_context_items c) = Inr p"
    unfolding c by (rule context_payload_of_items [OF p])
  show ?thesis
    unfolding validate_measurement_run_context_def
    by (simp add: keys pay digest or_invalid_def look)
qed
end
