(* ===== verification/Capabilities.thy ===== *)
theory Capabilities
  imports Decision_Record "HOL-Library.Multiset"
begin

text \<open>
  \<open>domain/engine_capabilities.py\<close>: the catalog of capabilities, claims about an engine with their
  evidence, and the manifest that binds them. \<open>manifest\<close> is the digest of a document, as in
  \<open>Public_Projection\<close>; \<open>float_integer\<close> gives the integer that a float of a document equals, if
  any (Python compares the numbers). A constructor's \<open>__post_init__\<close> is a \<open>check\<close> of its record.
\<close>

section \<open>Identifiers\<close>

definition ensure :: "bool \<Rightarrow> py_exc + unit" where
  "ensure b = raise_if (\<not> b) ValueError"

lemma ensure_simps [simp]: "ensure True = Inr ()" "ensure b = Inr u \<longleftrightarrow> b"
  by (simp_all add: ensure_def raise_if_def)

text \<open>Words of \<open>[a-z0-9]+\<close> between single separators; \<open>prev\<close>: a letter or digit before.\<close>

fun words_from :: "char list \<Rightarrow> bool \<Rightarrow> string \<Rightarrow> bool" where
  "words_from seps prev [] \<longleftrightarrow> prev"
| "words_from seps prev (c # cs) \<longleftrightarrow>
     (if is_id_lower c then words_from seps True cs
      else prev \<and> c \<in> set seps \<and> words_from seps False cs)"

definition starts_lower :: "string \<Rightarrow> bool" where
  "starts_lower s \<longleftrightarrow> (case s of [] \<Rightarrow> False | c # _ \<Rightarrow> 97 \<le> code c \<and> code c \<le> 122)"

definition is_canonical_id :: "string \<Rightarrow> bool" where
  "is_canonical_id s \<longleftrightarrow> starts_lower s \<and> words_from ''-'' False s"

definition is_environment_cell_id :: "string \<Rightarrow> bool" where
  "is_environment_cell_id s \<longleftrightarrow> words_from ''-._'' False s"

text \<open>Canonical ids between dots, from \<open>lo\<close> to \<open>hi\<close> of them (\<open>None\<close>: no upper bound).\<close>

definition dotted_id :: "nat \<Rightarrow> nat option \<Rightarrow> string \<Rightarrow> bool" where
  "dotted_id lo hi s \<longleftrightarrow> (let ws = split_on CHR ''.'' s in list_all is_canonical_id ws
     \<and> lo \<le> length ws \<and> (case hi of None \<Rightarrow> True | Some n \<Rightarrow> length ws \<le> n))"

definition is_capability_id :: "string \<Rightarrow> bool" where
  "is_capability_id s \<longleftrightarrow> dotted_id 3 (Some 8) s"

definition schema_word :: "string \<Rightarrow> bool" where
  "schema_word w \<longleftrightarrow> starts_lower w \<and> list_all (\<lambda>c. is_id_lower c \<or> c = CHR ''-'') w"

definition positive_digits :: "string \<Rightarrow> bool" where
  "positive_digits s \<longleftrightarrow> s \<noteq> [] \<and> list_all is_dec s \<and> hd s \<noteq> CHR ''0''"

definition is_schema_id :: "string \<Rightarrow> bool" where
  "is_schema_id s \<longleftrightarrow>
     (let ws = split_on CHR '':'' s in 5 \<le> length ws
        \<and> take 3 ws = [''urn'', ''battlebelief'', ''schema'']
        \<and> list_all schema_word (butlast (drop 3 ws))
        \<and> starts_with ''v'' (last ws) \<and> positive_digits (drop 1 (last ws)))"

definition is_canonical_decimal :: "string \<Rightarrow> bool" where
  "is_canonical_decimal s \<longleftrightarrow>
     (case split_on CHR ''.'' s of
        [w] \<Rightarrow> w = ''0'' \<or> positive_digits w
      | [w, f] \<Rightarrow> (w = ''0'' \<or> positive_digits w) \<and> f \<noteq> [] \<and> list_all is_dec f \<and> last f \<noteq> CHR ''0''
      | _ \<Rightarrow> False)"

definition require_nonempty :: "string \<Rightarrow> py_exc + unit" where
  "require_nonempty s = ensure (s \<noteq> [])"

definition require_canonical_id :: "string \<Rightarrow> py_exc + unit" where
  "require_canonical_id s = ensure (is_canonical_id s)"

definition require_environment_cell_id :: "string \<Rightarrow> py_exc + unit" where
  "require_environment_cell_id s = ensure (is_environment_cell_id s)"

definition require_schema_id :: "string \<Rightarrow> py_exc + unit" where
  "require_schema_id s = ensure (is_schema_id s)"

definition uniquely_sorted :: "'a::linorder list \<Rightarrow> bool" where
  "uniquely_sorted xs \<longleftrightarrow> xs = sort xs \<and> distinct xs"

section \<open>The catalog\<close>

record capability_id =
  ci_value :: string
  ci_catalog_digest :: string

record capability_definition =
  cd_value :: string
  cd_description :: string

definition check_definition :: "capability_definition \<Rightarrow> py_exc + unit" where
  "check_definition d =
     ebind (ensure (list_all is_ascii (cd_value d) \<and> length (cd_value d) \<le> 128
       \<and> is_capability_id (cd_value d) \<and> starts_with ''gen9.'' (cd_value d))) (\<lambda>_.
       require_nonempty (cd_description d))"

record capability_catalog =
  cc_catalog_id :: string
  cc_catalog_version :: string
  cc_generation :: int
  cc_format :: string
  cc_capability_contract_id :: string
  cc_capability_contract_version :: string
  cc_capability_contract_digest :: string
  cc_canonicalization_contract_id :: string
  cc_canonicalization_contract_version :: string
  cc_canonicalization_contract_digest :: string
  cc_catalog_digest :: string
  cc_definitions :: "capability_definition list"

definition definition_values :: "capability_catalog \<Rightarrow> string list" where
  "definition_values c = map cd_value (cc_definitions c)"

definition definition_dict :: "capability_definition \<Rightarrow> json" where
  "definition_dict d = JObject [(''value'', JString (cd_value d)),
     (''description'', JString (cd_description d))]"

text \<open>The document of a catalog, which its digest binds.\<close>

definition catalog_document :: "capability_catalog \<Rightarrow> (string \<times> json) list" where
  "catalog_document c =
     [(''schema_version'', JInt 1), (''catalog_id'', JString (cc_catalog_id c)),
      (''catalog_version'', JString (cc_catalog_version c)),
      (''generation'', JInt (cc_generation c)), (''format'', JString (cc_format c)),
      (''capability_contract_id'', JString (cc_capability_contract_id c)),
      (''capability_contract_version'', JString (cc_capability_contract_version c)),
      (''capability_contract_digest'', JString (cc_capability_contract_digest c)),
      (''canonicalization_contract_id'', JString (cc_canonicalization_contract_id c)),
      (''canonicalization_contract_version'', JString (cc_canonicalization_contract_version c)),
      (''canonicalization_contract_digest'', JString (cc_canonicalization_contract_digest c)),
      (''definitions'', JList (map definition_dict (cc_definitions c)))]"

definition derive_catalog_digest :: "digest_fn \<Rightarrow> capability_catalog \<Rightarrow> py_exc + string" where
  "derive_catalog_digest manifest c = manifest (JObject (catalog_document c))"

definition gen9ou :: string where
  "gen9ou = ''gen9ou''"

definition check_catalog :: "digest_fn \<Rightarrow> capability_catalog \<Rightarrow> py_exc + unit" where
  "check_catalog manifest c =
     ebind (require_canonical_id (cc_catalog_id c)) (\<lambda>_.
     ebind (require_nonempty (cc_catalog_version c)) (\<lambda>_.
     ebind (ensure (cc_generation c = 9 \<and> cc_format c = gen9ou)) (\<lambda>_.
     ebind (require_canonical_id (cc_capability_contract_id c)) (\<lambda>_.
     ebind (require_nonempty (cc_capability_contract_version c)) (\<lambda>_.
     ebind (require_digest (cc_capability_contract_digest c)) (\<lambda>_.
     ebind (require_canonical_id (cc_canonicalization_contract_id c)) (\<lambda>_.
     ebind (require_nonempty (cc_canonicalization_contract_version c)) (\<lambda>_.
     ebind (require_digest (cc_canonicalization_contract_digest c)) (\<lambda>_.
     ebind (ensure (cc_definitions c \<noteq> [])) (\<lambda>_.
     ebind (ensure (uniquely_sorted (definition_values c))) (\<lambda>_.
     ebind (derive_catalog_digest manifest c) (\<lambda>expected.
       ensure (cc_catalog_digest c = expected)))))))))))))"

text \<open>
  \<open>create\<close>: the ids, versions and digests of the two contracts, and the definitions, in the
  order of the parameters.
\<close>

definition create_catalog ::
    "digest_fn \<Rightarrow> string \<Rightarrow> string \<Rightarrow> string \<Rightarrow> string \<Rightarrow> string \<Rightarrow> string \<Rightarrow> string \<Rightarrow> string
     \<Rightarrow> capability_definition list \<Rightarrow> py_exc + capability_catalog" where
  "create_catalog manifest catalog_id version cap_id cap_version cap_digest canon_id canon_version
     canon_digest definitions =
     (let c = \<lparr>cc_catalog_id = catalog_id, cc_catalog_version = version, cc_generation = 9,
        cc_format = gen9ou, cc_capability_contract_id = cap_id,
        cc_capability_contract_version = cap_version, cc_capability_contract_digest = cap_digest,
        cc_canonicalization_contract_id = canon_id,
        cc_canonicalization_contract_version = canon_version,
        cc_canonicalization_contract_digest = canon_digest, cc_catalog_digest = [],
        cc_definitions = definitions\<rparr>
      in ebind (derive_catalog_digest manifest c) (\<lambda>digest.
         (let c' = c\<lparr>cc_catalog_digest := digest\<rparr>
          in ebind (check_catalog manifest c') (\<lambda>_. Inr c'))))"

text \<open>\<open>set(document) == {...}\<close> for a mapping, whose keys are distinct.\<close>

definition has_exact_keys :: "string list \<Rightarrow> (string \<times> json) list \<Rightarrow> bool" where
  "has_exact_keys ks d \<longleftrightarrow> list_all (\<lambda>k. k \<in> set (map fst d)) ks \<and> list_all (\<lambda>k. k \<in> set ks) (map fst d)"

definition plain_text :: "json \<Rightarrow> py_exc + string" where
  "plain_text v = (case v of JString s \<Rightarrow> Inr s | _ \<Rightarrow> Inl ValueError)"

definition equals_integer :: "(string \<Rightarrow> int option) \<Rightarrow> json \<Rightarrow> int \<Rightarrow> bool" where
  "equals_integer float_integer v n = (case v of
     JInt m \<Rightarrow> m = n | JFloat t \<Rightarrow> float_integer t = Some n
   | JBool b \<Rightarrow> (if b then 1 else 0) = n | _ \<Rightarrow> False)"

definition definition_of_document :: "json \<Rightarrow> py_exc + capability_definition" where
  "definition_of_document v =
     (case v of
        JObject d \<Rightarrow>
          ebind (ensure (has_exact_keys [''value'', ''description''] d)) (\<lambda>_.
          ebind (plain_text (lookup_json d ''value'')) (\<lambda>value.
          ebind (plain_text (lookup_json d ''description'')) (\<lambda>description.
          (let c = \<lparr>cd_value = value, cd_description = description\<rparr>
           in ebind (check_definition c) (\<lambda>_. Inr c)))))
      | _ \<Rightarrow> Inl ValueError)"

definition catalog_of_document ::
    "(string \<Rightarrow> int option) \<Rightarrow> digest_fn \<Rightarrow> (string \<times> json) list \<Rightarrow> py_exc + capability_catalog" where
  "catalog_of_document float_integer manifest d =
     ebind (ensure (has_exact_keys [''schema_version'', ''catalog_id'', ''catalog_version'',
        ''generation'', ''format'', ''capability_contract_id'', ''capability_contract_version'',
        ''capability_contract_digest'', ''canonicalization_contract_id'',
        ''canonicalization_contract_version'', ''canonicalization_contract_digest'',
        ''definitions''] d)) (\<lambda>_.
     ebind (case lookup_json d ''definitions'' of JList vs \<Rightarrow> Inr vs | _ \<Rightarrow> Inl ValueError) (\<lambda>vs.
     ebind (emap definition_of_document vs) (\<lambda>definitions.
     ebind (ensure (lookup_json d ''schema_version'' = JInt 1
        \<and> equals_integer float_integer (lookup_json d ''generation'') 9
        \<and> lookup_json d ''format'' = JString gen9ou)) (\<lambda>_.
     ebind (emap (\<lambda>k. plain_text (lookup_json d k))
        [''catalog_id'', ''catalog_version'', ''capability_contract_id'',
         ''capability_contract_version'', ''capability_contract_digest'',
         ''canonicalization_contract_id'', ''canonicalization_contract_version'',
         ''canonicalization_contract_digest'']) (\<lambda>ts.
       create_catalog manifest (ts ! 0) (ts ! 1) (ts ! 2) (ts ! 3) (ts ! 4) (ts ! 5) (ts ! 6)
         (ts ! 7) definitions)))))"

definition id_for :: "capability_catalog \<Rightarrow> string \<Rightarrow> py_exc + capability_id" where
  "id_for c value =
     ebind (ensure (value \<in> set (definition_values c))) (\<lambda>_.
       Inr \<lparr>ci_value = value, ci_catalog_digest = cc_catalog_digest c\<rparr>)"

definition require_capability :: "capability_catalog \<Rightarrow> capability_id \<Rightarrow> py_exc + capability_id" where
  "require_capability c i =
     ebind (ensure (ci_catalog_digest i = cc_catalog_digest c \<and> ci_value i \<in> set (definition_values c)))
       (\<lambda>_. Inr i)"

section \<open>Claims and evidence\<close>

datatype capability_status = Cap_Exact | Cap_Bounded | Cap_Unsupported | Cap_Unknown

record capability_approximation =
  ap_metric_id :: string
  ap_maximum :: string
  ap_unit_id :: string
  ap_condition_id :: string

definition check_approximation :: "capability_approximation \<Rightarrow> py_exc + unit" where
  "check_approximation a =
     ebind (require_canonical_id (ap_metric_id a)) (\<lambda>_.
     ebind (ensure (is_canonical_decimal (ap_maximum a))) (\<lambda>_.
     ebind (require_canonical_id (ap_unit_id a)) (\<lambda>_.
       require_canonical_id (ap_condition_id a))))"

record capability_migration =
  mg_source_schema_id :: string
  mg_source_document_id :: string
  mg_source_digest :: string
  mg_migrator_id :: string
  mg_migrator_version :: string
  mg_loss_codes :: "string list"
  mg_loss_report_id :: string
  mg_loss_report_digest :: string

definition v1_schema_id :: string where
  "v1_schema_id = ''urn:battlebelief:schema:manifest:engine-capability:v1''"

definition v1_to_v2_migrator_id :: string where
  "v1_to_v2_migrator_id = ''battlebelief.engine-capability-v1-to-v2''"

definition v1_to_v2_migrator_version :: string where
  "v1_to_v2_migrator_version = ''1''"

definition v1_to_v2_loss_codes :: "string list" where
  "v1_to_v2_loss_codes = [''approximated'', ''exact'', ''known-divergences'', ''unsupported'']"

definition check_migration :: "capability_migration \<Rightarrow> py_exc + unit" where
  "check_migration m =
     ebind (require_schema_id (mg_source_schema_id m)) (\<lambda>_.
     ebind (ensure (mg_source_schema_id m = v1_schema_id)) (\<lambda>_.
     ebind (require_canonical_id (mg_source_document_id m)) (\<lambda>_.
     ebind (require_digest (mg_source_digest m)) (\<lambda>_.
     ebind (require_nonempty (mg_migrator_id m)) (\<lambda>_.
     ebind (require_nonempty (mg_migrator_version m)) (\<lambda>_.
     ebind (ensure (mg_migrator_id m = v1_to_v2_migrator_id
       \<and> mg_migrator_version m = v1_to_v2_migrator_version)) (\<lambda>_.
     ebind (ensure (mg_loss_codes m \<noteq> [] \<and> uniquely_sorted (mg_loss_codes m))) (\<lambda>_.
     ebind (emap require_canonical_id (mg_loss_codes m)) (\<lambda>_.
     ebind (ensure (mg_loss_codes m = v1_to_v2_loss_codes)) (\<lambda>_.
     ebind (require_canonical_id (mg_loss_report_id m)) (\<lambda>_.
       require_digest (mg_loss_report_digest m))))))))))))"

definition migration_document :: "capability_migration \<Rightarrow> (string \<times> json) list" where
  "migration_document m =
     [(''source_schema_id'', JString (mg_source_schema_id m)),
      (''source_document_id'', JString (mg_source_document_id m)),
      (''source_digest'', JString (mg_source_digest m)),
      (''migrator_id'', JString (mg_migrator_id m)),
      (''migrator_version'', JString (mg_migrator_version m)),
      (''loss_codes'', JList (map JString (mg_loss_codes m))),
      (''loss_report_id'', JString (mg_loss_report_id m)),
      (''loss_report_digest'', JString (mg_loss_report_digest m))]"

record environment_binding =
  eb_environment_cell_id :: string
  eb_engine_build_manifest_digest :: string
  eb_wheel_digest :: string

definition check_environment_binding :: "environment_binding \<Rightarrow> py_exc + unit" where
  "check_environment_binding b =
     ebind (require_environment_cell_id (eb_environment_cell_id b)) (\<lambda>_.
     ebind (require_digest (eb_engine_build_manifest_digest b)) (\<lambda>_.
       require_digest (eb_wheel_digest b)))"

record evidence_ref =
  er_evidence_id :: string
  er_evidence_digest :: string
  er_catalog_id :: string
  er_catalog_version :: string
  er_capability_id :: capability_id
  er_catalog_digest :: string
  er_canonicalization_contract_digest :: string
  er_environment_cell_id :: string
  er_engine_source_manifest_digest :: string
  er_engine_build_manifest_digest :: string
  er_artifact_index_digest :: string
  er_wheel_digest :: string
  er_transition_adapter_id :: string
  er_transition_adapter_version :: string
  er_transition_adapter_source_digest :: string
  er_transition_model_contract_digest :: string
  er_transition_adapter_conformance_digest :: string
  er_oracle_source_manifest_digest :: string
  er_oracle_build_manifest_digest :: string
  er_ruleset_digest :: string
  er_corpus_digest :: string
  er_runner_source_digest :: string
  er_classifier_source_digest :: string
  er_qualification_result_schema_id :: string
  er_qualification_result_digest :: string

text \<open>The digests of a reference, in the order of \<open>_EVIDENCE_DIGEST_FIELDS\<close>.\<close>

definition evidence_digests :: "evidence_ref \<Rightarrow> string list" where
  "evidence_digests r = [er_evidence_digest r, er_catalog_digest r,
     er_canonicalization_contract_digest r, er_engine_source_manifest_digest r,
     er_engine_build_manifest_digest r, er_artifact_index_digest r, er_wheel_digest r,
     er_transition_adapter_source_digest r, er_transition_model_contract_digest r,
     er_transition_adapter_conformance_digest r, er_oracle_source_manifest_digest r,
     er_oracle_build_manifest_digest r, er_ruleset_digest r, er_corpus_digest r,
     er_runner_source_digest r, er_classifier_source_digest r, er_qualification_result_digest r]"

definition check_evidence_ref :: "evidence_ref \<Rightarrow> py_exc + unit" where
  "check_evidence_ref r =
     ebind (require_canonical_id (er_evidence_id r)) (\<lambda>_.
     ebind (require_digest (er_evidence_digest r)) (\<lambda>_.
     ebind (require_canonical_id (er_catalog_id r)) (\<lambda>_.
     ebind (require_nonempty (er_catalog_version r)) (\<lambda>_.
     ebind (require_digest (er_catalog_digest r)) (\<lambda>_.
     ebind (ensure (ci_catalog_digest (er_capability_id r) = er_catalog_digest r)) (\<lambda>_.
     ebind (require_digest (er_canonicalization_contract_digest r)) (\<lambda>_.
     ebind (require_environment_cell_id (er_environment_cell_id r)) (\<lambda>_.
     ebind (require_canonical_id (er_transition_adapter_id r)) (\<lambda>_.
     ebind (require_nonempty (er_transition_adapter_version r)) (\<lambda>_.
     ebind (require_schema_id (er_qualification_result_schema_id r)) (\<lambda>_.
       require_digests (evidence_digests r))))))))))))"

text \<open>The document of a reference, in the order of \<open>_EVIDENCE_REF_FIELDS\<close>.\<close>

definition evidence_fields :: "evidence_ref \<Rightarrow> (string \<times> string) list" where
  "evidence_fields r =
     [(''evidence_id'', er_evidence_id r), (''evidence_digest'', er_evidence_digest r),
      (''catalog_id'', er_catalog_id r), (''catalog_version'', er_catalog_version r),
      (''capability_id'', ci_value (er_capability_id r)), (''catalog_digest'', er_catalog_digest r),
      (''canonicalization_contract_digest'', er_canonicalization_contract_digest r),
      (''environment_cell_id'', er_environment_cell_id r),
      (''engine_source_manifest_digest'', er_engine_source_manifest_digest r),
      (''engine_build_manifest_digest'', er_engine_build_manifest_digest r),
      (''artifact_index_digest'', er_artifact_index_digest r), (''wheel_digest'', er_wheel_digest r),
      (''transition_adapter_id'', er_transition_adapter_id r),
      (''transition_adapter_version'', er_transition_adapter_version r),
      (''transition_adapter_source_digest'', er_transition_adapter_source_digest r),
      (''transition_model_contract_digest'', er_transition_model_contract_digest r),
      (''transition_adapter_conformance_digest'', er_transition_adapter_conformance_digest r),
      (''oracle_source_manifest_digest'', er_oracle_source_manifest_digest r),
      (''oracle_build_manifest_digest'', er_oracle_build_manifest_digest r),
      (''ruleset_digest'', er_ruleset_digest r), (''corpus_digest'', er_corpus_digest r),
      (''runner_source_digest'', er_runner_source_digest r),
      (''classifier_source_digest'', er_classifier_source_digest r),
      (''qualification_result_schema_id'', er_qualification_result_schema_id r),
      (''qualification_result_digest'', er_qualification_result_digest r)]"

definition evidence_document :: "evidence_ref \<Rightarrow> json" where
  "evidence_document r = JObject (map (\<lambda>(k, v). (k, JString v)) (evidence_fields r))"

definition evidence_document_fields :: "string list" where
  "evidence_document_fields =
     [''schema_version'', ''evidence_id'', ''catalog_id'', ''catalog_version'', ''catalog_digest'',
      ''capability_id'', ''environment_cell_id'', ''engine_source_manifest_digest'',
      ''engine_build_manifest_digest'', ''artifact_index_digest'', ''wheel_digest'',
      ''transition_adapter_id'', ''transition_adapter_version'',
      ''transition_adapter_source_digest'', ''transition_model_contract_digest'',
      ''transition_adapter_conformance_digest'', ''oracle_source_manifest_digest'',
      ''oracle_build_manifest_digest'', ''ruleset_digest'', ''corpus_digest'',
      ''runner_source_digest'', ''classifier_source_digest'', ''qualification_result_schema_id'',
      ''qualification_result_digest'', ''canonicalization_contract_digest'']"

text \<open>\<open>except (TypeError, ValueError) as error: raise ValueError(...)\<close>.\<close>

definition as_value_error :: "py_exc + 'a \<Rightarrow> py_exc + 'a" where
  "as_value_error m = (case m of Inl e \<Rightarrow> Inl (if e = TypeError then ValueError else e) | Inr x \<Rightarrow> Inr x)"

definition evidence_of_document ::
    "digest_fn \<Rightarrow> capability_catalog \<Rightarrow> (string \<times> json) list \<Rightarrow> py_exc + evidence_ref" where
  "evidence_of_document manifest c d =
     ebind (ensure (has_exact_keys evidence_document_fields d)) (\<lambda>_.
     ebind (ensure (lookup_json d ''schema_version'' = JInt 1)) (\<lambda>_.
     ebind (ensure (lookup_json d ''catalog_id'' = JString (cc_catalog_id c)
       \<and> lookup_json d ''catalog_version'' = JString (cc_catalog_version c)
       \<and> lookup_json d ''catalog_digest'' = JString (cc_catalog_digest c)
       \<and> lookup_json d ''canonicalization_contract_digest''
          = JString (cc_canonicalization_contract_digest c))) (\<lambda>_.
     ebind (plain_text (lookup_json d ''capability_id'')) (\<lambda>capability.
     ebind (emap (\<lambda>k. plain_text (lookup_json d k))
       (filter (\<lambda>k. k \<notin> {''schema_version'', ''capability_id''}) evidence_document_fields)) (\<lambda>_.
     (let t = (\<lambda>k. case lookup_json d k of JString s \<Rightarrow> s | _ \<Rightarrow> []) in
      as_value_error
       (ebind (manifest (JObject d)) (\<lambda>digest.
        ebind (id_for c capability) (\<lambda>cap.
        (let r = \<lparr>er_evidence_id = t ''evidence_id'', er_evidence_digest = digest,
            er_catalog_id = t ''catalog_id'', er_catalog_version = t ''catalog_version'',
            er_capability_id = cap, er_catalog_digest = t ''catalog_digest'',
            er_canonicalization_contract_digest = t ''canonicalization_contract_digest'',
            er_environment_cell_id = t ''environment_cell_id'',
            er_engine_source_manifest_digest = t ''engine_source_manifest_digest'',
            er_engine_build_manifest_digest = t ''engine_build_manifest_digest'',
            er_artifact_index_digest = t ''artifact_index_digest'',
            er_wheel_digest = t ''wheel_digest'',
            er_transition_adapter_id = t ''transition_adapter_id'',
            er_transition_adapter_version = t ''transition_adapter_version'',
            er_transition_adapter_source_digest = t ''transition_adapter_source_digest'',
            er_transition_model_contract_digest = t ''transition_model_contract_digest'',
            er_transition_adapter_conformance_digest = t ''transition_adapter_conformance_digest'',
            er_oracle_source_manifest_digest = t ''oracle_source_manifest_digest'',
            er_oracle_build_manifest_digest = t ''oracle_build_manifest_digest'',
            er_ruleset_digest = t ''ruleset_digest'', er_corpus_digest = t ''corpus_digest'',
            er_runner_source_digest = t ''runner_source_digest'',
            er_classifier_source_digest = t ''classifier_source_digest'',
            er_qualification_result_schema_id = t ''qualification_result_schema_id'',
            er_qualification_result_digest = t ''qualification_result_digest''\<rparr>
         in ebind (check_evidence_ref r) (\<lambda>_. Inr r)))))))))))"

record capability_claim =
  cl_capability_id :: capability_id
  cl_status :: capability_status
  cl_evidence_refs :: "evidence_ref list"
  cl_approximation :: "capability_approximation option"

definition qualifying :: "capability_claim \<Rightarrow> bool" where
  "qualifying c \<longleftrightarrow> cl_status c = Cap_Exact \<or> cl_status c = Cap_Bounded"

definition check_claim :: "capability_claim \<Rightarrow> py_exc + unit" where
  "check_claim c =
     ebind (ensure (list_all (\<lambda>r. er_capability_id r = cl_capability_id c) (cl_evidence_refs c))) (\<lambda>_.
     ebind (ensure (uniquely_sorted (map er_environment_cell_id (cl_evidence_refs c)))) (\<lambda>_.
     ebind (ensure (qualifying c \<longleftrightarrow> cl_evidence_refs c \<noteq> [])) (\<lambda>_.
       ensure (cl_status c = Cap_Bounded \<longleftrightarrow> cl_approximation c \<noteq> None))))"


section \<open>The manifest\<close>

record capability_manifest =
  em_manifest_id :: string
  em_catalog :: capability_catalog
  em_generation :: int
  em_format :: string
  em_engine_source_manifest_digest :: string
  em_artifact_index_digest :: string
  em_environment_bindings :: "environment_binding list"
  em_transition_adapter_id :: "string option"
  em_transition_adapter_version :: "string option"
  em_transition_adapter_source_digest :: "string option"
  em_transition_model_contract_digest :: "string option"
  em_transition_adapter_conformance_digest :: "string option"
  em_oracle_source_manifest_digest :: "string option"
  em_oracle_build_manifest_digest :: "string option"
  em_ruleset_digest :: "string option"
  em_corpus_digest :: "string option"
  em_runner_source_digest :: "string option"
  em_classifier_source_digest :: "string option"
  em_evidence_set_digest :: "string option"
  em_canonicalization_contract_digest :: string
  em_migration :: "capability_migration option"
  em_claims :: "capability_claim list"

text \<open>\<open>_ADAPTER_FIELDS\<close>, \<open>_ADAPTER_DIGEST_FIELDS\<close> and \<open>_OPTIONAL_CLOSURE_DIGEST_FIELDS\<close>.\<close>

definition adapter_values :: "capability_manifest \<Rightarrow> string option list" where
  "adapter_values m = [em_transition_adapter_id m, em_transition_adapter_version m,
     em_transition_adapter_source_digest m, em_transition_model_contract_digest m,
     em_transition_adapter_conformance_digest m]"

definition closure_values :: "capability_manifest \<Rightarrow> string option list" where
  "closure_values m = [em_oracle_source_manifest_digest m, em_oracle_build_manifest_digest m,
     em_ruleset_digest m, em_corpus_digest m, em_runner_source_digest m,
     em_classifier_source_digest m, em_evidence_set_digest m]"

definition unset :: "'a option \<Rightarrow> bool" where
  "unset v \<longleftrightarrow> (case v of None \<Rightarrow> True | Some _ \<Rightarrow> False)"

lemma unset_simps [simp]: "unset None" "\<not> unset (Some x)" "unset v \<longleftrightarrow> v = None"
  by (simp_all add: unset_def split: option.splits)

definition bound_cells :: "capability_manifest \<Rightarrow> string list" where
  "bound_cells m = map eb_environment_cell_id (em_environment_bindings m)"

definition binding_of :: "capability_manifest \<Rightarrow> string \<Rightarrow> environment_binding option" where
  "binding_of m cell = find (\<lambda>b. eb_environment_cell_id b = cell) (em_environment_bindings m)"

text \<open>The key of a reference and \<open>evidence_set_digest_for\<close>, which sorts by it.\<close>

definition evidence_key :: "evidence_ref \<Rightarrow> string list" where
  "evidence_key r = map snd (evidence_fields r)"

definition evidence_set_digest_for :: "digest_fn \<Rightarrow> evidence_ref list \<Rightarrow> py_exc + string" where
  "evidence_set_digest_for manifest refs =
     ebind (ensure (distinct (map evidence_key refs))) (\<lambda>_.
       manifest (JObject [(''evidence_refs'',
         JList (map evidence_document (sort_key evidence_key refs)))]))"

text \<open>\<open>dict.fromkeys\<close> keeps the first of equal references.\<close>

definition manifest_refs :: "capability_manifest \<Rightarrow> evidence_ref list" where
  "manifest_refs m = rev (remdups (rev (concat (map cl_evidence_refs (em_claims m)))))"

text \<open>The provenance fields of \<open>_GLOBAL_EVIDENCE_FIELDS\<close>, in a reference and in a manifest.\<close>

definition ref_provenance :: "evidence_ref \<Rightarrow> string list" where
  "ref_provenance r = [er_engine_source_manifest_digest r, er_artifact_index_digest r,
     er_transition_adapter_id r, er_transition_adapter_version r,
     er_transition_adapter_source_digest r, er_transition_model_contract_digest r,
     er_transition_adapter_conformance_digest r, er_oracle_source_manifest_digest r,
     er_oracle_build_manifest_digest r, er_ruleset_digest r, er_corpus_digest r,
     er_runner_source_digest r, er_classifier_source_digest r]"

definition manifest_provenance :: "capability_manifest \<Rightarrow> string option list" where
  "manifest_provenance m =
     [Some (em_engine_source_manifest_digest m), Some (em_artifact_index_digest m)]
     @ adapter_values m @ butlast (closure_values m)"

definition require_matching_evidence :: "capability_manifest \<Rightarrow> evidence_ref \<Rightarrow> py_exc + unit" where
  "require_matching_evidence m r =
     ebind (ensure (case binding_of m (er_environment_cell_id r) of
        None \<Rightarrow> False
      | Some b \<Rightarrow> er_engine_build_manifest_digest r = eb_engine_build_manifest_digest b
          \<and> er_wheel_digest r = eb_wheel_digest b)) (\<lambda>_.
     ebind (ensure (er_catalog_id r = cc_catalog_id (em_catalog m)
        \<and> er_catalog_version r = cc_catalog_version (em_catalog m)
        \<and> er_catalog_digest r = cc_catalog_digest (em_catalog m)
        \<and> er_canonicalization_contract_digest r = em_canonicalization_contract_digest m)) (\<lambda>_.
       ensure (map Some (ref_provenance r) = manifest_provenance m)))"

definition check_adapter :: "capability_manifest \<Rightarrow> py_exc + unit" where
  "check_adapter m =
     (case those (adapter_values m) of
        Some (i # v # ds) \<Rightarrow>
          ebind (require_canonical_id i) (\<lambda>_.
          ebind (require_nonempty v) (\<lambda>_. require_digests ds))
      | _ \<Rightarrow> ensure (list_all unset (adapter_values m)))"

definition check_optional_digest :: "string option \<Rightarrow> py_exc + unit" where
  "check_optional_digest v = (case v of None \<Rightarrow> Inr () | Some s \<Rightarrow> require_digest s)"

definition qualifying_claims :: "capability_manifest \<Rightarrow> capability_claim list" where
  "qualifying_claims m = filter qualifying (em_claims m)"

text \<open>The last part of \<open>__post_init__\<close>: what the qualifying claims need.\<close>

definition check_qualification :: "digest_fn \<Rightarrow> capability_manifest \<Rightarrow> py_exc + unit" where
  "check_qualification manifest m =
     (let refs = manifest_refs m in
      ebind (ensure (distinct (map er_evidence_id refs))) (\<lambda>_.
      ebind (ensure (distinct (map er_evidence_digest refs))) (\<lambda>_.
      ebind (evidence_set_digest_for manifest refs) (\<lambda>expected.
       if qualifying_claims m \<noteq> [] then
         ebind (ensure (em_environment_bindings m \<noteq> []
           \<and> \<not> list_ex unset (adapter_values m) \<and> \<not> list_ex unset (closure_values m))) (\<lambda>_.
         ebind (ensure (em_evidence_set_digest m = Some expected)) (\<lambda>_.
         ebind (emap (\<lambda>c.
             ebind (ensure (map er_environment_cell_id (cl_evidence_refs c) = bound_cells m)) (\<lambda>_.
               emap (require_matching_evidence m) (cl_evidence_refs c)))
           (qualifying_claims m)) (\<lambda>_. Inr ())))
       else ensure (em_evidence_set_digest m = None \<or> em_evidence_set_digest m = Some expected)))))"

definition check_manifest :: "digest_fn \<Rightarrow> capability_manifest \<Rightarrow> py_exc + unit" where
  "check_manifest manifest m =
     ebind (require_canonical_id (em_manifest_id m)) (\<lambda>_.
     ebind (ensure (em_generation m = 9)) (\<lambda>_.
     ebind (ensure (em_format m = gen9ou)) (\<lambda>_.
     ebind (ensure (cc_generation (em_catalog m) = em_generation m
        \<and> cc_format (em_catalog m) = em_format m
        \<and> cc_canonicalization_contract_digest (em_catalog m)
          = em_canonicalization_contract_digest m)) (\<lambda>_.
     ebind (require_digests [em_engine_source_manifest_digest m, em_artifact_index_digest m,
        em_canonicalization_contract_digest m]) (\<lambda>_.
     ebind (ensure (uniquely_sorted (bound_cells m))) (\<lambda>_.
     ebind (check_adapter m) (\<lambda>_.
     ebind (emap check_optional_digest (closure_values m)) (\<lambda>_.
     ebind (ensure (uniquely_sorted (map (ci_value \<circ> cl_capability_id) (em_claims m)))) (\<lambda>_.
     ebind (emap (require_capability (em_catalog m)) (map cl_capability_id (em_claims m))) (\<lambda>_.
     ebind (ensure (em_migration m = None \<or> em_claims m = []
        \<and> list_all unset (adapter_values m) \<and> list_all unset (closure_values m))) (\<lambda>_.
       check_qualification manifest m)))))))))))"

definition create_unqualified ::
    "digest_fn \<Rightarrow> string \<Rightarrow> capability_catalog \<Rightarrow> int \<Rightarrow> string \<Rightarrow> string \<Rightarrow> string
     \<Rightarrow> environment_binding list \<Rightarrow> string \<Rightarrow> py_exc + capability_manifest" where
  "create_unqualified manifest i c gen fmt engine_source artifacts bindings canonicalization =
     (let m = \<lparr>em_manifest_id = i, em_catalog = c, em_generation = gen, em_format = fmt,
        em_engine_source_manifest_digest = engine_source, em_artifact_index_digest = artifacts,
        em_environment_bindings = bindings, em_transition_adapter_id = None,
        em_transition_adapter_version = None, em_transition_adapter_source_digest = None,
        em_transition_model_contract_digest = None,
        em_transition_adapter_conformance_digest = None, em_oracle_source_manifest_digest = None,
        em_oracle_build_manifest_digest = None, em_ruleset_digest = None, em_corpus_digest = None,
        em_runner_source_digest = None, em_classifier_source_digest = None,
        em_evidence_set_digest = None, em_canonicalization_contract_digest = canonicalization,
        em_migration = None, em_claims = []\<rparr>
      in ebind (check_manifest manifest m) (\<lambda>_. Inr m))"

definition claim_for :: "capability_manifest \<Rightarrow> capability_id \<Rightarrow> py_exc + capability_claim option" where
  "claim_for m i =
     ebind (require_capability (em_catalog m) i) (\<lambda>_.
       Inr (find (\<lambda>c. cl_capability_id c = i) (em_claims m)))"

definition status_for :: "capability_manifest \<Rightarrow> capability_id \<Rightarrow> py_exc + capability_status" where
  "status_for m i =
     ebind (claim_for m i) (\<lambda>c. Inr (case c of None \<Rightarrow> Cap_Unknown | Some c \<Rightarrow> cl_status c))"

definition backend_identity_digest ::
    "digest_fn \<Rightarrow> capability_manifest \<Rightarrow> string \<Rightarrow> py_exc + string" where
  "backend_identity_digest manifest m cell =
     (case those (adapter_values m) of
        None \<Rightarrow> Inl ValueError
      | Some values \<Rightarrow>
          (case binding_of m cell of
             None \<Rightarrow> Inl ValueError
           | Some b \<Rightarrow> manifest (JObject (
               [(''engine_source_manifest_digest'', JString (em_engine_source_manifest_digest m)),
                (''artifact_index_digest'', JString (em_artifact_index_digest m)),
                (''environment_cell_id'', JString (eb_environment_cell_id b)),
                (''engine_build_manifest_digest'', JString (eb_engine_build_manifest_digest b)),
                (''wheel_digest'', JString (eb_wheel_digest b))]
               @ zip [''transition_adapter_id'', ''transition_adapter_version'',
                      ''transition_adapter_source_digest'', ''transition_model_contract_digest'',
                      ''transition_adapter_conformance_digest''] (map JString values)))))"

section \<open>What an accepted manifest promises\<close>

lemma emap_Inr_all: "emap f xs = Inr ys \<Longrightarrow> x \<in> set xs \<Longrightarrow> \<exists>y. f x = Inr y"
  by (auto simp: emap_eq_Inr list_all2_conv_all_nth in_set_conv_nth)

lemma uniquely_sorted_distinct: "uniquely_sorted xs \<Longrightarrow> distinct xs"
  by (simp add: uniquely_sorted_def)

lemma find_distinct_key:
  "distinct (map f xs) \<Longrightarrow> x \<in> set xs \<Longrightarrow> find (\<lambda>y. f y = f x) xs = Some x"
  by (induction xs) auto

lemma find_Some_in: "find P xs = Some x \<Longrightarrow> x \<in> set xs \<and> P x"
  by (induction xs) (auto split: if_splits)

lemma those_eq_Some: "those xs = Some ys \<longleftrightarrow> xs = map Some ys"
proof (induction xs arbitrary: ys)
  case (Cons x xs)
  then show ?case by (cases ys) (auto split: option.splits)
qed auto

lemma those_not_unset: "\<not> list_ex unset xs \<longleftrightarrow> (\<exists>ys. those xs = Some ys)"
proof (induction xs)
  case (Cons x xs)
  then show ?case by (cases x) auto
qed simp

lemma check_manifest_parts:
  assumes "check_manifest manifest m = Inr ()"
  shows "uniquely_sorted (bound_cells m)"
    and "uniquely_sorted (map (ci_value \<circ> cl_capability_id) (em_claims m))"
    and "\<And>c. c \<in> set (em_claims m) \<Longrightarrow> ci_catalog_digest (cl_capability_id c) = cc_catalog_digest (em_catalog m)
           \<and> ci_value (cl_capability_id c) \<in> set (definition_values (em_catalog m))"
    and "em_migration m \<noteq> None \<Longrightarrow> em_claims m = [] \<and> list_all unset (adapter_values m)"
    and "check_qualification manifest m = Inr ()"
proof -
  have 1: "uniquely_sorted (bound_cells m) \<and>
    uniquely_sorted (map (ci_value \<circ> cl_capability_id) (em_claims m)) \<and>
    (\<exists>ys. emap (require_capability (em_catalog m)) (map cl_capability_id (em_claims m)) = Inr ys) \<and>
    (em_migration m \<noteq> None \<longrightarrow> em_claims m = [] \<and> list_all unset (adapter_values m)) \<and>
    check_qualification manifest m = Inr ()"
    using assms unfolding check_manifest_def by (auto simp only: ebind_eq_Inr ensure_simps)
  then show "uniquely_sorted (bound_cells m)"
    and "uniquely_sorted (map (ci_value \<circ> cl_capability_id) (em_claims m))"
    and "em_migration m \<noteq> None \<Longrightarrow> em_claims m = [] \<and> list_all unset (adapter_values m)"
    and "check_qualification manifest m = Inr ()" by blast+
  show "ci_catalog_digest (cl_capability_id c) = cc_catalog_digest (em_catalog m)
           \<and> ci_value (cl_capability_id c) \<in> set (definition_values (em_catalog m))"
    if "c \<in> set (em_claims m)" for c
  proof -
    obtain ys where ys: "emap (require_capability (em_catalog m)) (map cl_capability_id (em_claims m)) = Inr ys"
      using 1 by blast
    have "cl_capability_id c \<in> set (map cl_capability_id (em_claims m))" using that by simp
    from emap_Inr_all [OF ys this]
    obtain y where "require_capability (em_catalog m) (cl_capability_id c) = Inr y" by blast
    then show ?thesis by (auto simp: require_capability_def result_simps)
  qed
qed

lemma matching_evidence:
  "require_matching_evidence m r = Inr u \<longleftrightarrow>
     (\<exists>b. binding_of m (er_environment_cell_id r) = Some b
        \<and> er_engine_build_manifest_digest r = eb_engine_build_manifest_digest b
        \<and> er_wheel_digest r = eb_wheel_digest b)
     \<and> er_catalog_id r = cc_catalog_id (em_catalog m)
     \<and> er_catalog_version r = cc_catalog_version (em_catalog m)
     \<and> er_catalog_digest r = cc_catalog_digest (em_catalog m)
     \<and> er_canonicalization_contract_digest r = em_canonicalization_contract_digest m
     \<and> map Some (ref_provenance r) = manifest_provenance m"
  by (auto simp: require_matching_evidence_def result_simps split: option.splits)

lemma qualifying_claim_evidenced:
  assumes "check_qualification manifest m = Inr ()" "c \<in> set (em_claims m)" "qualifying c"
  shows "em_environment_bindings m \<noteq> []"
    and "\<exists>values. those (adapter_values m) = Some values"
    and "map er_environment_cell_id (cl_evidence_refs c) = bound_cells m"
    and "r \<in> set (cl_evidence_refs c) \<Longrightarrow> require_matching_evidence m r = Inr ()"
    and "\<exists>digest. em_evidence_set_digest m = Some digest
      \<and> evidence_set_digest_for manifest (manifest_refs m) = Inr digest"
proof -
  let ?check = "\<lambda>c. ebind (ensure (map er_environment_cell_id (cl_evidence_refs c) = bound_cells m)) (\<lambda>_.
               emap (require_matching_evidence m) (cl_evidence_refs c))"
  have in_q: "c \<in> set (qualifying_claims m)" using assms by (simp add: qualifying_claims_def)
  then have q: "qualifying_claims m \<noteq> []" by auto
  have 1: "em_environment_bindings m \<noteq> [] \<and> \<not> list_ex unset (adapter_values m) \<and>
     (\<exists>digest. em_evidence_set_digest m = Some digest
      \<and> evidence_set_digest_for manifest (manifest_refs m) = Inr digest) \<and>
     (\<exists>ys. emap ?check (qualifying_claims m) = Inr ys)"
    using assms(1) q
    by (simp only: check_qualification_def Let_def ebind_eq_Inr ensure_simps if_True not_False_eq_True
        simp_thms) blast
  then show "em_environment_bindings m \<noteq> []" "\<exists>values. those (adapter_values m) = Some values"
    "\<exists>digest. em_evidence_set_digest m = Some digest
      \<and> evidence_set_digest_for manifest (manifest_refs m) = Inr digest"
    by (auto simp: those_not_unset)
  obtain y where y: "?check c = Inr y" using 1 emap_Inr_all [OF _ in_q] by blast
  then show "map er_environment_cell_id (cl_evidence_refs c) = bound_cells m"
    by (auto simp: result_simps)
  show "require_matching_evidence m r = Inr ()" if "r \<in> set (cl_evidence_refs c)"
  proof -
    have "emap (require_matching_evidence m) (cl_evidence_refs c) = Inr y" using y by (simp add: result_simps)
    from emap_Inr_all [OF this that] show ?thesis by simp
  qed
qed

lemma claim_for_some:
  "claim_for m i = Inr (Some c) \<Longrightarrow> c \<in> set (em_claims m) \<and> cl_capability_id c = i"
  by (auto simp: claim_for_def result_simps dest: find_Some_in)

lemma binding_of_bound:
  assumes "uniquely_sorted (bound_cells m)" "b \<in> set (em_environment_bindings m)"
  shows "binding_of m (eb_environment_cell_id b) = Some b"
  using uniquely_sorted_distinct [OF assms(1)] assms(2)
  by (simp add: binding_of_def bound_cells_def find_distinct_key)

text \<open>A status that qualifies rests on one evidence reference for each bound cell.\<close>

lemma evidenced_status:
  assumes "check_manifest manifest m = Inr ()" "status_for m i = Inr s" "s = Cap_Exact \<or> s = Cap_Bounded"
    and "b \<in> set (em_environment_bindings m)"
  shows "\<exists>c\<in>set (em_claims m). cl_capability_id c = i \<and> cl_status c = s \<and>
    (\<exists>r\<in>set (cl_evidence_refs c). er_environment_cell_id r = eb_environment_cell_id b
        \<and> er_engine_build_manifest_digest r = eb_engine_build_manifest_digest b
        \<and> er_wheel_digest r = eb_wheel_digest b
        \<and> er_catalog_digest r = cc_catalog_digest (em_catalog m)
        \<and> map Some (ref_provenance r) = manifest_provenance m)"
proof -
  note parts = check_manifest_parts [OF assms(1)]
  obtain c where c: "claim_for m i = Inr (Some c)" "cl_status c = s"
    using assms(2,3) by (auto simp: status_for_def result_simps split: option.splits)
  note in_m = claim_for_some [OF c(1)]
  have q: "qualifying c" using c(2) assms(3) by (simp add: qualifying_def)
  note ev = qualifying_claim_evidenced [OF parts(5) conjunct1 [OF in_m] q]
  have "eb_environment_cell_id b \<in> set (map er_environment_cell_id (cl_evidence_refs c))"
    unfolding ev(3) using assms(4) by (simp add: bound_cells_def)
  then obtain r where r: "r \<in> set (cl_evidence_refs c)" "er_environment_cell_id r = eb_environment_cell_id b"
    by auto
  show ?thesis
    using ev(4) [OF r(1)] r in_m c(2) binding_of_bound [OF parts(1) assms(4)]
    by (auto simp: matching_evidence)
qed

lemma evidenced_backend:
  assumes "check_manifest manifest m = Inr ()" "status_for m i = Inr s" "s = Cap_Exact \<or> s = Cap_Bounded"
    and "b \<in> set (em_environment_bindings m)"
  shows "\<exists>document. backend_identity_digest manifest m (eb_environment_cell_id b) = manifest document"
proof -
  note parts = check_manifest_parts [OF assms(1)]
  obtain c where c: "claim_for m i = Inr (Some c)" "cl_status c = s"
    using assms(2,3) by (auto simp: status_for_def result_simps split: option.splits)
  have q: "qualifying c" using c(2) assms(3) by (simp add: qualifying_def)
  obtain vs where "those (adapter_values m) = Some vs"
    using qualifying_claim_evidenced(2) [OF parts(5) conjunct1 [OF claim_for_some [OF c(1)]] q] by blast
  then show ?thesis
    using binding_of_bound [OF parts(1) assms(4)] by (auto simp: backend_identity_digest_def)
qed

lemma evidenced_cells:
  assumes "check_manifest manifest m = Inr ()" "status_for m i = Inr s" "s = Cap_Exact \<or> s = Cap_Bounded"
  shows "em_environment_bindings m \<noteq> []"
proof -
  obtain c where c: "claim_for m i = Inr (Some c)" "cl_status c = s"
    using assms(2,3) by (auto simp: status_for_def result_simps split: option.splits)
  have "qualifying c" using c(2) assms(3) by (simp add: qualifying_def)
  then show ?thesis
    using qualifying_claim_evidenced(1) [OF check_manifest_parts(5) [OF assms(1)]] claim_for_some [OF c(1)]
    by blast
qed

lemma status_of_catalog:
  "status_for m i = Inr s \<Longrightarrow> ci_catalog_digest i = cc_catalog_digest (em_catalog m)
    \<and> ci_value i \<in> set (definition_values (em_catalog m))"
  by (auto simp: status_for_def claim_for_def require_capability_def result_simps)

text \<open>An adapter that is not qualified, and a migrated document, claim nothing.\<close>

lemma no_claims_unknown:
  assumes "em_claims m = []" "list_all unset (adapter_values m)"
  shows "status_for m i = ebind (require_capability (em_catalog m) i) (\<lambda>_. Inr Cap_Unknown)"
    and "backend_identity_digest manifest m cell = Inl ValueError"
proof -
  show "status_for m i = ebind (require_capability (em_catalog m) i) (\<lambda>_. Inr Cap_Unknown)"
    using assms(1) by (simp add: status_for_def claim_for_def ebind_assoc)
  have "em_transition_adapter_id m = None" using assms(2) by (simp add: adapter_values_def)
  then show "backend_identity_digest manifest m cell = Inl ValueError"
    by (simp add: backend_identity_digest_def adapter_values_def)
qed

lemma migrated_unknown:
  assumes "check_manifest manifest m = Inr ()" "status_for m i = Inr s" "em_migration m \<noteq> None"
  shows "s = Cap_Unknown"
  using no_claims_unknown(1) [of m i] check_manifest_parts(4) [OF assms(1,3)] assms(2)
  by (auto simp: ebind_def split: sum.splits)

lemma unqualified_unknown:
  assumes "create_unqualified manifest i c gen fmt es ai bs canon = Inr m"
  shows "em_claims m = [] \<and> list_all unset (adapter_values m) \<and> em_catalog m = c"
  using assms by (auto simp: create_unqualified_def Let_def result_simps adapter_values_def)

section \<open>The evidence set\<close>

lemma sort_key_canonical:
  assumes "mset xs = mset ys" "distinct (map f xs)"
  shows "sort_key f xs = sort_key f ys"
proof -
  have "set (sort_key f xs) \<union> set (sort_key f ys) = set xs"
    using assms(1) by (metis set_mset_mset set_sort sup.idem)
  then have inj: "inj_on f (set (sort_key f xs) \<union> set (sort_key f ys))"
    using assms(2) by (simp add: distinct_map)
  have "map f (sort_key f xs) = sort (map f (sort_key f ys))"
    by (rule properties_for_sort [symmetric]) (simp_all add: assms(1))
  moreover have "map f (sort_key f ys) = sort (map f (sort_key f ys))"
    by (rule properties_for_sort [symmetric]) simp_all
  ultimately have "map f (sort_key f xs) = map f (sort_key f ys)" by simp
  then show ?thesis by (rule map_inj_on) (rule inj)
qed

lemma evidence_set_order:
  assumes "mset refs = mset refs'"
  shows "evidence_set_digest_for manifest refs = evidence_set_digest_for manifest refs'"
proof -
  have "distinct (map evidence_key refs) \<longleftrightarrow> distinct (map evidence_key refs')"
    by (rule mset_eq_imp_distinct_iff) (simp add: assms)
  then show ?thesis
    using sort_key_canonical [OF assms, of evidence_key]
    by (cases "distinct (map evidence_key refs)") (simp_all add: evidence_set_digest_for_def ensure_def raise_if_def)
qed

section \<open>The document of a catalog\<close>

lemma definition_roundtrip:
  assumes "check_definition d = Inr ()"
  shows "definition_of_document (definition_dict d) = Inr d"
  using assms by (cases d) (simp add: definition_of_document_def definition_dict_def has_exact_keys_def
      lookup_json_def plain_text_def)

lemma definitions_roundtrip:
  assumes "\<And>d. d \<in> set ds \<Longrightarrow> check_definition d = Inr ()"
  shows "emap definition_of_document (map definition_dict ds) = Inr ds"
  using assms by (induction ds) (simp_all add: definition_roundtrip)

lemma check_catalog_parts:
  assumes "check_catalog manifest c = Inr ()"
  shows "cc_generation c = 9" "cc_format c = gen9ou" "derive_catalog_digest manifest c = Inr (cc_catalog_digest c)"
  using assms by (auto simp: check_catalog_def result_simps)

lemma create_rebuilds:
  assumes "check_catalog manifest c = Inr ()"
  shows "create_catalog manifest (cc_catalog_id c) (cc_catalog_version c) (cc_capability_contract_id c)
     (cc_capability_contract_version c) (cc_capability_contract_digest c)
     (cc_canonicalization_contract_id c) (cc_canonicalization_contract_version c)
     (cc_canonicalization_contract_digest c) (cc_definitions c) = Inr c"
  using check_catalog_parts [OF assms] assms
  by (cases c) (simp add: create_catalog_def derive_catalog_digest_def catalog_document_def)

lemma catalog_roundtrip:
  assumes "check_catalog manifest c = Inr ()"
    and "\<And>d. d \<in> set (cc_definitions c) \<Longrightarrow> check_definition d = Inr ()"
  shows "catalog_of_document float_integer manifest (catalog_document c) = Inr c"
  using check_catalog_parts [OF assms(1)] create_rebuilds [OF assms(1)] definitions_roundtrip [OF assms(2)]
  by (simp add: catalog_of_document_def catalog_document_def has_exact_keys_def lookup_json_def plain_text_def
      equals_integer_def)


end
