(* ===== verification/Search.thy ===== *)
theory Search
  imports Capabilities
begin

text \<open>
  \<open>domain/search.py\<close> and \<open>ports/random_source.py\<close>: the values shared by engine-neutral search.
  Each constructor's \<open>__post_init__\<close> is a \<open>check\<close> of its record. The payload of a world is of
  any type; \<open>opaque_check\<close> stands for \<open>_require_deeply_immutable_payload\<close> on it, which
  \<open>deeply_immutable\<close> models on an object graph. \<open>sha\<close> is the hexadecimal SHA-256 of bytes.
\<close>

section \<open>Payloads\<close>

text \<open>
  References to Python objects: immutable atoms, mutable containers, enum members with their
  value, and objects that have an identity, whose contents the heap gives.
\<close>

datatype py_ref = Ref_Atom | Ref_Mutable | Ref_Enum py_ref | Ref_Object nat

datatype py_node =
    Node_Tuple "py_ref list"
  | Node_Frozenset "py_ref list"
  | Node_Frozen_Dataclass "py_ref list"
  | Node_Other

type_synonym py_heap = "(nat \<times> py_node) list"

definition node_children :: "py_heap \<Rightarrow> nat \<Rightarrow> py_ref list option" where
  "node_children h a = (case map_of h a of
     Some (Node_Tuple rs) \<Rightarrow> Some rs | Some (Node_Frozenset rs) \<Rightarrow> Some rs
   | Some (Node_Frozen_Dataclass rs) \<Rightarrow> Some rs | _ \<Rightarrow> None)"

text \<open>Identities of the heap that are not yet on the path: what the recursion uses up.\<close>

definition fresh_count :: "py_heap \<Rightarrow> nat list \<Rightarrow> nat" where
  "fresh_count h seen = card (fst ` set h - set seen)"

lemma fresh_count_less:
  assumes "node_children h a = Some rs" "a \<notin> set seen"
  shows "fresh_count h (a # seen) < fresh_count h seen"
proof -
  have "a \<in> fst ` set h"
    using assms(1) by (force simp: node_children_def split: option.splits dest: map_of_SomeD)
  then have "fst ` set h - set (a # seen) \<subset> fst ` set h - set seen" using assms(2) by auto
  then show ?thesis unfolding fresh_count_def by (intro psubset_card_mono) auto
qed

function deeply_immutable :: "py_heap \<Rightarrow> nat list \<Rightarrow> py_ref \<Rightarrow> py_exc + unit" where
  "deeply_immutable h seen Ref_Atom = Inr ()"
| "deeply_immutable h seen Ref_Mutable = Inl ValueError"
| "deeply_immutable h seen (Ref_Enum r) = deeply_immutable h seen r"
| "deeply_immutable h seen (Ref_Object a) =
     (if a \<in> set seen then Inl ValueError
      else case node_children h a of
        None \<Rightarrow> Inl ValueError
      | Some rs \<Rightarrow> ebind (emap (deeply_immutable h (a # seen)) rs) (\<lambda>_. Inr ()))"
  by pat_completeness auto
termination
  by (relation "measures [\<lambda>(h, seen, r). fresh_count h seen, \<lambda>(h, seen, r). size r]")
    (auto simp: fresh_count_less)

section \<open>Identifiers\<close>

definition require_player :: "string \<Rightarrow> py_exc + unit" where
  "require_player p = ensure (p = ''p1'' \<or> p = ''p2'')"

definition is_internal_id :: "string \<Rightarrow> bool" where
  "is_internal_id s \<longleftrightarrow> dotted_id 2 None s"

definition require_internal_id :: "string \<Rightarrow> py_exc + unit" where
  "require_internal_id s = ensure (s \<noteq> [] \<and> (is_internal_id s \<or> is_digest_text s))"

definition check_capabilities :: "capability_id list \<Rightarrow> string option \<Rightarrow> py_exc + unit" where
  "check_capabilities vs catalog =
     ebind (ensure (uniquely_sorted (map ci_value vs))) (\<lambda>_.
       ensure (list_all (\<lambda>v. ci_catalog_digest v = ci_catalog_digest (hd vs)) vs
         \<and> (case catalog of None \<Rightarrow> True | Some d \<Rightarrow> list_all (\<lambda>v. ci_catalog_digest v = d) vs)))"

section \<open>Roots, actions and worlds\<close>

record root_identity =
  rt_request_identity_digest :: string
  rt_safe_submission_set_digest :: string
  rt_observed_state_digest :: string
  rt_prepared_root_digest :: string
  rt_ruleset_digest :: string
  rt_backend_identity_digest :: string
  rt_capability_catalog_digest :: string
  rt_root_player :: string

text \<open>\<open>create\<close>: the digests of the request, the safe set, the observation, the player, the ruleset,
  the backend and the catalog.\<close>

definition create_root ::
    "digest_fn \<Rightarrow> string \<Rightarrow> string \<Rightarrow> string \<Rightarrow> string \<Rightarrow> string \<Rightarrow> string \<Rightarrow> string
     \<Rightarrow> py_exc + root_identity" where
  "create_root manifest request safe observed player ruleset backend catalog =
     ebind (require_digests [request, safe, observed, ruleset, backend, catalog]) (\<lambda>_.
     ebind (require_player player) (\<lambda>_.
     ebind (manifest (JObject
        [(''request_identity_digest'', JString request),
         (''safe_submission_set_digest'', JString safe),
         (''observed_state_digest'', JString observed), (''root_player'', JString player),
         (''ruleset_digest'', JString ruleset), (''backend_identity_digest'', JString backend),
         (''capability_catalog_digest'', JString catalog)])) (\<lambda>prepared.
       Inr \<lparr>rt_request_identity_digest = request, rt_safe_submission_set_digest = safe,
         rt_observed_state_digest = observed, rt_prepared_root_digest = prepared,
         rt_ruleset_digest = ruleset, rt_backend_identity_digest = backend,
         rt_capability_catalog_digest = catalog, rt_root_player = player\<rparr>)))"

record search_action =
  sa_action_id :: string
  sa_kind :: string
  sa_required_capabilities :: "capability_id list"
  sa_root_submission_index :: "int option"
  sa_root_identity :: "root_identity option"

definition check_action :: "search_action \<Rightarrow> py_exc + unit" where
  "check_action a =
     ebind (require_internal_id (sa_action_id a)) (\<lambda>_.
     ebind (ensure (sa_kind a \<in> {''move'', ''switch'', ''pass''})) (\<lambda>_.
     ebind (ensure (unset (sa_root_submission_index a) \<longleftrightarrow> unset (sa_root_identity a))) (\<lambda>_.
     ebind (ensure (case sa_root_submission_index a of None \<Rightarrow> True | Some i \<Rightarrow> 0 \<le> i)) (\<lambda>_.
       check_capabilities (sa_required_capabilities a)
         (map_option rt_capability_catalog_digest (sa_root_identity a))))))"

definition action_summary :: "search_action \<Rightarrow> json" where
  "action_summary a = JObject [(''kind'', JString (sa_kind a)),
     (''required_capability_count'', JInt (int (length (sa_required_capabilities a)))),
     (''is_root_action'', JBool (\<not> unset (sa_root_identity a)))]"

record 'w prepared_world =
  pw_opaque :: 'w
  pw_root_identity :: root_identity
  pw_root_actions :: "search_action list"
  pw_required_capabilities :: "capability_id list"

definition root_action_at :: "root_identity \<Rightarrow> nat \<times> search_action \<Rightarrow> bool" where
  "root_action_at root = (\<lambda>(i, a). sa_root_identity a = Some root
     \<and> sa_root_submission_index a = Some (int i))"

definition check_world :: "('w \<Rightarrow> py_exc + unit) \<Rightarrow> 'w prepared_world \<Rightarrow> py_exc + unit" where
  "check_world opaque_check w =
     ebind (opaque_check (pw_opaque w)) (\<lambda>_.
     ebind (ensure (list_all (root_action_at (pw_root_identity w)) (enumerate 0 (pw_root_actions w)))) (\<lambda>_.
       check_capabilities (pw_required_capabilities w)
         (Some (rt_capability_catalog_digest (pw_root_identity w)))))"

definition world_summary :: "'w prepared_world \<Rightarrow> json" where
  "world_summary w = JObject
     [(''prepared_root_digest'', JString (rt_prepared_root_digest (pw_root_identity w))),
      (''root_action_count'', JInt (int (length (pw_root_actions w)))),
      (''required_capability_count'', JInt (int (length (pw_required_capabilities w))))]"

record player_view_value =
  vw_player :: string
  vw_view_digest :: string

definition check_view :: "player_view_value \<Rightarrow> py_exc + unit" where
  "check_view v = ebind (require_player (vw_player v)) (\<lambda>_. require_digest (vw_view_digest v))"

record information_key =
  ik_player :: string
  ik_information_state_digest :: string

definition check_information_key :: "information_key \<Rightarrow> py_exc + unit" where
  "check_information_key k =
     ebind (require_player (ik_player k)) (\<lambda>_. require_digest (ik_information_state_digest k))"

section \<open>Transitions\<close>

definition check_work :: "int \<Rightarrow> py_exc + unit" where
  "check_work units = ensure (0 < units)"

definition add_work :: "int \<Rightarrow> int \<Rightarrow> py_exc + int" where
  "add_work a b = ebind (check_work (a + b)) (\<lambda>_. Inr (a + b))"

record 'w transition_successor =
  ts_outcome_id :: string
  ts_world :: "'w prepared_world"
  ts_probability_numerator :: int

definition check_successor :: "'w transition_successor \<Rightarrow> py_exc + unit" where
  "check_successor s =
     ebind (require_internal_id (ts_outcome_id s)) (\<lambda>_. ensure (0 < ts_probability_numerator s))"

record 'w transition_outcome =
  to_successors :: "'w transition_successor list"
  to_probability_denominator :: int
  to_work :: int
  to_required_capabilities :: "capability_id list"

definition successor_root :: "'w transition_successor \<Rightarrow> root_identity" where
  "successor_root s = pw_root_identity (ts_world s)"

definition check_outcome_value :: "'w transition_outcome \<Rightarrow> py_exc + unit" where
  "check_outcome_value t =
     ebind (ensure (to_successors t \<noteq> [])) (\<lambda>_.
     ebind (ensure (0 < to_probability_denominator t)) (\<lambda>_.
     ebind (ensure (uniquely_sorted (map ts_outcome_id (to_successors t)))) (\<lambda>_.
     ebind (ensure (sum_list (map ts_probability_numerator (to_successors t))
        = to_probability_denominator t)) (\<lambda>_.
     (let root = successor_root (hd (to_successors t)) in
      ebind (ensure (list_all (\<lambda>s. successor_root s = root) (tl (to_successors t)))) (\<lambda>_.
        check_capabilities (to_required_capabilities t)
          (Some (rt_capability_catalog_digest root))))))))"

definition outcome_summary :: "'w transition_outcome \<Rightarrow> json" where
  "outcome_summary t = JObject
     [(''successor_count'', JInt (int (length (to_successors t)))),
      (''probability_denominator'', JInt (to_probability_denominator t)),
      (''work_units'', JInt (to_work t)),
      (''required_capability_count'', JInt (int (length (to_required_capabilities t))))]"

definition preserves_root :: "'w prepared_world \<Rightarrow> 'w transition_successor \<Rightarrow> py_exc + unit" where
  "preserves_root source s =
     ebind (ensure (successor_root s = pw_root_identity source)) (\<lambda>_.
       ensure (pw_root_actions (ts_world s) = pw_root_actions source))"

definition validate_against_source :: "'w transition_outcome \<Rightarrow> 'w prepared_world \<Rightarrow> py_exc + unit" where
  "validate_against_source t source = ebind (emap (preserves_root source) (to_successors t)) (\<lambda>_. Inr ())"

definition runtime_requirements :: "'w transition_outcome \<Rightarrow> capability_id list" where
  "runtime_requirements t = to_required_capabilities t
     @ concat (map (pw_required_capabilities \<circ> ts_world) (to_successors t))"

definition require_preflight_subset :: "'w transition_outcome \<Rightarrow> capability_id list \<Rightarrow> py_exc + unit" where
  "require_preflight_subset t preflight =
     ebind (check_capabilities preflight
        (Some (rt_capability_catalog_digest (successor_root (hd (to_successors t)))))) (\<lambda>_.
       ensure (list_all (\<lambda>c. c \<in> set preflight) (runtime_requirements t)))"

record distribution_identity =
  wd_distribution_id :: string
  wd_version :: string
  wd_digest :: string
  wd_generation :: int
  wd_format :: string
  wd_ruleset_digest :: string
  wd_public_evidence_digest :: string
  wd_support_digest :: string
  wd_support_count :: int
  wd_availability_status :: string

definition check_distribution :: "distribution_identity \<Rightarrow> py_exc + unit" where
  "check_distribution d =
     ebind (ensure (is_internal_id (wd_distribution_id d))) (\<lambda>_.
     ebind (require_nonempty (wd_version d)) (\<lambda>_.
     ebind (ensure (wd_generation d = 9 \<and> wd_format d = gen9ou)) (\<lambda>_.
     ebind (ensure (wd_availability_status d \<in> {''available'', ''unavailable''})) (\<lambda>_.
     ebind (require_digests [wd_digest d, wd_ruleset_digest d, wd_public_evidence_digest d,
        wd_support_digest d]) (\<lambda>_.
       ensure (0 \<le> wd_support_count d))))))"

section \<open>Random streams\<close>

definition validate_random_domain :: "string \<Rightarrow> py_exc + string" where
  "validate_random_domain domain =
     ebind (ensure (length domain \<le> 128 \<and> is_internal_id domain)) (\<lambda>_. Inr domain)"

text \<open>\<open>len(x).to_bytes(4, "big")\<close>.\<close>

definition length_prefix :: "string \<Rightarrow> string" where
  "length_prefix s = map (\<lambda>k. char_of (length s div 256 ^ k)) [3, 2, 1, 0]"

definition stream_material :: "string \<Rightarrow> string \<Rightarrow> string" where
  "stream_material parent domain = ''battlebelief.random-stream.v1'' @ [char_of (0 :: nat)]
     @ length_prefix parent @ parent @ length_prefix domain @ domain"

definition derive_stream_identity :: "(string \<Rightarrow> string) \<Rightarrow> string \<Rightarrow> string \<Rightarrow> py_exc + string" where
  "derive_stream_identity sha parent domain =
     ebind (require_digest parent) (\<lambda>_.
     ebind (validate_random_domain domain) (\<lambda>validated.
       Inr (''sha256:'' @ sha (stream_material parent validated))))"

text \<open>The material determines its parent and its domain.\<close>

lemma length_prefix_length [simp]: "length (length_prefix s) = 4"
  by (simp add: length_prefix_def)

lemma stream_material_inj:
  assumes "stream_material p d = stream_material p' d'" "length p = length p'"
  shows "p = p' \<and> d = d'"
  using assms by (simp add: stream_material_def)

lemma digest_text_length: "is_digest_text s \<Longrightarrow> length s = 71"
  by (simp add: is_digest_text_def)

lemma derive_stream_parts:
  assumes "derive_stream_identity sha parent domain = Inr i"
  shows "is_digest_text parent" "is_internal_id domain" "length domain \<le> 128"
    "i = ''sha256:'' @ sha (stream_material parent domain)"
  using assms by (auto simp: derive_stream_identity_def validate_random_domain_def require_digest_def result_simps)

section \<open>What the checks establish\<close>

lemma check_world_parts:
  assumes "check_world opaque_check w = Inr ()"
  shows "list_all (root_action_at (pw_root_identity w)) (enumerate 0 (pw_root_actions w))"
    and "check_capabilities (pw_required_capabilities w)
      (Some (rt_capability_catalog_digest (pw_root_identity w))) = Inr ()"
  using assms by (auto simp: check_world_def result_simps)

lemma enumerate_all: "list_all P (enumerate 0 xs) \<longleftrightarrow> (\<forall>i<length xs. P (i, xs ! i))"
  by (auto simp: list_all_length nth_enumerate_eq)

text \<open>Equal root actions carry equal indices: a prepared world has no two equal root actions.\<close>

lemma root_actions_distinct:
  assumes "check_world opaque_check w = Inr ()"
  shows "distinct (pw_root_actions w)"
proof -
  have "sa_root_submission_index (pw_root_actions w ! i) = Some (int i)" if "i < length (pw_root_actions w)" for i
    using check_world_parts(1) [OF assms] that by (simp add: enumerate_all root_action_at_def)
  then show ?thesis by (auto simp: distinct_conv_nth) (metis option.inject of_nat_eq_iff)
qed

lemma check_outcome_parts:
  assumes "check_outcome_value t = Inr ()"
  shows "to_successors t \<noteq> []" "distinct (map ts_outcome_id (to_successors t))"
    "sum_list (map ts_probability_numerator (to_successors t)) = to_probability_denominator t"
    "0 < to_probability_denominator t"
  using assms by (auto simp: check_outcome_value_def Let_def result_simps uniquely_sorted_def)

lemma emap_unit_all: "emap f xs = Inr ys \<longleftrightarrow> (\<forall>x\<in>set xs. f x = Inr ()) \<and> ys = map (\<lambda>_. ()) xs"
  for f :: "'a \<Rightarrow> 'e + unit"
  by (induction xs arbitrary: ys) (auto simp: result_simps)

lemma validated_roots:
  "validate_against_source t source = Inr () \<longleftrightarrow>
     (\<forall>s\<in>set (to_successors t). successor_root s = pw_root_identity source
        \<and> pw_root_actions (ts_world s) = pw_root_actions source)"
  by (auto simp: validate_against_source_def preserves_root_def result_simps emap_unit_all)

lemma check_capabilities_parts:
  assumes "check_capabilities vs (Some d) = Inr ()"
  shows "uniquely_sorted (map ci_value vs)" "\<And>v. v \<in> set vs \<Longrightarrow> ci_catalog_digest v = d"
  using assms by (auto simp: check_capabilities_def result_simps list_all_iff)

section \<open>Immutable payloads\<close>

text \<open>One step along a reference, and the objects a reference leads to.\<close>

fun ref_object :: "py_ref \<Rightarrow> nat option" where
  "ref_object (Ref_Enum r) = ref_object r"
| "ref_object (Ref_Object a) = Some a"
| "ref_object _ = None"

fun ref_mutable :: "py_ref \<Rightarrow> bool" where
  "ref_mutable (Ref_Enum r) = ref_mutable r"
| "ref_mutable r = (r = Ref_Mutable)"

definition points_to :: "py_heap \<Rightarrow> (nat \<times> nat) set" where
  "points_to h = {(a, b). \<exists>rs r. node_children h a = Some rs \<and> r \<in> set rs \<and> ref_object r = Some b}"

text \<open>An object that is a frozen container of references none of which is mutable.\<close>

definition frozen_object :: "py_heap \<Rightarrow> nat \<Rightarrow> bool" where
  "frozen_object h a \<longleftrightarrow> (\<exists>rs. node_children h a = Some rs \<and> \<not> list_ex ref_mutable rs)"

lemma immutable_ref:
  "deeply_immutable h seen r = (case ref_object r of
     Some a \<Rightarrow> deeply_immutable h seen (Ref_Object a)
   | None \<Rightarrow> if ref_mutable r then Inl ValueError else Inr ())"
  by (induction r) auto

lemma immutable_object:
  "deeply_immutable h seen (Ref_Object a) = Inr () \<longleftrightarrow> a \<notin> set seen \<and> frozen_object h a
     \<and> (\<forall>b. (a, b) \<in> points_to h \<longrightarrow> deeply_immutable h (a # seen) (Ref_Object b) = Inr ())"
proof (cases "node_children h a")
  case (Some rs)
  have "deeply_immutable h (a # seen) r = Inr () \<longleftrightarrow>
      \<not> ref_mutable r \<and> (\<forall>b. ref_object r = Some b \<longrightarrow> deeply_immutable h (a # seen) (Ref_Object b) = Inr ())" for r
  proof -
    have "ref_object r \<noteq> None \<Longrightarrow> \<not> ref_mutable r" by (induction r) auto
    then show ?thesis by (subst immutable_ref) (auto split: option.splits)
  qed
  then have "(\<exists>ys. emap (deeply_immutable h (a # seen)) rs = Inr ys) \<longleftrightarrow>
      (\<forall>r\<in>set rs. \<not> ref_mutable r \<and> (\<forall>b. ref_object r = Some b \<longrightarrow>
        deeply_immutable h (a # seen) (Ref_Object b) = Inr ()))"
    by (simp add: emap_unit_all)
  moreover have "deeply_immutable h seen (Ref_Object a) = Inr () \<longleftrightarrow>
      a \<notin> set seen \<and> (\<exists>ys. emap (deeply_immutable h (a # seen)) rs = Inr ys)"
    using Some by (simp add: result_simps)
  ultimately show ?thesis
    using Some by (auto simp: frozen_object_def points_to_def list_ex_iff simp del: deeply_immutable.simps)
qed (simp add: frozen_object_def)

declare deeply_immutable.simps(4) [simp del]

lemma immutable_objectD:
  assumes "deeply_immutable h seen (Ref_Object a) = Inr ()"
  shows "a \<notin> set seen" "frozen_object h a"
    "(a, b) \<in> points_to h \<Longrightarrow> deeply_immutable h (a # seen) (Ref_Object b) = Inr ()"
  using immutable_object [THEN iffD1, OF assms] by blast+

lemma immutable_objectI:
  assumes "a \<notin> set seen" "frozen_object h a"
    "\<And>b. (a, b) \<in> points_to h \<Longrightarrow> deeply_immutable h (a # seen) (Ref_Object b) = Inr ()"
  shows "deeply_immutable h seen (Ref_Object a) = Inr ()"
  using assms by (intro immutable_object [THEN iffD2]) blast

definition sound_object :: "py_heap \<Rightarrow> nat \<Rightarrow> bool" where
  "sound_object h a \<longleftrightarrow> (\<forall>b. (a, b) \<in> (points_to h)\<^sup>* \<longrightarrow>
     frozen_object h b \<and> (b, b) \<notin> (points_to h)\<^sup>+)"

lemma immutable_along:
  assumes "(a, b) \<in> (points_to h)\<^sup>*" "deeply_immutable h seen (Ref_Object a) = Inr ()"
  shows "\<exists>seen'. set seen \<subseteq> set seen' \<and> deeply_immutable h seen' (Ref_Object b) = Inr ()"
  using assms
proof (induction arbitrary: seen rule: converse_rtrancl_induct)
  case (step x y)
  have "deeply_immutable h (x # seen) (Ref_Object y) = Inr ()"
    by (rule immutable_objectD(3) [OF step.prems step.hyps(1)])
  from step.IH [OF this] show ?case by auto
qed blast

lemma immutable_sound:
  assumes "deeply_immutable h seen (Ref_Object a) = Inr ()"
  shows "sound_object h a"
  unfolding sound_object_def
proof (intro allI impI conjI)
  fix b assume "(a, b) \<in> (points_to h)\<^sup>*"
  from immutable_along [OF this assms] obtain seen'
    where b: "deeply_immutable h seen' (Ref_Object b) = Inr ()" by blast
  then show "frozen_object h b" by (rule immutable_objectD(2))
  show "(b, b) \<notin> (points_to h)\<^sup>+"
  proof
    assume "(b, b) \<in> (points_to h)\<^sup>+"
    then obtain c where c: "(b, c) \<in> points_to h" "(c, b) \<in> (points_to h)\<^sup>*" by (meson tranclD)
    have "deeply_immutable h (b # seen') (Ref_Object c) = Inr ()"
      by (rule immutable_objectD(3) [OF b c(1)])
    from immutable_along [OF c(2) this] obtain seen''
      where "b \<in> set seen''" "deeply_immutable h seen'' (Ref_Object b) = Inr ()" by auto
    then show False using immutable_objectD(1) by blast
  qed
qed

lemma immutable_complete:
  assumes "sound_object h a" "\<forall>s\<in>set seen. (s, a) \<in> (points_to h)\<^sup>+"
  shows "deeply_immutable h seen (Ref_Object a) = Inr ()"
  using assms
proof (induction "fresh_count h seen" arbitrary: seen a rule: less_induct)
  case less
  have self: "frozen_object h a" "(a, a) \<notin> (points_to h)\<^sup>+"
    using less.prems(1) by (auto simp: sound_object_def)
  then have fresh: "a \<notin> set seen" using less.prems(2) by auto
  have "deeply_immutable h (a # seen) (Ref_Object b) = Inr ()" if b: "(a, b) \<in> points_to h" for b
  proof (rule less.hyps)
    obtain rs where "node_children h a = Some rs" using self(1) by (auto simp: frozen_object_def)
    then show "fresh_count h (a # seen) < fresh_count h seen" using fresh by (rule fresh_count_less)
    show "sound_object h b"
      using less.prems(1) converse_rtrancl_into_rtrancl [OF b] by (simp add: sound_object_def)
    show "\<forall>s\<in>set (a # seen). (s, b) \<in> (points_to h)\<^sup>+"
      using less.prems(2) b by (auto intro: trancl_into_trancl)
  qed
  with fresh self(1) show ?case by (rule immutable_objectI)
qed

text \<open>A payload is accepted iff no mutable value can be reached and no object reaches itself.\<close>

lemma immutable_iff:
  "deeply_immutable h [] r = Inr () \<longleftrightarrow>
     \<not> ref_mutable r \<and> (\<forall>a. ref_object r = Some a \<longrightarrow> sound_object h a)"
proof (cases "ref_object r")
  case (Some a)
  then have "\<not> ref_mutable r" by (induction r) auto
  moreover have "deeply_immutable h [] r = deeply_immutable h [] (Ref_Object a)"
    using immutable_ref [of h "[]" r] Some by simp
  ultimately show ?thesis
    using Some immutable_sound immutable_complete [of h a "[]"] by auto
qed (simp add: immutable_ref [of h "[]" r])

end
