(* ===== verification/Engine_Actions.thy ===== *)
theory Engine_Actions
  imports Search Public_Projection
begin

text \<open>
  \<open>adapters/poke_engine/mapping_report.py\<close> and \<open>action_mapper.py\<close>: the failures of the adapter
  to the native engine with their reports, and the mapping between submissions, native choices and search
  actions. \<open>engine_exc\<close> are the exceptions of the adapter: \<open>Mapping_Error\<close> is
  \<open>_ActionMappingError\<close> and \<open>_StateMappingError\<close>, \<open>Failure\<close> the public
  \<open>PokeEngineMappingFailure\<close>, \<open>Interrupt\<close> a \<open>KeyboardInterrupt\<close> or \<open>SystemExit\<close>, \<open>Native_Error\<close> any
  other exception of native code.
\<close>

section \<open>Failures and reports\<close>

datatype mapping_failure =
    Missing_Field
  | Unsupported_Mapping
  | Unknown_Native_Choice
  | Capability_Ambiguity
  | Request_Identity_Mismatch
  | Safe_Submission_Mismatch
  | Artifact_Identity_Mismatch
  | Adapter_Identity_Mismatch
  | Backend_Unavailable
  | Native_Exception
  | Malformed_Native_Result
  | Inconsistent_Player_View
  | Invalid_Joint_Action
  | Chance_Normalization_Failure
  | Work_Accounting_Inconsistency

definition mapping_failure_value :: "mapping_failure \<Rightarrow> string" where
  "mapping_failure_value f = (case f of
     Missing_Field \<Rightarrow> ''missing_field''
   | Unsupported_Mapping \<Rightarrow> ''unsupported_mapping''
   | Unknown_Native_Choice \<Rightarrow> ''unknown_native_choice''
   | Capability_Ambiguity \<Rightarrow> ''capability_ambiguity''
   | Request_Identity_Mismatch \<Rightarrow> ''request_identity_mismatch''
   | Safe_Submission_Mismatch \<Rightarrow> ''safe_submission_mismatch''
   | Artifact_Identity_Mismatch \<Rightarrow> ''artifact_identity_mismatch''
   | Adapter_Identity_Mismatch \<Rightarrow> ''adapter_identity_mismatch''
   | Backend_Unavailable \<Rightarrow> ''backend_unavailable''
   | Native_Exception \<Rightarrow> ''native_exception''
   | Malformed_Native_Result \<Rightarrow> ''malformed_native_result''
   | Inconsistent_Player_View \<Rightarrow> ''inconsistent_player_view''
   | Invalid_Joint_Action \<Rightarrow> ''invalid_joint_action''
   | Chance_Normalization_Failure \<Rightarrow> ''chance_normalization_failure''
   | Work_Accounting_Inconsistency \<Rightarrow> ''work_accounting_inconsistency'')"

datatype report_classification = Report_Mapped | Report_Transitioned | Report_Failed

definition classification_value :: "report_classification \<Rightarrow> string" where
  "classification_value c = (case c of Report_Mapped \<Rightarrow> ''mapped''
     | Report_Transitioned \<Rightarrow> ''transitioned'' | Report_Failed \<Rightarrow> ''failed'')"

record mapping_report =
  mr_classification :: report_classification
  mr_adapter_id :: string
  mr_adapter_version :: string
  mr_backend_identity_digest :: string
  mr_observed_state_digest :: "string option"
  mr_request_identity_digest :: "string option"
  mr_safe_submission_set_digest :: "string option"
  mr_capability_ids :: "string list"
  mr_work_units :: int
  mr_failure_class :: "mapping_failure option"

definition check_report :: "mapping_report \<Rightarrow> py_exc + unit" where
  "check_report r =
     ebind (ensure (is_environment_cell_id (mr_adapter_id r)
        \<and> is_environment_cell_id (mr_adapter_version r))) (\<lambda>_.
     ebind (require_digest (mr_backend_identity_digest r)) (\<lambda>_.
     ebind (emap check_optional_digest [mr_observed_state_digest r, mr_request_identity_digest r,
        mr_safe_submission_set_digest r]) (\<lambda>_.
     ebind (ensure (uniquely_sorted (mr_capability_ids r))) (\<lambda>_.
       ensure (0 \<le> mr_work_units r)))))"

definition report_dict :: "mapping_report \<Rightarrow> json" where
  "report_dict r = JObject
     [(''classification'', JString (classification_value (mr_classification r))),
      (''adapter_id'', JString (mr_adapter_id r)),
      (''adapter_version'', JString (mr_adapter_version r)),
      (''backend_identity_digest'', JString (mr_backend_identity_digest r)),
      (''observed_state_digest'', json_opt JString (mr_observed_state_digest r)),
      (''request_identity_digest'', json_opt JString (mr_request_identity_digest r)),
      (''safe_submission_set_digest'', json_opt JString (mr_safe_submission_set_digest r)),
      (''capability_ids'', JList (map JString (mr_capability_ids r))),
      (''work_units'', JInt (mr_work_units r)),
      (''failure_class'', json_opt (JString \<circ> mapping_failure_value) (mr_failure_class r))]"

datatype engine_exc =
    Mapping_Error mapping_failure
  | Failure mapping_failure mapping_report int
  | Core_Error py_exc
  | Arithmetic_Error
  | Native_Error
  | Interrupt

text \<open>\<open>PokeEngineMappingFailure(failure_class, report=..., work_units=...)\<close>.\<close>

definition raise_mapping_failure :: "mapping_failure \<Rightarrow> mapping_report \<Rightarrow> int \<Rightarrow> engine_exc + 'a" where
  "raise_mapping_failure f report work =
     (if mr_failure_class report \<noteq> Some f \<or> mr_work_units report \<noteq> work then Inl (Core_Error ValueError)
      else Inl (Failure f report work))"

definition of_core :: "py_exc + 'a \<Rightarrow> engine_exc + 'a" where
  "of_core m = (case m of Inl e \<Rightarrow> Inl (Core_Error e) | Inr x \<Rightarrow> Inr x)"

lemma of_core_simps [simp]: "of_core (Inl e) = Inl (Core_Error e)" "of_core (Inr x) = Inr x"
  "of_core m = Inr x \<longleftrightarrow> m = Inr x"
  by (auto simp: of_core_def split: sum.splits)

definition map_fail :: "mapping_failure \<Rightarrow> engine_exc + 'a" where
  "map_fail f = Inl (Mapping_Error f)"

definition map_ensure :: "mapping_failure \<Rightarrow> bool \<Rightarrow> engine_exc + unit" where
  "map_ensure f b = raise_if (\<not> b) (Mapping_Error f)"

lemma map_ensure_simps [simp]: "map_ensure f True = Inr ()" "map_ensure f b = Inr u \<longleftrightarrow> b"
  by (simp_all add: map_ensure_def raise_if_def)

lemma map_fail_Inr [simp]: "map_fail f \<noteq> Inr x" "(map_fail f = Inr x) = False"
  by (simp_all add: map_fail_def)

text \<open>\<open>except (TypeError, ValueError)\<close>; the mapping errors are \<open>ValueError\<close>s too.\<close>

definition is_value_or_type :: "engine_exc \<Rightarrow> bool" where
  "is_value_or_type e \<longleftrightarrow> (case e of Mapping_Error _ \<Rightarrow> True
     | Core_Error c \<Rightarrow> c = ValueError \<or> c = TypeError | _ \<Rightarrow> False)"

definition handle :: "(engine_exc \<Rightarrow> bool) \<Rightarrow> engine_exc + 'a \<Rightarrow> engine_exc + 'a \<Rightarrow> engine_exc + 'a" where
  "handle caught m recover = (case m of Inl e \<Rightarrow> if caught e then recover else m | Inr _ \<Rightarrow> m)"

lemma handle_Inr: "handle p m (Inl e) = Inr x \<longleftrightarrow> m = Inr x"
  by (auto simp: handle_def split: sum.splits)

lemma handle_fail_Inr [simp]: "handle p m (map_fail f) = Inr x \<longleftrightarrow> m = Inr x"
  by (simp add: map_fail_def handle_Inr)

section \<open>Required capabilities\<close>

definition required_catalog_digest :: "capability_id list \<Rightarrow> string" where
  "required_catalog_digest vs = (case vs of [] \<Rightarrow> [] | v # _ \<Rightarrow> ci_catalog_digest v)"

definition check_required :: "capability_id list \<Rightarrow> py_exc + unit" where
  "check_required vs =
     ebind (ensure (uniquely_sorted (map ci_value vs))) (\<lambda>_.
       ensure (list_all (\<lambda>v. ci_catalog_digest v = required_catalog_digest vs) vs))"

text \<open>\<open>canonical\<close>: by value, a later one replaces an earlier one.\<close>

definition canonical_capabilities :: "capability_id list \<Rightarrow> py_exc + capability_id list" where
  "canonical_capabilities vs =
     (let ws = sort_key fst (dict_of (map (\<lambda>v. (ci_value v, v)) vs)); cs = map snd ws
      in ebind (check_required cs) (\<lambda>_. Inr cs))"

definition required_dict :: "capability_id list \<Rightarrow> json" where
  "required_dict vs = JObject [(''catalog_digest'', JString (required_catalog_digest vs)),
     (''capability_ids'', JList (map (JString \<circ> ci_value) vs))]"

section \<open>Safe submissions of a document\<close>

definition slot_of_document :: "json \<Rightarrow> py_exc + int option" where
  "slot_of_document v = (case v of JInt n \<Rightarrow> Inr (Some n) | JNull \<Rightarrow> Inr None | _ \<Rightarrow> Inl ValueError)"

definition move_id_of_document :: "json \<Rightarrow> py_exc + string option" where
  "move_id_of_document v = (case v of JString s \<Rightarrow> Inr (Some s) | JNull \<Rightarrow> Inr None | _ \<Rightarrow> Inl ValueError)"

definition tera_of_document :: "json \<Rightarrow> py_exc + bool" where
  "tera_of_document v = (case v of JBool b \<Rightarrow> Inr b | _ \<Rightarrow> Inl ValueError)"

definition submission_of_document :: "json \<Rightarrow> engine_exc + battle_submission" where
  "submission_of_document v =
     (case v of
        JObject d \<Rightarrow>
          handle is_value_or_type
           (if lookup_json d ''kind'' = JString ''move''
                \<and> has_exact_keys [''kind'', ''slot'', ''move_id'', ''terastallize''] d then
              of_core (ebind (slot_of_document (lookup_json d ''slot'')) (\<lambda>slot.
                ebind (move_id_of_document (lookup_json d ''move_id'')) (\<lambda>move_id.
                ebind (tera_of_document (lookup_json d ''terastallize'')) (\<lambda>tera.
                  make_submission Move Explicit_Request slot move_id tera []))))
            else if lookup_json d ''kind'' = JString ''switch'' \<and> has_exact_keys [''kind'', ''slot''] d then
              of_core (ebind (slot_of_document (lookup_json d ''slot'')) (\<lambda>slot.
                make_submission Switch Explicit_Request slot None False []))
            else map_fail Unsupported_Mapping)
           (map_fail Unsupported_Mapping)
      | _ \<Rightarrow> map_fail Unsupported_Mapping)"

text \<open>A JSON list and a JSON string are sequences.\<close>

definition sequence_items :: "json \<Rightarrow> json list option" where
  "sequence_items v = (case v of JList vs \<Rightarrow> Some vs | JString s \<Rightarrow> Some (map (\<lambda>c. JString [c]) s)
     | _ \<Rightarrow> None)"

definition safe_submissions_from_document ::
    "(string \<Rightarrow> int option) \<Rightarrow> json \<Rightarrow> engine_exc + safe_submission_set" where
  "safe_submissions_from_document float_integer document =
     (case document of
        JObject d \<Rightarrow>
          ebind (map_ensure Unsupported_Mapping
            (has_exact_keys [''schema_version'', ''fixture_id'', ''request'', ''safe_submissions''] d)) (\<lambda>_.
          ebind (map_ensure Unsupported_Mapping
            (equals_integer float_integer (lookup_json d ''schema_version'') 1
             \<and> (case lookup_json d ''fixture_id'' of JString _ \<Rightarrow> True | _ \<Rightarrow> False))) (\<lambda>_.
          (case (lookup_json d ''request'', sequence_items (lookup_json d ''safe_submissions'')) of
             (JObject r, Some vs) \<Rightarrow>
               ebind (map_ensure Unsupported_Mapping
                 (has_exact_keys [''room_id'', ''rqid'', ''request_digest''] r)) (\<lambda>_.
               (case (lookup_json r ''room_id'', lookup_json r ''rqid'', lookup_json r ''request_digest'') of
                  (JString room, JInt rqid, JString digest) \<Rightarrow>
                    ebind (map_ensure Unsupported_Mapping (room \<noteq> [] \<and> digest \<noteq> [])) (\<lambda>_.
                    ebind (emap submission_of_document vs) (\<lambda>submissions.
                      Inr \<lparr>ss_request_identity = \<lparr>ri_room_id = room, ri_rqid = rqid,
                          ri_request_digest = digest\<rparr>, ss_submissions = submissions\<rparr>))
                | _ \<Rightarrow> map_fail Unsupported_Mapping))
           | _ \<Rightarrow> map_fail Missing_Field)))
      | _ \<Rightarrow> map_fail Missing_Field)"

section \<open>Native choices and actions\<close>

record action_binding =
  ab_action :: search_action
  ab_native_choice :: string
  ab_submission :: "battle_submission option"

text \<open>\<open>tuple(catalog.id_for(value) for value in sorted(set(values)))\<close>.\<close>

definition capabilities_for :: "capability_catalog \<Rightarrow> string list \<Rightarrow> engine_exc + capability_id list" where
  "capabilities_for c values =
     handle is_value_or_type (of_core (emap (id_for c) (sort (remdups values))))
       (map_fail Capability_Ambiguity)"

text \<open>\<open>xs[i]\<close> for an integer index, which counts from the end when negative.\<close>

definition py_index :: "'a list \<Rightarrow> int \<Rightarrow> 'a option" where
  "py_index xs i =
     (let k = if i < 0 then i + int (length xs) else i
      in if 0 \<le> k \<and> k < int (length xs) then Some (xs ! nat k) else None)"

definition submission_choice ::
    "battle_submission \<Rightarrow> string list \<Rightarrow> string list \<Rightarrow> engine_exc + string" where
  "submission_choice b team_ids active_move_ids =
     (case bs_kind b of
        Move \<Rightarrow>
          (case (bs_move_id b, bs_slot b) of
             (Some m, Some slot) \<Rightarrow>
               if int (length active_move_ids) < slot then map_fail Safe_Submission_Mismatch
               else (case py_index active_move_ids (slot - 1) of
                 None \<Rightarrow> Inl (Core_Error IndexError)
               | Some native \<Rightarrow>
                   if native \<noteq> m then map_fail Safe_Submission_Mismatch
                   else Inr (m @ (if bs_terastallize b then ''-tera'' else [])))
           | _ \<Rightarrow> map_fail Safe_Submission_Mismatch)
      | Switch \<Rightarrow>
          (case bs_slot b of
             None \<Rightarrow> map_fail Safe_Submission_Mismatch
           | Some slot \<Rightarrow>
               if int (length team_ids) < slot then map_fail Safe_Submission_Mismatch
               else (case py_index team_ids (slot - 1) of
                 None \<Rightarrow> Inl (Core_Error IndexError)
               | Some name \<Rightarrow> Inr (''switch '' @ name)))
      | _ \<Rightarrow> map_fail Unsupported_Mapping)"

definition switch_capability :: "bool \<Rightarrow> string" where
  "switch_capability force_switch =
     (if force_switch then ''gen9.legality.switch.forced'' else ''gen9.legality.switch.voluntary'')"

definition move_capabilities :: "bool \<Rightarrow> string list" where
  "move_capabilities tera = ''gen9.legality.move.selection''
     # (if tera then [''gen9.legality.terastallization.activation''] else [])"

definition make_action ::
    "string \<Rightarrow> string \<Rightarrow> capability_id list \<Rightarrow> int option \<Rightarrow> root_identity option
     \<Rightarrow> py_exc + search_action" where
  "make_action i kind capabilities index root =
     (let a = \<lparr>sa_action_id = i, sa_kind = kind, sa_required_capabilities = capabilities,
        sa_root_submission_index = index, sa_root_identity = root\<rparr>
      in ebind (check_action a) (\<lambda>_. Inr a))"

definition map_root_action ::
    "digest_fn \<Rightarrow> root_identity \<Rightarrow> string list \<Rightarrow> string list \<Rightarrow> string list \<Rightarrow> bool
     \<Rightarrow> capability_catalog \<Rightarrow> nat \<times> battle_submission \<Rightarrow> engine_exc + action_binding" where
  "map_root_action manifest root choices team_ids active_move_ids force_switch c = (\<lambda>(index, b).
     ebind (submission_choice b team_ids active_move_ids) (\<lambda>native.
     ebind (map_ensure Safe_Submission_Mismatch (native \<in> set choices)) (\<lambda>_.
     (let kind = if bs_kind b = Move then ''move'' else ''switch'';
          values = if bs_kind b = Move then move_capabilities (bs_terastallize b)
                   else [switch_capability force_switch]
      in
      ebind (of_core (battle_submission_digest manifest b)) (\<lambda>submission_digest.
      ebind (of_core (manifest (JObject [(''safe_submission_index'', JInt (int index)),
         (''submission_digest'', JString submission_digest)]))) (\<lambda>action_id.
      ebind (capabilities_for c values) (\<lambda>capabilities.
      ebind (of_core (make_action action_id kind capabilities (Some (int index)) (Some root))) (\<lambda>action.
        Inr \<lparr>ab_action = action, ab_native_choice = native, ab_submission = Some b\<rparr>))))))))"

definition map_root_actions ::
    "digest_fn \<Rightarrow> safe_submission_set \<Rightarrow> root_identity \<Rightarrow> string list \<Rightarrow> string list \<Rightarrow> string list
     \<Rightarrow> bool \<Rightarrow> capability_catalog \<Rightarrow> engine_exc + action_binding list" where
  "map_root_actions manifest safe root choices team_ids active_move_ids force_switch c =
     ebind (map_ensure Safe_Submission_Mismatch (ss_submissions safe \<noteq> [])) (\<lambda>_.
     ebind (map_ensure Safe_Submission_Mismatch (distinct (ss_submissions safe))) (\<lambda>_.
     ebind (emap (map_root_action manifest root choices team_ids active_move_ids force_switch c)
       (enumerate 0 (ss_submissions safe))) (\<lambda>bindings.
     ebind (map_ensure Safe_Submission_Mismatch (distinct (map ab_native_choice bindings))) (\<lambda>_.
       Inr bindings))))"

text \<open>\<open>[a-z0-9]+(-tera)?\<close> and \<open>switch [a-z0-9]+\<close>.\<close>

definition is_id_word :: "string \<Rightarrow> bool" where
  "is_id_word s \<longleftrightarrow> s \<noteq> [] \<and> list_all is_id_lower s"

definition is_move_choice :: "string \<Rightarrow> bool" where
  "is_move_choice s \<longleftrightarrow> is_id_word s
     \<or> ends_with ''-tera'' s \<and> is_id_word (take (length s - 5) s)"

definition is_switch_choice :: "string \<Rightarrow> bool" where
  "is_switch_choice s \<longleftrightarrow> starts_with ''switch '' s \<and> is_id_word (drop 7 s)"

definition map_native_action ::
    "digest_fn \<Rightarrow> bool \<Rightarrow> capability_catalog \<Rightarrow> string \<Rightarrow> engine_exc + action_binding" where
  "map_native_action manifest force_switch c native =
     ebind (map_ensure Unknown_Native_Choice (native \<noteq> [] \<and> list_all is_ascii native)) (\<lambda>_.
     ebind
      (if native = ''No Move'' then Inr (''pass'', [])
       else if is_switch_choice native then
         ebind (capabilities_for c [switch_capability force_switch]) (\<lambda>cs. Inr (''switch'', cs))
       else if is_move_choice native then
         ebind (capabilities_for c (move_capabilities (ends_with ''-tera'' native)))
           (\<lambda>cs. Inr (''move'', cs))
       else map_fail Unknown_Native_Choice) (\<lambda>(kind, capabilities).
     ebind (of_core (manifest (JObject [(''kind'', JString kind), (''native_choice'', JString native)])))
       (\<lambda>action_id.
     ebind (of_core (make_action action_id kind capabilities None None)) (\<lambda>action.
       Inr \<lparr>ab_action = action, ab_native_choice = native, ab_submission = None\<rparr>))))"

definition map_native_actions ::
    "digest_fn \<Rightarrow> string list \<Rightarrow> bool \<Rightarrow> capability_catalog \<Rightarrow> engine_exc + action_binding list" where
  "map_native_actions manifest choices force_switch c =
     ebind (map_ensure Malformed_Native_Result (choices \<noteq> [] \<and> distinct choices)) (\<lambda>_.
       emap (map_native_action manifest force_switch c) choices)"

definition binding_for_action ::
    "action_binding list \<Rightarrow> search_action \<Rightarrow> engine_exc + action_binding" where
  "binding_for_action bindings action =
     (case filter (\<lambda>b. ab_action b = action) bindings of
        [b] \<Rightarrow> Inr b
      | _ \<Rightarrow> map_fail Invalid_Joint_Action)"

section \<open>Root actions\<close>

lemma make_action_Inr:
  "make_action i kind cs index root = Inr a \<longleftrightarrow>
     a = \<lparr>sa_action_id = i, sa_kind = kind, sa_required_capabilities = cs,
        sa_root_submission_index = index, sa_root_identity = root\<rparr> \<and> check_action a = Inr ()"
  by (auto simp: make_action_def Let_def result_simps)

text \<open>What the binding of one safe submission says.\<close>

definition root_binding_ok ::
    "root_identity \<Rightarrow> string list \<Rightarrow> string list \<Rightarrow> string list \<Rightarrow> nat \<times> battle_submission
     \<Rightarrow> action_binding \<Rightarrow> bool" where
  "root_binding_ok root choices team_ids active_move_ids = (\<lambda>(i, b) r.
     ab_submission r = Some b \<and> ab_native_choice r \<in> set choices
     \<and> submission_choice b team_ids active_move_ids = Inr (ab_native_choice r)
     \<and> sa_root_submission_index (ab_action r) = Some (int i)
     \<and> sa_root_identity (ab_action r) = Some root \<and> check_action (ab_action r) = Inr ())"

lemma map_root_action_ok:
  "map_root_action manifest root choices team_ids moves fs c ib = Inr r
    \<Longrightarrow> root_binding_ok root choices team_ids moves ib r"
  by (cases ib) (auto simp: map_root_action_def root_binding_ok_def Let_def make_action_Inr result_simps)

lemma map_root_actions_ok:
  assumes "map_root_actions manifest safe root choices team_ids moves fs c = Inr bindings"
  shows "list_all2 (root_binding_ok root choices team_ids moves) (enumerate 0 (ss_submissions safe)) bindings"
    and "distinct (map ab_native_choice bindings)" "distinct (ss_submissions safe)" "bindings \<noteq> []"
proof -
  have 1: "ss_submissions safe \<noteq> []" "distinct (ss_submissions safe)" "distinct (map ab_native_choice bindings)"
    "emap (map_root_action manifest root choices team_ids moves fs c) (enumerate 0 (ss_submissions safe)) = Inr bindings"
    using assms by (auto simp: map_root_actions_def result_simps)
  then show "distinct (map ab_native_choice bindings)" "distinct (ss_submissions safe)" by simp_all
  show "list_all2 (root_binding_ok root choices team_ids moves) (enumerate 0 (ss_submissions safe)) bindings"
    using 1(4) by (auto simp: emap_eq_Inr intro: map_root_action_ok elim: list_all2_mono)
  from 1(1,4) show "bindings \<noteq> []" using emap_Inr_length [OF 1(4)] by auto
qed

lemma root_bindings_nth:
  assumes "list_all2 (root_binding_ok root choices team_ids moves) (enumerate 0 submissions) bindings"
    and "i < length bindings"
  shows "root_binding_ok root choices team_ids moves (i, submissions ! i) (bindings ! i)"
    and "length bindings = length submissions"
proof -
  show len: "length bindings = length submissions" using list_all2_lengthD [OF assms(1)] by simp
  show "root_binding_ok root choices team_ids moves (i, submissions ! i) (bindings ! i)"
    using list_all2_nthD2 [OF assms] assms(2) len by (simp add: nth_enumerate_eq)
qed

lemma root_submissions:
  assumes "list_all2 (root_binding_ok root choices team_ids moves) (enumerate 0 submissions) bindings"
  shows "map ab_submission bindings = map Some submissions"
proof (rule nth_equalityI)
  show "length (map ab_submission bindings) = length (map Some submissions)"
    using list_all2_lengthD [OF assms] by simp
  fix i assume i: "i < length (map ab_submission bindings)"
  then have "i < length bindings" by simp
  from root_bindings_nth [OF assms this] i
  show "map ab_submission bindings ! i = map Some submissions ! i" by (simp add: root_binding_ok_def)
qed

lemma root_actions_distinct_indices:
  assumes "list_all2 (root_binding_ok root choices team_ids moves) (enumerate 0 submissions) bindings"
  shows "distinct (map ab_action bindings)"
proof -
  have "sa_root_submission_index (ab_action (bindings ! i)) = Some (int i)" if "i < length bindings" for i
    using root_bindings_nth(1) [OF assms that] by (simp add: root_binding_ok_def)
  then show ?thesis by (auto simp: distinct_conv_nth) (metis option.inject of_nat_eq_iff)
qed

lemma binding_found:
  assumes "distinct (map ab_action bindings)" "b \<in> set bindings"
  shows "binding_for_action bindings (ab_action b) = Inr b"
proof -
  have "filter (\<lambda>x. ab_action x = ab_action b) bindings = [b]"
    using assms
  proof (induction bindings)
    case (Cons x bs)
    show ?case
    proof (cases "x = b")
      case True
      then have "ab_action b \<notin> set (map ab_action bs)" using Cons.prems(1) by simp
      then have "filter (\<lambda>x. ab_action x = ab_action b) bs = []"
        by (auto simp: filter_empty_conv) (metis image_eqI)
      then show ?thesis using True by simp
    next
      case False
      then have "b \<in> set bs" "ab_action x \<noteq> ab_action b" using Cons.prems by auto
      then show ?thesis using Cons by simp
    qed
  qed simp
  then show ?thesis by (simp add: binding_for_action_def)
qed

lemma binding_for_action_Inr:
  assumes "binding_for_action bindings a = Inr b"
  shows "b \<in> set bindings" "ab_action b = a"
proof -
  have "filter (\<lambda>x. ab_action x = a) bindings = [b]"
    using assms by (auto simp: binding_for_action_def map_fail_def split: list.splits)
  then have "b \<in> set (filter (\<lambda>x. ab_action x = a) bindings)" by simp
  then show "b \<in> set bindings" "ab_action b = a" by simp_all
qed

section \<open>Native actions\<close>

lemma map_native_action_ok:
  assumes "map_native_action manifest fs c native = Inr r"
  shows "ab_native_choice r = native" "ab_submission r = None" "sa_root_identity (ab_action r) = None"
    "check_action (ab_action r) = Inr ()"
    "sa_kind (ab_action r) = (if native = ''No Move'' then ''pass''
       else if is_switch_choice native then ''switch'' else ''move'')"
    "native = ''No Move'' \<or> is_switch_choice native \<or> is_move_choice native"
  using assms
  by (auto simp: map_native_action_def make_action_Inr result_simps split: if_splits)

lemma map_native_actions_ok:
  assumes "map_native_actions manifest choices fs c = Inr bindings"
  shows "map ab_native_choice bindings = choices" "distinct choices" "choices \<noteq> []"
    "list_all (\<lambda>b. ab_submission b = None \<and> sa_root_identity (ab_action b) = None
       \<and> check_action (ab_action b) = Inr ()) bindings"
proof -
  have 1: "choices \<noteq> []" "distinct choices" "emap (map_native_action manifest fs c) choices = Inr bindings"
    using assms by (auto simp: map_native_actions_def result_simps)
  then show "distinct choices" "choices \<noteq> []" by simp_all
  have 2: "list_all2 (\<lambda>n b. map_native_action manifest fs c n = Inr b) choices bindings"
    using 1(3) by (simp add: emap_eq_Inr)
  then show "map ab_native_choice bindings = choices"
    by (induction rule: list_all2_induct) (simp_all add: map_native_action_ok)
  from 2 show "list_all (\<lambda>b. ab_submission b = None \<and> sa_root_identity (ab_action b) = None
       \<and> check_action (ab_action b) = Inr ()) bindings"
    by (induction rule: list_all2_induct) (simp_all add: map_native_action_ok)
qed

end
