(* ===== verification/Events.thy ===== *)
theory Events
  imports Battle_State
begin

text \<open>
  The canonical battle events of \<open>battlebelief_core/domain/events\<close>: one constructor per
  frozen dataclass with its fields in the source's order, grouped by module
  (\<open>pokemon.py\<close> into three groups). \<open>battle_event\<close> is the marker base class.
\<close>

datatype metadata_event =
    BattleInit (me_index: int) string
  | PlayerDeclared (me_index: int) string string
      string
  | TeamSizeDeclared (me_index: int) string int
  | GameTypeDeclared (me_index: int) string
  | GenerationDeclared (me_index: int) int
  | TierDeclared (me_index: int) string
  | BattleRated (me_index: int) bool
  | RuleDeclared (me_index: int) string
  | PreviewPokemonDeclared (me_index: int) string string
      bool
  | PreviewCleared (me_index: int)
  | TeamPreviewStarted (me_index: int)

datatype progress_event =
    BattleStarted (pe_index: int)
  | TurnStarted (pe_index: int) int
  | BattleWon (pe_index: int) string
  | BattleTied (pe_index: int)

datatype boost_change_mode = Delta | Set_Mode

datatype form_change_kind = Persistent_Details | Temporary_Species

text \<open>Switches, faints, moves, health and status; arguments: index, side, slot, nickname.\<close>

datatype pokemon_event =
    PokemonSwitched (pk_index: int) (pk_side: string) int string string hp_token
  | PokemonDragged (pk_index: int) (pk_side: string) int string string hp_token
  | PokemonFainted (pk_index: int) (pk_side: string) int string
  | MoveUsed (pk_index: int) (pk_side: string) int string string
      "string option" "int option" "string option" "string list"
  | MovePrevented (pk_index: int) (pk_side: string) int string string "string option"
  | HealthChanged (pk_index: int) (pk_side: string) "int option" string hp_token "string list"
  | StatusChanged (pk_index: int) (pk_side: string) int string "string option" "string list"
  | TeamStatusCured (pk_index: int) (pk_side: string)

text \<open>Stat boosts. The target of \<open>BoostsCleared\<close> is absent for \<open>-clearallboost\<close>.\<close>

datatype boost_event =
    BoostChanged (bo_index: int) string int string string boost_change_mode int
  | BoostsSwapped (bo_index: int) string int string string int string "string list"
  | BoostsCopied (bo_index: int) string int string string int string "string list"
  | BoostsCleared (bo_index: int) "string option" "int option" "string option" string
  | BoostsInverted (bo_index: int) string int string

definition make_boosts_cleared ::
    "int \<Rightarrow> string option \<Rightarrow> int option \<Rightarrow> string option \<Rightarrow> string \<Rightarrow> py_exc + boost_event" where
  "make_boosts_cleared ei side_id slot nickname scope =
     (if \<not> ((side_id = None \<and> slot = None \<and> nickname = None)
            \<or> (side_id \<noteq> None \<and> slot \<noteq> None \<and> nickname \<noteq> None)) then Inl ValueError
      else if side_id = None \<and> scope \<noteq> ''all'' then Inl ValueError
      else Inr (BoostsCleared ei side_id slot nickname scope))"

text \<open>Items, abilities, identity, form, transformation, volatile conditions.\<close>

datatype attribute_event =
    ItemChanged (at_index: int) string int string "string option" string "string list"
  | AbilityChanged (at_index: int) string int string "string option" string "string list"
  | IdentityChanged (at_index: int) string int string string hp_token
  | FormChanged (at_index: int) string int string form_change_kind string hp_token
  | PokemonTransformed (at_index: int) string int string string int string
  | Terastallized (at_index: int) string int string string
  | VolatileChanged (at_index: int) string int string string string "string list"
  | RechargeChanged (at_index: int) string int string bool

datatype field_event =
    WeatherChanged (fe_index: int) "string option" string
  | FieldConditionChanged (fe_index: int) string string "string list"
  | SideConditionChanged (fe_index: int) string string string
  | SideConditionsSwapped (fe_index: int)

record ignored_display_event =
  ig_index :: int
  ig_kind :: string

datatype battle_event =
    Metadata metadata_event
  | Progress progress_event
  | Pokemon pokemon_event
  | Boost boost_event
  | Attribute attribute_event
  | Field field_event
  | Evidence visible_evidence
  | Ignored ignored_display_event

fun event_index :: "battle_event \<Rightarrow> int" where
  "event_index (Metadata e) = me_index e"
| "event_index (Progress e) = pe_index e"
| "event_index (Pokemon e) = pk_index e"
| "event_index (Boost e) = bo_index e"
| "event_index (Attribute e) = at_index e"
| "event_index (Field e) = fe_index e"
| "event_index (Evidence e) = ve_index e"
| "event_index (Ignored e) = ig_index e"

lemma make_boosts_cleared_eq_Inr [result_simps]:
  "make_boosts_cleared ei sd sl n sc = Inr e \<longleftrightarrow>
     e = BoostsCleared ei sd sl n sc \<and> (sd = None \<longleftrightarrow> sl = None) \<and> (sd = None \<longleftrightarrow> n = None)
     \<and> (sd = None \<longrightarrow> sc = ''all'')"
  by (auto simp: make_boosts_cleared_def)

end
