(* ===== verification/Reducer.thy ===== *)
theory Reducer
  imports Events
begin

text \<open>
  \<open>ObservationReducer\<close> of \<open>application/observation/reducer.py\<close>: the helpers, one
  definition per handler, and the dispatch \<open>reduce_event\<close>.
  The source replaces a Pokemon by object identity. The views of one side are distinct
  objects, so a reference to one is its position in the side's tuple (\<open>pv_ref\<close>);
  \<open>deref\<close> reads it and \<open>replace_pokemon\<close> writes that position only.
\<close>

type_synonym pv_ref = nat

section \<open>Helpers\<close>

definition layer_caps :: "(string \<times> int) list" where
  "layer_caps = [(''spikes'', 3), (''toxicspikes'', 2)]"

definition default_layer_cap :: int where
  "default_layer_cap = 1"

definition layer_cap :: "string \<Rightarrow> int" where
  "layer_cap condition =
     (case map_of layer_caps condition of Some c \<Rightarrow> c | None \<Rightarrow> default_layer_cap)"

definition token_to_observation ::
    "hp_token \<Rightarrow> string \<Rightarrow> string option \<Rightarrow> py_exc + hp_observation" where
  "token_to_observation token side_id our_side =
     (let precision = (if our_side \<noteq> None \<and> Some side_id = our_side then Exact
                       else if tok_maximum token = 100 then Percent else Pixel)
      in if tok_fainted token then make_hp 0 (max (tok_maximum token) 1) precision True
         else make_hp (tok_current token) (tok_maximum token) precision False)"

definition find_active :: "side_view \<Rightarrow> pv_ref option" where
  "find_active s = find_index pv_active (sv_pokemon s)"

definition deref :: "side_view \<Rightarrow> pv_ref \<Rightarrow> pokemon_view" where
  "deref s r = sv_pokemon s ! r"

definition require_active :: "side_view \<Rightarrow> string \<Rightarrow> py_exc + pv_ref" where
  "require_active s nickname =
     (case find_active s of
        None \<Rightarrow> Inl ReducerInvariantError
      | Some r \<Rightarrow> if pv_nickname (deref s r) \<noteq> nickname then Inl ReducerInvariantError
                 else Inr r)"

definition require_health_target ::
    "side_view \<Rightarrow> string \<Rightarrow> int option \<Rightarrow> py_exc + pv_ref" where
  "require_health_target s nickname slot =
     (if slot \<noteq> None then require_active s nickname
      else
        (let candidates = filter (\<lambda>r. \<not> pv_active (deref s r) \<and> pv_fainted (deref s r)
                \<and> pv_nickname (deref s r) = nickname) [0..<length (sv_pokemon s)]
         in if length candidates \<noteq> 1 then Inl ReducerInvariantError else Inr (candidates ! 0)))"

definition find_for_switch_in ::
    "pokemon_view list \<Rightarrow> string \<Rightarrow> string \<Rightarrow> pv_ref option" where
  "find_for_switch_in pokemon nickname details =
     (let target_identity = normalize_identity_details details
      in find_index (\<lambda>pv. pv_nickname pv = nickname \<and> pv_switch_identity pv = target_identity)
           pokemon)"

definition replace_pokemon :: "side_view \<Rightarrow> pv_ref \<Rightarrow> pokemon_view \<Rightarrow> side_view" where
  "replace_pokemon s original updated = s\<lparr>sv_pokemon := (sv_pokemon s)[original := updated]\<rparr>"

definition update_side :: "observed_state \<Rightarrow> side_view \<Rightarrow> py_exc + observed_state" where
  "update_side st new_side =
     (if sv_side_id new_side = ''p1'' then Inr (st\<lparr>os_p1 := new_side\<rparr>)
      else if sv_side_id new_side = ''p2'' then Inr (st\<lparr>os_p2 := new_side\<rparr>)
      else Inl ReducerInvariantError)"

definition stat_index :: "string \<Rightarrow> py_exc + nat" where
  "stat_index stat = of_option ValueError (find_index (\<lambda>s. s = stat) boost_stats)"

definition clamp_boost :: "int \<Rightarrow> int" where
  "clamp_boost v = max (-6) (min 6 v)"

definition with_boost :: "int list \<Rightarrow> nat \<Rightarrow> int \<Rightarrow> int list" where
  "with_boost boosts idx v = take idx boosts @ [v] @ drop (idx + 1) boosts"

definition apply_boost_delta :: "int list \<Rightarrow> string \<Rightarrow> int \<Rightarrow> py_exc + int list" where
  "apply_boost_delta boosts stat delta =
     ebind (stat_index stat) (\<lambda>idx.
       if length boosts \<le> idx then Inl IndexError
       else Inr (with_boost boosts idx (clamp_boost (boosts ! idx + delta))))"

definition set_boost :: "int list \<Rightarrow> string \<Rightarrow> int \<Rightarrow> py_exc + int list" where
  "set_boost boosts stat v =
     ebind (stat_index stat) (\<lambda>idx. Inr (with_boost boosts idx (clamp_boost v)))"

definition clear_boosts :: "int list \<Rightarrow> string \<Rightarrow> py_exc + int list" where
  "clear_boosts boosts scope =
     (if scope = ''all'' then Inr zero_boosts
      else if scope = ''positive'' then Inr (map (\<lambda>b. min b 0) boosts)
      else if scope = ''negative'' then Inr (map (\<lambda>b. max b 0) boosts)
      else if scope \<in> set boost_stats then
        ebind (stat_index scope) (\<lambda>idx. Inr (with_boost boosts idx 0))
      else Inl ReducerInvariantError)"

definition update_side_condition ::
    "(string \<times> int) list \<Rightarrow> string \<Rightarrow> string \<Rightarrow> (string \<times> int) list" where
  "update_side_condition conditions condition action =
     (let cond_dict = dict_of conditions;
          current = (case map_of cond_dict condition of Some n \<Rightarrow> n | None \<Rightarrow> 0)
      in sort (if action \<in> {''start'', ''upkeep''} then
                 AList.update condition (min (current + 1) (layer_cap condition)) cond_dict
               else if action = ''end'' then AList.delete condition cond_dict
               else cond_dict))"

definition close_open_interval ::
    "evidence_interval list \<Rightarrow> int \<Rightarrow> evidence_interval list" where
  "close_open_interval intervals ei =
     map (\<lambda>iv. if iv_until iv = None then iv\<lparr>iv_until := Some ei\<rparr> else iv) intervals"

definition open_interval ::
    "evidence_interval list \<Rightarrow> string option \<Rightarrow> int \<Rightarrow> evidence_interval list" where
  "open_interval intervals v ei =
     close_open_interval intervals ei
     @ [\<lparr>iv_value = v, iv_source = ei, iv_from = ei, iv_until = None\<rparr>]"

definition end_ability_suppression_on_switch_out ::
    "evidence_interval list \<Rightarrow> int \<Rightarrow> evidence_interval list" where
  "end_ability_suppression_on_switch_out intervals ei =
     (if intervals \<noteq> [] \<and> iv_until (last intervals) = None \<and> iv_value (last intervals) = None
      then close_open_interval intervals ei else intervals)"

definition deactivate :: "int \<Rightarrow> pokemon_view \<Rightarrow> pokemon_view" where
  "deactivate ei pv =
     (if pv_active pv then
        pv\<lparr>pv_active := False, pv_boosts := zero_boosts, pv_volatiles := [],
           pv_recharging := False, pv_transform_target := None,
           pv_ability_intervals :=
             end_ability_suppression_on_switch_out (pv_ability_intervals pv) ei\<rparr>
      else pv)"

definition activate_pokemon ::
    "side_view \<Rightarrow> string \<Rightarrow> string \<Rightarrow> hp_observation \<Rightarrow> string option \<Rightarrow> int \<Rightarrow> side_view" where
  "activate_pokemon s nickname details hp status ei =
     (let deactivated = map (deactivate ei) (sv_pokemon s)
      in case find_for_switch_in deactivated nickname details of
           None \<Rightarrow>
             (let new_pv = (new_pokemon_view (sv_side_id s) nickname (Some details))
                   \<lparr>pv_active := True, pv_hp := Some hp, pv_status := status,
                    pv_current_details := Some details\<rparr>
              in s\<lparr>sv_pokemon := deactivated @ [new_pv], sv_active_slot := Some 1\<rparr>)
         | Some r \<Rightarrow>
             (let updated = (deactivated ! r)
                   \<lparr>pv_active := True, pv_hp := Some hp, pv_status := status,
                    pv_fainted := False, pv_current_details := Some details,
                    pv_boosts := zero_boosts, pv_volatiles := [], pv_recharging := False,
                    pv_transform_target := None\<rparr>
              in s\<lparr>sv_pokemon := deactivated[r := updated], sv_active_slot := Some 1\<rparr>))"

text \<open>
  The shape most handlers share: look the side up, require its active Pokemon to carry
  the event's nickname, compute the new view, store it back.
\<close>

definition with_active ::
    "observed_state \<Rightarrow> string \<Rightarrow> string \<Rightarrow> (pokemon_view \<Rightarrow> py_exc + pokemon_view)
     \<Rightarrow> py_exc + observed_state" where
  "with_active st side_id nickname f =
     ebind (side st side_id) (\<lambda>s.
     ebind (require_active s nickname) (\<lambda>r.
     ebind (f (deref s r)) (\<lambda>pv. update_side st (replace_pokemon s r pv))))"

definition add_evidence :: "observed_state \<Rightarrow> visible_evidence \<Rightarrow> observed_state" where
  "add_evidence st ve = st\<lparr>os_visible_evidence := os_visible_evidence st @ [ve]\<rparr>"

section \<open>Metadata and progress\<close>

fun reduce_metadata :: "observed_state \<Rightarrow> metadata_event \<Rightarrow> py_exc + observed_state" where
  "reduce_metadata st (BattleInit ei room) = Inr (st\<lparr>os_room_initialized := True\<rparr>)"
| "reduce_metadata st (PlayerDeclared ei side_id user_id display_name) =
     (let new_our_side = (if user_id = os_our_user_id st \<and> os_our_side st = None
                          then Some side_id else os_our_side st)
      in ebind (side st side_id) (\<lambda>s.
           update_side (st\<lparr>os_our_side := new_our_side\<rparr>)
             (s\<lparr>sv_user_id := Some user_id, sv_display_name := Some display_name\<rparr>)))"
| "reduce_metadata st (TeamSizeDeclared ei side_id n) =
     ebind (side st side_id) (\<lambda>s. update_side st (s\<lparr>sv_team_size := Some n\<rparr>))"
| "reduce_metadata st (GenerationDeclared ei g) = Inr (st\<lparr>os_generation := Some g\<rparr>)"
| "reduce_metadata st (GameTypeDeclared ei g) = Inr (st\<lparr>os_game_type := Some g\<rparr>)"
| "reduce_metadata st (TierDeclared ei t) = Inr (st\<lparr>os_tier := Some t\<rparr>)"
| "reduce_metadata st (BattleRated ei r) = Inr (st\<lparr>os_rated := Some r\<rparr>)"
| "reduce_metadata st (RuleDeclared ei r) = Inr (st\<lparr>os_rules := os_rules st @ [r]\<rparr>)"
| "reduce_metadata st (PreviewPokemonDeclared ei side_id details has_item) =
     ebind (side st side_id) (\<lambda>s. update_side st
       (s\<lparr>sv_preview_roster :=
            sv_preview_roster s @ [\<lparr>pp_details = details, pp_has_item = has_item\<rparr>]\<rparr>))"
| "reduce_metadata st (PreviewCleared ei) =
     Inr (st\<lparr>os_p1 := (os_p1 st)\<lparr>sv_preview_roster := []\<rparr>,
             os_p2 := (os_p2 st)\<lparr>sv_preview_roster := []\<rparr>\<rparr>)"
| "reduce_metadata st (TeamPreviewStarted ei) = Inr (st\<lparr>os_team_preview_started := True\<rparr>)"

fun reduce_progress :: "observed_state \<Rightarrow> progress_event \<Rightarrow> py_exc + observed_state" where
  "reduce_progress st (BattleStarted ei) = Inr (st\<lparr>os_battle_started := True\<rparr>)"
| "reduce_progress st (TurnStarted ei t) = Inr (st\<lparr>os_turn := t\<rparr>)"
| "reduce_progress st (BattleWon ei w) = Inr (st\<lparr>os_winner := Some w\<rparr>)"
| "reduce_progress st (BattleTied ei) = Inr (st\<lparr>os_tied := True\<rparr>)"

section \<open>Switches, faints, moves, health, status\<close>

definition reduce_switch ::
    "observed_state \<Rightarrow> int \<Rightarrow> string \<Rightarrow> string \<Rightarrow> string \<Rightarrow> hp_token \<Rightarrow> py_exc + observed_state" where
  "reduce_switch st ei side_id nickname details hp =
     ebind (token_to_observation hp side_id (os_our_side st)) (\<lambda>hp_obs.
     ebind (side st side_id) (\<lambda>s.
       update_side st (activate_pokemon s nickname details hp_obs (tok_status hp) ei)))"

definition reduce_faint ::
    "observed_state \<Rightarrow> string \<Rightarrow> string \<Rightarrow> py_exc + observed_state" where
  "reduce_faint st side_id nickname =
     with_active st side_id nickname (\<lambda>pv.
       ebind (make_hp 0
           (case pv_hp pv of Some h \<Rightarrow> hp_maximum h | None \<Rightarrow> 100)
           (case pv_hp pv of Some h \<Rightarrow> hp_precision h | None \<Rightarrow> Percent) True) (\<lambda>fainted_hp.
         Inr (pv\<lparr>pv_fainted := True, pv_hp := Some fainted_hp, pv_boosts := zero_boosts,
                 pv_volatiles := [], pv_recharging := False, pv_transform_target := None\<rparr>)))"

definition reduce_move ::
    "observed_state \<Rightarrow> int \<Rightarrow> string \<Rightarrow> int \<Rightarrow> string \<Rightarrow> string \<Rightarrow> string list
     \<Rightarrow> py_exc + observed_state" where
  "reduce_move st ei side_id slot nickname move_id annotations =
     ebind (side st side_id) (\<lambda>s.
     ebind (require_active s nickname) (\<lambda>r.
     ebind
       (if move_id \<notin> set (pv_revealed_moves (deref s r)) then
          update_side st (replace_pokemon s r
            ((deref s r)\<lparr>pv_revealed_moves := pv_revealed_moves (deref s r) @ [move_id]\<rparr>))
        else Inr st) (\<lambda>st'.
     Inr (add_evidence st'
       \<lparr>ve_index = ei, ve_kind = ''move'', ve_side_id = Some side_id, ve_slot = Some slot,
        ve_nickname = Some nickname, ve_effect = Some move_id, ve_annotations = annotations\<rparr>))))"

definition reduce_move_prevented ::
    "observed_state \<Rightarrow> int \<Rightarrow> string \<Rightarrow> int \<Rightarrow> string \<Rightarrow> string \<Rightarrow> string option
     \<Rightarrow> py_exc + observed_state" where
  "reduce_move_prevented st ei side_id slot nickname reason move_id =
     Inr (add_evidence st
       \<lparr>ve_index = ei, ve_kind = ''move_prevented'', ve_side_id = Some side_id,
        ve_slot = Some slot, ve_nickname = Some nickname, ve_effect = Some reason,
        ve_annotations = (case move_id of None \<Rightarrow> [] | Some m \<Rightarrow> [m])\<rparr>)"

definition reduce_health ::
    "observed_state \<Rightarrow> string \<Rightarrow> int option \<Rightarrow> string \<Rightarrow> hp_token \<Rightarrow> py_exc + observed_state" where
  "reduce_health st side_id slot nickname hp =
     ebind (side st side_id) (\<lambda>s.
     ebind (require_health_target s nickname slot) (\<lambda>r.
     ebind (token_to_observation hp side_id (os_our_side st)) (\<lambda>hp_obs.
       update_side st (replace_pokemon s r
         ((deref s r)\<lparr>pv_hp := Some hp_obs, pv_status := tok_status hp,
                      pv_fainted := tok_fainted hp\<rparr>)))))"

definition reduce_status ::
    "observed_state \<Rightarrow> string \<Rightarrow> string \<Rightarrow> string option \<Rightarrow> py_exc + observed_state" where
  "reduce_status st side_id nickname status =
     with_active st side_id nickname (\<lambda>pv. Inr (pv\<lparr>pv_status := status\<rparr>))"

definition reduce_team_cure :: "observed_state \<Rightarrow> string \<Rightarrow> py_exc + observed_state" where
  "reduce_team_cure st side_id =
     ebind (side st side_id) (\<lambda>s.
       update_side st (s\<lparr>sv_pokemon := map (\<lambda>pv. pv\<lparr>pv_status := None\<rparr>) (sv_pokemon s)\<rparr>))"

fun reduce_pokemon :: "observed_state \<Rightarrow> pokemon_event \<Rightarrow> py_exc + observed_state" where
  "reduce_pokemon st (PokemonSwitched ei sd sl n d hp) = reduce_switch st ei sd n d hp"
| "reduce_pokemon st (PokemonDragged ei sd sl n d hp) = reduce_switch st ei sd n d hp"
| "reduce_pokemon st (PokemonFainted ei sd sl n) = reduce_faint st sd n"
| "reduce_pokemon st (MoveUsed ei sd sl n m tsd tsl tn an) = reduce_move st ei sd sl n m an"
| "reduce_pokemon st (MovePrevented ei sd sl n rs m) = reduce_move_prevented st ei sd sl n rs m"
| "reduce_pokemon st (HealthChanged ei sd sl n hp an) = reduce_health st sd sl n hp"
| "reduce_pokemon st (StatusChanged ei sd sl n status an) = reduce_status st sd n status"
| "reduce_pokemon st (TeamStatusCured ei sd) = reduce_team_cure st sd"

section \<open>Boosts\<close>

definition reduce_boost_changed ::
    "observed_state \<Rightarrow> string \<Rightarrow> string \<Rightarrow> string \<Rightarrow> boost_change_mode \<Rightarrow> int
     \<Rightarrow> py_exc + observed_state" where
  "reduce_boost_changed st side_id nickname stat mode amount =
     with_active st side_id nickname (\<lambda>pv.
       ebind (if mode = Set_Mode then set_boost (pv_boosts pv) stat amount
              else apply_boost_delta (pv_boosts pv) stat amount) (\<lambda>new_boosts.
         Inr (pv\<lparr>pv_boosts := new_boosts\<rparr>)))"

definition swap_stat :: "int list \<times> int list \<Rightarrow> string \<Rightarrow> py_exc + (int list \<times> int list)" where
  "swap_stat bs stat =
     ebind (stat_index stat) (\<lambda>idx.
       if length (fst bs) \<le> idx \<or> length (snd bs) \<le> idx then Inl IndexError
       else Inr ((fst bs)[idx := snd bs ! idx], (snd bs)[idx := fst bs ! idx]))"

text \<open>
  On one side both handles are the same object, which the first replacement has already
  removed from the tuple: the second one finds nothing to replace.
\<close>

definition reduce_boosts_swapped ::
    "observed_state \<Rightarrow> string \<Rightarrow> string \<Rightarrow> string \<Rightarrow> string \<Rightarrow> string list
     \<Rightarrow> py_exc + observed_state" where
  "reduce_boosts_swapped st side_id nickname target_side_id target_nickname stats =
     ebind (side st side_id) (\<lambda>src_side.
     ebind (side st target_side_id) (\<lambda>tgt_side.
     ebind (require_active src_side nickname) (\<lambda>src.
     ebind (require_active tgt_side target_nickname) (\<lambda>tgt.
     ebind (efold swap_stat (pv_boosts (deref src_side src), pv_boosts (deref tgt_side tgt)) stats)
       (\<lambda>(src_boosts, tgt_boosts).
       let new_src_side =
             replace_pokemon src_side src ((deref src_side src)\<lparr>pv_boosts := src_boosts\<rparr>)
       in if side_id = target_side_id then update_side st new_src_side
          else
            ebind (update_side st new_src_side) (\<lambda>st'.
            ebind (side st' target_side_id) (\<lambda>tgt_side'.
              update_side st'
                (replace_pokemon tgt_side' tgt ((deref tgt_side tgt)\<lparr>pv_boosts := tgt_boosts\<rparr>)))))))))"

definition copy_stat :: "int list \<Rightarrow> int list \<Rightarrow> string \<Rightarrow> py_exc + int list" where
  "copy_stat src_boosts tgt_boosts stat =
     ebind (stat_index stat) (\<lambda>idx.
       if length src_boosts \<le> idx \<or> length tgt_boosts \<le> idx then Inl IndexError
       else Inr (tgt_boosts[idx := src_boosts ! idx]))"

definition reduce_boosts_copied ::
    "observed_state \<Rightarrow> string \<Rightarrow> string \<Rightarrow> string \<Rightarrow> string \<Rightarrow> string list
     \<Rightarrow> py_exc + observed_state" where
  "reduce_boosts_copied st side_id nickname source_side_id source_nickname stats =
     ebind (side st source_side_id) (\<lambda>src_side.
     ebind (side st side_id) (\<lambda>tgt_side.
     ebind (require_active src_side source_nickname) (\<lambda>src.
     ebind (require_active tgt_side nickname) (\<lambda>tgt.
     ebind (efold (copy_stat (pv_boosts (deref src_side src))) (pv_boosts (deref tgt_side tgt)) stats)
       (\<lambda>tgt_boosts.
       update_side st
         (replace_pokemon tgt_side tgt ((deref tgt_side tgt)\<lparr>pv_boosts := tgt_boosts\<rparr>)))))))"

definition clear_active_boosts :: "side_view \<Rightarrow> string \<Rightarrow> py_exc + side_view" where
  "clear_active_boosts s scope =
     (case find_active s of
        None \<Rightarrow> Inr s
      | Some r \<Rightarrow> ebind (clear_boosts (pv_boosts (deref s r)) scope) (\<lambda>cleared.
          Inr (replace_pokemon s r ((deref s r)\<lparr>pv_boosts := cleared\<rparr>))))"

definition reduce_boosts_cleared ::
    "observed_state \<Rightarrow> string option \<Rightarrow> string option \<Rightarrow> string \<Rightarrow> py_exc + observed_state" where
  "reduce_boosts_cleared st side_id nickname scope =
     (case side_id of
        None \<Rightarrow>
          ebind (clear_active_boosts (os_p1 st) scope) (\<lambda>new_p1.
          ebind (clear_active_boosts (os_p2 st) scope) (\<lambda>new_p2.
            Inr (st\<lparr>os_p1 := new_p1, os_p2 := new_p2\<rparr>)))
      | Some sd \<Rightarrow>
          ebind (side st sd) (\<lambda>s.
          ebind (of_option AssertionError nickname) (\<lambda>n.
          ebind (require_active s n) (\<lambda>r.
          ebind (clear_boosts (pv_boosts (deref s r)) scope) (\<lambda>new_boosts.
            update_side st (replace_pokemon s r ((deref s r)\<lparr>pv_boosts := new_boosts\<rparr>)))))))"

definition reduce_boosts_inverted ::
    "observed_state \<Rightarrow> string \<Rightarrow> string \<Rightarrow> py_exc + observed_state" where
  "reduce_boosts_inverted st side_id nickname =
     with_active st side_id nickname (\<lambda>pv. Inr (pv\<lparr>pv_boosts := map uminus (pv_boosts pv)\<rparr>))"

fun reduce_boost :: "observed_state \<Rightarrow> boost_event \<Rightarrow> py_exc + observed_state" where
  "reduce_boost st (BoostChanged ei sd sl n stat mode amount) =
     reduce_boost_changed st sd n stat mode amount"
| "reduce_boost st (BoostsSwapped ei sd sl n tsd tsl tn stats) =
     reduce_boosts_swapped st sd n tsd tn stats"
| "reduce_boost st (BoostsCopied ei sd sl n ssd ssl sn stats) =
     reduce_boosts_copied st sd n ssd sn stats"
| "reduce_boost st (BoostsCleared ei sd sl n scope) = reduce_boosts_cleared st sd n scope"
| "reduce_boost st (BoostsInverted ei sd sl n) = reduce_boosts_inverted st sd n"

section \<open>Items, abilities, identity, form\<close>

definition reduce_item ::
    "observed_state \<Rightarrow> int \<Rightarrow> string \<Rightarrow> string \<Rightarrow> string option \<Rightarrow> string
     \<Rightarrow> py_exc + observed_state" where
  "reduce_item st ei side_id nickname item action =
     with_active st side_id nickname (\<lambda>pv.
       Inr (pv\<lparr>pv_item_intervals := open_interval (pv_item_intervals pv)
                 (if action = ''set'' then item else None) ei\<rparr>))"

definition reduce_ability ::
    "observed_state \<Rightarrow> int \<Rightarrow> string \<Rightarrow> string \<Rightarrow> string option \<Rightarrow> string
     \<Rightarrow> py_exc + observed_state" where
  "reduce_ability st ei side_id nickname ability action =
     with_active st side_id nickname (\<lambda>pv.
       Inr (pv\<lparr>pv_ability_intervals := open_interval (pv_ability_intervals pv)
                 (if action = ''set'' then ability else None) ei\<rparr>))"

definition reduce_identity ::
    "observed_state \<Rightarrow> int \<Rightarrow> string \<Rightarrow> string \<Rightarrow> string \<Rightarrow> hp_token \<Rightarrow> py_exc + observed_state" where
  "reduce_identity st ei side_id nickname details hp =
     ebind (side st side_id) (\<lambda>s.
     ebind (of_option ReducerInvariantError (find_active s)) (\<lambda>r.
     ebind (token_to_observation hp side_id (os_our_side st)) (\<lambda>hp_obs.
       update_side st (replace_pokemon s r
         ((deref s r)\<lparr>pv_nickname := nickname,
            pv_switch_identity := normalize_identity_details details,
            pv_current_details := Some details,
            pv_identity_intervals :=
              open_interval (pv_identity_intervals (deref s r)) (Some details) ei,
            pv_hp := Some hp_obs, pv_status := tok_status hp, pv_fainted := tok_fainted hp\<rparr>)))))"

definition reduce_form ::
    "observed_state \<Rightarrow> int \<Rightarrow> string \<Rightarrow> int \<Rightarrow> string \<Rightarrow> form_change_kind \<Rightarrow> string \<Rightarrow> hp_token
     \<Rightarrow> py_exc + observed_state" where
  "reduce_form st ei side_id slot nickname kind v hp =
     ebind (with_active st side_id nickname (\<lambda>pv.
       ebind (token_to_observation hp side_id (os_our_side st)) (\<lambda>hp_obs.
         Inr (if kind = Persistent_Details then
                pv\<lparr>pv_switch_identity := normalize_identity_details v,
                   pv_current_details := Some v, pv_hp := Some hp_obs,
                   pv_status := tok_status hp, pv_fainted := tok_fainted hp\<rparr>
              else
                pv\<lparr>pv_current_details := Some v, pv_hp := Some hp_obs,
                   pv_status := tok_status hp, pv_fainted := tok_fainted hp\<rparr>)))) (\<lambda>st'.
     Inr (add_evidence st'
       \<lparr>ve_index = ei, ve_kind = ''form'', ve_side_id = Some side_id, ve_slot = Some slot,
        ve_nickname = Some nickname, ve_effect = Some v, ve_annotations = []\<rparr>))"

definition reduce_transform ::
    "observed_state \<Rightarrow> int \<Rightarrow> string \<Rightarrow> int \<Rightarrow> string \<Rightarrow> string \<Rightarrow> py_exc + observed_state" where
  "reduce_transform st ei side_id slot nickname target_nickname =
     ebind (with_active st side_id nickname (\<lambda>pv.
       Inr (pv\<lparr>pv_transform_target := Some target_nickname\<rparr>))) (\<lambda>st'.
     Inr (add_evidence st'
       \<lparr>ve_index = ei, ve_kind = ''transform'', ve_side_id = Some side_id, ve_slot = Some slot,
        ve_nickname = Some nickname, ve_effect = Some target_nickname, ve_annotations = []\<rparr>))"

definition reduce_tera ::
    "observed_state \<Rightarrow> int \<Rightarrow> string \<Rightarrow> int \<Rightarrow> string \<Rightarrow> string \<Rightarrow> py_exc + observed_state" where
  "reduce_tera st ei side_id slot nickname tera_type =
     ebind (with_active st side_id nickname (\<lambda>pv.
       Inr (pv\<lparr>pv_tera_type := Some tera_type\<rparr>))) (\<lambda>st'.
     Inr (add_evidence st'
       \<lparr>ve_index = ei, ve_kind = ''tera'', ve_side_id = Some side_id, ve_slot = Some slot,
        ve_nickname = Some nickname, ve_effect = Some tera_type, ve_annotations = []\<rparr>))"

definition reduce_volatile ::
    "observed_state \<Rightarrow> string \<Rightarrow> string \<Rightarrow> string \<Rightarrow> string \<Rightarrow> py_exc + observed_state" where
  "reduce_volatile st side_id nickname volatile action =
     ebind (side st side_id) (\<lambda>s.
     ebind (require_active s nickname) (\<lambda>r.
       if action = ''start'' then
         (if volatile \<notin> set (pv_volatiles (deref s r)) then
            update_side st (replace_pokemon s r
              ((deref s r)\<lparr>pv_volatiles := sort (pv_volatiles (deref s r) @ [volatile])\<rparr>))
          else Inr st)
       else if action = ''end'' then
         update_side st (replace_pokemon s r
           ((deref s r)\<lparr>pv_volatiles := filter (\<lambda>v. v \<noteq> volatile) (pv_volatiles (deref s r))\<rparr>))
       else Inr st))"

definition reduce_recharge ::
    "observed_state \<Rightarrow> string \<Rightarrow> string \<Rightarrow> bool \<Rightarrow> py_exc + observed_state" where
  "reduce_recharge st side_id nickname recharging =
     with_active st side_id nickname (\<lambda>pv. Inr (pv\<lparr>pv_recharging := recharging\<rparr>))"

fun reduce_attribute :: "observed_state \<Rightarrow> attribute_event \<Rightarrow> py_exc + observed_state" where
  "reduce_attribute st (ItemChanged ei sd sl n item action an) = reduce_item st ei sd n item action"
| "reduce_attribute st (AbilityChanged ei sd sl n ab action an) = reduce_ability st ei sd n ab action"
| "reduce_attribute st (IdentityChanged ei sd sl n d hp) = reduce_identity st ei sd n d hp"
| "reduce_attribute st (FormChanged ei sd sl n kind v hp) = reduce_form st ei sd sl n kind v hp"
| "reduce_attribute st (PokemonTransformed ei sd sl n tsd tsl tn) = reduce_transform st ei sd sl n tn"
| "reduce_attribute st (Terastallized ei sd sl n t) = reduce_tera st ei sd sl n t"
| "reduce_attribute st (VolatileChanged ei sd sl n v action an) = reduce_volatile st sd n v action"
| "reduce_attribute st (RechargeChanged ei sd sl n b) = reduce_recharge st sd n b"

section \<open>Field events\<close>

fun reduce_field :: "observed_state \<Rightarrow> field_event \<Rightarrow> py_exc + observed_state" where
  "reduce_field st (WeatherChanged ei weather action) =
     (if action = ''end'' then Inr (st\<lparr>os_weather := None\<rparr>)
      else Inr (st\<lparr>os_weather := weather\<rparr>))"
| "reduce_field st (FieldConditionChanged ei condition action an) =
     (if action = ''start'' then
        (if condition \<notin> set (os_field_conditions st) then
           Inr (st\<lparr>os_field_conditions := os_field_conditions st @ [condition]\<rparr>)
         else Inr st)
      else if action = ''end'' then
        Inr (st\<lparr>os_field_conditions := filter (\<lambda>c. c \<noteq> condition) (os_field_conditions st)\<rparr>)
      else Inr st)"
| "reduce_field st (SideConditionChanged ei side_id condition action) =
     ebind (side st side_id) (\<lambda>s. update_side st
       (s\<lparr>sv_side_conditions := update_side_condition (sv_side_conditions s) condition action\<rparr>))"
| "reduce_field st (SideConditionsSwapped ei) =
     Inr (st\<lparr>os_p1 := (os_p1 st)\<lparr>sv_side_conditions := sv_side_conditions (os_p2 st)\<rparr>,
             os_p2 := (os_p2 st)\<lparr>sv_side_conditions := sv_side_conditions (os_p1 st)\<rparr>\<rparr>)"

section \<open>The reducer\<close>

fun dispatch :: "observed_state \<Rightarrow> battle_event \<Rightarrow> py_exc + observed_state" where
  "dispatch st (Metadata e) = reduce_metadata st e"
| "dispatch st (Progress e) = reduce_progress st e"
| "dispatch st (Pokemon e) = reduce_pokemon st e"
| "dispatch st (Boost e) = reduce_boost st e"
| "dispatch st (Attribute e) = reduce_attribute st e"
| "dispatch st (Field e) = reduce_field st e"
| "dispatch st (Evidence e) = Inr (add_evidence st e)"
| "dispatch st (Ignored e) =
     Inr (st\<lparr>os_ignored_display_count := os_ignored_display_count st + 1\<rparr>)"

definition reduce_event :: "observed_state \<Rightarrow> battle_event \<Rightarrow> py_exc + observed_state" where
  "reduce_event st event =
     (let ei = event_index event
      in if ei \<le> os_event_index st then Inl ReducerInvariantError
         else dispatch (st\<lparr>os_event_index := ei\<rparr>) event)"

end
