(* ===== verification/Reducer_Inv.thy ===== *)
theory Reducer_Inv
  imports Reducer
begin

text \<open>
  The well-formedness invariant of the observation state and its preservation by every
  handler of the reducer. \<open>wf_state\<close> says: boosts are seven values in \<open>[-6, 6]\<close>;
  volatile conditions are a sorted set; observed HP is a legal observation; the evidence
  intervals of an item, an ability or an identity are chronological, disjoint and closed but
  for the last; a benched Pokemon carries no battle-only state; a side has exactly one active
  Pokemon once its slot is taken and none before; side conditions are a sorted dictionary
  within their layer caps; and the log of visible evidence is strictly ordered by event index.
\<close>

section \<open>The invariant\<close>

definition boosts_ok :: "int list \<Rightarrow> bool" where
  "boosts_ok bs \<longleftrightarrow> length bs = 7 \<and> (\<forall>b\<in>set bs. -6 \<le> b \<and> b \<le> 6)"

definition interval_ok :: "int \<Rightarrow> evidence_interval \<Rightarrow> bool" where
  "interval_ok n iv \<longleftrightarrow> iv_source iv = iv_from iv \<and> iv_from iv \<le> n
     \<and> (case iv_until iv of None \<Rightarrow> True | Some u \<Rightarrow> iv_from iv \<le> u \<and> u \<le> n)"

definition closed_before :: "evidence_interval \<Rightarrow> evidence_interval \<Rightarrow> bool" where
  "closed_before a b \<longleftrightarrow> (case iv_until a of None \<Rightarrow> False | Some u \<Rightarrow> u \<le> iv_from b)"

definition intervals_ok :: "int \<Rightarrow> evidence_interval list \<Rightarrow> bool" where
  "intervals_ok n ivs \<longleftrightarrow> (\<forall>iv\<in>set ivs. interval_ok n iv) \<and> sorted_wrt closed_before ivs"

definition suppressed :: "evidence_interval list \<Rightarrow> bool" where
  "suppressed ivs \<longleftrightarrow> ivs \<noteq> [] \<and> iv_until (last ivs) = None \<and> iv_value (last ivs) = None"

definition benched_clean :: "pokemon_view \<Rightarrow> bool" where
  "benched_clean pv \<longleftrightarrow> pv_boosts pv = zero_boosts \<and> pv_volatiles pv = [] \<and> \<not> pv_recharging pv
     \<and> pv_transform_target pv = None \<and> \<not> suppressed (pv_ability_intervals pv)"

definition hp_ok :: "hp_observation option \<Rightarrow> bool \<Rightarrow> bool" where
  "hp_ok h fainted \<longleftrightarrow> (case h of None \<Rightarrow> \<not> fainted
     | Some h' \<Rightarrow> wf_hp h' \<and> (fainted \<longrightarrow> hp_fainted h'))"

lemma hp_ok_simps [simp]:
  "hp_ok None f \<longleftrightarrow> \<not> f"
  "hp_ok (Some h) f \<longleftrightarrow> wf_hp h \<and> (f \<longrightarrow> hp_fainted h)"
  by (simp_all add: hp_ok_def)

definition wf_pokemon :: "int \<Rightarrow> string \<Rightarrow> pokemon_view \<Rightarrow> bool" where
  "wf_pokemon n sid pv \<longleftrightarrow> pv_side_id pv = sid \<and> boosts_ok (pv_boosts pv)
     \<and> sorted (pv_volatiles pv) \<and> distinct (pv_volatiles pv) \<and> distinct (pv_revealed_moves pv)
     \<and> hp_ok (pv_hp pv) (pv_fainted pv)
     \<and> intervals_ok n (pv_item_intervals pv) \<and> intervals_ok n (pv_ability_intervals pv)
     \<and> intervals_ok n (pv_identity_intervals pv)
     \<and> (\<not> pv_active pv \<longrightarrow> benched_clean pv)"

definition conditions_ok :: "(string \<times> int) list \<Rightarrow> bool" where
  "conditions_ok cs \<longleftrightarrow> sorted cs \<and> distinct (map fst cs)
     \<and> (\<forall>(c, k)\<in>set cs. 1 \<le> k \<and> k \<le> layer_cap c)"

definition active_count :: "side_view \<Rightarrow> nat" where
  "active_count s = length (filter pv_active (sv_pokemon s))"

definition wf_side :: "int \<Rightarrow> string \<Rightarrow> side_view \<Rightarrow> bool" where
  "wf_side n sid s \<longleftrightarrow> sv_side_id s = sid \<and> (\<forall>pv\<in>set (sv_pokemon s). wf_pokemon n sid pv)
     \<and> active_count s = (if sv_active_slot s = None then 0 else 1)
     \<and> sv_active_slot s \<in> {None, Some 1}
     \<and> conditions_ok (sv_side_conditions s)"

definition evidence_ok :: "int \<Rightarrow> visible_evidence list \<Rightarrow> bool" where
  "evidence_ok n ves \<longleftrightarrow> sorted_wrt (\<lambda>a b. ve_index a < ve_index b) ves
     \<and> (\<forall>ve\<in>set ves. ve_index ve \<le> n)"

definition wf_state :: "observed_state \<Rightarrow> bool" where
  "wf_state st \<longleftrightarrow> wf_side (os_event_index st) ''p1'' (os_p1 st)
     \<and> wf_side (os_event_index st) ''p2'' (os_p2 st)
     \<and> os_our_side st \<in> {None, Some ''p1'', Some ''p2''}
     \<and> distinct (os_field_conditions st)
     \<and> evidence_ok (os_event_index st) (os_visible_evidence st)
     \<and> 0 \<le> os_ignored_display_count st"

text \<open>The state between the index check of \<open>reduce_event\<close> and the handler's write.\<close>

definition wf_pre :: "int \<Rightarrow> observed_state \<Rightarrow> bool" where
  "wf_pre ei st \<longleftrightarrow> os_event_index st = ei \<and> wf_state st
     \<and> (\<forall>ve\<in>set (os_visible_evidence st). ve_index ve < ei)"

lemma wf_initial: "wf_state (initial_state u)"
  by (simp add: wf_state_def initial_state_def wf_side_def empty_side_def active_count_def
      conditions_ok_def evidence_ok_def)

section \<open>Boosts\<close>

lemma stat_index_less:
  assumes "stat_index stat = Inr i"
  shows "i < 7"
proof -
  from assms have "i < length boost_stats"
    by (simp add: stat_index_def of_option_eq_Inr find_index_less)
  then show ?thesis by (simp add: boost_stats_def)
qed

lemma boosts_ok_zero [simp]: "boosts_ok zero_boosts"
  by (simp add: boosts_ok_def zero_boosts_def)

lemma boosts_ok_with_boost:
  assumes "boosts_ok bs" "-6 \<le> v" "v \<le> 6" "i < 7"
  shows "boosts_ok (with_boost bs i v)"
  using assms by (auto simp: boosts_ok_def with_boost_def dest: in_set_takeD in_set_dropD)

lemma clamp_boost_bounds: "-6 \<le> clamp_boost v" "clamp_boost v \<le> 6"
  by (auto simp: clamp_boost_def)

lemma boosts_ok_apply_delta: "boosts_ok bs \<Longrightarrow> apply_boost_delta bs stat d = Inr bs' \<Longrightarrow> boosts_ok bs'"
  by (auto simp: apply_boost_delta_def result_simps boosts_ok_with_boost clamp_boost_bounds
      stat_index_less split: if_splits)

lemma boosts_ok_set: "boosts_ok bs \<Longrightarrow> set_boost bs stat v = Inr bs' \<Longrightarrow> boosts_ok bs'"
  by (auto simp: set_boost_def result_simps boosts_ok_with_boost clamp_boost_bounds stat_index_less)

lemma boosts_ok_clear: "boosts_ok bs \<Longrightarrow> clear_boosts bs scope = Inr bs' \<Longrightarrow> boosts_ok bs'"
  by (auto simp: clear_boosts_def result_simps boosts_ok_with_boost stat_index_less
      boosts_ok_def [of "map f xs" for f xs] split: if_splits)
    (auto simp: boosts_ok_def)

lemma boosts_ok_negate: "boosts_ok bs \<Longrightarrow> boosts_ok (map uminus bs)"
  by (auto simp: boosts_ok_def)

lemma boosts_ok_update: "boosts_ok bs \<Longrightarrow> boosts_ok bs' \<Longrightarrow> i < length bs' \<Longrightarrow> boosts_ok (bs[i := bs' ! i])"
  by (auto simp: boosts_ok_def dest!: set_update_subset_insert [THEN subsetD])

lemma boosts_ok_swap_stats:
  "boosts_ok (fst bs) \<Longrightarrow> boosts_ok (snd bs) \<Longrightarrow> efold swap_stat bs stats = Inr bs' \<Longrightarrow>
   boosts_ok (fst bs') \<and> boosts_ok (snd bs')"
proof (induction stats arbitrary: bs)
  case Nil
  then show ?case by simp
next
  case (Cons stat stats)
  then obtain b where b: "swap_stat bs stat = Inr b" "efold swap_stat b stats = Inr bs'"
    by (auto simp: result_simps)
  then have "boosts_ok (fst b)" "boosts_ok (snd b)"
    using Cons.prems(1,2)
    by (auto simp: swap_stat_def result_simps boosts_ok_update not_le split: if_splits)
  then show ?case using Cons.IH b(2) by blast
qed

lemma boosts_ok_copy_stats:
  "boosts_ok src \<Longrightarrow> boosts_ok tgt \<Longrightarrow> efold (copy_stat src) tgt stats = Inr tgt' \<Longrightarrow> boosts_ok tgt'"
proof (induction stats arbitrary: tgt)
  case Nil
  then show ?case by simp
next
  case (Cons stat stats)
  then obtain b where b: "copy_stat src tgt stat = Inr b" "efold (copy_stat src) b stats = Inr tgt'"
    by (auto simp: result_simps)
  then have "boosts_ok b"
    using Cons.prems(1,2)
    by (auto simp: copy_stat_def result_simps boosts_ok_update not_le split: if_splits)
  then show ?case using Cons b(2) by blast
qed

section \<open>Evidence intervals\<close>

lemma intervals_ok_Nil [simp]: "intervals_ok n []"
  by (simp add: intervals_ok_def)

lemma intervals_ok_mono: "intervals_ok n ivs \<Longrightarrow> n \<le> m \<Longrightarrow> intervals_ok m ivs"
  by (fastforce simp: intervals_ok_def interval_ok_def split: option.splits)

lemma sorted_wrt_map_close:
  "sorted_wrt closed_before ivs \<Longrightarrow>
   sorted_wrt closed_before (close_open_interval ivs ei)"
  by (induction ivs)
    (fastforce simp: close_open_interval_def closed_before_def split: option.splits)+

lemma interval_ok_close:
  "interval_ok ei iv \<Longrightarrow> interval_ok ei (if iv_until iv = None then iv\<lparr>iv_until := Some ei\<rparr> else iv)"
  by (auto simp: interval_ok_def)

lemma intervals_ok_close: "intervals_ok ei ivs \<Longrightarrow> intervals_ok ei (close_open_interval ivs ei)"
  by (auto simp: intervals_ok_def sorted_wrt_map_close)
    (auto simp: close_open_interval_def interval_ok_def)

lemma closed_before_close:
  "interval_ok ei iv \<Longrightarrow> iv_from b = ei \<Longrightarrow>
   closed_before (if iv_until iv = None then iv\<lparr>iv_until := Some ei\<rparr> else iv) b"
  by (auto simp: interval_ok_def closed_before_def split: option.splits)

lemma intervals_ok_open:
  assumes "intervals_ok ei ivs"
  shows "intervals_ok ei (open_interval ivs v ei)"
proof -
  let ?new = "\<lparr>iv_value = v, iv_source = ei, iv_from = ei, iv_until = None\<rparr>"
  have "closed_before a ?new" if "a \<in> set (close_open_interval ivs ei)" for a
  proof -
    from that obtain iv where "iv \<in> set ivs"
      and a: "a = (if iv_until iv = None then iv\<lparr>iv_until := Some ei\<rparr> else iv)"
      unfolding close_open_interval_def set_map by blast
    with assms have "interval_ok ei iv" by (simp add: intervals_ok_def)
    then show ?thesis unfolding a by (rule closed_before_close) simp
  qed
  moreover have "interval_ok ei ?new" by (simp add: interval_ok_def)
  ultimately show ?thesis
    using intervals_ok_close [OF assms]
    by (simp add: intervals_ok_def open_interval_def sorted_wrt_append)
qed

lemma intervals_ok_end_suppression:
  "intervals_ok ei ivs \<Longrightarrow> intervals_ok ei (end_ability_suppression_on_switch_out ivs ei)"
  by (simp add: end_ability_suppression_on_switch_out_def intervals_ok_close)

lemma not_suppressed_end:
  "\<not> suppressed (end_ability_suppression_on_switch_out ivs ei)"
  by (auto simp: suppressed_def end_ability_suppression_on_switch_out_def
      close_open_interval_def last_map)

section \<open>One Pokemon\<close>

lemma wf_pokemon_mono: "wf_pokemon n sid pv \<Longrightarrow> n \<le> m \<Longrightarrow> wf_pokemon m sid pv"
  by (auto simp: wf_pokemon_def intro: intervals_ok_mono)

lemma wf_deactivate:
  "wf_pokemon ei sid pv \<Longrightarrow> wf_pokemon ei sid (deactivate ei pv)"
  by (cases "pv_active pv")
    (simp_all add: wf_pokemon_def deactivate_def benched_clean_def not_suppressed_end
      intervals_ok_end_suppression)

lemma deactivate_inactive [simp]: "\<not> pv_active (deactivate ei pv)"
  by (simp add: deactivate_def)

lemma token_to_observation_wf:
  "token_to_observation token sid ours = Inr h \<Longrightarrow> wf_hp h \<and> (tok_fainted token \<longrightarrow> hp_fainted h)"
  by (auto simp: token_to_observation_def result_simps Let_def split: if_splits)

lemma wf_new_active:
  "wf_hp h \<Longrightarrow> wf_pokemon ei sid ((new_pokemon_view sid nickname details)
     \<lparr>pv_active := True, pv_hp := Some h, pv_status := status, pv_current_details := d\<rparr>)"
  by (simp add: wf_pokemon_def new_pokemon_view_def)

section \<open>One side\<close>

lemma wf_side_frame [simp]:
  "wf_side n sid (s\<lparr>sv_user_id := u\<rparr>) = wf_side n sid s"
  "wf_side n sid (s\<lparr>sv_display_name := d\<rparr>) = wf_side n sid s"
  "wf_side n sid (s\<lparr>sv_team_size := t\<rparr>) = wf_side n sid s"
  "wf_side n sid (s\<lparr>sv_preview_roster := p\<rparr>) = wf_side n sid s"
  by (simp_all add: wf_side_def active_count_def)

lemma wf_side_conditions:
  "wf_side n sid s \<Longrightarrow> conditions_ok cs \<Longrightarrow> wf_side n sid (s\<lparr>sv_side_conditions := cs\<rparr>)"
  by (simp add: wf_side_def active_count_def)

lemma wf_side_conditions_ok: "wf_side n sid s \<Longrightarrow> conditions_ok (sv_side_conditions s)"
  by (simp add: wf_side_def)

lemma wf_side_mono: "wf_side n sid s \<Longrightarrow> n \<le> m \<Longrightarrow> wf_side m sid s"
  by (auto simp: wf_side_def intro: wf_pokemon_mono)

lemma length_filter_update:
  "i < length xs \<Longrightarrow> P y = P (xs ! i) \<Longrightarrow> length (filter P (xs[i := y])) = length (filter P xs)"
  by (induction xs arbitrary: i) (auto split: nat.splits)

lemma length_filter_update_one:
  "i < length xs \<Longrightarrow> \<forall>x\<in>set xs. \<not> P x \<Longrightarrow> P y \<Longrightarrow> length (filter P (xs[i := y])) = 1"
proof (induction xs arbitrary: i)
  case (Cons x xs)
  then show ?case by (cases i) (auto simp: filter_empty_conv)
qed simp

lemma wf_side_replace:
  assumes "wf_side n sid s" "r < length (sv_pokemon s)" "wf_pokemon n sid pv"
    "pv_active pv = pv_active (deref s r)"
  shows "wf_side n sid (replace_pokemon s r pv)"
  using assms
  by (auto simp: wf_side_def replace_pokemon_def active_count_def deref_def
      length_filter_update dest!: set_update_subset_insert [THEN subsetD])

lemma wf_side_deref: "wf_side n sid s \<Longrightarrow> r < length (sv_pokemon s) \<Longrightarrow> wf_pokemon n sid (deref s r)"
  by (simp add: wf_side_def deref_def)

lemma find_active_Some:
  "find_active s = Some r \<Longrightarrow> r < length (sv_pokemon s) \<and> pv_active (deref s r)"
  by (simp add: find_active_def find_index_eq_Some deref_def)

lemma require_active_Inr:
  "require_active s n = Inr r \<Longrightarrow>
   r < length (sv_pokemon s) \<and> pv_active (deref s r) \<and> pv_nickname (deref s r) = n
   \<and> find_active s = Some r"
  by (auto simp: require_active_def find_active_Some split: option.splits if_splits)

lemma require_health_target_Inr:
  assumes "require_health_target s n slot = Inr r"
  shows "r < length (sv_pokemon s) \<and> pv_nickname (deref s r) = n
    \<and> (slot = None \<longrightarrow> \<not> pv_active (deref s r) \<and> pv_fainted (deref s r))
    \<and> (slot \<noteq> None \<longrightarrow> pv_active (deref s r))"
proof (cases slot)
  case None
  let ?P = "\<lambda>r. \<not> pv_active (deref s r) \<and> pv_fainted (deref s r) \<and> pv_nickname (deref s r) = n"
  from assms None have "length (filter ?P [0..<length (sv_pokemon s)]) = 1"
    "r = filter ?P [0..<length (sv_pokemon s)] ! 0"
    by (auto simp: require_health_target_def Let_def split: if_splits)
  then have "r \<in> set (filter ?P [0..<length (sv_pokemon s)])"
    by (metis less_numeral_extra(1) nth_mem)
  with None show ?thesis by simp
next
  case (Some k)
  with assms show ?thesis
    by (auto simp: require_health_target_def dest: require_active_Inr)
qed

lemma wf_activate:
  assumes wf: "wf_side ei sid s" and h: "wf_hp h"
  shows "wf_side ei sid (activate_pokemon s nickname details h status ei)"
proof -
  define ds where "ds = map (deactivate ei) (sv_pokemon s)"
  have ds: "\<forall>pv\<in>set ds. wf_pokemon ei sid pv \<and> \<not> pv_active pv"
    using wf by (auto simp: ds_def wf_side_def intro: wf_deactivate)
  have sid: "sv_side_id s = sid" and cs: "conditions_ok (sv_side_conditions s)"
    using wf by (auto simp: wf_side_def)
  have none: "filter pv_active ds = []" using ds by (simp add: filter_empty_conv)
  show ?thesis
  proof (cases "find_for_switch_in ds nickname details")
    case None
    then show ?thesis
      using ds sid cs none wf_new_active [OF h]
      by (auto simp: activate_pokemon_def ds_def [symmetric] Let_def wf_side_def active_count_def)
  next
    case (Some r)
    then have r: "r < length ds" by (simp add: find_for_switch_in_def find_index_eq_Some Let_def)
    define u where "u = (ds ! r)\<lparr>pv_active := True, pv_hp := Some h, pv_status := status,
        pv_fainted := False, pv_current_details := Some details, pv_boosts := zero_boosts,
        pv_volatiles := [], pv_recharging := False, pv_transform_target := None\<rparr>"
    have "wf_pokemon ei sid (ds ! r)" using ds r by simp
    then have u: "wf_pokemon ei sid u" "pv_active u" using h by (auto simp: u_def wf_pokemon_def)
    have "\<forall>pv\<in>set (ds[r := u]). wf_pokemon ei sid pv"
      using ds u(1) by (auto dest!: set_update_subset_insert [THEN subsetD])
    moreover have "length (filter pv_active (ds[r := u])) = 1"
      using ds r u(2) by (intro length_filter_update_one) auto
    ultimately show ?thesis
      using Some sid cs
      by (simp add: activate_pokemon_def ds_def [symmetric] Let_def wf_side_def active_count_def
          u_def)
  qed
qed

section \<open>Side conditions\<close>

lemma layer_cap_pos: "1 \<le> layer_cap c"
  by (simp add: layer_cap_def layer_caps_def default_layer_cap_def)

lemma conditions_ok_update:
  assumes "conditions_ok cs"
  shows "conditions_ok (update_side_condition cs c a)"
proof -
  have dist: "distinct (map fst cs)" and bound: "\<forall>(c, k)\<in>set cs. 1 \<le> k \<and> k \<le> layer_cap c"
    using assms by (auto simp: conditions_ok_def)
  have dc: "dict_of cs = cs" using dist by (rule dict_of_distinct)
  define k where "k = (case map_of cs c of Some n \<Rightarrow> n | None \<Rightarrow> 0)"
  have "0 \<le> k"
    using bound by (auto simp: k_def split: option.splits dest!: map_of_SomeD)
  then have k: "1 \<le> min (k + 1) (layer_cap c)" "min (k + 1) (layer_cap c) \<le> layer_cap c"
    using layer_cap_pos [of c] by auto
  have sort_ok: "conditions_ok (sort al)"
    if "distinct (map fst al)" "\<forall>(c, k)\<in>set al. 1 \<le> k \<and> k \<le> layer_cap c" for al
    using that by (simp add: conditions_ok_def distinct_map)
  have "\<forall>(c', k')\<in>set (AList.update c (min (k + 1) (layer_cap c)) cs). 1 \<le> k' \<and> k' \<le> layer_cap c'"
    using bound k by (auto dest: in_set_update)
  moreover have "\<forall>(c', k')\<in>set (AList.delete c cs). 1 \<le> k' \<and> k' \<le> layer_cap c'"
    using bound by (auto simp: AList.delete_eq)
  ultimately have "conditions_ok (sort (AList.update c (min (k + 1) (layer_cap c)) cs))"
    and "conditions_ok (sort (AList.delete c cs))"
    using sort_ok [OF distinct_update [OF dist]] sort_ok [OF distinct_delete [OF dist]]
    by simp_all
  moreover have "conditions_ok (sort cs)" using dist bound by (rule sort_ok)
  ultimately show ?thesis
    by (simp add: update_side_condition_def Let_def dc k_def [symmetric])
qed

section \<open>Writing a side back\<close>

lemma wf_pre_side:
  "wf_pre ei st \<Longrightarrow> side st sid = Inr s \<Longrightarrow> wf_side ei sid s"
  by (auto simp: wf_pre_def wf_state_def result_simps)

lemma wf_update_side:
  assumes "wf_pre ei st" "wf_side ei sid s'" "update_side st s' = Inr st'"
  shows "wf_pre ei st'"
proof -
  have sid: "sv_side_id s' = sid" using assms(2) by (simp add: wf_side_def)
  consider "sid = ''p1''" "st' = st\<lparr>os_p1 := s'\<rparr>" | "sid = ''p2''" "st' = st\<lparr>os_p2 := s'\<rparr>"
    using assms(3) by (auto simp: update_side_def sid split: if_splits)
  then show ?thesis
    using assms(1,2) by cases (auto simp: wf_pre_def wf_state_def)
qed

lemma update_side_Inr_id: "update_side st s' = Inr st' \<Longrightarrow> sv_side_id s' \<in> {''p1'', ''p2''}"
  by (auto simp: update_side_def split: if_splits)

lemma wf_with_active:
  assumes st: "wf_pre ei st" and run: "with_active st sid n f = Inr st'"
    and f: "\<And>pv pv'. wf_pokemon ei sid pv \<Longrightarrow> pv_active pv \<Longrightarrow> f pv = Inr pv' \<Longrightarrow>
      wf_pokemon ei sid pv' \<and> pv_active pv'"
  shows "wf_pre ei st'"
proof -
  from run obtain s r pv where s: "side st sid = Inr s" and r: "require_active s n = Inr r"
    and pv: "f (deref s r) = Inr pv" and upd: "update_side st (replace_pokemon s r pv) = Inr st'"
    by (auto simp: with_active_def result_simps)
  have ws: "wf_side ei sid s" using st s by (rule wf_pre_side)
  have act: "r < length (sv_pokemon s)" "pv_active (deref s r)"
    using require_active_Inr [OF r] by auto
  have "wf_pokemon ei sid pv \<and> pv_active pv"
    using wf_side_deref [OF ws act(1)] act(2) pv by (rule f)
  then have "wf_side ei sid (replace_pokemon s r pv)"
    using ws act by (intro wf_side_replace) auto
  then show ?thesis using st upd by (blast intro: wf_update_side)
qed

lemma wf_add_evidence:
  "wf_pre ei st \<Longrightarrow> ve_index ve = ei \<Longrightarrow> wf_state (add_evidence st ve)"
  by (auto simp: wf_pre_def wf_state_def add_evidence_def evidence_ok_def sorted_wrt_append)

lemma wf_pre_wf_state: "wf_pre ei st \<Longrightarrow> wf_state st"
  by (simp add: wf_pre_def)

section \<open>Handlers\<close>

lemma wf_metadata: "wf_pre ei st \<Longrightarrow> reduce_metadata st e = Inr st' \<Longrightarrow> wf_state st'"
proof (cases e)
  case (PlayerDeclared i sid u d)
  assume wf: "wf_pre ei st" and run: "reduce_metadata st e = Inr st'"
  define ours where "ours = (if u = os_our_user_id st \<and> os_our_side st = None then Some sid
    else os_our_side st)"
  from run PlayerDeclared obtain s where s: "side st sid = Inr s"
    and upd: "update_side (st\<lparr>os_our_side := ours\<rparr>)
      (s\<lparr>sv_user_id := Some u, sv_display_name := Some d\<rparr>) = Inr st'"
    by (auto simp: ours_def result_simps)
  have "ours \<in> {None, Some ''p1'', Some ''p2''}"
    using wf s by (auto simp: ours_def wf_pre_def wf_state_def result_simps)
  then have "wf_pre ei (st\<lparr>os_our_side := ours\<rparr>)"
    using wf by (auto simp: wf_pre_def wf_state_def)
  moreover have "wf_side ei sid (s\<lparr>sv_user_id := Some u, sv_display_name := Some d\<rparr>)"
    using wf_pre_side [OF wf s] by simp
  ultimately show ?thesis using upd wf_update_side wf_pre_wf_state by blast
next
  case (TeamSizeDeclared i sid n)
  assume wf: "wf_pre ei st" and run: "reduce_metadata st e = Inr st'"
  from run TeamSizeDeclared obtain s where s: "side st sid = Inr s"
    and upd: "update_side st (s\<lparr>sv_team_size := Some n\<rparr>) = Inr st'"
    by (auto simp: result_simps)
  have "wf_side ei sid (s\<lparr>sv_team_size := Some n\<rparr>)"
    using wf_pre_side [OF wf s] by simp
  with wf upd show ?thesis using wf_update_side wf_pre_wf_state by blast
next
  case (PreviewPokemonDeclared i sid d h)
  assume wf: "wf_pre ei st" and run: "reduce_metadata st e = Inr st'"
  from run PreviewPokemonDeclared obtain s where s: "side st sid = Inr s"
    and upd: "update_side st (s\<lparr>sv_preview_roster := sv_preview_roster s @
        [\<lparr>pp_details = d, pp_has_item = h\<rparr>]\<rparr>) = Inr st'"
    by (auto simp: result_simps)
  have "wf_side ei sid (s\<lparr>sv_preview_roster := sv_preview_roster s @
        [\<lparr>pp_details = d, pp_has_item = h\<rparr>]\<rparr>)"
    using wf_pre_side [OF wf s] by simp
  with wf upd show ?thesis using wf_update_side wf_pre_wf_state by blast
qed (auto simp: wf_pre_def wf_state_def)

lemma wf_progress: "wf_pre ei st \<Longrightarrow> reduce_progress st e = Inr st' \<Longrightarrow> wf_state st'"
  by (cases e) (auto simp: wf_pre_def wf_state_def)

lemma wf_switch:
  assumes "wf_pre ei st" "reduce_switch st ei sid n d hp = Inr st'"
  shows "wf_pre ei st'"
proof -
  from assms(2) obtain h s where h: "token_to_observation hp sid (os_our_side st) = Inr h"
    and s: "side st sid = Inr s"
    and upd: "update_side st (activate_pokemon s n d h (tok_status hp) ei) = Inr st'"
    by (auto simp: reduce_switch_def result_simps)
  have "wf_side ei sid (activate_pokemon s n d h (tok_status hp) ei)"
    using wf_pre_side [OF assms(1) s] token_to_observation_wf [OF h] by (blast intro: wf_activate)
  with assms(1) upd show ?thesis by (blast intro: wf_update_side)
qed

lemma wf_faint: "wf_pre ei st \<Longrightarrow> reduce_faint st sid n = Inr st' \<Longrightarrow> wf_pre ei st'"
  unfolding reduce_faint_def
  by (erule wf_with_active) (auto simp: result_simps wf_pokemon_def)

lemma wf_move:
  assumes wf: "wf_pre ei st" and run: "reduce_move st ei sid sl n m an = Inr st'"
  shows "wf_state st'"
proof -
  from run obtain s r st1 where s: "side st sid = Inr s" and r: "require_active s n = Inr r"
    and st1: "(if m \<notin> set (pv_revealed_moves (deref s r)) then
          update_side st (replace_pokemon s r
            ((deref s r)\<lparr>pv_revealed_moves := pv_revealed_moves (deref s r) @ [m]\<rparr>))
        else Inr st) = Inr st1"
    and st': "st' = add_evidence st1 \<lparr>ve_index = ei, ve_kind = ''move'', ve_side_id = Some sid,
        ve_slot = Some sl, ve_nickname = Some n, ve_effect = Some m, ve_annotations = an\<rparr>"
    by (auto simp: reduce_move_def ebind_eq_Inr)
  have ws: "wf_side ei sid s" using wf s by (rule wf_pre_side)
  note act = require_active_Inr [OF r]
  have wp: "wf_pokemon ei sid (deref s r)" using ws act by (simp add: wf_side_deref)
  have "wf_pre ei st1"
  proof (cases "m \<in> set (pv_revealed_moves (deref s r))")
    case True
    then show ?thesis using st1 wf by simp
  next
    case False
    with wp have "wf_pokemon ei sid
        ((deref s r)\<lparr>pv_revealed_moves := pv_revealed_moves (deref s r) @ [m]\<rparr>)"
      by (simp add: wf_pokemon_def benched_clean_def)
    then have "wf_side ei sid (replace_pokemon s r
        ((deref s r)\<lparr>pv_revealed_moves := pv_revealed_moves (deref s r) @ [m]\<rparr>))"
      using ws act by (intro wf_side_replace) auto
    with False st1 wf show ?thesis by (auto intro: wf_update_side)
  qed
  then show ?thesis unfolding st' by (rule wf_add_evidence) simp
qed

lemma wf_health:
  assumes wf: "wf_pre ei st" and run: "reduce_health st sid sl n hp = Inr st'"
  shows "wf_pre ei st'"
proof -
  from run obtain s r h where s: "side st sid = Inr s"
    and r: "require_health_target s n sl = Inr r"
    and h: "token_to_observation hp sid (os_our_side st) = Inr h"
    and upd: "update_side st (replace_pokemon s r ((deref s r)\<lparr>pv_hp := Some h,
        pv_status := tok_status hp, pv_fainted := tok_fainted hp\<rparr>)) = Inr st'"
    by (auto simp: reduce_health_def result_simps)
  have ws: "wf_side ei sid s" using wf s by (rule wf_pre_side)
  note act = require_health_target_Inr [OF r]
  then have "wf_pokemon ei sid (deref s r)" using ws by (simp add: wf_side_deref)
  then have "wf_pokemon ei sid ((deref s r)\<lparr>pv_hp := Some h, pv_status := tok_status hp,
      pv_fainted := tok_fainted hp\<rparr>)"
    using token_to_observation_wf [OF h] by (simp add: wf_pokemon_def benched_clean_def)
  then have "wf_side ei sid (replace_pokemon s r ((deref s r)\<lparr>pv_hp := Some h,
      pv_status := tok_status hp, pv_fainted := tok_fainted hp\<rparr>))"
    using ws act by (intro wf_side_replace) auto
  with wf upd show ?thesis by (blast intro: wf_update_side)
qed

lemma wf_status: "wf_pre ei st \<Longrightarrow> reduce_status st sid n status = Inr st' \<Longrightarrow> wf_pre ei st'"
  unfolding reduce_status_def
  by (erule wf_with_active) (auto simp: result_simps wf_pokemon_def)

lemma wf_team_cure:
  assumes "wf_pre ei st" "reduce_team_cure st sid = Inr st'"
  shows "wf_pre ei st'"
proof -
  from assms(2) obtain s where s: "side st sid = Inr s"
    and upd: "update_side st (s\<lparr>sv_pokemon := map (\<lambda>pv. pv\<lparr>pv_status := None\<rparr>) (sv_pokemon s)\<rparr>)
      = Inr st'"
    by (auto simp: reduce_team_cure_def result_simps)
  have "wf_side ei sid (s\<lparr>sv_pokemon := map (\<lambda>pv. pv\<lparr>pv_status := None\<rparr>) (sv_pokemon s)\<rparr>)"
    using wf_pre_side [OF assms(1) s]
    by (auto simp: wf_side_def active_count_def filter_map comp_def wf_pokemon_def benched_clean_def)
  with assms(1) upd show ?thesis by (blast intro: wf_update_side)
qed

lemma wf_pokemon_event:
  "wf_pre (pk_index e) st \<Longrightarrow> reduce_pokemon st e = Inr st' \<Longrightarrow> wf_state st'"
  by (cases e)
    (auto simp: reduce_move_prevented_def
      intro: wf_switch wf_faint wf_move wf_health wf_status wf_team_cure wf_pre_wf_state
        wf_add_evidence)

lemma wf_boost_changed:
  "wf_pre ei st \<Longrightarrow> reduce_boost_changed st sid n stat m k = Inr st' \<Longrightarrow> wf_pre ei st'"
  unfolding reduce_boost_changed_def
  apply (erule wf_with_active)
  apply assumption
  apply (clarsimp simp: ebind_eq_Inr wf_pokemon_def)
  using boosts_ok_set boosts_ok_apply_delta
  by metis

lemma wf_set_boosts:
  assumes "wf_side ei sid s" "find_active s = Some r" "boosts_ok bs"
  shows "wf_side ei sid (replace_pokemon s r ((deref s r)\<lparr>pv_boosts := bs\<rparr>))"
proof -
  have "wf_pokemon ei sid (deref s r)" "pv_active (deref s r)" "r < length (sv_pokemon s)"
    using assms find_active_Some wf_side_deref by blast+
  then show ?thesis
    using assms by (intro wf_side_replace) (auto simp: wf_pokemon_def)
qed

lemma active_boosts_ok: "wf_side ei sid s \<Longrightarrow> find_active s = Some r \<Longrightarrow> boosts_ok (pv_boosts (deref s r))"
  using find_active_Some wf_side_deref by (fastforce simp: wf_pokemon_def)

lemma wf_boosts_swapped:
  assumes wf: "wf_pre ei st" and run: "reduce_boosts_swapped st sid n tsid tn stats = Inr st'"
  shows "wf_pre ei st'"
proof -
  from run obtain s t r q sb tb where s: "side st sid = Inr s" and t: "side st tsid = Inr t"
    and r: "require_active s n = Inr r" and q: "require_active t tn = Inr q"
    and bs: "efold swap_stat (pv_boosts (deref s r), pv_boosts (deref t q)) stats = Inr (sb, tb)"
    and upd: "(if sid = tsid then
          update_side st (replace_pokemon s r ((deref s r)\<lparr>pv_boosts := sb\<rparr>))
        else ebind (update_side st (replace_pokemon s r ((deref s r)\<lparr>pv_boosts := sb\<rparr>))) (\<lambda>st1.
          ebind (side st1 tsid) (\<lambda>t1. update_side st1
            (replace_pokemon t1 q ((deref t q)\<lparr>pv_boosts := tb\<rparr>))))) = Inr st'"
    by (auto simp: reduce_boosts_swapped_def ebind_eq_Inr Let_def)
  have ws: "wf_side ei sid s" "wf_side ei tsid t" using wf s t by (blast intro: wf_pre_side)+
  note ra = require_active_Inr [OF r] and qa = require_active_Inr [OF q]
  have ok: "boosts_ok sb" "boosts_ok tb"
    using boosts_ok_swap_stats [OF _ _ bs] active_boosts_ok ws ra qa by auto
  let ?s1 = "replace_pokemon s r ((deref s r)\<lparr>pv_boosts := sb\<rparr>)"
  have s1: "wf_side ei sid ?s1" using ws ra ok by (blast intro: wf_set_boosts)
  show ?thesis
  proof (cases "sid = tsid")
    case True
    then show ?thesis using upd wf s1 by (auto intro: wf_update_side)
  next
    case False
    then obtain st1 t1 where st1: "update_side st ?s1 = Inr st1" and t1: "side st1 tsid = Inr t1"
      and upd': "update_side st1 (replace_pokemon t1 q ((deref t q)\<lparr>pv_boosts := tb\<rparr>)) = Inr st'"
      using upd by (auto simp: ebind_eq_Inr)
    have wf1: "wf_pre ei st1" using wf s1 st1 by (rule wf_update_side)
    have "t1 = t"
      using st1 t1 t s False wf_side_def [of ei sid ?s1] s1
      by (auto simp: update_side_def side_eq_Inr split: if_splits)
    then have "wf_side ei tsid (replace_pokemon t1 q ((deref t q)\<lparr>pv_boosts := tb\<rparr>))"
      using ws qa ok by (auto intro: wf_set_boosts)
    with wf1 upd' show ?thesis by (blast intro: wf_update_side)
  qed
qed

lemma wf_boosts_copied:
  assumes wf: "wf_pre ei st" and run: "reduce_boosts_copied st sid n ssid sn stats = Inr st'"
  shows "wf_pre ei st'"
proof -
  from run obtain s t r q tb where s: "side st ssid = Inr s" and t: "side st sid = Inr t"
    and r: "require_active s sn = Inr r" and q: "require_active t n = Inr q"
    and bs: "efold (copy_stat (pv_boosts (deref s r))) (pv_boosts (deref t q)) stats = Inr tb"
    and upd: "update_side st (replace_pokemon t q ((deref t q)\<lparr>pv_boosts := tb\<rparr>)) = Inr st'"
    by (auto simp: reduce_boosts_copied_def ebind_eq_Inr)
  have ws: "wf_side ei ssid s" "wf_side ei sid t" using wf s t by (blast intro: wf_pre_side)+
  note ra = require_active_Inr [OF r] and qa = require_active_Inr [OF q]
  have "boosts_ok tb"
    using boosts_ok_copy_stats [OF _ _ bs] active_boosts_ok ws ra qa by auto
  then have "wf_side ei sid (replace_pokemon t q ((deref t q)\<lparr>pv_boosts := tb\<rparr>))"
    using ws qa by (blast intro: wf_set_boosts)
  with wf upd show ?thesis by (blast intro: wf_update_side)
qed

lemma wf_clear_active:
  "wf_side ei sid s \<Longrightarrow> clear_active_boosts s scope = Inr s' \<Longrightarrow> wf_side ei sid s'"
  by (auto simp: clear_active_boosts_def result_simps split: option.splits
      intro!: wf_set_boosts intro: boosts_ok_clear [OF active_boosts_ok])

lemma wf_boosts_cleared:
  assumes wf: "wf_pre ei st" and run: "reduce_boosts_cleared st sd n scope = Inr st'"
  shows "wf_pre ei st'"
proof (cases sd)
  case None
  with run obtain p1 p2 where p: "clear_active_boosts (os_p1 st) scope = Inr p1"
    "clear_active_boosts (os_p2 st) scope = Inr p2" and st': "st' = st\<lparr>os_p1 := p1, os_p2 := p2\<rparr>"
    by (auto simp: reduce_boosts_cleared_def ebind_eq_Inr)
  have "wf_side ei ''p1'' p1" "wf_side ei ''p2'' p2"
    using wf p wf_clear_active by (auto simp: wf_pre_def wf_state_def)
  then show ?thesis using wf by (auto simp: st' wf_pre_def wf_state_def)
next
  case (Some sid)
  with run obtain s m r bs where s: "side st sid = Inr s" and r: "require_active s m = Inr r"
    and bs: "clear_boosts (pv_boosts (deref s r)) scope = Inr bs"
    and upd: "update_side st (replace_pokemon s r ((deref s r)\<lparr>pv_boosts := bs\<rparr>)) = Inr st'"
    by (auto simp: reduce_boosts_cleared_def ebind_eq_Inr)
  have ws: "wf_side ei sid s" using wf s by (rule wf_pre_side)
  note ra = require_active_Inr [OF r]
  have "wf_side ei sid (replace_pokemon s r ((deref s r)\<lparr>pv_boosts := bs\<rparr>))"
    using ws ra boosts_ok_clear [OF active_boosts_ok bs] by (blast intro: wf_set_boosts)
  with wf upd show ?thesis by (blast intro: wf_update_side)
qed

lemma wf_boosts_inverted:
  "wf_pre ei st \<Longrightarrow> reduce_boosts_inverted st sid n = Inr st' \<Longrightarrow> wf_pre ei st'"
  unfolding reduce_boosts_inverted_def
  by (erule wf_with_active) (auto simp: wf_pokemon_def boosts_ok_negate)

lemma wf_boost: "wf_pre ei st \<Longrightarrow> reduce_boost st e = Inr st' \<Longrightarrow> wf_pre ei st'"
  by (cases e)
    (auto intro: wf_boost_changed wf_boosts_swapped wf_boosts_copied wf_boosts_cleared
      wf_boosts_inverted)

lemma wf_item: "wf_pre ei st \<Longrightarrow> reduce_item st ei sid n i a = Inr st' \<Longrightarrow> wf_pre ei st'"
  unfolding reduce_item_def
  by (erule wf_with_active) (auto simp: wf_pokemon_def intro: intervals_ok_open)

lemma wf_ability: "wf_pre ei st \<Longrightarrow> reduce_ability st ei sid n i a = Inr st' \<Longrightarrow> wf_pre ei st'"
  unfolding reduce_ability_def
  by (erule wf_with_active) (auto simp: wf_pokemon_def intro: intervals_ok_open)

lemma wf_identity:
  assumes wf: "wf_pre ei st" and run: "reduce_identity st ei sid n d hp = Inr st'"
  shows "wf_pre ei st'"
proof -
  from run obtain s r h where s: "side st sid = Inr s" and r: "find_active s = Some r"
    and h: "token_to_observation hp sid (os_our_side st) = Inr h"
    and upd: "update_side st (replace_pokemon s r ((deref s r)\<lparr>pv_nickname := n,
        pv_switch_identity := normalize_identity_details d, pv_current_details := Some d,
        pv_identity_intervals := open_interval (pv_identity_intervals (deref s r)) (Some d) ei,
        pv_hp := Some h, pv_status := tok_status hp, pv_fainted := tok_fainted hp\<rparr>)) = Inr st'"
    by (auto simp: reduce_identity_def result_simps)
  have ws: "wf_side ei sid s" using wf s by (rule wf_pre_side)
  note act = find_active_Some [OF r]
  then have "wf_pokemon ei sid (deref s r)" using ws by (simp add: wf_side_deref)
  then have "wf_side ei sid (replace_pokemon s r ((deref s r)\<lparr>pv_nickname := n,
        pv_switch_identity := normalize_identity_details d, pv_current_details := Some d,
        pv_identity_intervals := open_interval (pv_identity_intervals (deref s r)) (Some d) ei,
        pv_hp := Some h, pv_status := tok_status hp, pv_fainted := tok_fainted hp\<rparr>))"
    using ws act token_to_observation_wf [OF h]
    by (intro wf_side_replace) (auto simp: wf_pokemon_def intro: intervals_ok_open)
  with wf upd show ?thesis by (blast intro: wf_update_side)
qed

lemma wf_form: "wf_pre ei st \<Longrightarrow> reduce_form st ei sid sl n k v hp = Inr st' \<Longrightarrow> wf_state st'"
  unfolding reduce_form_def ebind_eq_Inr [of "with_active a b c d" for a b c d]
  by (elim exE conjE, drule (1) wf_with_active)
    (auto simp: result_simps wf_pokemon_def dest: token_to_observation_wf intro!: wf_add_evidence)

lemma wf_transform: "wf_pre ei st \<Longrightarrow> reduce_transform st ei sid sl n t = Inr st' \<Longrightarrow> wf_state st'"
  unfolding reduce_transform_def ebind_eq_Inr
  by (elim exE conjE, drule (1) wf_with_active) (auto simp: wf_pokemon_def intro!: wf_add_evidence)

lemma wf_tera: "wf_pre ei st \<Longrightarrow> reduce_tera st ei sid sl n t = Inr st' \<Longrightarrow> wf_state st'"
  unfolding reduce_tera_def ebind_eq_Inr
  by (elim exE conjE, drule (1) wf_with_active) (auto simp: wf_pokemon_def intro!: wf_add_evidence)

lemma wf_recharge: "wf_pre ei st \<Longrightarrow> reduce_recharge st sid n b = Inr st' \<Longrightarrow> wf_pre ei st'"
  unfolding reduce_recharge_def by (erule wf_with_active) (auto simp: wf_pokemon_def)

lemma wf_volatile:
  assumes wf: "wf_pre ei st" and run: "reduce_volatile st sid n v a = Inr st'"
  shows "wf_pre ei st'"
proof -
  from run obtain s r where s: "side st sid = Inr s" and r: "require_active s n = Inr r"
    and cont: "(if a = ''start'' then
         (if v \<notin> set (pv_volatiles (deref s r)) then
            update_side st (replace_pokemon s r
              ((deref s r)\<lparr>pv_volatiles := sort (pv_volatiles (deref s r) @ [v])\<rparr>))
          else Inr st)
       else if a = ''end'' then
         update_side st (replace_pokemon s r
           ((deref s r)\<lparr>pv_volatiles := filter (\<lambda>v'. v' \<noteq> v) (pv_volatiles (deref s r))\<rparr>))
       else Inr st) = Inr st'"
    by (auto simp: reduce_volatile_def ebind_eq_Inr)
  have ws: "wf_side ei sid s" using wf s by (rule wf_pre_side)
  note act = require_active_Inr [OF r]
  then have wp: "wf_pokemon ei sid (deref s r)" using ws by (simp add: wf_side_deref)
  have put: "wf_side ei sid (replace_pokemon s r ((deref s r)\<lparr>pv_volatiles := vs\<rparr>))"
    if "sorted vs" "distinct vs" for vs
    using ws act wp that by (intro wf_side_replace) (auto simp: wf_pokemon_def)
  have "wf_side ei sid (replace_pokemon s r
      ((deref s r)\<lparr>pv_volatiles := sort (pv_volatiles (deref s r) @ [v])\<rparr>))"
    if "v \<notin> set (pv_volatiles (deref s r))"
    using wp that by (intro put) (auto simp: wf_pokemon_def)
  moreover have "wf_side ei sid (replace_pokemon s r
      ((deref s r)\<lparr>pv_volatiles := filter (\<lambda>v'. v' \<noteq> v) (pv_volatiles (deref s r))\<rparr>))"
    using wp by (intro put) (auto simp: wf_pokemon_def sorted_filter [of "\<lambda>x. x", simplified])
  ultimately show ?thesis
    using cont wf by (auto split: if_splits intro: wf_update_side)
qed

lemma wf_attribute:
  "wf_pre (at_index e) st \<Longrightarrow> reduce_attribute st e = Inr st' \<Longrightarrow> wf_state st'"
  by (cases e)
    (auto intro: wf_item wf_ability wf_identity wf_form wf_transform wf_tera wf_recharge
      wf_volatile wf_pre_wf_state)

lemma wf_field:
  assumes wf: "wf_pre ei st" and run: "reduce_field st e = Inr st'"
  shows "wf_state st'"
proof (cases e)
  case (SideConditionChanged i sid c a)
  with run obtain s where s: "side st sid = Inr s" and upd: "update_side st
      (s\<lparr>sv_side_conditions := update_side_condition (sv_side_conditions s) c a\<rparr>) = Inr st'"
    by (auto simp: ebind_eq_Inr)
  have "wf_side ei sid (s\<lparr>sv_side_conditions := update_side_condition (sv_side_conditions s) c a\<rparr>)"
    using wf_pre_side [OF wf s]
    by (intro wf_side_conditions conditions_ok_update wf_side_conditions_ok)
  with wf upd show ?thesis using wf_update_side wf_pre_wf_state by blast
next
  case SideConditionsSwapped
  have "conditions_ok (sv_side_conditions (os_p1 st))" "conditions_ok (sv_side_conditions (os_p2 st))"
    using wf wf_side_conditions_ok by (auto simp: wf_pre_def wf_state_def)
  with SideConditionsSwapped wf run show ?thesis
    by (auto simp: wf_pre_def wf_state_def wf_side_conditions)
qed (use wf run in \<open>auto simp: wf_pre_def wf_state_def split: if_splits\<close>)

section \<open>The reducer\<close>

lemma wf_pre_start:
  assumes "wf_state st" "os_event_index st < ei"
  shows "wf_pre ei (st\<lparr>os_event_index := ei\<rparr>)"
proof -
  have "wf_side ei ''p1'' (os_p1 st)" "wf_side ei ''p2'' (os_p2 st)"
    using assms wf_side_mono [of "os_event_index st" _ _ ei] by (auto simp: wf_state_def)
  moreover have "evidence_ok ei (os_visible_evidence st)"
    "\<forall>ve\<in>set (os_visible_evidence st). ve_index ve < ei"
    using assms by (fastforce simp: wf_state_def evidence_ok_def)+
  ultimately show ?thesis using assms by (simp add: wf_pre_def wf_state_def)
qed

lemma wf_dispatch:
  assumes wf: "wf_pre (event_index e) st" and run: "dispatch st e = Inr st'"
  shows "wf_state st'"
proof (cases e)
  case (Boost b)
  then show ?thesis using wf run wf_boost wf_pre_wf_state by fastforce
next
  case (Evidence ve)
  then show ?thesis using wf run wf_add_evidence by fastforce
next
  case (Ignored ig)
  then have "st' = st\<lparr>os_ignored_display_count := os_ignored_display_count st + 1\<rparr>"
    using run by simp
  then show ?thesis using wf by (auto simp: wf_pre_def wf_state_def)
qed (use wf run in \<open>auto dest: wf_metadata wf_progress wf_pokemon_event wf_attribute wf_field\<close>)

lemma wf_reduce:
  assumes "wf_state st" "reduce_event st e = Inr st'"
  shows "wf_state st'"
proof -
  from assms(2) have "os_event_index st < event_index e"
    and run: "dispatch (st\<lparr>os_event_index := event_index e\<rparr>) e = Inr st'"
    by (auto simp: reduce_event_def Let_def split: if_splits)
  then show ?thesis using assms(1) by (blast intro: wf_dispatch wf_pre_start)
qed

end
