(* ===== verification/Engine_State.thy ===== *)
theory Engine_State
  imports Engine_Actions Reducer_Inv
begin

text \<open>
  \<open>adapters/poke_engine/state_mapper.py\<close>: from an observation and a complete hypothetical world
  to a state of the native engine and the two players' views of it. The engine is a
  third-party package: \<open>native_engine\<close> holds the calls the adapter makes, over any type \<open>'n\<close> of
  native objects; \<open>ne_view\<close> is what a native state shows through its attributes.
\<close>

section \<open>The native engine\<close>

datatype native_exc = Native_Raised | Native_Interrupted

definition of_native :: "native_exc + 'a \<Rightarrow> engine_exc + 'a" where
  "of_native m = (case m of Inl Native_Raised \<Rightarrow> Inl Native_Error | Inl Native_Interrupted \<Rightarrow> Inl Interrupt
     | Inr x \<Rightarrow> Inr x)"

record native_move =
  nm_id :: string
  nm_pp :: int
  nm_disabled :: bool

record native_pokemon =
  np_id :: string
  np_hp :: int
  np_maxhp :: int
  np_ability :: string
  np_item :: string
  np_status :: string
  np_types :: "string list"
  np_tera_type :: string
  np_terastallized :: bool
  np_moves :: "native_move list"
  np_attack :: int
  np_defense :: int
  np_special_attack :: int
  np_special_defense :: int
  np_speed :: int

record native_side =
  nd_pokemon :: "native_pokemon list"
  nd_active_index :: int
  nd_force_switch :: bool

record native_state =
  nv_side_one :: native_side
  nv_side_two :: native_side
  nv_weather :: string
  nv_terrain :: string
  nv_trick_room :: bool

text \<open>The arguments of the constructors, as the documents give them.\<close>

record pokemon_args =
  pa_id :: string
  pa_level :: int
  pa_types :: "string \<times> string"
  pa_base_types :: "string \<times> string"
  pa_hp :: int
  pa_maxhp :: int
  pa_ability :: string
  pa_base_ability :: string
  pa_item :: string
  pa_nature :: string
  pa_evs :: "int list"
  pa_attack :: int
  pa_defense :: int
  pa_special_attack :: int
  pa_special_defense :: int
  pa_speed :: int
  pa_status :: string
  pa_tera_type :: string
  pa_terastallized :: bool

record field_args =
  fa_weather_turns_remaining :: int
  fa_terrain_turns_remaining :: int
  fa_trick_room :: bool
  fa_trick_room_turns_remaining :: int

text \<open>Percentages of an instruction: integers, finite floats by the decimal \<open>m * 10 ^ e\<close> they print as,
  other floats, and values that are no numbers.\<close>

datatype native_percentage = Pct_Int int | Pct_Float int int | Pct_Not_Finite | Pct_Other

text \<open>A result of \<open>legal_choices\<close>, as far as its types are checked.\<close>

datatype native_value =
    Native_Text string
  | Native_List "native_value list"
  | Native_Tuple "native_value list"
  | Native_Other

record 'n native_engine =
  ne_from_string :: "string \<Rightarrow> native_exc + 'n"
  ne_to_string :: "'n \<Rightarrow> native_exc + string"
  ne_view :: "'n \<Rightarrow> native_state"
  ne_legal_choices :: "'n \<Rightarrow> native_exc + native_value"
  ne_generate_instructions :: "'n \<Rightarrow> string \<Rightarrow> string \<Rightarrow> native_exc + 'n list option"
  ne_percentage :: "'n \<Rightarrow> native_percentage"
  ne_apply_instructions :: "'n \<Rightarrow> 'n \<Rightarrow> native_exc + 'n"
  ne_move :: "string \<Rightarrow> int \<Rightarrow> bool \<Rightarrow> native_exc + 'n"
  ne_move_id :: "'n \<Rightarrow> string"
  ne_pokemon :: "pokemon_args \<Rightarrow> 'n list \<Rightarrow> native_exc + 'n"
  ne_pokemon_index :: "string \<Rightarrow> native_exc + 'n"
  ne_side_conditions :: "(string \<times> int) list \<Rightarrow> native_exc + 'n"
  ne_side :: "'n list \<Rightarrow> 'n \<Rightarrow> bool \<Rightarrow> bool \<Rightarrow> 'n \<Rightarrow> native_exc + 'n"
  ne_weather :: "string \<Rightarrow> 'n option"
  ne_terrain :: "string \<Rightarrow> 'n option"
  ne_state :: "'n \<Rightarrow> 'n \<Rightarrow> 'n \<Rightarrow> 'n \<Rightarrow> field_args \<Rightarrow> native_exc + 'n"

section \<open>Reading documents\<close>

text \<open>\<open>_exact_keys\<close>: the required keys, and no key beyond those and the optional ones.\<close>

definition exact_keys :: "string list \<Rightarrow> string list \<Rightarrow> json \<Rightarrow> engine_exc + (string \<times> json) list" where
  "exact_keys required optional v =
     (case v of
        JObject d \<Rightarrow>
          ebind (map_ensure Missing_Field (list_all (\<lambda>k. k \<in> set (map fst d)) required)) (\<lambda>_.
          ebind (map_ensure Unsupported_Mapping
            (list_all (\<lambda>k. k \<in> set required \<or> k \<in> set optional) (map fst d))) (\<lambda>_. Inr d))
      | _ \<Rightarrow> map_fail Missing_Field)"

definition read_integer :: "int \<Rightarrow> json \<Rightarrow> engine_exc + int" where
  "read_integer minimum v = (case v of JInt n \<Rightarrow> if n < minimum then map_fail Unsupported_Mapping else Inr n
     | _ \<Rightarrow> map_fail Unsupported_Mapping)"

definition read_boolean :: "json \<Rightarrow> engine_exc + bool" where
  "read_boolean v = (case v of JBool b \<Rightarrow> Inr b | _ \<Rightarrow> map_fail Unsupported_Mapping)"

definition read_token :: "json \<Rightarrow> engine_exc + string" where
  "read_token v = (case v of
     JString s \<Rightarrow> if s = [] \<or> \<not> list_all is_ascii s then map_fail Unsupported_Mapping else Inr s
   | _ \<Rightarrow> map_fail Unsupported_Mapping)"

definition read_pair :: "json \<Rightarrow> engine_exc + string \<times> string" where
  "read_pair v = (case v of
     JList [a, b] \<Rightarrow> ebind (read_token a) (\<lambda>x. ebind (read_token b) (\<lambda>y. Inr (x, y)))
   | _ \<Rightarrow> map_fail Unsupported_Mapping)"

definition read_evs :: "json \<Rightarrow> engine_exc + int list" where
  "read_evs v = (case v of
     JList vs \<Rightarrow>
       ebind (map_ensure Unsupported_Mapping (length vs = 6)) (\<lambda>_.
       ebind (emap (read_integer 0) vs) (\<lambda>ns.
       ebind (map_ensure Unsupported_Mapping (list_all (\<lambda>n. n \<le> 252) ns)) (\<lambda>_. Inr ns)))
   | _ \<Rightarrow> map_fail Unsupported_Mapping)"

definition world_keys :: "string list" where
  "world_keys = [''schema_version'', ''fixture_id'', ''generation'', ''format'', ''field'', ''sides'']"

definition field_keys :: "string list" where
  "field_keys = [''weather'', ''weather_turns_remaining'', ''terrain'', ''terrain_turns_remaining'',
     ''trick_room'', ''trick_room_turns_remaining'']"

definition side_keys :: "string list" where
  "side_keys = [''pokemon'', ''active_index'', ''force_switch'', ''force_trapped'', ''side_conditions'']"

definition pokemon_keys :: "string list" where
  "pokemon_keys = [''id'', ''level'', ''types'', ''base_types'', ''hp'', ''maxhp'', ''ability'',
     ''base_ability'', ''item'', ''nature'', ''evs'', ''attack'', ''defense'', ''special_attack'',
     ''special_defense'', ''speed'', ''status'', ''tera_type'', ''terastallized'', ''moves'']"

definition move_keys :: "string list" where
  "move_keys = [''id'', ''pp'', ''disabled'']"

definition side_condition_names :: "string list" where
  "side_condition_names = [''spikes'', ''toxic_spikes'', ''stealth_rock'', ''sticky_web'', ''tailwind'',
     ''reflect'', ''light_screen'', ''aurora_veil'', ''safeguard'', ''mist'', ''toxic_count'']"

section \<open>Building the native state\<close>

definition list_between :: "nat \<Rightarrow> nat \<Rightarrow> json \<Rightarrow> engine_exc + json list" where
  "list_between lo hi v = (case v of
     JList vs \<Rightarrow> if lo \<le> length vs \<and> length vs \<le> hi then Inr vs else map_fail Unsupported_Mapping
   | _ \<Rightarrow> map_fail Unsupported_Mapping)"

definition build_move :: "'n native_engine \<Rightarrow> json \<Rightarrow> engine_exc + 'n" where
  "build_move native v =
     ebind (exact_keys move_keys [] v) (\<lambda>d.
     ebind (read_token (lookup_json d ''id'')) (\<lambda>i.
     ebind (read_integer 0 (lookup_json d ''pp'')) (\<lambda>pp.
     ebind (read_boolean (lookup_json d ''disabled'')) (\<lambda>disabled.
       of_native (ne_move native i pp disabled)))))"

definition read_pokemon_args :: "(string \<times> json) list \<Rightarrow> int \<Rightarrow> int \<Rightarrow> engine_exc + pokemon_args" where
  "read_pokemon_args d hp maxhp =
     ebind (read_token (lookup_json d ''id'')) (\<lambda>i.
     ebind (read_integer 1 (lookup_json d ''level'')) (\<lambda>level.
     ebind (read_pair (lookup_json d ''types'')) (\<lambda>types.
     ebind (read_pair (lookup_json d ''base_types'')) (\<lambda>base_types.
     ebind (emap (\<lambda>k. read_token (lookup_json d k)) [''ability'', ''base_ability'', ''item'', ''nature'']) (\<lambda>ts.
     ebind (read_evs (lookup_json d ''evs'')) (\<lambda>evs.
     ebind (emap (\<lambda>k. read_integer 1 (lookup_json d k))
       [''attack'', ''defense'', ''special_attack'', ''special_defense'', ''speed'']) (\<lambda>ns.
     ebind (read_token (lookup_json d ''status'')) (\<lambda>status.
     ebind (read_token (lookup_json d ''tera_type'')) (\<lambda>tera_type.
     ebind (read_boolean (lookup_json d ''terastallized'')) (\<lambda>terastallized.
       Inr \<lparr>pa_id = i, pa_level = level, pa_types = types, pa_base_types = base_types, pa_hp = hp,
         pa_maxhp = maxhp, pa_ability = ts ! 0, pa_base_ability = ts ! 1, pa_item = ts ! 2,
         pa_nature = ts ! 3, pa_evs = evs, pa_attack = ns ! 0, pa_defense = ns ! 1,
         pa_special_attack = ns ! 2, pa_special_defense = ns ! 3, pa_speed = ns ! 4,
         pa_status = status, pa_tera_type = tera_type, pa_terastallized = terastallized\<rparr>))))))))))"

text \<open>\<open>except BaseException\<close> that lets interrupts pass.\<close>

definition caught_broadly :: "engine_exc \<Rightarrow> bool" where
  "caught_broadly e \<longleftrightarrow> (case e of Interrupt \<Rightarrow> False | _ \<Rightarrow> True)"

definition build_pokemon :: "'n native_engine \<Rightarrow> json \<Rightarrow> engine_exc + 'n" where
  "build_pokemon native v =
     ebind (exact_keys pokemon_keys [] v) (\<lambda>d.
     ebind (list_between 1 4 (lookup_json d ''moves'')) (\<lambda>raw_moves.
     ebind (emap (build_move native) raw_moves) (\<lambda>moves.
     ebind (map_ensure Unsupported_Mapping (distinct (map (ne_move_id native) moves))) (\<lambda>_.
     ebind (read_integer 0 (lookup_json d ''hp'')) (\<lambda>hp.
     ebind (read_integer 1 (lookup_json d ''maxhp'')) (\<lambda>maxhp.
     ebind (map_ensure Unsupported_Mapping (hp \<le> maxhp)) (\<lambda>_.
       handle caught_broadly
        (ebind (read_pokemon_args d hp maxhp) (\<lambda>args. of_native (ne_pokemon native args moves)))
        (map_fail Native_Exception))))))))"

definition build_side :: "'n native_engine \<Rightarrow> json \<Rightarrow> engine_exc + 'n" where
  "build_side native v =
     ebind (exact_keys side_keys [] v) (\<lambda>d.
     ebind (list_between 1 6 (lookup_json d ''pokemon'')) (\<lambda>raw_pokemon.
     ebind (emap (build_pokemon native) raw_pokemon) (\<lambda>pokemon.
     ebind (read_integer 0 (lookup_json d ''active_index'')) (\<lambda>active_index.
     ebind (map_ensure Unsupported_Mapping (active_index < int (length pokemon))) (\<lambda>_.
     ebind (exact_keys [] side_condition_names (lookup_json d ''side_conditions'')) (\<lambda>cs.
     ebind (emap (\<lambda>(name, raw). ebind (read_integer 0 raw) (\<lambda>n. Inr (name, n))) cs) (\<lambda>conditions.
       handle caught_broadly
        (ebind (of_native (ne_pokemon_index native (CHR ''P'' # show_int active_index))) (\<lambda>index.
         ebind (read_boolean (lookup_json d ''force_switch'')) (\<lambda>force_switch.
         ebind (read_boolean (lookup_json d ''force_trapped'')) (\<lambda>force_trapped.
         ebind (of_native (ne_side_conditions native conditions)) (\<lambda>side_conditions.
           of_native (ne_side native pokemon index force_switch force_trapped side_conditions))))))
        (map_fail Native_Exception))))))))"

definition upper_ascii :: "string \<Rightarrow> string" where
  "upper_ascii s = map (\<lambda>c. if 97 \<le> code c \<and> code c \<le> 122 then char_of (code c - 32) else c) s"

text \<open>\<open>getattr(native.Weather, ...)\<close>; a missing attribute is an \<open>unsupported_mapping\<close>.\<close>

definition native_enum :: "(string \<Rightarrow> 'n option) \<Rightarrow> json \<Rightarrow> engine_exc + 'n" where
  "native_enum get v = ebind (read_token v) (\<lambda>t.
     case get (upper_ascii t) of None \<Rightarrow> map_fail Unsupported_Mapping | Some x \<Rightarrow> Inr x)"

definition not_mapping_error :: "engine_exc \<Rightarrow> bool" where
  "not_mapping_error e \<longleftrightarrow> (case e of Mapping_Error _ \<Rightarrow> False | Interrupt \<Rightarrow> False | _ \<Rightarrow> True)"

definition build_state :: "(string \<Rightarrow> int option) \<Rightarrow> 'n native_engine \<Rightarrow> json \<Rightarrow> engine_exc + 'n" where
  "build_state float_integer native document =
     ebind (exact_keys world_keys [] document) (\<lambda>world.
     ebind (map_ensure Unsupported_Mapping
        (equals_integer float_integer (lookup_json world ''schema_version'') 1
         \<and> equals_integer float_integer (lookup_json world ''generation'') 9
         \<and> lookup_json world ''format'' = JString gen9ou)) (\<lambda>_.
     ebind (read_token (lookup_json world ''fixture_id'')) (\<lambda>_.
     ebind (exact_keys field_keys [] (lookup_json world ''field'')) (\<lambda>fields.
     ebind (exact_keys [''p1'', ''p2''] [] (lookup_json world ''sides'')) (\<lambda>sides.
     ebind (native_enum (ne_weather native) (lookup_json fields ''weather'')) (\<lambda>weather.
     ebind (native_enum (ne_terrain native) (lookup_json fields ''terrain'')) (\<lambda>terrain.
       handle not_mapping_error
        (ebind (build_side native (lookup_json sides ''p1'')) (\<lambda>one.
         ebind (build_side native (lookup_json sides ''p2'')) (\<lambda>two.
         ebind (read_integer 0 (lookup_json fields ''weather_turns_remaining'')) (\<lambda>wt.
         ebind (read_integer 0 (lookup_json fields ''terrain_turns_remaining'')) (\<lambda>tt.
         ebind (read_boolean (lookup_json fields ''trick_room'')) (\<lambda>tr.
         ebind (read_integer 0 (lookup_json fields ''trick_room_turns_remaining'')) (\<lambda>trt.
           of_native (ne_state native one two weather terrain
             \<lparr>fa_weather_turns_remaining = wt, fa_terrain_turns_remaining = tt, fa_trick_room = tr,
               fa_trick_room_turns_remaining = trt\<rparr>))))))))
        (map_fail Native_Exception))))))))"

section \<open>Floats\<close>

text \<open>
  \<open>round((hp / maxhp) * denominator)\<close> in binary64, without overflow and subnormal numbers: a float
  is \<open>m * 2 ^ e\<close> with at most 53 bits in \<open>m\<close>; every operation rounds half to even.
\<close>

function bit_count :: "int \<Rightarrow> nat" where
  "bit_count n = (if n \<le> 0 then 0 else Suc (bit_count (n div 2)))"
  by auto
termination
  by (relation "measure nat") auto

declare bit_count.simps [simp del]

definition half_even_div :: "int \<Rightarrow> int \<Rightarrow> int" where
  "half_even_div n d =
     (let q = n div d; r = n mod d
      in if 2 * r < d then q else if d < 2 * r then q + 1 else q + q mod 2)"

type_synonym py_float = "int \<times> int"

definition round53 :: "int \<Rightarrow> int \<Rightarrow> py_float" where
  "round53 m e =
     (let s = bit_count \<bar>m\<bar> - 53 in (half_even_div m (2 ^ s), e + int s))"

definition float_of_int :: "int \<Rightarrow> py_float" where
  "float_of_int n = round53 n 0"

definition float_mult :: "py_float \<Rightarrow> py_float \<Rightarrow> py_float" where
  "float_mult x y = round53 (fst x * fst y) (snd x + snd y)"

text \<open>The quotient of two integers, the divisor not zero; \<open>k\<close> brings it to 53 or 54 bits.\<close>

definition int_true_div :: "int \<Rightarrow> int \<Rightarrow> py_float" where
  "int_true_div n d =
     (let a = \<bar>n\<bar>; b = \<bar>d\<bar>;
          k = int (bit_count a) - int (bit_count b) - 53;
          quotient = (\<lambda>k. half_even_div (a * 2 ^ nat (- k)) (b * 2 ^ nat k));
          k' = if b * 2 ^ nat k * 2 ^ 53 \<le> a * 2 ^ nat (- k) then k + 1 else k
      in (sgn n * sgn d * quotient k', k'))"

definition round_float :: "py_float \<Rightarrow> int" where
  "round_float x = (if 0 \<le> snd x then fst x * 2 ^ nat (snd x) else half_even_div (fst x) (2 ^ nat (- snd x)))"

definition rounded_share :: "int \<Rightarrow> int \<Rightarrow> int \<Rightarrow> int" where
  "rounded_share hp maxhp denominator =
     round_float (float_mult (int_true_div hp maxhp) (float_of_int denominator))"

section \<open>Views\<close>

type_synonym public_hp = "hp_precision \<times> int"

definition side_of :: "native_state \<Rightarrow> string \<Rightarrow> native_side" where
  "side_of st player = (if player = ''p1'' then nv_side_one st else nv_side_two st)"

definition active_pokemon :: "native_side \<Rightarrow> engine_exc + native_pokemon" where
  "active_pokemon s = (case py_index (nd_pokemon s) (nd_active_index s) of
     None \<Rightarrow> Inl (Core_Error IndexError) | Some p \<Rightarrow> Inr p)"

definition effective_types :: "native_pokemon \<Rightarrow> string list" where
  "effective_types p = (if np_terastallized p then [lower (np_tera_type p), ''typeless'']
     else map lower (np_types p))"

definition private_move :: "native_move \<Rightarrow> json" where
  "private_move m = JObject [(''id'', JString (nm_id m)), (''pp'', JInt (nm_pp m)),
     (''disabled'', JBool (nm_disabled m))]"

definition private_pokemon :: "native_pokemon \<Rightarrow> json" where
  "private_pokemon p = JObject
     [(''id'', JString (np_id p)), (''hp'', JInt (np_hp p)), (''maxhp'', JInt (np_maxhp p)),
      (''ability'', JString (np_ability p)), (''item'', JString (np_item p)),
      (''moves'', JList (map private_move (np_moves p))), (''tera_type'', JString (np_tera_type p)),
      (''terastallized'', JBool (np_terastallized p)),
      (''stats'', JList (map JInt [np_attack p, np_defense p, np_special_attack p,
         np_special_defense p, np_speed p]))]"

definition own_private :: "native_side \<Rightarrow> json" where
  "own_private s = JObject [(''active_index'', JInt (nd_active_index s)),
     (''pokemon'', JList (map private_pokemon (nd_pokemon s)))]"

definition public_active ::
    "bool \<Rightarrow> public_hp \<Rightarrow> native_side \<Rightarrow> engine_exc + (string \<times> json) list" where
  "public_active own hp s =
     ebind (active_pokemon s) (\<lambda>active.
     ebind (if own \<or> fst hp = Exact then Inr (JList [JInt (np_hp active), JInt (np_maxhp active)])
        else if np_maxhp active = 0 then Inl Arithmetic_Error
        else Inr (JInt (rounded_share (np_hp active) (np_maxhp active)
          (if fst hp = Pixel then snd hp else 100)))) (\<lambda>hp_value.
       Inr [(''active_index'', JInt (nd_active_index s)), (''id'', JString (np_id active)),
         (''hp'', JObject [(''current'', hp_value), (''precision'', JString (precision_value (fst hp)))]),
         (''status'', JString (np_status active)),
         (''types'', JList (map JString (effective_types active))),
         (''terastallized'', JBool (np_terastallized active)),
         (''tera_type'', if np_terastallized active then JString (np_tera_type active) else JNull)]))"

text \<open>The entries of \<open>new\<close> that are not the same in \<open>old\<close>.\<close>

definition changed_entries :: "(string \<times> json) list \<Rightarrow> (string \<times> json) list \<Rightarrow> (string \<times> json) list" where
  "changed_entries old new = filter (\<lambda>(k, v). map_of old k \<noteq> Some v) new"

definition side_delta ::
    "native_state \<Rightarrow> native_state \<Rightarrow> string \<Rightarrow> string \<Rightarrow> public_hp \<Rightarrow> engine_exc + (string \<times> json) list" where
  "side_delta source target player side_id hp =
     ebind (public_active (side_id = player) hp (side_of source side_id)) (\<lambda>old.
     ebind (public_active (side_id = player) hp (side_of target side_id)) (\<lambda>new.
     (let changed = changed_entries old new
      in Inr (if changed = [] then [] else [(side_id, JObject changed)]))))"

definition public_transition_delta ::
    "native_state \<Rightarrow> native_state \<Rightarrow> string \<Rightarrow> public_hp \<times> public_hp \<Rightarrow> engine_exc + json" where
  "public_transition_delta source target player hps =
     ebind (side_delta source target player ''p1'' (fst hps)) (\<lambda>one.
     ebind (side_delta source target player ''p2'' (snd hps)) (\<lambda>two.
     (let sides = one @ two in
      Inr (JObject ((if sides = [] then [] else [(''sides'', JObject sides)])
        @ (if nv_weather source \<noteq> nv_weather target then [(''weather'', JString (nv_weather target))] else [])
        @ (if nv_terrain source \<noteq> nv_terrain target then [(''terrain'', JString (nv_terrain target))] else [])
        @ (if nv_trick_room source \<noteq> nv_trick_room target
           then [(''trick_room'', JBool (nv_trick_room target))] else []))))))"

definition view_digest ::
    "digest_fn \<Rightarrow> native_state \<Rightarrow> string \<Rightarrow> string \<Rightarrow> (string \<times> native_state) option
     \<Rightarrow> public_hp \<times> public_hp \<Rightarrow> engine_exc + string" where
  "view_digest manifest st observed_digest player prior hps =
     (let private = own_private (side_of st player) in
      case prior of
        None \<Rightarrow> of_core (manifest (JObject
          [(''observed_state_digest'', JString observed_digest), (''player'', JString player),
           (''own_private'', private)]))
      | Some (prior_digest, source) \<Rightarrow>
          ebind (public_transition_delta source st player hps) (\<lambda>delta.
            of_core (manifest (JObject
              [(''prior_view_digest'', JString prior_digest), (''player'', JString player),
               (''own_private'', private), (''public_transition_delta'', delta)]))))"

section \<open>Mapping a native state\<close>

datatype terminal_outcome = Won_P1 | Won_P2 | Tied

record mapped_state =
  ms_native_state :: string
  ms_view_digests :: "string \<times> string"
  ms_active_indexes :: "int \<times> int"
  ms_active_types :: "string list \<times> string list"
  ms_terastallized :: "bool \<times> bool"
  ms_terminal_outcome :: "terminal_outcome option"
  ms_public_hp :: "public_hp \<times> public_hp"

definition defeated :: "native_side \<Rightarrow> bool" where
  "defeated s \<longleftrightarrow> list_all (\<lambda>p. np_hp p \<le> 0) (nd_pokemon s)"

definition terminal_of :: "native_state \<Rightarrow> terminal_outcome option" where
  "terminal_of st =
     (if defeated (nv_side_one st) \<and> defeated (nv_side_two st) then Some Tied
      else if defeated (nv_side_two st) then Some Won_P1
      else if defeated (nv_side_one st) then Some Won_P2 else None)"

text \<open>
  \<open>map_native_state\<close>; \<open>prior\<close> holds the digests of the views before the step and the native state
  before it, which the code passes together.
\<close>

definition map_native_state ::
    "digest_fn \<Rightarrow> 'n native_engine \<Rightarrow> 'n \<Rightarrow> string \<Rightarrow> ((string \<times> string) \<times> 'n) option
     \<Rightarrow> public_hp \<times> public_hp \<Rightarrow> engine_exc + mapped_state" where
  "map_native_state manifest native st observed_digest prior hps =
     handle not_mapping_error
      (ebind (of_native (ne_to_string native st)) (\<lambda>serialized.
       ebind (map_ensure Malformed_Native_Result (serialized \<noteq> [])) (\<lambda>_.
       (let v = ne_view native st;
            prior_of = (\<lambda>pick. map_option (\<lambda>(digests, source). (pick digests, ne_view native source)) prior)
        in
        ebind (active_pokemon (nv_side_one v)) (\<lambda>one.
        ebind (active_pokemon (nv_side_two v)) (\<lambda>two.
        ebind (view_digest manifest v observed_digest ''p1'' (prior_of fst) hps) (\<lambda>view1.
        ebind (view_digest manifest v observed_digest ''p2'' (prior_of snd) hps) (\<lambda>view2.
          Inr \<lparr>ms_native_state = serialized, ms_view_digests = (view1, view2),
            ms_active_indexes = (nd_active_index (nv_side_one v), nd_active_index (nv_side_two v)),
            ms_active_types = (effective_types one, effective_types two),
            ms_terastallized = (np_terastallized one, np_terastallized two),
            ms_terminal_outcome = terminal_of v, ms_public_hp = hps\<rparr>)))))))) 
      (map_fail Malformed_Native_Result)"

definition map_complete_world ::
    "digest_fn \<Rightarrow> (string \<Rightarrow> int option) \<Rightarrow> 'n native_engine \<Rightarrow> json \<Rightarrow> string
     \<Rightarrow> public_hp \<times> public_hp \<Rightarrow> engine_exc + mapped_state" where
  "map_complete_world manifest float_integer native document observed_digest hps =
     ebind (build_state float_integer native document) (\<lambda>st.
       map_native_state manifest native st observed_digest None hps)"

definition map_serialized_state ::
    "digest_fn \<Rightarrow> 'n native_engine \<Rightarrow> string \<Rightarrow> string \<Rightarrow> public_hp \<times> public_hp
     \<Rightarrow> engine_exc + mapped_state" where
  "map_serialized_state manifest native text observed_digest hps =
     ebind (map_ensure Malformed_Native_Result (text \<noteq> [])) (\<lambda>_.
     ebind (handle caught_broadly (of_native (ne_from_string native text))
        (map_fail Malformed_Native_Result)) (\<lambda>st.
       map_native_state manifest native st observed_digest None hps))"

section \<open>The observed root\<close>

record observed_root =
  ro_root_player :: string
  ro_digest :: string
  ro_public_hp :: "public_hp \<times> public_hp"

definition observed_hp_precision :: "side_view \<Rightarrow> public_hp" where
  "observed_hp_precision s =
     (case sv_active_slot s of
        None \<Rightarrow> (Percent, 100)
      | Some k \<Rightarrow>
          if 1 \<le> k \<and> k \<le> int (length (sv_pokemon s)) then
            (case pv_hp (sv_pokemon s ! nat (k - 1)) of
               None \<Rightarrow> (Percent, 100) | Some hp \<Rightarrow> (hp_precision hp, hp_maximum hp))
          else (Percent, 100))"

definition public_hp_of :: "observed_state \<Rightarrow> string \<Rightarrow> side_view \<Rightarrow> public_hp" where
  "public_hp_of st player s =
     (if os_our_side st = Some player then (Percent, 100) else observed_hp_precision s)"

definition map_observed_root :: "digest_fn \<Rightarrow> observed_state \<Rightarrow> engine_exc + observed_root" where
  "map_observed_root manifest st =
     ebind (map_ensure Unsupported_Mapping (os_generation st = Some 9 \<and> os_game_type st = Some ''singles''
        \<and> os_tier st = Some gen9ou \<and> os_room_initialized st \<and> os_battle_started st
        \<and> (os_our_side st = Some ''p1'' \<or> os_our_side st = Some ''p2''))) (\<lambda>_.
     ebind (of_core (observed_state_digest manifest st)) (\<lambda>digest.
       Inr \<lparr>ro_root_player = the (os_our_side st), ro_digest = digest,
         ro_public_hp = (public_hp_of st ''p1'' (os_p1 st), public_hp_of st ''p2'' (os_p2 st))\<rparr>))"

section \<open>What a player may see\<close>

definition same_shown :: "public_hp \<Rightarrow> native_pokemon \<Rightarrow> native_pokemon \<Rightarrow> bool" where
  "same_shown hp p q \<longleftrightarrow> np_id p = np_id q \<and> np_status p = np_status q
     \<and> np_terastallized p = np_terastallized q
     \<and> (if np_terastallized p then np_tera_type p = np_tera_type q else map lower (np_types p) = map lower (np_types q))
     \<and> (if fst hp = Exact then np_hp p = np_hp q \<and> np_maxhp p = np_maxhp q
        else (np_maxhp p = 0 \<longleftrightarrow> np_maxhp q = 0) \<and>
          rounded_share (np_hp p) (np_maxhp p) (if fst hp = Pixel then snd hp else 100)
            = rounded_share (np_hp q) (np_maxhp q) (if fst hp = Pixel then snd hp else 100))"

text \<open>
  The opponent's side as the player sees it: the bench, and of the active one the ability, the
  item, the moves, the statistics, the unused tera type and the exact hit points stay open.
\<close>

definition same_shown_side :: "public_hp \<Rightarrow> native_side \<Rightarrow> native_side \<Rightarrow> bool" where
  "same_shown_side hp s s' \<longleftrightarrow> nd_active_index s = nd_active_index s'
     \<and> (\<forall>p p'. active_pokemon s = Inr p \<longrightarrow> active_pokemon s' = Inr p' \<longrightarrow> same_shown hp p p')"

definition same_own_side :: "native_side \<Rightarrow> native_side \<Rightarrow> bool" where
  "same_own_side s s' \<longleftrightarrow> nd_active_index s = nd_active_index s' \<and> nd_pokemon s = nd_pokemon s'"

definition other_player :: "string \<Rightarrow> string" where
  "other_player player = (if player = ''p1'' then ''p2'' else ''p1'')"

definition pick :: "string \<Rightarrow> 'a \<times> 'a \<Rightarrow> 'a" where
  "pick player xs = (if player = ''p1'' then fst xs else snd xs)"

definition looks_alike :: "string \<Rightarrow> public_hp \<times> public_hp \<Rightarrow> native_state \<Rightarrow> native_state \<Rightarrow> bool" where
  "looks_alike player hps v v' \<longleftrightarrow>
     same_own_side (side_of v player) (side_of v' player)
     \<and> same_shown_side (pick (other_player player) hps) (side_of v (other_player player)) (side_of v' (other_player player))
     \<and> nv_weather v = nv_weather v' \<and> nv_terrain v = nv_terrain v' \<and> nv_trick_room v = nv_trick_room v'"

lemma own_private_same: "same_own_side s s' \<Longrightarrow> own_private s = own_private s'"
  by (simp add: same_own_side_def own_private_def)

lemma active_same: "same_own_side s s' \<Longrightarrow> active_pokemon s = active_pokemon s'"
  by (simp add: same_own_side_def active_pokemon_def)

lemma public_active_own: "same_own_side s s' \<Longrightarrow> public_active True hp s = public_active True hp s'"
  using active_same [of s s'] by (simp add: public_active_def same_own_side_def)

lemma public_active_shown:
  assumes "same_shown_side hp s s'" "public_active False hp s = Inr x" "public_active False hp s' = Inr y"
  shows "x = y"
proof -
  obtain p p' where p: "active_pokemon s = Inr p" "active_pokemon s' = Inr p'"
    using assms(2,3) by (auto simp: public_active_def result_simps)
  then have "same_shown hp p p'" "nd_active_index s = nd_active_index s'"
    using assms(1) by (simp_all add: same_shown_side_def)
  then show ?thesis
    using assms(2,3) p
    by (auto simp: public_active_def same_shown_def effective_types_def split: if_splits)
qed

lemma side_delta_own:
  assumes "same_own_side (side_of v player) (side_of v' player)"
    and "same_own_side (side_of w player) (side_of w' player)"
  shows "side_delta v w player player hp = side_delta v' w' player player hp"
  using public_active_own [OF assms(1)] public_active_own [OF assms(2)] by (simp add: side_delta_def)

lemma side_delta_shown:
  assumes "same_shown_side hp (side_of v other) (side_of v' other)"
    and "same_shown_side hp (side_of w other) (side_of w' other)" "other \<noteq> player"
    and "side_delta v w player other hp = Inr x" "side_delta v' w' player other hp = Inr y"
  shows "x = y"
proof -
  obtain b a b' a' where
    b: "public_active False hp (side_of v other) = Inr b" "public_active False hp (side_of v' other) = Inr b'" and
    a: "public_active False hp (side_of w other) = Inr a" "public_active False hp (side_of w' other) = Inr a'" and
    xy: "x = (let changed = changed_entries b a in if changed = [] then [] else [(other, JObject changed)])"
      "y = (let changed = changed_entries b' a' in if changed = [] then [] else [(other, JObject changed)])"
    using assms(3,4,5) by (auto simp: side_delta_def result_simps Let_def)
  have "b = b'" "a = a'"
    using public_active_shown [OF assms(1) b] public_active_shown [OF assms(2) a] by simp_all
  then show ?thesis using xy by simp
qed

lemma delta_same:
  assumes "player = ''p1'' \<or> player = ''p2''"
    and "looks_alike player hps v v'" "looks_alike player hps w w'"
    and "public_transition_delta v w player hps = Inr x" "public_transition_delta v' w' player hps = Inr y"
  shows "x = y"
proof -
  obtain d1 d2 d1' d2' where
    1: "side_delta v w player ''p1'' (fst hps) = Inr d1" "side_delta v' w' player ''p1'' (fst hps) = Inr d1'" and
    2: "side_delta v w player ''p2'' (snd hps) = Inr d2" "side_delta v' w' player ''p2'' (snd hps) = Inr d2'"
    using assms(4,5) by (auto simp: public_transition_delta_def result_simps)
  have "d1 = d1' \<and> d2 = d2'"
  proof (cases "player = ''p1''")
    case True
    then have "same_own_side (side_of v ''p1'') (side_of v' ''p1'')" "same_own_side (side_of w ''p1'') (side_of w' ''p1'')"
      "same_shown_side (snd hps) (side_of v ''p2'') (side_of v' ''p2'')"
      "same_shown_side (snd hps) (side_of w ''p2'') (side_of w' ''p2'')"
      using assms(2,3) by (simp_all add: looks_alike_def other_player_def pick_def)
    then show ?thesis
      using side_delta_own [of v "''p1''" v' w w' "fst hps"] side_delta_shown [OF _ _ _ 2] 1 True by simp
  next
    case False
    then have "player = ''p2''" using assms(1) by simp
    then have "same_own_side (side_of v ''p2'') (side_of v' ''p2'')" "same_own_side (side_of w ''p2'') (side_of w' ''p2'')"
      "same_shown_side (fst hps) (side_of v ''p1'') (side_of v' ''p1'')"
      "same_shown_side (fst hps) (side_of w ''p1'') (side_of w' ''p1'')"
      using assms(2,3) by (simp_all add: looks_alike_def other_player_def pick_def)
    then show ?thesis
      using side_delta_own [of v "''p2''" v' w w' "snd hps"] side_delta_shown [OF _ _ _ 1] 2 \<open>player = ''p2''\<close>
      by simp
  qed
  moreover have "nv_weather v = nv_weather v'" "nv_terrain v = nv_terrain v'" "nv_trick_room v = nv_trick_room v'"
    "nv_weather w = nv_weather w'" "nv_terrain w = nv_terrain w'" "nv_trick_room w = nv_trick_room w'"
    using assms(2,3) by (simp_all add: looks_alike_def)
  ultimately have "public_transition_delta v w player hps = public_transition_delta v' w' player hps"
    using 1 2 by (simp add: public_transition_delta_def)
  then show ?thesis using assms(4,5) by simp
qed

definition same_prior ::
    "string \<Rightarrow> public_hp \<times> public_hp \<Rightarrow> (string \<times> native_state) option \<Rightarrow> (string \<times> native_state) option \<Rightarrow> bool" where
  "same_prior player hps p q = (case (p, q) of
     (None, None) \<Rightarrow> True
   | (Some (d, v), Some (d', v')) \<Rightarrow> d = d' \<and> looks_alike player hps v v'
   | _ \<Rightarrow> False)"

lemma view_digest_same:
  assumes "player = ''p1'' \<or> player = ''p2''"
    and "looks_alike player hps v v'" "same_prior player hps prior prior'"
    and "view_digest manifest v od player prior hps = Inr x" "view_digest manifest v' od player prior' hps = Inr y"
  shows "x = y"
proof -
  have priv: "own_private (side_of v player) = own_private (side_of v' player)"
    using assms(2) by (simp add: looks_alike_def own_private_same)
  show ?thesis
  proof (cases prior)
    case None
    then have "prior' = None" using assms(3) by (simp add: same_prior_def split: option.splits)
    then show ?thesis using None assms(4,5) priv by (simp add: view_digest_def)
  next
    case (Some p)
    then obtain d s s' where p: "prior = Some (d, s)" "prior' = Some (d, s')" "looks_alike player hps s s'"
      using assms(3) by (cases p) (auto simp: same_prior_def split: option.splits)
    then obtain x1 y1 where d: "public_transition_delta s v player hps = Inr x1"
      "public_transition_delta s' v' player hps = Inr y1"
      using assms(4,5) by (auto simp: view_digest_def result_simps Let_def)
    have "x1 = y1" by (rule delta_same [OF assms(1) p(3) assms(2) d])
    then show ?thesis using assms(4,5) p d priv by (simp add: view_digest_def)
  qed
qed

lemma root_view_digest_same:
  assumes "own_private (side_of v player) = own_private (side_of v' player)"
  shows "view_digest manifest v od player None hps = view_digest manifest v' od player None hps"
  using assms by (simp add: view_digest_def)

definition view_prior :: "'n native_engine \<Rightarrow> string \<Rightarrow> ((string \<times> string) \<times> 'n) option \<Rightarrow> (string \<times> native_state) option" where
  "view_prior native player prior = map_option (\<lambda>(ds, s). (pick player ds, ne_view native s)) prior"

lemma map_native_state_ok:
  assumes "map_native_state manifest native st od prior hps = Inr m"
  shows "ne_to_string native st = Inr (ms_native_state m)" "ms_native_state m \<noteq> []" "ms_public_hp m = hps"
    "ms_terminal_outcome m = terminal_of (ne_view native st)"
    "player = ''p1'' \<or> player = ''p2'' \<Longrightarrow>
      view_digest manifest (ne_view native st) od player (view_prior native player prior) hps
        = Inr (pick player (ms_view_digests m))"
  using assms
  by (auto simp: map_native_state_def result_simps Let_def of_native_def view_prior_def pick_def
      split: sum.splits native_exc.splits)

lemma mapped_views_same:
  assumes "player = ''p1'' \<or> player = ''p2''"
    and "map_native_state manifest native st od prior hps = Inr m"
    and "map_native_state manifest native' st' od prior' hps = Inr m'"
    and "looks_alike player hps (ne_view native st) (ne_view native' st')"
    and "same_prior player hps (view_prior native player prior) (view_prior native' player prior')"
  shows "pick player (ms_view_digests m) = pick player (ms_view_digests m')"
  by (rule view_digest_same [OF assms(1,4,5) map_native_state_ok(5) [OF assms(2,1)]
      map_native_state_ok(5) [OF assms(3,1)]])

section \<open>The precision of observed hit points\<close>

text \<open>
  In a state of the reducer the active slot is 1, the place on the field, and
  \<open>observed_hp_precision\<close> takes it for a place in the roster: it reads the one seen first.
\<close>

lemma observed_precision_of_first:
  assumes "wf_side n sid s" "sv_active_slot s \<noteq> None"
  shows "observed_hp_precision s = (case pv_hp (hd (sv_pokemon s)) of
     None \<Rightarrow> (Percent, 100) | Some hp \<Rightarrow> (hp_precision hp, hp_maximum hp))"
proof -
  have "sv_active_slot s = Some 1" "sv_pokemon s \<noteq> []"
    using assms by (auto simp: wf_side_def active_count_def)
  then show ?thesis by (cases "sv_pokemon s") (simp_all add: observed_hp_precision_def)
qed

end
