(* ===== verification/Engine_Model.thy ===== *)
theory Engine_Model
  imports Engine_State Complex_Main
begin

text \<open>
  \<open>adapters/poke_engine/transition_model.py\<close> and \<open>search_status.py\<close>: the transition model over the
  native engine. A method is a function of the model's state, \<open>engine_model\<close>, which gives a result
  or an exception and the state after it; only the health of the backend ever changes.
\<close>

section \<open>Identities of artifacts\<close>

record artifact_identity =
  ai_artifact_index_digest :: string
  ai_source_manifest_digest :: string
  ai_build_manifest_digest :: string
  ai_wheel_sha256 :: string
  ai_wheel_filename :: string
  ai_cell_id :: string
  ai_distribution_name :: string
  ai_distribution_version :: string
  ai_python_tag :: string
  ai_abi_tag :: string
  ai_platform_tag :: string
  ai_operating_system :: string
  ai_architecture :: string
  ai_features :: "string list"
  ai_adapter_version :: string
  ai_release_tag :: string
  ai_release_asset_url :: string
  ai_sentinel_fixture_digest :: string
  ai_sentinel_result_digest :: string
  ai_sentinel_configuration_digest :: string

definition engine_features :: "string list" where
  "engine_features = [''poke-engine/gen9'', ''poke-engine/terastallization'']"

text \<open>\<open>[a-z0-9][a-z0-9._-]*\<close> and \<open>[a-z][a-z0-9_]*\<close>.\<close>

definition is_safe_token :: "string \<Rightarrow> bool" where
  "is_safe_token s \<longleftrightarrow> (case s of [] \<Rightarrow> False
     | c # cs \<Rightarrow> is_id_lower c \<and> list_all (\<lambda>c. is_id_lower c \<or> c \<in> set ''._-'') cs)"

definition is_failure_token :: "string \<Rightarrow> bool" where
  "is_failure_token s \<longleftrightarrow> starts_lower s \<and> list_all (\<lambda>c. is_id_lower c \<or> c = CHR ''_'') s"

definition check_artifact_identity :: "artifact_identity \<Rightarrow> py_exc + unit" where
  "check_artifact_identity i =
     ebind (require_digests [ai_artifact_index_digest i, ai_source_manifest_digest i,
        ai_build_manifest_digest i, ai_wheel_sha256 i, ai_sentinel_fixture_digest i,
        ai_sentinel_result_digest i, ai_sentinel_configuration_digest i]) (\<lambda>_.
     ebind (ensure (list_all is_safe_token [ai_wheel_filename i, ai_cell_id i, ai_distribution_name i,
        ai_distribution_version i, ai_python_tag i, ai_abi_tag i, ai_platform_tag i,
        ai_operating_system i, ai_architecture i, ai_adapter_version i, ai_release_tag i])) (\<lambda>_.
     ebind (ensure (ai_features i = engine_features)) (\<lambda>_.
       ensure (ai_release_asset_url i =
         ''https://github.com/chrismaghuhn/BattleBelief/releases/download/'' @ ai_release_tag i
           @ ''/'' @ ai_wheel_filename i))))"

definition artifact_identity_dict :: "artifact_identity \<Rightarrow> json" where
  "artifact_identity_dict i = JObject
     [(''artifact_index_digest'', JString (ai_artifact_index_digest i)),
      (''source_manifest_digest'', JString (ai_source_manifest_digest i)),
      (''build_manifest_digest'', JString (ai_build_manifest_digest i)),
      (''wheel_sha256'', JString (ai_wheel_sha256 i)),
      (''wheel_filename'', JString (ai_wheel_filename i)), (''cell_id'', JString (ai_cell_id i)),
      (''distribution_name'', JString (ai_distribution_name i)),
      (''distribution_version'', JString (ai_distribution_version i)),
      (''python_tag'', JString (ai_python_tag i)), (''abi_tag'', JString (ai_abi_tag i)),
      (''platform_tag'', JString (ai_platform_tag i)),
      (''operating_system'', JString (ai_operating_system i)),
      (''architecture'', JString (ai_architecture i)),
      (''features'', JList (map JString (ai_features i))),
      (''adapter_version'', JString (ai_adapter_version i)),
      (''release_tag'', JString (ai_release_tag i)),
      (''release_asset_url'', JString (ai_release_asset_url i)),
      (''sentinel_fixture_digest'', JString (ai_sentinel_fixture_digest i)),
      (''sentinel_result_digest'', JString (ai_sentinel_result_digest i)),
      (''sentinel_configuration_digest'', JString (ai_sentinel_configuration_digest i))]"

text \<open>\<open>EngineFailureClass\<close> and \<open>EngineAvailability\<close>.\<close>

datatype engine_failure_class =
    Extra_Unavailable
  | Artifact_Unavailable
  | Artifact_Mismatch
  | Unsupported_Environment
  | Import_Failed
  | Sentinel_Failed
  | Native_Unhealthy

definition engine_failure_value :: "engine_failure_class \<Rightarrow> string" where
  "engine_failure_value f = (case f of
     Extra_Unavailable \<Rightarrow> ''extra_unavailable''
   | Artifact_Unavailable \<Rightarrow> ''artifact_unavailable''
   | Artifact_Mismatch \<Rightarrow> ''artifact_mismatch''
   | Unsupported_Environment \<Rightarrow> ''unsupported_environment''
   | Import_Failed \<Rightarrow> ''import_failed''
   | Sentinel_Failed \<Rightarrow> ''sentinel_failed''
   | Native_Unhealthy \<Rightarrow> ''native_unhealthy'')"

record engine_availability =
  ea_status :: string
  ea_identity :: "artifact_identity option"
  ea_failure_class :: "string option"

definition availability_statuses :: "string list" where
  "availability_statuses = [''available'', ''extra_unavailable'', ''artifact_unavailable'',
     ''artifact_mismatch'', ''unsupported_environment'', ''import_failed'', ''sentinel_failed'',
     ''native_unhealthy'']"

definition check_availability :: "engine_availability \<Rightarrow> py_exc + unit" where
  "check_availability a =
     ebind (ensure (ea_status a \<in> set availability_statuses)) (\<lambda>_.
     if ea_status a = ''available'' then ensure (ea_identity a \<noteq> None \<and> ea_failure_class a = None)
     else ensure (ea_identity a = None \<and> (case ea_failure_class a of None \<Rightarrow> False
       | Some f \<Rightarrow> is_failure_token f)))"

definition availability_dict :: "engine_availability \<Rightarrow> json" where
  "availability_dict a = JObject [(''status'', JString (ea_status a)),
     (''identity'', json_opt artifact_identity_dict (ea_identity a)),
     (''failure_class'', json_opt JString (ea_failure_class a))]"

text \<open>\<open>run_gen9_sentinel\<close>; the verification and the native probe are parameters.\<close>

definition run_gen9_sentinel ::
    "engine_failure_class + 'v \<Rightarrow> ('v \<Rightarrow> engine_failure_class + engine_availability)
     \<Rightarrow> py_exc + engine_availability" where
  "run_gen9_sentinel verified probe =
     (case ebind verified probe of
        Inr a \<Rightarrow> Inr a
      | Inl f \<Rightarrow> (let a = \<lparr>ea_status = engine_failure_value f, ea_identity = None,
            ea_failure_class = Some (engine_failure_value f)\<rparr>
          in ebind (check_availability a) (\<lambda>_. Inr a)))"

section \<open>The model and its failures\<close>

definition adapter_id :: string where
  "adapter_id = ''battlebelief.poke-engine-transition''"

definition adapter_version :: string where
  "adapter_version = ''1''"

definition expected_artifact_adapter :: string where
  "expected_artifact_adapter = ''battlebelief-poke-engine-v2-legal-choices''"

datatype backend_health = Healthy | Unhealthy

record 'n engine_model =
  md_native :: "'n native_engine"
  md_catalog :: capability_catalog
  md_artifact_identity :: artifact_identity
  md_backend_identity_digest :: string
  md_backend_health :: backend_health

type_synonym ('n, 'a) engine_method = "'n engine_model \<Rightarrow> (engine_exc + 'a) \<times> 'n engine_model"

definition mreturn :: "engine_exc + 'a \<Rightarrow> ('n, 'a) engine_method" where
  "mreturn r = (\<lambda>s. (r, s))"

definition mbind :: "('n, 'a) engine_method \<Rightarrow> ('a \<Rightarrow> ('n, 'b) engine_method) \<Rightarrow> ('n, 'b) engine_method" where
  "mbind m f = (\<lambda>s. case m s of (Inl e, s') \<Rightarrow> (Inl e, s') | (Inr x, s') \<Rightarrow> f x s')"

definition mcatch :: "('n, 'a) engine_method \<Rightarrow> (engine_exc \<Rightarrow> ('n, 'a) engine_method) \<Rightarrow> ('n, 'a) engine_method" where
  "mcatch m h = (\<lambda>s. case m s of (Inl e, s') \<Rightarrow> h e s' | (Inr x, s') \<Rightarrow> (Inr x, s'))"

definition mark_unhealthy :: "('n, unit) engine_method" where
  "mark_unhealthy = (\<lambda>s. (Inr (), s\<lparr>md_backend_health := Unhealthy\<rparr>))"

fun mmap :: "('a \<Rightarrow> ('n, 'b) engine_method) \<Rightarrow> 'a list \<Rightarrow> ('n, 'b list) engine_method" where
  "mmap f [] = mreturn (Inr [])"
| "mmap f (x # xs) = mbind (f x) (\<lambda>y. mbind (mmap f xs) (\<lambda>ys. mreturn (Inr (y # ys))))"

text \<open>The digests a report may carry: of the observation, the request and the safe set.\<close>

type_synonym report_digests = "string option \<times> string option \<times> string option"

abbreviation no_digests :: report_digests where
  "no_digests \<equiv> (None, None, None)"

definition make_report ::
    "report_classification \<Rightarrow> string \<Rightarrow> report_digests \<Rightarrow> string list \<Rightarrow> int \<Rightarrow> mapping_failure option
     \<Rightarrow> engine_exc + mapping_report" where
  "make_report classification backend digests capability_ids work failure =
     (let r = \<lparr>mr_classification = classification, mr_adapter_id = adapter_id,
        mr_adapter_version = adapter_version, mr_backend_identity_digest = backend,
        mr_observed_state_digest = fst digests, mr_request_identity_digest = fst (snd digests),
        mr_safe_submission_set_digest = snd (snd digests), mr_capability_ids = capability_ids,
        mr_work_units = work, mr_failure_class = failure\<rparr>
      in ebind (of_core (check_report r)) (\<lambda>_. Inr r))"

definition failure_with :: "string \<Rightarrow> mapping_failure \<Rightarrow> report_digests \<Rightarrow> int \<Rightarrow> engine_exc + 'a" where
  "failure_with backend f digests work =
     ebind (make_report Report_Failed backend digests [] work (Some f)) (\<lambda>report.
       raise_mapping_failure f report work)"

definition raise_failure :: "mapping_failure \<Rightarrow> report_digests \<Rightarrow> int \<Rightarrow> ('n, 'a) engine_method" where
  "raise_failure f digests work = (\<lambda>s. (failure_with (md_backend_identity_digest s) f digests work, s))"

definition success_report ::
    "report_classification \<Rightarrow> report_digests \<Rightarrow> capability_id list \<Rightarrow> int \<Rightarrow> ('n, mapping_report) engine_method" where
  "success_report classification digests capabilities work =
     (\<lambda>s. (make_report classification (md_backend_identity_digest s) digests
        (sort (remdups (map ci_value capabilities))) work None, s))"

section \<open>Setting up\<close>

definition conformance_digest :: "digest_fn \<Rightarrow> py_exc + string" where
  "conformance_digest manifest = manifest (JObject
     [(''adapter_id'', JString adapter_id), (''adapter_version'', JString adapter_version),
      (''methods'', JList (map JString [''prepare_root'', ''player_view'', ''information_state_key'',
        ''legal_actions'', ''transition'', ''is_terminal'', ''terminal_value'']))])"

definition backend_digest :: "digest_fn \<Rightarrow> string \<Rightarrow> string \<Rightarrow> artifact_identity \<Rightarrow> py_exc + string" where
  "backend_digest manifest source_digest contract_digest i =
     ebind (conformance_digest manifest) (\<lambda>conformance.
       manifest (JObject
        [(''engine_source_manifest_digest'', JString (ai_source_manifest_digest i)),
         (''artifact_index_digest'', JString (ai_artifact_index_digest i)),
         (''environment_cell_id'', JString (ai_cell_id i)),
         (''engine_build_manifest_digest'', JString (ai_build_manifest_digest i)),
         (''wheel_digest'', JString (ai_wheel_sha256 i)),
         (''transition_adapter_id'', JString adapter_id),
         (''transition_adapter_version'', JString adapter_version),
         (''transition_adapter_source_digest'', JString source_digest),
         (''transition_model_contract_digest'', JString contract_digest),
         (''transition_adapter_conformance_digest'', JString conformance)]))"

text \<open>
  What the set-up finds outside the program: the digests of the adapter's and the contract's
  source files, the digests they are pinned to and that of the catalog, the verified artifact or the
  exception of its verification, and the imported module (\<open>None\<close>: no callable \<open>legal_choices\<close>).
\<close>

datatype verification = Verified artifact_identity | Artifact_Error engine_failure_class
  | Verification_Raised engine_exc

record 'n setup_env =
  su_expected_catalog_digest :: string
  su_adapter_source_digest :: string
  su_expected_adapter_source_digest :: string
  su_core_contract_digest :: string
  su_expected_core_contract_digest :: string
  su_verification :: verification
  su_import :: "engine_exc + 'n native_engine option"

definition initialize ::
    "digest_fn \<Rightarrow> 'n setup_env \<Rightarrow> capability_catalog \<Rightarrow> engine_exc + 'n engine_model" where
  "initialize manifest env c =
     ebind (of_core (manifest (JObject [(''adapter_id'', JString adapter_id),
        (''state'', JString ''unavailable'')]))) (\<lambda>fallback.
     (let fail = (\<lambda>f. failure_with fallback f no_digests 0) in
      ebind
       (if cc_catalog_digest c \<noteq> su_expected_catalog_digest env then fail Capability_Ambiguity
        else if su_adapter_source_digest env \<noteq> su_expected_adapter_source_digest env
          \<or> su_core_contract_digest env \<noteq> su_expected_core_contract_digest env
        then fail Adapter_Identity_Mismatch
        else case su_verification env of
          Artifact_Error f \<Rightarrow> fail (if f = Artifact_Mismatch then Artifact_Identity_Mismatch
            else Backend_Unavailable)
        | Verification_Raised e \<Rightarrow>
            (if e = Interrupt then Inl Interrupt
             else if e = Core_Error ValueError then fail Capability_Ambiguity
             else fail Backend_Unavailable)
        | Verified i \<Rightarrow>
            if ai_adapter_version i \<noteq> expected_artifact_adapter \<or> ai_features i \<noteq> engine_features
            then fail Artifact_Identity_Mismatch
            else (case su_import env of
              Inl e \<Rightarrow> if e = Interrupt then Inl Interrupt else fail Adapter_Identity_Mismatch
            | Inr None \<Rightarrow> fail Adapter_Identity_Mismatch
            | Inr (Some native) \<Rightarrow> Inr (i, native)))
       (\<lambda>(i, native).
         ebind (of_core (backend_digest manifest (su_adapter_source_digest env)
           (su_core_contract_digest env) i)) (\<lambda>digest.
           Inr \<lparr>md_native = native, md_catalog = c, md_artifact_identity = i,
             md_backend_identity_digest = digest, md_backend_health = Healthy\<rparr>))))"

section \<open>Native calls\<close>

definition state_from_string :: "string \<Rightarrow> ('n, 'n) engine_method" where
  "state_from_string text = (\<lambda>s. case ne_from_string (md_native s) text of
     Inr st \<Rightarrow> (Inr st, s)
   | Inl Native_Interrupted \<Rightarrow> (Inl Interrupt, s)
   | Inl Native_Raised \<Rightarrow> mbind mark_unhealthy (\<lambda>_. raise_failure Malformed_Native_Result no_digests 0) s)"

definition texts_of :: "native_value \<Rightarrow> string list option" where
  "texts_of v = (case v of
     Native_List vs \<Rightarrow> those (map (\<lambda>x. case x of Native_Text t \<Rightarrow> Some t | _ \<Rightarrow> None) vs)
   | _ \<Rightarrow> None)"

definition legal_choice_values :: "'n \<Rightarrow> ('n, string list \<times> string list) engine_method" where
  "legal_choice_values st = (\<lambda>s. case ne_legal_choices (md_native s) st of
     Inl Native_Interrupted \<Rightarrow> (Inl Interrupt, s)
   | Inl Native_Raised \<Rightarrow> mbind mark_unhealthy (\<lambda>_. raise_failure Native_Exception no_digests 0) s
   | Inr v \<Rightarrow>
       (case v of
          Native_Tuple [one, two] \<Rightarrow>
            (case (texts_of one, texts_of two) of
               (Some a, Some b) \<Rightarrow> (Inr (a, b), s)
             | _ \<Rightarrow> raise_failure Malformed_Native_Result no_digests 0 s)
        | _ \<Rightarrow> raise_failure Malformed_Native_Result no_digests 0 s))"

section \<open>Worlds\<close>

record poke_world =
  po_native_state :: string
  po_observed_state_digest :: string
  po_root_player :: string
  po_view_digests :: "string \<times> string"
  po_active_indexes :: "int \<times> int"
  po_active_types :: "string list \<times> string list"
  po_terastallized :: "bool \<times> bool"
  po_terminal_outcome :: "terminal_outcome option"
  po_public_hp :: "public_hp \<times> public_hp"
  po_root_bindings :: "action_binding list"
  po_required_capabilities :: "capability_id list"
  po_report :: mapping_report
  po_ply :: int

type_synonym engine_world = "poke_world prepared_world"

text \<open>A \<open>_PokeEngineWorld\<close> is a frozen dataclass of atoms, tuples and frozen dataclasses: its payload
  check passes.\<close>

definition make_world ::
    "poke_world \<Rightarrow> root_identity \<Rightarrow> search_action list \<Rightarrow> capability_id list \<Rightarrow> py_exc + engine_world" where
  "make_world payload ident actions capabilities =
     (let w = \<lparr>pw_opaque = payload, pw_root_identity = ident, pw_root_actions = actions,
        pw_required_capabilities = capabilities\<rparr>
      in ebind (check_world (\<lambda>_. Inr ()) w) (\<lambda>_. Inr w))"

text \<open>The handlers at the end of \<open>_prepare_battle_root_impl\<close>.\<close>

definition root_handler :: "report_digests \<Rightarrow> engine_exc \<Rightarrow> ('n, 'a) engine_method" where
  "root_handler digests e = (case e of
     Failure _ _ _ \<Rightarrow> mreturn (Inl e)
   | Mapping_Error f \<Rightarrow> raise_failure f digests 0
   | Interrupt \<Rightarrow> mreturn (Inl Interrupt)
   | _ \<Rightarrow> if is_value_or_type e then raise_failure Unsupported_Mapping digests 0
       else mbind mark_unhealthy (\<lambda>_. raise_failure Native_Exception digests 0))"

definition prepare_root ::
    "poke_world \<Rightarrow> root_identity \<Rightarrow> search_action list \<Rightarrow> ('n, engine_world) engine_method" where
  "prepare_root world ident actions = (\<lambda>s.
     if rt_backend_identity_digest ident \<noteq> md_backend_identity_digest s
        \<or> rt_capability_catalog_digest ident \<noteq> cc_catalog_digest (md_catalog s) then
       raise_failure Adapter_Identity_Mismatch no_digests 0 s
     else if map ab_action (po_root_bindings world) \<noteq> actions then
       raise_failure Safe_Submission_Mismatch no_digests 0 s
     else case make_world world ident actions (po_required_capabilities world) of
       Inr w \<Rightarrow> (Inr w, s)
     | Inl _ \<Rightarrow> raise_failure Unsupported_Mapping no_digests 0 s)"

text \<open>All capabilities of the catalog: the preflight does not look at the state.\<close>

definition preflight_capabilities :: "capability_catalog \<Rightarrow> py_exc + capability_id list" where
  "preflight_capabilities c =
     ebind (emap (id_for c) (definition_values c)) canonical_capabilities"

text \<open>The comparison of a given root identity with the expected one, in the order of the code.\<close>

definition root_mismatch :: "root_identity \<Rightarrow> root_identity \<Rightarrow> mapping_failure option" where
  "root_mismatch given expected =
     (if rt_request_identity_digest given \<noteq> rt_request_identity_digest expected then Some Request_Identity_Mismatch
      else if rt_safe_submission_set_digest given \<noteq> rt_safe_submission_set_digest expected
        \<or> rt_observed_state_digest given \<noteq> rt_observed_state_digest expected
        \<or> rt_root_player given \<noteq> rt_root_player expected
        \<or> rt_ruleset_digest given \<noteq> rt_ruleset_digest expected then Some Safe_Submission_Mismatch
      else if rt_backend_identity_digest given \<noteq> rt_backend_identity_digest expected then Some Adapter_Identity_Mismatch
      else if rt_capability_catalog_digest given \<noteq> rt_capability_catalog_digest expected
      then Some Capability_Ambiguity else None)"

definition prepare_mapped_root ::
    "digest_fn \<Rightarrow> observed_root \<Rightarrow> mapped_state \<Rightarrow> safe_submission_set \<Rightarrow> report_digests
     \<Rightarrow> root_identity \<Rightarrow> ('n, engine_world) engine_method" where
  "prepare_mapped_root manifest observed mapped safe digests ident = (\<lambda>s.
     mbind (state_from_string (ms_native_state mapped)) (\<lambda>st.
     mbind (legal_choice_values st) (\<lambda>choices.
     (let player = ro_root_player observed; native_side = side_of (ne_view (md_native s) st) player;
          own_choices = (if player = ''p1'' then fst choices else snd choices);
          team_ids = map (lower \<circ> np_id) (nd_pokemon native_side)
      in
      mbind (mreturn (active_pokemon native_side)) (\<lambda>active.
      mbind (mreturn (map_root_actions manifest safe ident own_choices team_ids
          (map (lower \<circ> nm_id) (np_moves active)) (nd_force_switch native_side) (md_catalog s))) (\<lambda>bindings.
      if set (map ab_native_choice bindings) \<noteq> set own_choices then
        raise_failure Safe_Submission_Mismatch digests 0
      else
        mbind (mreturn (of_core (preflight_capabilities (md_catalog s)))) (\<lambda>requirements.
        mbind (success_report Report_Mapped digests requirements 0) (\<lambda>report.
          prepare_root
            \<lparr>po_native_state = ms_native_state mapped, po_observed_state_digest = ro_digest observed,
             po_root_player = player, po_view_digests = ms_view_digests mapped,
             po_active_indexes = ms_active_indexes mapped, po_active_types = ms_active_types mapped,
             po_terastallized = ms_terastallized mapped,
             po_terminal_outcome = ms_terminal_outcome mapped, po_public_hp = ms_public_hp mapped,
             po_root_bindings = bindings, po_required_capabilities = requirements,
             po_report = report, po_ply = 0\<rparr> ident (map ab_action bindings)))))))) s)"

definition prepare_battle_root ::
    "digest_fn \<Rightarrow> (string \<Rightarrow> int option) \<Rightarrow> observed_state \<Rightarrow> safe_submission_set \<Rightarrow> json \<Rightarrow> string
     \<Rightarrow> root_identity option \<Rightarrow> ('n, engine_world) engine_method" where
  "prepare_battle_root manifest float_integer observed_state safe complete_world ruleset given = (\<lambda>s.
     mbind (mcatch (mreturn (map_observed_root manifest observed_state)) (root_handler no_digests)) (\<lambda>observed.
     (let seen = Some (ro_digest observed) in
      mbind (mcatch (mreturn (of_core (request_identity_digest manifest (ss_request_identity safe))))
        (root_handler (seen, None, None))) (\<lambda>request.
      mbind (mcatch (mreturn (of_core (safe_submission_set_digest manifest safe)))
        (root_handler (seen, Some request, None))) (\<lambda>safe_digest.
      (let digests = (seen, Some request, Some safe_digest) in
       mcatch
        (mbind (mreturn (map_complete_world manifest float_integer (md_native s) complete_world
            (ro_digest observed) (ro_public_hp observed))) (\<lambda>mapped.
         mbind (mreturn (of_core (create_root manifest request safe_digest (ro_digest observed)
            (ro_root_player observed) ruleset (md_backend_identity_digest s)
            (cc_catalog_digest (md_catalog s))))) (\<lambda>expected.
         (case given of
            None \<Rightarrow> prepare_mapped_root manifest observed mapped safe digests expected
          | Some ident \<Rightarrow>
              (case root_mismatch ident expected of
                 Some f \<Rightarrow> raise_failure f digests 0
               | None \<Rightarrow> prepare_mapped_root manifest observed mapped safe digests ident)))))
        (root_handler digests)))))) s)"

section \<open>Views and actions\<close>

definition player_index :: "digest_fn \<Rightarrow> string \<Rightarrow> engine_exc + nat" where
  "player_index manifest player =
     (if player = ''p1'' then Inr 0 else if player = ''p2'' then Inr 1
      else ebind (of_core (manifest (JObject [(''adapter_id'', JString adapter_id)]))) (\<lambda>backend.
        failure_with backend Inconsistent_Player_View no_digests 0))"

definition player_view :: "digest_fn \<Rightarrow> engine_world \<Rightarrow> string \<Rightarrow> ('n, player_view_value) engine_method" where
  "player_view manifest w player =
     mbind (mreturn (player_index manifest player)) (\<lambda>_.
     (let v = \<lparr>vw_player = player, vw_view_digest = pick player (po_view_digests (pw_opaque w))\<rparr> in
      case check_view v of
        Inr _ \<Rightarrow> mreturn (Inr v)
      | Inl _ \<Rightarrow> raise_failure Inconsistent_Player_View no_digests 0))"

definition information_state_key :: "digest_fn \<Rightarrow> player_view_value \<Rightarrow> py_exc + information_key" where
  "information_state_key manifest v =
     ebind (manifest (JObject [(''player'', JString (vw_player v)),
        (''view_digest'', JString (vw_view_digest v))])) (\<lambda>digest.
     (let k = \<lparr>ik_player = vw_player v, ik_information_state_digest = digest\<rparr>
      in ebind (check_information_key k) (\<lambda>_. Inr k)))"

definition native_bindings ::
    "digest_fn \<Rightarrow> string \<Rightarrow> 'n \<Rightarrow> string list \<times> string list \<Rightarrow> ('n, action_binding list) engine_method" where
  "native_bindings manifest player st choices = (\<lambda>s.
     case map_native_actions manifest (pick player choices)
         (nd_force_switch (side_of (ne_view (md_native s) st) player)) (md_catalog s) of
       Inl (Mapping_Error f) \<Rightarrow> raise_failure f no_digests 0 s
     | r \<Rightarrow> (r, s))"

definition deep_bindings :: "digest_fn \<Rightarrow> engine_world \<Rightarrow> string \<Rightarrow> ('n, action_binding list) engine_method" where
  "deep_bindings manifest w player =
     mbind (state_from_string (po_native_state (pw_opaque w))) (\<lambda>st.
     mbind (legal_choice_values st) (\<lambda>choices. native_bindings manifest player st choices))"

definition at_root :: "engine_world \<Rightarrow> string \<Rightarrow> bool" where
  "at_root w player \<longleftrightarrow> po_ply (pw_opaque w) = 0 \<and> player = po_root_player (pw_opaque w)"

definition legal_actions :: "digest_fn \<Rightarrow> engine_world \<Rightarrow> string \<Rightarrow> ('n, search_action list) engine_method" where
  "legal_actions manifest w player =
     mbind (mreturn (player_index manifest player)) (\<lambda>_.
      if at_root w player then mreturn (Inr (pw_root_actions w))
      else mbind (deep_bindings manifest w player) (\<lambda>bs. mreturn (Inr (map ab_action bs))))"

definition bindings_of ::
    "digest_fn \<Rightarrow> engine_world \<Rightarrow> string \<Rightarrow> 'n \<Rightarrow> string list \<times> string list
     \<Rightarrow> ('n, action_binding list) engine_method" where
  "bindings_of manifest w player st choices =
     (if at_root w player then mreturn (Inr (po_root_bindings (pw_opaque w)))
      else native_bindings manifest player st choices)"

definition root_submission :: "engine_world \<Rightarrow> search_action \<Rightarrow> ('n, battle_submission) engine_method" where
  "root_submission w action =
     (case binding_for_action (po_root_bindings (pw_opaque w)) action of
        Inl _ \<Rightarrow> raise_failure Safe_Submission_Mismatch no_digests 0
      | Inr b \<Rightarrow>
          (case ab_submission b of
             None \<Rightarrow> raise_failure Safe_Submission_Mismatch no_digests 0
           | Some submission \<Rightarrow> mreturn (Inr submission)))"

definition world_is_terminal :: "engine_world \<Rightarrow> bool" where
  "world_is_terminal w \<longleftrightarrow> po_terminal_outcome (pw_opaque w) \<noteq> None"

definition terminal_value :: "digest_fn \<Rightarrow> engine_world \<Rightarrow> string \<Rightarrow> engine_exc + int option" where
  "terminal_value manifest w player =
     ebind (player_index manifest player) (\<lambda>_.
       Inr (case po_terminal_outcome (pw_opaque w) of
          None \<Rightarrow> None
        | Some Tied \<Rightarrow> Some 0
        | Some Won_P1 \<Rightarrow> Some (if player = ''p1'' then 1 else -1)
        | Some Won_P2 \<Rightarrow> Some (if player = ''p2'' then 1 else -1)))"

text \<open>The methods \<open>safe_submissions_from_document\<close>, \<open>mapping_report\<close> and \<open>required_capabilities\<close>.\<close>

definition model_safe_submissions ::
    "(string \<Rightarrow> int option) \<Rightarrow> json \<Rightarrow> ('n, safe_submission_set) engine_method" where
  "model_safe_submissions float_integer document = (\<lambda>s.
     case safe_submissions_from_document float_integer document of
       Inl (Mapping_Error f) \<Rightarrow> raise_failure f no_digests 0 s
     | r \<Rightarrow> (r, s))"

definition world_report :: "engine_world \<Rightarrow> mapping_report" where
  "world_report w = po_report (pw_opaque w)"

definition world_requirements :: "engine_world \<Rightarrow> py_exc + capability_id list" where
  "world_requirements w =
     ebind (check_required (pw_required_capabilities w)) (\<lambda>_. Inr (pw_required_capabilities w))"

section \<open>Chance\<close>

text \<open>
  \<open>Decimal\<close> in the default context: \<open>m * 10 ^ e\<close>, sums rounded half to even to 28 digits.
\<close>

type_synonym py_decimal = "int \<times> int"

function digit_count :: "int \<Rightarrow> nat" where
  "digit_count n = (if n \<le> 0 then 0 else Suc (digit_count (n div 10)))"
  by auto
termination
  by (relation "measure nat") auto

declare digit_count.simps [simp del]

definition decimal_round :: "int \<Rightarrow> int \<Rightarrow> py_decimal" where
  "decimal_round m e =
     (let k = digit_count \<bar>m\<bar> - 28 in (half_even_div m (10 ^ k), e + int k))"

definition scaled_to :: "int \<Rightarrow> py_decimal \<Rightarrow> int" where
  "scaled_to e x = fst x * 10 ^ nat (snd x - e)"

definition decimal_add :: "py_decimal \<Rightarrow> py_decimal \<Rightarrow> py_decimal" where
  "decimal_add x y = (let e = min (snd x) (snd y) in decimal_round (scaled_to e x + scaled_to e y) e)"

definition decimal_sum :: "py_decimal list \<Rightarrow> py_decimal" where
  "decimal_sum xs = foldl decimal_add (0, 0) xs"

text \<open>\<open>abs(total - Decimal(100)) > Decimal("0.0001")\<close>.\<close>

definition off_hundred :: "py_decimal \<Rightarrow> bool" where
  "off_hundred mass =
     (let d = decimal_add mass (-100, 0); e = min (snd d) (-4)
      in scaled_to e (1, -4) < \<bar>scaled_to e d\<bar>)"

definition rat_of_decimal :: "py_decimal \<Rightarrow> rat" where
  "rat_of_decimal x =
     (if 0 \<le> snd x then of_int (fst x * 10 ^ nat (snd x)) else Fract (fst x) (10 ^ nat (- snd x)))"

text \<open>A percentage that is a positive finite number; \<open>float(n)\<close> overflows from \<open>2 ^ 1024 - 2 ^ 970\<close> on.\<close>

definition decimal_of_percentage :: "native_percentage \<Rightarrow> py_decimal option" where
  "decimal_of_percentage p = (case p of
     Pct_Int n \<Rightarrow> if 0 < n \<and> n < 2 ^ 1024 - 2 ^ 970 then Some (n, 0) else None
   | Pct_Float m e \<Rightarrow> if 0 < m then Some (m, e) else None
   | _ \<Rightarrow> None)"

definition chance_weight :: "rat \<Rightarrow> (string \<times> (mapped_state \<times> rat)) list \<Rightarrow> mapped_state
    \<Rightarrow> (string \<times> (mapped_state \<times> rat)) list" where
  "chance_weight weight by_state mapped =
     AList.update (ms_native_state mapped)
       (mapped, case map_of by_state (ms_native_state mapped) of None \<Rightarrow> weight | Some p \<Rightarrow> snd p + weight)
       by_state"

definition apply_instruction :: "'n \<Rightarrow> 'n \<Rightarrow> ('n, 'n) engine_method" where
  "apply_instruction st instruction = (\<lambda>s. case ne_apply_instructions (md_native s) st instruction of
     Inr st' \<Rightarrow> (Inr st', s)
   | Inl Native_Interrupted \<Rightarrow> (Inl Interrupt, s)
   | Inl Native_Raised \<Rightarrow> mbind mark_unhealthy (\<lambda>_. raise_failure Native_Exception no_digests 1) s)"

fun weigh_instructions ::
    "digest_fn \<Rightarrow> 'n \<Rightarrow> engine_world \<Rightarrow> (string \<times> (mapped_state \<times> rat)) list \<Rightarrow> 'n list
     \<Rightarrow> ('n, (string \<times> (mapped_state \<times> rat)) list) engine_method" where
  "weigh_instructions manifest st w by_state [] = mreturn (Inr by_state)"
| "weigh_instructions manifest st w by_state (i # is) = (\<lambda>s.
     (case decimal_of_percentage (ne_percentage (md_native s) i) of
        None \<Rightarrow> raise_failure Chance_Normalization_Failure no_digests 1
      | Some d \<Rightarrow>
          mbind (apply_instruction st i) (\<lambda>st'.
          mbind (mreturn (map_native_state manifest (md_native s) st'
             (po_observed_state_digest (pw_opaque w)) (Some (po_view_digests (pw_opaque w), st))
             (po_public_hp (pw_opaque w)))) (\<lambda>mapped.
            weigh_instructions manifest st w (chance_weight (rat_of_decimal d) by_state mapped) is))) s)"

definition normalize_weights ::
    "(string \<times> (mapped_state \<times> rat)) list \<Rightarrow> ('n, (mapped_state \<times> rat) list) engine_method" where
  "normalize_weights by_state =
     (let mass = sum_list (map (snd \<circ> snd) by_state) in
      if mass \<le> 0 then raise_failure Chance_Normalization_Failure no_digests 1
      else mreturn (Inr (sort_key (ms_native_state \<circ> fst)
        (map (\<lambda>(_, mapped, weight). (mapped, weight / mass)) by_state))))"

definition mapped_successors ::
    "digest_fn \<Rightarrow> 'n \<Rightarrow> engine_world \<Rightarrow> 'n list option \<Rightarrow> ('n, (mapped_state \<times> rat) list) engine_method" where
  "mapped_successors manifest st w instructions = (\<lambda>s.
     (case instructions of
        Some (i # is) \<Rightarrow>
          (case those (map (decimal_of_percentage \<circ> ne_percentage (md_native s)) (i # is)) of
             None \<Rightarrow> raise_failure Chance_Normalization_Failure no_digests 1
           | Some percentages \<Rightarrow>
               if off_hundred (decimal_sum percentages) then
                 raise_failure Chance_Normalization_Failure no_digests 1
               else mbind (weigh_instructions manifest st w [] (i # is)) normalize_weights)
      | _ \<Rightarrow> raise_failure Malformed_Native_Result no_digests 1) s)"

section \<open>Transitions\<close>

definition denominator_of :: "rat \<Rightarrow> int" where
  "denominator_of q = snd (quotient_of q)"

definition numerator_of :: "rat \<Rightarrow> int" where
  "numerator_of q = fst (quotient_of q)"

definition common_denominator :: "(mapped_state \<times> rat) list \<Rightarrow> int" where
  "common_denominator weights = foldl lcm 1 (map (denominator_of \<circ> snd) weights)"

text \<open>\<open>_transition_capabilities\<close>: what two actions need, by their kinds and capabilities.\<close>

definition transition_capability_names :: "search_action \<Rightarrow> search_action \<Rightarrow> string list" where
  "transition_capability_names a b =
     [''gen9.transition.terminal.detection'', ''gen9.transition.terminal.value'']
     @ (if sa_kind a = ''move'' \<or> sa_kind b = ''move'' then
          [''gen9.transition.chance.damage-roll'', ''gen9.transition.move.direct-damage'',
           ''gen9.transition.order.priority'', ''gen9.transition.order.speed''] else [])
     @ (if sa_kind a = ''switch'' \<or> sa_kind b = ''switch'' then
          [''gen9.transition.switch.active-slot'', ''gen9.transition.order.speed''] else [])
     @ (if list_ex (\<lambda>c. ci_value c = ''gen9.legality.terastallization.activation'')
            (sa_required_capabilities a @ sa_required_capabilities b) then
          [''gen9.transition.terastallization.damage'', ''gen9.transition.terastallization.type-change'']
        else [])"

definition transition_capabilities ::
    "capability_catalog \<Rightarrow> search_action \<Rightarrow> search_action \<Rightarrow> py_exc + capability_id list" where
  "transition_capabilities c a b =
     ebind (emap (id_for c) (transition_capability_names a b)) canonical_capabilities"

definition successor_of ::
    "digest_fn \<Rightarrow> (string \<Rightarrow> string) \<Rightarrow> engine_world \<Rightarrow> capability_id list \<Rightarrow> int
     \<Rightarrow> mapped_state \<times> rat \<Rightarrow> ('n, poke_world transition_successor) engine_method" where
  "successor_of manifest sha source capabilities denominator = (\<lambda>(mapped, weight).
     (let origin = pw_opaque source in
      mbind (success_report Report_Transitioned
        (Some (po_observed_state_digest origin), mr_request_identity_digest (po_report origin),
         mr_safe_submission_set_digest (po_report origin)) capabilities 1) (\<lambda>report.
      mbind (mreturn (of_core (canonical_capabilities (pw_required_capabilities source @ capabilities)))) (\<lambda>requirements.
      (let payload = \<lparr>po_native_state = ms_native_state mapped,
           po_observed_state_digest = po_observed_state_digest origin,
           po_root_player = po_root_player origin, po_view_digests = ms_view_digests mapped,
           po_active_indexes = ms_active_indexes mapped, po_active_types = ms_active_types mapped,
           po_terastallized = ms_terastallized mapped,
           po_terminal_outcome = ms_terminal_outcome mapped, po_public_hp = ms_public_hp mapped,
           po_root_bindings = po_root_bindings origin, po_required_capabilities = requirements,
           po_report = report, po_ply = po_ply origin + 1\<rparr>
       in
       mbind (mreturn (of_core (make_world payload (pw_root_identity source) (pw_root_actions source)
          requirements))) (\<lambda>prepared.
       mbind (mreturn (of_core (manifest (JObject
          [(''native_state_digest'', JString (''sha256:'' @ sha (ms_native_state mapped))),
           (''ply'', JInt (po_ply payload))])))) (\<lambda>outcome_id.
       (let successor = \<lparr>ts_outcome_id = outcome_id, ts_world = prepared,
            ts_probability_numerator = numerator_of weight * (denominator div denominator_of weight)\<rparr>
        in mbind (mreturn (of_core (check_successor successor))) (\<lambda>_. mreturn (Inr successor)))))))))) "

definition successors_of ::
    "digest_fn \<Rightarrow> (string \<Rightarrow> string) \<Rightarrow> engine_world \<Rightarrow> capability_id list \<Rightarrow> (mapped_state \<times> rat) list
     \<Rightarrow> ('n, poke_world transition_successor list) engine_method" where
  "successors_of manifest sha source capabilities weights =
     mbind (mmap (successor_of manifest sha source capabilities (common_denominator weights)) weights)
       (\<lambda>result. mreturn (Inr (sort_key ts_outcome_id result)))"

definition make_outcome ::
    "poke_world transition_successor list \<Rightarrow> capability_id list \<Rightarrow> py_exc + poke_world transition_outcome" where
  "make_outcome successors capabilities =
     (let t = \<lparr>to_successors = successors,
        to_probability_denominator = sum_list (map ts_probability_numerator successors), to_work = 1,
        to_required_capabilities = capabilities\<rparr>
      in ebind (check_outcome_value t) (\<lambda>_. Inr t))"

text \<open>The handlers of \<open>_transition_impl\<close> after the choice of the two actions.\<close>

definition transition_handler :: "engine_exc \<Rightarrow> ('n, 'a) engine_method" where
  "transition_handler e = (case e of
     Failure _ _ _ \<Rightarrow> mreturn (Inl e)
   | Mapping_Error f \<Rightarrow> raise_failure f no_digests 1
   | Interrupt \<Rightarrow> mreturn (Inl Interrupt)
   | _ \<Rightarrow> if is_value_or_type e \<or> e = Arithmetic_Error then raise_failure Chance_Normalization_Failure no_digests 1
       else mbind mark_unhealthy (\<lambda>_. raise_failure Malformed_Native_Result no_digests 1))"

definition choose_bindings ::
    "digest_fn \<Rightarrow> engine_world \<Rightarrow> 'n \<Rightarrow> search_action \<Rightarrow> search_action
     \<Rightarrow> ('n, action_binding \<times> action_binding) engine_method" where
  "choose_bindings manifest w st a b =
     mbind (legal_choice_values st) (\<lambda>choices.
     mbind (bindings_of manifest w ''p1'' st choices) (\<lambda>ones.
     mbind (mreturn (binding_for_action ones a)) (\<lambda>one.
     mbind (bindings_of manifest w ''p2'' st choices) (\<lambda>twos.
     mbind (mreturn (binding_for_action twos b)) (\<lambda>two. mreturn (Inr (one, two)))))))"

definition generate_instructions :: "'n \<Rightarrow> string \<Rightarrow> string \<Rightarrow> ('n, 'n list option) engine_method" where
  "generate_instructions st one two = (\<lambda>s. case ne_generate_instructions (md_native s) st one two of
     Inr r \<Rightarrow> (Inr r, s)
   | Inl Native_Interrupted \<Rightarrow> (Inl Interrupt, s)
   | Inl Native_Raised \<Rightarrow> mbind mark_unhealthy (\<lambda>_. raise_failure Native_Exception no_digests 1) s)"

definition transition ::
    "digest_fn \<Rightarrow> (string \<Rightarrow> string) \<Rightarrow> engine_world \<Rightarrow> search_action \<Rightarrow> search_action
     \<Rightarrow> ('n, poke_world transition_outcome) engine_method" where
  "transition manifest sha w a b = (\<lambda>s.
     mbind (state_from_string (po_native_state (pw_opaque w))) (\<lambda>st.
     mbind (mcatch (choose_bindings manifest w st a b)
       (\<lambda>e. case e of Mapping_Error _ \<Rightarrow> raise_failure Invalid_Joint_Action no_digests 0
          | _ \<Rightarrow> mreturn (Inl e))) (\<lambda>(one, two).
     mbind (generate_instructions st (ab_native_choice one) (ab_native_choice two)) (\<lambda>instructions.
       mcatch
        (mbind (mapped_successors manifest st w instructions) (\<lambda>weights.
         mbind (mreturn (of_core (transition_capabilities (md_catalog s) a b))) (\<lambda>capabilities.
         mbind (successors_of manifest sha w capabilities weights) (\<lambda>successors.
          (case ebind (make_outcome successors capabilities) (\<lambda>t.
              ebind (validate_against_source t w) (\<lambda>_. Inr t)) of
             Inr t \<Rightarrow> mreturn (Inr t)
           | Inl _ \<Rightarrow> raise_failure Work_Accounting_Inconsistency no_digests 1)))))
        transition_handler))) s)"

end
