(* ===== verification/Engine_Facts.thy ===== *)
theory Engine_Facts
  imports Engine_Model
begin

text \<open>
  What the transition model promises: methods change nothing but the health of the backend and a
  success changes nothing; failures are typed and accounted; a transition keeps the root and gives every
  successor its exact share of the native chance.
\<close>

named_theorems keeps_rules

section \<open>State\<close>

text \<open>A method that succeeds leaves the model as it is; one that fails may mark the backend.\<close>

definition keeps :: "('n, 'a) engine_method \<Rightarrow> bool" where
  "keeps m \<longleftrightarrow> (\<forall>s. case m s of
     (Inr _, s') \<Rightarrow> s' = s | (Inl _, s') \<Rightarrow> s' = s \<or> s' = s\<lparr>md_backend_health := Unhealthy\<rparr>)"

lemma keeps_success: "keeps m \<Longrightarrow> m s = (Inr x, s') \<Longrightarrow> s' = s"
  unfolding keeps_def by (metis (mono_tags, lifting) case_prod_conv sum.case(2))

lemma keeps_failure:
  "keeps m \<Longrightarrow> m s = (Inl e, s') \<Longrightarrow> s' = s \<or> s' = s\<lparr>md_backend_health := Unhealthy\<rparr>"
  unfolding keeps_def by (metis (mono_tags, lifting) case_prod_conv sum.case(1))

lemma keepsI:
  assumes "\<And>s r s'. m s = (r, s') \<Longrightarrow> s' = s \<or> (\<exists>e. r = Inl e) \<and> s' = s\<lparr>md_backend_health := Unhealthy\<rparr>"
  shows "keeps m"
  unfolding keeps_def
proof
  fix s
  obtain r s' where "m s = (r, s')" by (cases "m s")
  with assms [OF this] show "case m s of (Inr _, s') \<Rightarrow> s' = s
      | (Inl _, s') \<Rightarrow> s' = s \<or> s' = s\<lparr>md_backend_health := Unhealthy\<rparr>"
    by (cases r) auto
qed

lemma keeps_reader: "(\<And>s. snd (m s) = s) \<Longrightarrow> keeps m"
  by (rule keepsI) (metis snd_conv)

lemma keeps_return [simp, keeps_rules]: "keeps (mreturn r)"
  by (rule keeps_reader) (simp add: mreturn_def)

lemma keeps_raise [simp, keeps_rules]: "keeps (raise_failure f d w)"
  by (rule keeps_reader) (simp add: raise_failure_def)

lemma keeps_report [simp, keeps_rules]: "keeps (success_report c d cs w)"
  by (rule keeps_reader) (simp add: success_report_def)

lemma keeps_bind [keeps_rules]:
  assumes m: "keeps m" and f: "\<And>x. keeps (f x)"
  shows "keeps (mbind m f)"
proof (rule keepsI)
  fix s r s' assume run: "mbind m f s = (r, s')"
  show "s' = s \<or> (\<exists>e. r = Inl e) \<and> s' = s\<lparr>md_backend_health := Unhealthy\<rparr>"
  proof (cases "m s")
    case (Pair q t)
    show ?thesis
    proof (cases q)
      case (Inl e)
      then show ?thesis using run Pair keeps_failure [OF m] by (auto simp: mbind_def)
    next
      case (Inr x)
      then have "t = s" using Pair keeps_success [OF m] by simp
      then have "f x s = (r, s')" using run Pair Inr by (simp add: mbind_def)
      then show ?thesis using keeps_failure [OF f] keeps_success [OF f] by (cases r) auto
    qed
  qed
qed

text \<open>Marking the backend is followed by a failure.\<close>

lemma failure_with_Inl: "\<exists>e. failure_with b f d w = (Inl e :: engine_exc + 'a)"
  by (auto simp: failure_with_def raise_mapping_failure_def ebind_def split: sum.splits)

lemma marked_failure:
  assumes "mbind mark_unhealthy (\<lambda>_. raise_failure f d w) s = (r, s')"
  shows "(\<exists>e. r = Inl e) \<and> s' = s\<lparr>md_backend_health := Unhealthy\<rparr>"
  using assms failure_with_Inl [of "md_backend_identity_digest s" f d w]
  by (auto simp: mbind_def mark_unhealthy_def raise_failure_def)

lemma raised_failure:
  assumes "raise_failure f d w s = (r, s')"
  shows "(\<exists>e. r = Inl e) \<and> s' = s"
  using assms failure_with_Inl [of "md_backend_identity_digest s" f d w]
  by (auto simp: raise_failure_def)

lemma keeps_marked [keeps_rules]: "keeps (mbind mark_unhealthy (\<lambda>_. raise_failure f d w))"
  by (rule keepsI) (use marked_failure in blast)

lemma keeps_catch [keeps_rules]:
  assumes m: "keeps m" and h: "\<And>e. keeps (h e)"
    and fails: "\<And>e s. \<exists>e' s'. h e s = (Inl e', s')"
  shows "keeps (mcatch m h)"
proof (rule keepsI)
  fix s r s' assume run: "mcatch m h s = (r, s')"
  show "s' = s \<or> (\<exists>e. r = Inl e) \<and> s' = s\<lparr>md_backend_health := Unhealthy\<rparr>"
  proof (cases "m s")
    case (Pair q t)
    show ?thesis
    proof (cases q)
      case (Inl e)
      then have t: "t = s \<or> t = s\<lparr>md_backend_health := Unhealthy\<rparr>" using Pair keeps_failure [OF m] by simp
      have rt: "h e t = (r, s')" using run Pair Inl by (simp add: mcatch_def)
      then obtain e' where r: "r = Inl e'" using fails [of e t] by auto
      then have "s' = t \<or> s' = t\<lparr>md_backend_health := Unhealthy\<rparr>" using rt keeps_failure [OF h] by simp
      then show ?thesis using t r by (cases s) auto
    next
      case (Inr x)
      then have "t = s" using Pair keeps_success [OF m] by simp
      then show ?thesis using run Pair Inr by (simp add: mcatch_def)
    qed
  qed
qed

lemma keeps_at: "(\<And>s. keeps (m s)) \<Longrightarrow> keeps (\<lambda>s. m s s)"
  by (rule keepsI) (metis keeps_failure keeps_success old.sum.exhaust)

lemma keeps_map [keeps_rules]: "(\<And>x. keeps (f x)) \<Longrightarrow> keeps (mmap f xs)"
  by (induction xs) (auto intro!: keeps_rules)

section \<open>The methods\<close>

lemma keeps_from_string [keeps_rules]: "keeps (state_from_string text)"
proof (rule keepsI)
  fix s r s' assume run: "state_from_string text s = (r, s')"
  show "s' = s \<or> (\<exists>e. r = Inl e) \<and> s' = s\<lparr>md_backend_health := Unhealthy\<rparr>"
    using run
    by (auto simp: state_from_string_def dest: marked_failure split: sum.splits native_exc.splits)
qed

lemma keeps_generate [keeps_rules]: "keeps (generate_instructions st a b)"
proof (rule keepsI)
  fix s r s' assume run: "generate_instructions st a b s = (r, s')"
  show "s' = s \<or> (\<exists>e. r = Inl e) \<and> s' = s\<lparr>md_backend_health := Unhealthy\<rparr>"
    using run
    by (auto simp: generate_instructions_def dest: marked_failure split: sum.splits native_exc.splits)
qed

lemma keeps_apply [keeps_rules]: "keeps (apply_instruction st i)"
proof (rule keepsI)
  fix s r s' assume run: "apply_instruction st i s = (r, s')"
  show "s' = s \<or> (\<exists>e. r = Inl e) \<and> s' = s\<lparr>md_backend_health := Unhealthy\<rparr>"
    using run
    by (auto simp: apply_instruction_def dest: marked_failure split: sum.splits native_exc.splits)
qed

lemma keeps_legal_choices [keeps_rules]: "keeps (legal_choice_values st)"
proof (rule keepsI)
  fix s r s' assume run: "legal_choice_values st s = (r, s')"
  show "s' = s \<or> (\<exists>e. r = Inl e) \<and> s' = s\<lparr>md_backend_health := Unhealthy\<rparr>"
    using run
    by (auto simp: legal_choice_values_def dest: marked_failure raised_failure
        split: sum.splits native_exc.splits native_value.splits list.splits option.splits)
qed

lemma keeps_native_bindings [keeps_rules]: "keeps (native_bindings manifest player st choices)"
  by (rule keeps_reader)
    (auto simp: native_bindings_def raise_failure_def split: sum.splits engine_exc.splits)

lemma keeps_bindings_of [keeps_rules]: "keeps (bindings_of manifest w player st choices)"
  by (auto simp: bindings_of_def intro!: keeps_rules)

lemma keeps_choose [keeps_rules]: "keeps (choose_bindings manifest w st a b)"
  unfolding choose_bindings_def by (intro keeps_rules)

lemma keeps_deep_bindings [keeps_rules]: "keeps (deep_bindings manifest w player)"
  unfolding deep_bindings_def by (intro keeps_rules)

lemma keeps_legal_actions: "keeps (legal_actions manifest w player)"
  unfolding legal_actions_def by (auto intro!: keeps_rules)

lemma keeps_prepare_root [keeps_rules]: "keeps (prepare_root world ident actions)"
  by (rule keeps_reader) (auto simp: prepare_root_def raise_failure_def split: sum.splits)

lemma keeps_weigh [keeps_rules]: "keeps (weigh_instructions manifest st w by_state is)"
proof (induction "is" arbitrary: by_state)
  case (Cons i "is")
  show ?case
    unfolding weigh_instructions.simps
    by (rule keeps_at) (auto intro!: keeps_rules Cons split: option.splits)
qed simp

lemma keeps_normalize [keeps_rules]: "keeps (normalize_weights by_state)"
  by (auto simp: normalize_weights_def Let_def)

lemma keeps_choice: "keeps m \<Longrightarrow> keeps m' \<Longrightarrow> keeps (if b then m else m')"
  "keeps n \<Longrightarrow> (\<And>x. keeps (k x)) \<Longrightarrow> keeps (case v of None \<Rightarrow> n | Some x \<Rightarrow> k x)"
  "keeps e \<Longrightarrow> (\<And>y ys. keeps (c y ys)) \<Longrightarrow> keeps (case l of [] \<Rightarrow> e | y # ys \<Rightarrow> c y ys)"
  by (simp_all split: option.splits list.splits)

lemma keeps_mapped_successors [keeps_rules]: "keeps (mapped_successors manifest st w instructions)"
  unfolding mapped_successors_def by (rule keeps_at) (intro keeps_choice keeps_rules)

lemma keeps_successor [keeps_rules]: "keeps (successor_of manifest sha w cs d x)"
  by (cases x) (auto simp: successor_of_def Let_def intro!: keeps_rules)

lemma keeps_successors [keeps_rules]: "keeps (successors_of manifest sha w cs weights)"
  unfolding successors_of_def by (intro keeps_rules)

section \<open>Chance\<close>

text \<open>The native state an instruction leads to, as it is mapped, and the weight of the instruction.\<close>

definition instruction_outcome ::
    "digest_fn \<Rightarrow> 'n native_engine \<Rightarrow> 'n \<Rightarrow> engine_world \<Rightarrow> 'n \<Rightarrow> mapped_state \<times> rat \<Rightarrow> bool" where
  "instruction_outcome manifest native st w i p \<longleftrightarrow> (\<exists>st' d.
     ne_apply_instructions native st i = Inr st'
     \<and> decimal_of_percentage (ne_percentage native i) = Some d \<and> snd p = rat_of_decimal d
     \<and> map_native_state manifest native st' (po_observed_state_digest (pw_opaque w))
         (Some (po_view_digests (pw_opaque w), st)) (po_public_hp (pw_opaque w)) = Inr (fst p))"

definition share_of :: "string \<Rightarrow> (mapped_state \<times> rat) list \<Rightarrow> rat" where
  "share_of key pairs = sum_list (map snd (filter (\<lambda>p. ms_native_state (fst p) = key) pairs))"

definition add_outcome :: "(string \<times> (mapped_state \<times> rat)) list \<Rightarrow> mapped_state \<times> rat
    \<Rightarrow> (string \<times> (mapped_state \<times> rat)) list" where
  "add_outcome acc p = chance_weight (snd p) acc (fst p)"

lemma mbind_Inr:
  "mbind m f s = (Inr y, s') \<longleftrightarrow> (\<exists>x t. m s = (Inr x, t) \<and> f x t = (Inr y, s'))"
  by (auto simp: mbind_def split: prod.splits sum.splits)

lemma mreturn_Inr [simp]: "mreturn r s = (Inr y, s') \<longleftrightarrow> r = Inr y \<and> s' = s"
  by (auto simp: mreturn_def)

lemma raise_failure_Inr [simp]: "(raise_failure f d w s = (Inr y, s')) = False"
  using raised_failure by fastforce

lemma marked_Inr [simp]:
  "(mbind mark_unhealthy (\<lambda>_. raise_failure f d w) s = (Inr y, s')) = False"
  using marked_failure by fastforce

lemma apply_instruction_Inr:
  "apply_instruction st i s = (Inr st', s') \<longleftrightarrow> ne_apply_instructions (md_native s) st i = Inr st' \<and> s' = s"
  by (auto simp: apply_instruction_def split: sum.splits native_exc.splits)

lemma weigh_run:
  assumes "weigh_instructions manifest st w acc is s = (Inr res, s')"
  shows "\<exists>pairs. list_all2 (instruction_outcome manifest (md_native s) st w) is pairs
    \<and> res = foldl add_outcome acc pairs"
  using assms
proof (induction "is" arbitrary: acc)
  case Nil
  then show ?case by simp
next
  case (Cons i "is")
  from Cons.prems obtain d st' mapped where
    1: "decimal_of_percentage (ne_percentage (md_native s) i) = Some d"
      "ne_apply_instructions (md_native s) st i = Inr st'"
      "map_native_state manifest (md_native s) st' (po_observed_state_digest (pw_opaque w))
         (Some (po_view_digests (pw_opaque w), st)) (po_public_hp (pw_opaque w)) = Inr mapped" and
    2: "weigh_instructions manifest st w (chance_weight (rat_of_decimal d) acc mapped) is s = (Inr res, s')"
    by (auto simp: mbind_Inr apply_instruction_Inr split: option.splits)
  from Cons.IH [OF 2] obtain pairs where
    "list_all2 (instruction_outcome manifest (md_native s) st w) is pairs"
    "res = foldl add_outcome (chance_weight (rat_of_decimal d) acc mapped) pairs" by blast
  moreover have "instruction_outcome manifest (md_native s) st w i (mapped, rat_of_decimal d)"
    unfolding instruction_outcome_def fst_conv snd_conv using 1 by blast
  moreover have "chance_weight (rat_of_decimal d) acc mapped = add_outcome acc (mapped, rat_of_decimal d)"
    by (simp add: add_outcome_def)
  ultimately show ?case
    by (intro exI [of _ "(mapped, rat_of_decimal d) # pairs"]) simp
qed

lemma sum_update:
  fixes g :: "'k \<times> 'v \<Rightarrow> rat"
  assumes "distinct (map fst al)"
  shows "sum_list (map g (AList.update k v al)) = sum_list (map g al) + g (k, v)
    - (case map_of al k of None \<Rightarrow> 0 | Some u \<Rightarrow> g (k, u))"
  using assms by (induction al) (auto split: option.splits dest: map_of_SomeD)

lemma weighed_outcomes:
  fixes pairs :: "(mapped_state \<times> rat) list"
  defines "res \<equiv> foldl add_outcome [] pairs"
  shows "distinct (map fst res)"
    and "\<And>k m q. (k, (m, q)) \<in> set res \<Longrightarrow> ms_native_state m = k \<and> q = share_of k pairs \<and> m \<in> fst ` set pairs"
    and "set (map fst res) = set (map (ms_native_state \<circ> fst) pairs)"
    and "sum_list (map (snd \<circ> snd) res) = sum_list (map snd pairs)"
proof -
  have "distinct (map fst (foldl add_outcome [] pairs))
    \<and> (\<forall>k m q. (k, (m, q)) \<in> set (foldl add_outcome [] pairs) \<longrightarrow>
        ms_native_state m = k \<and> q = share_of k pairs \<and> m \<in> fst ` set pairs)
    \<and> set (map fst (foldl add_outcome [] pairs)) = set (map (ms_native_state \<circ> fst) pairs)
    \<and> sum_list (map (snd \<circ> snd) (foldl add_outcome [] pairs)) = sum_list (map snd pairs)"
  proof (induction pairs rule: rev_induct)
    case (snoc p pairs)
    let ?acc = "foldl add_outcome [] pairs" and ?k = "ms_native_state (fst p)"
    let ?new = "(fst p, case map_of ?acc ?k of None \<Rightarrow> snd p | Some u \<Rightarrow> snd u + snd p)"
    have acc: "distinct (map fst ?acc)" using snoc.IH by blast
    have vals: "ms_native_state m = k \<and> q = share_of k pairs \<and> m \<in> fst ` set pairs"
      if "(k, (m, q)) \<in> set ?acc" for k m q using snoc.IH that by blast
    have keys: "set (map fst ?acc) = set (map (ms_native_state \<circ> fst) pairs)" using snoc.IH by blast
    have res: "foldl add_outcome [] (pairs @ [p]) = AList.update ?k ?new ?acc"
      by (simp add: add_outcome_def chance_weight_def)
    have share: "share_of k (pairs @ [p]) = share_of k pairs + (if k = ?k then snd p else 0)" for k
      by (simp add: share_of_def)
    have new: "snd ?new = share_of ?k (pairs @ [p])"
    proof (cases "map_of ?acc ?k")
      case None
      then have "?k \<notin> ms_native_state ` fst ` set pairs"
        using keys by (auto simp: map_of_eq_None_iff image_image)
      then have "filter (\<lambda>p. ms_native_state (fst p) = ?k) pairs = []"
        by (auto simp: filter_empty_conv image_iff)
      then show ?thesis using None by (simp add: share_of_def)
    next
      case (Some u)
      then have "snd u = share_of ?k pairs" using vals map_of_SomeD [OF Some] by (cases u) auto
      then show ?thesis using Some share by simp
    qed
    have mem: "ms_native_state m = k \<and> q = share_of k (pairs @ [p]) \<and> m \<in> fst ` set (pairs @ [p])"
      if "(k, (m, q)) \<in> set (AList.update ?k ?new ?acc)" for k m q
    proof (cases "k = ?k")
      case True
      have "map_of (AList.update ?k ?new ?acc) k = Some (m, q)"
        using that acc by (intro map_of_is_SomeI) (simp_all add: distinct_update)
      moreover have "map_of (AList.update ?k ?new ?acc) k = Some ?new"
        unfolding True by (simp only: update_conv' fun_upd_same)
      ultimately have mq: "(m, q) = ?new" by (metis option.inject)
      then have m: "m = fst p" by (metis fst_conv)
      have "q = share_of ?k (pairs @ [p])" using mq new by (metis snd_conv)
      then show ?thesis using m True by simp
    next
      case False
      have "map_of (AList.update ?k ?new ?acc) k = Some (m, q)"
        using that acc by (intro map_of_is_SomeI) (simp_all add: distinct_update)
      then have "map_of ?acc k = Some (m, q)" using False by (simp add: update_conv')
      then show ?thesis using vals [of k m q] map_of_SomeD share False by fastforce
    qed
    have "sum_list (map (snd \<circ> snd) (AList.update ?k ?new ?acc))
        = sum_list (map (snd \<circ> snd) ?acc) + snd ?new - (case map_of ?acc ?k of None \<Rightarrow> 0 | Some u \<Rightarrow> snd u)"
      using sum_update [OF acc, of "snd \<circ> snd" ?k ?new] by (auto split: option.splits)
    also have "\<dots> = sum_list (map (snd \<circ> snd) ?acc) + snd p" by (simp split: option.splits)
    finally have "sum_list (map (snd \<circ> snd) (AList.update ?k ?new ?acc)) = sum_list (map snd (pairs @ [p]))"
      using snoc.IH by simp
    moreover have "set (map fst (AList.update ?k ?new ?acc)) = set (map (ms_native_state \<circ> fst) (pairs @ [p]))"
      using keys by (simp add: dom_update)
    moreover have "distinct (map fst (AList.update ?k ?new ?acc))" by (rule distinct_update [OF acc])
    moreover have "\<forall>k m q. (k, (m, q)) \<in> set (AList.update ?k ?new ?acc) \<longrightarrow>
        ms_native_state m = k \<and> q = share_of k (pairs @ [p]) \<and> m \<in> fst ` set (pairs @ [p])"
      by (intro allI impI) (rule mem)
    ultimately show ?case unfolding res by (intro conjI) assumption+
  qed simp
  then show "distinct (map fst res)"
    and "\<And>k m q. (k, (m, q)) \<in> set res \<Longrightarrow> ms_native_state m = k \<and> q = share_of k pairs \<and> m \<in> fst ` set pairs"
    and "set (map fst res) = set (map (ms_native_state \<circ> fst) pairs)"
    and "sum_list (map (snd \<circ> snd) res) = sum_list (map snd pairs)"
    unfolding res_def by blast+
qed

section \<open>Exact probabilities\<close>

lemma quotient_value: "of_int (numerator_of q) = q * of_int (denominator_of q)" "0 < denominator_of q"
proof -
  obtain n d where nd: "quotient_of q = (n, d)" by (cases "quotient_of q")
  then have "0 < d" "q = of_int n / of_int d" using quotient_of_denom_pos quotient_of_div by blast+
  then show "of_int (numerator_of q) = q * of_int (denominator_of q)" "0 < denominator_of q"
    using nd by (simp_all add: numerator_of_def denominator_of_def)
qed

lemma foldl_lcm_base: "a dvd foldl lcm a ds" for a :: int
proof (induction ds arbitrary: a)
  case (Cons x ds)
  have "a dvd lcm a x" by simp
  then show ?case using Cons [of "lcm a x"] by (auto intro: dvd_trans)
qed simp

lemma foldl_lcm: "d \<in> set ds \<Longrightarrow> d dvd foldl lcm a ds" for a :: int
proof (induction ds arbitrary: a)
  case (Cons x ds)
  have "x dvd lcm a x" by simp
  then have "x dvd foldl lcm (lcm a x) ds" using foldl_lcm_base dvd_trans by blast
  then show ?case using Cons by auto
qed simp

lemma foldl_lcm_pos: "0 < a \<Longrightarrow> \<forall>d\<in>set ds. 0 < d \<Longrightarrow> 0 < foldl lcm a ds" for a :: int
  by (induction ds arbitrary: a) (auto simp: lcm_pos_int)

lemma common_denominator_facts:
  shows "0 < common_denominator ws" "x \<in> set ws \<Longrightarrow> denominator_of (snd x) dvd common_denominator ws"
  using foldl_lcm_pos [of 1 "map (denominator_of \<circ> snd) ws"] quotient_value(2)
    foldl_lcm [of "denominator_of (snd x)" "map (denominator_of \<circ> snd) ws" 1]
  by (auto simp: common_denominator_def)

text \<open>The numerator over the common denominator is the weight itself.\<close>

lemma scaled_numerator:
  assumes "x \<in> set ws"
  shows "of_int (numerator_of (snd x) * (common_denominator ws div denominator_of (snd x)))
    = snd x * of_int (common_denominator ws)"
proof -
  obtain k where k: "common_denominator ws = denominator_of (snd x) * k"
    using common_denominator_facts(2) [OF assms] by (auto simp: dvd_def)
  have "denominator_of (snd x) \<noteq> 0" using quotient_value(2) [of "snd x"] by simp
  then show ?thesis using k quotient_value(1) [of "snd x"] by simp
qed

section \<open>Normalized weights\<close>

lemma normalize_run:
  assumes "normalize_weights by_state s = (Inr ws, s')"
  shows "0 < sum_list (map (snd \<circ> snd) by_state)" "s' = s"
    "ws = sort_key (ms_native_state \<circ> fst)
       (map (\<lambda>(_, mapped, weight). (mapped, weight / sum_list (map (snd \<circ> snd) by_state))) by_state)"
  using assms by (auto simp: normalize_weights_def Let_def split: if_splits)

lemma sum_list_divide: "sum_list (map (\<lambda>x. f x / c) xs) = sum_list (map f xs) / c" for c :: rat
  by (induction xs) (simp_all add: add_divide_distrib)

lemma sum_list_sort_key:
  fixes f :: "'a \<Rightarrow> 'b::comm_monoid_add"
  shows "sum_list (map f (sort_key k xs)) = sum_list (map f xs)"
proof -
  have "sum_mset (image_mset f (mset (sort_key k xs))) = sum_mset (image_mset f (mset xs))" by simp
  then show ?thesis by (simp only: mset_map [symmetric] sum_mset_sum_list)
qed

lemma mapped_successors_run:
  assumes "mapped_successors manifest st w instructions s = (Inr ws, s')"
  shows "\<exists>is pairs. instructions = Some is \<and> is \<noteq> []
    \<and> list_all2 (instruction_outcome manifest (md_native s) st w) is pairs
    \<and> 0 < sum_list (map snd pairs)
    \<and> (\<forall>(m, q)\<in>set ws. q = share_of (ms_native_state m) pairs / sum_list (map snd pairs) \<and> m \<in> fst ` set pairs)
    \<and> set (map (ms_native_state \<circ> fst) ws) = set (map (ms_native_state \<circ> fst) pairs)
    \<and> sum_list (map snd ws) = 1 \<and> ws \<noteq> []"
proof -
  obtain i is0 by_state t where
    1: "instructions = Some (i # is0)" "weigh_instructions manifest st w [] (i # is0) s = (Inr by_state, t)"
      "normalize_weights by_state t = (Inr ws, s')"
    using assms
    by (auto simp: mapped_successors_def mbind_Inr simp del: weigh_instructions.simps
        split: option.splits list.splits if_splits)
  from weigh_run [OF 1(2)] obtain pairs where
    2: "list_all2 (instruction_outcome manifest (md_native s) st w) (i # is0) pairs"
      "by_state = foldl add_outcome [] pairs" by blast
  let ?T = "sum_list (map snd pairs)"
  note facts = weighed_outcomes [where pairs = pairs, folded 2(2)]
  have T: "0 < ?T" using normalize_run(1) [OF 1(3)] facts(4) by simp
  let ?ws = "map (\<lambda>(_, mapped, weight). (mapped, weight / ?T)) by_state"
  have ws: "ws = sort_key (ms_native_state \<circ> fst) ?ws"
    using normalize_run(3) [OF 1(3)] facts(4) by simp
  have "\<forall>(m, q)\<in>set ws. q = share_of (ms_native_state m) pairs / ?T \<and> m \<in> fst ` set pairs"
    using facts(2) by (fastforce simp: ws)
  moreover have "set (map (ms_native_state \<circ> fst) ws) = set (map fst by_state)"
    using facts(2) by (force simp: ws image_iff)
  moreover have "sum_list (map snd ws) = 1"
  proof -
    have "sum_list (map snd ws) = sum_list (map snd ?ws)"
      by (subst ws) (rule sum_list_sort_key)
    also have "\<dots> = sum_list (map (\<lambda>x. (snd \<circ> snd) x / ?T) by_state)"
      by (simp add: comp_def case_prod_unfold)
    also have "\<dots> = 1" using facts(4) T by (simp only: sum_list_divide) simp
    finally show ?thesis .
  qed
  moreover have "ws \<noteq> []" using \<open>sum_list (map snd ws) = 1\<close> by auto
  ultimately show ?thesis using 1(1) 2(1) T facts(3) by (intro exI [of _ "i # is0"] exI [of _ pairs]) simp
qed

section \<open>Successors\<close>

lemma mmap_run:
  assumes "\<And>x. keeps (f x)" "mmap f xs s = (Inr ys, s')"
  shows "list_all2 (\<lambda>x y. f x s = (Inr y, s)) xs ys"
  using assms(2)
proof (induction xs arbitrary: ys s')
  case (Cons x xs)
  then obtain y t ys0 where 1: "f x s = (Inr y, t)" "mmap f xs t = (Inr ys0, s')" "ys = y # ys0"
    by (auto simp: mbind_Inr)
  have "t = s" by (rule keeps_success [OF assms(1) 1(1)])
  then show ?case using 1 Cons.IH [of ys0 s'] by simp
qed simp

lemma successor_run:
  assumes "successor_of manifest sha w cs d x s = (Inr u, s')"
  shows "ts_probability_numerator u = numerator_of (snd x) * (d div denominator_of (snd x))"
    "po_native_state (pw_opaque (ts_world u)) = ms_native_state (fst x)"
    "po_view_digests (pw_opaque (ts_world u)) = ms_view_digests (fst x)"
    "po_terminal_outcome (pw_opaque (ts_world u)) = ms_terminal_outcome (fst x)"
    "po_public_hp (pw_opaque (ts_world u)) = ms_public_hp (fst x)"
    "po_ply (pw_opaque (ts_world u)) = po_ply (pw_opaque w) + 1"
    "po_root_bindings (pw_opaque (ts_world u)) = po_root_bindings (pw_opaque w)"
    "po_root_player (pw_opaque (ts_world u)) = po_root_player (pw_opaque w)"
    "po_observed_state_digest (pw_opaque (ts_world u)) = po_observed_state_digest (pw_opaque w)"
    "pw_root_identity (ts_world u) = pw_root_identity w" "pw_root_actions (ts_world u) = pw_root_actions w"
    "check_world (\<lambda>_. Inr ()) (ts_world u) = Inr ()" "0 < ts_probability_numerator u"
  using assms
  by (auto simp: successor_of_def Let_def mbind_Inr make_world_def check_successor_def result_simps
      split: prod.splits)

section \<open>A transition\<close>

lemma mcatch_Inr:
  assumes "\<And>e t. fst (h e t) \<noteq> Inr y"
  shows "mcatch m h s = (Inr y, s') \<longleftrightarrow> m s = (Inr y, s')"
proof -
  have "\<And>e t. h e t \<noteq> (Inr y, s')" using assms by (metis fst_conv)
  then show ?thesis by (auto simp: mcatch_def split: prod.splits sum.splits)
qed

lemma handler_fails: "fst (raise_failure f d n t) \<noteq> Inr y" "fst (mreturn (Inl e) t) \<noteq> Inr y"
  "fst (mbind mark_unhealthy (\<lambda>_. raise_failure f d n) t) \<noteq> Inr y"
  using raise_failure_Inr marked_Inr by (metis prod.collapse, simp add: mreturn_def, metis prod.collapse)

lemma transition_handler_fails: "fst (transition_handler e t) \<noteq> Inr y"
  by (auto simp: transition_handler_def handler_fails split: engine_exc.splits)

lemma root_handler_fails: "fst (root_handler d e t) \<noteq> Inr y"
  by (auto simp: root_handler_def handler_fails split: engine_exc.splits)

lemma state_from_string_Inr:
  "state_from_string text s = (Inr st, s') \<longleftrightarrow> ne_from_string (md_native s) text = Inr st \<and> s' = s"
  by (auto simp: state_from_string_def split: sum.splits native_exc.splits)

lemma generate_instructions_Inr:
  "generate_instructions st one two s = (Inr r, s') \<longleftrightarrow>
     ne_generate_instructions (md_native s) st one two = Inr r \<and> s' = s"
  by (auto simp: generate_instructions_def split: sum.splits native_exc.splits)

lemma native_bindings_run:
  assumes "native_bindings manifest player st choices s = (Inr bs, s')"
  shows "map ab_native_choice bs = pick player choices"
proof -
  have "map_native_actions manifest (pick player choices)
      (nd_force_switch (side_of (ne_view (md_native s) st) player)) (md_catalog s) = Inr bs"
    using assms by (auto simp: native_bindings_def split: sum.splits engine_exc.splits)
  then show ?thesis by (rule map_native_actions_ok(1))
qed

text \<open>The two lists of choices of a well-formed result of the engine.\<close>

definition legal_choice_texts :: "'n native_engine \<Rightarrow> 'n \<Rightarrow> (string list \<times> string list) option" where
  "legal_choice_texts native st = (case ne_legal_choices native st of
     Inr (Native_Tuple [one, two]) \<Rightarrow>
       (case (texts_of one, texts_of two) of (Some a, Some b) \<Rightarrow> Some (a, b) | _ \<Rightarrow> None)
   | _ \<Rightarrow> None)"

text \<open>The native choice of a chosen action is a root binding's or one the engine offers.\<close>

definition offered :: "'n native_engine \<Rightarrow> engine_world \<Rightarrow> 'n \<Rightarrow> string \<Rightarrow> search_action \<Rightarrow> string \<Rightarrow> bool" where
  "offered native w st player action choice \<longleftrightarrow>
     (if at_root w player then \<exists>b\<in>set (po_root_bindings (pw_opaque w)). ab_action b = action \<and> ab_native_choice b = choice
      else \<exists>one two. legal_choice_texts native st = Some (one, two) \<and> choice \<in> set (pick player (one, two)))"

lemma legal_choices_run:
  assumes "legal_choice_values st s = (Inr choices, s')"
  shows "legal_choice_texts (md_native s) st = Some choices"
  using assms
  by (auto simp: legal_choice_values_def legal_choice_texts_def
      split: sum.splits native_exc.splits native_value.splits list.splits option.splits)

lemma chosen_binding:
  assumes "bindings_of manifest w player st choices s = (Inr bs, t)" "binding_for_action bs action = Inr b"
    and "legal_choice_texts (md_native s) st = Some choices"
  shows "offered (md_native s) w st player action (ab_native_choice b)"
proof (cases "at_root w player")
  case True
  then show ?thesis using assms binding_for_action_Inr [OF assms(2)] by (auto simp: offered_def bindings_of_def)
next
  case False
  then have "native_bindings manifest player st choices s = (Inr bs, t)" using assms(1) by (simp add: bindings_of_def)
  from native_bindings_run [OF this] have "ab_native_choice b \<in> set (pick player choices)"
    using binding_for_action_Inr(1) [OF assms(2)] by (metis image_eqI list.set_map)
  then show ?thesis using False assms(3) by (auto simp: offered_def) (metis surj_pair)
qed

lemma choose_run:
  assumes "choose_bindings manifest w st a b s = (Inr (one, two), s')"
  shows "offered (md_native s) w st ''p1'' a (ab_native_choice one)"
    "offered (md_native s) w st ''p2'' b (ab_native_choice two)"
proof -
  obtain choices t ones t' twos t'' where
    1: "legal_choice_values st s = (Inr choices, t)" "bindings_of manifest w ''p1'' st choices t = (Inr ones, t')"
      "binding_for_action ones a = Inr one" "bindings_of manifest w ''p2'' st choices t' = (Inr twos, t'')"
      "binding_for_action twos b = Inr two"
    using assms by (auto simp: choose_bindings_def mbind_Inr)
  have "t = s" by (rule keeps_success [OF keeps_legal_choices 1(1)])
  moreover have "t' = t" by (rule keeps_success [OF keeps_bindings_of 1(2)])
  ultimately show "offered (md_native s) w st ''p1'' a (ab_native_choice one)"
    "offered (md_native s) w st ''p2'' b (ab_native_choice two)"
    using 1 chosen_binding [OF 1(2,3)] chosen_binding [OF 1(4,5)] legal_choices_run [OF 1(1)] by simp_all
qed

lemma transition_parts:
  fixes s :: "'n engine_model"
  assumes "transition manifest sha w a b s = (Inr t, s')"
  shows "\<exists>st one two instructions ws capabilities successors.
    ne_from_string (md_native s) (po_native_state (pw_opaque w)) = Inr st
    \<and> choose_bindings manifest w st a b s = (Inr (one, two), s)
    \<and> ne_generate_instructions (md_native s) st (ab_native_choice one) (ab_native_choice two) = Inr instructions
    \<and> mapped_successors manifest st w instructions s = (Inr ws, s)
    \<and> transition_capabilities (md_catalog s) a b = Inr capabilities
    \<and> successors_of manifest sha w capabilities ws s = (Inr successors, s)
    \<and> make_outcome successors capabilities = Inr t \<and> validate_against_source t w = Inr () \<and> s' = s"
proof -
  have fails: "fst ((case e of Mapping_Error _ \<Rightarrow> raise_failure Invalid_Joint_Action no_digests 0
      | _ \<Rightarrow> mreturn (Inl e)) u) \<noteq> Inr y" for e and u :: "'n engine_model" and y :: "action_binding \<times> action_binding"
    by (simp add: handler_fails split: engine_exc.split)
  obtain st one two t1 r t2 where
    1: "ne_from_string (md_native s) (po_native_state (pw_opaque w)) = Inr st"
      "choose_bindings manifest w st a b s = (Inr (one, two), t1)"
      "ne_generate_instructions (md_native t1) st (ab_native_choice one) (ab_native_choice two) = Inr r" and
    2: "mcatch (mbind (mapped_successors manifest st w r) (\<lambda>weights.
         mbind (mreturn (of_core (transition_capabilities (md_catalog s) a b))) (\<lambda>capabilities.
         mbind (successors_of manifest sha w capabilities weights) (\<lambda>successors.
          (case ebind (make_outcome successors capabilities) (\<lambda>t.
              ebind (validate_against_source t w) (\<lambda>_. Inr t)) of
             Inr t \<Rightarrow> mreturn (Inr t)
           | Inl _ \<Rightarrow> raise_failure Work_Accounting_Inconsistency no_digests 1)))))
        transition_handler t1 = (Inr t, s')"
    using assms
    by (auto simp: transition_def mbind_Inr state_from_string_Inr generate_instructions_Inr
        mcatch_Inr [OF fails] split: prod.splits)
  have "t1 = s" by (rule keeps_success [OF keeps_choose 1(2)])
  note 2 = 2 [unfolded this mcatch_Inr [OF transition_handler_fails]]
  then obtain ws u capabilities successors v where
    3: "mapped_successors manifest st w r s = (Inr ws, u)"
      "transition_capabilities (md_catalog s) a b = Inr capabilities"
      "successors_of manifest sha w capabilities ws u = (Inr successors, v)"
      "(case ebind (make_outcome successors capabilities) (\<lambda>t.
              ebind (validate_against_source t w) (\<lambda>_. Inr t)) of
             Inr t \<Rightarrow> mreturn (Inr t)
           | Inl _ \<Rightarrow> raise_failure Work_Accounting_Inconsistency no_digests 1) v = (Inr t, s')"
    by (auto simp: mbind_Inr)
  have "u = s" by (rule keeps_success [OF keeps_mapped_successors 3(1)])
  moreover have "v = u" by (rule keeps_success [OF keeps_successors 3(3)])
  moreover have "make_outcome successors capabilities = Inr t" "validate_against_source t w = Inr ()" "s' = v"
    using 3(4) by (auto simp: result_simps split: sum.splits)
  ultimately show ?thesis using 1 3(1-3) \<open>t1 = s\<close> by blast
qed

lemma list_all2_in2: "list_all2 P xs ys \<Longrightarrow> y \<in> set ys \<Longrightarrow> \<exists>x\<in>set xs. P x y"
  by (induction rule: list_all2_induct) auto

lemma list_all2_in1: "list_all2 P xs ys \<Longrightarrow> x \<in> set xs \<Longrightarrow> \<exists>y\<in>set ys. P x y"
  by (induction rule: list_all2_induct) auto

lemma successors_run:
  assumes "successors_of manifest sha w cs ws s = (Inr successors, s')"
  shows "\<exists>us. list_all2 (\<lambda>x u. successor_of manifest sha w cs (common_denominator ws) x s = (Inr u, s)) ws us
    \<and> mset successors = mset us"
proof -
  obtain us t where us: "mmap (successor_of manifest sha w cs (common_denominator ws)) ws s = (Inr us, t)"
    "successors = sort_key ts_outcome_id us"
    using assms by (auto simp: successors_of_def mbind_Inr)
  from mmap_run [OF keeps_successor us(1)] us(2) show ?thesis by auto
qed

lemma numerators_sum:
  assumes "list_all2 (\<lambda>x u. successor_of manifest sha w cs (common_denominator ws) x s = (Inr u, s)) xs us"
    and "set xs \<subseteq> set ws"
  shows "of_int (sum_list (map ts_probability_numerator us))
    = sum_list (map snd xs) * of_int (common_denominator ws)"
  using assms
proof (induction rule: list_all2_induct)
  case (Cons x xs u us)
  then show ?case
    using scaled_numerator [of x ws] successor_run(1) [OF Cons.hyps(1)] by (simp add: ring_distribs)
qed simp

definition keeps_world :: "engine_world \<Rightarrow> engine_world \<Rightarrow> bool" where
  "keeps_world w v \<longleftrightarrow> pw_root_identity v = pw_root_identity w \<and> pw_root_actions v = pw_root_actions w
     \<and> po_root_bindings (pw_opaque v) = po_root_bindings (pw_opaque w)
     \<and> po_root_player (pw_opaque v) = po_root_player (pw_opaque w)
     \<and> po_observed_state_digest (pw_opaque v) = po_observed_state_digest (pw_opaque w)
     \<and> po_ply (pw_opaque v) = po_ply (pw_opaque w) + 1 \<and> check_world (\<lambda>_. Inr ()) v = Inr ()"

lemma make_outcome_Inr:
  assumes "make_outcome successors cs = Inr t"
  shows "to_successors t = successors" "to_work t = 1" "check_outcome_value t = Inr ()"
    "to_probability_denominator t = sum_list (map ts_probability_numerator successors)"
  using assms by (auto simp: make_outcome_def Let_def result_simps)

lemma transition_sound:
  fixes s :: "'n engine_model"
  assumes "transition manifest sha w a b s = (Inr t, s')"
  shows "s' = s \<and> to_work t = 1 \<and> check_outcome_value t = Inr ()
    \<and> (\<forall>u\<in>set (to_successors t). keeps_world w (ts_world u))
    \<and> (\<exists>st one two is pairs. ne_from_string (md_native s) (po_native_state (pw_opaque w)) = Inr st
        \<and> offered (md_native s) w st ''p1'' a one \<and> offered (md_native s) w st ''p2'' b two
        \<and> ne_generate_instructions (md_native s) st one two = Inr (Some is)
        \<and> list_all2 (instruction_outcome manifest (md_native s) st w) is pairs
        \<and> (\<forall>u\<in>set (to_successors t).
            of_int (ts_probability_numerator u) / of_int (to_probability_denominator t)
              = share_of (po_native_state (pw_opaque (ts_world u))) pairs / sum_list (map snd pairs))
        \<and> (\<lambda>u. po_native_state (pw_opaque (ts_world u))) ` set (to_successors t)
            = (\<lambda>p. ms_native_state (fst p)) ` set pairs)"
proof -
  from transition_parts [OF assms] obtain st one two instructions ws cs successors where
    1: "ne_from_string (md_native s) (po_native_state (pw_opaque w)) = Inr st"
      "choose_bindings manifest w st a b s = (Inr (one, two), s)"
      "ne_generate_instructions (md_native s) st (ab_native_choice one) (ab_native_choice two) = Inr instructions"
      "mapped_successors manifest st w instructions s = (Inr ws, s)"
      "successors_of manifest sha w cs ws s = (Inr successors, s)"
      "make_outcome successors cs = Inr t" "s' = s"
    by blast
  note t = make_outcome_Inr [OF 1(6)]
  from mapped_successors_run [OF 1(4)] obtain "is" pairs where
    2: "instructions = Some is" "list_all2 (instruction_outcome manifest (md_native s) st w) is pairs"
      "\<forall>(m, q)\<in>set ws. q = share_of (ms_native_state m) pairs / sum_list (map snd pairs) \<and> m \<in> fst ` set pairs"
      "set (map (ms_native_state \<circ> fst) ws) = set (map (ms_native_state \<circ> fst) pairs)"
      "sum_list (map snd ws) = 1"
    by blast
  from successors_run [OF 1(5)] obtain us where
    3: "list_all2 (\<lambda>x u. successor_of manifest sha w cs (common_denominator ws) x s = (Inr u, s)) ws us"
      "mset successors = mset us" by blast
  have us: "set successors = set us" using 3(2) by (metis set_mset_mset)
  have pos: "(of_int (common_denominator ws) :: rat) \<noteq> 0" using common_denominator_facts(1) [of ws] by simp
  have denominator: "of_int (to_probability_denominator t) = (of_int (common_denominator ws) :: rat)"
  proof -
    have "sum_list (map ts_probability_numerator successors) = sum_list (map ts_probability_numerator us)"
      using 3(2) by (metis mset_map sum_mset_sum_list)
    then show ?thesis using numerators_sum [OF 3(1)] 2(5) t(4) by simp
  qed
  have each: "keeps_world w (ts_world u)
      \<and> of_int (ts_probability_numerator u) / of_int (to_probability_denominator t)
          = share_of (po_native_state (pw_opaque (ts_world u))) pairs / sum_list (map snd pairs)"
    if u: "u \<in> set us" for u
  proof -
    obtain x where x: "x \<in> set ws" "successor_of manifest sha w cs (common_denominator ws) x s = (Inr u, s)"
      using list_all2_in2 [OF 3(1) u] by blast
    note run = successor_run [OF x(2)]
    have "of_int (ts_probability_numerator u) = snd x * of_int (common_denominator ws)"
      using run(1) scaled_numerator [OF x(1)] by simp
    moreover have "snd x = share_of (ms_native_state (fst x)) pairs / sum_list (map snd pairs)"
      using 2(3) x(1) by (cases x) auto
    ultimately show ?thesis using denominator pos run by (simp add: keeps_world_def)
  qed
  have "(\<lambda>u. po_native_state (pw_opaque (ts_world u))) ` set us = (ms_native_state \<circ> fst) ` set ws"
    using 3(1) by (induction rule: list_all2_induct) (simp_all add: successor_run(2))
  then have states: "(\<lambda>u. po_native_state (pw_opaque (ts_world u))) ` set us = (\<lambda>p. ms_native_state (fst p)) ` set pairs"
    using 2(4) by (simp add: comp_def)
  show ?thesis
    using 1 2(1,2) t us each states choose_run [OF 1(2)] by blast
qed

end
