(* ===== verification/Engine_Root.thy ===== *)
theory Engine_Root
  imports Engine_Facts
begin

text \<open>
  What a prepared root promises, and what a player can learn along a transition.
\<close>

section \<open>A prepared root\<close>

lemma prepare_root_run:
  assumes "prepare_root p ident actions s = (Inr w, s')"
  shows "pw_opaque w = p" "pw_root_identity w = ident" "pw_root_actions w = actions" "s' = s"
    "map ab_action (po_root_bindings p) = actions" "check_world (\<lambda>_. Inr ()) w = Inr ()"
    "rt_backend_identity_digest ident = md_backend_identity_digest s"
  using assms
  by (auto simp: prepare_root_def make_world_def Let_def result_simps split: if_splits sum.splits)

text \<open>What the root of a battle holds: the safe submissions in order, each with an action and a choice
  the engine offers, and no choice of the engine left out.\<close>

definition root_of_safe_set :: "'n native_engine \<Rightarrow> safe_submission_set \<Rightarrow> engine_world \<Rightarrow> bool" where
  "root_of_safe_set native safe w \<longleftrightarrow>
     map ab_submission (po_root_bindings (pw_opaque w)) = map Some (ss_submissions safe)
     \<and> pw_root_actions w = map ab_action (po_root_bindings (pw_opaque w))
     \<and> distinct (pw_root_actions w) \<and> po_ply (pw_opaque w) = 0
     \<and> (\<exists>st choices. ne_from_string native (po_native_state (pw_opaque w)) = Inr st
         \<and> legal_choice_texts native st = Some choices
         \<and> set (map ab_native_choice (po_root_bindings (pw_opaque w)))
             = set (pick (po_root_player (pw_opaque w)) choices))"

lemma prepare_mapped_run:
  fixes s :: "'n engine_model"
  assumes "prepare_mapped_root manifest observed mapped safe digests ident s = (Inr w, s')"
  shows "root_of_safe_set (md_native s) safe w" "s' = s" "po_root_player (pw_opaque w) = ro_root_player observed"
    "po_view_digests (pw_opaque w) = ms_view_digests mapped" "pw_root_identity w = ident"
    "po_native_state (pw_opaque w) = ms_native_state mapped" "po_public_hp (pw_opaque w) = ms_public_hp mapped"
    "po_observed_state_digest (pw_opaque w) = ro_digest observed"
    "check_world (\<lambda>_. Inr ()) w = Inr ()"
proof -
  let ?player = "ro_root_player observed"
  obtain st choices t bindings requirements report u and active :: native_pokemon where
    1: "ne_from_string (md_native s) (ms_native_state mapped) = Inr st"
      "legal_choice_values st s = (Inr choices, t)"
      "map_root_actions manifest safe ident (pick ?player choices)
         (map (lower \<circ> np_id) (nd_pokemon (side_of (ne_view (md_native s) st) ?player)))
         (map (lower \<circ> nm_id) (np_moves active))
         (nd_force_switch (side_of (ne_view (md_native s) st) ?player)) (md_catalog s) = Inr bindings"
      "set (map ab_native_choice bindings) = set (pick ?player choices)"
      "success_report Report_Mapped digests requirements 0 t = (Inr report, u)"
      "prepare_root
            \<lparr>po_native_state = ms_native_state mapped, po_observed_state_digest = ro_digest observed,
             po_root_player = ?player, po_view_digests = ms_view_digests mapped,
             po_active_indexes = ms_active_indexes mapped, po_active_types = ms_active_types mapped,
             po_terastallized = ms_terastallized mapped,
             po_terminal_outcome = ms_terminal_outcome mapped, po_public_hp = ms_public_hp mapped,
             po_root_bindings = bindings, po_required_capabilities = requirements,
             po_report = report, po_ply = 0\<rparr> ident (map ab_action bindings) u = (Inr w, s')"
    using assms
    by (auto simp: prepare_mapped_root_def mbind_Inr state_from_string_Inr Let_def pick_def [symmetric]
        split: if_splits)
  have t: "t = s" by (rule keeps_success [OF keeps_legal_choices 1(2)])
  have u: "u = t" by (rule keeps_success [OF keeps_report 1(5)])
  note run = prepare_root_run [OF 1(6)]
  note bound = map_root_actions_ok [OF 1(3)]
  have choices: "legal_choice_texts (md_native s) st = Some choices" by (rule legal_choices_run [OF 1(2)])
  show "s' = s" using run(4) t u by simp
  have "map ab_submission bindings = map Some (ss_submissions safe)" by (rule root_submissions [OF bound(1)])
  moreover have "distinct (map ab_action bindings)" by (rule root_actions_distinct_indices [OF bound(1)])
  ultimately show "root_of_safe_set (md_native s) safe w"
    using run(1-3) 1(1,4) choices
    by (cases choices) (simp add: root_of_safe_set_def)
  show "po_root_player (pw_opaque w) = ro_root_player observed"
    "po_view_digests (pw_opaque w) = ms_view_digests mapped" "pw_root_identity w = ident"
    "po_native_state (pw_opaque w) = ms_native_state mapped" "po_public_hp (pw_opaque w) = ms_public_hp mapped"
    "po_observed_state_digest (pw_opaque w) = ro_digest observed"
    "check_world (\<lambda>_. Inr ()) w = Inr ()"
    using run by simp_all
qed

lemma prepare_battle_run:
  fixes s :: "'n engine_model"
  assumes "prepare_battle_root manifest fi st safe document ruleset given s = (Inr w, s')"
  shows "\<exists>observed mapped ident digests. map_observed_root manifest st = Inr observed
    \<and> map_complete_world manifest fi (md_native s) document (ro_digest observed) (ro_public_hp observed) = Inr mapped
    \<and> prepare_mapped_root manifest observed mapped safe digests ident s = (Inr w, s')
    \<and> request_identity_digest manifest (ss_request_identity safe) = Inr (rt_request_identity_digest ident)
    \<and> safe_submission_set_digest manifest safe = Inr (rt_safe_submission_set_digest ident)
    \<and> rt_observed_state_digest ident = ro_digest observed \<and> rt_root_player ident = ro_root_player observed
    \<and> rt_backend_identity_digest ident = md_backend_identity_digest s
    \<and> rt_capability_catalog_digest ident = cc_catalog_digest (md_catalog s) \<and> rt_ruleset_digest ident = ruleset"
proof -
  note [simp] = mcatch_Inr [OF root_handler_fails]
  obtain observed request safe_digest mapped expected where
    1: "map_observed_root manifest st = Inr observed"
      "request_identity_digest manifest (ss_request_identity safe) = Inr request"
      "safe_submission_set_digest manifest safe = Inr safe_digest"
      "map_complete_world manifest fi (md_native s) document (ro_digest observed) (ro_public_hp observed) = Inr mapped"
      "create_root manifest request safe_digest (ro_digest observed) (ro_root_player observed) ruleset
         (md_backend_identity_digest s) (cc_catalog_digest (md_catalog s)) = Inr expected" and
    2: "(case given of
            None \<Rightarrow> prepare_mapped_root manifest observed mapped safe
              (Some (ro_digest observed), Some request, Some safe_digest) expected
          | Some ident \<Rightarrow>
              (case root_mismatch ident expected of
                 Some f \<Rightarrow> raise_failure f (Some (ro_digest observed), Some request, Some safe_digest) 0
               | None \<Rightarrow> prepare_mapped_root manifest observed mapped safe
                   (Some (ro_digest observed), Some request, Some safe_digest) ident)) s = (Inr w, s')"
    using assms by (auto simp: prepare_battle_root_def mbind_Inr Let_def)
  have e: "rt_request_identity_digest expected = request" "rt_safe_submission_set_digest expected = safe_digest"
    "rt_observed_state_digest expected = ro_digest observed" "rt_root_player expected = ro_root_player observed"
    "rt_backend_identity_digest expected = md_backend_identity_digest s"
    "rt_capability_catalog_digest expected = cc_catalog_digest (md_catalog s)" "rt_ruleset_digest expected = ruleset"
    using 1(5) by (auto simp: create_root_def result_simps)
  let ?D = "(Some (ro_digest observed), Some request, Some safe_digest)"
  have "\<exists>ident. prepare_mapped_root manifest observed mapped safe ?D ident s = (Inr w, s')
    \<and> rt_request_identity_digest ident = request \<and> rt_safe_submission_set_digest ident = safe_digest
    \<and> rt_observed_state_digest ident = ro_digest observed \<and> rt_root_player ident = ro_root_player observed
    \<and> rt_backend_identity_digest ident = md_backend_identity_digest s
    \<and> rt_capability_catalog_digest ident = cc_catalog_digest (md_catalog s) \<and> rt_ruleset_digest ident = ruleset"
  proof (cases given)
    case None
    then show ?thesis using 2 e by auto
  next
    case (Some ident)
    then have none: "root_mismatch ident expected = None" using 2 by (auto split: option.splits)
    then show ?thesis using 2 e Some
      by (intro exI [of _ ident]) (auto simp: root_mismatch_def split: if_splits)
  qed
  then obtain ident where ident: "prepare_mapped_root manifest observed mapped safe ?D ident s = (Inr w, s')"
    "rt_request_identity_digest ident = request" "rt_safe_submission_set_digest ident = safe_digest"
    "rt_observed_state_digest ident = ro_digest observed" "rt_root_player ident = ro_root_player observed"
    "rt_backend_identity_digest ident = md_backend_identity_digest s"
    "rt_capability_catalog_digest ident = cc_catalog_digest (md_catalog s)" "rt_ruleset_digest ident = ruleset"
    by blast
  then show ?thesis
    by (intro exI [of _ observed] exI [of _ mapped] exI [of _ ident] exI [of _ ?D]) (simp add: 1)
qed

lemma root_submission_found:
  assumes "root_of_safe_set native safe w" "i < length (ss_submissions safe)"
  shows "i < length (pw_root_actions w)"
    "root_submission w (pw_root_actions w ! i) s = (Inr (ss_submissions safe ! i), s)"
proof -
  let ?bs = "po_root_bindings (pw_opaque w)"
  have w: "map ab_submission ?bs = map Some (ss_submissions safe)" "pw_root_actions w = map ab_action ?bs"
    "distinct (map ab_action ?bs)"
    using assms(1) unfolding root_of_safe_set_def by metis+
  have len: "length ?bs = length (ss_submissions safe)" using w(1) by (metis length_map)
  then show "i < length (pw_root_actions w)" using assms(2) w(2) by simp
  have "?bs ! i \<in> set ?bs" using assms(2) len by simp
  from binding_found [OF w(3) this]
  have "binding_for_action ?bs (pw_root_actions w ! i) = Inr (?bs ! i)" using w(2) assms(2) len by simp
  moreover have "ab_submission (?bs ! i) = Some (ss_submissions safe ! i)"
    using w(1) assms(2) len by (metis nth_map)
  ultimately show "root_submission w (pw_root_actions w ! i) s = (Inr (ss_submissions safe ! i), s)"
    by (simp add: root_submission_def mreturn_def)
qed

lemma root_submission_only:
  assumes "root_of_safe_set native safe w" "root_submission w a s = (Inr b, s')"
  shows "\<exists>i<length (ss_submissions safe). a = pw_root_actions w ! i \<and> b = ss_submissions safe ! i"
proof -
  let ?bs = "po_root_bindings (pw_opaque w)"
  have w: "map ab_submission ?bs = map Some (ss_submissions safe)" "pw_root_actions w = map ab_action ?bs"
    using assms(1) by (simp_all add: root_of_safe_set_def)
  have len: "length ?bs = length (ss_submissions safe)" using w(1) by (metis length_map)
  obtain r where r: "binding_for_action ?bs a = Inr r" "ab_submission r = Some b"
    using assms(2) by (auto simp: root_submission_def split: sum.splits option.splits)
  from binding_for_action_Inr [OF r(1)] obtain i where i: "i < length ?bs" "?bs ! i = r" "ab_action r = a"
    by (auto simp: in_set_conv_nth)
  then have "Some b = Some (ss_submissions safe ! i)" using r(2) w(1) len by (metis nth_map)
  then show ?thesis using i w(2) len by auto
qed

section \<open>Views along a transition\<close>

lemma successor_mapped:
  fixes s :: "'n engine_model"
  assumes "transition manifest sha w a b s = (Inr t, s')"
    and "ne_from_string (md_native s) (po_native_state (pw_opaque w)) = Inr st" "u \<in> set (to_successors t)"
  shows "\<exists>x m. map_native_state manifest (md_native s) x (po_observed_state_digest (pw_opaque w))
      (Some (po_view_digests (pw_opaque w), st)) (po_public_hp (pw_opaque w)) = Inr m
    \<and> po_view_digests (pw_opaque (ts_world u)) = ms_view_digests m
    \<and> po_native_state (pw_opaque (ts_world u)) = ms_native_state m"
proof -
  from transition_parts [OF assms(1)] obtain st0 instructions ws cs successors where
    1: "ne_from_string (md_native s) (po_native_state (pw_opaque w)) = Inr st0"
      "mapped_successors manifest st0 w instructions s = (Inr ws, s)"
      "successors_of manifest sha w cs ws s = (Inr successors, s)" "make_outcome successors cs = Inr t"
    by blast
  have st0: "st0 = st" using 1(1) assms(2) by simp
  from successors_run [OF 1(3)] obtain us where
    us: "list_all2 (\<lambda>x u. successor_of manifest sha w cs (common_denominator ws) x s = (Inr u, s)) ws us"
      "mset successors = mset us" by blast
  have "u \<in> set us" using assms(3) make_outcome_Inr(1) [OF 1(4)] us(2) by (metis set_mset_mset)
  from list_all2_in2 [OF us(1) this] obtain x where
    x: "x \<in> set ws" "successor_of manifest sha w cs (common_denominator ws) x s = (Inr u, s)" by blast
  from mapped_successors_run [OF 1(2)] obtain "is" pairs where
    2: "list_all2 (instruction_outcome manifest (md_native s) st w) is pairs" and
    in_pairs: "\<forall>(m, q)\<in>set ws. q = share_of (ms_native_state m) pairs / sum_list (map snd pairs) \<and> m \<in> fst ` set pairs"
    unfolding st0 by blast
  have "fst x \<in> fst ` set pairs" using in_pairs x(1) by (cases x) auto
  then obtain p where p: "p \<in> set pairs" "fst x = fst p" by blast
  from list_all2_in2 [OF 2 p(1)] obtain i where "instruction_outcome manifest (md_native s) st w i p" by blast
  then show ?thesis
    using successor_run(2,3) [OF x(2)] p(2) by (auto simp: instruction_outcome_def)
qed

text \<open>
  The source states of two worlds look alike to the player and their views agree: successors whose
  native states look alike again have the same view.
\<close>

lemma transition_views:
  fixes s :: "'n engine_model"
  assumes player: "player = ''p1'' \<or> player = ''p2''"
    and run: "transition manifest sha w a b s = (Inr t, s')" "transition manifest sha' w' a' b' s = (Inr t', s'')"
    and source: "ne_from_string (md_native s) (po_native_state (pw_opaque w)) = Inr st"
      "ne_from_string (md_native s) (po_native_state (pw_opaque w')) = Inr st'"
      "looks_alike player hps (ne_view (md_native s) st) (ne_view (md_native s) st')"
      "pick player (po_view_digests (pw_opaque w)) = pick player (po_view_digests (pw_opaque w'))"
      "po_public_hp (pw_opaque w) = hps" "po_public_hp (pw_opaque w') = hps"
    and u: "u \<in> set (to_successors t)" "u' \<in> set (to_successors t')"
    and alike: "\<And>x x'. ne_to_string (md_native s) x = Inr (po_native_state (pw_opaque (ts_world u)))
      \<Longrightarrow> ne_to_string (md_native s) x' = Inr (po_native_state (pw_opaque (ts_world u')))
      \<Longrightarrow> looks_alike player hps (ne_view (md_native s) x) (ne_view (md_native s) x')"
  shows "pick player (po_view_digests (pw_opaque (ts_world u))) = pick player (po_view_digests (pw_opaque (ts_world u')))"
proof -
  note 1 = successor_mapped [OF run(1) source(1) u(1)] and 2 = successor_mapped [OF run(2) source(2) u(2)]
  obtain x m where x: "map_native_state manifest (md_native s) x (po_observed_state_digest (pw_opaque w))
      (Some (po_view_digests (pw_opaque w), st)) (po_public_hp (pw_opaque w)) = Inr m"
    "po_view_digests (pw_opaque (ts_world u)) = ms_view_digests m"
    "po_native_state (pw_opaque (ts_world u)) = ms_native_state m"
    using 1 by blast
  obtain x' m' where x': "map_native_state manifest (md_native s) x' (po_observed_state_digest (pw_opaque w'))
      (Some (po_view_digests (pw_opaque w'), st')) (po_public_hp (pw_opaque w')) = Inr m'"
    "po_view_digests (pw_opaque (ts_world u')) = ms_view_digests m'"
    "po_native_state (pw_opaque (ts_world u')) = ms_native_state m'"
    using 2 by blast
  have like: "looks_alike player hps (ne_view (md_native s) x) (ne_view (md_native s) x')"
    using alike map_native_state_ok(1) [OF x(1)] map_native_state_ok(1) [OF x'(1)] x(3) x'(3) by simp
  have p: "view_digest manifest (ne_view (md_native s) x) od player
      (view_prior (md_native s) player (Some (po_view_digests (pw_opaque w), st))) hps
        = view_digest manifest (ne_view (md_native s) x) od' player
      (view_prior (md_native s) player (Some (po_view_digests (pw_opaque w), st))) hps" for od od'
    by (simp add: view_digest_def view_prior_def Let_def)
  note v = map_native_state_ok(5) [OF x(1) player] and v' = map_native_state_ok(5) [OF x'(1) player]
  have "pick player (ms_view_digests m) = pick player (ms_view_digests m')"
  proof (rule view_digest_same [OF player like])
    show "same_prior player hps (view_prior (md_native s) player (Some (po_view_digests (pw_opaque w), st)))
        (view_prior (md_native s) player (Some (po_view_digests (pw_opaque w'), st')))"
      using source by (simp add: same_prior_def view_prior_def)
    show "view_digest manifest (ne_view (md_native s) x) (po_observed_state_digest (pw_opaque w')) player
        (view_prior (md_native s) player (Some (po_view_digests (pw_opaque w), st))) hps
        = Inr (pick player (ms_view_digests m))"
      using v source(5) by (subst p [of _ "po_observed_state_digest (pw_opaque w)"]) simp
    show "view_digest manifest (ne_view (md_native s) x') (po_observed_state_digest (pw_opaque w')) player
        (view_prior (md_native s) player (Some (po_view_digests (pw_opaque w'), st'))) hps
        = Inr (pick player (ms_view_digests m'))"
      using v' source(6) by simp
  qed
  then show ?thesis using x(2) x'(2) by simp
qed

end
