(* ===== verification/Reconciler.thy ===== *)
theory Reconciler
  imports Actions Reducer
begin

text \<open>
  \<open>RequestReconciler\<close> of \<open>application/safety/request_reconciler.py\<close>: whether a decision
  request agrees with the public state. The reason texts are constructors of \<open>reason\<close> with
  the values the source interpolates; the session compares one of them
  (\<open>Active_Unknown\<close>), so they are kept apart.
\<close>

datatype reconciliation_status = Accept | Pending_Public_State | Reject

datatype reason =
    Room_Mismatch string string
  | Identity_Mismatch
  | Stale_Rqid int int
  | Our_Side_Unknown
  | Side_Mismatch string string
  | Generation_Unknown
  | Generation_Mismatch int
  | Game_Type_Unknown
  | Not_Singles string
  | Tier_Unknown
  | Tier_Mismatch string
  | Team_Size_Out_Of_Range int
  | Team_Size_Mismatch int int
  | Wait_With_Submissions
  | Default_Missing
  | Kind_Not_Allowed action_kind request_kind
  | Not_A_Permutation "int list" int
  | Active_Unknown
  | Active_Identity_Missing
  | Active_Identity_Mismatch string string
  | Reason_Ok

record reconciliation_result =
  rr_status :: reconciliation_status
  rr_reason :: reason

definition result :: "reconciliation_status \<Rightarrow> reason \<Rightarrow> reconciliation_result" where
  "result s r = \<lparr>rr_status = s, rr_reason = r\<rparr>"

definition allowed_kinds :: "request_kind \<Rightarrow> action_kind list" where
  "allowed_kinds k = (case k of
     Move_Request \<Rightarrow> [Move, Switch, Default]
   | Forced_Switch \<Rightarrow> [Switch, Default]
   | Revival \<Rightarrow> [Revive, Default]
   | Team_Preview \<Rightarrow> [Team, Default]
   | Wait \<Rightarrow> [])"

definition tier_matches :: "string option \<Rightarrow> bool" where
  "tier_matches tier =
     (case tier of None \<Rightarrow> False
      | Some t \<Rightarrow> filter (\<lambda>c. c \<noteq> CHR '' '' \<and> c \<noteq> CHR ''['' \<and> c \<noteq> CHR '']'') (lower t)
                = ''gen9ou'')"

definition needs_active :: "request_kind \<Rightarrow> bool" where
  "needs_active k \<longleftrightarrow> k \<in> {Move_Request, Forced_Switch, Revival}"

text \<open>
  The checks in the source's order; \<open>next \<noteq> None\<close> of an earlier check ends the function, as
  its \<open>return\<close> does. \<open>metadata_check\<close> is the part on room, identity, freshness and battle
  format, \<open>submission_check\<close> the part on the submissions and the active Pokemon.
\<close>

definition metadata_check ::
    "string \<Rightarrow> decision_request \<Rightarrow> observed_state \<Rightarrow> int option \<Rightarrow> reconciliation_result option" where
  "metadata_check room_id request st latest_rqid =
     (let ident = dr_identity request in
      if ri_room_id ident \<noteq> room_id then
        Some (result Reject (Room_Mismatch (ri_room_id ident) room_id))
      else if ident \<noteq> ss_request_identity (dr_safe_submissions request) then
        Some (result Reject Identity_Mismatch)
      else if latest_rqid \<noteq> None \<and> ri_rqid ident < the latest_rqid then
        Some (result Reject (Stale_Rqid (ri_rqid ident) (the latest_rqid)))
      else
        (case os_our_side st of
           None \<Rightarrow> Some (result Pending_Public_State Our_Side_Unknown)
         | Some ours \<Rightarrow>
      if dr_side_id request \<noteq> ours then
        Some (result Reject (Side_Mismatch (dr_side_id request) ours))
      else
        (case os_generation st of
           None \<Rightarrow> Some (result Pending_Public_State Generation_Unknown)
         | Some g \<Rightarrow>
      if g \<noteq> 9 then Some (result Reject (Generation_Mismatch g))
      else
        (case os_game_type st of
           None \<Rightarrow> Some (result Pending_Public_State Game_Type_Unknown)
         | Some gt \<Rightarrow>
      if lower gt \<noteq> ''singles'' then Some (result Reject (Not_Singles gt))
      else
        (case os_tier st of
           None \<Rightarrow> Some (result Pending_Public_State Tier_Unknown)
         | Some t \<Rightarrow>
      if \<not> tier_matches (Some t) then Some (result Reject (Tier_Mismatch t))
      else if \<not> (1 \<le> dr_team_member_count request \<and> dr_team_member_count request \<le> 6) then
        Some (result Reject (Team_Size_Out_Of_Range (dr_team_member_count request)))
      else None)))))"

definition first_disallowed :: "request_kind \<Rightarrow> battle_submission list \<Rightarrow> battle_submission option" where
  "first_disallowed k subs = List.find (\<lambda>b. bs_kind b \<notin> set (allowed_kinds k)) subs"

definition first_bad_order :: "int \<Rightarrow> battle_submission list \<Rightarrow> battle_submission option" where
  "first_bad_order n subs =
     List.find (\<lambda>b. bs_kind b = Team \<and> set (bs_team_order b) \<noteq> set [1..n]) subs"

definition active_check :: "decision_request \<Rightarrow> side_view \<Rightarrow> reconciliation_result" where
  "active_check request own_side =
     (if needs_active (dr_kind request) then
        (case find_active own_side of
           None \<Rightarrow> result Pending_Public_State Active_Unknown
         | Some r \<Rightarrow>
             (case dr_active_identity request of
                None \<Rightarrow> result Reject Active_Identity_Missing
              | Some a \<Rightarrow>
                  if a \<noteq> pv_nickname (deref own_side r) then
                    result Reject (Active_Identity_Mismatch a (pv_nickname (deref own_side r)))
                  else result Accept Reason_Ok))
      else result Accept Reason_Ok)"

definition submission_check :: "decision_request \<Rightarrow> side_view \<Rightarrow> reconciliation_result" where
  "submission_check request own_side =
     (let subs = ss_submissions (dr_safe_submissions request);
          kind = dr_kind request;
          n = dr_team_member_count request in
      if sv_team_size own_side \<noteq> None \<and> Some n \<noteq> sv_team_size own_side then
        result Reject (Team_Size_Mismatch n (the (sv_team_size own_side)))
      else if kind = Wait \<and> subs \<noteq> [] then result Reject Wait_With_Submissions
      else if kind \<noteq> Wait \<and> \<not> list_ex (\<lambda>b. bs_kind b = Default) subs then
        result Reject Default_Missing
      else
        (case first_disallowed kind subs of
           Some b \<Rightarrow> result Reject (Kind_Not_Allowed (bs_kind b) kind)
         | None \<Rightarrow>
             (case (if kind = Team_Preview then first_bad_order n subs else None) of
                Some b \<Rightarrow> result Reject (Not_A_Permutation (bs_team_order b) n)
              | None \<Rightarrow> active_check request own_side)))"

definition reconcile ::
    "string \<Rightarrow> decision_request \<Rightarrow> observed_state \<Rightarrow> int option \<Rightarrow> py_exc + reconciliation_result" where
  "reconcile room_id request st latest_rqid =
     (case metadata_check room_id request st latest_rqid of
        Some r \<Rightarrow> Inr r
      | None \<Rightarrow>
          ebind (side st (the (os_our_side st))) (\<lambda>own_side.
            Inr (submission_check request own_side)))"

text \<open>The acceptance condition, written as one predicate over the request and the state.\<close>

definition format_agrees :: "observed_state \<Rightarrow> bool" where
  "format_agrees st \<longleftrightarrow> os_generation st = Some 9
     \<and> (\<exists>g. os_game_type st = Some g \<and> lower g = ''singles'') \<and> tier_matches (os_tier st)"

definition submissions_agree :: "decision_request \<Rightarrow> bool" where
  "submissions_agree request \<longleftrightarrow>
     (let subs = ss_submissions (dr_safe_submissions request) in
        (dr_kind request = Wait \<longrightarrow> subs = [])
      \<and> (dr_kind request \<noteq> Wait \<longrightarrow> (\<exists>b\<in>set subs. bs_kind b = Default))
      \<and> (\<forall>b\<in>set subs. bs_kind b \<in> set (allowed_kinds (dr_kind request)))
      \<and> (dr_kind request = Team_Preview \<longrightarrow> (\<forall>b\<in>set subs. bs_kind b = Team \<longrightarrow>
           set (bs_team_order b) = {1..dr_team_member_count request})))"

definition active_agrees :: "decision_request \<Rightarrow> side_view \<Rightarrow> bool" where
  "active_agrees request s \<longleftrightarrow> needs_active (dr_kind request) \<longrightarrow>
     (\<exists>r. find_active s = Some r \<and> dr_active_identity request = Some (pv_nickname (deref s r)))"

definition acceptable :: "string \<Rightarrow> decision_request \<Rightarrow> observed_state \<Rightarrow> int option \<Rightarrow> bool" where
  "acceptable room_id request st latest_rqid \<longleftrightarrow>
     ri_room_id (dr_identity request) = room_id
     \<and> dr_identity request = ss_request_identity (dr_safe_submissions request)
     \<and> (case latest_rqid of None \<Rightarrow> True | Some l \<Rightarrow> l \<le> ri_rqid (dr_identity request))
     \<and> os_our_side st = Some (dr_side_id request)
     \<and> format_agrees st
     \<and> 1 \<le> dr_team_member_count request \<and> dr_team_member_count request \<le> 6
     \<and> submissions_agree request
     \<and> (\<exists>s. side st (dr_side_id request) = Inr s
          \<and> (sv_team_size s = None \<or> sv_team_size s = Some (dr_team_member_count request))
          \<and> active_agrees request s)"

lemma find_None_iff': "List.find P xs = None \<longleftrightarrow> (\<forall>x\<in>set xs. \<not> P x)"
  by (auto simp: find_None_iff)

lemma return_guard:
  "(if b then Some x else y) = None \<longleftrightarrow> \<not> b \<and> y = None"
  "(case z of None \<Rightarrow> Some x | Some v \<Rightarrow> f v) = None \<longleftrightarrow> (\<exists>v. z = Some v \<and> f v = None)"
  by (auto split: option.splits)

lemma reject_guard:
  "rr_status (result s q) = s"
  "rr_status (if b then result Reject x else y) = Accept \<longleftrightarrow> \<not> b \<and> rr_status y = Accept"
  "rr_status (case z of Some v \<Rightarrow> result Reject (f v) | None \<Rightarrow> y) = Accept \<longleftrightarrow>
     z = None \<and> rr_status y = Accept"
  by (auto simp: result_def split: option.splits)

lemma metadata_check_None:
  "metadata_check room r st l = None \<longleftrightarrow>
     ri_room_id (dr_identity r) = room
     \<and> dr_identity r = ss_request_identity (dr_safe_submissions r)
     \<and> (case l of None \<Rightarrow> True | Some l \<Rightarrow> l \<le> ri_rqid (dr_identity r))
     \<and> os_our_side st = Some (dr_side_id r) \<and> format_agrees st
     \<and> 1 \<le> dr_team_member_count r \<and> dr_team_member_count r \<le> 6"
proof -
  have stale: "\<not> (l \<noteq> None \<and> ri_rqid (dr_identity r) < the l) \<longleftrightarrow>
      (case l of None \<Rightarrow> True | Some l \<Rightarrow> l \<le> ri_rqid (dr_identity r))"
    by (cases l) auto
  have "metadata_check room r st l = None \<longleftrightarrow>
     ri_room_id (dr_identity r) = room
     \<and> dr_identity r = ss_request_identity (dr_safe_submissions r)
     \<and> \<not> (l \<noteq> None \<and> ri_rqid (dr_identity r) < the l)
     \<and> (\<exists>ours. os_our_side st = Some ours \<and> dr_side_id r = ours
     \<and> (\<exists>g. os_generation st = Some g \<and> g = 9
     \<and> (\<exists>gt. os_game_type st = Some gt \<and> lower gt = ''singles''
     \<and> (\<exists>t. os_tier st = Some t \<and> tier_matches (Some t)
     \<and> 1 \<le> dr_team_member_count r \<and> dr_team_member_count r \<le> 6))))"
    by (simp only: metadata_check_def Let_def return_guard not_not simp_thms)
  also have "\<dots> \<longleftrightarrow> ri_room_id (dr_identity r) = room
     \<and> dr_identity r = ss_request_identity (dr_safe_submissions r)
     \<and> (case l of None \<Rightarrow> True | Some l \<Rightarrow> l \<le> ri_rqid (dr_identity r))
     \<and> os_our_side st = Some (dr_side_id r) \<and> format_agrees st
     \<and> 1 \<le> dr_team_member_count r \<and> dr_team_member_count r \<le> 6"
    unfolding stale
    by (cases "os_our_side st"; cases "os_generation st"; cases "os_game_type st";
        cases "os_tier st") (simp_all add: format_agrees_def tier_matches_def, blast)
  finally show ?thesis .
qed

lemma metadata_check_not_accept:
  "metadata_check room r st l = Some x \<Longrightarrow> rr_status x \<noteq> Accept"
  by (auto simp: metadata_check_def Let_def result_def split: option.splits if_splits)

lemma active_check_accept:
  "rr_status (active_check r s) = Accept \<longleftrightarrow> active_agrees r s"
  by (auto simp: active_check_def active_agrees_def result_def split: option.splits)

lemma submission_check_accept:
  "rr_status (submission_check r s) = Accept \<longleftrightarrow>
     submissions_agree r
     \<and> (sv_team_size s = None \<or> sv_team_size s = Some (dr_team_member_count r))
     \<and> active_agrees r s"
proof -
  let ?subs = "ss_submissions (dr_safe_submissions r)" and ?n = "dr_team_member_count r"
  have dis: "first_disallowed (dr_kind r) ?subs = None \<longleftrightarrow>
      (\<forall>b\<in>set ?subs. bs_kind b \<in> set (allowed_kinds (dr_kind r)))"
    by (auto simp: first_disallowed_def find_None_iff')
  have ord: "first_bad_order ?n ?subs = None \<longleftrightarrow>
      (\<forall>b\<in>set ?subs. bs_kind b = Team \<longrightarrow> set (bs_team_order b) = {1..?n})"
    by (auto simp: first_bad_order_def find_None_iff')
  have "rr_status (submission_check r s) = Accept \<longleftrightarrow>
      \<not> (sv_team_size s \<noteq> None \<and> Some ?n \<noteq> sv_team_size s)
      \<and> \<not> (dr_kind r = Wait \<and> ?subs \<noteq> [])
      \<and> \<not> (dr_kind r \<noteq> Wait \<and> \<not> list_ex (\<lambda>b. bs_kind b = Default) ?subs)
      \<and> first_disallowed (dr_kind r) ?subs = None
      \<and> (if dr_kind r = Team_Preview then first_bad_order ?n ?subs else None) = None
      \<and> active_agrees r s"
    unfolding submission_check_def Let_def reject_guard active_check_accept ..
  then show ?thesis
    unfolding submissions_agree_def Let_def if_split_eq1 dis ord list_ex_iff by auto
qed

lemma reconcile_accept:
  assumes "reconcile room r st l = Inr x"
  shows "rr_status x = Accept \<longleftrightarrow> acceptable room r st l"
proof (cases "metadata_check room r st l")
  case (Some y)
  then have "\<not> acceptable room r st l"
    using metadata_check_None [of room r st l] unfolding acceptable_def by auto
  moreover have "x = y" using assms Some by (simp add: reconcile_def)
  ultimately show ?thesis using metadata_check_not_accept [OF Some] by simp
next
  case None
  note m = None [unfolded metadata_check_None]
  with assms None obtain s where s: "side st (dr_side_id r) = Inr s" and x: "x = submission_check r s"
    by (auto simp: reconcile_def ebind_eq_Inr)
  show ?thesis
    unfolding x submission_check_accept acceptable_def s using m by auto
qed

lemma reconcile_total:
  assumes "os_our_side st \<in> {None, Some ''p1'', Some ''p2''}"
  shows "\<exists>x. reconcile room r st l = Inr x"
proof (cases "metadata_check room r st l")
  case None
  then have "os_our_side st = Some (dr_side_id r)" by (simp add: metadata_check_None)
  with assms None show ?thesis by (auto simp: reconcile_def side_def)
qed (simp add: reconcile_def)

lemma reconcile_Inl: "reconcile room r st l = Inl e \<Longrightarrow> e = ReducerInvariantError"
  by (auto simp: reconcile_def side_def ebind_eq_Inl split: option.splits if_splits)

end
