(* ===== verification/Request_Reader.thy ===== *)
theory Request_Reader
  imports Json Actions Reconciler "HOL-Library.Multiset"
begin

text \<open>
  \<open>adapters/showdown_protocol/request_reader.py\<close>: one \<open>|request|\<close> payload becomes a
  decision request with its safe set. \<open>read_request\<close> starts from the text; everything after
  \<open>json.loads\<close> is \<open>read_request_data\<close>. Two functions of the standard library are
  arguments: \<open>float_repr\<close> (the text \<open>repr\<close> gives a float of that literal) and \<open>sha256\<close>
  (the hexadecimal digest of an ASCII text).
  The lemmas show that what the reader returns is well formed: every submission is one the
  constructor accepts, the kinds fit the request, slots name members that may be chosen.
\<close>

section \<open>The canonical digest\<close>

definition hex_char :: "nat \<Rightarrow> char" where
  "hex_char n = (if n < 10 then char_of (48 + n) else char_of (87 + n))"

text \<open>\<open>ensure_ascii\<close>: what is not printable ASCII is escaped.\<close>

definition json_escape :: "char \<Rightarrow> string" where
  "json_escape c =
     (if c = CHR 0x22 \<or> c = CHR 0x5C then [CHR 0x5C, c]
      else if c = CHR 0x0A then [CHR 0x5C, CHR ''n'']
      else if c = CHR 0x0D then [CHR 0x5C, CHR ''r'']
      else if c = CHR 0x09 then [CHR 0x5C, CHR ''t'']
      else if c = CHR 0x0C then [CHR 0x5C, CHR ''f'']
      else if c = CHR 0x08 then [CHR 0x5C, CHR ''b'']
      else if 32 \<le> code c \<and> code c \<le> 126 then [c]
      else [CHR 0x5C, CHR ''u'', CHR ''0'', CHR ''0'', hex_char (code c div 16), hex_char (code c mod 16)])"

definition json_quote :: "string \<Rightarrow> string" where
  "json_quote s = CHR 0x22 # concat (map json_escape s) @ [CHR 0x22]"

text \<open>\<open>json.dumps(payload, sort_keys=True, separators=(",", ":"))\<close>.\<close>

fun json_dumps :: "(string \<Rightarrow> string) \<Rightarrow> json \<Rightarrow> string" where
  "json_dumps float_repr JNull = ''null''"
| "json_dumps float_repr (JBool b) = (if b then ''true'' else ''false'')"
| "json_dumps float_repr (JInt n) = show_int n"
| "json_dumps float_repr (JFloat t) = float_repr t"
| "json_dumps float_repr (JString s) = json_quote s"
| "json_dumps float_repr (JList vs) =
     ''['' @ join_with '','' (map (json_dumps float_repr) vs) @ '']''"
| "json_dumps float_repr (JObject kvs) =
     ''{'' @ join_with '',''
       (map (\<lambda>(k, t). json_quote k @ '':'' @ t)
         (sort_key fst (map (\<lambda>kv. (fst kv, json_dumps float_repr (snd kv))) kvs))) @ ''}''"

type_synonym json_dict = "(string \<times> json) list"

definition canonical_digest :: "(string \<Rightarrow> string) \<Rightarrow> (string \<Rightarrow> string) \<Rightarrow> json_dict \<Rightarrow> string" where
  "canonical_digest float_repr sha256 payload = sha256 (json_dumps float_repr (JObject payload))"

section \<open>Checked access\<close>

record request_pokemon =
  rp_ident :: string
  rp_details :: string
  rp_condition :: string
  rp_active :: bool
  rp_reviving :: bool

record request_move =
  rm_move_id :: string
  rm_disabled :: bool

record active_request =
  ar_moves :: "request_move list"
  ar_can_terastallize :: string
  ar_trapped :: bool
  ar_maybe_trapped :: bool
  ar_maybe_disabled :: bool
  ar_maybe_locked :: bool

text \<open>\<open>payload.get(key)\<close>, which is \<open>None\<close> for an absent key, as for a JSON null.\<close>

definition get_or :: "json \<Rightarrow> json_dict \<Rightarrow> string \<Rightarrow> json" where
  "get_or dflt payload key = (case map_of payload key of None \<Rightarrow> dflt | Some v \<Rightarrow> v)"

definition has_key :: "json_dict \<Rightarrow> string \<Rightarrow> bool" where
  "has_key payload key \<longleftrightarrow> map_of payload key \<noteq> None"

definition require_rqid :: "json_dict \<Rightarrow> py_exc + int" where
  "require_rqid payload =
     (case map_of payload ''rqid'' of
        Some (JInt n) \<Rightarrow> if n < 0 then Inl RequestStateReconciliationMismatch else Inr n
      | _ \<Rightarrow> Inl RequestStateReconciliationMismatch)"

definition require_object :: "json \<Rightarrow> py_exc + json_dict" where
  "require_object v = (case v of JObject d \<Rightarrow> Inr d | _ \<Rightarrow> Inl MalformedProtocolMessage)"

definition require_string_value :: "json \<Rightarrow> py_exc + string" where
  "require_string_value v = (case v of JString s \<Rightarrow> Inr s | _ \<Rightarrow> Inl MalformedProtocolMessage)"

definition require_string :: "json \<Rightarrow> py_exc + string" where
  "require_string v =
     (case v of JString s \<Rightarrow> if s = [] then Inl MalformedProtocolMessage else Inr s
      | _ \<Rightarrow> Inl MalformedProtocolMessage)"

definition require_bool :: "json \<Rightarrow> py_exc + bool" where
  "require_bool v = (case v of JBool b \<Rightarrow> Inr b | _ \<Rightarrow> Inl MalformedProtocolMessage)"

definition optional_bool :: "json_dict \<Rightarrow> string \<Rightarrow> bool \<Rightarrow> py_exc + bool" where
  "optional_bool payload key dflt =
     (case map_of payload key of None \<Rightarrow> Inr dflt | Some v \<Rightarrow> require_bool v)"

definition require_list :: "json \<Rightarrow> py_exc + json list" where
  "require_list v = (case v of JList vs \<Rightarrow> Inr vs | _ \<Rightarrow> Inl MalformedProtocolMessage)"

definition require_string_list :: "json \<Rightarrow> py_exc + string list" where
  "require_string_list v = ebind (require_list v) (emap require_string_value)"

text \<open>A check of one key, made only when the key is there; its value is dropped.\<close>

definition check_key :: "(json \<Rightarrow> py_exc + 'a) \<Rightarrow> json_dict \<Rightarrow> string \<Rightarrow> py_exc + unit" where
  "check_key check payload key =
     (case map_of payload key of None \<Rightarrow> Inr () | Some v \<Rightarrow> ebind (check v) (\<lambda>_. Inr ()))"

definition parse_force_switch :: "json_dict \<Rightarrow> py_exc + bool option" where
  "parse_force_switch payload =
     (case map_of payload ''forceSwitch'' of
        None \<Rightarrow> Inr None
      | Some v \<Rightarrow> ebind (require_list v) (\<lambda>vs.
          if length vs \<noteq> 1 then Inl MalformedProtocolMessage
          else ebind (require_bool (vs ! 0)) (\<lambda>b. Inr (Some b))))"

definition pokemon_fainted :: "string \<Rightarrow> bool" where
  "pokemon_fainted condition \<longleftrightarrow>
     ends_with '' fnt'' (rstrip condition) \<or> strip condition = ''0 fnt''"

definition nickname_from_ident :: "string \<Rightarrow> py_exc + string" where
  "nickname_from_ident ident =
     (case cut_at '': '' ident of
        None \<Rightarrow> Inl MalformedProtocolMessage
      | Some (_, nickname) \<Rightarrow>
          if nickname = [] then Inl MalformedProtocolMessage else Inr nickname)"

definition default_submission :: "py_exc + battle_submission" where
  "default_submission = make_submission Default Server_Default None None False []"

section \<open>The side and the active request\<close>

definition parse_request_pokemon :: "string \<Rightarrow> json \<Rightarrow> py_exc + request_pokemon" where
  "parse_request_pokemon side_id v =
     ebind (require_object v) (\<lambda>entry.
     ebind (require_string (get_or JNull entry ''ident'')) (\<lambda>ident.
     (case (case cut_at '': '' ident of None \<Rightarrow> (ident, []) | Some p \<Rightarrow> p) of
        (ident_side, nickname) \<Rightarrow>
     ebind (raise_if (ident_side \<noteq> side_id \<or> nickname = []) MalformedProtocolMessage) (\<lambda>_.
     ebind (require_string (get_or JNull entry ''details'')) (\<lambda>details.
     ebind (require_string (get_or JNull entry ''condition'')) (\<lambda>condition.
     ebind (require_bool (get_or JNull entry ''active'')) (\<lambda>active.
     ebind (optional_bool entry ''reviving'' False) (\<lambda>reviving.
     ebind (check_key require_string_value entry ''item'') (\<lambda>_.
     ebind (check_key require_string_value entry ''ability'') (\<lambda>_.
     ebind (check_key require_string_list entry ''moves'') (\<lambda>_.
       Inr \<lparr>rp_ident = ident, rp_details = details, rp_condition = condition,
            rp_active = active, rp_reviving = reviving\<rparr>)))))))))))"

definition min_team_size :: nat where
  "min_team_size = 1"

definition max_team_size :: nat where
  "max_team_size = 6"

definition parse_side :: "json \<Rightarrow> py_exc + (string \<times> request_pokemon list)" where
  "parse_side v =
     ebind (require_object v) (\<lambda>sd.
     ebind (require_string (get_or JNull sd ''id'')) (\<lambda>side_id.
     ebind (raise_if (side_id \<noteq> ''p1'' \<and> side_id \<noteq> ''p2'') MalformedProtocolMessage) (\<lambda>_.
     ebind (check_key require_string sd ''name'') (\<lambda>_.
     ebind (require_list (get_or JNull sd ''pokemon'')) (\<lambda>vs.
     ebind (raise_if (\<not> (min_team_size \<le> length vs \<and> length vs \<le> max_team_size))
       MalformedProtocolMessage) (\<lambda>_.
     ebind (emap (parse_request_pokemon side_id) vs) (\<lambda>pokemon.
     ebind (raise_if (1 < length (filter rp_active pokemon)) MalformedProtocolMessage) (\<lambda>_.
       Inr (side_id, pokemon)))))))))"

definition validate_active_shape :: "json \<Rightarrow> py_exc + json_dict" where
  "validate_active_shape v =
     ebind (require_list v) (\<lambda>vs.
       if length vs \<noteq> 1 then Inl MalformedProtocolMessage else require_object (vs ! 0))"

definition require_count :: "json \<Rightarrow> py_exc + int" where
  "require_count v =
     (case v of JInt n \<Rightarrow> if n < 0 then Inl MalformedProtocolMessage else Inr n
      | _ \<Rightarrow> Inl MalformedProtocolMessage)"

definition parse_disabled :: "json \<Rightarrow> py_exc + bool" where
  "parse_disabled v =
     (case v of JBool b \<Rightarrow> Inr b | JString s \<Rightarrow> Inr (s \<noteq> []) | _ \<Rightarrow> Inl MalformedProtocolMessage)"

definition parse_request_move :: "json \<Rightarrow> py_exc + request_move" where
  "parse_request_move v =
     ebind (require_object v) (\<lambda>move.
     ebind (require_string (get_or JNull move ''id'')) (\<lambda>move_id.
     ebind (parse_disabled (get_or (JBool False) move ''disabled'')) (\<lambda>disabled.
     ebind (check_key require_string move ''move'') (\<lambda>_.
     ebind (check_key require_string move ''target'') (\<lambda>_.
     ebind (check_key require_count move ''pp'') (\<lambda>_.
     ebind (check_key require_count move ''maxpp'') (\<lambda>_.
       Inr \<lparr>rm_move_id = move_id, rm_disabled = disabled\<rparr>)))))))"

definition parse_active_request :: "json_dict \<Rightarrow> py_exc + active_request" where
  "parse_active_request payload =
     ebind (validate_active_shape (get_or JNull payload ''active'')) (\<lambda>active_info.
     ebind (require_list (get_or JNull active_info ''moves'')) (\<lambda>vs.
     ebind (raise_if (\<not> (1 \<le> length vs \<and> length vs \<le> 4)) MalformedProtocolMessage) (\<lambda>_.
     ebind (emap parse_request_move vs) (\<lambda>moves.
     ebind (require_string_value (get_or (JString []) active_info ''canTerastallize'')) (\<lambda>tera.
     ebind (optional_bool active_info ''trapped'' False) (\<lambda>trapped.
     ebind (optional_bool active_info ''maybeTrapped'' False) (\<lambda>maybe_trapped.
     ebind (optional_bool active_info ''maybeDisabled'' False) (\<lambda>maybe_disabled.
     ebind (optional_bool active_info ''maybeLocked'' False) (\<lambda>maybe_locked.
       Inr \<lparr>ar_moves = moves, ar_can_terastallize = tera, ar_trapped = trapped,
            ar_maybe_trapped = maybe_trapped, ar_maybe_disabled = maybe_disabled,
            ar_maybe_locked = maybe_locked\<rparr>)))))))))"

section \<open>The safe sets\<close>

text \<open>
  \<open>itertools.permutations\<close>: all orders, lexicographic in positions.
\<close>

function py_permutations :: "'a list \<Rightarrow> 'a list list" where
  "py_permutations xs =
     (if xs = [] then [[]]
      else concat (map (\<lambda>i. map (\<lambda>p. xs ! i # p) (py_permutations (take i xs @ drop (Suc i) xs)))
             [0..<length xs]))"
  by auto
termination
  by (relation "measure length") (auto simp: min_def)

declare py_permutations.simps [simp del]

text \<open>Slots count from 1.\<close>

definition enumerate_from_1 :: "'a list \<Rightarrow> (int \<times> 'a) list" where
  "enumerate_from_1 xs = map (\<lambda>i. (int i + 1, xs ! i)) [0..<length xs]"

definition explicit :: "action_kind \<Rightarrow> int \<Rightarrow> py_exc + battle_submission" where
  "explicit kind slot = make_submission kind Explicit_Request (Some slot) None False []"

definition make_request ::
    "request_identity \<Rightarrow> request_kind \<Rightarrow> string \<Rightarrow> int \<Rightarrow> string option \<Rightarrow> battle_submission list \<Rightarrow> bool
     \<Rightarrow> decision_request" where
  "make_request ident kind side_id n active_identity subs is_update =
     \<lparr>dr_identity = ident, dr_kind = kind, dr_side_id = side_id, dr_team_member_count = n,
      dr_active_identity = active_identity,
      dr_safe_submissions = \<lparr>ss_request_identity = ident, ss_submissions = subs\<rparr>,
      dr_is_update = is_update\<rparr>"

definition read_team_preview ::
    "request_identity \<Rightarrow> string \<Rightarrow> request_pokemon list \<Rightarrow> json_dict \<Rightarrow> py_exc + decision_request" where
  "read_team_preview ident side_id pokemon data =
     (let team_size = int (length pokemon) in
      case get_or (JInt team_size) data ''maxChosenTeamSize'' of
        JInt max_chosen \<Rightarrow>
          if max_chosen < 1 then Inl MalformedProtocolMessage
          else if max_chosen \<noteq> team_size then Inl RequestStateReconciliationMismatch
          else
            ebind (emap (make_submission Team Explicit_Request None None False)
                     (py_permutations [1..team_size])) (\<lambda>permutations.
            ebind default_submission (\<lambda>d.
              Inr (make_request ident Team_Preview side_id team_size None (permutations @ [d]) False)))
      | _ \<Rightarrow> Inl MalformedProtocolMessage)"

definition slots_where :: "(request_pokemon \<Rightarrow> bool) \<Rightarrow> request_pokemon list \<Rightarrow> int list" where
  "slots_where p pokemon = map fst (filter (\<lambda>(slot, rp). p rp) (enumerate_from_1 pokemon))"

definition revivable :: "request_pokemon \<Rightarrow> bool" where
  "revivable rp \<longleftrightarrow> \<not> rp_active rp \<and> pokemon_fainted (rp_condition rp)"

definition switchable :: "request_pokemon \<Rightarrow> bool" where
  "switchable rp \<longleftrightarrow> \<not> rp_active rp \<and> \<not> pokemon_fainted (rp_condition rp)"

definition read_revival ::
    "request_identity \<Rightarrow> string \<Rightarrow> request_pokemon list \<Rightarrow> string option \<Rightarrow> bool
     \<Rightarrow> py_exc + decision_request" where
  "read_revival ident side_id pokemon active_identity is_update =
     ebind (emap (explicit Revive) (slots_where revivable pokemon)) (\<lambda>subs.
     ebind default_submission (\<lambda>d.
       Inr (make_request ident Revival side_id (int (length pokemon)) active_identity
              (subs @ [d]) is_update)))"

definition read_forced_switch ::
    "request_identity \<Rightarrow> string \<Rightarrow> request_pokemon list \<Rightarrow> string option \<Rightarrow> bool
     \<Rightarrow> py_exc + decision_request" where
  "read_forced_switch ident side_id pokemon active_identity is_update =
     ebind (emap (explicit Switch) (slots_where switchable pokemon)) (\<lambda>subs.
     ebind default_submission (\<lambda>d.
       Inr (make_request ident Forced_Switch side_id (int (length pokemon)) active_identity
              (subs @ [d]) is_update)))"

definition move_submissions :: "bool \<Rightarrow> int \<times> request_move \<Rightarrow> py_exc + battle_submission list" where
  "move_submissions can_tera im =
     (case im of (index, move) \<Rightarrow>
        if rm_disabled move then Inr []
        else
          ebind (make_submission Move Explicit_Request (Some index) (Some (rm_move_id move)) False [])
            (\<lambda>plain.
          if can_tera then
            ebind (make_submission Move Explicit_Request (Some index) (Some (rm_move_id move)) True [])
              (\<lambda>tera. Inr [plain, tera])
          else Inr [plain]))"

definition normal_submissions ::
    "active_request \<Rightarrow> request_pokemon list \<Rightarrow> py_exc + battle_submission list" where
  "normal_submissions ar pokemon =
     (if ar_maybe_disabled ar \<or> ar_maybe_locked ar then
        ebind default_submission (\<lambda>d. Inr [d])
      else
        (let can_tera = (ar_can_terastallize ar \<noteq> []);
             trapped = (ar_trapped ar \<or> ar_maybe_trapped ar) in
         ebind (emap (move_submissions can_tera) (enumerate_from_1 (ar_moves ar))) (\<lambda>moves.
         ebind (if trapped then Inr []
                else emap (explicit Switch) (slots_where switchable pokemon)) (\<lambda>switches.
         ebind default_submission (\<lambda>d. Inr (concat moves @ switches @ [d]))))))"

definition read_normal_move ::
    "request_identity \<Rightarrow> string \<Rightarrow> request_pokemon list \<Rightarrow> string option \<Rightarrow> json_dict \<Rightarrow> bool
     \<Rightarrow> py_exc + decision_request" where
  "read_normal_move ident side_id pokemon active_identity data is_update =
     ebind (parse_active_request data) (\<lambda>ar.
     ebind (normal_submissions ar pokemon) (\<lambda>subs.
       Inr (make_request ident Move_Request side_id (int (length pokemon)) active_identity subs
              is_update)))"

section \<open>The reader\<close>

text \<open>The detection order is binding: wait, team preview, revival, forced switch, move.\<close>

definition dispatch_request ::
    "request_identity \<Rightarrow> json_dict \<Rightarrow> bool \<Rightarrow> bool \<Rightarrow> bool \<Rightarrow> bool option \<Rightarrow> string
     \<Rightarrow> request_pokemon list \<Rightarrow> string option \<Rightarrow> py_exc + decision_request" where
  "dispatch_request ident data wait team_preview update force_switch side_id pokemon active_identity =
     (let active_pv = List.find rp_active pokemon in
      if wait then
        Inr (make_request ident Wait side_id (int (length pokemon)) None [] False)
      else if team_preview then read_team_preview ident side_id pokemon data
      else if active_pv \<noteq> None \<and> rp_reviving (the active_pv) then
        read_revival ident side_id pokemon active_identity update
      else if force_switch = Some True then
        read_forced_switch ident side_id pokemon active_identity update
      else read_normal_move ident side_id pokemon active_identity data update)"

definition read_request_data ::
    "(string \<Rightarrow> string) \<Rightarrow> (string \<Rightarrow> string) \<Rightarrow> string \<Rightarrow> json \<Rightarrow> py_exc + decision_request" where
  "read_request_data float_repr sha256 room_id v =
     ebind (require_object v) (\<lambda>data.
     ebind (require_rqid data) (\<lambda>rqid.
     (let ident = \<lparr>ri_room_id = room_id, ri_rqid = rqid,
                   ri_request_digest = ''sha256:'' @ canonical_digest float_repr sha256 data\<rparr> in
     ebind (optional_bool data ''wait'' False) (\<lambda>wait.
     ebind (optional_bool data ''teamPreview'' False) (\<lambda>team_preview.
     ebind (optional_bool data ''update'' False) (\<lambda>update.
     ebind (parse_force_switch data) (\<lambda>force_switch.
     ebind (check_key validate_active_shape data ''active'') (\<lambda>_.
     ebind (parse_side (get_or JNull data ''side'')) (\<lambda>(side_id, pokemon).
     ebind (case List.find rp_active pokemon of None \<Rightarrow> Inr None
              | Some rp \<Rightarrow> ebind (nickname_from_ident (rp_ident rp)) (\<lambda>n. Inr (Some n))) (\<lambda>active_identity.
       dispatch_request ident data wait team_preview update force_switch side_id pokemon
         active_identity))))))))))"

definition read_request ::
    "(string \<Rightarrow> string) \<Rightarrow> (string \<Rightarrow> string) \<Rightarrow> string \<Rightarrow> string \<Rightarrow> py_exc + decision_request" where
  "read_request float_repr sha256 room_id payload =
     ebind (loads_checked payload) (read_request_data float_repr sha256 room_id)"

section \<open>Permutations\<close>

lemma mset_remove_nth:
  assumes "i < length xs"
  shows "mset (take i xs) + mset (drop (Suc i) xs) = mset xs - {#xs ! i#}"
proof -
  have "mset xs = mset (take i xs @ xs ! i # drop (Suc i) xs)"
    using id_take_nth_drop [OF assms] by simp
  then show ?thesis by simp
qed

lemma set_py_permutations: "set (py_permutations xs) = {ys. mset ys = mset xs}"
proof (induction xs rule: py_permutations.induct)
  case (1 xs)
  show ?case
  proof (cases "xs = []")
    case True
    then show ?thesis by (simp add: py_permutations.simps)
  next
    case False
    have "ys \<in> set (py_permutations xs) \<longleftrightarrow> mset ys = mset xs" for ys
    proof -
      have "ys \<in> set (py_permutations xs) \<longleftrightarrow>
          (\<exists>i<length xs. \<exists>p. ys = xs ! i # p \<and> mset p = mset xs - {#xs ! i#})"
      proof -
        have rec: "set (py_permutations (take i xs @ drop (Suc i) xs)) =
            {p. mset p = mset xs - {#xs ! i#}}" if "i < length xs" for i
          using 1 [OF False, of i] that by (simp add: mset_remove_nth)
        have "ys \<in> set (py_permutations xs) \<longleftrightarrow> (\<exists>i<length xs. \<exists>p.
            ys = xs ! i # p \<and> p \<in> set (py_permutations (take i xs @ drop (Suc i) xs)))"
          using False by (subst py_permutations.simps) auto
        with rec show ?thesis by auto
      qed
      also have "\<dots> \<longleftrightarrow> mset ys = mset xs"
      proof
        assume "\<exists>i<length xs. \<exists>p. ys = xs ! i # p \<and> mset p = mset xs - {#xs ! i#}"
        then show "mset ys = mset xs" by auto
      next
        assume eq: "mset ys = mset xs"
        then obtain y p where ys: "ys = y # p" using False by (cases ys) auto
        with eq have "y \<in> set xs" by (metis list.set_intros(1) set_mset_mset)
        then obtain i where "i < length xs" "xs ! i = y" by (auto simp: in_set_conv_nth)
        moreover have "mset p = mset xs - {#y#}" using eq ys by (metis add_mset_remove_trivial mset.simps(2))
        ultimately show "\<exists>i<length xs. \<exists>p. ys = xs ! i # p \<and> mset p = mset xs - {#xs ! i#}"
          using ys by blast
      qed
      finally show ?thesis .
    qed
    then show ?thesis by blast
  qed
qed

lemma py_permutation_set: "p \<in> set (py_permutations xs) \<Longrightarrow> set p = set xs"
  by (rule mset_eq_setD) (simp add: set_py_permutations)

section \<open>What the reader offers\<close>

lemma in_enumerate: "(s, x) \<in> set (enumerate_from_1 xs) \<longleftrightarrow> (\<exists>i<length xs. s = int i + 1 \<and> x = xs ! i)"
  by (auto simp: enumerate_from_1_def)

lemma in_slots_where: "s \<in> set (slots_where p xs) \<longleftrightarrow> (\<exists>i<length xs. s = int i + 1 \<and> p (xs ! i))"
  by (auto simp: slots_where_def enumerate_from_1_def filter_map comp_def)

lemma emap_set:
  assumes "emap f xs = Inr ys"
  shows "y \<in> set ys \<longleftrightarrow> (\<exists>x\<in>set xs. f x = Inr y)"
proof -
  from assms have "list_all2 (\<lambda>x y. f x = Inr y) xs ys" by (simp add: emap_eq_Inr)
  then show ?thesis
    by (induction xs ys rule: list_all2_induct) auto
qed

definition default_action :: battle_submission where
  "default_action = \<lparr>bs_kind = Default, bs_provenance = Server_Default, bs_slot = None,
     bs_move_id = None, bs_terastallize = False, bs_team_order = []\<rparr>"

definition slot_action :: "action_kind \<Rightarrow> int \<Rightarrow> battle_submission" where
  "slot_action kind slot = \<lparr>bs_kind = kind, bs_provenance = Explicit_Request, bs_slot = Some slot,
     bs_move_id = None, bs_terastallize = False, bs_team_order = []\<rparr>"

definition move_action :: "int \<Rightarrow> string \<Rightarrow> bool \<Rightarrow> battle_submission" where
  "move_action slot move_id tera = \<lparr>bs_kind = Move, bs_provenance = Explicit_Request,
     bs_slot = Some slot, bs_move_id = Some move_id, bs_terastallize = tera, bs_team_order = []\<rparr>"

definition team_action :: "int list \<Rightarrow> battle_submission" where
  "team_action order = \<lparr>bs_kind = Team, bs_provenance = Explicit_Request, bs_slot = None,
     bs_move_id = None, bs_terastallize = False, bs_team_order = order\<rparr>"

lemmas action_defs = default_action_def slot_action_def move_action_def team_action_def

lemma default_submission_eq: "default_submission = Inr default_action"
  by (simp add: default_submission_def make_submission_Inr default_action_def valid_submission_def)

lemma valid_default_action: "valid_submission default_action"
  by (simp add: default_action_def valid_submission_def)

lemma explicit_Inr:
  "explicit k s = Inr b \<longleftrightarrow> b = slot_action k s \<and> valid_submission b"
  by (simp add: explicit_def make_submission_Inr slot_action_def)

lemma explicit_switch: "explicit Switch s = Inr b \<longleftrightarrow> b = slot_action Switch s \<and> 1 \<le> s \<and> s \<le> 6"
  "explicit Revive s = Inr b \<longleftrightarrow> b = slot_action Revive s \<and> 1 \<le> s \<and> s \<le> 6"
  by (auto simp: explicit_Inr valid_submission_def slot_action_def slot_in_def)

lemma emap_explicit:
  assumes "emap (explicit k) slots = Inr subs"
  shows "b \<in> set subs \<longleftrightarrow> (\<exists>s\<in>set slots. b = slot_action k s)"
    and "\<forall>b\<in>set subs. valid_submission b"
proof -
  have all: "\<exists>b. explicit k s = Inr b" if "s \<in> set slots" for s
    using assms that by (auto simp: emap_eq_Inr list_all2_conv_all_nth in_set_conv_nth)
  show "b \<in> set subs \<longleftrightarrow> (\<exists>s\<in>set slots. b = slot_action k s)"
    using all by (auto simp: emap_set [OF assms] explicit_Inr)
  show "\<forall>b\<in>set subs. valid_submission b"
    by (auto simp: emap_set [OF assms] explicit_Inr)
qed

lemma move_submissions_Inr:
  assumes "move_submissions tera (s, mv) = Inr bs"
  shows "b \<in> set bs \<longleftrightarrow> \<not> rm_disabled mv
      \<and> (b = move_action s (rm_move_id mv) False \<or> tera \<and> b = move_action s (rm_move_id mv) True)"
    and "\<forall>b\<in>set bs. valid_submission b"
  using assms
  by (auto simp: move_submissions_def ebind_eq_Inr make_submission_Inr move_action_def split: if_splits)

text \<open>The actions of a normal request, told by what the request says of each of them.\<close>

definition normal_action :: "active_request \<Rightarrow> request_pokemon list \<Rightarrow> battle_submission \<Rightarrow> bool" where
  "normal_action ar pokemon b \<longleftrightarrow> b = default_action
     \<or> \<not> ar_maybe_disabled ar \<and> \<not> ar_maybe_locked ar
       \<and> ((\<exists>i<length (ar_moves ar). \<exists>tera. \<not> rm_disabled (ar_moves ar ! i)
              \<and> (tera \<longrightarrow> ar_can_terastallize ar \<noteq> [])
              \<and> b = move_action (int i + 1) (rm_move_id (ar_moves ar ! i)) tera)
          \<or> \<not> ar_trapped ar \<and> \<not> ar_maybe_trapped ar
            \<and> (\<exists>i<length pokemon. switchable (pokemon ! i) \<and> b = slot_action Switch (int i + 1)))"

lemma normal_submissions_set:
  assumes run: "normal_submissions ar pokemon = Inr subs"
  shows "b \<in> set subs \<longleftrightarrow> normal_action ar pokemon b"
    and "\<forall>b\<in>set subs. valid_submission b"
proof -
  have "(b \<in> set subs \<longleftrightarrow> normal_action ar pokemon b) \<and> (\<forall>b\<in>set subs. valid_submission b)"
  proof (cases "ar_maybe_disabled ar \<or> ar_maybe_locked ar")
    case True
    with run have "subs = [default_action]"
      by (simp add: normal_submissions_def default_submission_eq)
    with True show ?thesis by (auto simp: normal_action_def valid_default_action)
  next
    case False
    let ?tera = "ar_can_terastallize ar \<noteq> []"
    from run False obtain moves switches where
      mv: "emap (move_submissions ?tera) (enumerate_from_1 (ar_moves ar)) = Inr moves" and
      sw: "(if ar_trapped ar \<or> ar_maybe_trapped ar then Inr []
            else emap (explicit Switch) (slots_where switchable pokemon)) = Inr switches" and
      subs: "subs = concat moves @ switches @ [default_action]"
      by (auto simp: normal_submissions_def Let_def ebind_eq_Inr default_submission_eq)
    have each: "\<exists>bs. move_submissions ?tera sm = Inr bs" if "sm \<in> set (enumerate_from_1 (ar_moves ar))" for sm
      using mv that by (auto simp: emap_eq_Inr list_all2_conv_all_nth in_set_conv_nth)
    have moves: "b \<in> set (concat moves) \<longleftrightarrow> (\<exists>i<length (ar_moves ar). \<exists>tera.
        \<not> rm_disabled (ar_moves ar ! i) \<and> (tera \<longrightarrow> ?tera)
        \<and> b = move_action (int i + 1) (rm_move_id (ar_moves ar ! i)) tera)" (is "_ \<longleftrightarrow> ?M")
    proof
      assume "b \<in> set (concat moves)"
      then obtain s m bs where sm: "(s, m) \<in> set (enumerate_from_1 (ar_moves ar))"
        "move_submissions ?tera (s, m) = Inr bs" "b \<in> set bs"
        using emap_set [OF mv] by auto
      with move_submissions_Inr(1) [OF sm(2)] show ?M
        by (auto simp: in_enumerate)
    next
      assume ?M
      then obtain i tera where i: "i < length (ar_moves ar)" "\<not> rm_disabled (ar_moves ar ! i)"
        "tera \<longrightarrow> ?tera" "b = move_action (int i + 1) (rm_move_id (ar_moves ar ! i)) tera" by blast
      have en: "(int i + 1, ar_moves ar ! i) \<in> set (enumerate_from_1 (ar_moves ar))"
        using i(1) by (auto simp: in_enumerate)
      then obtain bs where bs: "move_submissions ?tera (int i + 1, ar_moves ar ! i) = Inr bs"
        using each by blast
      have "b \<in> set bs" using move_submissions_Inr(1) [OF bs] i by (cases tera) auto
      moreover have "bs \<in> set moves" using emap_set [OF mv] en bs by blast
      ultimately show "b \<in> set (concat moves)" by auto
    qed
    have switches: "b \<in> set switches \<longleftrightarrow> \<not> ar_trapped ar \<and> \<not> ar_maybe_trapped ar
        \<and> (\<exists>i<length pokemon. switchable (pokemon ! i) \<and> b = slot_action Switch (int i + 1))"
      using sw emap_explicit(1) [of Switch "slots_where switchable pokemon" switches b]
      by (auto simp: in_slots_where split: if_splits)
    have "\<forall>b\<in>set (concat moves). valid_submission b"
      using emap_set [OF mv] move_submissions_Inr(2) by (fastforce simp: in_enumerate)
    moreover have "\<forall>b\<in>set switches. valid_submission b"
      using sw emap_explicit(2) by (auto split: if_splits)
    ultimately show ?thesis
      unfolding subs normal_action_def using moves switches False by (auto simp: valid_default_action)
  qed
  then show "b \<in> set subs \<longleftrightarrow> normal_action ar pokemon b" "\<forall>b\<in>set subs. valid_submission b"
    by blast+
qed

section \<open>Every request the reader returns is consistent\<close>

definition reader_ok :: "string \<Rightarrow> decision_request \<Rightarrow> bool" where
  "reader_ok room r \<longleftrightarrow> ri_room_id (dr_identity r) = room \<and> 0 \<le> ri_rqid (dr_identity r)
     \<and> dr_identity r = ss_request_identity (dr_safe_submissions r)
     \<and> dr_side_id r \<in> {''p1'', ''p2''}
     \<and> 1 \<le> dr_team_member_count r \<and> dr_team_member_count r \<le> 6
     \<and> (\<forall>b\<in>set (ss_submissions (dr_safe_submissions r)). valid_submission b)
     \<and> submissions_agree r"

definition request_args_ok :: "string \<Rightarrow> request_identity \<Rightarrow> string \<Rightarrow> request_pokemon list \<Rightarrow> bool" where
  "request_args_ok room ident side_id pokemon \<longleftrightarrow> ri_room_id ident = room \<and> 0 \<le> ri_rqid ident
     \<and> side_id \<in> {''p1'', ''p2''} \<and> 1 \<le> length pokemon \<and> length pokemon \<le> 6"

lemma reader_ok_make:
  assumes "request_args_ok room ident side_id pokemon" "\<forall>b\<in>set subs. valid_submission b"
    and "submissions_agree (make_request ident kind side_id (int (length pokemon)) ai subs u)"
  shows "reader_ok room (make_request ident kind side_id (int (length pokemon)) ai subs u)"
  using assms by (auto simp: reader_ok_def request_args_ok_def make_request_def)

lemma agree_make:
  "submissions_agree (make_request ident kind side_id n ai subs u) \<longleftrightarrow>
     (kind = Wait \<longrightarrow> subs = []) \<and> (kind \<noteq> Wait \<longrightarrow> (\<exists>b\<in>set subs. bs_kind b = Default))
     \<and> (\<forall>b\<in>set subs. bs_kind b \<in> set (allowed_kinds kind))
     \<and> (kind = Team_Preview \<longrightarrow> (\<forall>b\<in>set subs. bs_kind b = Team \<longrightarrow> set (bs_team_order b) = {1..n}))"
  by (simp add: submissions_agree_def make_request_def Let_def)

lemma action_kinds [simp]:
  "bs_kind default_action = Default" "bs_kind (slot_action k s) = k"
  "bs_kind (move_action i m t) = Move" "bs_kind (team_action p) = Team"
  "bs_team_order (team_action p) = p"
  by (simp_all add: action_defs)

lemma read_slots_ok:
  assumes args: "request_args_ok room ident side_id pokemon"
    and run: "emap (explicit k) slots = Inr subs"
    and kind: "k \<in> set (allowed_kinds kind)" "kind \<in> {Revival, Forced_Switch}"
  shows "reader_ok room (make_request ident kind side_id (int (length pokemon)) ai
      (subs @ [default_action]) u)"
proof (rule reader_ok_make [OF args])
  show "\<forall>b\<in>set (subs @ [default_action]). valid_submission b"
    using emap_explicit(2) [OF run] valid_default_action by auto
  show "submissions_agree (make_request ident kind side_id (int (length pokemon)) ai
      (subs @ [default_action]) u)"
    using kind emap_explicit(1) [OF run] by (auto simp: agree_make allowed_kinds_def)
qed

lemma read_revival_ok:
  assumes "request_args_ok room ident side_id pokemon"
    "read_revival ident side_id pokemon ai u = Inr r"
  shows "reader_ok room r"
proof -
  from assms(2) obtain subs where "emap (explicit Revive) (slots_where revivable pokemon) = Inr subs"
    "r = make_request ident Revival side_id (int (length pokemon)) ai (subs @ [default_action]) u"
    by (auto simp: read_revival_def ebind_eq_Inr default_submission_eq)
  with assms(1) show ?thesis by (simp add: read_slots_ok allowed_kinds_def)
qed

lemma read_forced_switch_ok:
  assumes "request_args_ok room ident side_id pokemon"
    "read_forced_switch ident side_id pokemon ai u = Inr r"
  shows "reader_ok room r"
proof -
  from assms(2) obtain subs where "emap (explicit Switch) (slots_where switchable pokemon) = Inr subs"
    "r = make_request ident Forced_Switch side_id (int (length pokemon)) ai (subs @ [default_action]) u"
    by (auto simp: read_forced_switch_def ebind_eq_Inr default_submission_eq)
  with assms(1) show ?thesis by (simp add: read_slots_ok allowed_kinds_def)
qed

text \<open>A team preview offers every order of the whole team, and the default.\<close>

lemma read_team_preview_Inr:
  assumes run: "read_team_preview ident side_id pokemon data = Inr r"
  obtains subs where "r = make_request ident Team_Preview side_id (int (length pokemon)) None
      (subs @ [default_action]) False"
    "\<And>b. b \<in> set subs \<longleftrightarrow> (\<exists>p. mset p = mset [1..int (length pokemon)] \<and> b = team_action p)"
    "\<forall>b\<in>set subs. valid_submission b"
proof -
  let ?n = "int (length pokemon)"
  let ?mk = "make_submission Team Explicit_Request None None False"
  from run obtain subs where subs: "emap ?mk (py_permutations [1..?n]) = Inr subs"
    and r: "r = make_request ident Team_Preview side_id ?n None (subs @ [default_action]) False"
    by (auto simp: read_team_preview_def Let_def ebind_eq_Inr default_submission_eq
        split: json.splits if_splits)
  have all: "\<exists>b. ?mk p = Inr b" if "p \<in> set (py_permutations [1..?n])" for p
    using subs that by (auto simp: emap_eq_Inr list_all2_conv_all_nth in_set_conv_nth)
  have mk: "?mk p = Inr b \<longleftrightarrow> b = team_action p \<and> valid_submission b" for p b
    by (simp add: make_submission_Inr team_action_def)
  have mem: "b \<in> set subs \<longleftrightarrow> (\<exists>p. mset p = mset [1..?n] \<and> b = team_action p)" for b
  proof -
    have "b \<in> set subs \<longleftrightarrow> (\<exists>p\<in>set (py_permutations [1..?n]). b = team_action p)"
      using all by (auto simp: emap_set [OF subs] mk)
    then show ?thesis unfolding set_py_permutations by blast
  qed
  have "\<forall>b\<in>set subs. valid_submission b" by (auto simp: emap_set [OF subs] mk)
  with r mem show thesis by (rule that)
qed

lemma read_team_preview_ok:
  assumes args: "request_args_ok room ident side_id pokemon"
    and run: "read_team_preview ident side_id pokemon data = Inr r"
  shows "reader_ok room r"
proof -
  let ?n = "int (length pokemon)"
  from read_team_preview_Inr [OF run] obtain subs where
    r: "r = make_request ident Team_Preview side_id ?n None (subs @ [default_action]) False"
    and mem: "\<And>b. b \<in> set subs \<longleftrightarrow> (\<exists>p. mset p = mset [1..?n] \<and> b = team_action p)"
    and valid: "\<forall>b\<in>set subs. valid_submission b" by blast
  have "set p = {1..?n}" if "mset p = mset [1..?n]" for p
    using mset_eq_setD [OF that] by simp
  then have "submissions_agree r"
    unfolding r agree_make by (auto simp: mem allowed_kinds_def)
  moreover have "\<forall>b\<in>set (subs @ [default_action]). valid_submission b"
    using valid valid_default_action by auto
  ultimately show ?thesis unfolding r by (intro reader_ok_make [OF args])
qed

lemma read_normal_move_ok:
  assumes args: "request_args_ok room ident side_id pokemon"
    and run: "read_normal_move ident side_id pokemon ai data u = Inr r"
  shows "reader_ok room r"
proof -
  from run obtain ar subs where subs: "normal_submissions ar pokemon = Inr subs"
    and r: "r = make_request ident Move_Request side_id (int (length pokemon)) ai subs u"
    by (auto simp: read_normal_move_def ebind_eq_Inr)
  have kinds: "bs_kind b \<in> {Move, Switch, Default}" if "b \<in> set subs" for b
    using that unfolding normal_submissions_set(1) [OF subs] normal_action_def by auto
  moreover have "default_action \<in> set subs"
    unfolding normal_submissions_set(1) [OF subs] normal_action_def by simp
  then have "\<exists>b\<in>set subs. bs_kind b = Default" by (rule bexI [rotated]) simp
  ultimately have "submissions_agree r"
    unfolding r agree_make by (auto simp: allowed_kinds_def)
  then show ?thesis
    unfolding r by (intro reader_ok_make [OF args] normal_submissions_set(2) [OF subs])
qed

lemma parse_side_ok:
  assumes "parse_side v = Inr (side_id, pokemon)"
  shows "side_id \<in> {''p1'', ''p2''}" "1 \<le> length pokemon" "length pokemon \<le> 6"
    "length (filter rp_active pokemon) \<le> 1"
  using assms
  by (auto simp: parse_side_def ebind_eq_Inr raise_if_eq_Inr min_team_size_def max_team_size_def
      dest: emap_Inr_length)

lemma require_rqid_ok: "require_rqid d = Inr n \<Longrightarrow> 0 \<le> n"
  by (auto simp: require_rqid_def split: option.splits json.splits if_splits)

text \<open>The branches of the reader, with what they share.\<close>

lemma read_request_data_Inr:
  assumes "read_request_data fr sha room v = Inr r"
  obtains d ident w t u f side_id pokemon ai where
    "require_object v = Inr d" "require_rqid d = Inr (ri_rqid ident)" "ri_room_id ident = room"
    "ri_request_digest ident = ''sha256:'' @ canonical_digest fr sha d"
    "parse_side (get_or JNull d ''side'') = Inr (side_id, pokemon)"
    "dispatch_request ident d w t u f side_id pokemon ai = Inr r"
proof -
  from assms obtain d where d: "require_object v = Inr d" by (auto simp: read_request_data_def ebind_eq_Inr)
  from assms d obtain n where n: "require_rqid d = Inr n"
    by (auto simp: read_request_data_def ebind_eq_Inr)
  define ident where "ident = \<lparr>ri_room_id = room, ri_rqid = n,
      ri_request_digest = ''sha256:'' @ canonical_digest fr sha d\<rparr>"
  note start = assms [unfolded read_request_data_def d ebind_Inr n Let_def ident_def [symmetric]]
  from start obtain w t u f side_id pokemon ai where
    side: "parse_side (get_or JNull d ''side'') = Inr (side_id, pokemon)"
    and rest: "dispatch_request ident d w t u f side_id pokemon ai = Inr r"
    by (auto simp: ebind_eq_Inr)
  have "require_rqid d = Inr (ri_rqid ident)" "ri_room_id ident = room"
    "ri_request_digest ident = ''sha256:'' @ canonical_digest fr sha d"
    using n by (simp_all add: ident_def)
  then show thesis using d side rest that by blast
qed

lemma dispatch_request_ok:
  assumes args: "request_args_ok room ident side_id pokemon"
    and run: "dispatch_request ident d w t u f side_id pokemon ai = Inr r"
  shows "reader_ok room r"
proof -
  have "reader_ok room (make_request ident Wait side_id (int (length pokemon)) None [] False)"
    by (rule reader_ok_make [OF args]) (simp_all add: agree_make)
  then show ?thesis
    using run read_team_preview_ok [OF args] read_revival_ok [OF args]
      read_forced_switch_ok [OF args] read_normal_move_ok [OF args]
    unfolding dispatch_request_def Let_def by (simp split: if_splits)
qed

lemma read_request_data_ok:
  assumes "read_request_data fr sha room v = Inr r"
  shows "reader_ok room r"
  using assms
proof (rule read_request_data_Inr)
  fix d ident w t u f side_id pokemon ai
  assume n: "require_rqid d = Inr (ri_rqid ident)" and room: "ri_room_id ident = room"
    and side: "parse_side (get_or JNull d ''side'') = Inr (side_id, pokemon)"
    and run: "dispatch_request ident d w t u f side_id pokemon ai = Inr r"
  have "request_args_ok room ident side_id pokemon"
    using parse_side_ok [OF side] require_rqid_ok [OF n] room by (simp add: request_args_ok_def)
  then show ?thesis using run by (rule dispatch_request_ok)
qed

lemma read_request_Inr:
  "read_request fr sha room payload = Inr r \<longleftrightarrow>
     (\<exists>v. json_loads payload = Inr v \<and> read_request_data fr sha room v = Inr r)"
  by (simp add: read_request_def ebind_eq_Inr loads_checked_Inr)

lemma read_request_ok: "read_request fr sha room payload = Inr r \<Longrightarrow> reader_ok room r"
  using read_request_data_ok by (auto simp: read_request_Inr)

text \<open>
  What the reconciler still has to check for such a request is what the reader cannot know:
  freshness, side, battle format, team size and the active Pokemon.
\<close>

lemma reader_ok_acceptable:
  assumes "reader_ok room r"
  shows "acceptable room r st latest \<longleftrightarrow>
     (case latest of None \<Rightarrow> True | Some l \<Rightarrow> l \<le> ri_rqid (dr_identity r))
     \<and> os_our_side st = Some (dr_side_id r) \<and> format_agrees st
     \<and> (\<exists>s. side st (dr_side_id r) = Inr s
          \<and> (sv_team_size s = None \<or> sv_team_size s = Some (dr_team_member_count r))
          \<and> active_agrees r s)"
  using assms unfolding reader_ok_def acceptable_def by blast

section \<open>The command names the action\<close>

lemma encode_actions [simp]:
  "encode_submission default_action = ''default''"
  "encode_submission (slot_action Switch s) = ''switch '' @ show_int s"
  "encode_submission (slot_action Revive s) = ''switch '' @ show_int s"
  "encode_submission (move_action s m t) =
     ''move '' @ show_int s @ (if t then '' terastallize'' else [])"
  "encode_submission (team_action p) = ''team '' @ concat (map show_int p)"
  by (simp_all add: encode_submission_def action_defs show_slot_def Let_def)

lemma show_int_no_space: "0 \<le> k \<Longrightarrow> CHR '' '' \<notin> set (show_int k)"
  using show_nat_digits is_dec_not_special by (auto simp: show_int_def)

lemma move_text_inj:
  assumes "show_int j @ (if t then '' terastallize'' else []) =
      show_int k @ (if u then '' terastallize'' else [])" "0 \<le> j" "0 \<le> k"
  shows "j = k \<and> t = u"
proof -
  have cut: "takeWhile (\<lambda>c. c \<noteq> CHR '' '') (show_int i @ (if b then '' terastallize'' else [])) = show_int i"
    if "0 \<le> i" for i b
  proof -
    have "\<forall>c\<in>set (show_int i). c \<noteq> CHR '' ''" using show_int_no_space [OF that] by blast
    then show ?thesis by (simp add: takeWhile_append2)
  qed
  from arg_cong [OF assms(1), of "takeWhile (\<lambda>c. c \<noteq> CHR '' '')"] have "show_int j = show_int k"
    using cut assms(2,3) by simp
  then have "j = k" by (rule show_int_inj)
  with assms(1) show ?thesis by (auto split: if_splits)
qed

lemma team_text_inj:
  assumes "concat (map show_int p) = concat (map show_int q)"
    "\<forall>k\<in>set p. 1 \<le> k \<and> k \<le> 6" "\<forall>k\<in>set q. 1 \<le> k \<and> k \<le> 6"
  shows "p = q"
proof -
  have one: "show_int k = [hd (show_int k)]" if "1 \<le> k \<and> k \<le> 6" for k
    using that by (simp add: show_int_def show_nat.simps [of "nat k"] nat_less_iff)
  have flat: "concat (map show_int xs) = map (\<lambda>k. hd (show_int k)) xs"
    if "\<forall>k\<in>set xs. 1 \<le> k \<and> k \<le> 6" for xs
    using that one by (induction xs) auto
  have eq: "map (\<lambda>k. hd (show_int k)) p = map (\<lambda>k. hd (show_int k)) q"
    using assms(1) flat [OF assms(2)] flat [OF assms(3)] by (simp only:)
  have "inj_on (\<lambda>k. hd (show_int k)) (set p \<union> set q)"
  proof (rule inj_onI)
    fix j k
    assume j: "j \<in> set p \<union> set q" and k: "k \<in> set p \<union> set q"
      and hd: "hd (show_int j) = hd (show_int k)"
    have "show_int j = [hd (show_int j)]" using j assms(2,3) by (intro one) blast
    also have "\<dots> = [hd (show_int k)]" by (simp only: hd)
    also have "\<dots> = show_int k" using k assms(2,3) by (intro one [symmetric]) blast
    finally show "j = k" by (rule show_int_inj)
  qed
  with eq show ?thesis by (simp only: inj_on_map_eq_map)
qed

lemma normal_action_cases:
  assumes "normal_action ar pokemon b"
  obtains "b = default_action"
  | i t where "b = move_action (int i + 1) (rm_move_id (ar_moves ar ! i)) t"
  | i where "b = slot_action Switch (int i + 1)"
  using assms unfolding normal_action_def by blast

lemma encode_inj_normal:
  assumes b: "normal_action ar pokemon b" and c: "normal_action ar pokemon c"
    and eq: "encode_submission b = encode_submission c"
  shows "b = c"
  using b
proof (cases rule: normal_action_cases)
  case 1
  from c show ?thesis by (cases rule: normal_action_cases) (use eq 1 in simp_all)
next
  case (2 i t)
  from c show ?thesis
  proof (cases rule: normal_action_cases)
    case (2 j u)
    with eq \<open>b = move_action (int i + 1) (rm_move_id (ar_moves ar ! i)) t\<close>
    have "int i + 1 = int j + 1 \<and> t = u" by (intro move_text_inj) simp_all
    with 2 \<open>b = move_action (int i + 1) (rm_move_id (ar_moves ar ! i)) t\<close> show ?thesis by simp
  qed (use eq 2 in simp_all)
next
  case (3 i)
  from c show ?thesis
  proof (cases rule: normal_action_cases)
    case (3 j)
    with eq \<open>b = slot_action Switch (int i + 1)\<close> have "show_int (int i + 1) = show_int (int j + 1)"
      by simp
    then have "int i + 1 = int j + 1" by (rule show_int_inj)
    with 3 \<open>b = slot_action Switch (int i + 1)\<close> show ?thesis by simp
  qed (use eq 3 in simp_all)
qed

lemma encode_inj_slots:
  assumes "emap (explicit k) slots = Inr subs" "k \<in> {Switch, Revive}"
  shows "inj_on encode_submission (set (subs @ [default_action]))"
proof (rule inj_onI)
  fix b c
  assume bc: "b \<in> set (subs @ [default_action])" "c \<in> set (subs @ [default_action])"
    "encode_submission b = encode_submission c"
  have form: "x = default_action \<or> (\<exists>s. x = slot_action k s)" if "x \<in> set (subs @ [default_action])" for x
    using that emap_explicit(1) [OF assms(1)] by auto
  from form [OF bc(1)] form [OF bc(2)] bc(3) assms(2) show "b = c"
    by (auto dest: show_int_inj)
qed

lemma encode_inj_team:
  assumes mem: "\<And>b. b \<in> set subs \<longleftrightarrow> (\<exists>p. mset p = mset [1..int n] \<and> b = team_action p)"
    and "n \<le> 6"
  shows "inj_on encode_submission (set (subs @ [default_action]))"
proof (rule inj_onI)
  fix b c
  assume bc: "b \<in> set (subs @ [default_action])" "c \<in> set (subs @ [default_action])"
    and eq: "encode_submission b = encode_submission c"
  have form: "x = default_action \<or> (\<exists>p. x = team_action p \<and> (\<forall>k\<in>set p. 1 \<le> k \<and> k \<le> 6))"
    if x: "x \<in> set (subs @ [default_action])" for x
  proof -
    have "\<forall>k\<in>set p. 1 \<le> k \<and> k \<le> 6" if "mset p = mset [1..int n]" for p
      using mset_eq_setD [OF that] assms(2) by simp
    with x mem show ?thesis by auto
  qed
  from form [OF bc(1)] show "b = c"
  proof
    assume b: "b = default_action"
    from form [OF bc(2)] b eq show ?thesis by auto
  next
    assume "\<exists>p. b = team_action p \<and> (\<forall>k\<in>set p. 1 \<le> k \<and> k \<le> 6)"
    then obtain p where p: "b = team_action p" "\<forall>k\<in>set p. 1 \<le> k \<and> k \<le> 6" by blast
    from form [OF bc(2)] show ?thesis
    proof
      assume "\<exists>q. c = team_action q \<and> (\<forall>k\<in>set q. 1 \<le> k \<and> k \<le> 6)"
      then obtain q where q: "c = team_action q" "\<forall>k\<in>set q. 1 \<le> k \<and> k \<le> 6" by blast
      from eq p(1) q(1) have "concat (map show_int p) = concat (map show_int q)" by simp
      from team_text_inj [OF this p(2) q(2)] p(1) q(1) show ?thesis by simp
    qed (use eq p in simp)
  qed
qed

lemma dispatch_request_encode:
  assumes n: "length pokemon \<le> 6"
    and run: "dispatch_request ident d w t u f side_id pokemon ai = Inr r"
  shows "inj_on encode_submission (set (ss_submissions (dr_safe_submissions r)))"
proof -
  have "inj_on encode_submission (set (ss_submissions (dr_safe_submissions r)))"
    if preview: "read_team_preview ident side_id pokemon d = Inr r"
    using preview
  proof (rule read_team_preview_Inr)
    fix subs
    assume r: "r = make_request ident Team_Preview side_id (int (length pokemon)) None
        (subs @ [default_action]) False"
      and mem: "\<And>b. b \<in> set subs \<longleftrightarrow> (\<exists>p. mset p = mset [1..int (length pokemon)] \<and> b = team_action p)"
    from encode_inj_team [OF mem n] show ?thesis by (simp add: r make_request_def)
  qed
  moreover have "inj_on encode_submission (set (ss_submissions (dr_safe_submissions r)))"
    if "read_revival ident side_id pokemon ai u = Inr r"
  proof -
    from that obtain subs where s: "emap (explicit Revive) (slots_where revivable pokemon) = Inr subs"
      "r = make_request ident Revival side_id (int (length pokemon)) ai (subs @ [default_action]) u"
      by (auto simp: read_revival_def ebind_eq_Inr default_submission_eq)
    from encode_inj_slots [OF s(1)] show ?thesis by (simp add: s(2) make_request_def)
  qed
  moreover have "inj_on encode_submission (set (ss_submissions (dr_safe_submissions r)))"
    if "read_forced_switch ident side_id pokemon ai u = Inr r"
  proof -
    from that obtain subs where s: "emap (explicit Switch) (slots_where switchable pokemon) = Inr subs"
      "r = make_request ident Forced_Switch side_id (int (length pokemon)) ai (subs @ [default_action]) u"
      by (auto simp: read_forced_switch_def ebind_eq_Inr default_submission_eq)
    from encode_inj_slots [OF s(1)] show ?thesis by (simp add: s(2) make_request_def)
  qed
  moreover have "inj_on encode_submission (set (ss_submissions (dr_safe_submissions r)))"
    if "read_normal_move ident side_id pokemon ai d u = Inr r"
  proof -
    from that obtain ar subs where s: "normal_submissions ar pokemon = Inr subs"
      "r = make_request ident Move_Request side_id (int (length pokemon)) ai subs u"
      by (auto simp: read_normal_move_def ebind_eq_Inr)
    have "inj_on encode_submission (set subs)"
      by (rule inj_onI) (simp add: normal_submissions_set(1) [OF s(1)] encode_inj_normal)
    then show ?thesis by (simp add: s(2) make_request_def)
  qed
  moreover have "inj_on encode_submission (set (ss_submissions (dr_safe_submissions
      (make_request ident Wait side_id (int (length pokemon)) None [] False))))"
    by (simp add: make_request_def)
  ultimately show ?thesis
    using run unfolding dispatch_request_def Let_def by (simp split: if_splits)
qed

lemma read_request_encode:
  assumes "read_request fr sha room payload = Inr r"
  shows "inj_on encode_submission (set (ss_submissions (dr_safe_submissions r)))"
proof -
  from assms obtain v where "read_request_data fr sha room v = Inr r" by (auto simp: read_request_Inr)
  then show ?thesis
  proof (rule read_request_data_Inr)
    fix d ident w t u f side_id pokemon ai
    assume side: "parse_side (get_or JNull d ''side'') = Inr (side_id, pokemon)"
      and run: "dispatch_request ident d w t u f side_id pokemon ai = Inr r"
    from parse_side_ok(3) [OF side] run show ?thesis by (rule dispatch_request_encode)
  qed
qed
end
