(* ===== verification/Reducer_History.thy ===== *)
theory Reducer_History
  imports Reducer_Inv
begin

text \<open>
  What the reducer never forgets, and what an event never touches. \<open>state_extends\<close>
  relates an observation to every later one: the index grows, the logs of evidence and rules
  are extended at the end, a Pokemon keeps its position, its revealed moves and its closed
  evidence intervals, an assigned side and the started and ended flags stay. \<open>event_sides\<close>
  names the sides an event speaks of; the other side's view is left as it is.
  The reducer interprets \<open>ordered_machine\<close> with the invariant and this order.
\<close>

section \<open>The history order\<close>

definition prefix_of :: "'a list \<Rightarrow> 'a list \<Rightarrow> bool" where
  "prefix_of xs ys \<longleftrightarrow> (\<exists>zs. ys = xs @ zs)"

definition interval_kept :: "evidence_interval \<Rightarrow> evidence_interval \<Rightarrow> bool" where
  "interval_kept a b \<longleftrightarrow> iv_value b = iv_value a \<and> iv_source b = iv_source a
     \<and> iv_from b = iv_from a \<and> (iv_until a = None \<or> iv_until b = iv_until a)"

text \<open>\<open>rel\<close> at every old position; new elements only at the end.\<close>

definition grown_by :: "('a \<Rightarrow> 'a \<Rightarrow> bool) \<Rightarrow> 'a list \<Rightarrow> 'a list \<Rightarrow> bool" where
  "grown_by rel xs ys \<longleftrightarrow> length xs \<le> length ys \<and> list_all2 rel xs (take (length xs) ys)"

definition pokemon_extends :: "pokemon_view \<Rightarrow> pokemon_view \<Rightarrow> bool" where
  "pokemon_extends a b \<longleftrightarrow> pv_side_id b = pv_side_id a
     \<and> prefix_of (pv_revealed_moves a) (pv_revealed_moves b)
     \<and> grown_by interval_kept (pv_item_intervals a) (pv_item_intervals b)
     \<and> grown_by interval_kept (pv_ability_intervals a) (pv_ability_intervals b)
     \<and> grown_by interval_kept (pv_identity_intervals a) (pv_identity_intervals b)"

definition side_extends :: "side_view \<Rightarrow> side_view \<Rightarrow> bool" where
  "side_extends a b \<longleftrightarrow> sv_side_id b = sv_side_id a
     \<and> grown_by pokemon_extends (sv_pokemon a) (sv_pokemon b)"

definition state_extends :: "observed_state \<Rightarrow> observed_state \<Rightarrow> bool" where
  "state_extends a b \<longleftrightarrow> os_event_index a \<le> os_event_index b
     \<and> os_our_user_id b = os_our_user_id a
     \<and> (os_our_side a \<noteq> None \<longrightarrow> os_our_side b = os_our_side a)
     \<and> prefix_of (os_rules a) (os_rules b)
     \<and> prefix_of (os_visible_evidence a) (os_visible_evidence b)
     \<and> (os_room_initialized a \<longrightarrow> os_room_initialized b)
     \<and> (os_battle_started a \<longrightarrow> os_battle_started b) \<and> (os_tied a \<longrightarrow> os_tied b)
     \<and> (os_team_preview_started a \<longrightarrow> os_team_preview_started b)
     \<and> (os_winner a \<noteq> None \<longrightarrow> os_winner b \<noteq> None)
     \<and> os_ignored_display_count a \<le> os_ignored_display_count b
     \<and> side_extends (os_p1 a) (os_p1 b) \<and> side_extends (os_p2 a) (os_p2 b)"

lemma prefix_of_refl [simp]: "prefix_of xs xs"
  by (simp add: prefix_of_def)

lemma prefix_of_append [simp]: "prefix_of xs (xs @ ys)"
  by (simp add: prefix_of_def)

lemma prefix_of_trans: "prefix_of xs ys \<Longrightarrow> prefix_of ys zs \<Longrightarrow> prefix_of xs zs"
  by (auto simp: prefix_of_def)

lemma interval_kept_refl [simp]: "interval_kept a a"
  by (simp add: interval_kept_def)

lemma interval_kept_trans: "interval_kept a b \<Longrightarrow> interval_kept b c \<Longrightarrow> interval_kept a c"
  by (auto simp: interval_kept_def)

lemma grown_by_iff:
  "grown_by rel xs ys \<longleftrightarrow> length xs \<le> length ys \<and> (\<forall>i<length xs. rel (xs ! i) (ys ! i))"
  by (auto simp: grown_by_def list_all2_conv_all_nth)

lemma grown_by_refl: "(\<And>x. rel x x) \<Longrightarrow> grown_by rel xs xs"
  by (simp add: grown_by_iff)

lemma grown_by_trans:
  assumes "\<And>x y z. rel x y \<Longrightarrow> rel y z \<Longrightarrow> rel x z" "grown_by rel xs ys" "grown_by rel ys zs"
  shows "grown_by rel xs zs"
  using assms(2,3) unfolding grown_by_iff by (meson assms(1) le_trans less_le_trans)

lemma grown_by_map: "(\<And>x. x \<in> set xs \<Longrightarrow> rel x (f x)) \<Longrightarrow> grown_by rel xs (map f xs)"
  by (simp add: grown_by_iff)

lemma grown_by_append: "grown_by rel xs ys \<Longrightarrow> grown_by rel xs (ys @ zs)"
  by (auto simp: grown_by_iff nth_append)

lemma grown_by_update:
  "grown_by rel xs ys \<Longrightarrow> (i < length xs \<Longrightarrow> rel (xs ! i) y) \<Longrightarrow> grown_by rel xs (ys[i := y])"
  unfolding grown_by_iff by (metis length_list_update nth_list_update_eq nth_list_update_neq
      order_less_le_trans)

lemma pokemon_extends_refl [simp]: "pokemon_extends a a"
  by (simp add: pokemon_extends_def grown_by_refl)

lemma pokemon_extends_trans:
  assumes "pokemon_extends a b" "pokemon_extends b c"
  shows "pokemon_extends a c"
  using assms unfolding pokemon_extends_def
  by (auto intro: prefix_of_trans grown_by_trans [OF interval_kept_trans])

lemma grown_pokemon_refl [simp]: "grown_by pokemon_extends xs xs"
  by (simp add: grown_by_refl)

lemma side_extends_refl [simp]: "side_extends a a"
  by (simp add: side_extends_def grown_by_refl)

lemma side_extends_trans: "side_extends a b \<Longrightarrow> side_extends b c \<Longrightarrow> side_extends a c"
  unfolding side_extends_def by (auto intro: grown_by_trans [OF pokemon_extends_trans])

lemma state_extends_refl: "state_extends a a"
  by (simp add: state_extends_def)

lemma state_extends_trans:
  assumes "state_extends a b" "state_extends b c"
  shows "state_extends a c"
proof -
  have "side_extends (os_p1 a) (os_p1 c)" "side_extends (os_p2 a) (os_p2 c)"
    "prefix_of (os_rules a) (os_rules c)" "prefix_of (os_visible_evidence a) (os_visible_evidence c)"
    using assms unfolding state_extends_def by (blast intro: side_extends_trans prefix_of_trans)+
  moreover have "os_our_side a \<noteq> None \<longrightarrow> os_our_side c = os_our_side a"
    using assms unfolding state_extends_def by metis
  moreover have "os_event_index a \<le> os_event_index c"
    "os_ignored_display_count a \<le> os_ignored_display_count c"
    using assms unfolding state_extends_def by linarith+
  ultimately show ?thesis using assms unfolding state_extends_def by simp
qed

section \<open>Which sides an event speaks of\<close>

fun metadata_sides :: "metadata_event \<Rightarrow> string set" where
  "metadata_sides (PlayerDeclared ei sd u d) = {sd}"
| "metadata_sides (TeamSizeDeclared ei sd n) = {sd}"
| "metadata_sides (PreviewPokemonDeclared ei sd d h) = {sd}"
| "metadata_sides (PreviewCleared ei) = {''p1'', ''p2''}"
| "metadata_sides _ = {}"

fun boost_sides :: "boost_event \<Rightarrow> string set" where
  "boost_sides (BoostChanged ei sd sl n stat mode amount) = {sd}"
| "boost_sides (BoostsSwapped ei sd sl n tsd tsl tn stats) = {sd, tsd}"
| "boost_sides (BoostsCopied ei sd sl n ssd ssl sn stats) = {sd}"
| "boost_sides (BoostsCleared ei sd sl n scope) =
     (case sd of None \<Rightarrow> {''p1'', ''p2''} | Some s \<Rightarrow> {s})"
| "boost_sides (BoostsInverted ei sd sl n) = {sd}"

fun attribute_side :: "attribute_event \<Rightarrow> string" where
  "attribute_side (ItemChanged ei sd sl n item action an) = sd"
| "attribute_side (AbilityChanged ei sd sl n ab action an) = sd"
| "attribute_side (IdentityChanged ei sd sl n d hp) = sd"
| "attribute_side (FormChanged ei sd sl n kind v hp) = sd"
| "attribute_side (PokemonTransformed ei sd sl n tsd tsl tn) = sd"
| "attribute_side (Terastallized ei sd sl n t) = sd"
| "attribute_side (VolatileChanged ei sd sl n v action an) = sd"
| "attribute_side (RechargeChanged ei sd sl n b) = sd"

fun field_sides :: "field_event \<Rightarrow> string set" where
  "field_sides (SideConditionChanged ei sd c a) = {sd}"
| "field_sides (SideConditionsSwapped ei) = {''p1'', ''p2''}"
| "field_sides _ = {}"

fun event_sides :: "battle_event \<Rightarrow> string set" where
  "event_sides (Metadata e) = metadata_sides e"
| "event_sides (Pokemon e) = {pk_side e}"
| "event_sides (Boost e) = boost_sides e"
| "event_sides (Attribute e) = {attribute_side e}"
| "event_sides (Field e) = field_sides e"
| "event_sides _ = {}"

text \<open>
  One step of the reducer, told by what it may do: \<open>step_ok X a b\<close> says that \<open>b\<close>
  extends \<open>a\<close> and differs on the sides in \<open>X\<close> only.
\<close>

definition step_ok :: "string set \<Rightarrow> observed_state \<Rightarrow> observed_state \<Rightarrow> bool" where
  "step_ok X a b \<longleftrightarrow> state_extends a b
     \<and> (''p1'' \<notin> X \<longrightarrow> os_p1 b = os_p1 a) \<and> (''p2'' \<notin> X \<longrightarrow> os_p2 b = os_p2 a)"

definition sides_named :: "observed_state \<Rightarrow> bool" where
  "sides_named st \<longleftrightarrow> sv_side_id (os_p1 st) = ''p1'' \<and> sv_side_id (os_p2 st) = ''p2''"

lemma wf_sides_named: "wf_state st \<Longrightarrow> sides_named st"
  by (simp add: wf_state_def wf_side_def sides_named_def)

lemma step_ok_refl: "step_ok X a a"
  by (simp add: step_ok_def state_extends_refl)

lemma step_ok_trans: "step_ok X a b \<Longrightarrow> step_ok X b c \<Longrightarrow> step_ok X a c"
  unfolding step_ok_def by (auto intro: state_extends_trans)

lemma step_ok_weaken: "step_ok X a b \<Longrightarrow> X \<subseteq> Y \<Longrightarrow> step_ok Y a b"
  unfolding step_ok_def by auto

lemma step_ok_add_evidence: "step_ok X a b \<Longrightarrow> step_ok X a (add_evidence b ve)"
  unfolding step_ok_def state_extends_def add_evidence_def
  by (auto intro: prefix_of_trans)

lemma sides_named_step: "sides_named a \<Longrightarrow> step_ok X a b \<Longrightarrow> sides_named b"
  by (auto simp: sides_named_def step_ok_def state_extends_def side_extends_def)

lemma step_ok_update_side:
  assumes "sides_named st" "side st sid = Inr s" "side_extends s s'" "update_side st s' = Inr st'"
  shows "step_ok {sid} st st'"
  using assms
  by (auto simp: sides_named_def side_eq_Inr side_extends_def update_side_def step_ok_def
      state_extends_def)

lemma side_extends_replace:
  assumes "pokemon_extends (deref s r) pv"
  shows "side_extends s (replace_pokemon s r pv)"
  using assms
  by (simp add: side_extends_def replace_pokemon_def deref_def grown_by_update grown_by_refl)

lemma step_ok_with_active:
  assumes named: "sides_named st" and run: "with_active st sid n f = Inr st'"
    and f: "\<And>pv pv'. f pv = Inr pv' \<Longrightarrow> pokemon_extends pv pv'"
  shows "step_ok {sid} st st'"
proof -
  from run obtain s r pv where s: "side st sid = Inr s" and pv: "f (deref s r) = Inr pv"
    and upd: "update_side st (replace_pokemon s r pv) = Inr st'"
    by (auto simp: with_active_def ebind_eq_Inr)
  show ?thesis
    by (rule step_ok_update_side [OF named s side_extends_replace [OF f [OF pv]] upd])
qed

section \<open>The handlers\<close>

lemma grown_by_close: "grown_by interval_kept ivs (close_open_interval ivs ei)"
  unfolding close_open_interval_def by (rule grown_by_map) (simp add: interval_kept_def)

lemma grown_by_open: "grown_by interval_kept ivs (open_interval ivs v ei)"
  unfolding open_interval_def by (rule grown_by_append [OF grown_by_close])

lemma pokemon_extends_deactivate [simp]: "pokemon_extends pv (deactivate ei pv)"
  by (simp add: pokemon_extends_def deactivate_def end_ability_suppression_on_switch_out_def
      grown_by_refl grown_by_close)

lemma side_extends_activate: "side_extends s (activate_pokemon s n d h status ei)"
proof -
  let ?d = "map (deactivate ei) (sv_pokemon s)"
  have d: "grown_by pokemon_extends (sv_pokemon s) ?d" by (rule grown_by_map) simp
  have upd: "grown_by pokemon_extends (sv_pokemon s) (?d[r := (?d ! r)
      \<lparr>pv_active := True, pv_hp := Some h, pv_status := status, pv_fainted := False,
        pv_current_details := Some d, pv_boosts := zero_boosts, pv_volatiles := [],
        pv_recharging := False, pv_transform_target := None\<rparr>])" for r
  proof (rule grown_by_update [OF d])
    assume "r < length (sv_pokemon s)"
    then have "pokemon_extends (sv_pokemon s ! r) (?d ! r)" by simp
    then show "pokemon_extends (sv_pokemon s ! r) ((?d ! r)
      \<lparr>pv_active := True, pv_hp := Some h, pv_status := status, pv_fainted := False,
        pv_current_details := Some d, pv_boosts := zero_boosts, pv_volatiles := [],
        pv_recharging := False, pv_transform_target := None\<rparr>)"
      by (auto simp: pokemon_extends_def)
  qed
  show ?thesis
    using upd grown_by_append [OF d]
    by (auto simp: activate_pokemon_def Let_def side_extends_def split: option.splits)
qed

lemma extends_frame:
  assumes "pv_side_id b = pv_side_id a" "pv_revealed_moves b = pv_revealed_moves a"
    "pv_item_intervals b = pv_item_intervals a" "pv_ability_intervals b = pv_ability_intervals a"
    "pv_identity_intervals b = pv_identity_intervals a"
  shows "pokemon_extends a b"
  using assms by (simp add: pokemon_extends_def grown_by_refl)

lemma step_metadata:
  assumes n: "sides_named st" and run: "reduce_metadata st e = Inr st'"
  shows "step_ok (metadata_sides e) st st'"
proof (cases e)
  case (PlayerDeclared ei sd u d)
  let ?mid = "st\<lparr>os_our_side := (if u = os_our_user_id st \<and> os_our_side st = None
      then Some sd else os_our_side st)\<rparr>"
  from run PlayerDeclared obtain s where s: "side st sd = Inr s"
    and upd: "update_side ?mid (s\<lparr>sv_user_id := Some u, sv_display_name := Some d\<rparr>) = Inr st'"
    by (auto simp: ebind_eq_Inr Let_def)
  have mid: "step_ok {sd} st ?mid" by (simp add: step_ok_def state_extends_def)
  moreover have "step_ok {sd} ?mid st'"
  proof (rule step_ok_update_side [OF _ _ _ upd])
    show "sides_named ?mid" using n by (simp add: sides_named_def)
    show "side ?mid sd = Inr s" using s by (simp add: side_eq_Inr)
    show "side_extends s (s\<lparr>sv_user_id := Some u, sv_display_name := Some d\<rparr>)"
      by (simp add: side_extends_def grown_by_refl)
  qed
  ultimately show ?thesis using PlayerDeclared by (auto intro: step_ok_trans)
next
  case (TeamSizeDeclared ei sd k)
  with run obtain s where s: "side st sd = Inr s"
    and upd: "update_side st (s\<lparr>sv_team_size := Some k\<rparr>) = Inr st'"
    by (auto simp: ebind_eq_Inr)
  have "step_ok {sd} st st'"
    by (rule step_ok_update_side [OF n s _ upd]) (simp add: side_extends_def)
  with TeamSizeDeclared show ?thesis by simp
next
  case (PreviewPokemonDeclared ei sd d h)
  with run obtain s where s: "side st sd = Inr s" and upd: "update_side st (s\<lparr>sv_preview_roster :=
      sv_preview_roster s @ [\<lparr>pp_details = d, pp_has_item = h\<rparr>]\<rparr>) = Inr st'"
    by (auto simp: ebind_eq_Inr)
  have "step_ok {sd} st st'"
    by (rule step_ok_update_side [OF n s _ upd]) (simp add: side_extends_def)
  with PreviewPokemonDeclared show ?thesis by simp
qed (use run in \<open>auto simp: step_ok_def state_extends_def side_extends_def grown_by_refl\<close>)

lemma step_progress: "reduce_progress st e = Inr st' \<Longrightarrow> step_ok {} st st'"
  by (cases e) (auto simp: step_ok_def state_extends_def)

lemma step_switch:
  assumes "sides_named st" "reduce_switch st ei sid n d hp = Inr st'"
  shows "step_ok {sid} st st'"
proof -
  from assms(2) obtain h s where s: "side st sid = Inr s"
    and upd: "update_side st (activate_pokemon s n d h (tok_status hp) ei) = Inr st'"
    by (auto simp: reduce_switch_def ebind_eq_Inr)
  show ?thesis by (rule step_ok_update_side [OF assms(1) s side_extends_activate upd])
qed

lemma step_move:
  assumes n: "sides_named st" and run: "reduce_move st ei sid sl nick m an = Inr st'"
  shows "step_ok {sid} st st'"
proof -
  from run obtain s r st1 where s: "side st sid = Inr s"
    and one: "(if m \<notin> set (pv_revealed_moves (deref s r)) then
          update_side st (replace_pokemon s r
            ((deref s r)\<lparr>pv_revealed_moves := pv_revealed_moves (deref s r) @ [m]\<rparr>))
        else Inr st) = Inr st1"
    and st': "\<exists>ve. st' = add_evidence st1 ve"
    by (auto simp: reduce_move_def ebind_eq_Inr)
  have ext: "pokemon_extends (deref s r)
      ((deref s r)\<lparr>pv_revealed_moves := pv_revealed_moves (deref s r) @ [m]\<rparr>)"
    by (simp add: pokemon_extends_def grown_by_refl)
  have "step_ok {sid} st st1"
  proof (cases "m \<in> set (pv_revealed_moves (deref s r))")
    case True
    then show ?thesis using one by (simp add: step_ok_refl)
  next
    case False
    then have "update_side st (replace_pokemon s r
        ((deref s r)\<lparr>pv_revealed_moves := pv_revealed_moves (deref s r) @ [m]\<rparr>)) = Inr st1"
      using one by simp
    then show ?thesis by (rule step_ok_update_side [OF n s side_extends_replace [OF ext]])
  qed
  with st' show ?thesis by (auto intro: step_ok_add_evidence)
qed

lemma step_health:
  assumes n: "sides_named st" and run: "reduce_health st sid sl nick hp = Inr st'"
  shows "step_ok {sid} st st'"
proof -
  from run obtain s r h where s: "side st sid = Inr s" and
    upd: "update_side st (replace_pokemon s r ((deref s r)
      \<lparr>pv_hp := Some h, pv_status := tok_status hp, pv_fainted := tok_fainted hp\<rparr>)) = Inr st'"
    by (auto simp: reduce_health_def ebind_eq_Inr)
  show ?thesis
    by (rule step_ok_update_side [OF n s side_extends_replace upd]) (simp add: extends_frame)
qed

lemma step_pokemon:
  assumes n: "sides_named st" and run: "reduce_pokemon st e = Inr st'"
  shows "step_ok {pk_side e} st st'"
proof (cases e)
  case (PokemonFainted ei sid sl nick)
  then show ?thesis using n run
    by (auto simp: reduce_faint_def ebind_eq_Inr extends_frame elim!: step_ok_with_active)
next
  case (MovePrevented ei sid sl nick rs m)
  then show ?thesis using run
    by (auto simp: reduce_move_prevented_def step_ok_add_evidence step_ok_refl)
next
  case (StatusChanged ei sid sl nick status an)
  then show ?thesis using n run
    by (auto simp: reduce_status_def extends_frame elim!: step_ok_with_active)
next
  case (TeamStatusCured ei sid)
  with run obtain s where s: "side st sid = Inr s"
    and upd: "update_side st (s\<lparr>sv_pokemon := map (\<lambda>pv. pv\<lparr>pv_status := None\<rparr>) (sv_pokemon s)\<rparr>)
      = Inr st'"
    by (auto simp: reduce_team_cure_def ebind_eq_Inr)
  have "side_extends s (s\<lparr>sv_pokemon := map (\<lambda>pv. pv\<lparr>pv_status := None\<rparr>) (sv_pokemon s)\<rparr>)"
    by (auto simp: side_extends_def extends_frame intro: grown_by_map)
  then show ?thesis using step_ok_update_side [OF n s _ upd] TeamStatusCured by simp
qed (use n run in \<open>auto intro: step_switch step_move step_health\<close>)

lemma step_boosts_swapped:
  assumes n: "sides_named st" and run: "reduce_boosts_swapped st sd nick tsd tn stats = Inr st'"
  shows "step_ok {sd, tsd} st st'"
proof -
  from run obtain src_side tgt_side src tgt sb tb where
    s: "side st sd = Inr src_side" and t: "side st tsd = Inr tgt_side" and
    rest: "(if sd = tsd then
        update_side st (replace_pokemon src_side src ((deref src_side src)\<lparr>pv_boosts := sb\<rparr>))
      else ebind (update_side st (replace_pokemon src_side src ((deref src_side src)\<lparr>pv_boosts := sb\<rparr>)))
        (\<lambda>st1. ebind (side st1 tsd) (\<lambda>tgt_side'.
          update_side st1 (replace_pokemon tgt_side' tgt ((deref tgt_side tgt)\<lparr>pv_boosts := tb\<rparr>)))))
      = Inr st'"
    by (auto simp: reduce_boosts_swapped_def ebind_eq_Inr Let_def)
  have src_ext: "side_extends src_side
      (replace_pokemon src_side src ((deref src_side src)\<lparr>pv_boosts := sb\<rparr>))"
    by (rule side_extends_replace) (simp add: extends_frame)
  show ?thesis
  proof (cases "sd = tsd")
    case True
    with rest have "step_ok {sd} st st'"
      using step_ok_update_side [OF n s src_ext] by simp
    then show ?thesis by (rule step_ok_weaken) simp
  next
    case False
    with rest obtain st1 tgt_side' where
      one: "update_side st (replace_pokemon src_side src ((deref src_side src)\<lparr>pv_boosts := sb\<rparr>)) = Inr st1"
      and t1: "side st1 tsd = Inr tgt_side'"
      and two: "update_side st1 (replace_pokemon tgt_side' tgt ((deref tgt_side tgt)\<lparr>pv_boosts := tb\<rparr>))
        = Inr st'"
      by (auto simp: ebind_eq_Inr)
    have ok1: "step_ok {sd} st st1" by (rule step_ok_update_side [OF n s src_ext one])
    then have n1: "sides_named st1" using n sides_named_step by blast
    have "tgt_side' = tgt_side" using ok1 t t1 False by (auto simp: side_eq_Inr step_ok_def)
    then have "side_extends tgt_side' (replace_pokemon tgt_side' tgt ((deref tgt_side tgt)\<lparr>pv_boosts := tb\<rparr>))"
      by (auto intro!: side_extends_replace simp: extends_frame)
    from step_ok_update_side [OF n1 t1 this two] have "step_ok {tsd} st1 st'" .
    with ok1 show ?thesis
      by (blast intro: step_ok_trans step_ok_weaken)
  qed
qed

lemma step_boosts_copied:
  assumes n: "sides_named st" and run: "reduce_boosts_copied st sd nick ssd sn stats = Inr st'"
  shows "step_ok {sd} st st'"
proof -
  from run obtain tgt_side tgt tb where s: "side st sd = Inr tgt_side"
    and upd: "update_side st (replace_pokemon tgt_side tgt ((deref tgt_side tgt)\<lparr>pv_boosts := tb\<rparr>)) = Inr st'"
    by (auto simp: reduce_boosts_copied_def ebind_eq_Inr)
  show ?thesis
    by (rule step_ok_update_side [OF n s side_extends_replace upd]) (simp add: extends_frame)
qed

lemma side_extends_clear: "clear_active_boosts s scope = Inr s' \<Longrightarrow> side_extends s s'"
  by (auto simp: clear_active_boosts_def ebind_eq_Inr extends_frame split: option.splits
      intro!: side_extends_replace)

lemma step_boosts_cleared:
  assumes n: "sides_named st" and run: "reduce_boosts_cleared st sd nick scope = Inr st'"
  shows "step_ok (case sd of None \<Rightarrow> {''p1'', ''p2''} | Some s \<Rightarrow> {s}) st st'"
proof (cases sd)
  case None
  with run show ?thesis
    by (auto simp: reduce_boosts_cleared_def ebind_eq_Inr step_ok_def state_extends_def
        side_extends_clear)
next
  case (Some i)
  with run obtain s r bs where s: "side st i = Inr s"
    and upd: "update_side st (replace_pokemon s r ((deref s r)\<lparr>pv_boosts := bs\<rparr>)) = Inr st'"
    by (auto simp: reduce_boosts_cleared_def ebind_eq_Inr)
  have "step_ok {i} st st'"
    by (rule step_ok_update_side [OF n s side_extends_replace upd]) (simp add: extends_frame)
  with Some show ?thesis by simp
qed

lemma step_boost:
  assumes n: "sides_named st" and run: "reduce_boost st e = Inr st'"
  shows "step_ok (boost_sides e) st st'"
proof (cases e)
  case (BoostChanged ei sd sl nick stat mode amount)
  then show ?thesis using n run
    by (auto simp: reduce_boost_changed_def ebind_eq_Inr extends_frame elim!: step_ok_with_active)
next
  case (BoostsInverted ei sd sl nick)
  then show ?thesis using n run
    by (auto simp: reduce_boosts_inverted_def extends_frame elim!: step_ok_with_active)
qed (use n run in \<open>auto intro: step_boosts_swapped step_boosts_copied\<close>,
     use n run step_boosts_cleared in fastforce)

lemma step_evidence_after:
  assumes "step_ok X st st1" "st' = add_evidence st1 ve"
  shows "step_ok X st st'"
  using assms by (simp add: step_ok_add_evidence)

lemma step_form:
  assumes n: "sides_named st" and run: "reduce_form st ei sid sl nick kind v hp = Inr st'"
  shows "step_ok {sid} st st'"
proof -
  let ?f = "\<lambda>pv. ebind (token_to_observation hp sid (os_our_side st)) (\<lambda>hp_obs.
         Inr (if kind = Persistent_Details then
                pv\<lparr>pv_switch_identity := normalize_identity_details v,
                   pv_current_details := Some v, pv_hp := Some hp_obs,
                   pv_status := tok_status hp, pv_fainted := tok_fainted hp\<rparr>
              else
                pv\<lparr>pv_current_details := Some v, pv_hp := Some hp_obs,
                   pv_status := tok_status hp, pv_fainted := tok_fainted hp\<rparr>))"
  from run obtain st1 where one: "with_active st sid nick ?f = Inr st1"
    and st': "\<exists>ve. st' = add_evidence st1 ve"
    by (auto simp: reduce_form_def ebind_eq_Inr)
  have "pokemon_extends pv pv'" if "?f pv = Inr pv'" for pv pv'
    using that by (auto simp: ebind_eq_Inr extends_frame split: if_splits)
  from step_ok_with_active [OF n one this] st' show ?thesis
    by (auto intro: step_ok_add_evidence)
qed

lemma step_transform:
  assumes n: "sides_named st" and run: "reduce_transform st ei sid sl nick t = Inr st'"
  shows "step_ok {sid} st st'"
proof -
  from run obtain st1 where one: "with_active st sid nick
      (\<lambda>pv. Inr (pv\<lparr>pv_transform_target := Some t\<rparr>)) = Inr st1"
    and st': "\<exists>ve. st' = add_evidence st1 ve"
    by (auto simp: reduce_transform_def ebind_eq_Inr)
  from one have "step_ok {sid} st st1"
    by (rule step_ok_with_active [OF n]) (auto simp: extends_frame)
  with st' show ?thesis by (auto intro: step_ok_add_evidence)
qed

lemma step_tera:
  assumes n: "sides_named st" and run: "reduce_tera st ei sid sl nick t = Inr st'"
  shows "step_ok {sid} st st'"
proof -
  from run obtain st1 where one: "with_active st sid nick
      (\<lambda>pv. Inr (pv\<lparr>pv_tera_type := Some t\<rparr>)) = Inr st1"
    and st': "\<exists>ve. st' = add_evidence st1 ve"
    by (auto simp: reduce_tera_def ebind_eq_Inr)
  from one have "step_ok {sid} st st1"
    by (rule step_ok_with_active [OF n]) (auto simp: extends_frame)
  with st' show ?thesis by (auto intro: step_ok_add_evidence)
qed

lemma step_identity:
  assumes n: "sides_named st" and run: "reduce_identity st ei sid nick d hp = Inr st'"
  shows "step_ok {sid} st st'"
proof -
  from run obtain s r h where s: "side st sid = Inr s"
    and upd: "update_side st (replace_pokemon s r
         ((deref s r)\<lparr>pv_nickname := nick,
            pv_switch_identity := normalize_identity_details d, pv_current_details := Some d,
            pv_identity_intervals := open_interval (pv_identity_intervals (deref s r)) (Some d) ei,
            pv_hp := Some h, pv_status := tok_status hp, pv_fainted := tok_fainted hp\<rparr>)) = Inr st'"
    by (auto simp: reduce_identity_def ebind_eq_Inr)
  show ?thesis
    by (rule step_ok_update_side [OF n s side_extends_replace upd])
      (simp add: pokemon_extends_def grown_by_refl grown_by_open)
qed

lemma step_volatile:
  assumes n: "sides_named st" and run: "reduce_volatile st sid nick v a = Inr st'"
  shows "step_ok {sid} st st'"
proof -
  from run have "st' = st \<or> (\<exists>s r vs. side st sid = Inr s
      \<and> update_side st (replace_pokemon s r ((deref s r)\<lparr>pv_volatiles := vs\<rparr>)) = Inr st')"
    by (auto simp: reduce_volatile_def ebind_eq_Inr split: if_splits)
  then show ?thesis
  proof
    assume "\<exists>s r vs. side st sid = Inr s
      \<and> update_side st (replace_pokemon s r ((deref s r)\<lparr>pv_volatiles := vs\<rparr>)) = Inr st'"
    then obtain s r vs where s: "side st sid = Inr s"
      and upd: "update_side st (replace_pokemon s r ((deref s r)\<lparr>pv_volatiles := vs\<rparr>)) = Inr st'"
      by blast
    show ?thesis
      by (rule step_ok_update_side [OF n s side_extends_replace upd]) (simp add: extends_frame)
  qed (simp add: step_ok_refl)
qed

lemma step_attribute:
  assumes n: "sides_named st" and run: "reduce_attribute st e = Inr st'"
  shows "step_ok {attribute_side e} st st'"
proof (cases e)
  case (ItemChanged ei sd sl nick item action an)
  with run have "reduce_item st ei sd nick item action = Inr st'" by simp
  then have "step_ok {sd} st st'" unfolding reduce_item_def
    by (rule step_ok_with_active [OF n])
      (auto simp: pokemon_extends_def grown_by_refl grown_by_open)
  with ItemChanged show ?thesis by simp
next
  case (AbilityChanged ei sd sl nick ab action an)
  with run have "reduce_ability st ei sd nick ab action = Inr st'" by simp
  then have "step_ok {sd} st st'" unfolding reduce_ability_def
    by (rule step_ok_with_active [OF n])
      (auto simp: pokemon_extends_def grown_by_refl grown_by_open)
  with AbilityChanged show ?thesis by simp
next
  case (RechargeChanged ei sd sl nick b)
  with run have "reduce_recharge st sd nick b = Inr st'" by simp
  then have "step_ok {sd} st st'" unfolding reduce_recharge_def
    by (rule step_ok_with_active [OF n]) (auto simp: extends_frame)
  with RechargeChanged show ?thesis by simp
qed (use n run in \<open>auto intro: step_identity step_form step_transform step_tera step_volatile\<close>)

lemma step_field:
  assumes n: "sides_named st" and run: "reduce_field st e = Inr st'"
  shows "step_ok (field_sides e) st st'"
proof (cases e)
  case (SideConditionChanged ei sid c a)
  with run obtain s where s: "side st sid = Inr s" and upd: "update_side st
      (s\<lparr>sv_side_conditions := update_side_condition (sv_side_conditions s) c a\<rparr>) = Inr st'"
    by (auto simp: ebind_eq_Inr)
  have "step_ok {sid} st st'"
    by (rule step_ok_update_side [OF n s _ upd]) (simp add: side_extends_def)
  with SideConditionChanged show ?thesis by simp
qed (use run in \<open>auto simp: step_ok_def state_extends_def side_extends_def split: if_splits\<close>)

section \<open>The reducer as an ordered machine\<close>

lemma step_dispatch:
  assumes n: "sides_named st" and run: "dispatch st e = Inr st'"
  shows "step_ok (event_sides e) st st'"
proof (cases e)
  case (Metadata m)
  then show ?thesis using step_metadata [OF n] run by simp
next
  case (Progress p)
  then show ?thesis using step_progress run by simp
next
  case (Pokemon p)
  then show ?thesis using step_pokemon [OF n] run by simp
next
  case (Boost b)
  then show ?thesis using step_boost [OF n] run by simp
next
  case (Attribute a)
  then show ?thesis using step_attribute [OF n] run by simp
next
  case (Field f)
  then show ?thesis using step_field [OF n] run by simp
next
  case (Evidence ve)
  then have "st' = add_evidence st ve" using run by simp
  then show ?thesis by (simp add: step_ok_add_evidence step_ok_refl)
next
  case (Ignored ig)
  then have "st' = st\<lparr>os_ignored_display_count := os_ignored_display_count st + 1\<rparr>"
    using run by simp
  then show ?thesis by (simp add: step_ok_def state_extends_def)
qed

lemma reduce_step:
  assumes "wf_state st" "reduce_event st e = Inr st'"
  shows "step_ok (event_sides e) st st'" "os_event_index st < event_index e"
    "event_index e \<le> os_event_index st'"
proof -
  let ?mid = "st\<lparr>os_event_index := event_index e\<rparr>"
  from assms(2) show lt: "os_event_index st < event_index e"
    by (auto simp: reduce_event_def Let_def split: if_splits)
  from assms(2) have run: "dispatch ?mid e = Inr st'"
    by (auto simp: reduce_event_def Let_def split: if_splits)
  have "sides_named ?mid" using wf_sides_named [OF assms(1)] by (simp add: sides_named_def)
  from step_dispatch [OF this run] have mid: "step_ok (event_sides e) ?mid st'" .
  then show "event_index e \<le> os_event_index st'" by (simp add: step_ok_def state_extends_def)
  note mid
  moreover have "step_ok (event_sides e) st ?mid"
    using lt by (simp add: step_ok_def state_extends_def)
  ultimately show "step_ok (event_sides e) st st'" by (blast intro: step_ok_trans)
qed

interpretation reducer: ordered_machine reduce_event wf_state state_extends
proof
  fix st e st' a b c
  show "wf_state st'" if "wf_state st" "reduce_event st e = Inr st'" using that by (rule wf_reduce)
  show "state_extends a a" by (rule state_extends_refl)
  show "state_extends a c" if "state_extends a b" "state_extends b c"
    using that by (rule state_extends_trans)
  show "state_extends st st'" if "wf_state st" "reduce_event st e = Inr st'"
    using reduce_step(1) [OF that] by (simp add: step_ok_def)
qed

text \<open>The events of a run that is accepted come in strictly increasing index order.\<close>

lemma run_indices:
  "wf_state st \<Longrightarrow> efold reduce_event st es = Inr st' \<Longrightarrow>
   sorted_wrt (\<lambda>a b. event_index a < event_index b) es
   \<and> (\<forall>e\<in>set es. os_event_index st < event_index e \<and> event_index e \<le> os_event_index st')"
proof (induction es arbitrary: st)
  case (Cons e es)
  then obtain t where t: "reduce_event st e = Inr t" "efold reduce_event t es = Inr st'"
    by (auto simp: ebind_eq_Inr)
  note step = reduce_step [OF Cons.prems(1) t(1)]
  have wf: "wf_state t" using Cons.prems(1) t(1) by (rule wf_reduce)
  have "state_extends t st'" by (rule reducer.le_run [OF wf t(2)])
  then have "os_event_index t \<le> os_event_index st'" by (simp add: state_extends_def)
  with Cons.IH [OF wf t(2)] step(2,3) show ?case by force
qed simp

section \<open>What a switch leaves behind\<close>

text \<open>
  After a switch the named Pokemon is the side's only active one, with the observed HP and
  status, no boosts and no volatile state.
\<close>

definition switched_in ::
    "side_view \<Rightarrow> string \<Rightarrow> string \<Rightarrow> hp_token \<Rightarrow> hp_observation \<Rightarrow> bool" where
  "switched_in s nickname details hp h \<longleftrightarrow>
     (\<exists>pv. filter pv_active (sv_pokemon s) = [pv] \<and> pv_nickname pv = nickname
        \<and> pv_current_details pv = Some details \<and> pv_hp pv = Some h \<and> pv_status pv = tok_status hp
        \<and> \<not> pv_fainted pv \<and> pv_boosts pv = zero_boosts \<and> pv_volatiles pv = []
        \<and> \<not> pv_recharging pv \<and> pv_transform_target pv = None)
     \<and> (\<forall>pv\<in>set (sv_pokemon s). \<not> pv_active pv \<longrightarrow> pv_boosts pv = zero_boosts \<and> pv_volatiles pv = [])"

lemma filter_none_active: "filter pv_active (map (deactivate ei) pvs) = []"
  by (simp add: filter_empty_conv)

lemma filter_update_single:
  assumes "filter p xs = []" "p y" "i < length xs"
  shows "filter p (xs[i := y]) = [y]"
proof -
  have none: "\<forall>x\<in>set xs. \<not> p x" using assms(1) by (simp add: filter_empty_conv)
  then have "filter p (take i xs) = []" "filter p (drop (Suc i) xs) = []"
    using set_take_subset [of i xs] set_drop_subset [of "Suc i" xs] by (blast intro: filter_False)+
  then show ?thesis using assms(2,3) by (simp add: upd_conv_take_nth_drop)
qed

lemma deactivate_clean:
  assumes "wf_pokemon n sid pv" "pv' = deactivate ei pv"
  shows "pv_boosts pv' = zero_boosts \<and> pv_volatiles pv' = []"
  using assms by (auto simp: deactivate_def wf_pokemon_def benched_clean_def)

lemma switched_in_activate:
  assumes wf: "wf_side n sid s"
  shows "switched_in (activate_pokemon s nick d h (tok_status hp) ei) nick d hp h"
proof -
  let ?d = "map (deactivate ei) (sv_pokemon s)"
  have clean: "\<forall>pv\<in>set ?d. pv_boosts pv = zero_boosts \<and> pv_volatiles pv = []"
  proof
    fix pv
    assume "pv \<in> set ?d"
    then obtain pv0 where pv0: "pv0 \<in> set (sv_pokemon s)" "pv = deactivate ei pv0"
      unfolding set_map by (rule imageE)
    with wf have "wf_pokemon n sid pv0" by (simp add: wf_side_def)
    from deactivate_clean [OF this pv0(2)]
    show "pv_boosts pv = zero_boosts \<and> pv_volatiles pv = []" .
  qed
  show ?thesis
  proof (cases "find_for_switch_in ?d nick d")
    case None
    then show ?thesis using clean filter_none_active [of ei "sv_pokemon s"]
      by (auto simp: activate_pokemon_def Let_def switched_in_def new_pokemon_view_def)
  next
    case (Some r)
    let ?pv = "(?d ! r)\<lparr>pv_active := True, pv_hp := Some h, pv_status := tok_status hp,
                    pv_fainted := False, pv_current_details := Some d,
                    pv_boosts := zero_boosts, pv_volatiles := [], pv_recharging := False,
                    pv_transform_target := None\<rparr>"
    from Some have r: "r < length ?d" "pv_nickname (?d ! r) = nick"
      by (auto simp: find_for_switch_in_def Let_def find_index_eq_Some)
    have "filter pv_active (?d[r := ?pv]) = [?pv]"
      by (rule filter_update_single) (simp_all add: filter_none_active r(1) del: length_map)
    moreover have "\<forall>pv\<in>set (?d[r := ?pv]). \<not> pv_active pv \<longrightarrow>
        pv_boosts pv = zero_boosts \<and> pv_volatiles pv = []"
    proof
      fix pv
      assume "pv \<in> set (?d[r := ?pv])"
      then have "pv = ?pv \<or> pv \<in> set ?d" using set_update_subset_insert by fast
      then show "\<not> pv_active pv \<longrightarrow> pv_boosts pv = zero_boosts \<and> pv_volatiles pv = []"
        using clean by (elim disjE) (simp, blast)
    qed
    moreover have "activate_pokemon s nick d h (tok_status hp) ei =
        s\<lparr>sv_pokemon := ?d[r := ?pv], sv_active_slot := Some 1\<rparr>"
      by (simp only: activate_pokemon_def Let_def Some option.case)
    moreover have "pv_nickname ?pv = nick" using r(2) by simp
    ultimately show ?thesis
      unfolding switched_in_def by (intro conjI exI [of _ ?pv]) simp_all
  qed
qed

lemma switch_result:
  assumes wf: "wf_state st" and e: "e \<in> {PokemonSwitched ei sd sl n d hp, PokemonDragged ei sd sl n d hp}"
    and run: "reduce_event st (Pokemon e) = Inr st'"
  shows "\<exists>s h. side st' sd = Inr s \<and> token_to_observation hp sd (os_our_side st) = Inr h
    \<and> switched_in s n d hp h"
proof -
  let ?mid = "st\<lparr>os_event_index := ei\<rparr>"
  have "pk_index e = ei" and red: "reduce_pokemon st1 e = reduce_switch st1 ei sd n d hp" for st1
    using e by (elim insertE emptyE; simp)+
  then have "reduce_switch ?mid ei sd n d hp = Inr st'"
    using run by (simp add: reduce_event_def Let_def split: if_splits)
  then obtain h s where h: "token_to_observation hp sd (os_our_side st) = Inr h"
    and s: "side ?mid sd = Inr s"
    and upd: "update_side ?mid (activate_pokemon s n d h (tok_status hp) ei) = Inr st'"
    by (auto simp: reduce_switch_def ebind_eq_Inr)
  have wfs: "wf_side (os_event_index st) sd s"
    using wf s by (auto simp: wf_state_def side_eq_Inr)
  have "sv_side_id (activate_pokemon s n d h (tok_status hp) ei) = sd"
    using wfs by (auto simp: activate_pokemon_def Let_def wf_side_def split: option.splits)
  with upd have "side st' sd = Inr (activate_pokemon s n d h (tok_status hp) ei)"
    by (auto simp: update_side_def side_def split: if_splits)
  with h switched_in_activate [OF wfs] show ?thesis by blast
qed
end
