(* ===== verification/Wire.thy ===== *)
theory Wire
  imports Errors Py_Strings
begin

text \<open>
  The outer layers of the Showdown protocol: the wire types of \<open>wire_types.py\<close>, the frame
  decoder (\<open>frame_decoder.py\<close>) and the classifier of room payloads
  (\<open>room_payload_classifier.py\<close>). A frozen set of strings is a list without duplicates.
\<close>

section \<open>Wire types\<close>

definition battle_event_types :: "string list" where
  "battle_event_types =
     [''init'', ''player'', ''teamsize'', ''gametype'', ''gen'', ''tier'', ''rated'', ''rule'',
      ''clearpoke'', ''poke'', ''teampreview'', ''start'', ''turn'', ''win'', ''tie'',
      ''move'', ''switch'', ''drag'', ''faint'', ''cant'', ''detailschange'', ''replace'',
      ''-damage'', ''-heal'', ''-sethp'', ''-status'', ''-curestatus'', ''-cureteam'',
      ''-boost'', ''-unboost'', ''-setboost'', ''-swapboost'', ''-copyboost'', ''-clearboost'',
      ''-clearallboost'', ''-clearpositiveboost'', ''-clearnegativeboost'', ''-invertboost'',
      ''-weather'', ''-fieldstart'', ''-fieldend'', ''-sidestart'', ''-sideend'',
      ''-swapsideconditions'', ''-start'', ''-end'', ''-singleturn'', ''-singlemove'',
      ''-mustrecharge'', ''-item'', ''-enditem'', ''-ability'', ''-endability'',
      ''-transform'', ''-formechange'', ''-terastallize'', ''-crit'', ''-supereffective'',
      ''-resisted'', ''-immune'', ''-miss'', ''-fail'', ''-activate'', ''-block'',
      ''-notarget'', ''-nothing'', ''-hitcount'', ''-prepare'', ''-fieldactivate'', ''upkeep'',
      ''t:'', ''-anim'', ''-hint'', ''-center'', ''-combine'', ''-waiting'', ''message'',
      ''-message'']"

definition evidence_types :: "string list" where
  "evidence_types =
     [''-crit'', ''-supereffective'', ''-resisted'', ''-immune'', ''-miss'', ''-fail'',
      ''-activate'', ''-block'', ''-notarget'', ''-nothing'', ''-hitcount'', ''-prepare'',
      ''-fieldactivate'']"

definition ignored_display_types :: "string list" where
  "ignored_display_types =
     [''upkeep'', ''t:'', ''-anim'', ''-hint'', ''-center'', ''-combine'', ''-waiting'',
      ''message'', ''-message'']"

definition room_control_types :: "string list" where
  "room_control_types =
     [''title'', ''users'', ''join'', ''j'', ''J'', ''leave'', ''l'', ''L'', ''name'', ''n'',
      ''N'', ''chat'', ''c'', ''c:'', '':'', ''html'', ''uhtml'', ''uhtmlchange'', ''notify'',
      ''battle'', ''b'', ''B'']"

section \<open>Frames\<close>

record room_line =
  rl_room_id :: "string option"
  rl_payload :: string

text \<open>A WebSocket frame is text or binary.\<close>

datatype frame = Text string | Binary

definition newline :: char where
  "newline = CHR 0x0A"

definition carriage_return :: char where
  "carriage_return = CHR 0x0D"

definition strip_cr :: "string \<Rightarrow> string" where
  "strip_cr raw_line = (if ends_with [carriage_return] raw_line then butlast raw_line else raw_line)"

text \<open>One turn of the loop over the lines of a frame: the room in scope, the lines so far.\<close>

definition decode_line ::
    "string option \<times> room_line list \<Rightarrow> string \<Rightarrow> py_exc + (string option \<times> room_line list)" where
  "decode_line acc raw_line =
     (case acc of (current_room, lines) \<Rightarrow>
       (let line = strip_cr raw_line in
        if line = [] then Inr (current_room, lines)
        else if starts_with ''>'' line then
          (let room_id = drop 1 line in
           if room_id = [] then Inl MalformedProtocolMessage else Inr (Some room_id, lines))
        else Inr (current_room, lines @ [\<lparr>rl_room_id = current_room, rl_payload = line\<rparr>])))"

definition decode_frame :: "frame \<Rightarrow> py_exc + room_line list" where
  "decode_frame f =
     (case f of
        Binary \<Rightarrow> Inl MalformedProtocolMessage
      | Text t \<Rightarrow>
          if t = [] then Inr []
          else ebind (efold decode_line (None, []) (split_on newline t)) (\<lambda>acc. Inr (snd acc)))"

section \<open>Classification\<close>

datatype room_payload_kind =
    Battle_Event | Decision_Request | Battle_Error | Timer_Message | Room_Control_Or_Chat | Unknown

definition split_payload :: "string \<Rightarrow> string \<times> string list" where
  "split_payload payload =
     (let parts = split_on CHR ''|'' payload
      in (if 1 < length parts then parts ! 1 else [], drop 2 parts))"

definition classify_room_payload :: "string \<Rightarrow> room_payload_kind" where
  "classify_room_payload payload =
     (if payload = ''|'' then Battle_Event
      else if \<not> starts_with ''|'' payload \<or> starts_with ''||'' payload then Room_Control_Or_Chat
      else
        (let wire_type = fst (split_payload payload) in
         if wire_type = ''request'' then Decision_Request
         else if wire_type = ''error'' then Battle_Error
         else if wire_type = ''inactive'' \<or> wire_type = ''inactiveoff'' then Timer_Message
         else if wire_type \<in> set battle_event_types then Battle_Event
         else if wire_type \<in> set room_control_types then Room_Control_Or_Chat
         else Unknown))"

section \<open>What the decoder guarantees\<close>

text \<open>Every decoded line has a payload that is not empty, not a marker, and from one line.\<close>

definition line_ok :: "room_line \<Rightarrow> bool" where
  "line_ok l \<longleftrightarrow> rl_payload l \<noteq> [] \<and> \<not> starts_with ''>'' (rl_payload l)
     \<and> newline \<notin> set (rl_payload l) \<and> rl_room_id l \<noteq> Some []"

definition acc_ok :: "string option \<times> room_line list \<Rightarrow> bool" where
  "acc_ok acc \<longleftrightarrow> fst acc \<noteq> Some [] \<and> (\<forall>l\<in>set (snd acc). line_ok l)"

lemma set_strip_cr: "c \<in> set (strip_cr s) \<Longrightarrow> c \<in> set s"
  by (auto simp: strip_cr_def split: if_splits dest: in_set_butlastD)

lemma newline_strip_cr [simp]: "newline \<notin> set s \<Longrightarrow> newline \<notin> set (strip_cr s)"
  using set_strip_cr by blast

lemma decode_line_ok:
  "acc_ok acc \<Longrightarrow> newline \<notin> set raw \<Longrightarrow> decode_line acc raw = Inr acc' \<Longrightarrow> acc_ok acc'"
  by (cases acc)
    (auto simp: decode_line_def Let_def acc_ok_def line_ok_def split: if_splits)

lemma decode_lines_ok:
  "acc_ok acc \<Longrightarrow> \<forall>raw\<in>set raws. newline \<notin> set raw \<Longrightarrow> efold decode_line acc raws = Inr acc' \<Longrightarrow>
   acc_ok acc'"
  by (induction raws arbitrary: acc) (auto simp: result_simps dest: decode_line_ok)

lemma decode_frame_lines_ok: "decode_frame f = Inr ls \<Longrightarrow> l \<in> set ls \<Longrightarrow> line_ok l"
proof -
  assume run: "decode_frame f = Inr ls" and l: "l \<in> set ls"
  show ?thesis
  proof (cases f)
    case (Text t)
    show ?thesis
    proof (cases "t = []")
      case False
      with run Text obtain acc where acc: "efold decode_line (None, []) (split_on newline t) = Inr acc"
        and ls: "ls = snd acc"
        by (auto simp: decode_frame_def ebind_eq_Inr)
      have raws: "\<forall>raw\<in>set (split_on newline t). newline \<notin> set raw"
        using split_on_pieces by blast
      have "acc_ok (None, [])" by (simp add: acc_ok_def)
      from decode_lines_ok [OF this raws acc] have "acc_ok acc" .
      then show ?thesis using l ls by (simp add: acc_ok_def)
    qed (use run Text l in \<open>simp add: decode_frame_def\<close>)
  qed (use run in \<open>simp add: decode_frame_def\<close>)
qed

text \<open>
  The sender's side: a block of lines for one room, and a frame of blocks. Decoding a
  rendered frame gives the lines back, each in its room and in order.
\<close>

definition render_block :: "string \<times> string list \<Rightarrow> string list" where
  "render_block block = (CHR ''>'' # fst block) # snd block"

definition render_frame :: "(string \<times> string list) list \<Rightarrow> frame" where
  "render_frame blocks = Text (join_with [newline] (concat (map render_block blocks)))"

definition block_lines :: "string \<times> string list \<Rightarrow> room_line list" where
  "block_lines block = map (\<lambda>p. \<lparr>rl_room_id = Some (fst block), rl_payload = p\<rparr>) (snd block)"

definition plain_line :: "string \<Rightarrow> bool" where
  "plain_line s \<longleftrightarrow> s \<noteq> [] \<and> newline \<notin> set s \<and> last s \<noteq> carriage_return"

definition block_ok :: "string \<times> string list \<Rightarrow> bool" where
  "block_ok block \<longleftrightarrow> plain_line (fst block)
     \<and> (\<forall>p\<in>set (snd block). plain_line p \<and> hd p \<noteq> CHR ''>'')"

lemma strip_cr_plain: "s \<noteq> [] \<Longrightarrow> last s \<noteq> carriage_return \<Longrightarrow> strip_cr s = s"
  by (cases s rule: rev_cases) (auto simp: strip_cr_def ends_with_def)

lemma decode_payloads:
  "\<forall>p\<in>set ps. plain_line p \<and> hd p \<noteq> CHR ''>'' \<Longrightarrow>
   efold decode_line (room, ls) ps =
     Inr (room, ls @ map (\<lambda>p. \<lparr>rl_room_id = room, rl_payload = p\<rparr>) ps)"
proof (induction ps arbitrary: ls)
  case (Cons p ps)
  then obtain c s where p: "p = c # s" "c \<noteq> CHR ''>''" by (cases p) (auto simp: plain_line_def)
  with Cons have "decode_line (room, ls) p = Inr (room, ls @ [\<lparr>rl_room_id = room, rl_payload = p\<rparr>])"
    by (simp add: decode_line_def Let_def strip_cr_plain plain_line_def starts_with_code)
  with Cons show ?case by simp
qed simp

lemma decode_block:
  assumes "block_ok b"
  shows "efold decode_line (room, ls) (render_block b) =
    Inr (Some (fst b), ls @ block_lines b)"
proof -
  have "strip_cr (CHR ''>'' # fst b) = CHR ''>'' # fst b"
    using assms by (intro strip_cr_plain) (auto simp: block_ok_def plain_line_def)
  then have "decode_line (room, ls) (CHR ''>'' # fst b) = Inr (Some (fst b), ls)"
    using assms by (simp add: decode_line_def Let_def starts_with_code block_ok_def plain_line_def)
  with assms show ?thesis
    by (simp add: render_block_def block_lines_def decode_payloads block_ok_def)
qed

lemma decode_blocks:
  "\<forall>b\<in>set bs. block_ok b \<Longrightarrow>
   \<exists>room'. efold decode_line (room, ls) (concat (map render_block bs)) =
     Inr (room', ls @ concat (map block_lines bs))"
proof (induction bs arbitrary: room ls)
  case (Cons b bs)
  from Cons.prems have b: "block_ok b" by simp
  from Cons.IH [of "Some (fst b)" "ls @ block_lines b"] Cons.prems show ?case
    by (auto simp: efold_append decode_block [OF b])
qed simp

lemma decode_render:
  assumes "\<forall>b\<in>set bs. block_ok b"
  shows "decode_frame (render_frame bs) = Inr (concat (map block_lines bs))"
proof (cases bs)
  case Nil
  then show ?thesis by (simp add: render_frame_def decode_frame_def)
next
  case (Cons b bs')
  let ?ls = "concat (map render_block bs)"
  have "\<forall>l\<in>set ?ls. newline \<notin> set l"
    using assms by (auto simp: render_block_def block_ok_def plain_line_def newline_def)
  moreover have ne: "?ls \<noteq> []" using Cons by (simp add: render_block_def)
  ultimately have split: "split_on newline (join_with [newline] ?ls) = ?ls"
    by (intro split_on_join)
  have "join_with [newline] ?ls \<noteq> []"
  proof
    assume "join_with [newline] ?ls = []"
    then have "?ls = [[]]" using split by simp
    then show False using Cons by (simp add: render_block_def)
  qed
  moreover obtain room' where "efold decode_line (None, []) ?ls =
      Inr (room', concat (map block_lines bs))"
    using decode_blocks [OF assms, of None "[]"] by auto
  ultimately show ?thesis
    using split by (simp add: render_frame_def decode_frame_def)
qed

section \<open>What the classifier guarantees\<close>

lemma classify_battle_event:
  "classify_room_payload p = Battle_Event \<Longrightarrow>
   p = ''|'' \<or> fst (split_payload p) \<in> set battle_event_types"
  by (auto simp: classify_room_payload_def Let_def split: if_splits)

lemma classify_timer:
  "classify_room_payload p = Timer_Message \<Longrightarrow>
   fst (split_payload p) \<in> {''inactive'', ''inactiveoff''}"
  by (auto simp: classify_room_payload_def Let_def split: if_splits)

end
