(* ===== verification/Parser.thy ===== *)
theory Parser
  imports Events Wire
begin

text \<open>
  \<open>adapters/showdown_protocol/parser.py\<close>: one classified payload line becomes one canonical
  event. One definition per handler, branches in the source's order. An index into the
  argument list follows a \<open>require_args\<close> that makes it safe.
\<close>

section \<open>Helpers\<close>

definition str_isdigit :: "string \<Rightarrow> bool" where
  "str_isdigit s \<longleftrightarrow> s \<noteq> [] \<and> list_all is_digit s"

definition looks_like_pokemon_ident :: "string \<Rightarrow> bool" where
  "looks_like_pokemon_ident t \<longleftrightarrow>
     1 < length t \<and> t ! 0 = CHR ''p'' \<and> is_digit (t ! 1)
     \<and> (contains '': '' t \<or> (\<not> str_isdigit (drop 2 t) \<and> contains '':'' t))"

definition parse_pokemon_ident :: "string \<Rightarrow> py_exc + (string \<times> int option \<times> string)" where
  "parse_pokemon_ident ident =
     (case cut_at '': '' ident of
        None \<Rightarrow> Inl MalformedProtocolMessage
      | Some (position_part, nickname) \<Rightarrow>
          if length position_part < 2 \<or> position_part ! 0 \<noteq> CHR ''p''
             \<or> \<not> is_digit (position_part ! 1) then Inl MalformedProtocolMessage
          else
            ebind
              (if is_alpha (last position_part) then
                 (if last position_part \<noteq> CHR ''a'' then Inl MalformedProtocolMessage
                  else Inr (butlast position_part, Some 1))
               else Inr (position_part, None)) (\<lambda>(side_id, slot).
            if nickname = [] then Inl MalformedProtocolMessage
            else Inr (side_id, slot, nickname)))"

text \<open>An identifier that must carry a position letter: the check after most calls.\<close>

definition parse_active_ident :: "string \<Rightarrow> py_exc + (string \<times> int \<times> string)" where
  "parse_active_ident ident =
     ebind (parse_pokemon_ident ident) (\<lambda>(side_id, slot, nickname).
       case slot of None \<Rightarrow> Inl MalformedProtocolMessage | Some k \<Rightarrow> Inr (side_id, k, nickname))"

definition parse_side_ident :: "string \<Rightarrow> py_exc + string" where
  "parse_side_ident ident =
     (let side_id = strip (hd (split_max 1 CHR '':'' ident))
      in if side_id \<noteq> ''p1'' \<and> side_id \<noteq> ''p2'' then Inl MalformedProtocolMessage
         else Inr side_id)"

definition int_or_malformed :: "string \<Rightarrow> py_exc + int" where
  "int_or_malformed s = of_option MalformedProtocolMessage (py_int s)"

definition parse_hp_token :: "string \<Rightarrow> py_exc + hp_token" where
  "parse_hp_token hp_str =
     (let (hp_part, trailer) =
            (case cut_at '' '' hp_str of None \<Rightarrow> (hp_str, None) | Some (a, b) \<Rightarrow> (a, Some b));
          fainted = (trailer = Some ''fnt'');
          status = (if trailer \<noteq> None \<and> \<not> fainted then trailer else None)
      in ebind
           (case cut_at ''/'' hp_part of
              Some (current_str, maximum_str) \<Rightarrow>
                ebind (int_or_malformed current_str) (\<lambda>current.
                ebind (int_or_malformed maximum_str) (\<lambda>maximum. Inr (current, maximum)))
            | None \<Rightarrow> ebind (int_or_malformed hp_part) (\<lambda>current. Inr (current, 0)))
           (\<lambda>(current, maximum).
              if current < 0 \<or> maximum < 0 then Inl MalformedProtocolMessage
              else Inr \<lparr>tok_current = current, tok_maximum = maximum, tok_status = status,
                        tok_fainted = fainted\<rparr>))"

definition normalize_boost_stat :: "string \<Rightarrow> string" where
  "normalize_boost_stat stat =
     (if stat = ''accuracy'' then ''acc'' else if stat = ''evasion'' then ''eva'' else stat)"

definition sorted_annotations :: "string list \<Rightarrow> string list" where
  "sorted_annotations parts = sort (filter (starts_with ''['') parts)"

definition require_args :: "string list \<Rightarrow> nat \<Rightarrow> py_exc + unit" where
  "require_args args n = raise_if (length args < n) MalformedProtocolMessage"

section \<open>Metadata, preview, progress\<close>

definition parse_metadata :: "string \<Rightarrow> string list \<Rightarrow> int \<Rightarrow> py_exc + battle_event" where
  "parse_metadata wt args ei =
     (if wt = ''player'' then
        ebind (require_args args 2) (\<lambda>_.
          Inr (Metadata (PlayerDeclared ei (args ! 0) (to_id (args ! 1)) (args ! 1))))
      else if wt = ''teamsize'' then
        ebind (require_args args 2) (\<lambda>_.
        ebind (int_or_malformed (args ! 1)) (\<lambda>n.
          Inr (Metadata (TeamSizeDeclared ei (args ! 0) n))))
      else if wt = ''gametype'' then
        ebind (require_args args 1) (\<lambda>_. Inr (Metadata (GameTypeDeclared ei (args ! 0))))
      else if wt = ''gen'' then
        ebind (require_args args 1) (\<lambda>_.
        ebind (int_or_malformed (args ! 0)) (\<lambda>g. Inr (Metadata (GenerationDeclared ei g))))
      else if wt = ''tier'' then
        ebind (require_args args 1) (\<lambda>_. Inr (Metadata (TierDeclared ei (join_with ''|'' args))))
      else if wt = ''rated'' then Inr (Metadata (BattleRated ei True))
      else if wt = ''rule'' then
        ebind (require_args args 1) (\<lambda>_. Inr (Metadata (RuleDeclared ei (join_with ''|'' args))))
      else Inl (UnknownProtocolEvent wt))"

definition parse_preview :: "string \<Rightarrow> string list \<Rightarrow> int \<Rightarrow> py_exc + battle_event" where
  "parse_preview wt args ei =
     (if wt = ''clearpoke'' then Inr (Metadata (PreviewCleared ei))
      else if wt = ''poke'' then
        ebind (require_args args 2) (\<lambda>_.
          Inr (Metadata (PreviewPokemonDeclared ei (args ! 0) (args ! 1)
            (2 < length args \<and> args ! 2 = ''item''))))
      else if wt = ''teampreview'' then Inr (Metadata (TeamPreviewStarted ei))
      else Inl (UnknownProtocolEvent wt))"

definition parse_progress :: "string \<Rightarrow> string list \<Rightarrow> int \<Rightarrow> py_exc + battle_event" where
  "parse_progress wt args ei =
     (if wt = ''start'' then Inr (Progress (BattleStarted ei))
      else if wt = ''turn'' then
        ebind (require_args args 1) (\<lambda>_.
        ebind (int_or_malformed (args ! 0)) (\<lambda>t. Inr (Progress (TurnStarted ei t))))
      else if wt = ''win'' then
        ebind (require_args args 1) (\<lambda>_. Inr (Progress (BattleWon ei (args ! 0))))
      else if wt = ''tie'' then Inr (Progress (BattleTied ei))
      else Inl (UnknownProtocolEvent wt))"

section \<open>Pokemon\<close>

definition parse_move :: "string list \<Rightarrow> int \<Rightarrow> py_exc + battle_event" where
  "parse_move args ei =
     ebind (require_args args 2) (\<lambda>_.
     ebind (parse_active_ident (args ! 0)) (\<lambda>(side_id, slot, nickname).
       let move_id = to_id (args ! 1); rest = drop 2 args in
       if rest \<noteq> [] \<and> looks_like_pokemon_ident (hd rest) then
         ebind (parse_pokemon_ident (hd rest)) (\<lambda>(target_side_id, target_slot, target_nickname).
           Inr (Pokemon (MoveUsed ei side_id slot nickname move_id (Some target_side_id) target_slot
             (Some target_nickname) (sorted_annotations (tl rest)))))
       else
         Inr (Pokemon (MoveUsed ei side_id slot nickname move_id None None None
           (sorted_annotations rest)))))"

definition parse_pokemon_identity :: "string \<Rightarrow> string list \<Rightarrow> int \<Rightarrow> py_exc + battle_event" where
  "parse_pokemon_identity wt args ei =
     (if wt = ''switch'' \<or> wt = ''drag'' then
        ebind (require_args args 3) (\<lambda>_.
        ebind (parse_active_ident (args ! 0)) (\<lambda>(side_id, slot, nickname).
        ebind (parse_hp_token (args ! 2)) (\<lambda>hp.
          Inr (Pokemon
            (if wt = ''switch'' then PokemonSwitched ei side_id slot nickname (args ! 1) hp
             else PokemonDragged ei side_id slot nickname (args ! 1) hp)))))
      else if wt = ''faint'' then
        ebind (require_args args 1) (\<lambda>_.
        ebind (parse_active_ident (args ! 0)) (\<lambda>(side_id, slot, nickname).
          Inr (Pokemon (PokemonFainted ei side_id slot nickname))))
      else if wt = ''cant'' then
        ebind (require_args args 2) (\<lambda>_.
        ebind (parse_active_ident (args ! 0)) (\<lambda>(side_id, slot, nickname).
          Inr (Pokemon (MovePrevented ei side_id slot nickname (args ! 1)
            (if 2 < length args \<and> args ! 2 \<noteq> [] then Some (to_id (args ! 2)) else None)))))
      else if wt = ''detailschange'' then
        ebind (require_args args 3) (\<lambda>_.
        ebind (parse_active_ident (args ! 0)) (\<lambda>(side_id, slot, nickname).
        ebind (parse_hp_token (args ! 2)) (\<lambda>hp.
          Inr (Attribute (FormChanged ei side_id slot nickname Persistent_Details (args ! 1) hp)))))
      else if wt = ''replace'' then
        ebind (require_args args 3) (\<lambda>_.
        ebind (parse_active_ident (args ! 0)) (\<lambda>(side_id, slot, nickname).
        ebind (parse_hp_token (args ! 2)) (\<lambda>hp.
          Inr (Attribute (IdentityChanged ei side_id slot nickname (args ! 1) hp)))))
      else if wt = ''move'' then parse_move args ei
      else Inl (UnknownProtocolEvent wt))"

definition parse_health :: "string \<Rightarrow> string list \<Rightarrow> int \<Rightarrow> py_exc + battle_event" where
  "parse_health wt args ei =
     ebind (require_args args 2) (\<lambda>_.
     ebind (parse_pokemon_ident (args ! 0)) (\<lambda>(side_id, slot, nickname).
     ebind (parse_hp_token (args ! 1)) (\<lambda>hp.
       Inr (Pokemon (HealthChanged ei side_id slot nickname hp (sorted_annotations (drop 2 args)))))))"

definition parse_status :: "string \<Rightarrow> string list \<Rightarrow> int \<Rightarrow> py_exc + battle_event" where
  "parse_status wt args ei =
     (if wt = ''-cureteam'' then
        ebind (require_args args 1) (\<lambda>_.
        ebind (parse_pokemon_ident (args ! 0)) (\<lambda>(side_id, slot, nickname).
          Inr (Pokemon (TeamStatusCured ei side_id))))
      else
        ebind (require_args args 1) (\<lambda>_.
        ebind (parse_active_ident (args ! 0)) (\<lambda>(side_id, slot, nickname).
          Inr (Pokemon (StatusChanged ei side_id slot nickname
            (if wt = ''-curestatus'' then None
             else if 1 < length args then Some (args ! 1) else None)
            (sorted_annotations (drop 2 args)))))))"

section \<open>Boosts\<close>

definition parse_stats :: "string list \<Rightarrow> string list" where
  "parse_stats args =
     (let stats_arg = (if 2 < length args then args ! 2 else [])
      in if stats_arg \<noteq> [] then
           map normalize_boost_stat (filter (\<lambda>s. s \<noteq> []) (split_on CHR '','' stats_arg))
         else boost_stats)"

definition clear_scope :: "string \<Rightarrow> string" where
  "clear_scope wt =
     (if wt = ''-clearboost'' then ''all''
      else if wt = ''-clearpositiveboost'' then ''positive'' else ''negative'')"

definition parse_boost :: "string \<Rightarrow> string list \<Rightarrow> int \<Rightarrow> py_exc + battle_event" where
  "parse_boost wt args ei =
     (if wt \<in> {''-boost'', ''-unboost'', ''-setboost''} then
        ebind (require_args args 3) (\<lambda>_.
        ebind (parse_active_ident (args ! 0)) (\<lambda>(side_id, slot, nickname).
        ebind (int_or_malformed (args ! 2)) (\<lambda>magnitude.
          let stat = normalize_boost_stat (args ! 1) in
          Inr (Boost
            (if wt = ''-setboost'' then BoostChanged ei side_id slot nickname stat Set_Mode magnitude
             else BoostChanged ei side_id slot nickname stat Delta
               (if wt = ''-boost'' then magnitude else - magnitude))))))
      else if wt \<in> {''-swapboost'', ''-copyboost''} then
        ebind (require_args args 2) (\<lambda>_.
        ebind (parse_pokemon_ident (args ! 0)) (\<lambda>(first_side, first_slot, first_nick).
        ebind (parse_pokemon_ident (args ! 1)) (\<lambda>(second_side, second_slot, second_nick).
          case (first_slot, second_slot) of
            (Some a, Some b) \<Rightarrow>
              Inr (Boost
                (if wt = ''-swapboost'' then
                   BoostsSwapped ei first_side a first_nick second_side b second_nick (parse_stats args)
                 else
                   BoostsCopied ei first_side a first_nick second_side b second_nick (parse_stats args)))
          | _ \<Rightarrow> Inl MalformedProtocolMessage)))
      else if wt = ''-clearallboost'' then
        ebind (make_boosts_cleared ei None None None ''all'') (\<lambda>e. Inr (Boost e))
      else if wt \<in> {''-clearboost'', ''-clearpositiveboost'', ''-clearnegativeboost''} then
        ebind (require_args args 1) (\<lambda>_.
        ebind (parse_active_ident (args ! 0)) (\<lambda>(side_id, slot, nickname).
        ebind (make_boosts_cleared ei (Some side_id) (Some slot) (Some nickname) (clear_scope wt))
          (\<lambda>e. Inr (Boost e))))
      else if wt = ''-invertboost'' then
        ebind (require_args args 1) (\<lambda>_.
        ebind (parse_active_ident (args ! 0)) (\<lambda>(side_id, slot, nickname).
          Inr (Boost (BoostsInverted ei side_id slot nickname))))
      else Inl (UnknownProtocolEvent wt))"

section \<open>Field, volatile conditions, items, forms, evidence\<close>

definition parse_field :: "string \<Rightarrow> string list \<Rightarrow> int \<Rightarrow> py_exc + battle_event" where
  "parse_field wt args ei =
     (if wt = ''-weather'' then
        ebind (require_args args 1) (\<lambda>_.
          if lower (args ! 0) = ''none'' then Inr (Field (WeatherChanged ei None ''end''))
          else Inr (Field (WeatherChanged ei (Some (args ! 0))
            (if ''[upkeep]'' \<in> set (drop 1 args) then ''upkeep'' else ''start''))))
      else if wt = ''-fieldstart'' \<or> wt = ''-fieldend'' then
        ebind (require_args args 1) (\<lambda>_.
          Inr (Field (FieldConditionChanged ei (args ! 0)
            (if wt = ''-fieldstart'' then ''start'' else ''end'') (sorted_annotations (drop 1 args)))))
      else if wt = ''-sidestart'' \<or> wt = ''-sideend'' then
        ebind (require_args args 2) (\<lambda>_.
        ebind (parse_side_ident (args ! 0)) (\<lambda>side_id.
          Inr (Field (SideConditionChanged ei side_id (args ! 1)
            (if wt = ''-sidestart'' then ''start'' else ''end'')))))
      else if wt = ''-swapsideconditions'' then Inr (Field (SideConditionsSwapped ei))
      else Inl (UnknownProtocolEvent wt))"

definition parse_volatile :: "string \<Rightarrow> string list \<Rightarrow> int \<Rightarrow> py_exc + battle_event" where
  "parse_volatile wt args ei =
     (if wt = ''-mustrecharge'' then
        ebind (require_args args 1) (\<lambda>_.
        ebind (parse_active_ident (args ! 0)) (\<lambda>(side_id, slot, nickname).
          Inr (Attribute (RechargeChanged ei side_id slot nickname True))))
      else
        ebind (require_args args 2) (\<lambda>_.
        ebind (parse_active_ident (args ! 0)) (\<lambda>(side_id, slot, nickname).
          Inr (Attribute (VolatileChanged ei side_id slot nickname (args ! 1)
            (if wt = ''-end'' then ''end'' else ''start'') (sorted_annotations (drop 2 args)))))))"

definition parse_item_ability :: "string \<Rightarrow> string list \<Rightarrow> int \<Rightarrow> py_exc + battle_event" where
  "parse_item_ability wt args ei =
     ebind (require_args args 1) (\<lambda>_.
     ebind (parse_active_ident (args ! 0)) (\<lambda>(side_id, slot, nickname).
       let is_set = (wt = ''-item'' \<or> wt = ''-ability'');
           action = (if is_set then ''set'' else ''end'');
           rest = drop 1 args;
           v = (if is_set \<and> rest \<noteq> [] then Some (to_id (hd rest)) else None);
           annotations = sorted_annotations (if is_set then drop 1 rest else rest)
       in Inr (Attribute
            (if wt = ''-item'' \<or> wt = ''-enditem'' then
               ItemChanged ei side_id slot nickname v action annotations
             else AbilityChanged ei side_id slot nickname v action annotations))))"

definition parse_form_tera :: "string \<Rightarrow> string list \<Rightarrow> int \<Rightarrow> py_exc + battle_event" where
  "parse_form_tera wt args ei =
     (if wt = ''-transform'' then
        ebind (require_args args 2) (\<lambda>_.
        ebind (parse_pokemon_ident (args ! 0)) (\<lambda>(side_id, slot, nickname).
        ebind (parse_pokemon_ident (args ! 1)) (\<lambda>(target_side_id, target_slot, target_nickname).
          case (slot, target_slot) of
            (Some a, Some b) \<Rightarrow> Inr (Attribute (PokemonTransformed ei side_id a nickname
              target_side_id b target_nickname))
          | _ \<Rightarrow> Inl MalformedProtocolMessage)))
      else if wt = ''-formechange'' then
        ebind (require_args args 3) (\<lambda>_.
        ebind (parse_active_ident (args ! 0)) (\<lambda>(side_id, slot, nickname).
        ebind (parse_hp_token (args ! 2)) (\<lambda>hp.
          Inr (Attribute (FormChanged ei side_id slot nickname Temporary_Species (args ! 1) hp)))))
      else if wt = ''-terastallize'' then
        ebind (require_args args 2) (\<lambda>_.
        ebind (parse_active_ident (args ! 0)) (\<lambda>(side_id, slot, nickname).
          Inr (Attribute (Terastallized ei side_id slot nickname (args ! 1)))))
      else Inl (UnknownProtocolEvent wt))"

definition parse_evidence :: "string \<Rightarrow> string list \<Rightarrow> int \<Rightarrow> py_exc + battle_event" where
  "parse_evidence wt args ei =
     ebind
       (if args \<noteq> [] \<and> looks_like_pokemon_ident (hd args) then
          ebind (parse_pokemon_ident (hd args)) (\<lambda>(side_id, slot, nickname).
            Inr (Some side_id, slot, Some nickname, tl args))
        else Inr (None, None, None, args)) (\<lambda>(side_id, slot, nickname, remaining).
     let (effect, remaining') =
           (if remaining \<noteq> [] \<and> \<not> starts_with ''['' (hd remaining)
            then (Some (hd remaining), tl remaining) else (None, remaining))
     in Inr (Evidence
          \<lparr>ve_index = ei, ve_kind = drop 1 wt, ve_side_id = side_id, ve_slot = slot,
           ve_nickname = nickname, ve_effect = effect,
           ve_annotations = sorted_annotations remaining'\<rparr>))"

section \<open>Dispatch\<close>

definition metadata_types :: "string list" where
  "metadata_types = [''player'', ''teamsize'', ''gametype'', ''gen'', ''tier'', ''rated'', ''rule'']"

definition preview_types :: "string list" where
  "preview_types = [''clearpoke'', ''poke'', ''teampreview'']"

definition progress_types :: "string list" where
  "progress_types = [''start'', ''turn'', ''win'', ''tie'']"

definition pokemon_identity_types :: "string list" where
  "pokemon_identity_types =
     [''move'', ''switch'', ''drag'', ''faint'', ''cant'', ''detailschange'', ''replace'']"

definition health_types :: "string list" where
  "health_types = [''-damage'', ''-heal'', ''-sethp'']"

definition status_types :: "string list" where
  "status_types = [''-status'', ''-curestatus'', ''-cureteam'']"

definition boost_types :: "string list" where
  "boost_types = [''-boost'', ''-unboost'', ''-setboost'', ''-swapboost'', ''-copyboost'',
     ''-clearboost'', ''-clearallboost'', ''-clearpositiveboost'', ''-clearnegativeboost'',
     ''-invertboost'']"

definition field_types :: "string list" where
  "field_types =
     [''-weather'', ''-fieldstart'', ''-fieldend'', ''-sidestart'', ''-sideend'', ''-swapsideconditions'']"

definition volatile_types :: "string list" where
  "volatile_types = [''-start'', ''-end'', ''-singleturn'', ''-singlemove'', ''-mustrecharge'']"

definition item_ability_types :: "string list" where
  "item_ability_types = [''-item'', ''-enditem'', ''-ability'', ''-endability'']"

definition form_tera_types :: "string list" where
  "form_tera_types = [''-transform'', ''-formechange'', ''-terastallize'']"

definition is_forfeit_message :: "string \<Rightarrow> bool" where
  "is_forfeit_message message \<longleftrightarrow>
     ends_with '' lost due to inactivity.'' (lower message)
     \<or> ends_with '' forfeited.'' (lower message)
     \<or> lower message = ''all players are inactive.''"

definition parse_typed_line ::
    "string \<Rightarrow> string \<Rightarrow> string list \<Rightarrow> int \<Rightarrow> string option \<Rightarrow> py_exc + battle_event" where
  "parse_typed_line payload wt args ei room_id =
     (if wt = ''init'' then
        (if args \<noteq> [''battle''] then Inl MalformedProtocolMessage
         else (case room_id of None \<Rightarrow> Inl MalformedProtocolMessage
               | Some r \<Rightarrow> Inr (Metadata (BattleInit ei r))))
      else if wt \<in> set metadata_types then parse_metadata wt args ei
      else if wt \<in> set preview_types then parse_preview wt args ei
      else if wt \<in> set progress_types then parse_progress wt args ei
      else if wt \<in> set pokemon_identity_types then parse_pokemon_identity wt args ei
      else if wt \<in> set health_types then parse_health wt args ei
      else if wt \<in> set status_types then parse_status wt args ei
      else if wt \<in> set boost_types then parse_boost wt args ei
      else if wt \<in> set field_types then parse_field wt args ei
      else if wt \<in> set volatile_types then parse_volatile wt args ei
      else if wt \<in> set item_ability_types then parse_item_ability wt args ei
      else if wt \<in> set form_tera_types then parse_form_tera wt args ei
      else if wt \<in> set evidence_types then parse_evidence wt args ei
      else if payload = ''|'' then Inr (Ignored \<lparr>ig_index = ei, ig_kind = ''spacer''\<rparr>)
      else if wt = ''-message'' \<and> is_forfeit_message (join_with ''|'' args) then
        Inl (TimerOrForfeit (join_with ''|'' args))
      else if wt \<in> set ignored_display_types then Inr (Ignored \<lparr>ig_index = ei, ig_kind = wt\<rparr>)
      else Inl (UnknownProtocolEvent wt))"

text \<open>The \<open>except\<close> clauses: what is not a protocol error becomes one.\<close>

definition rescue :: "py_exc + 'a \<Rightarrow> py_exc + 'a" where
  "rescue r = (case r of Inr x \<Rightarrow> Inr x
     | Inl e \<Rightarrow> if e \<in> {ValueError, IndexError, KeyError} then Inl MalformedProtocolMessage else Inl e)"

definition parse_battle_line :: "string \<Rightarrow> int \<Rightarrow> string option \<Rightarrow> py_exc + battle_event" where
  "parse_battle_line payload ei room_id =
     rescue (case split_payload payload of (wt, args) \<Rightarrow> parse_typed_line payload wt args ei room_id)"

text \<open>The text of the last exception also quotes the type, which is left out here.\<close>

definition parse_inactive_line :: "string \<Rightarrow> int \<Rightarrow> py_exc + battle_event" where
  "parse_inactive_line payload ei =
     (case split_payload payload of (wt, args) \<Rightarrow>
        (let message = join_with ''|'' args;
             event = (\<lambda>kind. Evidence
               \<lparr>ve_index = ei, ve_kind = kind, ve_side_id = None, ve_slot = None,
                ve_nickname = None, ve_effect = (if message = [] then None else Some message),
                ve_annotations = []\<rparr>)
         in if wt = ''inactiveoff'' then Inr (event ''timer_warning_cleared'')
            else if wt = ''inactive'' then
              (if contains ''forfeit'' (lower message)
                  \<or> contains ''lost due to inactivity'' (lower message)
               then Inl (TimerOrForfeit message) else Inr (event ''timer_warning''))
            else Inl (UnknownProtocolEvent ''not an inactive line'')))"

end
