(* ===== verification/Session.thy ===== *)
theory Session
  imports Decision_Record Request_Reader Reducer_History Parser
begin

text \<open>
  \<open>composition/battle_session.py\<close>: one battle, driven by the lines of its room. A session is
  a record of the attributes of \<open>BattleSession\<close>; a method that may raise returns the exception,
  if any, with the session as it is at that point. What the session does to the outside is kept
  in two logs: \<open>se_sent\<close>, the calls of \<open>send_room\<close> (with the request, the submission and the
  observation each call was made for, which only the lemmas read), and \<open>se_emitted\<close>, the records
  given to the trace sink.
  The outside is a \<open>session_env\<close>: the policy, the outcome of the k-th send, whether the sink
  refuses the k-th record, and the digests.
\<close>

section \<open>The session\<close>

record pending_trace =
  pt_request :: decision_request
  pt_observed_state_digest :: string
  pt_safe_submission_set_digest :: string
  pt_decision_index :: int

record send_call =
  sc_room :: string
  sc_command :: string
  sc_delivered :: bool
  sc_request :: decision_request
  sc_submission :: battle_submission
  sc_observed :: observed_state

record battle_session =
  se_room_id :: string
  se_state :: observed_state
  se_pending_request :: "decision_request option"
  se_latest_request :: "request_identity option"
  se_submitted_request :: "request_identity option"
  se_primary_error :: "py_exc option"
  se_trace_error :: "py_exc option"
  se_record_error :: "py_exc option"
  se_done :: bool
  se_room_control_or_chat_count :: int
  se_explicit_request_submissions :: int
  se_default_submissions :: int
  se_context :: "measurement_run_context option"
  se_pending_trace :: "pending_trace option"
  se_next_decision_index :: int
  se_trace_failed :: bool
  se_sent :: "send_call list"
  se_emitted :: "decision_record list"

record session_env =
  en_policy :: "decision_request \<Rightarrow> py_exc + battle_submission"
  en_send :: "nat \<Rightarrow> string \<Rightarrow> string \<Rightarrow> py_exc option"
  en_sink_fails :: "nat \<Rightarrow> decision_record \<Rightarrow> bool"
  en_manifest :: digest_fn
  en_float_repr :: "string \<Rightarrow> string"
  en_sha256 :: "string \<Rightarrow> string"

text \<open>\<open>real_sink\<close>: a sink is given and it is not the \<open>NullTraceSink\<close>.\<close>

definition new_session ::
    "string \<Rightarrow> string \<Rightarrow> observed_state option \<Rightarrow> bool \<Rightarrow> measurement_run_context option
     \<Rightarrow> py_exc + battle_session" where
  "new_session room_id our_user_id initial real_sink ctx =
     (if real_sink \<and> ctx = None then Inl ValueError
      else Inr
        \<lparr>se_room_id = room_id,
         se_state = (case initial of None \<Rightarrow> initial_state our_user_id | Some st \<Rightarrow> st),
         se_pending_request = None, se_latest_request = None, se_submitted_request = None,
         se_primary_error = None, se_trace_error = None, se_record_error = None, se_done = False,
         se_room_control_or_chat_count = 0, se_explicit_request_submissions = 0,
         se_default_submissions = 0, se_context = ctx, se_pending_trace = None,
         se_next_decision_index = 0, se_trace_failed = False, se_sent = [], se_emitted = []\<rparr>)"

type_synonym effect = "py_exc option \<times> battle_session"

definition and_then :: "effect \<Rightarrow> (battle_session \<Rightarrow> effect) \<Rightarrow> effect" where
  "and_then m f = (case m of (None, s) \<Rightarrow> f s | (Some e, s) \<Rightarrow> (Some e, s))"

text \<open>\<open>if self._primary_error is None: self._primary_error = error\<close>.\<close>

definition note_error :: "py_exc \<Rightarrow> battle_session \<Rightarrow> battle_session" where
  "note_error e s = (if se_primary_error s = None then s\<lparr>se_primary_error := Some e\<rparr> else s)"

section \<open>Decision records\<close>

definition handle_record_construction_failure :: "battle_session \<Rightarrow> battle_session" where
  "handle_record_construction_failure s =
     (note_error DecisionRecordConstructionFailure
       (s\<lparr>se_trace_failed := True, se_record_error := Some DecisionRecordConstructionFailure\<rparr>))
       \<lparr>se_done := True\<rparr>"

definition handle_trace_failure :: "battle_session \<Rightarrow> battle_session" where
  "handle_trace_failure s =
     (note_error TraceSinkFailure
       (s\<lparr>se_trace_failed := True, se_trace_error := Some TraceSinkFailure\<rparr>))\<lparr>se_done := True\<rparr>"

definition emit :: "session_env \<Rightarrow> decision_record \<Rightarrow> battle_session \<Rightarrow> battle_session" where
  "emit env r s =
     (let s' = s\<lparr>se_emitted := se_emitted s @ [r]\<rparr>
      in if en_sink_fails env (length (se_emitted s)) r then handle_trace_failure s' else s')"

definition finalize_pending ::
    "session_env \<Rightarrow> record_status \<Rightarrow> record_error_code option \<Rightarrow> battle_submission option
     \<Rightarrow> battle_session \<Rightarrow> battle_session" where
  "finalize_pending env status error_code selected s =
     (case se_pending_trace s of
        None \<Rightarrow> s
      | Some pending \<Rightarrow>
          (let s1 = s\<lparr>se_pending_trace := None\<rparr> in
           case se_context s of
             None \<Rightarrow> s1
           | Some ctx \<Rightarrow>
               (case mc_resolved_binding ctx of
                  None \<Rightarrow> s1
                | Some b \<Rightarrow>
                    if se_trace_failed s then s1
                    else
                      (case make_record 2 status ctx b (pt_decision_index pending)
                              (Internal (dr_identity (pt_request pending)))
                              (pt_observed_state_digest pending)
                              (pt_safe_submission_set_digest pending) selected
                              (map_option bs_provenance selected)
                              (map_option error_code_value error_code) of
                         Inl _ \<Rightarrow> handle_record_construction_failure s1
                       | Inr r \<Rightarrow> emit env r s1))))"

definition open_trace :: "session_env \<Rightarrow> decision_request \<Rightarrow> battle_session \<Rightarrow> effect" where
  "open_trace env request s =
     (if se_context s = None \<or> se_trace_failed s then (None, s)
      else
        (case observed_state_digest (en_manifest env) (se_state s) of
           Inl e \<Rightarrow> (Some e, s)
         | Inr sd \<Rightarrow>
             (case safe_submission_set_digest (en_manifest env) (dr_safe_submissions request) of
                Inl e \<Rightarrow> (Some e, s)
              | Inr ss \<Rightarrow>
                  (None, s\<lparr>se_pending_trace := Some \<lparr>pt_request = request,
                             pt_observed_state_digest = sd, pt_safe_submission_set_digest = ss,
                             pt_decision_index = se_next_decision_index s\<rparr>,
                           se_next_decision_index := se_next_decision_index s + 1\<rparr>))))"

definition refresh_pending_trace_state :: "session_env \<Rightarrow> battle_session \<Rightarrow> effect" where
  "refresh_pending_trace_state env s =
     (case se_pending_trace s of
        None \<Rightarrow> (None, s)
      | Some pending \<Rightarrow>
          (case observed_state_digest (en_manifest env) (se_state s) of
             Inl e \<Rightarrow> (Some e, s)
           | Inr sd \<Rightarrow>
               (None, s\<lparr>se_pending_trace := Some (pending\<lparr>pt_observed_state_digest := sd\<rparr>)\<rparr>)))"

definition abort_record_error_codes :: "record_error_code list" where
  "abort_record_error_codes = concat (map (\<lambda>st. case status_error_codes st of None \<Rightarrow> []
     | Some cs \<Rightarrow> cs) [Session_Aborted, Reconciliation_Rejected])"

definition record_error_code :: "py_exc \<Rightarrow> record_error_code option" where
  "record_error_code e =
     (case error_code_of (exc_code e) of
        None \<Rightarrow> None
      | Some c \<Rightarrow> if c \<in> set abort_record_error_codes then Some c else None)"

definition abort :: "session_env \<Rightarrow> py_exc \<Rightarrow> battle_session \<Rightarrow> battle_session" where
  "abort env e s =
     (let s1 = note_error e s;
          s2 = (case record_error_code e of
                  None \<Rightarrow> s1
                | Some c \<Rightarrow>
                    if c \<in> {Rc_Request_State_Reconciliation_Mismatch, Rc_Stale_Rqid}
                    then finalize_pending env Freshness_Invalidated None None s1
                    else finalize_pending env Session_Aborted (Some c) None s1)
      in s2\<lparr>se_pending_request := None, se_done := True\<rparr>)"

section \<open>Submitting\<close>

definition choose_command :: "battle_submission \<Rightarrow> int \<Rightarrow> string" where
  "choose_command b rqid = ''/choose '' @ encode_submission b @ ''|'' @ show_int rqid"

definition send_failure_code :: "py_exc \<Rightarrow> record_error_code" where
  "send_failure_code e =
     (case e of ServerInvalidChoice _ \<Rightarrow> Rc_Server_Invalid_Choice
      | ServerUnavailableChoice _ \<Rightarrow> Rc_Server_Unavailable_Choice
      | _ \<Rightarrow> Rc_Send_Failed)"

definition log_send ::
    "decision_request \<Rightarrow> battle_submission \<Rightarrow> string \<Rightarrow> bool \<Rightarrow> battle_session \<Rightarrow> battle_session" where
  "log_send request b command delivered s =
     s\<lparr>se_sent := se_sent s @ [\<lparr>sc_room = se_room_id s, sc_command = command,
         sc_delivered = delivered, sc_request = request, sc_submission = b,
         sc_observed = se_state s\<rparr>]\<rparr>"

definition count_submission :: "battle_submission \<Rightarrow> battle_session \<Rightarrow> battle_session" where
  "count_submission b s =
     (case bs_provenance b of
        Explicit_Request \<Rightarrow>
          s\<lparr>se_explicit_request_submissions := se_explicit_request_submissions s + 1\<rparr>
      | Server_Default \<Rightarrow> s\<lparr>se_default_submissions := se_default_submissions s + 1\<rparr>)"

text \<open>
  The encoder of a submission does not raise (\<open>encode_submission\<close> is total), so the branch
  of the source for a failed encoding is never taken.
\<close>

definition send_authorized ::
    "session_env \<Rightarrow> decision_request \<Rightarrow> battle_submission \<Rightarrow> battle_session \<Rightarrow> effect" where
  "send_authorized env request b s =
     (let command = choose_command b (ri_rqid (dr_identity request)) in
      case en_send env (length (se_sent s)) (se_room_id s) command of
        Some e \<Rightarrow>
          (Some e, finalize_pending env Send_Failed (Some (send_failure_code e)) (Some b)
             (note_error e (log_send request b command False s)))
      | None \<Rightarrow>
          (None, finalize_pending env Submitted None (Some b)
             ((count_submission b (log_send request b command True s))
                \<lparr>se_submitted_request := Some (dr_identity request),
                 se_pending_request := None\<rparr>)))"

definition submit :: "session_env \<Rightarrow> decision_request \<Rightarrow> battle_session \<Rightarrow> effect" where
  "submit env request s =
     (if Some (dr_identity request) = se_submitted_request s then
        (None, s\<lparr>se_pending_request := None\<rparr>)
      else if dr_kind request = Wait then
        (None, finalize_pending env Wait_Noop None None
           (s\<lparr>se_submitted_request := Some (dr_identity request), se_pending_request := None\<rparr>))
      else
        (case en_policy env request of
           Inl e \<Rightarrow>
             (if e = NoLegalActionError then
                (Some e, finalize_pending env Policy_Rejected (Some Rc_No_Legal_Action_Available)
                   None (note_error e s))
              else (Some e, s))
         | Inr candidate \<Rightarrow>
             (case authorize candidate (dr_identity request) (dr_safe_submissions request) of
                Inl e \<Rightarrow>
                  (if e = LocalActionGateRejection then
                     (Some e, finalize_pending env Action_Gate_Rejected
                        (Some Rc_Local_Action_Gate_Rejection) (Some candidate) (note_error e s))
                   else (Some e, s))
              | Inr b \<Rightarrow> send_authorized env request b s)))"

definition reject_reconciliation :: "session_env \<Rightarrow> battle_session \<Rightarrow> effect" where
  "reject_reconciliation env s =
     (Some RequestStateReconciliationMismatch,
      finalize_pending env Reconciliation_Rejected (Some Rc_Request_State_Reconciliation_Mismatch)
        None (note_error RequestStateReconciliationMismatch s))"

definition retry_pending :: "session_env \<Rightarrow> bool \<Rightarrow> battle_session \<Rightarrow> effect" where
  "retry_pending env strict s =
     (case se_pending_request s of
        None \<Rightarrow> (None, s)
      | Some request \<Rightarrow>
          (case reconcile (se_room_id s) request (se_state s)
                  (map_option ri_rqid (se_submitted_request s)) of
             Inl e \<Rightarrow> (Some e, s)
           | Inr r \<Rightarrow>
               (case rr_status r of
                  Reject \<Rightarrow> reject_reconciliation env s
                | Pending_Public_State \<Rightarrow>
                    if strict \<or> (os_battle_started (se_state s) \<and> rr_reason r \<noteq> Active_Unknown)
                    then reject_reconciliation env s else (None, s)
                | Accept \<Rightarrow>
                    and_then (refresh_pending_trace_state env s) (submit env request))))"

section \<open>Processing lines\<close>

definition is_terminal :: "battle_event \<Rightarrow> bool" where
  "is_terminal event =
     (case event of Progress (BattleWon _ _) \<Rightarrow> True | Progress (BattleTied _) \<Rightarrow> True | _ \<Rightarrow> False)"

definition is_turn_started :: "battle_event \<Rightarrow> bool" where
  "is_turn_started event = (case event of Progress (TurnStarted _ _) \<Rightarrow> True | _ \<Rightarrow> False)"

definition is_battle_started :: "battle_event \<Rightarrow> bool" where
  "is_battle_started event = (case event of Progress (BattleStarted _) \<Rightarrow> True | _ \<Rightarrow> False)"

text \<open>\<open>_RETRY_EVENTS\<close>.\<close>

definition is_retry_event :: "battle_event \<Rightarrow> bool" where
  "is_retry_event event =
     (case event of
        Progress (BattleStarted _) \<Rightarrow> True
      | Metadata (GameTypeDeclared _ _) \<Rightarrow> True
      | Metadata (GenerationDeclared _ _) \<Rightarrow> True
      | Metadata (PlayerDeclared _ _ _ _) \<Rightarrow> True
      | Metadata (TierDeclared _ _) \<Rightarrow> True
      | Pokemon (PokemonDragged _ _ _ _ _ _) \<Rightarrow> True
      | Pokemon (PokemonSwitched _ _ _ _ _ _) \<Rightarrow> True
      | _ \<Rightarrow> False)"

text \<open>
  Parse a line with the next index and reduce it; a \<open>ReducerInvariantError\<close> leaves as a
  \<open>ReducerInvariantFailure\<close>, and the state is assigned only when both have succeeded.
\<close>

definition observe ::
    "(int \<Rightarrow> py_exc + battle_event) \<Rightarrow> observed_state \<Rightarrow> py_exc + (battle_event \<times> observed_state)" where
  "observe parse st =
     (case ebind (parse (os_event_index st + 1)) (\<lambda>event.
             ebind (reduce_event st event) (\<lambda>st'. Inr (event, st'))) of
        Inl e \<Rightarrow> Inl (if e = ReducerInvariantError then ReducerInvariantFailure else e)
      | Inr r \<Rightarrow> Inr r)"

definition process_battle_event :: "session_env \<Rightarrow> string \<Rightarrow> battle_session \<Rightarrow> effect" where
  "process_battle_event env payload s =
     (case observe (\<lambda>ei. parse_battle_line payload ei (Some (se_room_id s))) (se_state s) of
        Inl e \<Rightarrow> (Some e, s)
      | Inr (event, st') \<Rightarrow>
          (let s1 = s\<lparr>se_state := st'\<rparr> in
           if is_terminal event then
             (None, (finalize_pending env Terminally_Discarded None None s1)
                \<lparr>se_pending_request := None, se_done := True\<rparr>)
           else if is_turn_started event \<and> se_pending_request s1 \<noteq> None then
             retry_pending env True s1
           else if is_retry_event event \<and> se_pending_request s1 \<noteq> None then
             retry_pending env (is_battle_started event) s1
           else (None, s1)))"

definition process_timer :: "string \<Rightarrow> battle_session \<Rightarrow> effect" where
  "process_timer payload s =
     (case observe (parse_inactive_line payload) (se_state s) of
        Inl e \<Rightarrow> (Some e, s)
      | Inr (event, st') \<Rightarrow> (None, s\<lparr>se_state := st'\<rparr>))"

definition process_battle_error :: "string \<Rightarrow> battle_session \<Rightarrow> effect" where
  "process_battle_error payload s =
     (if starts_with ''|error|[Invalid choice]'' payload then (Some (ServerInvalidChoice payload), s)
      else if starts_with ''|error|[Unavailable choice]'' payload then
        (Some (ServerUnavailableChoice payload), s)
      else (Some MalformedProtocolMessage, s))"

text \<open>\<open>Inr True\<close>: the request is a repetition and is ignored.\<close>

definition check_freshness :: "battle_session \<Rightarrow> request_identity \<Rightarrow> py_exc + bool" where
  "check_freshness s ident =
     (case se_latest_request s of
        None \<Rightarrow> Inr False
      | Some latest \<Rightarrow>
          if ri_rqid ident < ri_rqid latest then Inl StaleRequestIdentity
          else if ri_rqid ident = ri_rqid latest then
            (if ri_request_digest ident = ri_request_digest latest then Inr True
             else Inl RequestStateReconciliationMismatch)
          else Inr False)"

definition process_request :: "session_env \<Rightarrow> string \<Rightarrow> battle_session \<Rightarrow> effect" where
  "process_request env payload s =
     (case read_request (en_float_repr env) (en_sha256 env) (se_room_id s)
             (drop (length ''|request|'') payload) of
        Inl e \<Rightarrow> (Some e, s)
      | Inr request \<Rightarrow>
          (case check_freshness s (dr_identity request) of
             Inl e \<Rightarrow> (Some e, s)
           | Inr True \<Rightarrow> (None, s)
           | Inr False \<Rightarrow>
               (let s1 = finalize_pending env Superseded_Before_Selection None None s;
                    s2 = s1\<lparr>se_latest_request := Some (dr_identity request),
                            se_pending_request := Some request\<rparr>
                in and_then (open_trace env request s2)
                     (\<lambda>s3. if se_done s3 then (None, s3) else retry_pending env False s3))))"

definition process_line :: "session_env \<Rightarrow> string \<Rightarrow> battle_session \<Rightarrow> effect" where
  "process_line env payload s =
     (case classify_room_payload payload of
        Battle_Event \<Rightarrow> process_battle_event env payload s
      | Decision_Request \<Rightarrow> process_request env payload s
      | Battle_Error \<Rightarrow> process_battle_error payload s
      | Timer_Message \<Rightarrow> process_timer payload s
      | Room_Control_Or_Chat \<Rightarrow>
          (None, s\<lparr>se_room_control_or_chat_count := se_room_control_or_chat_count s + 1\<rparr>)
      | Unknown \<Rightarrow> (Some (UnknownProtocolEvent ''unknown room payload''), s))"

text \<open>
  \<open>run\<close>: the connection yields lines and then ends, normally or with an exception. A line
  of another room is skipped. An exception of a line aborts the session.
\<close>

definition step_line :: "session_env \<Rightarrow> battle_session \<Rightarrow> room_line \<Rightarrow> battle_session" where
  "step_line env s line =
     (if se_done s \<or> rl_room_id line \<noteq> Some (se_room_id s) then s
      else (case process_line env (rl_payload line) s of
              (None, s') \<Rightarrow> s'
            | (Some e, s') \<Rightarrow> abort env e s'))"

fun run_session ::
    "session_env \<Rightarrow> battle_session \<Rightarrow> room_line list \<Rightarrow> py_exc option \<Rightarrow> battle_session" where
  "run_session env s [] failure = (case failure of None \<Rightarrow> s | Some e \<Rightarrow> abort env e s)"
| "run_session env s (line # rest) failure =
     (if se_done s then s
      else (let s' = step_line env s line in
            if se_done s' then s' else run_session env s' rest failure))"

record session_result =
  re_state :: observed_state
  re_primary_error :: "py_exc option"
  re_room_control_or_chat_count :: int
  re_explicit_request_submissions :: int
  re_default_submissions :: int
  re_trace_error :: "py_exc option"
  re_record_error :: "py_exc option"

definition result_snapshot :: "py_exc option \<Rightarrow> battle_session \<Rightarrow> session_result" where
  "result_snapshot primary s =
     \<lparr>re_state = se_state s,
      re_primary_error = (case primary of None \<Rightarrow> se_primary_error s | Some e \<Rightarrow> Some e),
      re_room_control_or_chat_count = se_room_control_or_chat_count s,
      re_explicit_request_submissions = se_explicit_request_submissions s,
      re_default_submissions = se_default_submissions s,
      re_trace_error = se_trace_error s,
      re_record_error = se_record_error s\<rparr>"
end
