(* ===== verification/Session_Inv.thy ===== *)
theory Session_Inv
  imports Session
begin

text \<open>
  The invariant of a battle session, for every policy, every outcome of the sends and of the
  trace sink, and every sequence of lines. \<open>session_core\<close> holds at every point: each command
  sent names a member of the safe set of a request the reconciler accepts against the
  observation of that moment, requests are answered in strictly increasing order of their
  ids, the counters count deliveries, record indices increase. \<open>session_inv\<close> adds what
  holds between two lines: the pending request is the latest one and not answered yet.
  The session interprets \<open>ordered_machine\<close> with this invariant and the order
  \<open>session_extends\<close>, in which the logs only grow and the first error stays.
\<close>

section \<open>The invariant\<close>

definition request_rqid :: "decision_request \<Rightarrow> int" where
  "request_rqid r = ri_rqid (dr_identity r)"

definition send_ok :: "string \<Rightarrow> send_call \<Rightarrow> bool" where
  "send_ok room c \<longleftrightarrow> sc_room c = room
     \<and> sc_command c = choose_command (sc_submission c) (request_rqid (sc_request c))
     \<and> sc_submission c \<in> set (ss_submissions (dr_safe_submissions (sc_request c)))
     \<and> valid_submission (sc_submission c)
     \<and> dr_kind (sc_request c) \<noteq> Wait
     \<and> acceptable room (sc_request c) (sc_observed c) None"

definition delivered_with :: "action_provenance \<Rightarrow> send_call list \<Rightarrow> int" where
  "delivered_with p cs =
     int (length (filter (\<lambda>c. sc_delivered c \<and> bs_provenance (sc_submission c) = p) cs))"

definition record_ok :: "send_call list \<Rightarrow> decision_record \<Rightarrow> bool" where
  "record_ok cs r \<longleftrightarrow>
     outcome_agrees (de_record_status r) (de_selected_submission r) (de_submission_provenance r)
       (de_fallback_or_error_class r)
     \<and> (de_record_status r = Submitted \<longrightarrow>
          (\<exists>c\<in>set cs. sc_delivered c \<and> de_selected_submission r = Some (sc_submission c)
             \<and> pi_rqid (de_request_identity r) = request_rqid (sc_request c)))"

definition records_ok :: "battle_session \<Rightarrow> bool" where
  "records_ok s \<longleftrightarrow> sorted_wrt (\<lambda>a b. de_decision_index a < de_decision_index b) (se_emitted s)
     \<and> (\<forall>r\<in>set (se_emitted s). de_decision_index r < se_next_decision_index s)
     \<and> (\<forall>t. se_pending_trace s = Some t \<longrightarrow> pt_decision_index t < se_next_decision_index s
          \<and> (\<forall>r\<in>set (se_emitted s). de_decision_index r < pt_decision_index t))
     \<and> (\<forall>r\<in>set (se_emitted s). record_ok (se_sent s) r)"

definition requests_ok :: "battle_session \<Rightarrow> bool" where
  "requests_ok s \<longleftrightarrow> sorted_wrt (\<lambda>a b. request_rqid (sc_request a) < request_rqid (sc_request b)) (se_sent s)
     \<and> (se_latest_request s = None \<longrightarrow> se_sent s = [] \<and> se_submitted_request s = None)
     \<and> (\<forall>l. se_latest_request s = Some l \<longrightarrow>
          (\<forall>c\<in>set (se_sent s). request_rqid (sc_request c) \<le> ri_rqid l)
          \<and> (\<forall>i. se_submitted_request s = Some i \<longrightarrow> ri_rqid i \<le> ri_rqid l))"

definition session_core :: "battle_session \<Rightarrow> bool" where
  "session_core s \<longleftrightarrow> wf_state (se_state s)
     \<and> (\<forall>c\<in>set (se_sent s). send_ok (se_room_id s) c)
     \<and> requests_ok s \<and> records_ok s
     \<and> se_explicit_request_submissions s = delivered_with Explicit_Request (se_sent s)
     \<and> se_default_submissions s = delivered_with Server_Default (se_sent s)"

definition pending_ok :: "battle_session \<Rightarrow> bool" where
  "pending_ok s \<longleftrightarrow> (\<forall>r. se_pending_request s = Some r \<longrightarrow>
     reader_ok (se_room_id s) r \<and> se_latest_request s = Some (dr_identity r)
     \<and> (\<forall>c\<in>set (se_sent s). request_rqid (sc_request c) < request_rqid r)
     \<and> (\<forall>i. se_submitted_request s = Some i \<longrightarrow> ri_rqid i < request_rqid r))"

definition open_ok :: "battle_session \<Rightarrow> bool" where
  "open_ok s \<longleftrightarrow> \<not> se_done s \<longrightarrow> (\<forall>c\<in>set (se_sent s). sc_delivered c)
     \<and> (\<forall>t. se_pending_trace s = Some t \<longrightarrow> se_pending_request s = Some (pt_request t))"

definition session_inv :: "battle_session \<Rightarrow> bool" where
  "session_inv s \<longleftrightarrow> session_core s \<and> pending_ok s \<and> open_ok s"

definition effect_ok :: "effect \<Rightarrow> bool" where
  "effect_ok m \<longleftrightarrow> (if fst m = None then session_inv (snd m) else session_core (snd m))"

lemma effect_ok_simps [simp]:
  "effect_ok (None, s) \<longleftrightarrow> session_inv s" "effect_ok (Some e, s) \<longleftrightarrow> session_core s"
  by (simp_all add: effect_ok_def)

lemma session_inv_core: "session_inv s \<Longrightarrow> session_core s"
  by (simp add: session_inv_def)

lemma effect_ok_and_then:
  assumes "effect_ok m" "\<And>s. m = (None, s) \<Longrightarrow> session_inv s \<Longrightarrow> effect_ok (f s)"
  shows "effect_ok (and_then m f)"
  using assms by (cases m) (auto simp: and_then_def split: option.splits)

section \<open>What a record changes\<close>

lemma note_error_simps [simp]:
  "se_room_id (note_error e s) = se_room_id s" "se_state (note_error e s) = se_state s"
  "se_pending_request (note_error e s) = se_pending_request s"
  "se_latest_request (note_error e s) = se_latest_request s"
  "se_submitted_request (note_error e s) = se_submitted_request s"
  "se_explicit_request_submissions (note_error e s) = se_explicit_request_submissions s"
  "se_default_submissions (note_error e s) = se_default_submissions s"
  "se_sent (note_error e s) = se_sent s" "se_emitted (note_error e s) = se_emitted s"
  "se_context (note_error e s) = se_context s"
  "se_pending_trace (note_error e s) = se_pending_trace s"
  "se_next_decision_index (note_error e s) = se_next_decision_index s"
  "se_trace_failed (note_error e s) = se_trace_failed s"
  "se_done (note_error e s) = se_done s"
  "se_room_control_or_chat_count (note_error e s) = se_room_control_or_chat_count s"
  by (simp_all add: note_error_def)

text \<open>The two ways a record can fail.\<close>

lemma failure_simps [simp]:
  "se_sent (handle_trace_failure s) = se_sent s"
  "se_sent (handle_record_construction_failure s) = se_sent s"
  "se_emitted (handle_trace_failure s) = se_emitted s"
  "se_emitted (handle_record_construction_failure s) = se_emitted s"
  "se_pending_trace (handle_trace_failure s) = se_pending_trace s"
  "se_pending_trace (handle_record_construction_failure s) = se_pending_trace s"
  "se_next_decision_index (handle_trace_failure s) = se_next_decision_index s"
  "se_next_decision_index (handle_record_construction_failure s) = se_next_decision_index s"
  by (simp_all add: handle_trace_failure_def handle_record_construction_failure_def)

lemma finalize_simps [simp]:
  "se_room_id (finalize_pending env st c b s) = se_room_id s"
  "se_state (finalize_pending env st c b s) = se_state s"
  "se_pending_request (finalize_pending env st c b s) = se_pending_request s"
  "se_latest_request (finalize_pending env st c b s) = se_latest_request s"
  "se_submitted_request (finalize_pending env st c b s) = se_submitted_request s"
  "se_explicit_request_submissions (finalize_pending env st c b s) = se_explicit_request_submissions s"
  "se_default_submissions (finalize_pending env st c b s) = se_default_submissions s"
  "se_sent (finalize_pending env st c b s) = se_sent s"
  "se_context (finalize_pending env st c b s) = se_context s"
  "se_next_decision_index (finalize_pending env st c b s) = se_next_decision_index s"
  "se_pending_trace (finalize_pending env st c b s) = None"
  "se_room_control_or_chat_count (finalize_pending env st c b s) = se_room_control_or_chat_count s"
  by (simp_all add: finalize_pending_def emit_def handle_trace_failure_def Let_def
      handle_record_construction_failure_def split: option.split sum.split)

text \<open>Every record is one that \<open>make_record\<close> built from the pending trace.\<close>

lemma finalize_emitted:
  "se_emitted (finalize_pending env st c b s) = se_emitted s
   \<or> (\<exists>t r ctx bd. se_pending_trace s = Some t \<and> se_emitted (finalize_pending env st c b s) = se_emitted s @ [r]
        \<and> make_record 2 st ctx bd (pt_decision_index t) (Internal (dr_identity (pt_request t)))
            (pt_observed_state_digest t) (pt_safe_submission_set_digest t) b
            (map_option bs_provenance b) (map_option error_code_value c) = Inr r)"
  by (auto simp: finalize_pending_def emit_def Let_def split: option.split sum.split)

lemma record_ok_mono: "record_ok cs r \<Longrightarrow> set cs \<subseteq> set ds \<Longrightarrow> record_ok ds r"
  unfolding record_ok_def by blast

lemma records_ok_finalize:
  assumes ok: "records_ok s"
    and submitted: "\<And>t. st = Submitted \<Longrightarrow> se_pending_trace s = Some t \<Longrightarrow>
      \<exists>d\<in>set (se_sent s). sc_delivered d \<and> b = Some (sc_submission d)
        \<and> request_rqid (pt_request t) = request_rqid (sc_request d)"
  shows "records_ok (finalize_pending env st c b s)"
proof -
  consider "se_emitted (finalize_pending env st c b s) = se_emitted s"
    | t r ctx bd where "se_pending_trace s = Some t"
      "se_emitted (finalize_pending env st c b s) = se_emitted s @ [r]"
      "make_record 2 st ctx bd (pt_decision_index t) (Internal (dr_identity (pt_request t)))
            (pt_observed_state_digest t) (pt_safe_submission_set_digest t) b
            (map_option bs_provenance b) (map_option error_code_value c) = Inr r"
    using finalize_emitted by blast
  then show ?thesis
  proof cases
    case 1
    then show ?thesis using ok by (simp add: records_ok_def)
  next
    case (2 t r ctx bd)
    note rec = make_record_Inr [OF 2(3)]
    have "pi_rqid (de_request_identity r) = request_rqid (pt_request t)"
      using rec(7) by (simp add: to_public_identity_def from_internal_def make_public_identity_Inr
          request_rqid_def)
    with submitted [OF _ 2(1)] rec have "record_ok (se_sent s) r"
      unfolding record_ok_def by auto
    moreover have "de_decision_index r < se_next_decision_index s"
      "\<forall>q\<in>set (se_emitted s). de_decision_index q < de_decision_index r"
      using ok 2(1) rec(8) by (simp_all add: records_ok_def)
    ultimately show ?thesis
      using ok 2(2) by (auto simp: records_ok_def sorted_wrt_append)
  qed
qed

lemma session_core_finalize:
  assumes "session_core s" "st \<noteq> Submitted"
  shows "session_core (finalize_pending env st c b s)"
  using assms records_ok_finalize [of s st b env c]
  by (simp add: session_core_def requests_ok_def)

lemma session_core_note [simp]: "session_core (note_error e s) \<longleftrightarrow> session_core s"
  by (simp add: session_core_def requests_ok_def records_ok_def)

lemma done_finalize: "se_done s \<Longrightarrow> se_done (finalize_pending env st c b s)"
  by (simp add: finalize_pending_def emit_def handle_trace_failure_def Let_def
      handle_record_construction_failure_def split: option.split sum.split)

lemma session_inv_finalize:
  assumes "session_inv s" "st \<noteq> Submitted"
  shows "session_inv (finalize_pending env st c b s)"
  using assms session_core_finalize [of s st env c b] done_finalize [of s env st c b]
  by (auto simp: session_inv_def pending_ok_def open_ok_def)

lemma session_inv_abort:
  assumes "session_core s"
  shows "session_inv (abort env e s)"
proof -
  define s2 where "s2 = (case record_error_code e of
                  None \<Rightarrow> note_error e s
                | Some c \<Rightarrow>
                    if c \<in> {Rc_Request_State_Reconciliation_Mismatch, Rc_Stale_Rqid}
                    then finalize_pending env Freshness_Invalidated None None (note_error e s)
                    else finalize_pending env Session_Aborted (Some c) None (note_error e s))"
  have "session_core s2"
    using assms session_core_finalize [of "note_error e s"]
    by (auto simp: s2_def split: option.split)
  then have "session_core (s2\<lparr>se_pending_request := None, se_done := True\<rparr>)"
    by (simp add: session_core_def requests_ok_def records_ok_def)
  then show ?thesis
    by (simp add: abort_def Let_def s2_def [symmetric] session_inv_def pending_ok_def open_ok_def)
qed

section \<open>Submitting\<close>

lemma delivered_with_append:
  "delivered_with p (cs @ [c]) =
     delivered_with p cs + (if sc_delivered c \<and> bs_provenance (sc_submission c) = p then 1 else 0)"
  by (simp add: delivered_with_def)

lemma log_send_simps [simp]:
  "se_room_id (log_send r b c d s) = se_room_id s" "se_state (log_send r b c d s) = se_state s"
  "se_pending_request (log_send r b c d s) = se_pending_request s"
  "se_latest_request (log_send r b c d s) = se_latest_request s"
  "se_submitted_request (log_send r b c d s) = se_submitted_request s"
  "se_explicit_request_submissions (log_send r b c d s) = se_explicit_request_submissions s"
  "se_default_submissions (log_send r b c d s) = se_default_submissions s"
  "se_emitted (log_send r b c d s) = se_emitted s"
  "se_pending_trace (log_send r b c d s) = se_pending_trace s"
  "se_next_decision_index (log_send r b c d s) = se_next_decision_index s"
  "se_done (log_send r b c d s) = se_done s"
  "se_primary_error (log_send r b c d s) = se_primary_error s"
  "se_context (log_send r b c d s) = se_context s"
  by (simp_all add: log_send_def)

lemma count_simps [simp]:
  "se_room_id (count_submission b s) = se_room_id s" "se_state (count_submission b s) = se_state s"
  "se_pending_request (count_submission b s) = se_pending_request s"
  "se_latest_request (count_submission b s) = se_latest_request s"
  "se_submitted_request (count_submission b s) = se_submitted_request s"
  "se_sent (count_submission b s) = se_sent s"
  "se_emitted (count_submission b s) = se_emitted s"
  "se_pending_trace (count_submission b s) = se_pending_trace s"
  "se_next_decision_index (count_submission b s) = se_next_decision_index s"
  "se_done (count_submission b s) = se_done s"
  "se_primary_error (count_submission b s) = se_primary_error s"
  "se_context (count_submission b s) = se_context s"
  by (simp_all add: count_submission_def split: action_provenance.split)

text \<open>What may be sent for a pending request.\<close>

definition sendable :: "decision_request \<Rightarrow> battle_submission \<Rightarrow> battle_session \<Rightarrow> bool" where
  "sendable r b s \<longleftrightarrow> se_pending_request s = Some r \<and> dr_kind r \<noteq> Wait
     \<and> b \<in> set (ss_submissions (dr_safe_submissions r))
     \<and> acceptable (se_room_id s) r (se_state s) None"

lemma sent_after_log:
  "se_sent (log_send r b (choose_command b (request_rqid r)) d s) =
     se_sent s @ [\<lparr>sc_room = se_room_id s, sc_command = choose_command b (request_rqid r),
       sc_delivered = d, sc_request = r, sc_submission = b, sc_observed = se_state s\<rparr>]"
  by (simp add: log_send_def)

lemma send_ok_logged:
  assumes "sendable r b s" "pending_ok s"
  shows "send_ok (se_room_id s) \<lparr>sc_room = se_room_id s,
    sc_command = choose_command b (request_rqid r), sc_delivered = d, sc_request = r,
    sc_submission = b, sc_observed = se_state s\<rparr>"
  using assms by (auto simp: send_ok_def sendable_def pending_ok_def reader_ok_def)

lemma core_log_send:
  assumes inv: "session_inv s" and b: "sendable r b s"
  shows "requests_ok (log_send r b (choose_command b (request_rqid r)) d s)"
    and "records_ok (log_send r b (choose_command b (request_rqid r)) d s)"
    and "\<forall>c\<in>set (se_sent (log_send r b (choose_command b (request_rqid r)) d s)). send_ok (se_room_id s) c"
proof -
  let ?s = "log_send r b (choose_command b (request_rqid r)) d s"
  have p: "pending_ok s" and core: "session_core s" using inv by (simp_all add: session_inv_def)
  from b p have r: "se_latest_request s = Some (dr_identity r)"
    "\<forall>c\<in>set (se_sent s). request_rqid (sc_request c) < request_rqid r"
    by (auto simp: sendable_def pending_ok_def)
  show "requests_ok ?s"
    using core r unfolding session_core_def requests_ok_def sent_after_log
    by (auto simp: sorted_wrt_append request_rqid_def)
  show "records_ok ?s"
    using core unfolding session_core_def records_ok_def sent_after_log
    by (auto intro: record_ok_mono)
  show "\<forall>c\<in>set (se_sent ?s). send_ok (se_room_id s) c"
    using core send_ok_logged [OF b p] unfolding session_core_def sent_after_log by auto
qed

lemma effect_ok_send:
  assumes inv: "session_inv s" and open_: "\<not> se_done s" and b: "sendable r b s"
  shows "effect_ok (send_authorized env r b s)"
proof -
  let ?cmd = "choose_command b (request_rqid r)"
  note log = core_log_send [OF inv b]
  have core: "session_core s" and p: "pending_ok s" and o': "open_ok s"
    using inv by (simp_all add: session_inv_def)
  have r: "se_pending_request s = Some r" "se_latest_request s = Some (dr_identity r)"
    "\<forall>c\<in>set (se_sent s). request_rqid (sc_request c) < request_rqid r"
    using b p by (auto simp: sendable_def pending_ok_def)
  show ?thesis
  proof (cases "en_send env (length (se_sent s)) (se_room_id s) ?cmd")
    case (Some e)
    have "session_core (log_send r b ?cmd False s)"
      using core log [of False]
      by (simp add: session_core_def sent_after_log delivered_with_append)
    then have "session_core (note_error e (log_send r b ?cmd False s))" by simp
    then show ?thesis
      using Some session_core_finalize
      by (simp add: send_authorized_def Let_def request_rqid_def [symmetric])
  next
    case None
    let ?s1 = "(count_submission b (log_send r b ?cmd True s))
      \<lparr>se_submitted_request := Some (dr_identity r), se_pending_request := None\<rparr>"
    have sent: "se_sent ?s1 = se_sent s @ [\<lparr>sc_room = se_room_id s, sc_command = ?cmd,
       sc_delivered = True, sc_request = r, sc_submission = b, sc_observed = se_state s\<rparr>]"
      by (simp add: sent_after_log)
    have counts: "se_explicit_request_submissions ?s1 = delivered_with Explicit_Request (se_sent ?s1)"
      "se_default_submissions ?s1 = delivered_with Server_Default (se_sent ?s1)"
      using core unfolding sent delivered_with_append
      by (simp_all add: session_core_def count_submission_def split: action_provenance.split)
    have req: "requests_ok ?s1"
      using log(1) [of True] r(2) by (simp add: requests_ok_def)
    have rec1: "records_ok ?s1" using log(2) [of True] by (simp add: records_ok_def)
    have rec: "records_ok (finalize_pending env Submitted None (Some b) ?s1)"
    proof (rule records_ok_finalize [OF rec1])
      fix t
      assume "se_pending_trace ?s1 = Some t"
      then have "se_pending_trace s = Some t" by simp
      then have "pt_request t = r" using o' open_ r(1) by (simp add: open_ok_def)
      then show "\<exists>d\<in>set (se_sent ?s1). sc_delivered d \<and> Some b = Some (sc_submission d)
          \<and> request_rqid (pt_request t) = request_rqid (sc_request d)"
        unfolding sent by simp
    qed
    have all: "\<forall>c\<in>set (se_sent ?s1). send_ok (se_room_id s) c" using log(3) [of True] by simp
    have wf: "wf_state (se_state s)" using core by (simp add: session_core_def)
    let ?s2 = "finalize_pending env Submitted None (Some b) ?s1"
    have "session_core ?s2"
      unfolding session_core_def using rec req counts all wf by (simp add: requests_ok_def)
    moreover have "pending_ok ?s2" by (simp add: pending_ok_def)
    moreover have "open_ok ?s2" using o' open_ sent by (auto simp: open_ok_def)
    ultimately have "session_inv ?s2" by (simp add: session_inv_def)
    then show ?thesis
      using None by (simp add: send_authorized_def Let_def request_rqid_def [symmetric])
  qed
qed

lemma acceptable_any: "acceptable room r st l \<Longrightarrow> acceptable room r st None"
  unfolding acceptable_def option.case by blast

lemma effect_ok_submit:
  assumes inv: "session_inv s" and open_: "\<not> se_done s"
    and pending: "se_pending_request s = Some r"
    and acc: "acceptable (se_room_id s) r (se_state s) l"
  shows "effect_ok (submit env r s)"
proof -
  have core: "session_core s" and p: "pending_ok s" and o': "open_ok s"
    using inv by (simp_all add: session_inv_def)
  have r: "se_latest_request s = Some (dr_identity r)"
    "\<forall>c\<in>set (se_sent s). request_rqid (sc_request c) < request_rqid r"
    using pending p by (auto simp: pending_ok_def)
  have fresh: "Some (dr_identity r) \<noteq> se_submitted_request s"
    using p pending unfolding pending_ok_def request_rqid_def by (metis less_irrefl)
  let ?w = "s\<lparr>se_submitted_request := Some (dr_identity r), se_pending_request := None\<rparr>"
  have "session_core ?w"
    using core r by (simp add: session_core_def requests_ok_def records_ok_def)
  then have wait: "session_inv (finalize_pending env Wait_Noop None None ?w)"
    using o' session_core_finalize [of ?w Wait_Noop env None None] done_finalize [of ?w env Wait_Noop None None]
    by (auto simp: session_inv_def pending_ok_def open_ok_def)
  have policy: "session_core (finalize_pending env st c b' (note_error e s))" if "st \<noteq> Submitted" for st c b' e
    using core that by (simp add: session_core_finalize)
  have send: "effect_ok (send_authorized env r b s)" if "dr_kind r \<noteq> Wait"
    "b \<in> set (ss_submissions (dr_safe_submissions r))" for b
    using that pending acceptable_any [OF acc]
    by (intro effect_ok_send [OF inv open_]) (simp add: sendable_def)
  show ?thesis
    unfolding submit_def using fresh wait policy send core
    by (auto split: sum.split simp: authorize_eq_Inr)
qed

lemma session_inv_refresh:
  assumes "session_inv s"
  shows "effect_ok (refresh_pending_trace_state env s)"
proof -
  have "session_inv (s\<lparr>se_pending_trace := Some (t\<lparr>pt_observed_state_digest := d\<rparr>)\<rparr>)"
    if "se_pending_trace s = Some t" for t d
    using assms that
    by (simp add: session_inv_def session_core_def requests_ok_def records_ok_def pending_ok_def
        open_ok_def)
  then show ?thesis
    using assms session_inv_core
    by (auto simp: refresh_pending_trace_state_def split: option.split sum.split)
qed

lemma refresh_same:
  "refresh_pending_trace_state env s = (None, s') \<Longrightarrow>
   se_pending_request s' = se_pending_request s \<and> se_room_id s' = se_room_id s
   \<and> se_state s' = se_state s \<and> se_done s' = se_done s
   \<and> se_submitted_request s' = se_submitted_request s \<and> se_sent s' = se_sent s"
  by (auto simp: refresh_pending_trace_state_def split: option.splits sum.splits)

lemma effect_ok_retry:
  assumes inv: "session_inv s" and open_: "\<not> se_done s"
  shows "effect_ok (retry_pending env strict s)"
proof (cases "se_pending_request s")
  case None
  then show ?thesis using inv by (simp add: retry_pending_def)
next
  case (Some r)
  let ?l = "map_option ri_rqid (se_submitted_request s)"
  have rej: "effect_ok (reject_reconciliation env s)"
    using session_inv_core [OF inv] by (simp add: reject_reconciliation_def session_core_finalize)
  show ?thesis
  proof (cases "reconcile (se_room_id s) r (se_state s) ?l")
    case (Inl e)
    then show ?thesis using Some session_inv_core [OF inv] by (simp add: retry_pending_def)
  next
    case (Inr x)
    show ?thesis
    proof (cases "rr_status x")
      case Accept
      then have acc: "acceptable (se_room_id s) r (se_state s) ?l"
        using reconcile_accept [OF Inr] by simp
      have "effect_ok (and_then (refresh_pending_trace_state env s) (submit env r))"
      proof (rule effect_ok_and_then [OF session_inv_refresh [OF inv]])
        fix s'
        assume s': "refresh_pending_trace_state env s = (None, s')" "session_inv s'"
        note same = refresh_same [OF s'(1)]
        show "effect_ok (submit env r s')"
          by (rule effect_ok_submit [OF s'(2), where l = ?l])
            (use same open_ Some acc in simp_all)
      qed
      then show ?thesis using Some Inr Accept by (simp add: retry_pending_def)
    next
      case Pending_Public_State
      then show ?thesis using Some Inr rej inv by (simp add: retry_pending_def)
    next
      case Reject
      then show ?thesis using Some Inr rej by (simp add: retry_pending_def)
    qed
  qed
qed

section \<open>Lines\<close>

lemma session_inv_state:
  assumes "session_inv s" "wf_state st'"
  shows "session_inv (s\<lparr>se_state := st'\<rparr>)"
  using assms
  by (simp add: session_inv_def session_core_def requests_ok_def records_ok_def pending_ok_def
      open_ok_def)

lemma observe_wf:
  assumes "observe parse st = Inr (e, st')" "wf_state st"
  shows "wf_state st'"
  using assms wf_reduce by (auto simp: observe_def ebind_eq_Inr split: sum.splits)

lemma effect_ok_battle_event:
  assumes inv: "session_inv s" and open_: "\<not> se_done s"
  shows "effect_ok (process_battle_event env payload s)"
proof (cases "observe (\<lambda>ei. parse_battle_line payload ei (Some (se_room_id s))) (se_state s)")
  case (Inl e)
  then show ?thesis using session_inv_core [OF inv] by (simp add: process_battle_event_def)
next
  case (Inr r)
  then obtain e st' where r: "r = (e, st')" by (cases r)
  have wf: "wf_state (se_state s)" using inv by (simp add: session_inv_def session_core_def)
  then have inv1: "session_inv (s\<lparr>se_state := st'\<rparr>)"
    using Inr observe_wf r inv session_inv_state by blast
  have open1: "\<not> se_done (s\<lparr>se_state := st'\<rparr>)" using open_ by simp
  note retry = effect_ok_retry [OF inv1 open1]
  have "session_inv ((finalize_pending env Terminally_Discarded None None (s\<lparr>se_state := st'\<rparr>))
      \<lparr>se_pending_request := None, se_done := True\<rparr>)"
    using session_inv_finalize [OF inv1, of Terminally_Discarded env None None]
    by (simp add: session_inv_def session_core_def requests_ok_def records_ok_def pending_ok_def
        open_ok_def)
  then show ?thesis
    unfolding process_battle_event_def Inr r Let_def using inv1 retry by simp
qed

lemma effect_ok_timer:
  assumes "session_inv s"
  shows "effect_ok (process_timer payload s)"
proof (cases "observe (parse_inactive_line payload) (se_state s)")
  case (Inr r)
  then obtain e st' where r: "r = (e, st')" by (cases r)
  have "wf_state (se_state s)" using assms by (simp add: session_inv_def session_core_def)
  then have "session_inv (s\<lparr>se_state := st'\<rparr>)"
    using Inr observe_wf r assms session_inv_state by blast
  then show ?thesis by (simp add: process_timer_def Inr r)
qed (use session_inv_core [OF assms] in \<open>simp add: process_timer_def\<close>)

lemma fresh_request:
  assumes "check_freshness s ident = Inr False" "se_latest_request s = Some l"
  shows "ri_rqid l < ri_rqid ident"
  using assms by (simp add: check_freshness_def split: if_splits)

lemma session_inv_new_request:
  assumes inv: "session_inv s" and trace: "se_pending_trace s = None"
    and r: "reader_ok (se_room_id s) r"
    and fresh: "check_freshness s (dr_identity r) = Inr False"
  shows "session_inv (s\<lparr>se_latest_request := Some (dr_identity r), se_pending_request := Some r\<rparr>)"
proof -
  have core: "session_core s" and open_: "open_ok s" using inv by (simp_all add: session_inv_def)
  have below: "(\<forall>c\<in>set (se_sent s). request_rqid (sc_request c) < request_rqid r)
      \<and> (\<forall>i. se_submitted_request s = Some i \<longrightarrow> ri_rqid i < request_rqid r)"
  proof (cases "se_latest_request s")
    case None
    then show ?thesis using core by (simp add: session_core_def requests_ok_def)
  next
    case (Some l)
    have "ri_rqid l < request_rqid r"
      using fresh_request [OF fresh Some] by (simp add: request_rqid_def)
    moreover have "\<forall>c\<in>set (se_sent s). request_rqid (sc_request c) \<le> ri_rqid l"
      "\<forall>i. se_submitted_request s = Some i \<longrightarrow> ri_rqid i \<le> ri_rqid l"
      using core Some by (simp_all add: session_core_def requests_ok_def)
    ultimately show ?thesis by (auto intro: le_less_trans)
  qed
  have "requests_ok (s\<lparr>se_latest_request := Some (dr_identity r), se_pending_request := Some r\<rparr>)"
    using core below by (auto simp: session_core_def requests_ok_def request_rqid_def)
  then have "session_core (s\<lparr>se_latest_request := Some (dr_identity r), se_pending_request := Some r\<rparr>)"
    using core by (simp add: session_core_def records_ok_def)
  then show ?thesis
    using below r open_ trace by (simp add: session_inv_def pending_ok_def open_ok_def)
qed

lemma effect_ok_open_trace:
  assumes inv: "session_inv s" and r: "se_pending_request s = Some r"
  shows "effect_ok (open_trace env r s)"
proof -
  have "session_inv (s\<lparr>se_pending_trace := Some \<lparr>pt_request = r, pt_observed_state_digest = sd,
      pt_safe_submission_set_digest = ss, pt_decision_index = se_next_decision_index s\<rparr>,
      se_next_decision_index := se_next_decision_index s + 1\<rparr>)" for sd ss
    using inv r
    by (auto simp: session_inv_def session_core_def requests_ok_def records_ok_def pending_ok_def
        open_ok_def)
  then show ?thesis
    unfolding open_trace_def using inv session_inv_core [OF inv] by (auto split: sum.split)
qed

lemma effect_ok_request:
  assumes inv: "session_inv s"
  shows "effect_ok (process_request env payload s)"
proof (cases "read_request (en_float_repr env) (en_sha256 env) (se_room_id s)
    (drop (length ''|request|'') payload)")
  case (Inl e)
  then show ?thesis using session_inv_core [OF inv] by (simp add: process_request_def)
next
  case (Inr r)
  note reader = read_request_ok [OF Inr]
  show ?thesis
  proof (cases "check_freshness s (dr_identity r)")
    case (Inl e)
    then show ?thesis using Inr session_inv_core [OF inv] by (simp add: process_request_def)
  next
    case (Inr b)
    show ?thesis
    proof (cases b)
      case True
      then show ?thesis using Inr \<open>read_request _ _ _ _ = Inr r\<close> inv by (simp add: process_request_def)
    next
      case False
      let ?s1 = "finalize_pending env Superseded_Before_Selection None None s"
      let ?s2 = "?s1\<lparr>se_latest_request := Some (dr_identity r), se_pending_request := Some r\<rparr>"
      have "check_freshness ?s1 (dr_identity r) = Inr False"
        using Inr False by (simp add: check_freshness_def)
      then have inv2: "session_inv ?s2"
        by (intro session_inv_new_request session_inv_finalize [OF inv])
          (simp_all add: reader)
      have "effect_ok (and_then (open_trace env r ?s2)
          (\<lambda>s3. if se_done s3 then (None, s3) else retry_pending env False s3))"
        by (rule effect_ok_and_then [OF effect_ok_open_trace [OF inv2]])
          (simp_all add: effect_ok_retry)
      then show ?thesis
        using Inr False \<open>read_request _ _ _ _ = Inr r\<close> by (simp add: process_request_def Let_def)
    qed
  qed
qed

lemma effect_ok_line:
  assumes inv: "session_inv s" and open_: "\<not> se_done s"
  shows "effect_ok (process_line env payload s)"
proof (cases "classify_room_payload payload")
  case Battle_Event
  then show ?thesis using effect_ok_battle_event [OF assms] by (simp add: process_line_def)
next
  case Decision_Request
  then show ?thesis using effect_ok_request [OF inv] by (simp add: process_line_def)
next
  case Battle_Error
  then show ?thesis
    using session_inv_core [OF inv] by (simp add: process_line_def process_battle_error_def)
next
  case Timer_Message
  then show ?thesis using effect_ok_timer [OF inv] by (simp add: process_line_def)
next
  case Room_Control_Or_Chat
  have "session_inv (s\<lparr>se_room_control_or_chat_count := k\<rparr>)" for k
    using inv by (simp add: session_inv_def session_core_def requests_ok_def records_ok_def
        pending_ok_def open_ok_def)
  then show ?thesis using Room_Control_Or_Chat by (simp add: process_line_def)
next
  case Unknown
  then show ?thesis using session_inv_core [OF inv] by (simp add: process_line_def)
qed

lemma session_inv_step:
  assumes "session_inv s"
  shows "session_inv (step_line env s line)"
proof (cases "se_done s \<or> rl_room_id line \<noteq> Some (se_room_id s)")
  case True
  then show ?thesis using assms unfolding step_line_def by (simp only: if_True)
next
  case False
  then have "effect_ok (process_line env (rl_payload line) s)" using assms effect_ok_line by simp
  then show ?thesis
    using False session_inv_abort
    by (cases "process_line env (rl_payload line) s") (auto simp: step_line_def split: option.split)
qed

section \<open>What a session never takes back\<close>

text \<open>A session that has stopped saw the end of the battle or reports an error.\<close>

definition ended :: "battle_session \<Rightarrow> bool" where
  "ended s \<longleftrightarrow> se_primary_error s \<noteq> None \<or> os_winner (se_state s) \<noteq> None \<or> os_tied (se_state s)"

definition session_extends :: "battle_session \<Rightarrow> battle_session \<Rightarrow> bool" where
  "session_extends a b \<longleftrightarrow> se_room_id b = se_room_id a \<and> se_context b = se_context a
     \<and> state_extends (se_state a) (se_state b)
     \<and> prefix_of (se_sent a) (se_sent b) \<and> prefix_of (se_emitted a) (se_emitted b)
     \<and> (se_primary_error a \<noteq> None \<longrightarrow> se_primary_error b = se_primary_error a)
     \<and> (se_done a \<longrightarrow> se_done b) \<and> (se_done b \<longrightarrow> se_done a \<or> ended b)
     \<and> (\<forall>l. se_latest_request a = Some l \<longrightarrow>
          (\<exists>m. se_latest_request b = Some m \<and> ri_rqid l \<le> ri_rqid m))"

lemma session_extends_refl: "session_extends a a"
  by (simp add: session_extends_def state_extends_refl)

lemma ended_extends: "session_extends a b \<Longrightarrow> ended a \<Longrightarrow> ended b"
  unfolding session_extends_def ended_def state_extends_def by auto

lemma session_extends_trans:
  assumes ab: "session_extends a b" and bc: "session_extends b c"
  shows "session_extends a c"
proof -
  have "state_extends (se_state a) (se_state c)" "prefix_of (se_sent a) (se_sent c)"
    "prefix_of (se_emitted a) (se_emitted c)"
    using ab bc unfolding session_extends_def by (blast intro: state_extends_trans prefix_of_trans)+
  moreover have "se_done c \<longrightarrow> se_done a \<or> ended c"
    using ab bc ended_extends [OF bc] unfolding session_extends_def by blast
  moreover have "\<forall>l. se_latest_request a = Some l \<longrightarrow>
      (\<exists>m. se_latest_request c = Some m \<and> ri_rqid l \<le> ri_rqid m)"
    using ab bc unfolding session_extends_def by (meson order_trans)
  moreover have "se_primary_error a \<noteq> None \<longrightarrow> se_primary_error c = se_primary_error a"
    using ab bc unfolding session_extends_def by metis
  ultimately show ?thesis using ab bc unfolding session_extends_def by simp
qed

lemma note_error_set: "se_primary_error (note_error e s) \<noteq> None"
  by (simp add: note_error_def)

lemma extends_note [simp]: "session_extends s (note_error e s)"
  by (simp add: session_extends_def note_error_def state_extends_refl)

lemma extends_failures:
  "session_extends s (handle_trace_failure s)"
  "session_extends s (handle_record_construction_failure s)"
  by (simp_all add: session_extends_def handle_trace_failure_def note_error_def ended_def
      handle_record_construction_failure_def state_extends_refl)

lemma session_extends_frame:
  assumes "se_room_id b = se_room_id a" "se_context b = se_context a" "se_state b = se_state a"
    "se_sent b = se_sent a"
    "se_emitted b = se_emitted a" "se_primary_error b = se_primary_error a"
    "se_done b = se_done a" "se_latest_request b = se_latest_request a"
  shows "session_extends a b"
  using assms by (simp add: session_extends_def state_extends_refl)

lemma extends_emit: "session_extends s (emit env r s)"
proof -
  have "session_extends s (s\<lparr>se_emitted := se_emitted s @ [r]\<rparr>)"
    by (simp add: session_extends_def state_extends_refl)
  then show ?thesis
    using extends_failures(1) session_extends_trans unfolding emit_def Let_def by (auto split: if_split)
qed

lemma extends_finalize: "session_extends s (finalize_pending env st c b s)"
proof -
  let ?s1 = "s\<lparr>se_pending_trace := None\<rparr>"
  have one: "session_extends s ?s1" by (rule session_extends_frame) simp_all
  have two: "session_extends s (emit env r ?s1)" "session_extends s (handle_record_construction_failure ?s1)" for r
    using one extends_emit extends_failures(2) session_extends_trans by blast+
  show ?thesis
    unfolding finalize_pending_def Let_def using one two session_extends_refl
    by (auto split: option.split sum.split)
qed

lemma extends_send: "session_extends s (snd (send_authorized env r b s))"
proof -
  have log: "session_extends s (log_send r b c d s)" for c d
    by (simp add: session_extends_def log_send_def state_extends_refl)
  have count: "session_extends s' ((count_submission b s')
      \<lparr>se_submitted_request := i, se_pending_request := None\<rparr>)" for s' i
    by (rule session_extends_frame) (simp_all add: count_submission_def split: action_provenance.split)
  have "session_extends s (finalize_pending env st c b' (note_error e (log_send r b cmd d s)))"
    for st c b' e cmd d
    by (rule session_extends_trans [OF log session_extends_trans [OF extends_note extends_finalize]])
  moreover have "session_extends s (finalize_pending env st c b' ((count_submission b (log_send r b cmd d s))
      \<lparr>se_submitted_request := i, se_pending_request := None\<rparr>))" for st c b' cmd d i
    by (rule session_extends_trans [OF log session_extends_trans [OF count extends_finalize]])
  ultimately show ?thesis
    unfolding send_authorized_def Let_def by (simp split: option.split)
qed

lemma extends_submit: "session_extends s (snd (submit env r s))"
proof -
  have wait: "session_extends s (s\<lparr>se_submitted_request := i, se_pending_request := None\<rparr>)"
    "session_extends s (s\<lparr>se_pending_request := None\<rparr>)" for i
    by (rule session_extends_frame; simp)+
  have fin: "session_extends s (finalize_pending env st c b (note_error e s))" for st c b e
    using extends_note extends_finalize session_extends_trans by blast
  have "session_extends s (finalize_pending env st c b
      (s\<lparr>se_submitted_request := i, se_pending_request := None\<rparr>))" for st c b i
    using wait(1) extends_finalize session_extends_trans by blast
  then show ?thesis
    unfolding submit_def using wait fin extends_send session_extends_refl
    by (auto split: sum.split)
qed

lemma extends_refresh: "session_extends s (snd (refresh_pending_trace_state env s))"
  by (auto simp: refresh_pending_trace_state_def session_extends_refl split: option.split sum.split
      intro: session_extends_frame)

lemma extends_and_then:
  assumes "session_extends s (snd m)" "\<And>s'. session_extends s' (snd (f s'))"
  shows "session_extends s (snd (and_then m f))"
  using assms session_extends_trans by (cases m) (auto simp: and_then_def split: option.split)

lemma extends_retry: "session_extends s (snd (retry_pending env strict s))"
proof -
  have "session_extends s (snd (reject_reconciliation env s))"
    unfolding reject_reconciliation_def snd_conv
    using extends_note extends_finalize session_extends_trans by blast
  moreover have "session_extends s (snd (and_then (refresh_pending_trace_state env s) (submit env r)))" for r
    by (rule extends_and_then [OF extends_refresh extends_submit])
  ultimately show ?thesis
    unfolding retry_pending_def using session_extends_refl
    by (auto split: option.split sum.split reconciliation_status.split)
qed

lemma extends_state:
  assumes "session_inv s" "observe parse (se_state s) = Inr (e, st')"
  shows "session_extends s (s\<lparr>se_state := st'\<rparr>)"
proof -
  have "wf_state (se_state s)" using assms(1) by (simp add: session_inv_def session_core_def)
  moreover have "reduce_event (se_state s) e = Inr st'"
    using assms(2) by (auto simp: observe_def ebind_eq_Inr split: sum.splits)
  ultimately have "state_extends (se_state s) st'" by (rule reducer.le_step)
  then show ?thesis by (simp add: session_extends_def)
qed

lemma terminal_state:
  assumes "observe parse st = Inr (e, st')" "is_terminal e"
  shows "os_winner st' \<noteq> None \<or> os_tied st'"
proof -
  have "reduce_event st e = Inr st'"
    using assms(1) by (auto simp: observe_def ebind_eq_Inr split: sum.splits)
  then show ?thesis
    using assms(2)
    by (auto simp: is_terminal_def reduce_event_def Let_def split: battle_event.splits
        progress_event.splits if_splits)
qed

lemma extends_battle_event:
  assumes inv: "session_inv s"
  shows "session_extends s (snd (process_battle_event env payload s))"
proof (cases "observe (\<lambda>ei. parse_battle_line payload ei (Some (se_room_id s))) (se_state s)")
  case (Inl e)
  then show ?thesis by (simp add: process_battle_event_def session_extends_refl)
next
  case (Inr r)
  then obtain e st' where r: "r = (e, st')" by (cases r)
  let ?s1 = "s\<lparr>se_state := st'\<rparr>"
  have one: "session_extends s ?s1" using Inr r extends_state [OF inv] by simp
  have retry: "session_extends s (snd (retry_pending env strict ?s1))" for strict
    using one extends_retry session_extends_trans by blast
  have "session_extends ?s1 ((finalize_pending env Terminally_Discarded None None ?s1)
      \<lparr>se_pending_request := None, se_done := True\<rparr>)" if "is_terminal e"
  proof -
    have "os_winner st' \<noteq> None \<or> os_tied st'" using terminal_state that Inr r by blast
    then show ?thesis
      using extends_finalize [of ?s1 env Terminally_Discarded None None]
      by (simp add: session_extends_def ended_def)
  qed
  then show ?thesis
    unfolding process_battle_event_def Inr r Let_def
    using one retry session_extends_trans by simp
qed

lemma extends_request:
  "session_extends s (snd (process_request env payload s))"
proof (cases "read_request (en_float_repr env) (en_sha256 env) (se_room_id s)
    (drop (length ''|request|'') payload)")
  case (Inl e)
  then show ?thesis by (simp add: process_request_def session_extends_refl)
next
  case (Inr r)
  show ?thesis
  proof (cases "check_freshness s (dr_identity r) = Inr False")
    case True
    let ?s1 = "finalize_pending env Superseded_Before_Selection None None s"
    let ?s2 = "?s1\<lparr>se_latest_request := Some (dr_identity r), se_pending_request := Some r\<rparr>"
    have "\<forall>l. se_latest_request ?s1 = Some l \<longrightarrow> ri_rqid l \<le> ri_rqid (dr_identity r)"
      using fresh_request [OF True] by auto
    then have "session_extends ?s1 ?s2"
      by (simp add: session_extends_def state_extends_refl)
    then have two: "session_extends s ?s2" using extends_finalize session_extends_trans by blast
    have tr: "session_extends ?s2 (snd (open_trace env r ?s2))"
      unfolding open_trace_def
      by (auto simp: session_extends_refl split: sum.split intro: session_extends_frame)
    have "session_extends ?s2 (snd (and_then (open_trace env r ?s2)
          (\<lambda>s3. if se_done s3 then (None, s3) else retry_pending env False s3)))"
      by (rule extends_and_then [OF tr]) (simp add: extends_retry session_extends_refl)
    with two have "session_extends s (snd (and_then (open_trace env r ?s2)
          (\<lambda>s3. if se_done s3 then (None, s3) else retry_pending env False s3)))"
      by (rule session_extends_trans)
    then show ?thesis using Inr True by (simp add: process_request_def Let_def)
  next
    case False
    then show ?thesis
      using Inr session_extends_refl by (auto simp: process_request_def split: sum.split bool.split)
  qed
qed

lemma extends_line:
  assumes inv: "session_inv s"
  shows "session_extends s (snd (process_line env payload s))"
proof (cases "classify_room_payload payload")
  case Battle_Event
  then show ?thesis using extends_battle_event [OF inv] by (simp add: process_line_def)
next
  case Decision_Request
  then show ?thesis using extends_request by (simp add: process_line_def)
next
  case Timer_Message
  then show ?thesis
    using extends_state [OF inv] session_extends_refl
    by (auto simp: process_line_def process_timer_def split: sum.split)
next
  case Room_Control_Or_Chat
  then show ?thesis by (auto simp: process_line_def intro: session_extends_frame)
qed (simp_all add: process_line_def process_battle_error_def session_extends_refl)

lemma extends_abort: "session_extends s (abort env e s)"
proof -
  define s2 where "s2 = (case record_error_code e of
                  None \<Rightarrow> note_error e s
                | Some c \<Rightarrow>
                    if c \<in> {Rc_Request_State_Reconciliation_Mismatch, Rc_Stale_Rqid}
                    then finalize_pending env Freshness_Invalidated None None (note_error e s)
                    else finalize_pending env Session_Aborted (Some c) None (note_error e s))"
  have "session_extends (note_error e s) s2"
    unfolding s2_def using extends_finalize session_extends_refl by (auto split: option.split)
  then have s2: "session_extends s s2" and set: "se_primary_error s2 \<noteq> None"
    using extends_note session_extends_trans note_error_set
    by (blast, metis session_extends_def)
  have "session_extends s2 (s2\<lparr>se_pending_request := None, se_done := True\<rparr>)"
    using set by (simp add: session_extends_def state_extends_refl ended_def)
  with s2 have "session_extends s (s2\<lparr>se_pending_request := None, se_done := True\<rparr>)"
    by (rule session_extends_trans)
  then show ?thesis by (simp add: abort_def Let_def s2_def)
qed

lemma extends_step:
  assumes "session_inv s"
  shows "session_extends s (step_line env s line)"
proof (cases "se_done s \<or> rl_room_id line \<noteq> Some (se_room_id s)")
  case True
  then show ?thesis unfolding step_line_def by (simp only: if_True session_extends_refl)
next
  case False
  obtain r s' where p: "process_line env (rl_payload line) s = (r, s')" by fastforce
  have one: "session_extends s s'" using extends_line [OF assms, of env "rl_payload line"] p by simp
  have "session_extends s (abort env e s')" for e
    using one extends_abort by (rule session_extends_trans)
  then show ?thesis using False one p by (simp add: step_line_def split: option.split)
qed

section \<open>Runs\<close>

text \<open>A step of the session always succeeds; \<open>run_session\<close> is the fold over the lines.\<close>

definition session_step :: "session_env \<Rightarrow> battle_session \<Rightarrow> room_line \<Rightarrow> py_exc + battle_session" where
  "session_step env s line = Inr (step_line env s line)"

interpretation session: ordered_machine "session_step env" session_inv session_extends for env
proof
  fix s line s' a b c
  show "session_inv s'" if "session_inv s" "session_step env s line = Inr s'"
    using that session_inv_step by (auto simp: session_step_def)
  show "session_extends a a" by (rule session_extends_refl)
  show "session_extends a c" if "session_extends a b" "session_extends b c"
    using that by (rule session_extends_trans)
  show "session_extends s s'" if "session_inv s" "session_step env s line = Inr s'"
    using that extends_step by (auto simp: session_step_def)
qed

lemma steps_done:
  "se_done s \<Longrightarrow> efold (session_step env) s lines = Inr s"
  by (induction lines) (simp_all add: session_step_def step_line_def)

text \<open>
  \<open>run_session\<close> is the fold over the lines, followed by an abort when the connection fails
  and the session has not stopped before.
\<close>

lemma run_session_fold:
  assumes "\<not> se_done s"
  shows "\<exists>t. efold (session_step env) s lines = Inr t
    \<and> (run_session env s lines failure = t
       \<or> (\<not> se_done t \<and> (\<exists>e. failure = Some e \<and> run_session env s lines failure = abort env e t)))"
  using assms
proof (induction lines arbitrary: s)
  case Nil
  then show ?case by (auto split: option.split)
next
  case (Cons line rest)
  show ?case
  proof (cases "se_done (step_line env s line)")
    case True
    then show ?thesis using Cons.prems steps_done [OF True]
      by (simp add: session_step_def [of env s line] Let_def)
  next
    case False
    from Cons.IH [OF False] Cons.prems False show ?thesis
      by (simp add: session_step_def [of env s line] Let_def)
  qed
qed

lemma run_session_ok:
  assumes inv: "session_inv s" and open_: "\<not> se_done s"
  shows "session_inv (run_session env s lines failure)"
    and "session_extends s (run_session env s lines failure)"
proof -
  obtain t where t: "efold (session_step env) s lines = Inr t"
    and res: "run_session env s lines failure = t
       \<or> (\<exists>e. run_session env s lines failure = abort env e t)"
    using run_session_fold [OF open_] by blast
  have inv_t: "session_inv t" by (rule session.inv_run [OF inv t])
  have le_t: "session_extends s t" by (rule session.le_run [OF inv t])
  from res show "session_inv (run_session env s lines failure)"
    using inv_t session_inv_abort session_inv_core by auto
  from res show "session_extends s (run_session env s lines failure)"
    using le_t session_extends_trans [OF le_t extends_abort] by auto
qed

lemma new_session_ok:
  assumes "new_session room user None sink ctx = Inr s"
  shows "session_inv s" "\<not> se_done s" "se_room_id s = room" "se_sent s = []"
    "se_primary_error s = None"
  using assms wf_initial
  by (auto simp: new_session_def session_inv_def session_core_def requests_ok_def records_ok_def
      pending_ok_def open_ok_def delivered_with_def split: if_splits)

text \<open>A failed send is the last one: it aborts the session.\<close>

lemma undelivered_last:
  assumes "session_inv s" "c \<in> set (se_sent s)" "\<not> sc_delivered c"
  shows "se_done s"
  using assms by (auto simp: session_inv_def open_ok_def)

text \<open>
  With the heuristic policy and a connection that delivers, a pending request that the
  reconciler accepts is answered at once.
\<close>

lemma retry_answers:
  assumes inv: "session_inv s" and pending: "se_pending_request s = Some r"
    and kind: "dr_kind r \<noteq> Wait" and policy: "en_policy env = heuristic_select"
    and sends: "\<And>k room cmd. en_send env k room cmd = None"
    and traces: "se_pending_trace s = None"
    and acc: "acceptable (se_room_id s) r (se_state s) (map_option ri_rqid (se_submitted_request s))"
  shows "\<exists>b s'. retry_pending env strict s = (None, s') \<and> heuristic_select r = Inr b
    \<and> se_sent s' = se_sent s @ [\<lparr>sc_room = se_room_id s,
          sc_command = choose_command b (request_rqid r), sc_delivered = True, sc_request = r,
          sc_submission = b, sc_observed = se_state s\<rparr>]
    \<and> se_pending_request s' = None \<and> se_submitted_request s' = Some (dr_identity r)"
proof -
  have p: "reader_ok (se_room_id s) r" "\<forall>i. se_submitted_request s = Some i \<longrightarrow> ri_rqid i < request_rqid r"
    using inv pending by (auto simp: session_inv_def pending_ok_def)
  have fresh: "Some (dr_identity r) \<noteq> se_submitted_request s"
    using p(2) unfolding request_rqid_def by (metis less_irrefl)
  have "\<exists>d\<in>set (ss_submissions (dr_safe_submissions r)). bs_kind d = Default"
    using p(1) kind by (simp add: reader_ok_def submissions_agree_def Let_def)
  then have "ss_submissions (dr_safe_submissions r) \<noteq> []" by auto
  then obtain b where b: "heuristic_select r = Inr b" using heuristic.select_total by blast
  have auth: "authorize b (dr_identity r) (dr_safe_submissions r) = Inr b"
    using p(1) by (intro heuristic.gate_accepts [OF _ b]) (simp add: reader_ok_def)
  obtain ours where "side (se_state s) (dr_side_id r) = Inr ours" "os_our_side (se_state s) = Some (dr_side_id r)"
    using acc by (auto simp: acceptable_def)
  then obtain x where x: "reconcile (se_room_id s) r (se_state s)
      (map_option ri_rqid (se_submitted_request s)) = Inr x"
    using reconcile_total [of "se_state s"] by (fastforce simp: side_eq_Inr)
  then have accept: "rr_status x = Accept" using reconcile_accept acc by blast
  have "retry_pending env strict s = submit env r s"
    using pending x accept traces
    by (simp add: retry_pending_def refresh_pending_trace_state_def and_then_def)
  also have "\<dots> = send_authorized env r b s"
    using fresh kind policy b auth by (simp add: submit_def)
  finally have run: "retry_pending env strict s = send_authorized env r b s" .
  show ?thesis
    unfolding run using sends b
    by (simp add: send_authorized_def Let_def sent_after_log request_rqid_def [symmetric])
qed
end
