(* ===== verification/Session_Trace.thy ===== *)
theory Session_Trace
  imports Session_Inv
begin

text \<open>
  What a session promises to whoever reads its trace: \<open>accepted\<close> is the ledger of
  \<open>testing/recording_trace_sink.py\<close>, the records its delegate did not refuse. The invariant
  \<open>trace_inv\<close> says that at most the last record is refused, that a refusal and a failed
  construction are recorded in the session and end it, and that the counters of the session
  are those of its submitted records as long as every record could be built.
\<close>

section \<open>The ledger\<close>

fun accepted_from :: "session_env \<Rightarrow> nat \<Rightarrow> decision_record list \<Rightarrow> decision_record list" where
  "accepted_from env k [] = []"
| "accepted_from env k (r # rs) =
     (if en_sink_fails env k r then accepted_from env (Suc k) rs
      else r # accepted_from env (Suc k) rs)"

definition accepted :: "session_env \<Rightarrow> decision_record list \<Rightarrow> decision_record list" where
  "accepted env rs = accepted_from env 0 rs"

lemma accepted_from_append:
  "accepted_from env k (rs @ [r]) = accepted_from env k rs
     @ (if en_sink_fails env (k + length rs) r then [] else [r])"
  by (induction rs arbitrary: k) simp_all

lemma accepted_append:
  "accepted env (rs @ [r]) = accepted env rs @ (if en_sink_fails env (length rs) r then [] else [r])"
  by (simp add: accepted_def accepted_from_append)

definition submitted_with :: "action_provenance \<Rightarrow> decision_record list \<Rightarrow> int" where
  "submitted_with p rs = int (length (filter
     (\<lambda>r. de_record_status r = Submitted \<and> de_submission_provenance r = Some p) rs))"

lemma submitted_with_append:
  "submitted_with p (rs @ [r]) = submitted_with p rs
     + (if de_record_status r = Submitted \<and> de_submission_provenance r = Some p then 1 else 0)"
  by (simp add: submitted_with_def)

section \<open>The invariant\<close>

definition bound :: "battle_session \<Rightarrow> bool" where
  "bound s \<longleftrightarrow> (\<exists>ctx b. se_context s = Some ctx \<and> mc_resolved_binding ctx = Some b)"

definition ledger_ok :: "session_env \<Rightarrow> battle_session \<Rightarrow> bool" where
  "ledger_ok env s \<longleftrightarrow>
     (if se_trace_error s = None then accepted env (se_emitted s) = se_emitted s
      else (\<exists>rs r. se_emitted s = rs @ [r] \<and> accepted env (se_emitted s) = rs
        \<and> (de_record_status r = Submitted \<longrightarrow> se_primary_error s = Some TraceSinkFailure)))"

definition recorded_by :: "measurement_run_context option \<Rightarrow> decision_record \<Rightarrow> bool" where
  "recorded_by ctx r \<longleftrightarrow> map_option mc_run_context_digest ctx = Some (de_run_context_digest r)
     \<and> 0 \<le> de_decision_index r \<and> de_decision_index r \<le> max_safe_integer"

text \<open>With digests and a context of the right form, a pending trace can become a record.\<close>

definition total_digest :: "digest_fn \<Rightarrow> bool" where
  "total_digest manifest \<longleftrightarrow> (\<forall>v. \<exists>d. manifest v = Inr d \<and> is_digest_text d)"

definition context_ok :: "measurement_run_context option \<Rightarrow> bool" where
  "context_ok c \<longleftrightarrow> (\<forall>ctx. c = Some ctx \<longrightarrow> is_digest_text (mc_run_context_digest ctx)
     \<and> is_digest_text (rc_battle_id_digest (mc_payload ctx))
     \<and> (\<forall>b. mc_resolved_binding ctx = Some b \<longrightarrow> is_arm_id (rb_arm_id b)))"

definition trace_ready :: "int \<Rightarrow> pending_trace \<Rightarrow> bool" where
  "trace_ready n t \<longleftrightarrow> is_digest_text (pt_observed_state_digest t)
     \<and> is_digest_text (pt_safe_submission_set_digest t)
     \<and> (\<exists>p. from_internal (dr_identity (pt_request t)) = Inr p)
     \<and> 0 \<le> pt_decision_index t \<and> pt_decision_index t < n"

definition buildable :: "session_env \<Rightarrow> battle_session \<Rightarrow> bool" where
  "buildable env s \<longleftrightarrow> 0 \<le> se_next_decision_index s
     \<and> (total_digest (en_manifest env) \<and> context_ok (se_context s)
          \<and> se_next_decision_index s \<le> max_safe_integer \<longrightarrow>
        se_record_error s = None
        \<and> (\<forall>t. se_pending_trace s = Some t \<longrightarrow> trace_ready (se_next_decision_index s) t))"

definition trace_core :: "session_env \<Rightarrow> battle_session \<Rightarrow> bool" where
  "trace_core env s \<longleftrightarrow>
     (se_trace_failed s \<longleftrightarrow> se_trace_error s \<noteq> None \<or> se_record_error s \<noteq> None)
     \<and> \<not> (se_trace_error s \<noteq> None \<and> se_record_error s \<noteq> None)
     \<and> (se_trace_failed s \<longrightarrow> se_primary_error s \<noteq> None)
     \<and> ledger_ok env s \<and> buildable env s
     \<and> (\<forall>r\<in>set (se_emitted s). recorded_by (se_context s) r)
     \<and> 0 \<le> se_room_control_or_chat_count s"

definition counts_ok :: "battle_session \<Rightarrow> bool" where
  "counts_ok s \<longleftrightarrow> (bound s \<and> se_record_error s = None \<longrightarrow>
     se_explicit_request_submissions s = submitted_with Explicit_Request (se_emitted s)
     \<and> se_default_submissions s = submitted_with Server_Default (se_emitted s))"

definition traced_pending :: "battle_session \<Rightarrow> bool" where
  "traced_pending s \<longleftrightarrow> (\<not> se_done s \<longrightarrow> se_primary_error s = None \<and> \<not> se_trace_failed s
     \<and> (bound s \<and> se_pending_request s \<noteq> None \<longrightarrow> se_pending_trace s \<noteq> None))"

definition trace_inv :: "session_env \<Rightarrow> battle_session \<Rightarrow> bool" where
  "trace_inv env s \<longleftrightarrow> trace_core env s \<and> counts_ok s \<and> traced_pending s"

definition trace_effect :: "session_env \<Rightarrow> effect \<Rightarrow> bool" where
  "trace_effect env m \<longleftrightarrow> trace_core env (snd m) \<and> counts_ok (snd m)
     \<and> (fst m = None \<longrightarrow> traced_pending (snd m))"

lemma trace_effect_simps [simp]:
  "trace_effect env (None, s) \<longleftrightarrow> trace_inv env s"
  "trace_effect env (Some e, s) \<longleftrightarrow> trace_core env s \<and> counts_ok s"
  by (simp_all add: trace_effect_def trace_inv_def)

lemma trace_effect_and_then:
  assumes "trace_effect env m" "\<And>s. m = (None, s) \<Longrightarrow> trace_inv env s \<Longrightarrow> trace_effect env (f s)"
  shows "trace_effect env (and_then m f)"
  using assms by (cases m) (auto simp: and_then_def split: option.splits)

section \<open>Preservation\<close>

lemma trace_frame:
  assumes "se_trace_failed t = se_trace_failed s" "se_trace_error t = se_trace_error s"
    "se_record_error t = se_record_error s" "se_primary_error t = se_primary_error s"
    "se_emitted t = se_emitted s" "se_context t = se_context s"
    "se_room_control_or_chat_count s \<le> se_room_control_or_chat_count t"
    "se_next_decision_index t = se_next_decision_index s"
    "se_pending_trace t = se_pending_trace s"
  shows "trace_core env s \<Longrightarrow> trace_core env t"
    and "se_explicit_request_submissions t = se_explicit_request_submissions s \<Longrightarrow>
      se_default_submissions t = se_default_submissions s \<Longrightarrow> counts_ok s \<Longrightarrow> counts_ok t"
  using assms by (simp_all add: trace_core_def ledger_ok_def counts_ok_def bound_def buildable_def)

lemma trace_failures [simp]:
  "se_trace_error (note_error e s) = se_trace_error s"
  "se_record_error (note_error e s) = se_record_error s"
  "se_primary_error (note_error e s) = (if se_primary_error s = None then Some e else se_primary_error s)"
  by (simp_all add: note_error_def)

lemma note_core:
  assumes "trace_core env s"
  shows "trace_core env (note_error e s)"
  using assms by (auto simp: trace_core_def ledger_ok_def buildable_def split: if_splits)

lemma note_counts [simp]: "counts_ok (note_error e s) \<longleftrightarrow> counts_ok s"
  by (simp add: counts_ok_def bound_def)

lemma emit_core:
  assumes "trace_core env s" "\<not> se_trace_failed s"
    and "recorded_by (se_context s) r"
    and "de_record_status r = Submitted \<longrightarrow> se_primary_error s = None"
  shows "trace_core env (emit env r s)"
  using assms
  by (auto simp: trace_core_def ledger_ok_def buildable_def emit_def Let_def
      handle_trace_failure_def note_error_def accepted_append)

lemma make_record_total:
  assumes "total_digest manifest" "context_ok (Some ctx)" "mc_resolved_binding ctx = Some b"
    and "trace_ready n t" "n \<le> max_safe_integer"
    and "outcome_agrees st sel (map_option bs_provenance sel) c"
  shows "\<exists>r. make_record 2 st ctx b (pt_decision_index t) (Internal (dr_identity (pt_request t)))
    (pt_observed_state_digest t) (pt_safe_submission_set_digest t) sel
    (map_option bs_provenance sel) (map_option error_code_value c) = Inr r"
proof -
  obtain p where p: "from_internal (dr_identity (pt_request t)) = Inr p"
    using assms(4) by (auto simp: trace_ready_def)
  then have "is_digest_text (pi_request_digest p)"
    by (simp add: from_internal_def make_public_identity_Inr)
  moreover have "check_outcome st sel (map_option bs_provenance sel) c = Inr ()"
    using assms(6) by (simp add: check_outcome_iff)
  ultimately show ?thesis
    using p assms by (auto simp: make_record_def to_public_identity_def context_ok_def trace_ready_def
        require_safe_integer_def require_digests_def require_digest_def)
qed

lemma construction_core:
  assumes "trace_core env s" "\<not> se_trace_failed s"
    and "\<not> (total_digest (en_manifest env) \<and> context_ok (se_context s)
      \<and> se_next_decision_index s \<le> max_safe_integer)"
  shows "trace_core env (handle_record_construction_failure s)"
  using assms
  by (auto simp: trace_core_def ledger_ok_def buildable_def handle_record_construction_failure_def
      note_error_def)

text \<open>The ways a pending trace is finalized.\<close>

lemma finalize_cases:
  obtains (skip) "finalize_pending env st c b s = s\<lparr>se_pending_trace := None\<rparr>"
      "se_pending_trace s = None \<or> \<not> bound s \<or> se_trace_failed s"
  | (failed) "finalize_pending env st c b s
        = handle_record_construction_failure (s\<lparr>se_pending_trace := None\<rparr>)" "\<not> se_trace_failed s"
      "outcome_agrees st b (map_option bs_provenance b) c \<Longrightarrow>
        \<not> (buildable env s \<and> total_digest (en_manifest env) \<and> context_ok (se_context s)
           \<and> se_next_decision_index s \<le> max_safe_integer)"
  | (emitted) r ctx where "finalize_pending env st c b s = emit env r (s\<lparr>se_pending_trace := None\<rparr>)"
      "\<not> se_trace_failed s" "se_context s = Some ctx" "recorded_by (Some ctx) r" "de_record_status r = st"
      "de_submission_provenance r = map_option bs_provenance b"
proof (cases "se_pending_trace s")
  case None
  then show thesis using skip by (simp add: finalize_pending_def)
next
  case (Some t)
  show thesis
  proof (cases "bound s \<and> \<not> se_trace_failed s")
    case False
    then show thesis
      using skip Some by (auto simp: finalize_pending_def bound_def Let_def split: option.splits)
  next
    case True
    then obtain ctx bd where ctx: "se_context s = Some ctx" "mc_resolved_binding ctx = Some bd"
      by (auto simp: bound_def)
    let ?m = "make_record 2 st ctx bd (pt_decision_index t) (Internal (dr_identity (pt_request t)))
      (pt_observed_state_digest t) (pt_safe_submission_set_digest t) b
      (map_option bs_provenance b) (map_option error_code_value c)"
    show thesis
    proof (cases ?m)
      case (Inl e)
      have "\<not> (buildable env s \<and> total_digest (en_manifest env) \<and> context_ok (se_context s)
          \<and> se_next_decision_index s \<le> max_safe_integer)"
        if "outcome_agrees st b (map_option bs_provenance b) c"
        using make_record_total [OF _ _ ctx(2) _ _ that] Some Inl ctx(1)
        unfolding buildable_def by fastforce
      then show thesis
        using failed Some Inl True ctx by (simp add: finalize_pending_def Let_def)
    next
      case (Inr r)
      have "de_run_context_digest r = mc_run_context_digest ctx"
        using Inr by (auto simp: make_record_def ebind_eq_Inr)
      with make_record_Inr(6) [OF Inr] have "recorded_by (Some ctx) r" by (simp add: recorded_by_def)
      then show thesis
        using emitted [of r ctx] Inr Some True ctx make_record_Inr [OF Inr]
        by (simp add: finalize_pending_def Let_def)
    qed
  qed
qed

lemma clear_trace_core:
  "trace_core env s \<Longrightarrow> trace_core env (s\<lparr>se_pending_trace := None\<rparr>)"
  by (auto simp: trace_core_def ledger_ok_def buildable_def)

lemma clear_counts [simp]: "counts_ok (s\<lparr>se_pending_trace := t\<rparr>) \<longleftrightarrow> counts_ok s"
  by (simp add: counts_ok_def bound_def)

lemma emit_simps [simp]:
  "se_emitted (emit env r s) = se_emitted s @ [r]"
  "se_record_error (emit env r s) = se_record_error s"
  "se_explicit_request_submissions (emit env r s) = se_explicit_request_submissions s"
  "se_default_submissions (emit env r s) = se_default_submissions s"
  "se_context (emit env r s) = se_context s"
  by (simp_all add: emit_def Let_def handle_trace_failure_def note_error_def)

lemma emit_counts:
  assumes "counts_ok s" "de_record_status r \<noteq> Submitted"
  shows "counts_ok (emit env r s)"
  using assms by (simp add: counts_ok_def bound_def submitted_with_append)

lemma construction_counts [simp]: "counts_ok (handle_record_construction_failure s)"
  by (simp add: counts_ok_def handle_record_construction_failure_def note_error_def)

lemma finalize_core:
  assumes core: "trace_core env s" and out: "outcome_agrees st b (map_option bs_provenance b) c"
    and sub: "st = Submitted \<longrightarrow> se_primary_error s = None"
  shows "trace_core env (finalize_pending env st c b s)"
proof (cases rule: finalize_cases [of env st c b s])
  case skip
  then show ?thesis using clear_trace_core [OF core] by simp
next
  case failed
  have "buildable env s" using core by (simp add: trace_core_def)
  then show ?thesis
    using failed(1,2) failed(3) [OF out] clear_trace_core [OF core]
      construction_core [of env "s\<lparr>se_pending_trace := None\<rparr>"] by simp
next
  case (emitted r ctx)
  then show ?thesis
    using sub clear_trace_core [OF core] emit_core [of env "s\<lparr>se_pending_trace := None\<rparr>" r] by simp
qed

text \<open>The outcomes with which the session finalizes a record.\<close>

lemma session_outcomes [simp]:
  "outcome_agrees Submitted (Some b) (Some (bs_provenance b)) None"
  "outcome_agrees Wait_Noop None None None" "outcome_agrees Terminally_Discarded None None None"
  "outcome_agrees Superseded_Before_Selection None None None"
  "outcome_agrees Freshness_Invalidated None None None"
  "outcome_agrees Policy_Rejected None None (Some Rc_No_Legal_Action_Available)"
  "outcome_agrees Action_Gate_Rejected (Some b) (Some (bs_provenance b)) (Some Rc_Local_Action_Gate_Rejection)"
  "outcome_agrees Send_Failed (Some b) (Some (bs_provenance b)) (Some (send_failure_code e))"
  "outcome_agrees Reconciliation_Rejected None None (Some Rc_Request_State_Reconciliation_Mismatch)"
  by (simp_all add: outcome_agrees_def selected_required_def status_error_codes_def
      send_failure_code_def split: py_exc.split)

lemma abort_outcome:
  assumes "record_error_code e = Some c" "c \<notin> {Rc_Request_State_Reconciliation_Mismatch, Rc_Stale_Rqid}"
  shows "outcome_agrees Session_Aborted None None (Some c)"
  using assms
  by (auto simp: record_error_code_def abort_record_error_codes_def outcome_agrees_def
      selected_required_def status_error_codes_def split: option.splits if_splits)

lemma finalize_counts:
  assumes "counts_ok s" "st \<noteq> Submitted"
  shows "counts_ok (finalize_pending env st c b s)"
proof (cases rule: finalize_cases [of env st c b s])
  case (emitted r ctx)
  then show ?thesis using assms emit_counts [of "s\<lparr>se_pending_trace := None\<rparr>" r env] by simp
qed (use assms in simp_all)

lemma finalize_open:
  assumes "\<not> se_done (finalize_pending env st c b s)"
  shows "\<not> se_done s" "se_primary_error (finalize_pending env st c b s) = se_primary_error s"
    "se_trace_failed (finalize_pending env st c b s) = se_trace_failed s"
  using assms
  by (cases rule: finalize_cases [of env st c b s];
      simp add: emit_def Let_def handle_trace_failure_def handle_record_construction_failure_def
        split: if_splits)+

lemma abort_trace:
  assumes "trace_core env s" "counts_ok s"
  shows "trace_inv env (abort env e s)"
proof -
  let ?n = "note_error e s"
  have fin: "trace_core env (finalize_pending env st c None ?n) \<and> counts_ok (finalize_pending env st c None ?n)"
    if "st \<noteq> Submitted" "outcome_agrees st None None c" for st c
    using assms that finalize_core [OF note_core] finalize_counts by simp
  have "trace_core env (t\<lparr>se_pending_request := None, se_done := True\<rparr>)
      \<and> counts_ok (t\<lparr>se_pending_request := None, se_done := True\<rparr>)"
    if "trace_core env t \<and> counts_ok t" for t
    using that trace_frame [of "t\<lparr>se_pending_request := None, se_done := True\<rparr>" t] by simp
  then show ?thesis
    using fin assms note_core abort_outcome
    by (auto simp: abort_def Let_def trace_inv_def traced_pending_def split: option.split)
qed

section \<open>Submitting\<close>

lemma log_trace [simp]:
  "se_trace_failed (log_send r b c d s) = se_trace_failed s"
  "se_trace_error (log_send r b c d s) = se_trace_error s"
  "se_record_error (log_send r b c d s) = se_record_error s"
  "se_default_submissions (log_send r b c d s) = se_default_submissions s"
  "se_room_control_or_chat_count (log_send r b c d s) = se_room_control_or_chat_count s"
  by (simp_all add: log_send_def)

lemma count_trace [simp]:
  "se_trace_failed (count_submission b s) = se_trace_failed s"
  "se_trace_error (count_submission b s) = se_trace_error s"
  "se_record_error (count_submission b s) = se_record_error s"
  "se_room_control_or_chat_count (count_submission b s) = se_room_control_or_chat_count s"
  by (simp_all add: count_submission_def split: action_provenance.split)

lemma trace_send:
  assumes inv: "trace_inv env s" and open_: "\<not> se_done s" and p: "se_pending_request s \<noteq> None"
  shows "trace_effect env (send_authorized env r b s)"
proof (cases "en_send env (length (se_sent s)) (se_room_id s) (choose_command b (ri_rqid (dr_identity r)))")
  case (Some e)
  let ?l = "log_send r b (choose_command b (ri_rqid (dr_identity r))) False s"
  have "trace_core env ?l" "counts_ok ?l"
    using inv trace_frame [of ?l s] by (simp_all add: trace_inv_def)
  then show ?thesis
    using Some note_core finalize_core finalize_counts
    by (simp add: send_authorized_def Let_def)
next
  case None
  let ?s = "(count_submission b (log_send r b (choose_command b (ri_rqid (dr_identity r))) True s))
    \<lparr>se_submitted_request := Some (dr_identity r), se_pending_request := None\<rparr>"
  let ?f = "finalize_pending env Submitted None (Some b) ?s"
  have free: "se_primary_error s = None" "\<not> se_trace_failed s" "bound s \<longrightarrow> se_pending_trace s \<noteq> None"
    using inv open_ p by (auto simp: trace_inv_def traced_pending_def)
  have core: "trace_core env ?s"
    using inv trace_frame(1) [of ?s s env] by (simp add: trace_inv_def)
  have "trace_core env ?f" using core free(1) by (simp add: finalize_core)
  moreover have "counts_ok ?f"
  proof (cases rule: finalize_cases [of env Submitted None "Some b" ?s])
    case skip
    then have "\<not> bound s" using free by (auto simp: bound_def)
    then have "\<not> bound ?f" by (simp add: bound_def)
    then show ?thesis by (simp add: counts_ok_def)
  next
    case failed
    then show ?thesis by simp
  next
    case (emitted q ctx)
    have "bound s \<and> se_record_error s = None \<longrightarrow>
      se_explicit_request_submissions s = submitted_with Explicit_Request (se_emitted s)
      \<and> se_default_submissions s = submitted_with Server_Default (se_emitted s)"
      using inv by (simp add: trace_inv_def counts_ok_def)
    then show ?thesis
      using emitted
      by (cases "bs_provenance b")
        (simp_all add: counts_ok_def bound_def submitted_with_append count_submission_def)
  qed
  moreover have "traced_pending ?f"
    using finalize_open(2,3) [of env Submitted None "Some b" ?s] free
    by (auto simp: traced_pending_def)
  ultimately show ?thesis using None by (simp add: send_authorized_def Let_def trace_inv_def)
qed

lemma traced_finalize:
  assumes "trace_inv env s" "st \<noteq> Submitted" "se_pending_request s = None"
    and "outcome_agrees st b (map_option bs_provenance b) c"
  shows "trace_inv env (finalize_pending env st c b s)"
proof -
  have "traced_pending (finalize_pending env st c b s)"
    using finalize_open [of env st c b s] assms by (auto simp: traced_pending_def trace_inv_def)
  then show ?thesis
    using assms finalize_core finalize_counts by (simp add: trace_inv_def)
qed

lemma trace_update:
  assumes "trace_inv env s"
  shows "trace_inv env (s\<lparr>se_submitted_request := i, se_pending_request := None\<rparr>)"
    "trace_inv env (s\<lparr>se_pending_request := None\<rparr>)"
    "trace_inv env (s\<lparr>se_state := st\<rparr>)"
    "trace_inv env (s\<lparr>se_pending_request := None, se_done := True\<rparr>)"
    "trace_inv env (s\<lparr>se_room_control_or_chat_count := se_room_control_or_chat_count s + 1\<rparr>)"
  using assms
  by (auto simp: trace_inv_def trace_core_def ledger_ok_def counts_ok_def traced_pending_def bound_def
      buildable_def)

lemma trace_submit:
  assumes inv: "trace_inv env s" and open_: "\<not> se_done s" and p: "se_pending_request s \<noteq> None"
  shows "trace_effect env (submit env r s)"
proof -
  have fin: "trace_core env (finalize_pending env st c b (note_error e s))
      \<and> counts_ok (finalize_pending env st c b (note_error e s))"
    if "st \<noteq> Submitted" "outcome_agrees st b (map_option bs_provenance b) c" for st c b e
    using inv that note_core finalize_core finalize_counts by (simp add: trace_inv_def)
  have wait: "trace_inv env (finalize_pending env Wait_Noop None None
      (s\<lparr>se_submitted_request := i, se_pending_request := None\<rparr>))" for i
    by (rule traced_finalize [OF trace_update(1) [OF inv]]) simp_all
  show ?thesis
    unfolding submit_def
    using fin wait trace_update(2) [OF inv] trace_send [OF inv open_ p] inv
    by (auto simp: trace_inv_def split: sum.split)
qed

lemma trace_refresh:
  assumes "trace_inv env s"
  shows "trace_effect env (refresh_pending_trace_state env s)"
proof -
  have "is_digest_text d" if "total_digest (en_manifest env)"
    "observed_state_digest (en_manifest env) (se_state s) = Inr d" for d
    using that unfolding total_digest_def observed_state_digest_def by (metis sum.inject(2))
  then show ?thesis
    using assms
    by (auto simp: refresh_pending_trace_state_def trace_inv_def traced_pending_def bound_def
        trace_core_def ledger_ok_def buildable_def trace_ready_def counts_ok_def
        split: option.split sum.split)
qed

lemma trace_retry:
  assumes inv: "trace_inv env s" and open_: "\<not> se_done s"
  shows "trace_effect env (retry_pending env strict s)"
proof (cases "se_pending_request s")
  case None
  then show ?thesis using inv by (simp add: retry_pending_def)
next
  case (Some r)
  have rej: "trace_effect env (reject_reconciliation env s)"
    using inv note_core finalize_core finalize_counts
    by (simp add: reject_reconciliation_def trace_inv_def)
  have acc: "trace_effect env (and_then (refresh_pending_trace_state env s) (submit env r))"
  proof (rule trace_effect_and_then [OF trace_refresh [OF inv]])
    fix s'
    assume s': "refresh_pending_trace_state env s = (None, s')" "trace_inv env s'"
    show "trace_effect env (submit env r s')"
      by (rule trace_submit [OF s'(2)]) (use refresh_same [OF s'(1)] open_ Some in simp_all)
  qed
  show ?thesis
    unfolding retry_pending_def Some using rej acc inv
    by (auto simp: trace_inv_def split: sum.split reconciliation_status.split)
qed

section \<open>Lines and runs\<close>

lemma trace_battle_event:
  assumes inv: "trace_inv env s" and open_: "\<not> se_done s"
  shows "trace_effect env (process_battle_event env payload s)"
proof (cases "observe (\<lambda>ei. parse_battle_line payload ei (Some (se_room_id s))) (se_state s)")
  case (Inl e)
  then show ?thesis using inv by (simp add: process_battle_event_def trace_inv_def)
next
  case (Inr r)
  obtain e st' where r: "r = (e, st')" by (cases r)
  let ?s = "s\<lparr>se_state := st'\<rparr>"
  have inv': "trace_inv env ?s" by (rule trace_update(3) [OF inv])
  have retry: "trace_effect env (retry_pending env strict ?s)" for strict
    using trace_retry [OF inv'] open_ by simp
  let ?f = "finalize_pending env Terminally_Discarded None None ?s"
  have "trace_core env ?f \<and> counts_ok ?f"
    using inv' finalize_core finalize_counts by (simp add: trace_inv_def)
  then have "trace_inv env (?f\<lparr>se_pending_request := None, se_done := True\<rparr>)"
    using trace_frame [of "?f\<lparr>se_pending_request := None, se_done := True\<rparr>" ?f]
    by (simp add: trace_inv_def traced_pending_def)
  then show ?thesis
    unfolding process_battle_event_def Inr r Let_def using retry inv' by simp
qed

lemma opened_ready:
  assumes total: "total_digest manifest"
    and sd: "observed_state_digest manifest st = Inr sd"
    and ss: "safe_submission_set_digest manifest (dr_safe_submissions r) = Inr ss"
    and ident: "ss_request_identity (dr_safe_submissions r) = dr_identity r" and n: "0 \<le> n"
  shows "trace_ready (n + 1) \<lparr>pt_request = r, pt_observed_state_digest = sd,
    pt_safe_submission_set_digest = ss, pt_decision_index = n\<rparr>"
proof -
  have digest: "manifest v = Inr d \<Longrightarrow> is_digest_text d" for v d
    using total unfolding total_digest_def by (metis sum.inject(2))
  have "is_digest_text sd" using digest sd by (simp add: observed_state_digest_def)
  moreover obtain v where "project_safe_submission_set (dr_safe_submissions r) = Inr v" "manifest v = Inr ss"
    using ss by (auto simp: safe_submission_set_digest_def ebind_eq_Inr)
  ultimately show ?thesis
    using digest ident n
    by (auto simp: trace_ready_def project_safe_submission_set_def project_request_identity_def
        ebind_eq_Inr)
qed

lemma trace_open:
  assumes core: "trace_core env s" "counts_ok s"
    and free: "\<not> se_done s \<longrightarrow> se_primary_error s = None \<and> \<not> se_trace_failed s"
    and ident: "ss_request_identity (dr_safe_submissions r) = dr_identity r"
  shows "trace_effect env (open_trace env r s)"
proof -
  have "0 \<le> se_next_decision_index s" using core(1) by (simp add: trace_core_def buildable_def)
  then show ?thesis
    using core free opened_ready [OF _ _ _ ident]
    by (auto simp: open_trace_def trace_inv_def traced_pending_def bound_def trace_core_def
        ledger_ok_def counts_ok_def buildable_def split: sum.split)
qed

lemma trace_request:
  assumes inv: "trace_inv env s" and open_: "\<not> se_done s"
  shows "trace_effect env (process_request env payload s)"
proof (cases "read_request (en_float_repr env) (en_sha256 env) (se_room_id s)
    (drop (length ''|request|'') payload)")
  case (Inl e)
  then show ?thesis using inv by (simp add: process_request_def trace_inv_def)
next
  case (Inr r)
  let ?f = "finalize_pending env Superseded_Before_Selection None None s"
  let ?s = "?f\<lparr>se_latest_request := Some (dr_identity r), se_pending_request := Some r\<rparr>"
  have f: "trace_core env ?f" "counts_ok ?f"
    using inv finalize_core finalize_counts by (simp_all add: trace_inv_def)
  have "trace_core env ?s" "counts_ok ?s" using f trace_frame [of ?s ?f] by simp_all
  moreover have "\<not> se_done ?s \<longrightarrow> se_primary_error ?s = None \<and> \<not> se_trace_failed ?s"
    using finalize_open [of env Superseded_Before_Selection None None s] inv
    by (auto simp: trace_inv_def traced_pending_def)
  moreover have "ss_request_identity (dr_safe_submissions r) = dr_identity r"
    using read_request_ok [OF Inr] by (simp add: reader_ok_def)
  ultimately have "trace_effect env (open_trace env r ?s)" by (rule trace_open)
  then have "trace_effect env (and_then (open_trace env r ?s)
      (\<lambda>s3. if se_done s3 then (None, s3) else retry_pending env False s3))"
    by (rule trace_effect_and_then) (simp add: trace_retry)
  then show ?thesis
    unfolding process_request_def Inr using inv
    by (auto simp: Let_def trace_inv_def split: sum.split bool.split)
qed

lemma trace_line:
  assumes inv: "trace_inv env s" and open_: "\<not> se_done s"
  shows "trace_effect env (process_line env payload s)"
proof (cases "classify_room_payload payload")
  case Battle_Event
  then show ?thesis using trace_battle_event [OF inv open_] by (simp add: process_line_def)
next
  case Decision_Request
  then show ?thesis using trace_request [OF inv open_] by (simp add: process_line_def)
next
  case Timer_Message
  then show ?thesis
    using inv trace_update(3) [OF inv]
    by (auto simp: process_line_def process_timer_def trace_inv_def split: sum.split)
next
  case Room_Control_Or_Chat
  then show ?thesis using trace_update(5) [OF inv] by (simp add: process_line_def)
qed (use inv in \<open>simp_all add: process_line_def process_battle_error_def trace_inv_def\<close>)

lemma trace_step:
  assumes "trace_inv env s"
  shows "trace_inv env (step_line env s line)"
proof (cases "se_done s \<or> rl_room_id line \<noteq> Some (se_room_id s)")
  case True
  then show ?thesis unfolding step_line_def using assms by (simp only: if_True)
next
  case False
  obtain r s' where p: "process_line env (rl_payload line) s = (r, s')" by fastforce
  then have "trace_effect env (r, s')" using trace_line [OF assms] False by metis
  then show ?thesis using False p abort_trace by (cases r) (simp_all add: step_line_def)
qed

interpretation traced: fallible_machine "session_step env" "trace_inv env" for env
proof
  fix s line s'
  show "trace_inv env s'" if "trace_inv env s" "session_step env s line = Inr s'"
    using that trace_step by (auto simp: session_step_def)
qed

lemma trace_run:
  assumes "trace_inv env s" "\<not> se_done s"
  shows "trace_inv env (run_session env s lines failure)"
proof -
  obtain t where t: "efold (session_step env) s lines = Inr t"
    and res: "run_session env s lines failure = t
       \<or> (\<exists>e. run_session env s lines failure = abort env e t)"
    using run_session_fold [OF assms(2)] by blast
  have "trace_inv env t" by (rule traced.inv_run [OF assms(1) t])
  with res show ?thesis using abort_trace by (auto simp: trace_inv_def)
qed

lemma new_session_traced:
  assumes "new_session room user initial sink ctx = Inr s"
  shows "trace_inv env s"
  using assms
  by (auto simp: new_session_def trace_inv_def trace_core_def ledger_ok_def accepted_def
      counts_ok_def submitted_with_def traced_pending_def buildable_def split: if_splits)

end
