(* ===== verification/Engine_Failures.thy ===== *)
theory Engine_Failures
  imports Engine_Root Session_Trace
begin

text \<open>
  The methods of the transition model fail closed: whatever the native code does, an exception that
  leaves \<open>prepare_battle_root\<close>, \<open>legal_actions\<close> or \<open>transition\<close> is an interrupt or a public failure
  that agrees with its report. \<open>closed_exc\<close> are these exceptions.
\<close>

section \<open>Failures\<close>

named_theorems fails_rules

text \<open>A public failure agrees with its report, which carries no capabilities and passes its checks; it
  is charged no work or one unit.\<close>

definition wf_failure :: "engine_exc \<Rightarrow> bool" where
  "wf_failure e \<longleftrightarrow> (case e of
     Failure f r n \<Rightarrow> mr_failure_class r = Some f \<and> mr_work_units r = n \<and> (n = 0 \<or> n = 1)
       \<and> mr_classification r = Report_Failed \<and> mr_capability_ids r = [] \<and> check_report r = Inr ()
   | _ \<Rightarrow> True)"

definition closed_exc :: "engine_exc \<Rightarrow> bool" where
  "closed_exc e \<longleftrightarrow> e = Interrupt \<or> ((\<exists>f r n. e = Failure f r n) \<and> wf_failure e)"

definition fails_in :: "(engine_exc \<Rightarrow> bool) \<Rightarrow> ('n, 'a) engine_method \<Rightarrow> bool" where
  "fails_in P m \<longleftrightarrow> (\<forall>s e s'. is_digest_text (md_backend_identity_digest s) \<longrightarrow> m s = (Inl e, s') \<longrightarrow> P e)"

definition digests_ok :: "report_digests \<Rightarrow> bool" where
  "digests_ok d \<longleftrightarrow> (\<forall>x\<in>{fst d, fst (snd d), snd (snd d)}. \<forall>t. x = Some t \<longrightarrow> is_digest_text t)"

lemma adapter_tokens: "is_environment_cell_id adapter_id" "is_environment_cell_id adapter_version"
  by code_simp+

lemma closed_wf: "closed_exc e \<Longrightarrow> wf_failure e"
  by (auto simp: closed_exc_def wf_failure_def)

lemma failure_with_closed:
  assumes "is_digest_text backend" "digests_ok d" "n = 0 \<or> n = 1"
  shows "\<exists>r. failure_with backend f d n = (Inl (Failure f r n) :: engine_exc + 'a) \<and> wf_failure (Failure f r n)"
proof -
  let ?r = "\<lparr>mr_classification = Report_Failed, mr_adapter_id = adapter_id,
        mr_adapter_version = adapter_version, mr_backend_identity_digest = backend,
        mr_observed_state_digest = fst d, mr_request_identity_digest = fst (snd d),
        mr_safe_submission_set_digest = snd (snd d), mr_capability_ids = [],
        mr_work_units = n, mr_failure_class = Some f\<rparr>"
  have "check_optional_digest x = Inr ()" if "x \<in> {fst d, fst (snd d), snd (snd d)}" for x
    using assms(2) that
    by (auto simp: digests_ok_def check_optional_digest_def require_digest_def raise_if_def split: option.splits)
  then have "check_report ?r = Inr ()"
    using assms(1,3) adapter_tokens
    by (auto simp: check_report_def require_digest_def raise_if_def uniquely_sorted_def)
  then show ?thesis
    using assms(3)
    by (intro exI [of _ ?r])
      (simp add: failure_with_def make_report_def raise_mapping_failure_def wf_failure_def)
qed

lemma no_digests_ok [simp]: "digests_ok no_digests"
  by (simp add: digests_ok_def)

lemma fails_mono: "fails_in P m \<Longrightarrow> (\<And>e. P e \<Longrightarrow> Q e) \<Longrightarrow> fails_in Q m"
  unfolding fails_in_def by blast

lemma closed_failure: "wf_failure (Failure f r n) \<Longrightarrow> closed_exc (Failure f r n)"
  by (simp add: closed_exc_def)

lemma failure_with_raises:
  assumes "is_digest_text backend" "digests_ok d" "n = 0 \<or> n = 1"
    and failed: "(failure_with backend f d n :: engine_exc + 'a) = Inl e"
  shows "closed_exc e"
proof -
  obtain r where "(failure_with backend f d n :: engine_exc + 'a) = Inl (Failure f r n)"
    "wf_failure (Failure f r n)"
    using failure_with_closed [OF assms(1-3)] by blast
  then show ?thesis using failed closed_failure by simp
qed

lemma fails_raise [fails_rules]:
  assumes "digests_ok d" "n = 0 \<or> n = 1"
  shows "fails_in closed_exc (raise_failure f d n :: ('a, 'b) engine_method)"
  unfolding fails_in_def raise_failure_def
proof (intro allI impI)
  fix s e s'
  assume "is_digest_text (md_backend_identity_digest s)"
    "(failure_with (md_backend_identity_digest s) f d n :: engine_exc + 'b, s) = (Inl e, s' :: 'a engine_model)"
  then show "closed_exc e" by (auto intro: failure_with_raises [OF _ assms, of "md_backend_identity_digest s" f])
qed

lemma fails_marked [fails_rules]:
  assumes "digests_ok d" "n = 0 \<or> n = 1"
  shows "fails_in closed_exc (mbind mark_unhealthy (\<lambda>_. raise_failure f d n))"
  using fails_raise [OF assms, of f] unfolding fails_in_def
  by (auto simp: mbind_def mark_unhealthy_def raise_failure_def)

lemma fails_return: "raises {e. P e} r \<Longrightarrow> fails_in P (mreturn r)"
  by (auto simp: fails_in_def mreturn_def raises_def)

lemma fails_bind:
  assumes "keeps m" "fails_in P m" "\<And>x s. m s = (Inr x, s) \<Longrightarrow> fails_in P (f x)"
  shows "fails_in P (mbind m f)"
  unfolding fails_in_def
proof (intro allI impI)
  fix s e s'
  assume d: "is_digest_text (md_backend_identity_digest s)" and run: "mbind m f s = (Inl e, s')"
  show "P e"
  proof (cases "m s")
    case (Pair q t)
    show ?thesis
    proof (cases q)
      case (Inl e')
      then have "e' = e" using run Pair by (simp add: mbind_def)
      then show ?thesis using assms(2) d Pair Inl unfolding fails_in_def by blast
    next
      case (Inr x)
      then have "t = s" using Pair keeps_success [OF assms(1)] by simp
      then have "m s = (Inr x, s)" "f x s = (Inl e, s')" using run Pair Inr by (simp_all add: mbind_def)
      then show ?thesis using assms(3) d unfolding fails_in_def by blast
    qed
  qed
qed

lemma fails_catch:
  assumes "keeps m" "fails_in Q m" "\<And>e. Q e \<Longrightarrow> fails_in P (h e)"
  shows "fails_in P (mcatch m h)"
  unfolding fails_in_def
proof (intro allI impI)
  fix s e s'
  assume d: "is_digest_text (md_backend_identity_digest s)" and run: "mcatch m h s = (Inl e, s')"
  show "P e"
  proof (cases "m s")
    case (Pair q t)
    show ?thesis
    proof (cases q)
      case (Inl e')
      then have "Q e'" using assms(2) d Pair unfolding fails_in_def by blast
      moreover have "md_backend_identity_digest t = md_backend_identity_digest s"
        using keeps_failure [OF assms(1)] Pair Inl by fastforce
      moreover have "h e' t = (Inl e, s')" using run Pair Inl by (simp add: mcatch_def)
      ultimately show ?thesis using assms(3) d unfolding fails_in_def by metis
    next
      case (Inr x)
      then show ?thesis using run Pair by (simp add: mcatch_def)
    qed
  qed
qed

lemma fails_at: "(\<And>s. fails_in P (m s)) \<Longrightarrow> fails_in P (\<lambda>s. m s s)"
  unfolding fails_in_def by blast

lemma fails_map: "(\<And>x. keeps (f x)) \<Longrightarrow> (\<And>x. fails_in P (f x)) \<Longrightarrow> fails_in P (mmap f xs)"
  by (induction xs) (auto intro!: fails_bind keeps_rules fails_return)

section \<open>Pure code\<close>

text \<open>No pure code raises a public failure.\<close>

definition private_exc :: "engine_exc set" where
  "private_exc = {e. \<forall>f r n. e \<noteq> Failure f r n}"

lemma private_exc_simps [simp]: "Mapping_Error f \<in> private_exc" "Core_Error c \<in> private_exc"
  "Arithmetic_Error \<in> private_exc" "Native_Error \<in> private_exc" "Interrupt \<in> private_exc"
  by (simp_all add: private_exc_def)

lemma private_wf: "raises private_exc r \<Longrightarrow> raises {e. wf_failure e} r"
  by (rule raises_mono, assumption) (auto simp: private_exc_def wf_failure_def split: engine_exc.split)

lemma raises_mapping [raises_rules]:
  "raises private_exc (of_core m)" "raises private_exc (map_fail f)" "raises private_exc (map_ensure f b)"
  "raises private_exc (of_native n)"
  "raises private_exc k \<Longrightarrow> raises private_exc r \<Longrightarrow> raises private_exc (handle p k r)"
  by (auto simp: raises_def of_core_def map_fail_def map_ensure_def raise_if_def of_native_def handle_def
      split: sum.splits native_exc.splits if_splits)

lemma raises_active [raises_rules]: "raises private_exc (active_pokemon s)"
  by (auto simp: active_pokemon_def split: option.splits)

lemma raises_public_active [raises_rules]: "raises private_exc (public_active own hp s)"
  unfolding public_active_def by (intro raises_rules) simp_all

lemma raises_side_delta [raises_rules]: "raises private_exc (side_delta v w p q hp)"
  unfolding side_delta_def Let_def by (intro raises_rules) simp_all

lemma raises_view [raises_rules]: "raises private_exc (view_digest manifest v od p prior hps)"
  unfolding view_digest_def public_transition_delta_def Let_def by (intro raises_rules) simp_all

lemma raises_map_native_state [raises_rules]:
  "raises private_exc (map_native_state manifest native st od prior hps)"
  unfolding map_native_state_def Let_def by (intro raises_rules) simp_all

lemma raises_readers [raises_rules]: "raises private_exc (exact_keys ks os v)" "raises private_exc (read_integer n v)"
  "raises private_exc (read_boolean v)" "raises private_exc (read_token v)" "raises private_exc (list_between lo hi v)"
  by (auto simp: exact_keys_def read_integer_def read_boolean_def read_token_def list_between_def
      intro!: raises_rules split: json.split)

lemma raises_pair [raises_rules]: "raises private_exc (read_pair v)"
  by (auto simp: read_pair_def intro!: raises_rules split: json.split list.split)

lemma raises_evs [raises_rules]: "raises private_exc (read_evs v)"
  by (auto simp: read_evs_def intro!: raises_rules split: json.split)

lemma raises_args [raises_rules]: "raises private_exc (read_pokemon_args d hp maxhp)"
  unfolding read_pokemon_args_def by (intro raises_rules) simp_all

lemma raises_build_move [raises_rules]: "raises private_exc (build_move native v)"
  unfolding build_move_def by (intro raises_rules)

lemma raises_build_pokemon [raises_rules]: "raises private_exc (build_pokemon native v)"
  unfolding build_pokemon_def by (intro raises_rules)

lemma raises_build_side [raises_rules]: "raises private_exc (build_side native v)"
  unfolding build_side_def by (intro raises_rules) simp_all

lemma raises_enum [raises_rules]: "raises private_exc (native_enum get v)"
  unfolding native_enum_def by (intro raises_rules) simp_all

lemma raises_world: "raises private_exc (map_complete_world manifest fi native v od hps)"
  unfolding map_complete_world_def build_state_def by (intro raises_rules)

lemma raises_observed: "raises private_exc (map_observed_root manifest st)"
  unfolding map_observed_root_def by (intro raises_rules) simp_all

lemma raises_choice [raises_rules]: "raises private_exc (submission_choice b ts ms)"
  by (auto simp: submission_choice_def intro!: raises_rules split: action_kind.split option.split)

lemma raises_capabilities [raises_rules]: "raises private_exc (capabilities_for c vs)"
  unfolding capabilities_for_def by (intro raises_rules)

lemma raises_root_actions: "raises private_exc (map_root_actions manifest safe ident ch ts ms fs c)"
  unfolding map_root_actions_def map_root_action_def Let_def by (intro raises_rules) simp_all

section \<open>Native actions fail with mapping errors only\<close>

definition mapping_exc :: "engine_exc set" where
  "mapping_exc = range Mapping_Error"

lemma mapping_exc_simps [simp]: "Mapping_Error f \<in> mapping_exc"
  by (simp add: mapping_exc_def)

lemma raises_mapping_exc [raises_rules]: "raises mapping_exc (map_fail f)" "raises mapping_exc (map_ensure f b)"
  by (auto simp: raises_def map_fail_def map_ensure_def raise_if_def)

lemma raises_id_for: "raises {ValueError} (emap (id_for c) vs)"
  unfolding id_for_def ensure_def by (intro raises_rules) simp_all

lemma raises_capabilities_mapping [raises_rules]: "raises mapping_exc (capabilities_for c vs)"
  using raises_id_for [of c "sort (remdups vs)"]
  by (auto simp: raises_def capabilities_for_def handle_def map_fail_def of_core_def is_value_or_type_def
      split: sum.splits if_splits)

lemma capabilities_for_ok:
  assumes "capabilities_for c vs = Inr cs"
  shows "map ci_value cs = sort (remdups vs)" "list_all (\<lambda>v. ci_catalog_digest v = cc_catalog_digest c) cs"
proof -
  have "list_all2 (\<lambda>v i. id_for c v = Inr i) (sort (remdups vs)) cs"
    using assms by (simp add: capabilities_for_def emap_eq_Inr)
  then show "map ci_value cs = sort (remdups vs)" "list_all (\<lambda>v. ci_catalog_digest v = cc_catalog_digest c) cs"
    by (induction rule: list_all2_induct) (auto simp: id_for_def result_simps)
qed

lemma capabilities_for_checked:
  assumes "capabilities_for c vs = Inr cs"
  shows "check_capabilities cs None = Inr ()"
  using capabilities_for_ok [OF assms]
  by (cases cs) (auto simp: check_capabilities_def uniquely_sorted_def list_all_iff ensure_def raise_if_def sort_key_id_if_sorted)

lemma make_native_action:
  assumes "is_digest_text i" "kind \<in> {''move'', ''switch'', ''pass''}" "check_capabilities cs None = Inr ()"
  shows "\<exists>a. make_action i kind cs None None = Inr a"
proof -
  have "i \<noteq> []" using assms(1) by (auto simp: is_digest_text_def)
  then show ?thesis
    using assms by (auto simp: make_action_def check_action_def require_internal_id_def ensure_def raise_if_def)
qed

lemma kind_and_capabilities:
  "raises mapping_exc (if native = ''No Move'' then Inr (''pass'', [])
       else if is_switch_choice native then
         ebind (capabilities_for c [switch_capability fs]) (\<lambda>cs. Inr (''switch'', cs))
       else if is_move_choice native then
         ebind (capabilities_for c (move_capabilities (ends_with ''-tera'' native)))
           (\<lambda>cs. Inr (''move'', cs))
       else map_fail Unknown_Native_Choice)"
  by (intro raises_rules) simp_all

lemma kind_and_capabilities_checked:
  assumes "(if native = ''No Move'' then Inr (''pass'', [])
       else if is_switch_choice native then
         ebind (capabilities_for c [switch_capability fs]) (\<lambda>cs. Inr (''switch'', cs))
       else if is_move_choice native then
         ebind (capabilities_for c (move_capabilities (ends_with ''-tera'' native)))
           (\<lambda>cs. Inr (''move'', cs))
       else map_fail Unknown_Native_Choice) = Inr (kind, cs)"
  shows "kind \<in> {''move'', ''switch'', ''pass''}" "check_capabilities cs None = Inr ()"
proof -
  have empty: "check_capabilities [] None = Inr ()"
    by (simp add: check_capabilities_def uniquely_sorted_def ensure_def raise_if_def)
  show "kind \<in> {''move'', ''switch'', ''pass''}" "check_capabilities cs None = Inr ()"
    using assms empty by (auto simp: result_simps capabilities_for_checked split: if_splits)
qed

lemma raises_native_action:
  assumes "total_digest manifest"
  shows "raises mapping_exc (map_native_action manifest fs c native)"
  unfolding raises_def
proof (intro allI impI)
  fix e assume failed: "map_native_action manifest fs c native = Inl e"
  let ?choice = "if native = ''No Move'' then Inr (''pass'', [])
       else if is_switch_choice native then
         ebind (capabilities_for c [switch_capability fs]) (\<lambda>cs. Inr (''switch'', cs))
       else if is_move_choice native then
         ebind (capabilities_for c (move_capabilities (ends_with ''-tera'' native)))
           (\<lambda>cs. Inr (''move'', cs))
       else map_fail Unknown_Native_Choice"
  show "e \<in> mapping_exc"
  proof (cases "map_ensure Unknown_Native_Choice (native \<noteq> [] \<and> list_all is_ascii native)")
    case (Inl e')
    then show ?thesis using failed by (auto simp: map_native_action_def map_ensure_def raise_if_def split: if_splits)
  next
    case ensured: (Inr u)
    show ?thesis
    proof (cases ?choice)
      case (Inl e')
      then have "e' \<in> mapping_exc"
        using kind_and_capabilities [of native c fs] unfolding raises_def by blast
      moreover have "map_native_action manifest fs c native = Inl e'"
        unfolding map_native_action_def ensured Inl by simp
      ultimately show ?thesis using failed by simp
    next
      case (Inr p)
      obtain kind cs where p: "p = (kind, cs)" by (cases p)
      note checked = kind_and_capabilities_checked [OF Inr [unfolded p]]
      obtain i where i: "manifest (JObject [(''kind'', JString kind), (''native_choice'', JString native)]) = Inr i"
        "is_digest_text i"
        using assms unfolding total_digest_def by blast
      obtain a where "make_action i kind cs None None = Inr a"
        using make_native_action [OF i(2) checked] by blast
      then have "\<exists>r. map_native_action manifest fs c native = Inr r"
        unfolding map_native_action_def ensured Inr p by (simp add: i(1))
      then show ?thesis using failed by simp
    qed
  qed
qed

lemma raises_native_actions: "total_digest manifest \<Longrightarrow> raises mapping_exc (map_native_actions manifest choices fs c)"
  unfolding map_native_actions_def by (intro raises_rules raises_native_action)

section \<open>Native calls fail as public failures\<close>

lemma closed_raise:
  assumes "raise_failure f d n s = (Inl e :: engine_exc + 'a, s')" "is_digest_text (md_backend_identity_digest s)"
    "digests_ok d" "n = 0 \<or> n = 1"
  shows "closed_exc e"
proof -
  have "failure_with (md_backend_identity_digest s) f d n = (Inl e :: engine_exc + 'a)"
    using assms(1) by (auto simp: raise_failure_def)
  from failure_with_raises [OF assms(2-4) this] show ?thesis .
qed

lemma closed_marked:
  assumes "mbind mark_unhealthy (\<lambda>_. raise_failure f d n) s = (Inl e :: engine_exc + 'a, s')"
    "is_digest_text (md_backend_identity_digest s)" "digests_ok d" "n = 0 \<or> n = 1"
  shows "closed_exc e"
proof -
  have "failure_with (md_backend_identity_digest s) f d n = (Inl e :: engine_exc + 'a)"
    using assms(1) by (simp add: raise_failure_def mbind_def mark_unhealthy_def)
  from failure_with_raises [OF assms(2-4) this] show ?thesis .
qed

lemma closed_interrupt [simp]: "closed_exc Interrupt"
  by (simp add: closed_exc_def)

lemma fails_from_string [fails_rules]: "fails_in closed_exc (state_from_string t)"
  by (auto simp: fails_in_def state_from_string_def dest: closed_marked split: sum.splits native_exc.splits)

lemma fails_generate [fails_rules]: "fails_in closed_exc (generate_instructions st a b)"
  by (auto simp: fails_in_def generate_instructions_def dest: closed_marked split: sum.splits native_exc.splits)

lemma fails_apply [fails_rules]: "fails_in closed_exc (apply_instruction st i)"
  by (auto simp: fails_in_def apply_instruction_def dest: closed_marked split: sum.splits native_exc.splits)

lemma fails_legal_choices [fails_rules]: "fails_in closed_exc (legal_choice_values st)"
  by (auto simp: fails_in_def legal_choice_values_def dest: closed_marked closed_raise
      split: sum.splits native_exc.splits native_value.splits list.splits option.splits)

section \<open>The methods fail closed\<close>

lemma never_Inr: "(\<And>y. fst (m s) \<noteq> Inr y) \<Longrightarrow> \<exists>e s'. m s = (Inl e, s')"
  by (cases "m s"; cases "fst (m s)") auto

lemma keeps_choice_handler [keeps_rules]:
  assumes "keeps m"
  shows "keeps (mcatch m (\<lambda>e. case e of Mapping_Error _ \<Rightarrow> raise_failure f d n | _ \<Rightarrow> mreturn (Inl e)))"
  by (rule keeps_catch [OF assms]; (rule never_Inr)?)
    (simp_all add: handler_fails split: engine_exc.split)

lemma keeps_transition_handler [keeps_rules]: "keeps m \<Longrightarrow> keeps (mcatch m transition_handler)"
  by (rule keeps_catch; (rule never_Inr, rule transition_handler_fails)?)
    (auto simp: transition_handler_def intro!: keeps_rules split: engine_exc.split)

lemma keeps_root_handler [keeps_rules]: "keeps m \<Longrightarrow> keeps (mcatch m (root_handler d))"
  by (rule keeps_catch; (rule never_Inr, rule root_handler_fails)?)
    (auto simp: root_handler_def intro!: keeps_rules split: engine_exc.split)

lemma keeps_cases [keeps_rules]:
  "keeps (case r of Inr t \<Rightarrow> mreturn (Inr t) | Inl _ \<Rightarrow> raise_failure f d n)"
  by (simp split: sum.split)

lemma keeps_pair [keeps_rules]: "(\<And>x y. keeps (f x y)) \<Longrightarrow> keeps (case p of (x, y) \<Rightarrow> f x y)"
  by (cases p) simp

lemma keeps_transition: "keeps (transition manifest sha w a b)"
  unfolding transition_def by (rule keeps_at) (intro keeps_rules)

lemma keeps_mapped_root [keeps_rules]:
  "keeps (prepare_mapped_root manifest observed mapped safe digests ident)"
  unfolding prepare_mapped_root_def Let_def by (rule keeps_at) (intro keeps_rules keeps_choice)

lemma keeps_battle_root: "keeps (prepare_battle_root manifest fi st safe document ruleset given)"
  unfolding prepare_battle_root_def Let_def by (rule keeps_at) (intro keeps_rules keeps_choice)

section \<open>Handlers\<close>

lemma fails_transition_handler: "wf_failure e \<Longrightarrow> fails_in closed_exc (transition_handler e)"
  by (auto simp: transition_handler_def closed_failure intro!: fails_rules fails_return split: engine_exc.split)

lemma fails_root_handler: "digests_ok d \<Longrightarrow> wf_failure e \<Longrightarrow> fails_in closed_exc (root_handler d e)"
  by (auto simp: root_handler_def closed_failure intro!: fails_rules fails_return split: engine_exc.split)

lemma fails_pure: "raises private_exc r \<Longrightarrow> fails_in wf_failure (mreturn r)"
  by (rule fails_return) (rule private_wf)

lemma fails_closed_wf: "fails_in closed_exc m \<Longrightarrow> fails_in wf_failure m"
  by (erule fails_mono) (rule closed_wf)

lemma fails_if: "fails_in P m \<Longrightarrow> fails_in P m' \<Longrightarrow> fails_in P (if b then m else m')"
  by simp

lemma fails_cases:
  "fails_in P n \<Longrightarrow> (\<And>x. fails_in P (k x)) \<Longrightarrow> fails_in P (case v of None \<Rightarrow> n | Some x \<Rightarrow> k x)"
  "fails_in P e \<Longrightarrow> (\<And>y ys. fails_in P (c y ys)) \<Longrightarrow> fails_in P (case l of [] \<Rightarrow> e | y # ys \<Rightarrow> c y ys)"
  by (simp_all split: option.splits list.splits)

lemma fails_report: "fails_in wf_failure (success_report c d cs n)"
  unfolding fails_in_def success_report_def make_report_def Let_def
  by (auto simp: of_core_def wf_failure_def ebind_def split: sum.splits)

lemma fails_native_bindings:
  assumes "total_digest manifest"
  shows "fails_in closed_exc (native_bindings manifest player st choices)"
  unfolding fails_in_def
proof (intro allI impI)
  fix s e s'
  assume d: "is_digest_text (md_backend_identity_digest s)"
    and run: "native_bindings manifest player st choices s = (Inl e, s')"
  show "closed_exc e"
  proof (cases "map_native_actions manifest (pick player choices)
      (nd_force_switch (side_of (ne_view (md_native s) st) player)) (md_catalog s)")
    case (Inl e')
    then obtain f where "e' = Mapping_Error f"
      using raises_native_actions [OF assms] unfolding raises_def mapping_exc_def by blast
    then show ?thesis using run d Inl by (auto simp: native_bindings_def dest: closed_raise)
  next
    case (Inr bs)
    then show ?thesis using run by (simp add: native_bindings_def)
  qed
qed

lemma fails_bindings_of:
  "total_digest manifest \<Longrightarrow> fails_in closed_exc (bindings_of manifest w player st choices)"
  unfolding bindings_of_def by (simp add: fails_native_bindings fails_return)

definition choice_exc :: "engine_exc \<Rightarrow> bool" where
  "choice_exc e \<longleftrightarrow> closed_exc e \<or> e \<in> mapping_exc"

lemma fails_choice: "fails_in closed_exc m \<Longrightarrow> fails_in choice_exc m"
  by (erule fails_mono) (simp add: choice_exc_def)

lemma fails_found: "fails_in choice_exc (mreturn (binding_for_action bs a))"
  by (rule fails_return) (auto simp: binding_for_action_def choice_exc_def map_fail_def split: list.split)

lemma fails_choose:
  assumes "total_digest manifest"
  shows "fails_in choice_exc (choose_bindings manifest w st a b)"
  unfolding choose_bindings_def
  by (intro fails_bind keeps_rules fails_found fails_choice fails_legal_choices fails_bindings_of assms)
    (simp add: fails_return)

lemma fails_choice_handler:
  "choice_exc e \<Longrightarrow> fails_in closed_exc (case e of Mapping_Error _ \<Rightarrow> raise_failure f no_digests 0 | _ \<Rightarrow> mreturn (Inl e))"
  by (auto simp: choice_exc_def mapping_exc_def closed_exc_def intro!: fails_rules fails_return split: engine_exc.split)

lemma fails_player_index:
  assumes "total_digest manifest"
  shows "fails_in closed_exc (mreturn (player_index manifest player))"
proof -
  obtain d where d: "manifest (JObject [(''adapter_id'', JString adapter_id)]) = Inr d" "is_digest_text d"
    using assms unfolding total_digest_def by blast
  have "closed_exc e" if "(failure_with d Inconsistent_Player_View no_digests 0 :: engine_exc + nat) = Inl e" for e
    by (rule failure_with_raises [OF d(2) _ _ that]) simp_all
  then show ?thesis
    by (auto simp: fails_in_def mreturn_def player_index_def d(1))
qed

lemma fails_legal_actions:
  assumes "total_digest manifest"
  shows "fails_in closed_exc (legal_actions manifest w player)"
proof -
  have "fails_in closed_exc (deep_bindings manifest w player)"
    unfolding deep_bindings_def
    by (intro fails_bind keeps_rules fails_rules fails_native_bindings assms)
  then show ?thesis
    unfolding legal_actions_def
    by (intro fails_bind keeps_rules fails_player_index fails_if assms) (simp_all add: fails_return)
qed


section \<open>Transitions fail closed\<close>

lemma fails_weigh: "fails_in wf_failure (weigh_instructions manifest st w acc is)"
proof (induction "is" arbitrary: acc)
  case Nil
  show ?case by (simp add: fails_return)
next
  case (Cons i "is")
  show ?case
    unfolding weigh_instructions.simps
    by (rule fails_at)
      (intro fails_cases fails_bind keeps_rules fails_closed_wf [OF fails_apply] fails_closed_wf [OF fails_raise]
        fails_pure raises_map_native_state Cons; simp)
qed

lemma fails_normalize: "fails_in wf_failure (normalize_weights ws)"
  by (simp add: normalize_weights_def Let_def fails_closed_wf fails_raise fails_return)

lemma fails_mapped_successors: "fails_in wf_failure (mapped_successors manifest st w instructions)"
  unfolding mapped_successors_def
  by (rule fails_at)
    (intro fails_if fails_cases fails_bind keeps_rules fails_weigh fails_normalize
      fails_closed_wf [OF fails_raise]; simp)

lemma fails_successor: "fails_in wf_failure (successor_of manifest sha w cs d x)"
proof (cases x)
  case (Pair mapped weight)
  show ?thesis
    unfolding Pair successor_of_def prod.case Let_def
    by (intro fails_bind keeps_rules fails_report fails_pure raises_mapping) simp
qed

lemma fails_successors: "fails_in wf_failure (successors_of manifest sha w cs weights)"
  unfolding successors_of_def
  by (intro fails_bind keeps_rules fails_map fails_successor) (simp add: fails_return)

lemma fails_outcome:
  "fails_in wf_failure (case r of Inr t \<Rightarrow> mreturn (Inr t) | Inl _ \<Rightarrow> raise_failure f no_digests 1)"
  by (simp add: fails_return fails_closed_wf fails_raise split: sum.split)

lemma fails_in_pair: "(\<And>x y. fails_in P (f x y)) \<Longrightarrow> fails_in P (case p of (x, y) \<Rightarrow> f x y)"
  by (cases p) simp

lemma fails_choose_caught:
  assumes "total_digest manifest"
  shows "fails_in closed_exc (mcatch (choose_bindings manifest w st a b)
       (\<lambda>e. case e of Mapping_Error _ \<Rightarrow> raise_failure f no_digests 0 | _ \<Rightarrow> mreturn (Inl e)))"
  by (rule fails_catch [OF keeps_choose fails_choose [OF assms]]) (rule fails_choice_handler)

lemma fails_evolve:
  "fails_in closed_exc (mcatch
        (mbind (mapped_successors manifest st w instructions) (\<lambda>weights.
         mbind (mreturn (of_core r)) (\<lambda>capabilities.
         mbind (successors_of manifest sha w capabilities weights) (\<lambda>successors.
          (case g successors capabilities of
             Inr t \<Rightarrow> mreturn (Inr t)
           | Inl _ \<Rightarrow> raise_failure Work_Accounting_Inconsistency no_digests 1)))))
        transition_handler)"
  by (rule fails_catch [OF _ _ fails_transition_handler]; (assumption)?)
    (intro fails_bind keeps_rules fails_mapped_successors fails_pure raises_mapping fails_successors
      fails_outcome)+

lemma fails_transition:
  assumes "total_digest manifest"
  shows "fails_in closed_exc (transition manifest sha w a b)"
  unfolding transition_def
  by (rule fails_at)
    (intro fails_bind fails_in_pair keeps_rules fails_from_string fails_generate
      fails_choose_caught fails_evolve assms)

section \<open>Roots fail closed\<close>

lemma fails_prepare_root: "fails_in closed_exc (prepare_root world ident actions)"
  unfolding fails_in_def prepare_root_def
  by (auto dest: closed_raise split: if_splits sum.splits)

lemma raises_native_active [raises_rules]: "raises private_exc (of_core m)"
  by (rule raises_mapping)

lemma fails_mapped_root:
  assumes "digests_ok d"
  shows "fails_in wf_failure (prepare_mapped_root manifest observed mapped safe d ident)"
  unfolding prepare_mapped_root_def Let_def
  by (rule fails_at)
    (intro fails_if fails_bind keeps_rules fails_closed_wf [OF fails_from_string]
      fails_closed_wf [OF fails_legal_choices] fails_pure raises_active raises_root_actions
      fails_closed_wf [OF fails_raise] raises_mapping fails_report fails_closed_wf [OF fails_prepare_root]
      assms; simp)

lemma fails_root_catch:
  "keeps m \<Longrightarrow> fails_in wf_failure m \<Longrightarrow> digests_ok d \<Longrightarrow> fails_in closed_exc (mcatch m (root_handler d))"
  by (erule (1) fails_catch) (rule fails_root_handler)

lemma digest_of_total: "total_digest manifest \<Longrightarrow> manifest v = Inr d \<Longrightarrow> is_digest_text d"
  unfolding total_digest_def by (metis sum.inject(2))

lemma caught_return:
  assumes "mcatch (mreturn r) (root_handler d) s = (Inr x, s')"
  shows "r = Inr x"
  using assms by (simp add: mcatch_Inr [OF root_handler_fails])

lemma observed_digest:
  assumes "total_digest manifest" "map_observed_root manifest st = Inr observed"
  shows "is_digest_text (ro_digest observed)"
  using assms by (auto simp: map_observed_root_def result_simps observed_state_digest_def intro: digest_of_total)

lemma request_digest:
  assumes "total_digest manifest" "request_identity_digest manifest i = Inr d"
  shows "is_digest_text d"
  using assms by (auto simp: request_identity_digest_def result_simps intro: digest_of_total)

lemma safe_digest:
  assumes "total_digest manifest" "safe_submission_set_digest manifest s = Inr d"
  shows "is_digest_text d"
  using assms by (auto simp: safe_submission_set_digest_def result_simps intro: digest_of_total)

lemma fails_after:
  assumes "raises private_exc r" "digests_ok d" "\<And>x. r = Inr x \<Longrightarrow> fails_in closed_exc (f x)"
  shows "fails_in closed_exc (mbind (mcatch (mreturn r) (root_handler d)) f)"
proof (rule fails_bind)
  show "keeps (mcatch (mreturn r) (root_handler d))" by (intro keeps_rules)
  show "fails_in closed_exc (mcatch (mreturn r) (root_handler d))"
    by (intro fails_root_catch fails_pure assms keeps_return)
  show "fails_in closed_exc (f x)" if "mcatch (mreturn r) (root_handler d) s = (Inr x, s)" for x s
    using caught_return [OF that] by (rule assms)
qed

lemma fails_given:
  assumes "raises private_exc r" "digests_ok d"
  shows "fails_in closed_exc
    (mcatch (mbind (mreturn r) (\<lambda>mapped. mbind (mreturn (of_core c)) (\<lambda>expected.
       (case given of
          None \<Rightarrow> prepare_mapped_root manifest observed mapped safe d expected
        | Some ident \<Rightarrow>
            (case mismatch ident expected of
               Some f \<Rightarrow> raise_failure f d 0
             | None \<Rightarrow> prepare_mapped_root manifest observed mapped safe d ident)))))
      (root_handler d))"
proof (rule fails_root_catch [OF _ _ assms(2)])
  show "keeps (mbind (mreturn r) (\<lambda>mapped. mbind (mreturn (of_core c)) (\<lambda>expected.
       (case given of
          None \<Rightarrow> prepare_mapped_root manifest observed mapped safe d expected
        | Some ident \<Rightarrow>
            (case mismatch ident expected of
               Some f \<Rightarrow> raise_failure f d 0
             | None \<Rightarrow> prepare_mapped_root manifest observed mapped safe d ident)))))"
    by (intro keeps_rules keeps_choice)
  show "fails_in wf_failure (mbind (mreturn r) (\<lambda>mapped. mbind (mreturn (of_core c)) (\<lambda>expected.
       (case given of
          None \<Rightarrow> prepare_mapped_root manifest observed mapped safe d expected
        | Some ident \<Rightarrow>
            (case mismatch ident expected of
               Some f \<Rightarrow> raise_failure f d 0
             | None \<Rightarrow> prepare_mapped_root manifest observed mapped safe d ident)))))"
    by (intro fails_bind fails_cases keeps_rules keeps_choice fails_pure raises_mapping assms
        fails_mapped_root fails_closed_wf [OF fails_raise]; simp)
qed

lemma fails_battle_root:
  assumes "total_digest manifest"
  shows "fails_in closed_exc (prepare_battle_root manifest fi st safe document ruleset given)"
proof -
  have one: "digests_ok (Some (ro_digest observed), None, None)"
    if "map_observed_root manifest st = Inr observed" for observed
    using observed_digest [OF assms that] by (simp add: digests_ok_def)
  have two: "digests_ok (Some (ro_digest observed), Some request, None)"
    if "map_observed_root manifest st = Inr observed"
      "of_core (request_identity_digest manifest (ss_request_identity safe)) = Inr request"
    for observed request
    using observed_digest [OF assms] request_digest [OF assms] that by (simp add: digests_ok_def)
  have three: "digests_ok (Some (ro_digest observed), Some request, Some safe_digest)"
    if "map_observed_root manifest st = Inr observed"
      "of_core (request_identity_digest manifest (ss_request_identity safe)) = Inr request"
      "of_core (safe_submission_set_digest manifest safe) = Inr safe_digest"
    for observed request safe_digest
    using observed_digest [OF assms] request_digest [OF assms] safe_digest [OF assms] that
    by (simp add: digests_ok_def)
  show ?thesis
    unfolding prepare_battle_root_def Let_def
    by (rule fails_at, rule fails_after [OF raises_observed no_digests_ok],
      rule fails_after [OF raises_mapping(1) one], assumption,
      rule fails_after [OF raises_mapping(1) two], assumption, assumption,
      rule fails_given [OF raises_world three], assumption, assumption, assumption)
qed

text \<open>Failing closed, with the state after the failure.\<close>

lemma failed_method:
  assumes "is_digest_text (md_backend_identity_digest s)" "m s = (Inl e, s1)"
    and "fails_in closed_exc m" "keeps m"
  shows "closed_exc e \<and> (s1 = s \<or> s1 = s\<lparr>md_backend_health := Unhealthy\<rparr>)"
  using assms keeps_failure [OF assms(4,2)] unfolding fails_in_def by blast

end
