(* ===== verification/Challenge.thy ===== *)
theory Challenge
  imports Json
begin

text \<open>
  \<open>adapters/showdown_protocol/challenge_state_reader.py\<close>: what a global line says of our
  outgoing challenge; and \<open>adapters/team_files\<close>, the loader of a packed team. \<open>sha256\<close> is
  the hexadecimal digest of the UTF-8 form of a text.
\<close>

section \<open>The state of our challenge\<close>

datatype challenge_status = Challenge_Pending | Challenge_Not_Pending

record challenge_observation =
  co_status :: challenge_status
  co_target_user_id :: string
  co_format_id :: "string option"
  co_source_kind :: string

record challenge_reader =
  cr_our_user_id :: string
  cr_target_user_id :: string
  cr_format_id :: string

definition make_challenge_reader :: "string \<Rightarrow> string \<Rightarrow> string \<Rightarrow> py_exc + challenge_reader" where
  "make_challenge_reader our_user_id target_user_id format_id =
     (if format_id \<noteq> ''gen9ou'' then Inl ValueError
      else if to_id our_user_id = [] then Inl ValueError
      else if to_id target_user_id = [] then Inl ValueError
      else Inr \<lparr>cr_our_user_id = to_id our_user_id, cr_target_user_id = to_id target_user_id,
                cr_format_id = format_id\<rparr>)"

definition observation ::
    "challenge_reader \<Rightarrow> challenge_status \<Rightarrow> string option \<Rightarrow> string \<Rightarrow> challenge_observation" where
  "observation c status format_id source =
     \<lparr>co_status = status, co_target_user_id = cr_target_user_id c, co_format_id = format_id,
      co_source_kind = source\<rparr>"

definition challenge_text :: "(string \<times> json) list \<Rightarrow> string \<Rightarrow> py_exc + string" where
  "challenge_text d key =
     (case map_of d key of
        Some (JString s) \<Rightarrow> if s = [] then Inl MalformedProtocolMessage else Inr s
      | _ \<Rightarrow> Inl MalformedProtocolMessage)"

definition read_update_challenges :: "challenge_reader \<Rightarrow> string \<Rightarrow> py_exc + challenge_observation" where
  "read_update_challenges c text =
     ebind (loads_checked text) (\<lambda>v.
     (case v of
        JObject d \<Rightarrow>
          (case map_of d ''challengeTo'' of
             None \<Rightarrow> Inr (observation c Challenge_Not_Pending None ''updatechallenges'')
           | Some JNull \<Rightarrow> Inr (observation c Challenge_Not_Pending None ''updatechallenges'')
           | Some (JObject challenge) \<Rightarrow>
               ebind (challenge_text challenge ''to'') (\<lambda>target.
               ebind (challenge_text challenge ''format'') (\<lambda>challenge_format.
                 if to_id target \<noteq> cr_target_user_id c then
                   Inl (UnknownProtocolEvent ''unexpected outgoing challenge target'')
                 else if challenge_format \<noteq> cr_format_id c then
                   Inl (UnknownProtocolEvent ''unexpected outgoing challenge format'')
                 else Inr (observation c Challenge_Pending (Some (cr_format_id c))
                             ''updatechallenges'')))
           | Some _ \<Rightarrow> Inl MalformedProtocolMessage)
      | _ \<Rightarrow> Inl MalformedProtocolMessage))"

definition read_challenge_message ::
    "challenge_reader \<Rightarrow> string \<Rightarrow> string \<Rightarrow> string \<Rightarrow> py_exc + challenge_observation option" where
  "read_challenge_message c sender_id receiver_id message =
     (if {sender_id, receiver_id} \<noteq> {cr_our_user_id c, cr_target_user_id c} then Inr None
      else if message = ''/challenge'' then
        Inr (Some (observation c Challenge_Not_Pending None ''pm''))
      else if \<not> starts_with ''/challenge '' message then
        (if starts_with ''/challenge'' message then Inl MalformedProtocolMessage else Inr None)
      else if sender_id = cr_target_user_id c \<and> receiver_id = cr_our_user_id c then Inr None
      else
        (case split_on CHR ''|'' message of
           [command, team_builder_format, _, _, _] \<Rightarrow>
             if command \<noteq> ''/challenge '' @ cr_format_id c \<or> team_builder_format \<noteq> cr_format_id c
             then Inl (UnknownProtocolEvent ''pending challenge pm has an unexpected format'')
             else Inr (Some (observation c Challenge_Pending (Some (cr_format_id c)) ''pm''))
         | _ \<Rightarrow> Inl MalformedProtocolMessage))"

definition read_private_message ::
    "challenge_reader \<Rightarrow> string \<Rightarrow> py_exc + challenge_observation option" where
  "read_private_message c payload =
     (case split_max 4 CHR ''|'' payload of
        [_, wire_type, sender, receiver, message] \<Rightarrow>
          if wire_type \<noteq> ''pm'' then Inr None
          else read_challenge_message c (to_id sender) (to_id receiver) message
      | _ \<Rightarrow> Inl MalformedProtocolMessage)"

definition read_challenge_state ::
    "challenge_reader \<Rightarrow> string \<Rightarrow> py_exc + challenge_observation option" where
  "read_challenge_state c payload =
     (if starts_with ''|updatechallenges|'' payload then
        ebind (read_update_challenges c (remove_prefix ''|updatechallenges|'' payload))
          (\<lambda>o'. Inr (Some o'))
      else if starts_with ''|pm|'' payload then read_private_message c payload
      else Inr None)"

text \<open>What an observation says: about the target only, with our format when pending.\<close>

definition challenge_ok :: "challenge_reader \<Rightarrow> challenge_observation \<Rightarrow> bool" where
  "challenge_ok c o' \<longleftrightarrow> co_target_user_id o' = cr_target_user_id c
     \<and> co_format_id o' = (if co_status o' = Challenge_Pending then Some (cr_format_id c) else None)"

lemma observation_ok:
  "challenge_ok c (observation c Challenge_Not_Pending None k)"
  "challenge_ok c (observation c Challenge_Pending (Some (cr_format_id c)) k)"
  by (simp_all add: challenge_ok_def observation_def)

lemma read_update_ok:
  assumes "read_update_challenges c t = Inr o'"
  shows "challenge_ok c o'"
proof -
  from assms obtain v where run: "(case v of
        JObject d \<Rightarrow>
          (case map_of d ''challengeTo'' of
             None \<Rightarrow> Inr (observation c Challenge_Not_Pending None ''updatechallenges'')
           | Some JNull \<Rightarrow> Inr (observation c Challenge_Not_Pending None ''updatechallenges'')
           | Some (JObject challenge) \<Rightarrow>
               ebind (challenge_text challenge ''to'') (\<lambda>target.
               ebind (challenge_text challenge ''format'') (\<lambda>challenge_format.
                 if to_id target \<noteq> cr_target_user_id c then
                   Inl (UnknownProtocolEvent ''unexpected outgoing challenge target'')
                 else if challenge_format \<noteq> cr_format_id c then
                   Inl (UnknownProtocolEvent ''unexpected outgoing challenge format'')
                 else Inr (observation c Challenge_Pending (Some (cr_format_id c))
                             ''updatechallenges'')))
           | Some _ \<Rightarrow> Inl MalformedProtocolMessage)
      | _ \<Rightarrow> Inl MalformedProtocolMessage) = Inr o'"
    unfolding read_update_challenges_def ebind_eq_Inr by blast
  show ?thesis
  proof (cases v)
    case (JObject d)
    show ?thesis
    proof (cases "map_of d ''challengeTo''")
      case None
      then show ?thesis using run JObject observation_ok by auto
    next
      case (Some w)
      then show ?thesis using run JObject observation_ok
        by (cases w) (auto simp: ebind_eq_Inr split: if_splits)
    qed
  qed (use run in simp_all)
qed

lemma read_message_ok:
  assumes "read_challenge_message c s r m = Inr (Some o')"
  shows "challenge_ok c o'"
proof -
  have "challenge_ok c o'" if "(case ws of
           [command, team_builder_format, _, _, _] \<Rightarrow>
             if command \<noteq> ''/challenge '' @ cr_format_id c \<or> team_builder_format \<noteq> cr_format_id c
             then Inl (UnknownProtocolEvent ''pending challenge pm has an unexpected format'')
             else Inr (Some (observation c Challenge_Pending (Some (cr_format_id c)) ''pm''))
         | _ \<Rightarrow> Inl MalformedProtocolMessage) = Inr (Some o')" for ws
    using that observation_ok(2) by (auto split: list.splits if_splits)
  moreover have "challenge_ok c (observation c Challenge_Not_Pending None ''pm'')"
    by (rule observation_ok)
  ultimately show ?thesis
    using assms unfolding read_challenge_message_def by (simp only: split: if_splits) auto
qed

lemma read_private_ok:
  assumes "read_private_message c p = Inr (Some o')"
  shows "challenge_ok c o'"
proof -
  have "challenge_ok c o'" if "(case ws of
        [_, wire_type, sender, receiver, message] \<Rightarrow>
          if wire_type \<noteq> ''pm'' then Inr None
          else read_challenge_message c (to_id sender) (to_id receiver) message
      | _ \<Rightarrow> Inl MalformedProtocolMessage) = Inr (Some o')" for ws
    using that read_message_ok by (auto split: list.splits if_splits)
  then show ?thesis using assms unfolding read_private_message_def by blast
qed

lemma read_challenge_ok: "read_challenge_state c p = Inr (Some o') \<Longrightarrow> challenge_ok c o'"
  unfolding read_challenge_state_def
  using read_update_ok read_private_ok by (auto simp: ebind_eq_Inr split: if_splits)

section \<open>Packed teams\<close>

record sealed_team =
  st_digest :: string
  st_member_count :: int

record packed_team =
  pt_sealed :: sealed_team
  pt_packed :: string

definition min_members :: nat where
  "min_members = 1"

definition max_members :: nat where
  "max_members = 6"

definition packed_fields :: nat where
  "packed_fields = 12"

definition line_feed :: char where
  "line_feed = CHR 0x0A"

definition cr_char :: char where
  "cr_char = CHR 0x0D"

definition entry_ok :: "string \<Rightarrow> bool" where
  "entry_ok e \<longleftrightarrow> e \<noteq> [] \<and> length (split_on CHR ''|'' e) = packed_fields"

definition load_packed_team :: "(string \<Rightarrow> string) \<Rightarrow> string \<Rightarrow> py_exc + packed_team" where
  "load_packed_team sha256 text =
     (let normalized = (if ends_with [line_feed] text then butlast text else text);
          entries = split_on CHR '']'' normalized in
      if cr_char \<in> set normalized then Inl TeamValidationError
      else if line_feed \<in> set normalized then Inl TeamValidationError
      else if normalized = [] then Inl TeamValidationError
      else if \<not> (min_members \<le> length entries \<and> length entries \<le> max_members) then
        Inl TeamValidationError
      else if \<not> list_all entry_ok entries then Inl TeamValidationError
      else Inr \<lparr>pt_sealed = \<lparr>st_digest = sha256 normalized, st_member_count = int (length entries)\<rparr>,
                pt_packed = normalized\<rparr>)"

text \<open>The checks of a team that the coordinator repeats.\<close>

definition team_consistent :: "(string \<Rightarrow> string) \<Rightarrow> packed_team \<Rightarrow> bool" where
  "team_consistent sha256 t \<longleftrightarrow> pt_packed t \<noteq> [] \<and> cr_char \<notin> set (pt_packed t)
     \<and> line_feed \<notin> set (pt_packed t) \<and> st_digest (pt_sealed t) = sha256 (pt_packed t)
     \<and> int (length (split_on CHR '']'' (pt_packed t))) = st_member_count (pt_sealed t)"

lemma load_packed_team_ok:
  assumes "load_packed_team sha256 text = Inr t"
  shows "team_consistent sha256 t" "1 \<le> st_member_count (pt_sealed t)" "st_member_count (pt_sealed t) \<le> 6"
    "\<forall>e\<in>set (split_on CHR '']'' (pt_packed t)). entry_ok e"
  using assms
  by (auto simp: load_packed_team_def Let_def team_consistent_def min_members_def max_members_def
      list_all_iff split: if_splits)

lemma load_packed_team_error: "load_packed_team sha256 text = Inl e \<Longrightarrow> e = TeamValidationError"
  by (auto simp: load_packed_team_def Let_def split: if_splits)

text \<open>A packed line survives loading: what is stored is the line, with or without its newline.\<close>

lemma load_packed_team_line:
  assumes "load_packed_team sha256 text = Inr t"
  shows "text = pt_packed t \<or> text = pt_packed t @ [line_feed]"
proof -
  have eq: "pt_packed t = (if ends_with [line_feed] text then butlast text else text)"
    using assms by (auto simp: load_packed_team_def Let_def split: if_splits)
  show ?thesis
  proof (cases "ends_with [line_feed] text")
    case True
    then have "text \<noteq> []" "drop (length text - 1) text = [line_feed]" by (auto simp: ends_with_def)
    then have "last text = line_feed" by (metis last_drop diff_Suc_less last.simps length_greater_0_conv One_nat_def)
    with \<open>text \<noteq> []\<close> have "text = butlast text @ [line_feed]" by (metis append_butlast_last_id)
    with eq True show ?thesis by simp
  qed (use eq in simp)
qed

end
