(* ===== verification/Discovery.thy ===== *)
theory Discovery
  imports Challenge Request_Reader Parser
begin

text \<open>
  \<open>composition/battle_coordinator.py\<close>, \<open>_discover\<close>: from a connected account to one battle room.
  Discovery reads the stream of lines, waits for the bootstrap of the account, sends the team
  and the challenge, collects a candidate per room and returns the first room that is our battle.
  The stream is a list of lines with the way it ends; the timeout of the setup is the number of
  lines that arrive before it expires. \<open>sends k command\<close> is the outcome of the k-th global
  send. Global commands sent are logged in \<open>ds_global\<close>.
\<close>

section \<open>Candidates\<close>

record room_candidate =
  rc_room_id :: string
  rc_lines :: "room_line list"
  rc_battle_initialized :: bool
  rc_players :: "(string \<times> string) list"
  rc_game_type :: "string option"
  rc_generation :: "int option"
  rc_tier :: "string option"
  rc_metadata_error :: "py_exc option"

definition new_candidate :: "string \<Rightarrow> room_candidate" where
  "new_candidate room_id =
     \<lparr>rc_room_id = room_id, rc_lines = [], rc_battle_initialized = False, rc_players = [],
      rc_game_type = None, rc_generation = None, rc_tier = None, rc_metadata_error = None\<rparr>"

record coordinator =
  cd_our_user_id :: string
  cd_opponent_display :: string
  cd_opponent_user_id :: string
  cd_team :: packed_team

definition format_id :: string where
  "format_id = ''gen9ou''"

definition our_game_type :: string where
  "our_game_type = ''singles''"

definition our_generation :: int where
  "our_generation = 9"

definition our_tier :: string where
  "our_tier = ''[Gen 9] OU''"

text \<open>\<open>timeout_ok\<close>: the setup timeout is a finite positive real number and no \<open>bool\<close>.\<close>

definition make_coordinator ::
    "(string \<Rightarrow> string) \<Rightarrow> string \<Rightarrow> string \<Rightarrow> packed_team \<Rightarrow> bool \<Rightarrow> py_exc + coordinator" where
  "make_coordinator sha256 our_user_id opponent_display team timeout_ok =
     (if to_id our_user_id = [] \<or> to_id opponent_display = [] then Inl ValueError
      else if list_ex (\<lambda>c. c \<in> {CHR '','', CHR ''|'', cr_char, line_feed}) opponent_display
        \<or> \<not> list_all is_printable opponent_display then Inl ValueError
      else if \<not> timeout_ok then Inl ValueError
      else if pt_packed team = [] \<or> cr_char \<in> set (pt_packed team)
        \<or> line_feed \<in> set (pt_packed team) then Inl TeamValidationError
      else if sha256 (pt_packed team) \<noteq> st_digest (pt_sealed team) then Inl TeamValidationError
      else if int (length (split_on CHR '']'' (pt_packed team))) \<noteq> st_member_count (pt_sealed team)
        then Inl TeamValidationError
      else Inr \<lparr>cd_our_user_id = to_id our_user_id, cd_opponent_display = opponent_display,
                cd_opponent_user_id = to_id opponent_display, cd_team = team\<rparr>)"

definition is_metadata_line :: "string \<Rightarrow> bool" where
  "is_metadata_line payload \<longleftrightarrow> starts_with ''|player|'' payload \<or> starts_with ''|gametype|'' payload
     \<or> starts_with ''|gen|'' payload \<or> starts_with ''|tier|'' payload"

text \<open>\<open>if candidate.metadata_error is None: candidate.metadata_error = ...\<close>.\<close>

definition note_metadata_error :: "room_candidate \<Rightarrow> room_candidate" where
  "note_metadata_error c =
     (if rc_metadata_error c = None then c\<lparr>rc_metadata_error := Some MalformedProtocolMessage\<rparr> else c)"

definition read_player :: "room_candidate \<Rightarrow> string \<Rightarrow> string \<Rightarrow> room_candidate" where
  "read_player c side_id display_name =
     (let player_id = to_id display_name in
      if side_id \<notin> {''p1'', ''p2''} \<or> player_id = [] then note_metadata_error c
      else
        (case map_of (rc_players c) side_id of
           None \<Rightarrow> c\<lparr>rc_players := AList.update side_id player_id (rc_players c)\<rparr>
         | Some existing \<Rightarrow> if existing \<noteq> player_id then note_metadata_error c else c))"

definition read_metadata_event :: "room_candidate \<Rightarrow> battle_event \<Rightarrow> room_candidate" where
  "read_metadata_event c event =
     (case event of
        Metadata (PlayerDeclared _ side_id _ display_name) \<Rightarrow> read_player c side_id display_name
      | Metadata (GameTypeDeclared _ g) \<Rightarrow>
          (if rc_game_type c = None then c\<lparr>rc_game_type := Some g\<rparr>
           else if rc_game_type c \<noteq> Some g then note_metadata_error c else c)
      | Metadata (GenerationDeclared _ n) \<Rightarrow>
          (if rc_generation c = None then c\<lparr>rc_generation := Some n\<rparr>
           else if rc_generation c \<noteq> Some n then note_metadata_error c else c)
      | Metadata (TierDeclared _ t) \<Rightarrow>
          (if rc_tier c = None then c\<lparr>rc_tier := Some t\<rparr>
           else if rc_tier c \<noteq> Some t then note_metadata_error c else c)
      | _ \<Rightarrow> c)"

definition read_candidate_metadata :: "room_candidate \<Rightarrow> room_line \<Rightarrow> py_exc + room_candidate" where
  "read_candidate_metadata c line =
     (let payload = rl_payload line;
          parsed = parse_battle_line payload (int (length (rc_lines c)) - 1) (Some (rc_room_id c)) in
      if payload = ''|init|battle'' then
        ebind parsed (\<lambda>_. Inr (c\<lparr>rc_battle_initialized := True\<rparr>))
      else
        (let c1 = (if \<not> rc_battle_initialized c \<and> is_metadata_line payload
                   then note_metadata_error c else c) in
         if \<not> rc_battle_initialized c1 then Inr c1
         else if \<not> is_metadata_line payload then Inr c1
         else
           (case parsed of
              Inl MalformedProtocolMessage \<Rightarrow> Inr (note_metadata_error c1)
            | Inl e \<Rightarrow> Inl e
            | Inr event \<Rightarrow> Inr (read_metadata_event c1 event))))"

definition has_exact_player_pair :: "coordinator \<Rightarrow> room_candidate \<Rightarrow> bool" where
  "has_exact_player_pair cd c \<longleftrightarrow> set (map fst (rc_players c)) = {''p1'', ''p2''}
     \<and> set (map snd (rc_players c)) = {cd_our_user_id cd, cd_opponent_user_id cd}"

definition raise_for_exact_candidate_failure :: "coordinator \<Rightarrow> room_candidate \<Rightarrow> py_exc + unit" where
  "raise_for_exact_candidate_failure cd c =
     (if \<not> has_exact_player_pair cd c then Inr ()
      else
        (case rc_metadata_error c of
           Some e \<Rightarrow> Inl e
         | None \<Rightarrow>
             if rc_game_type c \<noteq> None \<and> rc_game_type c \<noteq> Some our_game_type then
               Inl (UnknownProtocolEvent ''unsupported game type'')
             else if rc_generation c \<noteq> None \<and> rc_generation c \<noteq> Some our_generation then
               Inl (UnknownProtocolEvent ''unsupported generation'')
             else if rc_tier c \<noteq> None \<and> rc_tier c \<noteq> Some our_tier then
               Inl (UnknownProtocolEvent ''unsupported tier'')
             else Inr ()))"

definition is_matching_candidate :: "coordinator \<Rightarrow> room_candidate \<Rightarrow> bool" where
  "is_matching_candidate cd c \<longleftrightarrow> rc_battle_initialized c \<and> has_exact_player_pair cd c
     \<and> rc_game_type c = Some our_game_type \<and> rc_generation c = Some our_generation
     \<and> rc_tier c = Some our_tier"

text \<open>Append a line, read its metadata, check: shared by discovery and the handed-over stream.\<close>

definition accept_line :: "coordinator \<Rightarrow> room_candidate \<Rightarrow> room_line \<Rightarrow> py_exc + room_candidate" where
  "accept_line cd c line =
     ebind (read_candidate_metadata (c\<lparr>rc_lines := rc_lines c @ [line]\<rparr>) line) (\<lambda>c1.
     ebind (raise_for_exact_candidate_failure cd c1) (\<lambda>_. Inr c1))"

section \<open>Global lines\<close>

record search_snapshot =
  sn_searching :: "string list"
  sn_room_ids :: "string list"

definition json_nonempty_string :: "json \<Rightarrow> py_exc + string" where
  "json_nonempty_string v =
     (case v of JString s \<Rightarrow> if s = [] then Inl MalformedProtocolMessage else Inr s
      | _ \<Rightarrow> Inl MalformedProtocolMessage)"

definition game_room :: "string \<times> json \<Rightarrow> py_exc + string" where
  "game_room g =
     (case g of (room_id, title) \<Rightarrow>
        (case title of
           JString _ \<Rightarrow> if room_id = [] then Inl MalformedProtocolMessage else Inr room_id
         | _ \<Rightarrow> Inl MalformedProtocolMessage))"

definition read_search_snapshot :: "string \<Rightarrow> py_exc + search_snapshot" where
  "read_search_snapshot payload =
     ebind (loads_checked (remove_prefix ''|updatesearch|'' payload)) (\<lambda>v.
     ebind (require_object v) (\<lambda>data.
     ebind (of_option MalformedProtocolMessage (map_of data ''searching'')) (\<lambda>searching.
     ebind (require_list searching) (\<lambda>vs.
     ebind (emap json_nonempty_string vs) (\<lambda>formats.
     ebind (of_option MalformedProtocolMessage (map_of data ''games'')) (\<lambda>games.
     ebind (case games of JNull \<Rightarrow> Inr []
              | JObject gs \<Rightarrow> emap game_room gs
              | _ \<Rightarrow> Inl MalformedProtocolMessage) (\<lambda>rooms.
       Inr \<lparr>sn_searching = formats, sn_room_ids = rooms\<rparr>)))))))"

definition room_char :: "char \<Rightarrow> bool" where
  "room_char c \<longleftrightarrow> is_dec c \<or> (97 \<le> code c \<and> code c \<le> 122) \<or> c = CHR ''-''"

definition details_room :: "string \<times> json \<Rightarrow> py_exc + string" where
  "details_room r =
     (case r of (room_id_with_auth, room_data) \<Rightarrow>
        ebind (require_object room_data) (\<lambda>_.
          (let room_id = (case room_id_with_auth of
                 c # cs \<Rightarrow> if \<not> (is_ascii c \<and> is_alnum c) then cs else c # cs
               | [] \<Rightarrow> [])
           in if room_id = [] \<or> \<not> list_all room_char room_id then Inl MalformedProtocolMessage
              else Inr room_id)))"

definition user_details_prefix :: string where
  "user_details_prefix = ''|queryresponse|userdetails|''"

definition read_user_details_room_ids :: "string \<Rightarrow> string \<Rightarrow> py_exc + string list" where
  "read_user_details_room_ids payload expected_user_id =
     ebind (loads_checked (remove_prefix user_details_prefix payload)) (\<lambda>v.
     ebind (require_object v) (\<lambda>data.
     ebind (require_string (get_or JNull data ''userid'')) (\<lambda>user_id.
       if user_id \<noteq> expected_user_id then
         Inl (UnknownProtocolEvent ''userdetails response was not correlated to our user'')
       else
         (case map_of data ''rooms'' of
            None \<Rightarrow> Inl MalformedProtocolMessage
          | Some (JObject rooms) \<Rightarrow> emap details_room rooms
          | Some _ \<Rightarrow> Inl (UnknownProtocolEvent ''userdetails response did not expose account rooms'')))))"

definition replace_str :: "string \<Rightarrow> string \<Rightarrow> string \<Rightarrow> string" where
  "replace_str old new s = join_with new (split_str old s)"

definition team_validation_prefixes :: "string list" where
  "team_validation_prefixes =
     [''Your team was rejected for the following reason:'' @ [line_feed, line_feed] @ ''- '',
      ''Your team was rejected for the following reasons:'' @ [line_feed, line_feed] @ ''- '']"

definition explicit_rejection_messages :: "string list" where
  "explicit_rejection_messages =
     [''You can't battle yourself. The best you can do is open PS in Private Browsing '' @
      ''(or another browser) and log into a different username, and battle that username.'',
      ''You are already challenging someone. Cancel that challenge before challenging someone else.'',
      ''You challenged less than 10 seconds after your last challenge! It's cancelled in '' @
      ''case it's a misclick.'',
      ''This user already has 3 pending challenges.'' @ [line_feed] @
      ''You must be autoconfirmed to challenge them.'',
      ''You are locked and cannot challenge unlocked users. If this user is your friend, '' @
      ''ask them to challenge you instead.'',
      ''You are banned from battling and cannot challenge users.'',
      ''You must choose a username before you challenge someone.'',
      ''The server is restarting. Battles will be available again in a few minutes.'',
      ''The server is under attack. Battles cannot be started at this time.'']"

text \<open>The text between a prefix and a suffix: the group of a regular expression.\<close>

definition enclosed :: "string \<Rightarrow> string \<Rightarrow> string \<Rightarrow> string option" where
  "enclosed p q s =
     (if starts_with p s \<and> ends_with q s \<and> length p + length q \<le> length s
      then Some (take (length s - length p - length q) (drop (length p) s)) else None)"

definition quoted_user :: "string \<Rightarrow> string \<Rightarrow> string option" where
  "quoted_user suffix message =
     (case enclosed (''The user '' @ [CHR 0x27]) ([CHR 0x27] @ suffix) message of
        None \<Rightarrow> None
      | Some u \<Rightarrow> if u = [] \<or> CHR 0x27 \<in> set u then None else Some u)"

text \<open>The format and the user of the message on an existing challenge.\<close>

definition existing_challenge :: "string \<Rightarrow> (string \<times> string) option" where
  "existing_challenge message =
     (case enclosed (''There's already a challenge ('') ''!'' message of
        None \<Rightarrow> None
      | Some inner \<Rightarrow>
          (case cut_at '')'' inner of
             None \<Rightarrow> None
           | Some (fmt, rest) \<Rightarrow>
               if CHR ''('' \<in> set fmt \<or> \<not> starts_with '' between you and '' rest then None
               else (let user = drop (length '' between you and '') rest
                     in if user = [] \<or> line_feed \<in> set user then None else Some (fmt, user))))"

definition is_explicit_challenge_rejection :: "coordinator \<Rightarrow> string \<Rightarrow> bool" where
  "is_explicit_challenge_rejection cd message =
     (if message \<in> set explicit_rejection_messages then True
      else
        (case quoted_user '' was not found.'' message of
           Some u \<Rightarrow> u = cd_opponent_display cd
         | None \<Rightarrow>
             (case quoted_user '' is not accepting challenges right now.'' message of
                Some u \<Rightarrow> to_id u = cd_opponent_user_id cd
              | None \<Rightarrow>
                  (case existing_challenge message of
                     None \<Rightarrow> False
                   | Some (fmt, user) \<Rightarrow> fmt = format_id \<and> to_id user = cd_opponent_user_id cd))))"

definition read_popup :: "coordinator \<Rightarrow> string \<Rightarrow> py_exc" where
  "read_popup cd wire_message =
     (let message = replace_str ''||'' [line_feed] wire_message in
      if list_ex (\<lambda>p. starts_with p message) team_validation_prefixes then TeamValidationError
      else if is_explicit_challenge_rejection cd message then
        challenge_setup_error ''challenge_command_rejected_explicit''
      else UnknownProtocolEvent ''unrecognized setup popup'')"

definition harmless_global_types :: "string list" where
  "harmless_global_types = [''B'', ''b'', ''battle'', ''customgroups'', ''formats'', ''usercount'']"

definition global_wire_type :: "string \<Rightarrow> string option" where
  "global_wire_type payload =
     (if \<not> starts_with ''|'' payload then None
      else (let parts = split_max 2 CHR ''|'' payload
            in if length parts < 2 then None else Some (parts ! 1)))"

definition read_global_line :: "coordinator \<Rightarrow> string \<Rightarrow> py_exc + unit" where
  "read_global_line cd payload =
     (if starts_with ''|popup|'' payload then Inl (read_popup cd (remove_prefix ''|popup|'' payload))
      else if starts_with ''|error|'' payload then
        Inl (read_popup cd (remove_prefix ''|error|'' payload))
      else if starts_with ''|pm|'' payload then Inr ()
      else (case global_wire_type payload of
              Some t \<Rightarrow> if t \<in> set harmless_global_types then Inr ()
                        else Inl (UnknownProtocolEvent ''unrecognized setup payload'')
            | None \<Rightarrow> Inl (UnknownProtocolEvent ''unrecognized setup payload'')))"

section \<open>Discovery\<close>

text \<open>
  What becomes of an awaited global send: it is delivered, it raises, or the deadline of the
  setup passes while it waits.
\<close>

datatype send_outcome = Delivered | Send_Raised py_exc | Deadline

type_synonym global_sends = "nat \<Rightarrow> string \<Rightarrow> send_outcome"

record discovery =
  ds_candidates :: "(string \<times> room_candidate) list"
  ds_ever_pending :: bool
  ds_latest_status :: "challenge_status option"
  ds_bootstrap_complete :: bool
  ds_search_snapshot :: "search_snapshot option"
  ds_excluded_room_ids :: "string list"
  ds_global :: "string list"

datatype discover_outcome =
    Continue
  | Found room_candidate
  | Raised py_exc
  | Expired

definition start_discovery :: discovery where
  "start_discovery =
     \<lparr>ds_candidates = [], ds_ever_pending = False, ds_latest_status = None,
      ds_bootstrap_complete = False, ds_search_snapshot = None, ds_excluded_room_ids = [],
      ds_global = []\<rparr>"

type_synonym discover_effect = "discover_outcome \<times> discovery"

definition discover_then ::
    "discover_effect \<Rightarrow> (discovery \<Rightarrow> discover_effect) \<Rightarrow> discover_effect" where
  "discover_then m f = (case m of (Continue, st) \<Rightarrow> f st | (out, st) \<Rightarrow> (out, st))"

definition send_global :: "global_sends \<Rightarrow> string \<Rightarrow> discovery \<Rightarrow> discover_effect" where
  "send_global sends command st =
     (let st' = st\<lparr>ds_global := ds_global st @ [command]\<rparr> in
      case sends (length (ds_global st)) command of
        Delivered \<Rightarrow> (Continue, st')
      | Send_Raised e \<Rightarrow> (Raised e, st')
      | Deadline \<Rightarrow> (Expired, st'))"

definition user_details_command :: "coordinator \<Rightarrow> string" where
  "user_details_command cd = ''|/cmd userdetails '' @ cd_our_user_id cd"

definition team_command :: "coordinator \<Rightarrow> string" where
  "team_command cd = ''|/utm '' @ pt_packed (cd_team cd)"

definition challenge_command :: "coordinator \<Rightarrow> string" where
  "challenge_command cd = ''|/challenge '' @ cd_opponent_display cd @ '', '' @ format_id"

definition discover_update_search :: "discovery \<Rightarrow> string \<Rightarrow> discover_effect" where
  "discover_update_search st payload =
     (case read_search_snapshot payload of
        Inl e \<Rightarrow> (Raised e, st)
      | Inr snapshot \<Rightarrow>
          if \<not> ds_bootstrap_complete st then
            (Continue, st\<lparr>ds_excluded_room_ids := ds_excluded_room_ids st @ sn_room_ids snapshot,
                         ds_search_snapshot := Some snapshot\<rparr>)
          else if sn_searching snapshot \<noteq> [] then
            (Raised (UnknownProtocolEvent ''named account started a search during challenge setup''), st)
          else (Continue, st))"

definition discover_bootstrap ::
    "coordinator \<Rightarrow> global_sends \<Rightarrow> discovery \<Rightarrow> string \<Rightarrow> discover_effect" where
  "discover_bootstrap cd sends st payload =
     (case read_user_details_room_ids payload (cd_our_user_id cd) of
        Inl e \<Rightarrow> (Raised e, st)
      | Inr rooms \<Rightarrow>
          (let st1 = st\<lparr>ds_excluded_room_ids := ds_excluded_room_ids st @ rooms\<rparr> in
           case ds_search_snapshot st1 of
             None \<Rightarrow> (Raised MalformedProtocolMessage, st1)
           | Some snapshot \<Rightarrow>
               if sn_searching snapshot \<noteq> [] then
                 (Raised (UnknownProtocolEvent ''named account already has an active search''), st1)
               else
                 discover_then (send_global sends (team_command cd)
                   (st1\<lparr>ds_bootstrap_complete := True\<rparr>))
                   (send_global sends (challenge_command cd))))"

definition discover_global ::
    "coordinator \<Rightarrow> challenge_reader \<Rightarrow> global_sends \<Rightarrow> discovery \<Rightarrow> string \<Rightarrow> discover_effect" where
  "discover_global cd reader sends st payload =
     (if starts_with ''|updatesearch|'' payload then discover_update_search st payload
      else if \<not> ds_bootstrap_complete st \<and> starts_with user_details_prefix payload then
        discover_bootstrap cd sends st payload
      else
        (case read_challenge_state reader payload of
           Inl e \<Rightarrow> (Raised e, st)
         | Inr (Some o') \<Rightarrow>
             if ds_bootstrap_complete st then
               (Continue, st\<lparr>ds_latest_status := Some (co_status o'),
                            ds_ever_pending := ds_ever_pending st \<or> co_status o' = Challenge_Pending\<rparr>)
             else (Continue, st)
         | Inr None \<Rightarrow>
             (case read_global_line cd payload of
                Inl e \<Rightarrow> (Raised e, st)
              | Inr _ \<Rightarrow> (Continue, st))))"

definition room_candidate_of :: "discovery \<Rightarrow> string \<Rightarrow> room_candidate" where
  "room_candidate_of st room_id =
     (case map_of (ds_candidates st) room_id of None \<Rightarrow> new_candidate room_id | Some c \<Rightarrow> c)"

definition discover_room ::
    "coordinator \<Rightarrow> discovery \<Rightarrow> string \<Rightarrow> room_line \<Rightarrow> discover_effect" where
  "discover_room cd st room_id line =
     (if \<not> ds_bootstrap_complete st then
        (Continue, st\<lparr>ds_excluded_room_ids := ds_excluded_room_ids st @ [room_id]\<rparr>)
      else if room_id \<in> set (ds_excluded_room_ids st) then (Continue, st)
      else
        (case accept_line cd (room_candidate_of st room_id) line of
           Inl e \<Rightarrow> (Raised e, st)
         | Inr c \<Rightarrow>
             (let st' = st\<lparr>ds_candidates := AList.update room_id c (ds_candidates st)\<rparr>
              in (if is_matching_candidate cd c then Found c else Continue, st'))))"

definition discover_line ::
    "coordinator \<Rightarrow> challenge_reader \<Rightarrow> global_sends \<Rightarrow> discovery \<Rightarrow> room_line \<Rightarrow> discover_effect" where
  "discover_line cd reader sends st line =
     (case rl_room_id line of
        None \<Rightarrow> discover_global cd reader sends st (rl_payload line)
      | Some room_id \<Rightarrow> discover_room cd st room_id line)"

text \<open>The loop over the lines, with what is left of them.\<close>

fun discover_lines ::
    "coordinator \<Rightarrow> challenge_reader \<Rightarrow> global_sends \<Rightarrow> discovery \<Rightarrow> room_line list
     \<Rightarrow> discover_effect \<times> room_line list" where
  "discover_lines cd reader sends st [] = ((Continue, st), [])"
| "discover_lines cd reader sends st (line # rest) =
     (case discover_line cd reader sends st line of
        (Continue, st') \<Rightarrow> discover_lines cd reader sends st' rest
      | (out, st') \<Rightarrow> ((out, st'), rest))"

definition timeout_error :: "discovery \<Rightarrow> py_exc" where
  "timeout_error st = challenge_setup_error
     (if ds_ever_pending st \<and> ds_latest_status st = Some Challenge_Not_Pending
      then ''challenge_not_pending'' else ''challenge_setup_timeout'')"

text \<open>
  \<open>budget\<close> lines arrive before the deadline. A stream that ends normally before it leaves
  the coordinator waiting until the deadline; one that fails before it raises its exception.
\<close>

definition discover_ending ::
    "discovery \<Rightarrow> nat \<Rightarrow> room_line list \<Rightarrow> py_exc option \<Rightarrow> py_exc" where
  "discover_ending st budget lines failure =
     (if length lines < budget then (case failure of Some e \<Rightarrow> e | None \<Rightarrow> timeout_error st)
      else timeout_error st)"

definition discover ::
    "coordinator \<Rightarrow> global_sends \<Rightarrow> room_line list \<Rightarrow> py_exc option \<Rightarrow> nat
     \<Rightarrow> (py_exc + room_candidate \<times> room_line list) \<times> discovery" where
  "discover cd sends lines failure budget =
     (case make_challenge_reader (cd_our_user_id cd) (cd_opponent_user_id cd) format_id of
        Inl e \<Rightarrow> (Inl e, start_discovery)
      | Inr reader \<Rightarrow>
          (case send_global sends (user_details_command cd) start_discovery of
             (Continue, st0) \<Rightarrow>
               (case discover_lines cd reader sends st0 (take budget lines) of
                  ((Found c, st), rest) \<Rightarrow> (Inr (c, rest @ drop budget lines), st)
                | ((Raised e, st), _) \<Rightarrow> (Inl e, st)
                | ((Expired, st), _) \<Rightarrow> (Inl (timeout_error st), st)
                | ((Continue, st), _) \<Rightarrow> (Inl (discover_ending st budget lines failure), st))
           | (Raised e, st) \<Rightarrow> (Inl e, st)
           | (_, st) \<Rightarrow> (Inl (timeout_error st), st)))"


section \<open>What discovery keeps\<close>

definition of_room :: "string \<Rightarrow> room_line \<Rightarrow> bool" where
  "of_room room_id line \<longleftrightarrow> rl_room_id line = Some room_id"

text \<open>
  A step of the loop, with the lines consumed so far. Specification: the candidate of a room
  that is not excluded holds every line of the room seen so far and is what these lines make
  of a new candidate; nothing is challenged before the bootstrap; afterwards the account is
  in no search and the rooms it already had are excluded.
\<close>

definition discover_step ::
    "coordinator \<Rightarrow> challenge_reader \<Rightarrow> global_sends \<Rightarrow> discovery \<times> room_line list \<Rightarrow> room_line
     \<Rightarrow> discover_effect + discovery \<times> room_line list" where
  "discover_step cd reader sends p line =
     (case discover_line cd reader sends (fst p) line of
        (Continue, st) \<Rightarrow> Inr (st, snd p @ [line])
      | (out, st) \<Rightarrow> Inl (out, st))"

definition setup_commands :: "coordinator \<Rightarrow> string list" where
  "setup_commands cd = [user_details_command cd, team_command cd, challenge_command cd]"

definition built_from :: "coordinator \<Rightarrow> string \<Rightarrow> room_line list \<Rightarrow> room_candidate \<Rightarrow> bool" where
  "built_from cd room_id lines c \<longleftrightarrow>
     efold (accept_line cd) (new_candidate room_id) lines = Inr c"

definition phase_ok :: "coordinator \<Rightarrow> discovery \<Rightarrow> bool" where
  "phase_ok cd st \<longleftrightarrow>
     (if ds_bootstrap_complete st
      then ds_global st = setup_commands cd
        \<and> (\<exists>sn. ds_search_snapshot st = Some sn \<and> sn_searching sn = [])
      else ds_global st = [user_details_command cd] \<and> ds_candidates st = []
        \<and> \<not> ds_ever_pending st \<and> ds_latest_status st = None)"

definition snapshot_excluded :: "discovery \<Rightarrow> bool" where
  "snapshot_excluded st \<longleftrightarrow> (\<forall>sn. ds_search_snapshot st = Some sn
     \<longrightarrow> set (sn_room_ids sn) \<subseteq> set (ds_excluded_room_ids st))"

definition candidates_ok :: "coordinator \<Rightarrow> discovery \<Rightarrow> room_line list \<Rightarrow> bool" where
  "candidates_ok cd st seen \<longleftrightarrow> (\<forall>room_id. room_id \<notin> set (ds_excluded_room_ids st) \<longrightarrow>
     built_from cd room_id (filter (of_room room_id) seen) (room_candidate_of st room_id)
     \<and> \<not> is_matching_candidate cd (room_candidate_of st room_id))"

definition discovery_inv :: "coordinator \<Rightarrow> discovery \<times> room_line list \<Rightarrow> bool" where
  "discovery_inv cd p \<longleftrightarrow> phase_ok cd (fst p) \<and> snapshot_excluded (fst p)
     \<and> (ds_latest_status (fst p) = Some Challenge_Pending \<longrightarrow> ds_ever_pending (fst p))
     \<and> candidates_ok cd (fst p) (snd p)"

definition discovery_extends ::
    "discovery \<times> room_line list \<Rightarrow> discovery \<times> room_line list \<Rightarrow> bool" where
  "discovery_extends p q \<longleftrightarrow>
     (\<exists>new. snd q = snd p @ new)
     \<and> (\<exists>new. ds_global (fst q) = ds_global (fst p) @ new)
     \<and> (\<exists>new. ds_excluded_room_ids (fst q) = ds_excluded_room_ids (fst p) @ new
          \<and> (ds_bootstrap_complete (fst p) \<longrightarrow> new = []))
     \<and> (ds_bootstrap_complete (fst p) \<longrightarrow> ds_bootstrap_complete (fst q))
     \<and> (ds_ever_pending (fst p) \<longrightarrow> ds_ever_pending (fst q))"

lemmas discovery_inv_defs = discovery_inv_def phase_ok_def snapshot_excluded_def

text \<open>Candidates.\<close>

lemma note_metadata_error_simps [simp]:
  "rc_room_id (note_metadata_error c) = rc_room_id c"
  "rc_lines (note_metadata_error c) = rc_lines c"
  by (simp_all add: note_metadata_error_def)

lemma read_metadata_event_simps [simp]:
  "rc_room_id (read_metadata_event c e) = rc_room_id c"
  "rc_lines (read_metadata_event c e) = rc_lines c"
  by (auto simp: read_metadata_event_def read_player_def Let_def
      split: battle_event.split metadata_event.split option.split)

lemma read_candidate_metadata_keeps:
  assumes "read_candidate_metadata c line = Inr c'"
  shows "rc_room_id c' = rc_room_id c \<and> rc_lines c' = rc_lines c"
proof (cases "rl_payload line = ''|init|battle''")
  case True
  then show ?thesis using assms
    by (auto simp: read_candidate_metadata_def Let_def ebind_eq_Inr)
next
  case False
  then show ?thesis using assms
    by (auto simp: read_candidate_metadata_def Let_def split: if_splits sum.splits py_exc.splits)
qed

lemma accept_line_keeps:
  assumes "accept_line cd c line = Inr c'"
  shows "rc_room_id c' = rc_room_id c" "rc_lines c' = rc_lines c @ [line]"
    "raise_for_exact_candidate_failure cd c' = Inr ()"
  using assms by (auto simp: accept_line_def ebind_eq_Inr dest!: read_candidate_metadata_keeps)

lemma built_from_lines:
  "built_from cd room_id lines c \<Longrightarrow> rc_room_id c = room_id \<and> rc_lines c = lines"
proof (induction lines arbitrary: c rule: rev_induct)
  case Nil
  then show ?case by (auto simp: built_from_def new_candidate_def)
next
  case (snoc line lines)
  then obtain c0 where "built_from cd room_id lines c0" "accept_line cd c0 line = Inr c"
    by (auto simp: built_from_def efold_append ebind_eq_Inr)
  with snoc.IH accept_line_keeps show ?case by metis
qed

lemma built_from_snoc:
  "built_from cd room_id lines c \<Longrightarrow> accept_line cd c line = Inr c'
    \<Longrightarrow> built_from cd room_id (lines @ [line]) c'"
  by (simp add: built_from_def efold_append)

lemma built_from_new: "built_from cd room_id [] (new_candidate room_id)"
  by (simp add: built_from_def)

lemma new_not_matching: "\<not> is_matching_candidate cd (new_candidate room_id)"
  by (simp add: is_matching_candidate_def new_candidate_def)

text \<open>A matching candidate that was accepted has no metadata error.\<close>

lemma matching_no_error:
  "raise_for_exact_candidate_failure cd c = Inr () \<Longrightarrow> is_matching_candidate cd c
    \<Longrightarrow> rc_metadata_error c = None"
  by (auto simp: raise_for_exact_candidate_failure_def is_matching_candidate_def split: option.splits)

text \<open>Global lines of a room leave the candidates alone; so do lines of excluded rooms.\<close>

lemma filter_other [simp]: "\<not> of_room room_id line \<Longrightarrow> filter (of_room room_id) (seen @ [line]) =
    filter (of_room room_id) seen"
  by simp

lemma candidates_ok_other:
  assumes "candidates_ok cd st seen" "ds_candidates st' = ds_candidates st"
    "set (ds_excluded_room_ids st) \<subseteq> set (ds_excluded_room_ids st')"
    "\<forall>room_id. rl_room_id line = Some room_id \<longrightarrow> room_id \<in> set (ds_excluded_room_ids st')"
  shows "candidates_ok cd st' (seen @ [line])"
  unfolding candidates_ok_def
proof (intro allI impI)
  fix room_id assume r: "room_id \<notin> set (ds_excluded_room_ids st')"
  then have old: "room_id \<notin> set (ds_excluded_room_ids st)" and "\<not> of_room room_id line"
    using assms(3,4) by (auto simp: of_room_def)
  then have f: "filter (of_room room_id) (seen @ [line]) = filter (of_room room_id) seen" by simp
  have "room_candidate_of st' room_id = room_candidate_of st room_id"
    using assms(2) by (simp add: room_candidate_of_def)
  then show "built_from cd room_id (filter (of_room room_id) (seen @ [line])) (room_candidate_of st' room_id)
      \<and> \<not> is_matching_candidate cd (room_candidate_of st' room_id)"
    using assms(1) old f unfolding candidates_ok_def by metis
qed

lemma send_global_fields [simp]:
  "ds_global (snd (send_global sends command st)) = ds_global st @ [command]"
  "ds_candidates (snd (send_global sends command st)) = ds_candidates st"
  "ds_excluded_room_ids (snd (send_global sends command st)) = ds_excluded_room_ids st"
  "ds_bootstrap_complete (snd (send_global sends command st)) = ds_bootstrap_complete st"
  "ds_search_snapshot (snd (send_global sends command st)) = ds_search_snapshot st"
  "ds_ever_pending (snd (send_global sends command st)) = ds_ever_pending st"
  "ds_latest_status (snd (send_global sends command st)) = ds_latest_status st"
  by (simp_all add: send_global_def Let_def split: send_outcome.split)

lemma send_global_Continue:
  "send_global sends command st = (Continue, st')
    \<longleftrightarrow> sends (length (ds_global st)) command = Delivered
      \<and> st' = st\<lparr>ds_global := ds_global st @ [command]\<rparr>"
  by (auto simp: send_global_def Let_def split: send_outcome.split)

lemma send_global_not_Found: "send_global sends command st \<noteq> (Found c, st')"
  by (simp add: send_global_def Let_def split: send_outcome.split)

text \<open>The step for a repeated or first search snapshot.\<close>

lemma update_search_Continue:
  assumes "discover_update_search st payload = (Continue, st')"
  shows "st' = st \<or> (\<not> ds_bootstrap_complete st \<and> (\<exists>sn. read_search_snapshot payload = Inr sn
    \<and> st' = st\<lparr>ds_excluded_room_ids := ds_excluded_room_ids st @ sn_room_ids sn,
              ds_search_snapshot := Some sn\<rparr>))"
  using assms by (auto simp: discover_update_search_def split: sum.splits if_splits)

lemma bootstrap_Continue:
  assumes "discover_bootstrap cd sends st payload = (Continue, st')"
  shows "\<exists>rooms sn. read_user_details_room_ids payload (cd_our_user_id cd) = Inr rooms
    \<and> ds_search_snapshot st = Some sn \<and> sn_searching sn = []
    \<and> st' = st\<lparr>ds_excluded_room_ids := ds_excluded_room_ids st @ rooms,
              ds_bootstrap_complete := True,
              ds_global := ds_global st @ [team_command cd, challenge_command cd]\<rparr>"
proof -
  obtain rooms where rooms: "read_user_details_room_ids payload (cd_our_user_id cd) = Inr rooms"
    using assms by (cases "read_user_details_room_ids payload (cd_our_user_id cd)")
      (auto simp: discover_bootstrap_def)
  obtain sn where sn: "ds_search_snapshot st = Some sn" "sn_searching sn = []"
    using assms rooms
    by (cases "ds_search_snapshot st") (auto simp: discover_bootstrap_def Let_def split: if_splits)
  let ?st1 = "st\<lparr>ds_excluded_room_ids := ds_excluded_room_ids st @ rooms,
    ds_bootstrap_complete := True\<rparr>"
  have run: "discover_then (send_global sends (team_command cd) ?st1)
      (send_global sends (challenge_command cd)) = (Continue, st')"
    using assms rooms sn by (simp add: discover_bootstrap_def Let_def)
  then obtain st2 where "send_global sends (team_command cd) ?st1 = (Continue, st2)"
    "send_global sends (challenge_command cd) st2 = (Continue, st')"
    by (auto simp: discover_then_def split: prod.splits discover_outcome.splits)
  then have "st' = st\<lparr>ds_excluded_room_ids := ds_excluded_room_ids st @ rooms,
              ds_bootstrap_complete := True,
              ds_global := ds_global st @ [team_command cd, challenge_command cd]\<rparr>"
    by (simp add: send_global_Continue)
  with rooms sn show ?thesis by blast
qed

lemma global_Continue:
  assumes "discover_global cd reader sends st payload = (Continue, st')"
  obtains (same) "st' = st"
    | (snapshot) sn where "\<not> ds_bootstrap_complete st"
        "st' = st\<lparr>ds_excluded_room_ids := ds_excluded_room_ids st @ sn_room_ids sn,
                  ds_search_snapshot := Some sn\<rparr>"
    | (bootstrap) rooms sn where "\<not> ds_bootstrap_complete st"
        "ds_search_snapshot st = Some sn" "sn_searching sn = []"
        "st' = st\<lparr>ds_excluded_room_ids := ds_excluded_room_ids st @ rooms,
              ds_bootstrap_complete := True,
              ds_global := ds_global st @ [team_command cd, challenge_command cd]\<rparr>"
    | (status) s where "ds_bootstrap_complete st"
        "st' = st\<lparr>ds_latest_status := Some s,
                  ds_ever_pending := ds_ever_pending st \<or> s = Challenge_Pending\<rparr>"
proof (cases "starts_with ''|updatesearch|'' payload")
  case True
  then have "discover_update_search st payload = (Continue, st')"
    using assms by (simp add: discover_global_def)
  from update_search_Continue [OF this] show ?thesis using same snapshot by blast
next
  case search: False
  show ?thesis
  proof (cases "\<not> ds_bootstrap_complete st \<and> starts_with user_details_prefix payload")
    case True
    then have "discover_bootstrap cd sends st payload = (Continue, st')"
      using assms search by (simp add: discover_global_def)
    from bootstrap_Continue [OF this] True bootstrap show ?thesis by blast
  next
    case False
    then have "st' = st \<or> (ds_bootstrap_complete st \<and> (\<exists>s. st' = st\<lparr>ds_latest_status := Some s,
        ds_ever_pending := ds_ever_pending st \<or> s = Challenge_Pending\<rparr>))"
      using assms search
      by (auto simp: discover_global_def split: sum.splits option.splits if_splits)
    then show ?thesis using same status by blast
  qed
qed

lemma room_Continue:
  assumes "discover_room cd st room_id line = (out, st')"
  obtains (early) "\<not> ds_bootstrap_complete st" "out = Continue"
        "st' = st\<lparr>ds_excluded_room_ids := ds_excluded_room_ids st @ [room_id]\<rparr>"
    | (excluded) "ds_bootstrap_complete st" "room_id \<in> set (ds_excluded_room_ids st)"
        "out = Continue" "st' = st"
    | (failed) e where "out = Raised e" "st' = st"
    | (grown) c where "ds_bootstrap_complete st" "room_id \<notin> set (ds_excluded_room_ids st)"
        "accept_line cd (room_candidate_of st room_id) line = Inr c"
        "out = (if is_matching_candidate cd c then Found c else Continue)"
        "st' = st\<lparr>ds_candidates := AList.update room_id c (ds_candidates st)\<rparr>"
proof (cases "ds_bootstrap_complete st")
  case False
  then have "out = Continue"
    "st' = st\<lparr>ds_excluded_room_ids := ds_excluded_room_ids st @ [room_id]\<rparr>"
    using assms by (simp_all add: discover_room_def)
  with False show ?thesis by (rule early)
next
  case boot: True
  show ?thesis
  proof (cases "room_id \<in> set (ds_excluded_room_ids st)")
    case True
    then have "out = Continue" "st' = st" using assms boot by (simp_all add: discover_room_def)
    with boot True show ?thesis by (rule excluded)
  next
    case free: False
    show ?thesis
    proof (cases "accept_line cd (room_candidate_of st room_id) line")
      case (Inl e)
      then have "out = Raised e" "st' = st" using assms boot free by (simp_all add: discover_room_def)
      then show ?thesis by (rule failed)
    next
      case (Inr c)
      then have "out = (if is_matching_candidate cd c then Found c else Continue)"
        "st' = st\<lparr>ds_candidates := AList.update room_id c (ds_candidates st)\<rparr>"
        using assms boot free by (auto simp: discover_room_def Let_def)
      with boot free Inr show ?thesis by (rule grown)
    qed
  qed
qed

text \<open>Every step that continues keeps the invariant and moves forward.\<close>

lemma candidates_ok_grown:
  assumes cands: "candidates_ok cd st seen" and line: "rl_room_id line = Some room_id"
    and free: "room_id \<notin> set (ds_excluded_room_ids st)"
    and acc: "accept_line cd (room_candidate_of st room_id) line = Inr c"
    and no: "\<not> is_matching_candidate cd c"
  shows "candidates_ok cd (st\<lparr>ds_candidates := AList.update room_id c (ds_candidates st)\<rparr>) (seen @ [line])"
  unfolding candidates_ok_def
proof (intro allI impI)
  fix other
  let ?st = "st\<lparr>ds_candidates := AList.update room_id c (ds_candidates st)\<rparr>"
  assume o': "other \<notin> set (ds_excluded_room_ids ?st)"
  show "built_from cd other (filter (of_room other) (seen @ [line])) (room_candidate_of ?st other)
      \<and> \<not> is_matching_candidate cd (room_candidate_of ?st other)"
  proof (cases "other = room_id")
    case True
    then have "room_candidate_of ?st other = c" by (simp add: room_candidate_of_def update_conv')
    moreover have "filter (of_room other) (seen @ [line]) = filter (of_room other) seen @ [line]"
      using line True by (simp add: of_room_def)
    moreover have "built_from cd other (filter (of_room other) seen) (room_candidate_of st other)"
      using cands free True by (simp add: candidates_ok_def)
    ultimately show ?thesis using acc no True by (metis built_from_snoc)
  next
    case False
    then have "room_candidate_of ?st other = room_candidate_of st other"
      by (simp add: room_candidate_of_def update_conv')
    moreover have "filter (of_room other) (seen @ [line]) = filter (of_room other) seen"
      using line False by (simp add: of_room_def)
    ultimately show ?thesis using cands o' unfolding candidates_ok_def by simp
  qed
qed

lemma discovery_step_ok:
  assumes inv: "discovery_inv cd (st, seen)"
    and step: "discover_line cd reader sends st line = (Continue, st')"
  shows "discovery_inv cd (st', seen @ [line]) \<and> discovery_extends (st, seen) (st', seen @ [line])"
proof -
  have cands: "candidates_ok cd st seen" using inv by (simp add: discovery_inv_def)
  show ?thesis
  proof (cases "rl_room_id line")
    case None
    then have "discover_global cd reader sends st (rl_payload line) = (Continue, st')"
      using step by (simp add: discover_line_def)
    then show ?thesis
    proof (cases rule: global_Continue)
      case same
      have "candidates_ok cd st' (seen @ [line])"
        by (rule candidates_ok_other [OF cands]) (simp_all add: same None)
      then show ?thesis using inv same by (simp add: discovery_inv_defs discovery_extends_def)
    next
      case (snapshot sn)
      have "candidates_ok cd st' (seen @ [line])"
        by (rule candidates_ok_other [OF cands]) (auto simp: snapshot None)
      then show ?thesis using inv snapshot by (simp add: discovery_inv_defs discovery_extends_def)
    next
      case (bootstrap rooms sn)
      have "candidates_ok cd st' (seen @ [line])"
        by (rule candidates_ok_other [OF cands]) (auto simp: bootstrap None)
      then show ?thesis using inv bootstrap
        by (auto simp: discovery_inv_defs discovery_extends_def setup_commands_def)
    next
      case (status s)
      have "candidates_ok cd st' (seen @ [line])"
        by (rule candidates_ok_other [OF cands]) (simp_all add: status None)
      then show ?thesis using inv status by (auto simp: discovery_inv_defs discovery_extends_def)
    qed
  next
    case (Some room_id)
    then have "discover_room cd st room_id line = (Continue, st')"
      using step by (simp add: discover_line_def)
    then show ?thesis
    proof (cases rule: room_Continue)
      case early
      have "candidates_ok cd st' (seen @ [line])"
        by (rule candidates_ok_other [OF cands]) (auto simp: early Some)
      then show ?thesis using inv early by (auto simp: discovery_inv_defs discovery_extends_def)
    next
      case excluded
      have "candidates_ok cd st' (seen @ [line])"
        by (rule candidates_ok_other [OF cands]) (simp_all add: excluded Some)
      then show ?thesis using inv excluded by (simp add: discovery_inv_defs discovery_extends_def)
    next
      case (failed e)
      then show ?thesis by simp
    next
      case (grown c)
      then have "\<not> is_matching_candidate cd c" by (auto split: if_splits)
      then have "candidates_ok cd st' (seen @ [line])"
        using candidates_ok_grown [OF cands Some grown(2,3)] grown(5) by simp
      then show ?thesis using inv grown by (simp add: discovery_inv_defs discovery_extends_def)
    qed
  qed
qed

lemma discovery_extends_refl: "discovery_extends p p"
  by (simp add: discovery_extends_def)

lemma discovery_extends_trans:
  assumes "discovery_extends p q" "discovery_extends q r"
  shows "discovery_extends p r"
proof -
  obtain a b c where 1: "snd q = snd p @ a" "ds_global (fst q) = ds_global (fst p) @ b"
    "ds_excluded_room_ids (fst q) = ds_excluded_room_ids (fst p) @ c"
    "ds_bootstrap_complete (fst p) \<longrightarrow> c = []"
    using assms(1) unfolding discovery_extends_def by blast
  obtain a' b' c' where 2: "snd r = snd q @ a'" "ds_global (fst r) = ds_global (fst q) @ b'"
    "ds_excluded_room_ids (fst r) = ds_excluded_room_ids (fst q) @ c'"
    "ds_bootstrap_complete (fst q) \<longrightarrow> c' = []"
    using assms(2) unfolding discovery_extends_def by blast
  show ?thesis using 1 2 assms unfolding discovery_extends_def by auto
qed

lemma discover_step_eq_Inr:
  "discover_step cd reader sends p line = Inr q
    \<longleftrightarrow> (\<exists>st. discover_line cd reader sends (fst p) line = (Continue, st) \<and> q = (st, snd p @ [line]))"
  by (auto simp: discover_step_def split: prod.splits discover_outcome.splits)

interpretation discovery: ordered_machine "discover_step cd reader sends" "discovery_inv cd" discovery_extends
  for cd reader sends
proof
  fix p line q a b c
  show "discovery_inv cd q" if "discovery_inv cd p" "discover_step cd reader sends p line = Inr q"
    using that discovery_step_ok by (cases p) (fastforce simp: discover_step_eq_Inr)
  show "discovery_extends a a" by (rule discovery_extends_refl)
  show "discovery_extends a c" if "discovery_extends a b" "discovery_extends b c"
    using that by (rule discovery_extends_trans)
  show "discovery_extends p q" if "discovery_inv cd p" "discover_step cd reader sends p line = Inr q"
    using that discovery_step_ok by (cases p) (fastforce simp: discover_step_eq_Inr)
qed

lemma discovery_start:
  assumes "send_global sends (user_details_command cd) start_discovery = (Continue, st)"
  shows "discovery_inv cd (st, [])"
  using assms new_not_matching
  by (auto simp: send_global_Continue discovery_inv_defs candidates_ok_def start_discovery_def
      room_candidate_of_def built_from_def)

section \<open>What discovery returns\<close>

lemma discover_lines_fold:
  "discover_lines cd reader sends st lines = ((out, st'), rest) \<Longrightarrow>
    (if out = Continue
     then rest = [] \<and> efold (discover_step cd reader sends) (st, seen) lines = Inr (st', seen @ lines)
     else (\<exists>pre line t. lines = pre @ line # rest
       \<and> efold (discover_step cd reader sends) (st, seen) pre = Inr (t, seen @ pre)
       \<and> discover_line cd reader sends t line = (out, st')))"
proof (induction lines arbitrary: st seen)
  case Nil
  then show ?case by auto
next
  case (Cons line lines)
  obtain o1 s1 where one: "discover_line cd reader sends st line = (o1, s1)"
    by (cases "discover_line cd reader sends st line")
  show ?case
  proof (cases "o1 = Continue")
    case True
    then have step: "discover_step cd reader sends (st, seen) line = Inr (s1, seen @ [line])"
      using one by (simp add: discover_step_eq_Inr)
    have "discover_lines cd reader sends s1 lines = ((out, st'), rest)"
      using Cons.prems one True by simp
    note IH = Cons.IH [OF this, of "seen @ [line]"]
    show ?thesis
    proof (cases "out = Continue")
      case True
      then show ?thesis using IH step by simp
    next
      case False
      then obtain pre l t where "lines = pre @ l # rest"
        "efold (discover_step cd reader sends) (s1, seen @ [line]) pre = Inr (t, seen @ [line] @ pre)"
        "discover_line cd reader sends t l = (out, st')"
        using IH by auto
      then have "line # lines = (line # pre) @ l # rest
        \<and> efold (discover_step cd reader sends) (st, seen) (line # pre) = Inr (t, seen @ line # pre)
        \<and> discover_line cd reader sends t l = (out, st')"
        using step by simp
      then show ?thesis using False by (simp only: if_False) blast
    qed
  next
    case False
    then have "out = o1" "st' = s1" "rest = lines"
      using Cons.prems one by (auto split: discover_outcome.splits)
    then have "line # lines = [] @ line # rest
        \<and> efold (discover_step cd reader sends) (st, seen) [] = Inr (st, seen @ [])
        \<and> discover_line cd reader sends st line = (out, st')"
      using one by simp
    then show ?thesis using False \<open>out = o1\<close> by (simp only: if_False) blast
  qed
qed

definition found_ok :: "coordinator \<Rightarrow> discovery \<Rightarrow> room_line list \<Rightarrow> room_candidate \<Rightarrow> bool" where
  "found_ok cd st seen c \<longleftrightarrow> is_matching_candidate cd c \<and> rc_metadata_error c = None
     \<and> rc_lines c = filter (of_room (rc_room_id c)) seen
     \<and> built_from cd (rc_room_id c) (rc_lines c) c
     \<and> rc_room_id c \<notin> set (ds_excluded_room_ids st) \<and> ds_global st = setup_commands cd"

lemma global_not_Found: "discover_global cd reader sends st payload \<noteq> (Found c, st')"
proof -
  have "discover_bootstrap cd sends st payload \<noteq> (Found c, st')"
    using send_global_not_Found
    by (auto simp: discover_bootstrap_def discover_then_def Let_def
        split: sum.splits option.splits if_splits prod.splits discover_outcome.splits)
  then show ?thesis
    by (auto simp: discover_global_def discover_update_search_def
        split: sum.splits option.splits if_splits)
qed

lemma discover_line_Found:
  assumes inv: "discovery_inv cd (st, seen)"
    and step: "discover_line cd reader sends st line = (Found c, st')"
  shows "found_ok cd st' (seen @ [line]) c"
proof (cases "rl_room_id line")
  case None
  then show ?thesis using step global_not_Found by (simp add: discover_line_def)
next
  case (Some room_id)
  then have "discover_room cd st room_id line = (Found c, st')"
    using step by (simp add: discover_line_def)
  then show ?thesis
  proof (cases rule: room_Continue)
    case early
    then show ?thesis by simp
  next
    case excluded
    then show ?thesis by simp
  next
    case (failed e)
    then show ?thesis by simp
  next
    case (grown c0)
    then have c: "c0 = c" and match: "is_matching_candidate cd c" by (auto split: if_splits)
    have "built_from cd room_id (filter (of_room room_id) seen) (room_candidate_of st room_id)"
      using inv grown(2) by (simp add: discovery_inv_def candidates_ok_def)
    then have b: "built_from cd room_id (filter (of_room room_id) (seen @ [line])) c"
      using built_from_snoc grown(3) Some c by (auto simp: of_room_def)
    have "rc_metadata_error c = None"
      using matching_no_error [OF accept_line_keeps(3) match] grown(3) c by blast
    moreover have "ds_global st' = setup_commands cd"
      using inv grown(1,5) by (simp add: discovery_inv_defs)
    ultimately show ?thesis
      using b built_from_lines [OF b] match grown(2,5) by (simp add: found_ok_def)
  qed
qed

lemma discover_found:
  assumes "discover cd sends lines failure budget = (Inr (c, rest), st)"
  shows "\<exists>seen. lines = seen @ rest \<and> length seen \<le> budget \<and> found_ok cd st seen c"
proof -
  obtain reader st0 rest1 where reader:
      "send_global sends (user_details_command cd) start_discovery = (Continue, st0)"
    and run: "discover_lines cd reader sends st0 (take budget lines) = ((Found c, st), rest1)"
    and rest: "rest = rest1 @ drop budget lines"
    using assms
    by (auto simp: discover_def split: sum.splits prod.splits discover_outcome.splits)
  obtain pre line t where split: "take budget lines = pre @ line # rest1"
    and fold: "efold (discover_step cd reader sends) (st0, []) pre = Inr (t, [] @ pre)"
    and last: "discover_line cd reader sends t line = (Found c, st)"
    using discover_lines_fold [OF run, of "[]"] by auto
  have "discovery_inv cd (t, [] @ pre)"
    by (rule discovery.inv_run [OF discovery_start [OF reader] fold])
  then have ok: "found_ok cd st (pre @ [line]) c" using discover_line_Found last by fastforce
  have "lines = (pre @ line # rest1) @ drop budget lines"
    using append_take_drop_id [of budget lines] split by simp
  then have "lines = (pre @ [line]) @ rest" using rest by simp
  moreover have "length (pre @ line # rest1) \<le> budget"
    using split length_take [of budget lines] by (metis min.cobounded2)
  then have "length (pre @ [line]) \<le> budget" by simp
  ultimately show ?thesis using ok by blast
qed

text \<open>The log of the global commands, also when the setup fails.\<close>

lemma discover_then_cases:
  "snd (discover_then m f) = snd m \<or> (fst m = Continue \<and> snd (discover_then m f) = snd (f (snd m)))"
  by (cases m; cases "fst m") (simp_all add: discover_then_def)

lemma discover_line_log:
  assumes inv: "discovery_inv cd (st, seen)"
    and step: "discover_line cd reader sends st line = (out, st')"
  shows "\<exists>n>0. ds_global st' = take n (setup_commands cd)"
proof -
  have old: "\<exists>n>0. ds_global st = take n (setup_commands cd)"
  proof (cases "ds_bootstrap_complete st")
    case True
    then have "ds_global st = take 3 (setup_commands cd)"
      using inv by (simp add: discovery_inv_defs setup_commands_def)
    then show ?thesis by (intro exI [of _ 3]) simp
  next
    case False
    then have "ds_global st = take 1 (setup_commands cd)"
      using inv by (simp add: discovery_inv_defs setup_commands_def)
    then show ?thesis by (intro exI [of _ 1]) simp
  qed
  have boot: "\<exists>n>0. ds_global (snd (discover_bootstrap cd sends st payload)) = take n (setup_commands cd)"
    if "\<not> ds_bootstrap_complete st" for payload
  proof -
    have one: "ds_global st = [user_details_command cd]"
      using inv that by (simp add: discovery_inv_defs)
    have "ds_global (snd (discover_bootstrap cd sends st payload)) = ds_global st
      \<or> ds_global (snd (discover_bootstrap cd sends st payload)) = ds_global st @ [team_command cd]
      \<or> ds_global (snd (discover_bootstrap cd sends st payload))
          = ds_global st @ [team_command cd, challenge_command cd]"
      unfolding discover_bootstrap_def Let_def discover_then_def
      by (auto split: sum.split option.split prod.split discover_outcome.split
          dest: arg_cong [of _ _ "\<lambda>x. ds_global (snd x)"])
    then obtain n where "n \<in> {1, 2, 3}"
      "ds_global (snd (discover_bootstrap cd sends st payload)) = take n (setup_commands cd)"
      using one by (fastforce simp: setup_commands_def)
    then show ?thesis by (intro exI [of _ n]) auto
  qed
  show ?thesis
  proof (cases "rl_room_id line")
    case None
    then have g: "discover_global cd reader sends st (rl_payload line) = (out, st')"
      using step by (simp add: discover_line_def)
    show ?thesis
    proof (cases "\<not> starts_with ''|updatesearch|'' (rl_payload line) \<and> \<not> ds_bootstrap_complete st
        \<and> starts_with user_details_prefix (rl_payload line)")
      case True
      then have "discover_bootstrap cd sends st (rl_payload line) = (out, st')"
        using g by (simp add: discover_global_def)
      with boot [of "rl_payload line"] True show ?thesis by simp
    next
      case False
      then have "ds_global st' = ds_global st"
        using g by (auto simp: discover_global_def discover_update_search_def
            split: sum.splits option.splits if_splits)
      with old show ?thesis by simp
    qed
  next
    case (Some room_id)
    then have "discover_room cd st room_id line = (out, st')"
      using step by (simp add: discover_line_def)
    then have "ds_global st' = ds_global st" by (cases rule: room_Continue) simp_all
    with old show ?thesis by simp
  qed
qed

lemma discover_log:
  assumes "discover cd sends lines failure budget = (res, st)"
  shows "\<exists>n. ds_global st = take n (setup_commands cd)"
proof (cases "make_challenge_reader (cd_our_user_id cd) (cd_opponent_user_id cd) format_id")
  case (Inl e)
  then have "ds_global st = take 0 (setup_commands cd)"
    using assms by (auto simp: discover_def start_discovery_def)
  then show ?thesis by blast
next
  case (Inr reader)
  obtain o0 st0 where first: "send_global sends (user_details_command cd) start_discovery = (o0, st0)"
    by (cases "send_global sends (user_details_command cd) start_discovery")
  have "ds_global (snd (send_global sends (user_details_command cd) start_discovery))
      = [user_details_command cd]" by (simp add: start_discovery_def)
  then have one: "ds_global st0 = take 1 (setup_commands cd)" using first by (simp add: setup_commands_def)
  show ?thesis
  proof (cases "o0 = Continue")
    case False
    then have "st = st0" using assms Inr first
      by (cases o0) (simp_all add: discover_def)
    with one show ?thesis by blast
  next
    case True
    note start = discovery_start [OF first [unfolded True]]
    obtain out st1 rest where run: "discover_lines cd reader sends st0 (take budget lines) = ((out, st1), rest)"
      by (metis prod.exhaust)
    then have st: "st = st1" using assms Inr first True
      by (cases out) (simp_all add: discover_def)
    note fold = discover_lines_fold [OF run, of "[]"]
    show ?thesis
    proof (cases "out = Continue")
      case True
      then have "efold (discover_step cd reader sends) (st0, []) (take budget lines)
          = Inr (st1, [] @ take budget lines)" using fold by simp
      from discovery.inv_run [OF start this] have "phase_ok cd st1" by (simp add: discovery_inv_def)
      then have "ds_global st1 = take (if ds_bootstrap_complete st1 then 3 else 1) (setup_commands cd)"
        by (simp add: phase_ok_def setup_commands_def split: if_splits)
      with st show ?thesis by blast
    next
      case False
      then obtain pre line t where
        pre: "efold (discover_step cd reader sends) (st0, []) pre = Inr (t, [] @ pre)"
        and last: "discover_line cd reader sends t line = (out, st1)"
        using fold by auto
      from discover_line_log [OF discovery.inv_run [OF start pre] last] st show ?thesis by blast
    qed
  qed
qed

end
