(* ===== verification/Coordinator.thy ===== *)
theory Coordinator
  imports Discovery Session_Inv
begin

text \<open>
  \<open>composition/battle_coordinator.py\<close>, \<open>run\<close>: the discovery of a room, the session on the lines of
  that room, and the end of the connection.
\<close>

section \<open>The run\<close>

text \<open>
  The lines the session reads: those buffered in the candidate, then the lines of its room in
  the rest of the stream, each checked before it is handed over; a line that fails the
  check ends the stream with its exception.
\<close>

fun handoff :: "coordinator \<Rightarrow> room_candidate \<Rightarrow> room_line list \<Rightarrow> py_exc option
    \<Rightarrow> room_line list \<times> py_exc option" where
  "handoff cd c [] failure = ([], failure)"
| "handoff cd c (line # rest) failure =
     (if rl_room_id line \<noteq> Some (rc_room_id c) then handoff cd c rest failure
      else (case accept_line cd c line of
              Inl e \<Rightarrow> ([], Some e)
            | Inr c' \<Rightarrow> (case handoff cd c' rest failure of (ls, f) \<Rightarrow> (line # ls, f))))"

record coordinator_env =
  ce_session :: session_env
  ce_connect :: "py_exc option"
  ce_close :: "py_exc option"
  ce_global :: global_sends

text \<open>The session of a candidate, on the rest of the stream.\<close>

definition coordinate_session ::
    "coordinator \<Rightarrow> session_env \<Rightarrow> room_candidate \<Rightarrow> room_line list \<Rightarrow> py_exc option
     \<Rightarrow> py_exc + battle_session" where
  "coordinate_session cd env c rest failure =
     (case handoff cd c rest failure of
        (ls, f) \<Rightarrow>
          ebind (new_session (rc_room_id c) (cd_our_user_id cd) None False None)
            (\<lambda>s. Inr (run_session env s (rc_lines c @ ls) f)))"

definition require_terminal :: "session_result \<Rightarrow> session_result" where
  "require_terminal r =
     (if re_primary_error r = None \<and> os_winner (re_state r) = None \<and> \<not> os_tied (re_state r)
      then r\<lparr>re_primary_error := Some Disconnect\<rparr> else r)"

text \<open>\<open>finally: await self._connection.close()\<close>: its exception never hides another one.\<close>

definition close_connection ::
    "py_exc option \<Rightarrow> py_exc + session_result \<Rightarrow> py_exc + session_result" where
  "close_connection failure outcome =
     (case outcome of
        Inl e \<Rightarrow> Inl e
      | Inr r \<Rightarrow>
          (case failure of
             None \<Rightarrow> Inr r
           | Some e \<Rightarrow> if re_primary_error r = None then Inl e else Inr r))"

definition run_coordinator ::
    "coordinator \<Rightarrow> coordinator_env \<Rightarrow> room_line list \<Rightarrow> py_exc option \<Rightarrow> nat
     \<Rightarrow> py_exc + session_result" where
  "run_coordinator cd env lines failure budget =
     close_connection (ce_close env)
       (case ce_connect env of
          Some e \<Rightarrow> Inl e
        | None \<Rightarrow>
            ebind (fst (discover cd (ce_global env) lines failure budget)) (\<lambda>(c, rest).
            ebind (coordinate_session cd (ce_session env) c rest failure) (\<lambda>s.
              Inr (require_terminal (result_snapshot None s)))))"

section \<open>What a run gives\<close>

text \<open>
  The handed-over lines are those of the room, in order and without a gap, up to the first
  line that fails its check.
\<close>

lemma handoff_ok:
  "handoff cd c lines failure = (ls, f) \<Longrightarrow> \<exists>more c'.
     filter (of_room (rc_room_id c)) lines = ls @ more \<and> efold (accept_line cd) c ls = Inr c'
     \<and> (case more of
          [] \<Rightarrow> f = failure
        | line # _ \<Rightarrow> (\<exists>e. accept_line cd c' line = Inl e \<and> f = Some e))"
proof (induction lines arbitrary: c ls)
  case Nil
  then show ?case by simp
next
  case (Cons line rest)
  show ?case
  proof (cases "of_room (rc_room_id c) line")
    case False
    then have "handoff cd c rest failure = (ls, f)" using Cons.prems by (simp add: of_room_def)
    from Cons.IH [OF this] False show ?thesis by simp
  next
    case here: True
    then have room: "rl_room_id line = Some (rc_room_id c)" by (simp add: of_room_def)
    show ?thesis
    proof (cases "accept_line cd c line")
      case (Inl e)
      then have "ls = []" "f = Some e" using Cons.prems room by simp_all
      then show ?thesis using Inl here
        by (intro exI [of _ "line # filter (of_room (rc_room_id c)) rest"] exI [of _ c]) simp
    next
      case (Inr c1)
      obtain ls1 f1 where one: "handoff cd c1 rest failure = (ls1, f1)"
        by (cases "handoff cd c1 rest failure")
      then have "ls = line # ls1" "f1 = f" using Cons.prems room Inr by simp_all
      moreover obtain more c' where
        "filter (of_room (rc_room_id c1)) rest = ls1 @ more" "efold (accept_line cd) c1 ls1 = Inr c'"
        "case more of [] \<Rightarrow> f = failure
          | line # _ \<Rightarrow> (\<exists>e. accept_line cd c' line = Inl e \<and> f = Some e)"
        using Cons.IH [OF one [unfolded \<open>f1 = f\<close>]] by blast
      ultimately show ?thesis using Inr here accept_line_keeps(1) [OF Inr]
        by (intro exI [of _ more] exI [of _ c']) (simp split: list.split)
    qed
  qed
qed

text \<open>
  A run that returns: discovery found a matching room, and the session ran on exactly the
  lines of that room in the whole stream, from the first one on.
\<close>

definition ran_on ::
    "coordinator \<Rightarrow> session_env \<Rightarrow> room_line list \<Rightarrow> room_candidate \<Rightarrow> battle_session \<Rightarrow> bool" where
  "ran_on cd env lines c s \<longleftrightarrow>
     (\<exists>s0 used more f. new_session (rc_room_id c) (cd_our_user_id cd) None False None = Inr s0
        \<and> filter (of_room (rc_room_id c)) lines = used @ more
        \<and> s = run_session env s0 used f)"

lemma coordinate_session_ok:
  assumes run: "coordinate_session cd env c rest failure = Inr s"
    and c: "rc_lines c = filter (of_room (rc_room_id c)) seen"
  shows "ran_on cd env (seen @ rest) c s"
proof -
  obtain ls f where h: "handoff cd c rest failure = (ls, f)" by (cases "handoff cd c rest failure")
  then obtain s0 where s0: "new_session (rc_room_id c) (cd_our_user_id cd) None False None = Inr s0"
    and s: "s = run_session env s0 (rc_lines c @ ls) f"
    using run by (auto simp: coordinate_session_def ebind_eq_Inr)
  obtain more where "filter (of_room (rc_room_id c)) rest = ls @ more" using handoff_ok [OF h] by blast
  then have "filter (of_room (rc_room_id c)) (seen @ rest) = (rc_lines c @ ls) @ more"
    using c by simp
  then show ?thesis using s0 s unfolding ran_on_def by blast
qed

lemma close_connection_Inr: "close_connection failure outcome = Inr r \<Longrightarrow> outcome = Inr r"
  by (auto simp: close_connection_def split: sum.splits option.splits if_splits)

lemma run_coordinator_Inr:
  assumes "run_coordinator cd env lines failure budget = Inr r"
  shows "\<exists>c rest st seen s. discover cd (ce_global env) lines failure budget = (Inr (c, rest), st)
    \<and> lines = seen @ rest \<and> found_ok cd st seen c
    \<and> ran_on cd (ce_session env) lines c s \<and> r = require_terminal (result_snapshot None s)"
proof -
  obtain res st where d: "discover cd (ce_global env) lines failure budget = (res, st)"
    by (cases "discover cd (ce_global env) lines failure budget")
  have "ebind res (\<lambda>(c, rest). ebind (coordinate_session cd (ce_session env) c rest failure)
      (\<lambda>s. Inr (require_terminal (result_snapshot None s)))) = Inr r"
    using close_connection_Inr [OF assms [unfolded run_coordinator_def]] d
    by (cases "ce_connect env") simp_all
  then obtain c rest s where res: "res = Inr (c, rest)"
    and s: "coordinate_session cd (ce_session env) c rest failure = Inr s"
    and r: "r = require_terminal (result_snapshot None s)"
    by (auto simp: ebind_eq_Inr)
  obtain seen where seen: "lines = seen @ rest" "found_ok cd st seen c"
    using discover_found d res by blast
  have "ran_on cd (ce_session env) (seen @ rest) c s"
    by (rule coordinate_session_ok [OF s]) (use seen(2) in \<open>simp add: found_ok_def\<close>)
  with d res seen r show ?thesis by blast
qed

lemma ran_on_ok:
  assumes "ran_on cd env lines c s"
  shows "session_inv s"
  using assms new_session_ok run_session_ok unfolding ran_on_def by metis

text \<open>A result without an error is the result of a battle that has ended.\<close>

lemma require_terminal_ok:
  "re_primary_error (require_terminal r) \<noteq> None \<or> os_winner (re_state r) \<noteq> None \<or> os_tied (re_state r)"
  by (simp add: require_terminal_def)

lemma require_terminal_state: "re_state (require_terminal r) = re_state r"
  by (simp add: require_terminal_def)

end
