(* ===== verification/Parser_Facts.thy ===== *)
theory Parser_Facts
  imports Parser
begin

text \<open>
  What the parser guarantees of every line: an event carries the index it was parsed with, and
  a line that fails does so with one of the protocol's own errors. The judgement
  \<open>parses\<close> follows the handlers' structure, so that each handler is one application of its rules.
\<close>

abbreviation fails_malformed :: "py_exc + 'a \<Rightarrow> bool" where
  "fails_malformed \<equiv> raises {MalformedProtocolMessage}"

definition parses :: "int \<Rightarrow> py_exc + battle_event \<Rightarrow> bool" where
  "parses ei r \<longleftrightarrow> fails_malformed r \<and> (\<forall>e. r = Inr e \<longrightarrow> event_index e = ei)"

named_theorems parse_rules \<open>decomposition of parser code\<close>

lemmas [parse_rules] = raises_structure raises_raise_if raises_of_option

lemma parses_simps [simp]:
  "parses ei (Inr e) \<longleftrightarrow> event_index e = ei"
  "parses ei (Inl x) \<longleftrightarrow> x = MalformedProtocolMessage"
  by (auto simp: parses_def)

text \<open>One rule per construct of the parser code.\<close>

lemma parses_structure [parse_rules]:
  "fails_malformed m \<Longrightarrow> (\<And>x. parses ei (f x)) \<Longrightarrow> parses ei (ebind m f)"
  "(b \<Longrightarrow> parses ei t) \<Longrightarrow> (\<not> b \<Longrightarrow> parses ei u) \<Longrightarrow> parses ei (if b then t else u)"
  "parses ei n \<Longrightarrow> (\<And>v. parses ei (g v)) \<Longrightarrow> parses ei (case z of None \<Rightarrow> n | Some v \<Rightarrow> g v)"
  "(\<And>a c. parses ei (h a c)) \<Longrightarrow> parses ei (case p of (a, c) \<Rightarrow> h a c)"
  by (auto simp: parses_def raises_def ebind_def split: sum.split option.split prod.split)

lemma fails_helpers [parse_rules]:
  "fails_malformed (require_args args n)"
  "fails_malformed (int_or_malformed s)"
  "fails_malformed (parse_side_ident s)"
  by (auto simp: require_args_def int_or_malformed_def parse_side_ident_def Let_def raise_if_def
      of_option_def split: option.splits)

lemma fails_pokemon_ident [parse_rules]: "fails_malformed (parse_pokemon_ident s)"
  unfolding parse_pokemon_ident_def by (intro parse_rules) simp_all

lemma fails_active_ident [parse_rules]: "fails_malformed (parse_active_ident s)"
  unfolding parse_active_ident_def by (intro parse_rules) simp_all

lemma fails_hp [parse_rules]: "fails_malformed (parse_hp_token s)"
  unfolding parse_hp_token_def Let_def by (intro parse_rules) simp_all

lemma parses_cleared [parse_rules]:
  "parses ei (ebind (make_boosts_cleared ei None None None ''all'') (\<lambda>e. Inr (Boost e)))"
  "parses ei (ebind (make_boosts_cleared ei (Some a) (Some b) (Some c) sc) (\<lambda>e. Inr (Boost e)))"
  by (simp_all add: make_boosts_cleared_def)

section \<open>The handlers\<close>

lemma parses_metadata: "wt \<in> set metadata_types \<Longrightarrow> parses ei (parse_metadata wt args ei)"
  unfolding parse_metadata_def by (intro parse_rules) (simp_all add: metadata_types_def)

lemma parses_preview: "wt \<in> set preview_types \<Longrightarrow> parses ei (parse_preview wt args ei)"
  unfolding parse_preview_def by (intro parse_rules) (simp_all add: preview_types_def)

lemma parses_progress: "wt \<in> set progress_types \<Longrightarrow> parses ei (parse_progress wt args ei)"
  unfolding parse_progress_def by (intro parse_rules) (simp_all add: progress_types_def)

lemma parses_move [parse_rules]: "parses ei (parse_move args ei)"
  unfolding parse_move_def Let_def by (intro parse_rules) simp_all

lemma parses_identity:
  "wt \<in> set pokemon_identity_types \<Longrightarrow> parses ei (parse_pokemon_identity wt args ei)"
  unfolding parse_pokemon_identity_def by (intro parse_rules) (simp_all add: pokemon_identity_types_def)

lemma parses_health: "parses ei (parse_health wt args ei)"
  unfolding parse_health_def by (intro parse_rules) simp_all

lemma parses_status: "parses ei (parse_status wt args ei)"
  unfolding parse_status_def by (intro parse_rules) simp_all

lemma parses_boost: "wt \<in> set boost_types \<Longrightarrow> parses ei (parse_boost wt args ei)"
  unfolding parse_boost_def Let_def by (intro parse_rules) (simp_all add: boost_types_def)

lemma parses_field: "wt \<in> set field_types \<Longrightarrow> parses ei (parse_field wt args ei)"
  unfolding parse_field_def by (intro parse_rules) (simp_all add: field_types_def)

lemma parses_volatile: "parses ei (parse_volatile wt args ei)"
  unfolding parse_volatile_def by (intro parse_rules) simp_all

lemma parses_item: "parses ei (parse_item_ability wt args ei)"
  unfolding parse_item_ability_def Let_def by (intro parse_rules) simp_all

lemma parses_form: "wt \<in> set form_tera_types \<Longrightarrow> parses ei (parse_form_tera wt args ei)"
  unfolding parse_form_tera_def by (intro parse_rules) (simp_all add: form_tera_types_def)

lemma parses_evidence: "parses ei (parse_evidence wt args ei)"
  unfolding parse_evidence_def Let_def by (intro parse_rules) simp_all

lemmas parses_handlers = parses_metadata parses_preview parses_progress parses_identity
  parses_health parses_status parses_boost parses_field parses_volatile parses_item parses_form
  parses_evidence

section \<open>Lines\<close>

lemma rescue_parses: "parses ei r \<Longrightarrow> rescue r = r"
  by (cases r) (auto simp: rescue_def)

text \<open>The wire types with a handler, and those that are only displayed.\<close>

definition handled_types :: "string list" where
  "handled_types = metadata_types @ preview_types @ progress_types @ pokemon_identity_types
     @ health_types @ status_types @ boost_types @ field_types @ volatile_types
     @ item_ability_types @ form_tera_types @ evidence_types"

lemma parse_typed_line_handled:
  assumes "wt = ''init'' \<or> wt \<in> set handled_types"
  shows "parses ei (parse_typed_line payload wt args ei room_id)"
  using assms unfolding parse_typed_line_def handled_types_def set_append Un_iff
  by (intro parse_rules parses_handlers) simp_all

lemma parse_typed_line_unhandled:
  assumes "\<not> (wt = ''init'' \<or> wt \<in> set handled_types)"
  shows "parse_typed_line payload wt args ei room_id =
    (if payload = ''|'' then Inr (Ignored \<lparr>ig_index = ei, ig_kind = ''spacer''\<rparr>)
     else if wt = ''-message'' \<and> is_forfeit_message (join_with ''|'' args) then
       Inl (TimerOrForfeit (join_with ''|'' args))
     else if wt \<in> set ignored_display_types then Inr (Ignored \<lparr>ig_index = ei, ig_kind = wt\<rparr>)
     else Inl (UnknownProtocolEvent wt))"
  using assms unfolding parse_typed_line_def handled_types_def set_append Un_iff
  by (simp only: if_False de_Morgan_disj simp_thms)

lemma parse_line_handled:
  assumes "fst (split_payload payload) = ''init'' \<or> fst (split_payload payload) \<in> set handled_types"
  shows "parses ei (parse_battle_line payload ei room_id)"
  using parse_typed_line_handled [OF assms] rescue_parses
  unfolding parse_battle_line_def case_prod_beta by metis

lemma parse_line_unhandled:
  assumes "\<not> (fst (split_payload payload) = ''init'' \<or> fst (split_payload payload) \<in> set handled_types)"
  shows "parse_battle_line payload ei room_id =
    (let wt = fst (split_payload payload); message = join_with ''|'' (snd (split_payload payload)) in
     if payload = ''|'' then Inr (Ignored \<lparr>ig_index = ei, ig_kind = ''spacer''\<rparr>)
     else if wt = ''-message'' \<and> is_forfeit_message message then Inl (TimerOrForfeit message)
     else if wt \<in> set ignored_display_types then Inr (Ignored \<lparr>ig_index = ei, ig_kind = wt\<rparr>)
     else Inl (UnknownProtocolEvent wt))"
  unfolding parse_battle_line_def case_prod_beta parse_typed_line_unhandled [OF assms]
  by (simp add: rescue_def Let_def)

lemma parse_index:
  assumes "parse_battle_line payload ei room_id = Inr e"
  shows "event_index e = ei"
proof (cases "fst (split_payload payload) = ''init'' \<or> fst (split_payload payload) \<in> set handled_types")
  case True
  from parse_line_handled [OF True, of ei room_id] assms show ?thesis by simp
next
  case False
  from assms show ?thesis unfolding parse_line_unhandled [OF False] Let_def
    by (auto split: if_splits)
qed

lemma parse_errors:
  assumes "parse_battle_line payload ei room_id = Inl x"
  shows "x = MalformedProtocolMessage \<or> x = UnknownProtocolEvent (fst (split_payload payload))
    \<or> (\<exists>m. x = TimerOrForfeit m)"
proof (cases "fst (split_payload payload) = ''init'' \<or> fst (split_payload payload) \<in> set handled_types")
  case True
  from parse_line_handled [OF True, of ei room_id] assms show ?thesis by simp
next
  case False
  from assms show ?thesis unfolding parse_line_unhandled [OF False] Let_def
    by (auto split: if_splits)
qed

text \<open>The classifier and the parser agree: what is classified as a battle event is known.\<close>

lemma event_types_covered:
  "set battle_event_types \<subseteq> {''init''} \<union> set handled_types \<union> set ignored_display_types"
  by (simp add: battle_event_types_def handled_types_def metadata_types_def preview_types_def
      progress_types_def pokemon_identity_types_def health_types_def status_types_def boost_types_def
      field_types_def volatile_types_def item_ability_types_def form_tera_types_def
      evidence_types_def ignored_display_types_def)

lemma parse_classified:
  assumes event: "classify_room_payload payload = Battle_Event"
    and err: "parse_battle_line payload ei room_id = Inl x"
  shows "x = MalformedProtocolMessage \<or> (\<exists>m. x = TimerOrForfeit m)"
proof (cases "fst (split_payload payload) = ''init'' \<or> fst (split_payload payload) \<in> set handled_types")
  case True
  from parse_line_handled [OF True, of ei room_id] err show ?thesis by simp
next
  case False
  then have "payload = ''|'' \<or> fst (split_payload payload) \<in> set ignored_display_types"
    using classify_battle_event [OF event] event_types_covered by blast
  with err show ?thesis unfolding parse_line_unhandled [OF False] Let_def
    by (auto split: if_splits)
qed

end
