(* ===== verification/Request_Errors.thy ===== *)
theory Request_Errors
  imports Request_Reader
begin

text \<open>
  The exceptions of the request reader: a payload is malformed, or does not reconcile, or a
  \<open>ValueError\<close> of the standard library or of a submission's constructor escapes.
\<close>

lemma json_cases [raises_rules]:
  "MalformedProtocolMessage \<in> E \<Longrightarrow> raises E (require_object v)"
  "MalformedProtocolMessage \<in> E \<Longrightarrow> raises E (require_string_value v)"
  "MalformedProtocolMessage \<in> E \<Longrightarrow> raises E (require_string v)"
  "MalformedProtocolMessage \<in> E \<Longrightarrow> raises E (require_bool v)"
  "MalformedProtocolMessage \<in> E \<Longrightarrow> raises E (require_list v)"
  "MalformedProtocolMessage \<in> E \<Longrightarrow> raises E (require_count v)"
  "MalformedProtocolMessage \<in> E \<Longrightarrow> raises E (parse_disabled v)"
  by (cases v; simp add: require_object_def require_string_value_def require_string_def
      require_bool_def require_list_def require_count_def parse_disabled_def)+

lemma raises_optional_bool [raises_rules]:
  "MalformedProtocolMessage \<in> E \<Longrightarrow> raises E (optional_bool payload key dflt)"
  unfolding optional_bool_def by (intro raises_rules) simp_all

lemma raises_check_key [raises_rules]:
  "(\<And>v. raises E (check v)) \<Longrightarrow> raises E (check_key check payload key)"
  unfolding check_key_def by (intro raises_rules) simp_all

lemma raises_require_string_list [raises_rules]:
  "MalformedProtocolMessage \<in> E \<Longrightarrow> raises E (require_string_list v)"
  unfolding require_string_list_def by (intro raises_rules)

lemma raises_rqid [raises_rules]:
  "RequestStateReconciliationMismatch \<in> E \<Longrightarrow> raises E (require_rqid payload)"
  by (auto simp: require_rqid_def split: option.split json.split)

lemma raises_force_switch [raises_rules]:
  "MalformedProtocolMessage \<in> E \<Longrightarrow> raises E (parse_force_switch payload)"
  unfolding parse_force_switch_def by (intro raises_rules) simp_all

lemma raises_nickname [raises_rules]:
  "MalformedProtocolMessage \<in> E \<Longrightarrow> raises E (nickname_from_ident ident)"
  unfolding nickname_from_ident_def by (intro raises_rules) simp_all

lemma raises_request_pokemon [raises_rules]:
  "MalformedProtocolMessage \<in> E \<Longrightarrow> raises E (parse_request_pokemon side_id v)"
  unfolding parse_request_pokemon_def by (intro raises_rules) simp_all

lemma raises_parse_side [raises_rules]:
  "MalformedProtocolMessage \<in> E \<Longrightarrow> raises E (parse_side v)"
  unfolding parse_side_def by (intro raises_rules) simp_all

lemma raises_active_shape [raises_rules]:
  "MalformedProtocolMessage \<in> E \<Longrightarrow> raises E (validate_active_shape v)"
  unfolding validate_active_shape_def by (intro raises_rules) simp_all

lemma raises_request_move [raises_rules]:
  "MalformedProtocolMessage \<in> E \<Longrightarrow> raises E (parse_request_move v)"
  unfolding parse_request_move_def by (intro raises_rules) simp_all

lemma raises_active_request [raises_rules]:
  "MalformedProtocolMessage \<in> E \<Longrightarrow> raises E (parse_active_request payload)"
  unfolding parse_active_request_def by (intro raises_rules) simp_all

lemma raises_make_submission [raises_rules]:
  "ValueError \<in> E \<Longrightarrow> raises E (make_submission k p sl m t o')"
  using post_init_error by (auto simp: make_submission_def Let_def raises_def ebind_eq_Inl)

lemma raises_default [raises_rules]: "raises E default_submission"
  by (simp add: default_submission_def make_submission_def post_init_def Let_def)

lemma raises_explicit [raises_rules]: "ValueError \<in> E \<Longrightarrow> raises E (explicit k slot)"
  unfolding explicit_def by (intro raises_rules)

lemma raises_preview [raises_rules]:
  assumes "MalformedProtocolMessage \<in> E" "RequestStateReconciliationMismatch \<in> E" "ValueError \<in> E"
  shows "raises E (read_team_preview ident side_id pokemon data)"
proof (cases "get_or (JInt (int (length pokemon))) data ''maxChosenTeamSize''")
  case (JInt n)
  show ?thesis unfolding read_team_preview_def Let_def JInt json.case
    by (intro raises_rules) (simp_all add: assms)
qed (simp_all add: read_team_preview_def Let_def assms)

lemma raises_switching [raises_rules]:
  assumes "ValueError \<in> E"
  shows "raises E (read_revival ident side_id pokemon active_identity update)"
    "raises E (read_forced_switch ident side_id pokemon active_identity update)"
  unfolding read_revival_def read_forced_switch_def
  by (intro raises_rules; simp add: assms)+

lemma raises_moves [raises_rules]: "ValueError \<in> E \<Longrightarrow> raises E (move_submissions can_tera im)"
  unfolding move_submissions_def by (intro raises_rules) simp_all

lemma raises_normal [raises_rules]: "ValueError \<in> E \<Longrightarrow> raises E (normal_submissions ar pokemon)"
  unfolding normal_submissions_def Let_def by (intro raises_rules) simp_all

lemma raises_normal_move [raises_rules]:
  "MalformedProtocolMessage \<in> E \<Longrightarrow> ValueError \<in> E
    \<Longrightarrow> raises E (read_normal_move ident side_id pokemon active_identity data update)"
  unfolding read_normal_move_def by (intro raises_rules) simp_all

definition reader_errors :: "py_exc set" where
  "reader_errors = {MalformedProtocolMessage, RequestStateReconciliationMismatch, ValueError,
     RuntimeError ''text outside the model''}"

lemma raises_read_request_data:
  "raises reader_errors (read_request_data float_repr sha256 room v)"
  unfolding read_request_data_def dispatch_request_def Let_def
  by (intro raises_rules) (simp_all add: reader_errors_def)

lemma raises_read_request: "raises reader_errors (read_request float_repr sha256 room payload)"
proof -
  have "raises reader_errors (loads_checked payload)"
    using loads_checked_Inl by (auto simp: raises_def reader_errors_def)
  then show ?thesis unfolding read_request_def using raises_read_request_data
    by (intro raises_structure) simp_all
qed

end
