(* ===== verification/Schedule.thy ===== *)
theory Schedule
  imports Decision_Record
begin

text \<open>
  \<open>battlebelief_lab/evaluation\<close>: seed families, matchup keys and the side-balanced schedule.
  \<open>hex v\<close> is the hexadecimal SHA-256 of the canonical form of a document (the canonicalizer
  is a third-party package and may refuse a document); \<open>manifest_digest\<close> puts its prefix before it.
\<close>

type_synonym hex_fn = "json \<Rightarrow> py_exc + string"

definition manifest_digest :: "hex_fn \<Rightarrow> digest_fn" where
  "manifest_digest hex v = ebind (hex v) (\<lambda>h. Inr (''sha256:'' @ h))"

definition is_hex64 :: "string \<Rightarrow> bool" where
  "is_hex64 s \<longleftrightarrow> length s = 64 \<and> list_all is_hex_lower s"

section \<open>Seed families\<close>

definition seed_derivation_id :: string where
  "seed_derivation_id = ''sha256-canonical-fields-v1''"

datatype seed_namespace =
  Ns_Search | Ns_World | Ns_Policy | Ns_Simulator | Ns_Schedule | Ns_Side_Assignment

definition seed_namespace_value :: "seed_namespace \<Rightarrow> string" where
  "seed_namespace_value n = (case n of Ns_Search \<Rightarrow> ''search'' | Ns_World \<Rightarrow> ''world''
     | Ns_Policy \<Rightarrow> ''policy'' | Ns_Simulator \<Rightarrow> ''simulator'' | Ns_Schedule \<Rightarrow> ''schedule''
     | Ns_Side_Assignment \<Rightarrow> ''side_assignment'')"

definition validate_seed_inputs :: "string \<Rightarrow> string \<Rightarrow> string \<Rightarrow> int \<Rightarrow> py_exc + unit" where
  "validate_seed_inputs master_seed base_matchup_id side_assignment repetition_index =
     ebind (raise_if (\<not> is_hex64 master_seed) ValueError) (\<lambda>_.
     ebind (raise_if (\<not> is_digest_text base_matchup_id) ValueError) (\<lambda>_.
     ebind (raise_if (side_assignment \<notin> {''p1'', ''p2''}) ValueError) (\<lambda>_.
       raise_if (\<not> (0 \<le> repetition_index \<and> repetition_index \<le> max_safe_integer)) ValueError)))"

definition derive_seed ::
    "hex_fn \<Rightarrow> string \<Rightarrow> string \<Rightarrow> string \<Rightarrow> int \<Rightarrow> seed_namespace \<Rightarrow> py_exc + string" where
  "derive_seed hex master_seed base_matchup_id side_assignment repetition_index namespace =
     ebind (validate_seed_inputs master_seed base_matchup_id side_assignment repetition_index) (\<lambda>_.
       hex (JObject
         [(''derivation_id'', JString seed_derivation_id), (''master_seed'', JString master_seed),
          (''namespace'', JString (seed_namespace_value namespace)),
          (''base_matchup_id'', JString base_matchup_id),
          (''side_assignment'', JString side_assignment),
          (''repetition_index'', JInt repetition_index)]))"

record seed_family =
  sf_derivation_id :: string
  sf_search_seed :: string
  sf_world_seed :: string
  sf_policy_seed :: string
  sf_simulator_seed :: string
  sf_schedule_seed :: string
  sf_side_assignment_seed :: string

definition family_seeds :: "seed_family \<Rightarrow> string list" where
  "family_seeds f = [sf_search_seed f, sf_world_seed f, sf_policy_seed f, sf_simulator_seed f,
     sf_schedule_seed f, sf_side_assignment_seed f]"

definition check_seed_family :: "seed_family \<Rightarrow> py_exc + unit" where
  "check_seed_family f =
     ebind (raise_if (sf_derivation_id f \<noteq> seed_derivation_id) ValueError) (\<lambda>_.
     ebind (emap (\<lambda>s. raise_if (\<not> is_hex64 s) ValueError) (family_seeds f)) (\<lambda>_. Inr ()))"

definition seed_family_dict :: "seed_family \<Rightarrow> json" where
  "seed_family_dict f = JObject
     [(''derivation_id'', JString (sf_derivation_id f)), (''search_seed'', JString (sf_search_seed f)),
      (''world_seed'', JString (sf_world_seed f)), (''policy_seed'', JString (sf_policy_seed f)),
      (''simulator_seed'', JString (sf_simulator_seed f)),
      (''schedule_seed'', JString (sf_schedule_seed f)),
      (''side_assignment_seed'', JString (sf_side_assignment_seed f))]"

definition seed_family_digest :: "hex_fn \<Rightarrow> seed_family \<Rightarrow> py_exc + string" where
  "seed_family_digest hex f = manifest_digest hex (seed_family_dict f)"

definition derive_seed_family ::
    "hex_fn \<Rightarrow> string \<Rightarrow> string \<Rightarrow> string \<Rightarrow> int \<Rightarrow> py_exc + seed_family" where
  "derive_seed_family hex master_seed base_matchup_id side_assignment repetition_index =
     (let seed = derive_seed hex master_seed base_matchup_id side_assignment repetition_index in
      ebind (seed Ns_Search) (\<lambda>search. ebind (seed Ns_World) (\<lambda>world.
      ebind (seed Ns_Policy) (\<lambda>policy. ebind (seed Ns_Simulator) (\<lambda>simulator.
      ebind (seed Ns_Schedule) (\<lambda>schedule. ebind (seed Ns_Side_Assignment) (\<lambda>side.
      (let f = \<lparr>sf_derivation_id = seed_derivation_id, sf_search_seed = search,
                sf_world_seed = world, sf_policy_seed = policy, sf_simulator_seed = simulator,
                sf_schedule_seed = schedule, sf_side_assignment_seed = side\<rparr>
       in ebind (check_seed_family f) (\<lambda>_. Inr f)))))))))"

section \<open>Matchup keys\<close>

record base_matchup_key =
  bk_hero_team :: string
  bk_opponent_team :: string
  bk_opponent_archetype :: string
  bk_opponent_policy_checkpoint :: string
  bk_schedule_block :: string

definition check_matchup_key :: "base_matchup_key \<Rightarrow> py_exc + unit" where
  "check_matchup_key k =
     ebind (emap (\<lambda>s. raise_if (s = []) ValueError)
       [bk_hero_team k, bk_opponent_team k, bk_opponent_archetype k,
        bk_opponent_policy_checkpoint k, bk_schedule_block k]) (\<lambda>_. Inr ())"

definition matchup_key_dict :: "base_matchup_key \<Rightarrow> json" where
  "matchup_key_dict k = JObject
     [(''hero_team'', JString (bk_hero_team k)), (''opponent_team'', JString (bk_opponent_team k)),
      (''opponent_archetype'', JString (bk_opponent_archetype k)),
      (''opponent_policy_checkpoint'', JString (bk_opponent_policy_checkpoint k)),
      (''schedule_block'', JString (bk_schedule_block k))]"

definition base_matchup_id :: "hex_fn \<Rightarrow> base_matchup_key \<Rightarrow> py_exc + string" where
  "base_matchup_id hex k = manifest_digest hex (matchup_key_dict k)"

section \<open>Schedules\<close>

datatype side_assignment = Side_P1 | Side_P2

definition side_value :: "side_assignment \<Rightarrow> string" where
  "side_value s = (case s of Side_P1 \<Rightarrow> ''p1'' | Side_P2 \<Rightarrow> ''p2'')"

record schedule_row =
  sr_row_id :: string
  sr_base_matchup_id :: string
  sr_side_assignment :: side_assignment
  sr_schedule_block :: string
  sr_seed_family :: seed_family
  sr_repetition_index :: int

record schedule =
  sd_rows :: "schedule_row list"
  sd_digest :: string

definition derive_schedule_row_id ::
    "hex_fn \<Rightarrow> string \<Rightarrow> side_assignment \<Rightarrow> string \<Rightarrow> seed_family \<Rightarrow> int \<Rightarrow> py_exc + string" where
  "derive_schedule_row_id hex base s block family repetition = manifest_digest hex (JObject
     [(''base_matchup_id'', JString base), (''side_assignment'', JString (side_value s)),
      (''schedule_block'', JString block), (''seed_family'', seed_family_dict family),
      (''repetition_index'', JInt repetition)])"

definition check_schedule_row :: "hex_fn \<Rightarrow> schedule_row \<Rightarrow> py_exc + unit" where
  "check_schedule_row hex r =
     ebind (raise_if (\<not> is_digest_text (sr_row_id r)) ValueError) (\<lambda>_.
     ebind (raise_if (\<not> is_digest_text (sr_base_matchup_id r)) ValueError) (\<lambda>_.
     ebind (raise_if (sr_schedule_block r = []) ValueError) (\<lambda>_.
     ebind (raise_if (\<not> (0 \<le> sr_repetition_index r \<and> sr_repetition_index r \<le> max_safe_integer))
       ValueError) (\<lambda>_.
     ebind (derive_schedule_row_id hex (sr_base_matchup_id r) (sr_side_assignment r)
       (sr_schedule_block r) (sr_seed_family r) (sr_repetition_index r)) (\<lambda>expected.
       raise_if (sr_row_id r \<noteq> expected) ValueError)))))"

definition schedule_row_dict :: "schedule_row \<Rightarrow> json" where
  "schedule_row_dict r = JObject
     [(''row_id'', JString (sr_row_id r)), (''base_matchup_id'', JString (sr_base_matchup_id r)),
      (''side_assignment'', JString (side_value (sr_side_assignment r))),
      (''schedule_block'', JString (sr_schedule_block r)),
      (''seed_family'', seed_family_dict (sr_seed_family r)),
      (''repetition_index'', JInt (sr_repetition_index r))]"

definition row_order :: "schedule_row \<Rightarrow> string \<times> int" where
  "row_order r = (sr_base_matchup_id r, sr_repetition_index r)"

definition rows_of :: "string \<Rightarrow> schedule_row list \<Rightarrow> schedule_row list" where
  "rows_of base rows = filter (\<lambda>r. sr_base_matchup_id r = base) rows"

definition side_count :: "side_assignment \<Rightarrow> schedule_row list \<Rightarrow> int" where
  "side_count s rows = int (length (filter (\<lambda>r. sr_side_assignment r = s) rows))"

text \<open>One group of the rows of a matchup: repetitions from zero on, balanced sides.\<close>

definition check_group :: "schedule_row list \<Rightarrow> py_exc + unit" where
  "check_group rows =
     ebind (raise_if (sort (map sr_repetition_index rows) \<noteq> [0..int (length rows) - 1]) ValueError) (\<lambda>_.
       raise_if (1 < \<bar>side_count Side_P1 rows - side_count Side_P2 rows\<bar>) ValueError)"

definition check_schedule :: "hex_fn \<Rightarrow> schedule \<Rightarrow> py_exc + unit" where
  "check_schedule hex s =
     (let rows = sd_rows s in
      ebind (raise_if (rows = []) ValueError) (\<lambda>_.
      ebind (raise_if (\<not> distinct (map sr_row_id rows)) ValueError) (\<lambda>_.
      ebind (raise_if (rows \<noteq> sort_key row_order rows) ValueError) (\<lambda>_.
      ebind (raise_if (\<not> is_digest_text (sd_digest s)) ValueError) (\<lambda>_.
      ebind (manifest_digest hex (JList (map schedule_row_dict rows))) (\<lambda>expected.
      ebind (raise_if (sd_digest s \<noteq> expected) ValueError) (\<lambda>_.
      ebind (emap (\<lambda>base. check_group (rows_of base rows))
        (map fst (dict_of (map (\<lambda>r. (sr_base_matchup_id r, ())) rows)))) (\<lambda>_. Inr ()))))))))"

text \<open>\<open>digest()[0] & 1\<close>: the parity of the first byte is that of the second hexadecimal digit.\<close>

definition initial_side :: "hex_fn \<Rightarrow> string \<Rightarrow> string \<Rightarrow> py_exc + int" where
  "initial_side hex registration_digest base =
     ebind (hex (JObject [(''registration_digest'', JString registration_digest),
         (''base_matchup_id'', JString base)])) (\<lambda>h.
       of_option IndexError
         (if 2 \<le> length h then map_option (\<lambda>d. int d mod 2) (hex_value (h ! 1)) else None))"

definition side_at :: "int \<Rightarrow> int \<Rightarrow> side_assignment" where
  "side_at initial repetition = (if (initial + repetition) mod 2 = 0 then Side_P1 else Side_P2)"

definition build_row ::
    "hex_fn \<Rightarrow> string \<Rightarrow> string \<Rightarrow> string \<Rightarrow> int \<Rightarrow> int \<Rightarrow> py_exc + schedule_row" where
  "build_row hex master_seed base block initial repetition =
     (let side = side_at initial repetition in
      ebind (derive_seed_family hex master_seed base (side_value side) repetition) (\<lambda>family.
      ebind (derive_schedule_row_id hex base side block family repetition) (\<lambda>row_id.
      (let r = \<lparr>sr_row_id = row_id, sr_base_matchup_id = base, sr_side_assignment = side,
                sr_schedule_block = block, sr_seed_family = family,
                sr_repetition_index = repetition\<rparr>
       in ebind (check_schedule_row hex r) (\<lambda>_. Inr r)))))"

definition build_rows ::
    "hex_fn \<Rightarrow> string \<Rightarrow> string \<Rightarrow> int \<Rightarrow> string \<times> base_matchup_key \<Rightarrow> py_exc + schedule_row list" where
  "build_rows hex registration_digest master_seed repetitions key =
     (case key of (base, k) \<Rightarrow>
        ebind (initial_side hex registration_digest base) (\<lambda>initial.
          emap (build_row hex master_seed base (bk_schedule_block k) initial) [0..repetitions - 1]))"

text \<open>
  \<open>sorted(set(matchup_keys), key=base_matchup_id)\<close>. Two keys with the same id would be a
  collision of digests; they are kept in the order of first occurrence here.
\<close>

definition ordered_keys ::
    "hex_fn \<Rightarrow> base_matchup_key list \<Rightarrow> py_exc + (string \<times> base_matchup_key) list" where
  "ordered_keys hex keys =
     ebind (emap (\<lambda>k. ebind (base_matchup_id hex k) (\<lambda>i. Inr (i, k))) (rev (remdups (rev keys))))
       (\<lambda>pairs. Inr (sort_key fst pairs))"

definition build_schedule ::
    "hex_fn \<Rightarrow> string \<Rightarrow> string \<Rightarrow> base_matchup_key list \<Rightarrow> int \<Rightarrow> bool \<Rightarrow> py_exc + schedule" where
  "build_schedule hex registration_digest master_seed matchup_keys repetitions require_exact_balance =
     ebind (raise_if (\<not> (1 \<le> repetitions \<and> repetitions \<le> max_safe_integer)) ValueError) (\<lambda>_.
     ebind (raise_if (require_exact_balance \<and> repetitions mod 2 \<noteq> 0) ValueError) (\<lambda>_.
     ebind (raise_if (\<not> is_digest_text registration_digest) ValueError) (\<lambda>_.
     ebind (ordered_keys hex matchup_keys) (\<lambda>ordered.
     ebind (raise_if (ordered = []) ValueError) (\<lambda>_.
     ebind (emap (build_rows hex registration_digest master_seed repetitions) ordered) (\<lambda>rowss.
     (let rows = concat rowss in
      ebind (manifest_digest hex (JList (map schedule_row_dict rows))) (\<lambda>digest.
      (let s = \<lparr>sd_rows = rows, sd_digest = digest\<rparr>
       in ebind (check_schedule hex s) (\<lambda>_. Inr s))))))))))"

section \<open>What a schedule guarantees\<close>

text \<open>
  Specification. The rows of a matchup: as many as there are repetitions, numbered from zero,
  of the block of the key, and from one repetition to the next the sides change.
\<close>

definition matchup_rows_ok :: "base_matchup_key \<Rightarrow> int \<Rightarrow> schedule_row list \<Rightarrow> bool" where
  "matchup_rows_ok k n rows \<longleftrightarrow> map sr_repetition_index rows = [0..n - 1]
     \<and> (\<forall>r\<in>set rows. sr_schedule_block r = bk_schedule_block k)
     \<and> (\<exists>initial. \<forall>r\<in>set rows. sr_side_assignment r = side_at initial (sr_repetition_index r))"

lemma build_row_fields:
  assumes "build_row hex m base block i rep = Inr r"
  shows "sr_base_matchup_id r = base" "sr_schedule_block r = block" "sr_repetition_index r = rep"
    "sr_side_assignment r = side_at i rep"
  using assms by (auto simp: build_row_def Let_def ebind_eq_Inr)

lemma emap_Inr_ex:
  "emap f xs = Inr ys \<Longrightarrow> x \<in> set xs \<Longrightarrow> \<exists>y\<in>set ys. f x = Inr y"
  by (induction xs arbitrary: ys) (auto simp: ebind_eq_Inr)

lemma emap_total:
  assumes "\<And>x. x \<in> set xs \<Longrightarrow> \<exists>y. f x = Inr y"
  shows "\<exists>ys. emap f xs = Inr ys"
  using assms
proof (induction xs)
  case (Cons x xs)
  then obtain y ys where "f x = Inr y" "emap f xs = Inr ys" by fastforce
  then show ?case by simp
qed simp

lemma emap_map_eq:
  "emap f xs = Inr ys \<Longrightarrow> (\<And>x y. f x = Inr y \<Longrightarrow> g y = x) \<Longrightarrow> map g ys = xs"
  by (induction xs arbitrary: ys) (auto simp: ebind_eq_Inr)

lemma build_rows_ok:
  assumes "build_rows hex reg m n (base, k) = Inr rows"
  shows "matchup_rows_ok k n rows" "\<forall>r\<in>set rows. sr_base_matchup_id r = base"
proof -
  obtain i where e: "emap (build_row hex m base (bk_schedule_block k) i) [0..n - 1] = Inr rows"
    using assms by (auto simp: build_rows_def ebind_eq_Inr)
  have "\<exists>x\<in>set [0..n - 1]. build_row hex m base (bk_schedule_block k) i x = Inr r"
    if "r \<in> set rows" for r by (rule emap_Inr_in_set [OF e that])
  then have "\<forall>r\<in>set rows. sr_base_matchup_id r = base \<and> sr_schedule_block r = bk_schedule_block k
      \<and> sr_side_assignment r = side_at i (sr_repetition_index r)"
    using build_row_fields by metis
  moreover have "map sr_repetition_index rows = [0..n - 1]"
    using e by (rule emap_map_eq) (rule build_row_fields(3))
  ultimately show "matchup_rows_ok k n rows" "\<forall>r\<in>set rows. sr_base_matchup_id r = base"
    by (auto simp: matchup_rows_ok_def)
qed

text \<open>Alternation gives balance.\<close>

lemma side_at_other: "side_at i (x + 1) = Side_P1 \<longleftrightarrow> side_at i x = Side_P2"
  by (auto simp: side_at_def) presburger+

lemma balance_upto:
  assumes "0 \<le> n"
  shows "int (length (filter (\<lambda>x. side_at i x = Side_P1) [0..n - 1]))
      - int (length (filter (\<lambda>x. side_at i x = Side_P2) [0..n - 1]))
    = (if n mod 2 = 0 then 0 else if side_at i 0 = Side_P1 then 1 else -1)"
  using assms
proof (induction n rule: int_ge_induct)
  case base
  then show ?case by simp
next
  case (step n)
  then have split: "[0..n + 1 - 1] = [0..n - 1] @ [n]" by (simp add: upto_rec2)
  have "side_at i n = (if n mod 2 = 0 then side_at i 0 else
      (if side_at i 0 = Side_P1 then Side_P2 else Side_P1))"
    unfolding side_at_def by (cases "n mod 2 = 0"; cases "i mod 2 = 0"; simp) presburger+
  then show ?case unfolding split using step
    by (cases "side_at i 0"; cases "n mod 2 = 0") (auto, presburger+)
qed

lemma length_filter_map: "length (filter p (map f xs)) = length (filter (\<lambda>x. p (f x)) xs)"
  by (induction xs) auto

lemma matchup_balance:
  assumes ok: "matchup_rows_ok k n rows" and n: "0 \<le> n"
  shows "\<bar>side_count Side_P1 rows - side_count Side_P2 rows\<bar> = n mod 2"
proof -
  obtain i where i: "\<forall>r\<in>set rows. sr_side_assignment r = side_at i (sr_repetition_index r)"
    using ok by (auto simp: matchup_rows_ok_def)
  have "side_count s rows = int (length (filter (\<lambda>x. side_at i x = s) [0..n - 1]))" for s
  proof -
    have "filter (\<lambda>r. sr_side_assignment r = s) rows
        = filter (\<lambda>r. side_at i (sr_repetition_index r) = s) rows"
      using i by (intro filter_cong) auto
    then show ?thesis using ok length_filter_map [of "\<lambda>x. side_at i x = s" sr_repetition_index rows]
      by (simp add: side_count_def matchup_rows_ok_def)
  qed
  with balance_upto [OF n, of i] have "side_count Side_P1 rows - side_count Side_P2 rows
    = (if n mod 2 = 0 then 0 else if side_at i 0 = Side_P1 then 1 else -1)" by simp
  then show ?thesis by auto
qed


lemma build_schedule_Inr:
  assumes "build_schedule hex reg m keys n exact = Inr s"
  shows "\<exists>ordered rowss. ordered_keys hex keys = Inr ordered \<and> ordered \<noteq> []
    \<and> emap (build_rows hex reg m n) ordered = Inr rowss \<and> sd_rows s = concat rowss
    \<and> check_schedule hex s = Inr () \<and> 1 \<le> n \<and> (exact \<longrightarrow> n mod 2 = 0)"
  using assms by (auto simp: build_schedule_def Let_def ebind_eq_Inr raise_if_eq_Inr)

lemma dict_of_keys: "fst ` set (dict_of kvs) = fst ` set kvs"
proof -
  have "dom (map_of (dict_of kvs)) = dom (map_of (rev kvs))" by (simp add: map_of_dict_of)
  then show ?thesis by (simp add: dom_map_of_conv_image_fst)
qed

lemma check_schedule_group:
  assumes "check_schedule hex s = Inr ()" "r \<in> set (sd_rows s)"
  shows "distinct (map sr_repetition_index (rows_of (sr_base_matchup_id r) (sd_rows s)))"
proof -
  let ?bases = "map fst (dict_of (map (\<lambda>r. (sr_base_matchup_id r, ())) (sd_rows s)))"
  from assms(1) have "\<exists>us. emap (\<lambda>base. check_group (rows_of base (sd_rows s))) ?bases = Inr us"
    by (auto simp: check_schedule_def Let_def ebind_eq_Inr)
  then obtain us where "emap (\<lambda>base. check_group (rows_of base (sd_rows s))) ?bases = Inr us" ..
  note us = this
  have "sr_base_matchup_id r \<in> fst ` set (map (\<lambda>r. (sr_base_matchup_id r, ())) (sd_rows s))"
    using assms(2) by force
  then have b: "sr_base_matchup_id r \<in> set ?bases" unfolding set_map dict_of_keys .
  from emap_Inr_ex [OF us b] have "sort (map sr_repetition_index (rows_of (sr_base_matchup_id r) (sd_rows s)))
      = [0..int (length (rows_of (sr_base_matchup_id r) (sd_rows s))) - 1]"
    by (auto simp: check_group_def ebind_eq_Inr raise_if_eq_Inr)
  then show ?thesis by (metis distinct_sort distinct_upto)
qed

lemma rows_of_concat: "rows_of base (concat rowss) = concat (map (rows_of base) rowss)"
  by (induction rowss) (simp_all add: rows_of_def)

lemma rows_of_all: "\<forall>r\<in>set rows. sr_base_matchup_id r = b \<Longrightarrow>
    rows_of base rows = (if b = base then rows else [])"
  by (auto simp: rows_of_def)

text \<open>The rows of a base id are those of its keys; a key has its row of repetition zero.\<close>

lemma rows_of_built:
  assumes "list_all2 (\<lambda>p rows. build_rows hex reg m n p = Inr rows) ordered rowss"
  shows "rows_of base (concat rowss) =
    concat (map snd (filter (\<lambda>(p, rows). fst p = base) (zip ordered rowss)))"
  using assms
proof (induction rule: list_all2_induct)
  case Nil
  then show ?case by (simp add: rows_of_def)
next
  case (Cons p ps rows rowss)
  obtain b k where p: "p = (b, k)" by (cases p)
  with Cons(1) have "\<forall>r\<in>set rows. sr_base_matchup_id r = b" using build_rows_ok(2) by blast
  from rows_of_all [OF this] Cons.IH p show ?case by (simp add: rows_of_def)
qed

lemma distinct_bases:
  assumes built: "list_all2 (\<lambda>p rows. build_rows hex reg m n p = Inr rows) ordered rowss"
    and n: "1 \<le> n"
    and uniq: "\<forall>r\<in>set (concat rowss). distinct (map sr_repetition_index
        (rows_of (sr_base_matchup_id r) (concat rowss)))"
  shows "distinct (map fst ordered)"
  using built uniq
proof (induction rule: list_all2_induct)
  case Nil
  then show ?case by simp
next
  case (Cons p ps rows rowss)
  obtain b k where p: "p = (b, k)" by (cases p)
  have zero: "\<exists>r\<in>set rs. sr_base_matchup_id r = fst q \<and> sr_repetition_index r = 0"
    if "build_rows hex reg m n q = Inr rs" for q rs
  proof -
    obtain c j where q: "q = (c, j)" by (cases q)
    have "map sr_repetition_index rs = [0..n - 1]" "\<forall>r\<in>set rs. sr_base_matchup_id r = c"
      using build_rows_ok [OF that [unfolded q]] by (auto simp: matchup_rows_ok_def)
    moreover have "0 \<in> set [0..n - 1]" using n by simp
    ultimately have "0 \<in> sr_repetition_index ` set rs" by (metis set_map)
    then show ?thesis using \<open>\<forall>r\<in>set rs. sr_base_matchup_id r = c\<close> q by auto
  qed
  from zero [OF Cons(1)] obtain r where r: "r \<in> set rows" "sr_base_matchup_id r = b"
    "sr_repetition_index r = 0" using p by auto
  have uniq_b: "distinct (map sr_repetition_index (rows_of b rows @ rows_of b (concat rowss)))"
    using Cons.prems r by (auto simp: rows_of_def)
  have fresh: "b \<notin> fst ` set ps"
  proof
    assume "b \<in> fst ` set ps"
    then obtain q where "q \<in> set ps" "fst q = b" by auto
    then obtain rs where rs: "rs \<in> set rowss" "build_rows hex reg m n q = Inr rs"
      using emap_Inr_ex [OF Cons(2) [folded emap_eq_Inr] \<open>q \<in> set ps\<close>] by blast
    from zero [OF rs(2)] obtain r' where "r' \<in> set rs" "sr_base_matchup_id r' = b"
      "sr_repetition_index r' = 0" using \<open>fst q = b\<close> by auto
    then have "0 \<in> sr_repetition_index ` set (rows_of b (concat rowss))"
      using rs(1) by (force simp: rows_of_def)
    moreover have "0 \<in> sr_repetition_index ` set (rows_of b rows)"
      using r by (force simp: rows_of_def)
    ultimately show False using uniq_b by (auto simp: distinct_append)
  qed
  have "\<forall>r\<in>set (concat rowss). distinct (map sr_repetition_index
        (rows_of (sr_base_matchup_id r) (concat rowss)))"
    using Cons.prems by (auto simp: rows_of_def)
  with Cons.IH fresh p show ?case by simp
qed

lemma ordered_keys_Inr:
  assumes "ordered_keys hex keys = Inr ordered"
  shows "set ordered = {(i, k). k \<in> set keys \<and> base_matchup_id hex k = Inr i}"
    "sorted (map fst ordered)" "\<forall>k\<in>set keys. \<exists>i. base_matchup_id hex k = Inr i"
proof -
  obtain pairs where e: "emap (\<lambda>k. ebind (base_matchup_id hex k) (\<lambda>i. Inr (i, k)))
      (rev (remdups (rev keys))) = Inr pairs" and o': "ordered = sort_key fst pairs"
    using assms by (auto simp: ordered_keys_def ebind_eq_Inr)
  have fwd: "snd p \<in> set keys \<and> base_matchup_id hex (snd p) = Inr (fst p)" if "p \<in> set pairs" for p
    using emap_Inr_in_set [OF e that] by (auto simp: ebind_eq_Inr)
  have bwd: "\<exists>p\<in>set pairs. base_matchup_id hex k = Inr (fst p) \<and> snd p = k" if k: "k \<in> set keys" for k
  proof -
    have "k \<in> set (rev (remdups (rev keys)))" using k by simp
    from emap_Inr_ex [OF e this] show ?thesis by (force simp: ebind_eq_Inr)
  qed
  show "set ordered = {(i, k). k \<in> set keys \<and> base_matchup_id hex k = Inr i}"
    using fwd bwd o' by force
  show "sorted (map fst ordered)" by (simp add: o')
  show "\<forall>k\<in>set keys. \<exists>i. base_matchup_id hex k = Inr i" using bwd by blast
qed

lemma schedule_no_collision:
  assumes "build_schedule hex reg m keys n exact = Inr s"
    and "ordered_keys hex keys = Inr ordered"
  shows "distinct (map fst ordered)"
proof -
  obtain rowss where e: "emap (build_rows hex reg m n) ordered = Inr rowss"
    and rows: "sd_rows s = concat rowss" and c: "check_schedule hex s = Inr ()" and n: "1 \<le> n"
    using build_schedule_Inr [OF assms(1)] assms(2) by auto
  show ?thesis
    by (rule distinct_bases [OF e [unfolded emap_eq_Inr] n])
      (use check_schedule_group [OF c] rows in simp)
qed

lemma filter_single:
  "distinct (map fst (map fst zs)) \<Longrightarrow> ((b, k), x) \<in> set zs \<Longrightarrow>
   filter (\<lambda>(p, rows). fst p = b) zs = [((b, k), x)]"
  by (induction zs) (auto simp: image_iff filter_empty_conv)

lemma built_group:
  assumes built: "list_all2 (\<lambda>p rows. build_rows hex reg m n p = Inr rows) ordered rowss"
    and d: "distinct (map fst ordered)" and mem: "(base, k) \<in> set ordered"
  shows "matchup_rows_ok k n (rows_of base (concat rowss))"
proof -
  obtain i where i: "i < length ordered" "ordered ! i = (base, k)"
    using mem unfolding in_set_conv_nth by blast
  have len: "length rowss = length ordered" using list_all2_lengthD [OF built] by simp
  have d': "distinct (map fst (map fst (zip ordered rowss)))" using len d by simp
  have "((base, k), rowss ! i) \<in> set (zip ordered rowss)"
    using i len nth_zip [of i ordered rowss] nth_mem [of i "zip ordered rowss"] by simp
  from filter_single [OF d' this] have "rows_of base (concat rowss) = rowss ! i"
    unfolding rows_of_built [OF built] by simp
  moreover have "build_rows hex reg m n (base, k) = Inr (rowss ! i)"
    using list_all2_nthD [OF built i(1)] i(2) by simp
  ultimately show ?thesis using build_rows_ok(1) by simp
qed

lemma schedule_rows:
  assumes run: "build_schedule hex reg m keys n exact = Inr s" and k: "k \<in> set keys"
  shows "\<exists>base. base_matchup_id hex k = Inr base \<and> matchup_rows_ok k n (rows_of base (sd_rows s))
    \<and> \<bar>side_count Side_P1 (rows_of base (sd_rows s)) - side_count Side_P2 (rows_of base (sd_rows s))\<bar>
      = n mod 2"
proof -
  obtain ordered rowss where o': "ordered_keys hex keys = Inr ordered"
    and e: "emap (build_rows hex reg m n) ordered = Inr rowss"
    and rows: "sd_rows s = concat rowss" and n: "1 \<le> n"
    using build_schedule_Inr [OF run] by auto
  obtain base where base: "base_matchup_id hex k = Inr base" "(base, k) \<in> set ordered"
    using ordered_keys_Inr [OF o'] k by fastforce
  from built_group [OF e [unfolded emap_eq_Inr] schedule_no_collision [OF run o'] base(2)]
  have ok: "matchup_rows_ok k n (rows_of base (sd_rows s))" by (simp add: rows)
  then have "\<bar>side_count Side_P1 (rows_of base (sd_rows s))
      - side_count Side_P2 (rows_of base (sd_rows s))\<bar> = n mod 2"
    using matchup_balance [OF ok] n by simp
  with ok base(1) show ?thesis by blast
qed

text \<open>The schedule depends on the set of the keys only.\<close>

lemma schedule_order_independent:
  assumes run: "build_schedule hex reg m keys n exact = Inr s" and same: "set keys' = set keys"
  shows "build_schedule hex reg m keys' n exact = Inr s"
proof -
  obtain ordered where o': "ordered_keys hex keys = Inr ordered"
    using build_schedule_Inr [OF run] by auto
  note facts = ordered_keys_Inr [OF o']
  have each: "\<exists>p. ebind (base_matchup_id hex k) (\<lambda>i. Inr (i, k)) = Inr p"
    if "k \<in> set (rev (remdups (rev keys')))" for k
    using facts(3) same that by fastforce
  from emap_total [OF this] obtain pairs' where
    "emap (\<lambda>k. ebind (base_matchup_id hex k) (\<lambda>i. Inr (i, k)))
      (rev (remdups (rev keys'))) = Inr pairs'" ..
  then obtain ordered' where o2: "ordered_keys hex keys' = Inr ordered'"
    by (simp add: ordered_keys_def)
  note facts2 = ordered_keys_Inr [OF o2]
  have sets: "set ordered = set ordered'" using facts(1) facts2(1) same by simp
  have d: "distinct (map fst ordered)" by (rule schedule_no_collision [OF run o'])
  have inj: "inj_on fst (set ordered)" using d by (simp add: distinct_map)
  have "distinct ordered'"
  proof -
    obtain pairs where e: "emap (\<lambda>k. ebind (base_matchup_id hex k) (\<lambda>i. Inr (i, k)))
        (rev (remdups (rev keys'))) = Inr pairs" and p: "ordered' = sort_key fst pairs"
      using o2 by (auto simp: ordered_keys_def ebind_eq_Inr)
    have "map snd pairs = rev (remdups (rev keys'))"
      by (rule emap_map_eq [OF e]) (auto simp: ebind_eq_Inr)
    then have "distinct (map snd pairs)" by simp
    then show ?thesis unfolding p by (simp add: distinct_map)
  qed
  then have "distinct (map fst ordered')" using inj sets by (simp add: distinct_map)
  then have "ordered = ordered'"
    using map_sorted_distinct_set_unique [of fst ordered ordered'] inj sets facts(2) facts2(2) d by simp
  with o' o2 have "ordered_keys hex keys' = ordered_keys hex keys" by simp
  then show ?thesis using run unfolding build_schedule_def by simp
qed

section \<open>A schedule is built unless digests collide\<close>

definition total_hex :: "hex_fn \<Rightarrow> bool" where
  "total_hex hex \<longleftrightarrow> (\<forall>v. \<exists>h. hex v = Inr h \<and> is_hex64 h)"

lemma total_hexE:
  assumes "total_hex hex"
  obtains h where "hex v = Inr h" "is_hex64 h"
  using assms by (auto simp: total_hex_def)

lemma manifest_digest_total:
  assumes "total_hex hex"
  shows "\<exists>d. manifest_digest hex v = Inr d \<and> is_digest_text d"
proof -
  obtain h where "hex v = Inr h" "is_hex64 h" using assms by (rule total_hexE)
  then show ?thesis by (simp add: manifest_digest_def is_hex64_def is_digest_text_def starts_with_def)
qed

lemma derive_seed_total:
  assumes "total_hex hex" "validate_seed_inputs m base s rep = Inr ()"
  shows "\<exists>h. derive_seed hex m base s rep namespace = Inr h \<and> is_hex64 h"
  using assms(2) unfolding derive_seed_def by (simp add: assms(1) [unfolded total_hex_def])

lemma derive_seed_family_total:
  assumes "total_hex hex" "validate_seed_inputs m base s rep = Inr ()"
  shows "\<exists>f. derive_seed_family hex m base s rep = Inr f"
proof -
  have "\<forall>namespace. \<exists>h. derive_seed hex m base s rep namespace = Inr h \<and> is_hex64 h"
    using derive_seed_total [OF assms] by blast
  then obtain g where "\<forall>namespace. derive_seed hex m base s rep namespace = Inr (g namespace)
      \<and> is_hex64 (g namespace)" by metis
  then show ?thesis
    by (simp add: derive_seed_family_def Let_def check_seed_family_def family_seeds_def)
qed

lemma build_row_total:
  assumes "total_hex hex" "is_hex64 m" "is_digest_text base" "block \<noteq> []"
    and "0 \<le> rep" "rep \<le> max_safe_integer"
  shows "\<exists>r. build_row hex m base block i rep = Inr r"
proof -
  have "validate_seed_inputs m base (side_value (side_at i rep)) rep = Inr ()"
    using assms by (simp add: validate_seed_inputs_def side_value_def split: side_assignment.split)
  from derive_seed_family_total [OF assms(1) this] obtain f where
    f: "derive_seed_family hex m base (side_value (side_at i rep)) rep = Inr f" ..
  obtain d where "derive_schedule_row_id hex base (side_at i rep) block f rep = Inr d"
      "is_digest_text d"
    unfolding derive_schedule_row_id_def using manifest_digest_total [OF assms(1)] by blast
  with f assms show ?thesis by (simp add: build_row_def Let_def check_schedule_row_def)
qed

lemma hex_value_lower: "is_hex_lower c \<Longrightarrow> \<exists>d. hex_value c = Some d"
  by (auto simp: is_hex_lower_def hex_value_def)

lemma build_rows_total:
  assumes "total_hex hex" "is_hex64 m" "is_digest_text base" "bk_schedule_block k \<noteq> []"
    and "n \<le> max_safe_integer"
  shows "\<exists>rows. build_rows hex reg m n (base, k) = Inr rows"
proof -
  obtain h where h: "hex (JObject [(''registration_digest'', JString reg),
      (''base_matchup_id'', JString base)]) = Inr h" "is_hex64 h"
    using assms(1) by (rule total_hexE)
  then have "2 \<le> length h" "is_hex_lower (h ! 1)" by (auto simp: is_hex64_def list_all_length)
  with hex_value_lower [of "h ! 1"] obtain i where i: "initial_side hex reg base = Inr i"
    using h(1) by (auto simp: initial_side_def)
  have "\<exists>rows. emap (build_row hex m base (bk_schedule_block k) i) [0..n - 1] = Inr rows"
    by (rule emap_total, rule build_row_total) (use assms in auto)
  with i show ?thesis by (simp add: build_rows_def)
qed

lemma ordered_keys_total:
  assumes "total_hex hex"
  shows "\<exists>ordered. ordered_keys hex keys = Inr ordered"
proof -
  have each: "\<exists>p. ebind (base_matchup_id hex k) (\<lambda>i. Inr (i, k)) = Inr p" for k
    using manifest_digest_total [OF assms, of "matchup_key_dict k"] by (auto simp: base_matchup_id_def)
  from emap_total [where f = "\<lambda>k. ebind (base_matchup_id hex k) (\<lambda>i. Inr (i, k))", OF this,
      where xs = "rev (remdups (rev keys))"] show ?thesis
    by (auto simp: ordered_keys_def)
qed

text \<open>Rows built in the order of the base ids are in the canonical order.\<close>

lemma sorted_upto: "sorted [a..b]"
  by (induction a b rule: upto.induct) (subst upto.simps, simp)

lemma sorted_map_Pair: "sorted (map (Pair b) xs) \<longleftrightarrow> sorted (xs :: int list)"
  by (induction xs) (auto simp: less_eq_prod_def)

lemma rows_sorted:
  assumes "list_all2 (\<lambda>p rows. build_rows hex reg m n p = Inr rows) ordered rowss"
    and "sorted (map fst ordered)" "distinct (map fst ordered)"
  shows "sorted (map row_order (concat rowss))"
  using assms
proof (induction rule: list_all2_induct)
  case Nil
  then show ?case by simp
next
  case (Cons p ps rows rowss)
  obtain b k where p: "p = (b, k)" by (cases p)
  note ok = build_rows_ok [OF Cons(1) [unfolded p]]
  have "map row_order rows = map (Pair b) (map sr_repetition_index rows)"
    using ok(2) by (simp add: row_order_def)
  then have "sorted (map row_order rows)"
    using ok(1) sorted_upto [of 0 "n - 1"] unfolding matchup_rows_ok_def
    by (simp only: sorted_map_Pair)
  moreover have "row_order r \<le> row_order r'" if r: "r \<in> set rows" and r': "r' \<in> set (concat rowss)" for r r'
  proof -
    obtain rs where rs: "rs \<in> set rowss" "r' \<in> set rs" using r' by auto
    then obtain q where q: "q \<in> set ps" "build_rows hex reg m n q = Inr rs"
      using emap_Inr_in_set [OF Cons(2) [folded emap_eq_Inr] rs(1)] by auto
    have "sr_base_matchup_id r' = fst q" using build_rows_ok(2) q(2) rs(2) by (metis prod.collapse)
    moreover have "b < fst q" using Cons.prems q(1) p by force
    ultimately show ?thesis using ok(2) r by (simp add: row_order_def less_eq_prod_def)
  qed
  ultimately show ?case using Cons.IH Cons.prems by (auto simp: sorted_append)
qed

lemma matchup_rows_pass:
  assumes ok: "matchup_rows_ok k n rows" and n: "0 \<le> n"
  shows "check_group rows = Inr ()"
proof -
  have "map sr_repetition_index rows = [0..n - 1]" using ok by (simp add: matchup_rows_ok_def)
  moreover from this have "length rows = nat n" by (metis length_map length_upto diff_add_cancel diff_zero)
  moreover have "n mod 2 \<le> 1" by presburger
  ultimately show ?thesis
    using matchup_balance [OF ok n] n by (simp add: check_group_def sort_key_id_if_sorted sorted_upto)
qed

lemma check_schedule_pass:
  assumes "rows \<noteq> []" "rows = sort_key row_order rows"
    and "\<exists>us. emap (\<lambda>base. check_group (rows_of base rows))
      (map fst (dict_of (map (\<lambda>r. (sr_base_matchup_id r, ())) rows))) = Inr us"
    and "distinct (map sr_row_id rows)"
    and "manifest_digest hex (JList (map schedule_row_dict rows)) = Inr dg" "is_digest_text dg"
  shows "check_schedule hex \<lparr>sd_rows = rows, sd_digest = dg\<rparr> = Inr ()"
  using assms by (auto simp: check_schedule_def Let_def)

lemma schedule_total:
  assumes hex: "total_hex hex" and n: "1 \<le> n" "n \<le> max_safe_integer"
    and even: "exact \<longrightarrow> n mod 2 = 0" and reg: "is_digest_text reg" and m: "is_hex64 m"
    and keys: "keys \<noteq> []" "\<forall>k\<in>set keys. check_matchup_key k = Inr ()"
  shows "\<exists>ordered rowss. ordered_keys hex keys = Inr ordered
    \<and> emap (build_rows hex reg m n) ordered = Inr rowss
    \<and> (distinct (map fst ordered) \<longrightarrow> distinct (map sr_row_id (concat rowss)) \<longrightarrow>
        (\<exists>d. build_schedule hex reg m keys n exact = Inr \<lparr>sd_rows = concat rowss, sd_digest = d\<rparr>))"
proof -
  obtain ordered where o': "ordered_keys hex keys = Inr ordered"
    using ordered_keys_total [OF hex] by blast
  note facts = ordered_keys_Inr [OF o']
  have each: "\<exists>rows. build_rows hex reg m n p = Inr rows" if p: "p \<in> set ordered" for p
  proof -
    obtain base k where p': "p = (base, k)" "k \<in> set keys" "base_matchup_id hex k = Inr base"
      using p facts(1) by auto
    then have "is_digest_text base"
      using manifest_digest_total [OF hex, of "matchup_key_dict k"] by (auto simp: base_matchup_id_def)
    moreover have "bk_schedule_block k \<noteq> []"
      using keys(2) p'(2) by (auto simp: check_matchup_key_def ebind_eq_Inr raise_if_eq_Inr)
    ultimately show ?thesis unfolding p'(1) by (rule build_rows_total [OF hex m _ _ n(2)])
  qed
  from emap_total [OF this] obtain rowss where e: "emap (build_rows hex reg m n) ordered = Inr rowss" ..
  note built = e [unfolded emap_eq_Inr]
  have "ordered \<noteq> []" using facts(1) facts(3) keys(1) by (cases keys) auto
  have "\<exists>d. build_schedule hex reg m keys n exact = Inr \<lparr>sd_rows = concat rowss, sd_digest = d\<rparr>"
    if d: "distinct (map fst ordered)" "distinct (map sr_row_id (concat rowss))"
  proof -
    have pass: "check_group (rows_of (sr_base_matchup_id r) (concat rowss)) = Inr ()"
      if r: "r \<in> set (concat rowss)" for r
    proof -
      obtain rows where "rows \<in> set rowss" "r \<in> set rows" using r by auto
      moreover obtain q where q: "q \<in> set ordered" "build_rows hex reg m n q = Inr rows"
        using emap_Inr_in_set [OF e calculation(1)] by auto
      ultimately have "sr_base_matchup_id r = fst q" using build_rows_ok(2) by (metis prod.collapse)
      then show ?thesis
        using matchup_rows_pass [OF built_group [OF built d(1), of "fst q" "snd q"]] q(1) n by simp
    qed
    obtain dg where dg: "manifest_digest hex (JList (map schedule_row_dict (concat rowss))) = Inr dg"
        "is_digest_text dg"
      using manifest_digest_total [OF hex] by blast
    obtain base k where "(base, k) \<in> set ordered" using \<open>ordered \<noteq> []\<close> by (cases ordered) auto
    from built_group [OF built d(1) this] have "rows_of base (concat rowss) \<noteq> []"
      using n(1) by (auto simp: matchup_rows_ok_def)
    then have "concat rowss \<noteq> []" unfolding rows_of_def by (metis filter.simps(1))
    moreover have "concat rowss = sort_key row_order (concat rowss)"
      using sort_key_id_if_sorted [OF rows_sorted [OF built facts(2) d(1)]] by simp
    moreover have "\<exists>us. emap (\<lambda>base. check_group (rows_of base (concat rowss)))
        (map fst (dict_of (map (\<lambda>r. (sr_base_matchup_id r, ())) (concat rowss)))) = Inr us"
    proof (rule emap_total)
      fix base
      assume "base \<in> set (map fst (dict_of (map (\<lambda>r. (sr_base_matchup_id r, ())) (concat rowss))))"
      then obtain r where "r \<in> set (concat rowss)" "base = sr_base_matchup_id r"
        unfolding set_map dict_of_keys image_image by (auto simp del: set_concat)
      with pass show "\<exists>u. check_group (rows_of base (concat rowss)) = Inr u" by blast
    qed
    ultimately have "check_schedule hex \<lparr>sd_rows = concat rowss, sd_digest = dg\<rparr> = Inr ()"
      by (rule check_schedule_pass [OF _ _ _ d(2) dg])
    then show ?thesis
      using n even reg o' e dg \<open>ordered \<noteq> []\<close>
      by (cases exact) (simp_all add: build_schedule_def Let_def)
  qed
  then show ?thesis using o' e by blast
qed

end
