(* ===== verification/Measurement.thy ===== *)
theory Measurement
  imports Session_Trace Schedule
begin

text \<open>
  \<open>evaluation/measurement_runner.py\<close>: the result of a measurement run, its validation
  against the records, the session and the final state, and the runner; and the session it runs,
  \<open>testing/measurement_session.py\<close>. Messages are the strings of the source (without the interpolated
  text of an exception). \<open>manifest\<close> is the digest of a document, as in \<open>Public_Projection\<close>.
\<close>

section \<open>Results\<close>

datatype run_status =
  Run_Completed | Run_Failed | Run_Aborted | Run_Trace_Failed | Run_No_Request | Run_Incomplete

definition run_status_values :: "(string \<times> run_status) list" where
  "run_status_values = [(''completed'', Run_Completed), (''failed'', Run_Failed),
     (''aborted'', Run_Aborted), (''trace_failed'', Run_Trace_Failed),
     (''no_request'', Run_No_Request), (''incomplete'', Run_Incomplete)]"

datatype battle_outcome = Our_Win | Opponent_Win | Outcome_Tie | Void | Outcome_Incomplete

definition battle_outcome_values :: "(string \<times> battle_outcome) list" where
  "battle_outcome_values = [(''our_win'', Our_Win), (''opponent_win'', Opponent_Win),
     (''tie'', Outcome_Tie), (''void'', Void), (''incomplete'', Outcome_Incomplete)]"

datatype trace_status = Trace_Emitted | No_Records | Sink_Failed | Not_Attempted

definition trace_status_values :: "(string \<times> trace_status) list" where
  "trace_status_values = [(''emitted'', Trace_Emitted), (''no_records'', No_Records),
     (''sink_failed'', Sink_Failed), (''not_attempted'', Not_Attempted)]"

text \<open>The value of a member of an enumeration given by its table.\<close>

definition enum_value :: "(string \<times> 'a) list \<Rightarrow> 'a \<Rightarrow> string" where
  "enum_value table x = fst (the (List.find (\<lambda>p. snd p = x) table))"

definition allowed_error_codes :: "string list" where
  "allowed_error_codes = map fst record_error_codes
     @ [''trace_sink_failure'', ''decision_record_construction_failure'', ''runtime_error'']"

record measurement_run_result =
  mr_schema_version :: int
  mr_run_context_digest :: string
  mr_run_status :: run_status
  mr_battle_outcome :: battle_outcome
  mr_primary_error_class :: "string option"
  mr_decision_record_digests :: "string list"
  mr_explicit_submission_count :: int
  mr_default_submission_count :: int
  mr_room_control_or_chat_count :: int
  mr_ignored_display_count :: int
  mr_final_observed_state_digest :: string
  mr_trace_status :: trace_status

definition check_run_result :: "measurement_run_result \<Rightarrow> py_exc + unit" where
  "check_run_result r =
     ebind (raise_if (mr_schema_version r \<noteq> 1) ValueError) (\<lambda>_.
     ebind (require_digests [mr_run_context_digest r, mr_final_observed_state_digest r]) (\<lambda>_.
     ebind (raise_if (\<exists>c\<in>set_option (mr_primary_error_class r).
        \<not> is_error_code_text c \<or> c \<notin> set allowed_error_codes) ValueError) (\<lambda>_.
     ebind (require_digests (mr_decision_record_digests r)) (\<lambda>_.
     ebind (raise_if (\<not> distinct (mr_decision_record_digests r)) ValueError) (\<lambda>_.
     ebind (emap require_safe_integer [mr_explicit_submission_count r, mr_default_submission_count r,
        mr_room_control_or_chat_count r, mr_ignored_display_count r]) (\<lambda>_. Inr ()))))))"

definition make_run_result :: "measurement_run_result \<Rightarrow> py_exc + measurement_run_result" where
  "make_run_result r = ebind (check_run_result r) (\<lambda>_. Inr r)"

definition run_result_dict :: "measurement_run_result \<Rightarrow> (string \<times> json) list" where
  "run_result_dict r =
     [(''schema_version'', JInt (mr_schema_version r)),
      (''run_context_digest'', JString (mr_run_context_digest r)),
      (''run_status'', JString (enum_value run_status_values (mr_run_status r))),
      (''battle_outcome'', JString (enum_value battle_outcome_values (mr_battle_outcome r))),
      (''primary_error_class'', json_opt JString (mr_primary_error_class r)),
      (''decision_record_digests'', JList (map JString (mr_decision_record_digests r))),
      (''explicit_submission_count'', JInt (mr_explicit_submission_count r)),
      (''default_submission_count'', JInt (mr_default_submission_count r)),
      (''room_control_or_chat_count'', JInt (mr_room_control_or_chat_count r)),
      (''ignored_display_count'', JInt (mr_ignored_display_count r)),
      (''final_observed_state_digest'', JString (mr_final_observed_state_digest r)),
      (''trace_status'', JString (enum_value trace_status_values (mr_trace_status r)))]"

definition run_result_digest :: "digest_fn \<Rightarrow> measurement_run_result \<Rightarrow> py_exc + string" where
  "run_result_digest manifest r = manifest (JObject (run_result_dict r))"

section \<open>Error codes\<close>

definition exc_name :: "py_exc \<Rightarrow> string" where
  "exc_name e = (case e of
     ReducerInvariantError \<Rightarrow> ''ReducerInvariantError''
   | StaleRequestIdentity \<Rightarrow> ''StaleRequestIdentity''
   | LocalActionGateRejection \<Rightarrow> ''LocalActionGateRejection''
   | NoLegalActionError \<Rightarrow> ''NoLegalActionError''
   | TraceSinkFailure \<Rightarrow> ''TraceSinkFailure''
   | DecisionRecordConstructionFailure \<Rightarrow> ''DecisionRecordConstructionFailure''
   | UnknownProtocolEvent _ \<Rightarrow> ''UnknownProtocolEvent''
   | MalformedProtocolMessage \<Rightarrow> ''MalformedProtocolMessage''
   | RequestStateReconciliationMismatch \<Rightarrow> ''RequestStateReconciliationMismatch''
   | TransportTimeout \<Rightarrow> ''TransportTimeout'' | Disconnect \<Rightarrow> ''Disconnect''
   | TimerOrForfeit _ \<Rightarrow> ''TimerOrForfeit'' | ReducerInvariantFailure \<Rightarrow> ''ReducerInvariantFailure''
   | ServerInvalidChoice _ \<Rightarrow> ''ServerInvalidChoice''
   | ServerUnavailableChoice _ \<Rightarrow> ''ServerUnavailableChoice''
   | TeamValidationError \<Rightarrow> ''TeamValidationError'' | ChallengeSetupError _ \<Rightarrow> ''ChallengeSetupError''
   | ValueError \<Rightarrow> ''ValueError'' | TypeError \<Rightarrow> ''TypeError'' | KeyError \<Rightarrow> ''KeyError''
   | IndexError \<Rightarrow> ''IndexError'' | AssertionError \<Rightarrow> ''AssertionError''
   | RuntimeError _ \<Rightarrow> ''RuntimeError'')"

definition is_upper_ascii :: "char \<Rightarrow> bool" where
  "is_upper_ascii c \<longleftrightarrow> 65 \<le> code c \<and> code c \<le> 90"

text \<open>\<open>re.sub(r"(?<!^)(?=[A-Z])", "_", name)\<close>.\<close>

definition split_words :: "string \<Rightarrow> string" where
  "split_words name = (case name of [] \<Rightarrow> []
     | c # cs \<Rightarrow> c # concat (map (\<lambda>d. if is_upper_ascii d then [CHR ''_'', d] else [d]) cs))"

text \<open>\<open>re.sub(r"[^a-z0-9_]+", "_", text)\<close>; \<open>inside\<close>: within a run that has its underscore.\<close>

fun replace_others :: "bool \<Rightarrow> string \<Rightarrow> string" where
  "replace_others inside [] = []"
| "replace_others inside (c # cs) =
     (if is_id_lower c \<or> c = CHR ''_'' then c # replace_others False cs
      else if inside then replace_others True cs
      else CHR ''_'' # replace_others True cs)"

definition strip_underscores :: "string \<Rightarrow> string" where
  "strip_underscores s =
     rev (dropWhile (\<lambda>c. c = CHR ''_'') (rev (dropWhile (\<lambda>c. c = CHR ''_'') s)))"

definition stable_error_code :: "py_exc option \<Rightarrow> string option" where
  "stable_error_code error =
     (case error of None \<Rightarrow> None
      | Some e \<Rightarrow>
          if exc_code e \<in> set allowed_error_codes then Some (exc_code e)
          else
            (let code = strip_underscores (replace_others False (lower (split_words (exc_name e))))
             in Some (if code \<in> set allowed_error_codes then take 64 code else ''runtime_error'')))"

section \<open>Validation of a result\<close>

definition complain :: "bool \<Rightarrow> string \<Rightarrow> string list" where
  "complain b message = (if b then [message] else [])"

definition is_submitted_with :: "action_provenance \<Rightarrow> decision_record \<Rightarrow> bool" where
  "is_submitted_with p r \<longleftrightarrow> de_record_status r = Submitted \<and> de_submission_provenance r = Some p"

definition partial_trace :: "measurement_run_result \<Rightarrow> decision_record list \<Rightarrow> bool" where
  "partial_trace r records \<longleftrightarrow> mr_trace_status r = Sink_Failed
     \<and> (mr_primary_error_class r = Some ''trace_sink_failure''
        \<or> (\<exists>q\<in>set records. de_record_status q = Submitted))"

definition validate_records ::
    "digest_fn \<Rightarrow> measurement_run_result \<Rightarrow> decision_record list \<Rightarrow> py_exc + string list" where
  "validate_records manifest r records =
     (if records = [] then
        Inr (complain (mr_decision_record_digests r \<noteq> [])
          ''decision record digests have no corresponding records'')
      else
        ebind (emap (record_digest manifest) records) (\<lambda>digests.
        (let indices = map de_decision_index records;
             explicit = int (length (filter (is_submitted_with Explicit_Request) records));
             server_default = int (length (filter (is_submitted_with Server_Default) records))
         in Inr
          (complain (digests \<noteq> mr_decision_record_digests r)
             ''decision record digests are not in decision order''
           @ complain (indices \<noteq> sort indices \<or> \<not> distinct indices)
             ''decision records have invalid decision_index order''
           @ complain (\<exists>q\<in>set records. de_run_context_digest q \<noteq> mr_run_context_digest r)
             ''decision records do not share the run context''
           @ (if partial_trace r records then
                complain (mr_explicit_submission_count r < explicit)
                  ''explicit submission count is below accepted records''
                @ complain (mr_default_submission_count r < server_default)
                  ''default submission count is below accepted records''
              else
                complain (mr_explicit_submission_count r \<noteq> explicit)
                  ''explicit submission count does not match records''
                @ complain (mr_default_submission_count r \<noteq> server_default)
                  ''default submission count does not match records'')))))"

definition validate_trace :: "measurement_run_result \<Rightarrow> string list" where
  "validate_trace r =
     complain (mr_decision_record_digests r \<noteq> [] \<and> mr_trace_status r \<notin> {Trace_Emitted, Sink_Failed})
       ''record digests require an emitted trace or sink failure''
     @ complain (mr_decision_record_digests r = [] \<and> mr_trace_status r = Trace_Emitted)
       ''an emitted trace requires at least one record''"

definition validate_status_matrix :: "measurement_run_result \<Rightarrow> string list" where
  "validate_status_matrix r =
     (let has_records = mr_decision_record_digests r \<noteq> [];
          primary = mr_primary_error_class r;
          trace = mr_trace_status r
      in (case mr_run_status r of
            Run_Completed \<Rightarrow>
              complain (primary \<noteq> None) ''completed result must not have a primary error''
              @ complain (\<not> has_records \<or> trace \<noteq> Trace_Emitted)
                ''completed result requires an emitted decision record''
          | Run_No_Request \<Rightarrow>
              complain (primary \<noteq> None) ''no_request result must not have a primary error''
              @ complain (has_records \<or> trace \<notin> {No_Records, Not_Attempted})
                ''no_request result must not contain decision records''
              @ complain (mr_explicit_submission_count r \<noteq> 0 \<or> mr_default_submission_count r \<noteq> 0)
                ''no_request result must have zero submission counters''
          | Run_Trace_Failed \<Rightarrow>
              complain (primary \<noteq> Some ''trace_sink_failure'')
                ''trace_failed result requires trace_sink_failure''
              @ complain (trace \<noteq> Sink_Failed)
                ''trace_failed result requires sink_failed trace status''
          | Run_Failed \<Rightarrow> complain (primary = None) ''failed result requires a primary error''
          | Run_Aborted \<Rightarrow> complain (primary = None) ''failed result requires a primary error''
          | Run_Incomplete \<Rightarrow>
              complain (primary \<noteq> None) ''incomplete result must not have a primary error''
              @ complain (mr_battle_outcome r \<noteq> Outcome_Incomplete)
                ''incomplete result requires incomplete battle outcome'')
         @ complain (trace \<in> {No_Records, Not_Attempted} \<and> has_records)
           ''record digests contradict an empty trace status''
         @ complain (trace = Trace_Emitted \<and> \<not> has_records)
           ''emitted trace status requires record digests'')"

definition expected_primary :: "measurement_run_result \<Rightarrow> session_result \<Rightarrow> string option" where
  "expected_primary r s =
     (let code = stable_error_code (re_primary_error s) in
      if code = None \<and> mr_primary_error_class r = Some ''trace_sink_failure''
         \<and> mr_trace_status r = Sink_Failed
      then Some ''trace_sink_failure'' else code)"

definition validate_session :: "measurement_run_result \<Rightarrow> session_result \<Rightarrow> string list" where
  "validate_session r s =
     complain (mr_room_control_or_chat_count r \<noteq> re_room_control_or_chat_count s)
       ''room-control count does not match session result''
     @ complain (mr_explicit_submission_count r \<noteq> re_explicit_request_submissions s)
       ''explicit count does not match session result''
     @ complain (mr_default_submission_count r \<noteq> re_default_submissions s)
       ''default count does not match session result''
     @ complain (mr_primary_error_class r \<noteq> expected_primary r s)
       ''primary error class does not match session result''
     @ complain (re_trace_error s \<noteq> None \<and> mr_trace_status r \<noteq> Sink_Failed)
       ''trace status does not match session trace error''
     @ complain (re_record_error s \<noteq> None \<and> mr_trace_status r = Trace_Emitted)
       ''record construction failure cannot emit a complete trace''"

definition outcome_by_winner :: "(string \<times> battle_outcome) list" where
  "outcome_by_winner =
     [(''our_side'', Our_Win), (''opponent_side'', Opponent_Win), (''tie'', Outcome_Tie)]"

definition dict_get :: "json \<Rightarrow> string \<Rightarrow> json option" where
  "dict_get v k = (case v of JObject d \<Rightarrow> map_of d k | _ \<Rightarrow> None)"

definition state_outcome :: "observed_state \<Rightarrow> battle_outcome option" where
  "state_outcome st =
     (case dict_get (project_observed_state st) ''winner'' of
        Some (JString w) \<Rightarrow> map_of outcome_by_winner w
      | _ \<Rightarrow> None)"

definition validate_final_state ::
    "digest_fn \<Rightarrow> measurement_run_result \<Rightarrow> observed_state \<Rightarrow> py_exc + string list" where
  "validate_final_state manifest r st =
     ebind (observed_state_digest manifest st) (\<lambda>digest. Inr
       (complain (mr_final_observed_state_digest r \<noteq> digest)
          ''final observed-state digest does not match state''
        @ complain (mr_ignored_display_count r \<noteq> os_ignored_display_count st)
          ''ignored-display count does not match state''
        @ complain (state_outcome st \<noteq> None \<and> state_outcome st \<noteq> Some (mr_battle_outcome r))
          ''battle outcome does not match final state''
        @ complain (state_outcome st = None
            \<and> mr_battle_outcome r \<in> {Our_Win, Opponent_Win, Outcome_Tie})
          ''winner outcome cannot be proven from final state''))"

definition validate_run_result ::
    "digest_fn \<Rightarrow> measurement_run_result \<Rightarrow> decision_record list \<Rightarrow> session_result option
     \<Rightarrow> observed_state option \<Rightarrow> py_exc + string list" where
  "validate_run_result manifest r records session final =
     ebind (validate_records manifest r records) (\<lambda>a.
     ebind (case final of None \<Rightarrow> Inr [] | Some st \<Rightarrow> validate_final_state manifest r st) (\<lambda>d.
       Inr (a @ validate_trace r @ validate_status_matrix r
         @ (case session of None \<Rightarrow> [] | Some s \<Rightarrow> validate_session r s) @ d)))"

section \<open>Documents\<close>

text \<open>
  The fields are read in the order of the source; a missing one is reported by its name, any
  other defect as a semantic failure. \<open>tuple(...)\<close> iterates over lists, strings and keys.
\<close>

definition semantic_failure :: string where
  "semantic_failure = ''measurement-run-result semantic validation failed''"

definition doc_field :: "(string \<times> json) list \<Rightarrow> string \<Rightarrow> string + json" where
  "doc_field d k = (case map_of d k of
     None \<Rightarrow> Inl (''measurement-run-result is missing field '' @ k) | Some v \<Rightarrow> Inr v)"

definition doc_enum ::
    "(string \<times> 'a) list \<Rightarrow> (string \<times> json) list \<Rightarrow> string \<Rightarrow> string + 'a" where
  "doc_enum table d k = ebind (doc_field d k) (\<lambda>v. case v of
     JString s \<Rightarrow> of_option semantic_failure (map_of table s) | _ \<Rightarrow> Inl semantic_failure)"

definition doc_tuple :: "json \<Rightarrow> string + json list" where
  "doc_tuple v = (case v of JList vs \<Rightarrow> Inr vs
     | JString s \<Rightarrow> Inr (map (\<lambda>c. JString [c]) s)
     | JObject d \<Rightarrow> Inr (map (\<lambda>p. JString (fst p)) d)
     | _ \<Rightarrow> Inl semantic_failure)"

definition typed_text :: "json \<Rightarrow> string + string" where
  "typed_text v = (case v of JString s \<Rightarrow> Inr s | _ \<Rightarrow> Inl semantic_failure)"

definition typed_int :: "json \<Rightarrow> string + int" where
  "typed_int v = (case v of JInt n \<Rightarrow> Inr n | _ \<Rightarrow> Inl semantic_failure)"

definition typed_optional_text :: "json \<Rightarrow> string + string option" where
  "typed_optional_text v =
     (case v of JNull \<Rightarrow> Inr None | JString s \<Rightarrow> Inr (Some s) | _ \<Rightarrow> Inl semantic_failure)"

definition result_of_document :: "(string \<times> json) list \<Rightarrow> string + measurement_run_result" where
  "result_of_document d =
     ebind (doc_field d ''schema_version'') (\<lambda>version.
     ebind (doc_field d ''run_context_digest'') (\<lambda>context.
     ebind (doc_enum run_status_values d ''run_status'') (\<lambda>status.
     ebind (doc_enum battle_outcome_values d ''battle_outcome'') (\<lambda>outcome.
     ebind (doc_field d ''primary_error_class'') (\<lambda>primary.
     ebind (ebind (doc_field d ''decision_record_digests'') doc_tuple) (\<lambda>digests.
     ebind (doc_field d ''explicit_submission_count'') (\<lambda>explicit.
     ebind (doc_field d ''default_submission_count'') (\<lambda>server_default.
     ebind (doc_field d ''room_control_or_chat_count'') (\<lambda>room.
     ebind (doc_field d ''ignored_display_count'') (\<lambda>ignored.
     ebind (doc_field d ''final_observed_state_digest'') (\<lambda>state.
     ebind (doc_enum trace_status_values d ''trace_status'') (\<lambda>trace.
     ebind (typed_int version) (\<lambda>version.
     ebind (typed_text context) (\<lambda>context.
     ebind (typed_text state) (\<lambda>state.
     ebind (typed_optional_text primary) (\<lambda>primary.
     ebind (emap typed_text digests) (\<lambda>digests.
     ebind (typed_int explicit) (\<lambda>explicit.
     ebind (typed_int server_default) (\<lambda>server_default.
     ebind (typed_int room) (\<lambda>room.
     ebind (typed_int ignored) (\<lambda>ignored.
     (let r = \<lparr>mr_schema_version = version, mr_run_context_digest = context,
        mr_run_status = status, mr_battle_outcome = outcome, mr_primary_error_class = primary,
        mr_decision_record_digests = digests, mr_explicit_submission_count = explicit,
        mr_default_submission_count = server_default, mr_room_control_or_chat_count = room,
        mr_ignored_display_count = ignored, mr_final_observed_state_digest = state,
        mr_trace_status = trace\<rparr>
      in case check_run_result r of Inl _ \<Rightarrow> Inl semantic_failure | Inr _ \<Rightarrow> Inr r))))))))))))))))))))))"

definition validate_run_result_document ::
    "digest_fn \<Rightarrow> (string \<times> json) list \<Rightarrow> decision_record list \<Rightarrow> py_exc + string list" where
  "validate_run_result_document manifest d records =
     (case result_of_document d of
        Inl message \<Rightarrow> Inr [message]
      | Inr r \<Rightarrow> validate_run_result manifest r records None None)"

section \<open>The runner\<close>

text \<open>
  \<open>MeasurementRunner.__init__\<close>: the context is that of the scheduled row. That session and
  runner share one sink, and that the sink keeps a ledger, is how \<open>measure\<close> below composes them.
\<close>

definition new_runner ::
    "digest_fn \<Rightarrow> measurement_run_context \<Rightarrow> schedule_row \<Rightarrow> py_exc + unit" where
  "new_runner manifest ctx row =
     ebind (raise_if (rs_schedule_row_id (mc_run_scope ctx) \<noteq> sr_row_id row) ValueError) (\<lambda>_.
     ebind (manifest (seed_family_dict (sr_seed_family row))) (\<lambda>digest.
       raise_if (rs_seed_family_digest (mc_run_scope ctx) \<noteq> digest) ValueError))"

text \<open>
  The ledger of a sink as \<open>RecordingTraceSink\<close> reports it: the records, their number and
  their digests.
\<close>

definition accepted_record_count :: "decision_record list \<Rightarrow> int" where
  "accepted_record_count records = int (length records)"

definition accepted_record_digests ::
    "digest_fn \<Rightarrow> decision_record list \<Rightarrow> py_exc + string list" where
  "accepted_record_digests manifest records = emap (record_digest manifest) records"

definition runner_trace_status :: "bool \<Rightarrow> decision_record list \<Rightarrow> session_result \<Rightarrow> trace_status" where
  "runner_trace_status trace_error records s =
     (if trace_error then Sink_Failed
      else if records \<noteq> [] then Trace_Emitted
      else if re_record_error s \<noteq> None then Not_Attempted else No_Records)"

definition runner_battle_outcome :: "session_result \<Rightarrow> battle_outcome" where
  "runner_battle_outcome s =
     (case state_outcome (re_state s) of
        Some b \<Rightarrow> b
      | None \<Rightarrow> if re_primary_error s \<noteq> None then Void else Outcome_Incomplete)"

definition trace_only_failure :: "bool \<Rightarrow> session_result \<Rightarrow> bool" where
  "trace_only_failure trace_error s \<longleftrightarrow> trace_error
     \<and> (re_primary_error s = None
        \<or> stable_error_code (re_primary_error s) = Some ''trace_sink_failure'')"

definition runner_primary :: "bool \<Rightarrow> session_result \<Rightarrow> py_exc option" where
  "runner_primary lifecycle_failed s =
     (if lifecycle_failed \<and> re_primary_error s = None then Some TraceSinkFailure
      else re_primary_error s)"

definition runner_result ::
    "measurement_run_context \<Rightarrow> bool \<Rightarrow> decision_record list \<Rightarrow> string list \<Rightarrow> string \<Rightarrow> session_result
     \<Rightarrow> measurement_run_result" where
  "runner_result ctx lifecycle_failed records digests state_digest s =
     (let trace_error = re_trace_error s \<noteq> None \<or> lifecycle_failed;
          primary = runner_primary lifecycle_failed s;
          only = trace_only_failure trace_error s
      in \<lparr>mr_schema_version = 1,
          mr_run_context_digest = mc_run_context_digest ctx,
          mr_run_status = (if only then Run_Trace_Failed else if primary \<noteq> None then Run_Failed
            else if records = [] then Run_No_Request else Run_Completed),
          mr_battle_outcome = runner_battle_outcome s,
          mr_primary_error_class =
            (if only then Some ''trace_sink_failure'' else stable_error_code primary),
          mr_decision_record_digests = digests,
          mr_explicit_submission_count = re_explicit_request_submissions s,
          mr_default_submission_count = re_default_submissions s,
          mr_room_control_or_chat_count = re_room_control_or_chat_count s,
          mr_ignored_display_count = os_ignored_display_count (re_state s),
          mr_final_observed_state_digest = state_digest,
          mr_trace_status = runner_trace_status trace_error records s\<rparr>)"

text \<open>
  \<open>MeasurementRunner.run\<close>: \<open>attempt\<close> is the outcome of the session, \<open>failure_result\<close> the result it
  gives for an exception, \<open>lifecycle_failed\<close> whether flushing or closing the sink raised.
\<close>

definition runner_run ::
    "digest_fn \<Rightarrow> measurement_run_context \<Rightarrow> decision_record list \<Rightarrow> py_exc + session_result
     \<Rightarrow> (py_exc \<Rightarrow> py_exc + session_result) \<Rightarrow> bool \<Rightarrow> py_exc + measurement_run_result" where
  "runner_run manifest ctx records attempt failure_result lifecycle_failed =
     ebind (case attempt of Inr s \<Rightarrow> Inr s
        | Inl e \<Rightarrow> (case failure_result e of Inr s \<Rightarrow> Inr s | Inl _ \<Rightarrow> Inl ValueError)) (\<lambda>s.
     ebind (accepted_record_digests manifest records) (\<lambda>accepted_digests.
     ebind (raise_if (accepted_record_count records \<noteq> int (length accepted_digests)) ValueError) (\<lambda>_.
     ebind (emap (record_digest manifest) records) (\<lambda>digests.
     ebind (raise_if (accepted_digests \<noteq> digests) ValueError) (\<lambda>_.
     ebind (observed_state_digest manifest (re_state s)) (\<lambda>state_digest.
     ebind (make_run_result (runner_result ctx lifecycle_failed records digests state_digest s)) (\<lambda>r.
     ebind (validate_run_result manifest r records (Some s) (Some (re_state s))) (\<lambda>errors.
     ebind (raise_if (errors \<noteq> []) ValueError) (\<lambda>_. Inr r)))))))))"

section \<open>The measured session\<close>

text \<open>
  A \<open>MeasurementSession\<close> over the lines of a connection: \<open>flush_fails\<close> and \<open>close_fails\<close> are
  the failures of the sink's delegate, whose refusals are those of the environment.
\<close>

definition measure ::
    "session_env \<Rightarrow> string \<Rightarrow> string \<Rightarrow> observed_state option \<Rightarrow> measurement_run_context \<Rightarrow> schedule_row
     \<Rightarrow> room_line list \<Rightarrow> py_exc option \<Rightarrow> bool \<Rightarrow> bool \<Rightarrow> py_exc + measurement_run_result" where
  "measure env room user initial ctx row lines failure flush_fails close_fails =
     ebind (new_session room user initial True (Some ctx)) (\<lambda>s0.
     ebind (new_runner (en_manifest env) ctx row) (\<lambda>_.
       (let s = run_session env s0 lines failure
        in runner_run (en_manifest env) ctx (accepted env (se_emitted s))
             (Inr (result_snapshot None s)) (\<lambda>e. Inr (result_snapshot (Some e) s))
             (flush_fails \<or> close_fails))))"

end
