(* ===== verification/Measured.thy ===== *)
theory Measured
  imports Measurement
begin

lemma complain_Nil [simp]: "complain b m = [] \<longleftrightarrow> \<not> b"
  by (simp add: complain_def)

section \<open>Error codes\<close>

lemma allowed_texts: "c \<in> set allowed_error_codes \<Longrightarrow> is_error_code_text c \<and> take 64 c = c"
proof -
  have "list_all (\<lambda>c. is_error_code_text c \<and> take 64 c = c) allowed_error_codes" by code_simp
  then show "c \<in> set allowed_error_codes \<Longrightarrow> is_error_code_text c \<and> take 64 c = c"
    by (auto simp: list_all_iff)
qed

lemma sink_failure_allowed [simp]: "''trace_sink_failure'' \<in> set allowed_error_codes"
  by (simp add: allowed_error_codes_def)

lemma stable_code_None [simp]: "stable_error_code None = None"
  by (simp add: stable_error_code_def)

lemma stable_code_Some: "\<exists>c\<in>set allowed_error_codes. stable_error_code (Some e) = Some c"
proof -
  have "''runtime_error'' \<in> set allowed_error_codes" by (simp add: allowed_error_codes_def)
  then show ?thesis using allowed_texts by (simp add: stable_error_code_def Let_def)
qed

lemma stable_code_sink [simp]: "stable_error_code (Some TraceSinkFailure) = Some ''trace_sink_failure''"
  by (simp add: stable_error_code_def exc_code_defs)

lemma stable_code_text:
  "\<forall>c\<in>set_option (stable_error_code e). is_error_code_text c \<and> c \<in> set allowed_error_codes"
proof (cases e)
  case (Some x)
  obtain c where "c \<in> set allowed_error_codes" "stable_error_code (Some x) = Some c"
    using stable_code_Some by blast
  with allowed_texts Some show ?thesis by simp
qed simp

section \<open>What the runner needs of a session\<close>

text \<open>
  The contract between a session and its runner: records in decision order, of the run context,
  counters that are those of the records unless the only failure is the sink's, and numbers a
  canonical document can hold.
\<close>

definition reportable ::
    "measurement_run_context \<Rightarrow> decision_record list \<Rightarrow> session_result \<Rightarrow> bool" where
  "reportable ctx records s \<longleftrightarrow>
     re_record_error s = None \<and> is_digest_text (mc_run_context_digest ctx)
     \<and> sorted_wrt (\<lambda>a b. de_decision_index a < de_decision_index b) records
     \<and> (\<forall>r\<in>set records. recorded_by (Some ctx) r)
     \<and> submitted_with Explicit_Request records \<le> re_explicit_request_submissions s
     \<and> submitted_with Server_Default records \<le> re_default_submissions s
     \<and> (re_trace_error s = None \<or> stable_error_code (re_primary_error s) \<noteq> Some ''trace_sink_failure''
        \<longrightarrow> re_explicit_request_submissions s = submitted_with Explicit_Request records
          \<and> re_default_submissions s = submitted_with Server_Default records)
     \<and> (re_trace_error s \<noteq> None \<longrightarrow> re_primary_error s \<noteq> None)
     \<and> (\<forall>n\<in>{re_explicit_request_submissions s, re_default_submissions s,
          re_room_control_or_chat_count s, os_ignored_display_count (re_state s)}.
          0 \<le> n \<and> n \<le> max_safe_integer)"

lemma record_digest_total:
  assumes "total_digest manifest" "recorded_by ctx r"
  shows "\<exists>d. record_digest manifest r = Inr d \<and> is_digest_text d"
proof -
  have "\<exists>i. record_id manifest r = Inr i"
    using assms by (auto simp: record_id_def derive_record_id_def recorded_by_def
        require_safe_integer_def total_digest_def)
  then obtain i where "record_id manifest r = Inr i" ..
  moreover have "\<exists>d. digest_record_envelope manifest i (record_payload r) = Inr d \<and> is_digest_text d"
    using assms(1) by (simp add: digest_record_envelope_def total_digest_def)
  ultimately show ?thesis by (simp add: record_digest_def)
qed

lemma record_digests_total:
  assumes "total_digest manifest" "\<forall>r\<in>set records. recorded_by ctx r"
  shows "\<exists>ds. emap (record_digest manifest) records = Inr ds \<and> length ds = length records
    \<and> (\<forall>d\<in>set ds. is_digest_text d)"
  using assms(2)
proof (induction records)
  case (Cons r rs)
  then obtain ds where "emap (record_digest manifest) rs = Inr ds" "length ds = length rs"
    "\<forall>d\<in>set ds. is_digest_text d" by auto
  moreover obtain d where "record_digest manifest r = Inr d" "is_digest_text d"
    using record_digest_total [OF assms(1), of ctx r] Cons.prems by auto
  ultimately show ?case by simp
qed simp

lemma increasing_sorted:
  assumes "sorted_wrt (\<lambda>a b. f a < (f b :: int)) xs"
  shows "sort (map f xs) = map f xs \<and> distinct (map f xs)"
proof -
  have "sorted_wrt (<) (map f xs)" using assms by (simp add: sorted_wrt_map)
  then show ?thesis by (simp add: strict_sorted_iff sorted_sort_id)
qed

lemma submitted_count:
  "int (length (filter (is_submitted_with p) rs)) = submitted_with p rs"
  by (simp add: submitted_with_def is_submitted_with_def [abs_def])

lemma submitted_nonneg: "0 \<le> submitted_with p rs"
  by (simp add: submitted_with_def)

section \<open>The result passes every check\<close>

lemma runner_result_checked:
  assumes ok: "reportable ctx records s" and sd: "is_digest_text sd"
    and ds: "\<forall>d\<in>set ds. is_digest_text d" "distinct ds"
  shows "check_run_result (runner_result ctx lf records ds sd s) = Inr ()"
proof -
  let ?r = "runner_result ctx lf records ds sd s"
  have "\<forall>c\<in>set_option (mr_primary_error_class ?r). is_error_code_text c \<and> c \<in> set allowed_error_codes"
    using stable_code_text allowed_texts [OF sink_failure_allowed]
    by (simp add: runner_result_def Let_def)
  moreover have "require_digests [mr_run_context_digest ?r, mr_final_observed_state_digest ?r] = Inr ()"
    "require_digests (mr_decision_record_digests ?r) = Inr ()" "distinct (mr_decision_record_digests ?r)"
    using ok sd ds by (simp_all add: runner_result_def Let_def require_digests_Inr reportable_def)
  moreover have "emap require_safe_integer [mr_explicit_submission_count ?r,
      mr_default_submission_count ?r, mr_room_control_or_chat_count ?r, mr_ignored_display_count ?r]
      = Inr [(), (), (), ()]"
    using ok by (simp add: runner_result_def Let_def reportable_def require_safe_integer_def)
  moreover have "mr_schema_version ?r = 1" by (simp add: runner_result_def Let_def)
  ultimately show ?thesis by (auto simp: check_run_result_def)
qed

lemma runner_records_valid:
  assumes ok: "reportable ctx records s" and e: "emap (record_digest manifest) records = Inr ds"
  shows "validate_records manifest (runner_result ctx lf records ds sd s) records = Inr []"
proof (cases "records = []")
  case True
  then show ?thesis using e by (simp add: validate_records_def runner_result_def Let_def)
next
  case False
  let ?r = "runner_result ctx lf records ds sd s"
  have sort: "sort (map de_decision_index records) = map de_decision_index records"
    "distinct (map de_decision_index records)"
    using ok increasing_sorted [of de_decision_index records] by (simp_all add: reportable_def)
  have ctx: "\<forall>q\<in>set records. de_run_context_digest q = mc_run_context_digest ctx"
    using ok by (simp add: reportable_def recorded_by_def)
  have low: "submitted_with Explicit_Request records \<le> mr_explicit_submission_count ?r"
    "submitted_with Server_Default records \<le> mr_default_submission_count ?r"
    using ok by (simp_all add: reportable_def runner_result_def Let_def)
  have "partial_trace ?r records \<or> (mr_explicit_submission_count ?r = submitted_with Explicit_Request records
      \<and> mr_default_submission_count ?r = submitted_with Server_Default records)"
  proof (cases "trace_only_failure (re_trace_error s \<noteq> None \<or> lf) s")
    case True
    then have "partial_trace ?r records"
      by (simp add: partial_trace_def runner_result_def Let_def runner_trace_status_def trace_only_failure_def)
    then show ?thesis ..
  next
    case False
    then have "re_trace_error s = None \<or> stable_error_code (re_primary_error s) \<noteq> Some ''trace_sink_failure''"
      by (auto simp: trace_only_failure_def)
    then show ?thesis using ok by (simp add: reportable_def runner_result_def Let_def)
  qed
  then show ?thesis
    using False e sort ctx low
    by (auto simp: validate_records_def Let_def submitted_count) (simp_all add: runner_result_def Let_def)
qed

lemma runner_status_valid:
  assumes ok: "reportable ctx records s" and len: "length ds = length records"
  shows "validate_trace (runner_result ctx lf records ds sd s) = []"
    and "validate_status_matrix (runner_result ctx lf records ds sd s) = []"
proof -
  have empty: "ds = [] \<longleftrightarrow> records = []" using len by auto
  have no_error: "re_record_error s = None" using ok by (simp add: reportable_def)
  show "validate_trace (runner_result ctx lf records ds sd s) = []"
    using empty no_error
    by (simp add: validate_trace_def runner_result_def Let_def runner_trace_status_def)
  have zero: "re_explicit_request_submissions s = 0 \<and> re_default_submissions s = 0"
    if "records = []" "re_trace_error s = None"
    using ok that by (simp add: reportable_def submitted_with_def)
  have err: "re_trace_error s \<noteq> None \<longrightarrow> re_primary_error s \<noteq> None"
    using ok by (simp add: reportable_def)
  have code: "stable_error_code (Some e) \<noteq> None" for e using stable_code_Some [of e] by auto
  show "validate_status_matrix (runner_result ctx lf records ds sd s) = []"
    using empty no_error zero err code
    by (auto simp: validate_status_matrix_def runner_result_def Let_def runner_trace_status_def
        runner_primary_def trace_only_failure_def)
qed

lemma runner_session_valid:
  assumes ok: "reportable ctx records s"
  shows "validate_session (runner_result ctx lf records ds sd s) s = []"
proof -
  have err: "re_trace_error s \<noteq> None \<longrightarrow> re_primary_error s \<noteq> None" "re_record_error s = None"
    using ok by (simp_all add: reportable_def)
  have code: "stable_error_code (Some e) \<noteq> None" for e using stable_code_Some [of e] by auto
  show ?thesis
    using err code
    by (auto simp: validate_session_def runner_result_def Let_def runner_trace_status_def
        runner_primary_def trace_only_failure_def expected_primary_def)
qed

lemma runner_final_valid:
  assumes "observed_state_digest manifest (re_state s) = Inr sd"
  shows "validate_final_state manifest (runner_result ctx lf records ds sd s) (re_state s) = Inr []"
  using assms
  by (auto simp: validate_final_state_def runner_result_def Let_def runner_battle_outcome_def
      split: option.split)

theorem runner_reports:
  assumes total: "total_digest manifest" and ok: "reportable ctx records s"
    and d: "\<forall>ds. emap (record_digest manifest) records = Inr ds \<longrightarrow> distinct ds"
  shows "\<exists>ds sd. runner_run manifest ctx records (Inr s) fr lf = Inr (runner_result ctx lf records ds sd s)
    \<and> emap (record_digest manifest) records = Inr ds
    \<and> observed_state_digest manifest (re_state s) = Inr sd
    \<and> validate_run_result manifest (runner_result ctx lf records ds sd s) records (Some s)
        (Some (re_state s)) = Inr []"
proof -
  obtain ds where e: "emap (record_digest manifest) records = Inr ds" "length ds = length records"
    "\<forall>x\<in>set ds. is_digest_text x"
    using record_digests_total [OF total] ok unfolding reportable_def by blast
  obtain sd where sd: "observed_state_digest manifest (re_state s) = Inr sd" "is_digest_text sd"
    using total unfolding total_digest_def observed_state_digest_def by blast
  have check: "check_run_result (runner_result ctx lf records ds sd s) = Inr ()"
    by (rule runner_result_checked [OF ok sd(2) e(3)]) (use d e(1) in blast)
  have valid: "validate_run_result manifest (runner_result ctx lf records ds sd s) records (Some s)
      (Some (re_state s)) = Inr []"
    using runner_records_valid [OF ok e(1)] runner_status_valid [OF ok e(2)]
      runner_session_valid [OF ok] runner_final_valid [OF sd(1)]
    by (simp add: validate_run_result_def)
  show ?thesis
    using e sd check valid
    by (auto simp: runner_run_def accepted_record_digests_def accepted_record_count_def make_run_result_def)
qed

section \<open>Every session is reportable\<close>

lemma accepted_sorted:
  assumes "trace_inv env s" "session_inv s"
  shows "sorted_wrt (\<lambda>a b. de_decision_index a < de_decision_index b) (accepted env (se_emitted s))"
    and "\<forall>r\<in>set (accepted env (se_emitted s)). recorded_by (se_context s) r"
proof -
  have l: "ledger_ok env s" and all: "\<forall>r\<in>set (se_emitted s). recorded_by (se_context s) r"
    using assms(1) by (simp_all add: trace_inv_def trace_core_def)
  have "sorted_wrt (\<lambda>a b. de_decision_index a < de_decision_index b) (se_emitted s)"
    using assms(2) by (simp add: session_inv_def session_core_def records_ok_def)
  moreover have "\<exists>rest. se_emitted s = accepted env (se_emitted s) @ rest"
    using l by (auto simp: ledger_ok_def split: if_splits)
  then obtain rest where "se_emitted s = accepted env (se_emitted s) @ rest" ..
  ultimately show "sorted_wrt (\<lambda>a b. de_decision_index a < de_decision_index b) (accepted env (se_emitted s))"
    "\<forall>r\<in>set (accepted env (se_emitted s)). recorded_by (se_context s) r"
    using all by (metis sorted_wrt_append, metis UnCI set_append)
qed

text \<open>The numbers of a session fit into a canonical JSON document.\<close>

definition countable :: "battle_session \<Rightarrow> bool" where
  "countable s \<longleftrightarrow> se_explicit_request_submissions s \<le> max_safe_integer
     \<and> se_default_submissions s \<le> max_safe_integer
     \<and> se_room_control_or_chat_count s \<le> max_safe_integer
     \<and> os_ignored_display_count (se_state s) \<le> max_safe_integer
     \<and> se_next_decision_index s \<le> max_safe_integer"

lemma session_reportable:
  assumes t: "trace_inv env s" and inv: "session_inv s"
    and ctx: "se_context s = Some ctx" "bound s" "is_digest_text (mc_run_context_digest ctx)"
    and built: "se_record_error s = None" and small: "countable s"
  shows "reportable ctx (accepted env (se_emitted s)) (result_snapshot None s)"
proof -
  let ?recs = "accepted env (se_emitted s)"
  have counts: "se_explicit_request_submissions s = submitted_with Explicit_Request (se_emitted s)"
    "se_default_submissions s = submitted_with Server_Default (se_emitted s)"
    using t ctx(2) built by (simp_all add: trace_inv_def counts_ok_def)
  have l: "ledger_ok env s" and core: "trace_core env s" using t by (simp_all add: trace_inv_def trace_core_def)
  have low: "submitted_with p ?recs \<le> submitted_with p (se_emitted s)" for p
  proof -
    obtain rest where "se_emitted s = ?recs @ rest"
      using l unfolding ledger_ok_def by (metis append_Nil2)
    then have "submitted_with p (se_emitted s) = submitted_with p (?recs @ rest)" by simp
    then show ?thesis by (simp add: submitted_with_def)
  qed
  have eq: "submitted_with p ?recs = submitted_with p (se_emitted s)"
    if "se_trace_error s = None \<or> stable_error_code (se_primary_error s) \<noteq> Some ''trace_sink_failure''" for p
  proof (cases "se_trace_error s = None")
    case True
    then show ?thesis using l by (simp add: ledger_ok_def)
  next
    case False
    with l obtain rs r where "se_emitted s = rs @ [r]" "?recs = rs"
      "de_record_status r = Submitted \<longrightarrow> se_primary_error s = Some TraceSinkFailure"
      by (auto simp: ledger_ok_def)
    moreover from this(3) have "de_record_status r \<noteq> Submitted" using False that by auto
    moreover from this have "submitted_with p (rs @ [r]) = submitted_with p rs"
      by (simp add: submitted_with_append)
    ultimately show ?thesis by simp
  qed
  have "0 \<le> os_ignored_display_count (se_state s)"
    using inv by (simp add: session_inv_def session_core_def wf_state_def)
  moreover have "0 \<le> se_room_control_or_chat_count s"
    "se_trace_error s \<noteq> None \<longrightarrow> se_primary_error s \<noteq> None"
    using core by (auto simp: trace_core_def)
  moreover have "0 \<le> submitted_with p (se_emitted s)" for p by (rule submitted_nonneg)
  ultimately show ?thesis
    using accepted_sorted [OF t inv] ctx built small low eq counts
    by (simp add: reportable_def result_snapshot_def countable_def)
qed

lemma created_context_bound:
  assumes "create_run_context manifest b scope ordinal = Inr ctx"
  shows "mc_resolved_binding ctx = Some b" "is_digest_text (mc_run_context_digest ctx)"
    "check_binding b = Inr () \<Longrightarrow> context_ok (Some ctx)" "mc_run_scope ctx = scope"
  using assms
  by (auto simp: create_run_context_def Let_def ebind_eq_Inr check_run_context_def require_digest_def
      raise_if_eq_Inr context_ok_def check_binding_def check_context_payload_def require_digests_Inr)

text \<open>A measured session is reported, whatever happened to it: no record ever fails to be built.\<close>

lemma measure_reports:
  assumes ctx: "create_run_context (en_manifest env) b scope ordinal = Inr ctx"
    and start: "new_session room user None True (Some ctx) = Inr s0"
    and row: "new_runner (en_manifest env) ctx row = Inr ()"
    and total: "total_digest (en_manifest env)" and binding: "check_binding b = Inr ()"
    and s: "s = run_session env s0 lines failure" and small: "countable s"
    and d: "\<forall>ds. emap (record_digest (en_manifest env)) (accepted env (se_emitted s)) = Inr ds
      \<longrightarrow> distinct ds"
  shows "\<exists>ds sd. measure env room user None ctx row lines failure ff cf
      = Inr (runner_result ctx (ff \<or> cf) (accepted env (se_emitted s)) ds sd (result_snapshot None s))
    \<and> validate_run_result (en_manifest env)
        (runner_result ctx (ff \<or> cf) (accepted env (se_emitted s)) ds sd (result_snapshot None s))
        (accepted env (se_emitted s)) (Some (result_snapshot None s)) (Some (se_state s)) = Inr []
    \<and> length ds = length (accepted env (se_emitted s))"
proof -
  note new = new_session_ok [OF start]
  have inv: "session_inv s" and ext: "session_extends s0 s"
    using run_session_ok [OF new(1,2)] s by simp_all
  have t: "trace_inv env s" unfolding s by (rule trace_run [OF new_session_traced [OF start] new(2)])
  have "se_context s0 = Some ctx" using start by (auto simp: new_session_def split: if_splits)
  then have c: "se_context s = Some ctx" using ext by (simp add: session_extends_def)
  have "bound s" using c created_context_bound(1) [OF ctx] by (simp add: bound_def)
  moreover have "se_record_error s = None"
    using t total small c created_context_bound(3) [OF ctx binding]
    by (simp add: trace_inv_def trace_core_def buildable_def countable_def)
  ultimately have ok: "reportable ctx (accepted env (se_emitted s)) (result_snapshot None s)"
    by (intro session_reportable [OF t inv c _ created_context_bound(2) [OF ctx] _ small])
  from runner_reports [OF total ok d, where fr = "\<lambda>e. Inr (result_snapshot (Some e) s)" and lf = "ff \<or> cf"]
  obtain ds sd where "runner_run (en_manifest env) ctx (accepted env (se_emitted s))
      (Inr (result_snapshot None s)) (\<lambda>e. Inr (result_snapshot (Some e) s)) (ff \<or> cf)
      = Inr (runner_result ctx (ff \<or> cf) (accepted env (se_emitted s)) ds sd (result_snapshot None s))"
    and v: "validate_run_result (en_manifest env)
        (runner_result ctx (ff \<or> cf) (accepted env (se_emitted s)) ds sd (result_snapshot None s))
        (accepted env (se_emitted s)) (Some (result_snapshot None s))
        (Some (re_state (result_snapshot None s))) = Inr []"
    and e: "emap (record_digest (en_manifest env)) (accepted env (se_emitted s)) = Inr ds" by blast
  then have "measure env room user None ctx row lines failure ff cf
      = Inr (runner_result ctx (ff \<or> cf) (accepted env (se_emitted s)) ds sd (result_snapshot None s))"
    using start row by (simp add: measure_def Let_def s)
  moreover have "length ds = length (accepted env (se_emitted s))"
    using e by (metis emap_eq_Inr list_all2_lengthD)
  ultimately show ?thesis using v by (auto simp: result_snapshot_def)
qed

section \<open>Documents of results\<close>

lemma enum_round_trip:
  "map_of run_status_values (enum_value run_status_values s) = Some s"
  "map_of battle_outcome_values (enum_value battle_outcome_values b) = Some b"
  "map_of trace_status_values (enum_value trace_status_values t) = Some t"
proof -
  show "map_of run_status_values (enum_value run_status_values s) = Some s"
    by (cases s) (simp_all add: run_status_values_def enum_value_def)
  show "map_of battle_outcome_values (enum_value battle_outcome_values b) = Some b"
    by (cases b) (simp_all add: battle_outcome_values_def enum_value_def)
  show "map_of trace_status_values (enum_value trace_status_values t) = Some t"
    by (cases t) (simp_all add: trace_status_values_def enum_value_def)
qed

lemma emap_typed_text: "emap typed_text (map JString ss) = Inr ss"
  by (induction ss) (simp_all add: typed_text_def)

lemma result_document:
  assumes "check_run_result r = Inr ()"
  shows "result_of_document (run_result_dict r) = Inr r"
proof -
  have "typed_optional_text (json_opt JString p) = Inr p" for p
    by (cases p) (simp_all add: typed_optional_text_def json_opt_def)
  then show ?thesis
    using assms
    by (cases r) (simp add: result_of_document_def run_result_dict_def doc_field_def doc_enum_def
        enum_round_trip doc_tuple_def typed_text_def typed_int_def emap_typed_text Let_def)
qed

lemma validate_without_session:
  assumes "validate_run_result manifest r records (Some s) (Some st) = Inr []"
  shows "validate_run_result manifest r records None None = Inr []"
  using assms by (auto simp: validate_run_result_def ebind_eq_Inr)

lemma measure_checked:
  assumes "measure env room user initial ctx row lines failure ff cf = Inr r"
  shows "check_run_result r = Inr ()"
  using assms by (auto simp: measure_def runner_run_def make_run_result_def Let_def ebind_eq_Inr)

text \<open>A checked result validates as a document exactly as it does as a value.\<close>

lemma document_validates:
  assumes "check_run_result r = Inr ()"
  shows "validate_run_result_document manifest (run_result_dict r) records
    = validate_run_result manifest r records None None"
  by (simp add: validate_run_result_document_def result_document [OF assms])

text \<open>The status of a measured session, in terms of the session.\<close>

lemma measured_status:
  assumes "trace_inv env s"
  shows "mr_run_status (runner_result ctx lf records ds sd (result_snapshot None s)) = Run_Completed \<longleftrightarrow>
      se_primary_error s = None \<and> \<not> lf \<and> records \<noteq> []"
    and "mr_run_status (runner_result ctx lf records ds sd (result_snapshot None s)) = Run_No_Request \<longleftrightarrow>
      se_primary_error s = None \<and> \<not> lf \<and> records = []"
proof -
  have "se_trace_error s \<noteq> None \<longrightarrow> se_primary_error s \<noteq> None"
    using assms by (auto simp: trace_inv_def trace_core_def)
  then show "mr_run_status (runner_result ctx lf records ds sd (result_snapshot None s)) = Run_Completed \<longleftrightarrow>
      se_primary_error s = None \<and> \<not> lf \<and> records \<noteq> []"
    "mr_run_status (runner_result ctx lf records ds sd (result_snapshot None s)) = Run_No_Request \<longleftrightarrow>
      se_primary_error s = None \<and> \<not> lf \<and> records = []"
    by (auto simp: runner_result_def Let_def runner_primary_def trace_only_failure_def result_snapshot_def)
qed

end
