(* ===== verification/Samples.thy ===== *)
theory Samples
  imports Coordinator Parser_Facts Request_Errors Measured
begin

text \<open>
  Concrete inputs at which the properties are applied: a short event sequence, a room of a
  won battle with one request, the setup lines before it, and a world that delivers every send.
  The digests are constant functions.
\<close>

section \<open>Events\<close>

definition sample_hp :: hp_token where
  "sample_hp = \<lparr>tok_current = 80, tok_maximum = 100, tok_status = None, tok_fainted = False\<rparr>"

definition sample_events :: "battle_event list" where
  "sample_events =
     [Metadata (PlayerDeclared 0 ''p1'' ''alice'' ''Alice''),
      Metadata (TeamSizeDeclared 1 ''p1'' 6),
      Pokemon (PokemonSwitched 2 ''p1'' 1 ''Pika'' ''Pikachu, M'' sample_hp),
      Pokemon (PokemonSwitched 3 ''p2'' 1 ''Blob'' ''Ditto'' sample_hp),
      Boost (BoostChanged 5 ''p1'' 1 ''Pika'' ''atk'' Delta 8),
      Pokemon (MoveUsed 6 ''p2'' 1 ''Blob'' ''transform'' None None None [])]"

lemma sample_accepted:
  "\<exists>st. efold reduce_event (initial_state ''alice'') sample_events = Inr st"
proof -
  have "\<not> isl (efold reduce_event (initial_state ''alice'') sample_events)" by code_simp
  then show ?thesis by (metis sum.collapse(2))
qed

definition sample_room :: string where
  "sample_room = ''battle-1''"

definition in_room :: "string list \<Rightarrow> room_line list" where
  "in_room ps = map (\<lambda>p. \<lparr>rl_room_id = Some sample_room, rl_payload = p\<rparr>) ps"

definition no_room :: "string list \<Rightarrow> room_line list" where
  "no_room ps = map (\<lambda>p. \<lparr>rl_room_id = None, rl_payload = p\<rparr>) ps"

definition sample_request :: string where
  "sample_request = ''|request|{\"rqid\":3,\"active\":[{\"moves\":[{\"move\":\"Tackle\",\"id\":\"tackle\"}]}],'' @
     ''\"side\":{\"name\":\"Alice\",\"id\":\"p1\",\"pokemon\":[{\"ident\":\"p1: Pika\",\"details\":\"Pikachu, M\",'' @
     ''\"condition\":\"100/100\",\"active\":true}]}}''"

definition sample_setup :: "room_line list" where
  "sample_setup = no_room [''|updatesearch|{\"searching\":[],\"games\":null}'',
     ''|queryresponse|userdetails|{\"userid\":\"alice\",\"rooms\":{}}'']"

definition sample_lines :: "room_line list" where
  "sample_lines = in_room [''|init|battle'', ''|player|p1|Alice|1|'', ''|player|p2|Bob|2|'',
     ''|gametype|singles'', ''|gen|9'', ''|tier|[Gen 9] OU'', ''|start'', sample_request,
     ''|switch|p1a: Pika|Pikachu, M|100/100'', ''|turn|1'', ''|win|Alice'']"

definition sample_env :: session_env where
  "sample_env = \<lparr>en_policy = heuristic_select, en_send = (\<lambda>_ _ _. None),
     en_sink_fails = (\<lambda>_ _. False), en_manifest = (\<lambda>_. Inr (''sha256:'' @ replicate 64 (CHR ''0''))),
     en_float_repr = (\<lambda>s. s), en_sha256 = (\<lambda>_. replicate 64 (CHR ''0''))\<rparr>"

definition sample_team :: packed_team where
  "sample_team = \<lparr>pt_sealed = \<lparr>st_digest = replicate 64 (CHR ''0''), st_member_count = 1\<rparr>,
     pt_packed = ''Pika|||||||||||''\<rparr>"

definition sample_coordinator :: coordinator where
  "sample_coordinator = \<lparr>cd_our_user_id = ''alice'', cd_opponent_display = ''Bob'',
     cd_opponent_user_id = ''bob'', cd_team = sample_team\<rparr>"

definition sample_world :: coordinator_env where
  "sample_world = \<lparr>ce_session = sample_env, ce_connect = None, ce_close = None,
     ce_global = (\<lambda>_ _. Delivered)\<rparr>"



section \<open>Runs\<close>

definition sample_start :: battle_session where
  "sample_start = (case new_session sample_room ''alice'' None False None of Inr s \<Rightarrow> s)"

lemma sample_start: "new_session sample_room ''alice'' None False None = Inr sample_start"
  by (simp add: sample_start_def new_session_def)

lemma sample_sent:
  "map sc_command (se_sent (run_session sample_env sample_start sample_lines None))
    = [''/choose move 1|3'']"
  by code_simp

lemma sample_coordinated:
  "\<exists>r. run_coordinator sample_coordinator sample_world (sample_setup @ sample_lines) None 40 = Inr r
    \<and> re_primary_error r = None \<and> os_winner (re_state r) = Some ''Alice''
    \<and> re_explicit_request_submissions r = 1"
proof -
  have "case run_coordinator sample_coordinator sample_world (sample_setup @ sample_lines) None 40 of
     Inr r \<Rightarrow> re_primary_error r = None \<and> os_winner (re_state r) = Some ''Alice''
       \<and> re_explicit_request_submissions r = 1
   | Inl e \<Rightarrow> False"
    by code_simp
  then show ?thesis
    by (cases "run_coordinator sample_coordinator sample_world (sample_setup @ sample_lines) None 40")
      simp_all
qed

definition sample_decision :: decision_request where
  "sample_decision = (case read_request (\<lambda>s. s) (\<lambda>_. replicate 64 (CHR ''0'')) sample_room
     (drop (length ''|request|'') sample_request) of Inr r \<Rightarrow> r)"

lemma sample_decision:
  "read_request (\<lambda>s. s) (\<lambda>_. replicate 64 (CHR ''0'')) sample_room
     (drop (length ''|request|'') sample_request) = Inr sample_decision"
proof -
  have "\<not> isl (read_request (\<lambda>s. s) (\<lambda>_. replicate 64 (CHR ''0'')) sample_room
     (drop (length ''|request|'') sample_request))" by code_simp
  then show ?thesis unfolding sample_decision_def by (auto simp: isl_def split: sum.split)
qed

lemma sample_decision_facts:
  "map encode_submission (ss_submissions (dr_safe_submissions sample_decision)) = [''move 1'', ''default'']"
  "dr_kind sample_decision = Move_Request" "dr_team_member_count sample_decision = 1"
  by code_simp+

text \<open>
  The session inside the processing of the switch line: the request is pending, the observation
  has just been extended.
\<close>

definition sample_before :: battle_session where
  "sample_before = run_session sample_env sample_start (take 8 sample_lines) None"

definition sample_switch :: battle_event where
  "sample_switch = Pokemon (PokemonSwitched 7 ''p1'' 1 ''Pika'' ''Pikachu, M'' sample_hp)"

definition sample_pending :: battle_session where
  "sample_pending = sample_before\<lparr>se_state :=
     (case reduce_event (se_state sample_before) sample_switch of Inr st \<Rightarrow> st)\<rparr>"

lemma sample_pending_facts:
  "\<exists>st. reduce_event (se_state sample_before) sample_switch = Inr st"
  "\<exists>r x. se_pending_request sample_pending = Some r \<and> dr_kind r = Move_Request
     \<and> se_pending_trace sample_pending = None
     \<and> reconcile (se_room_id sample_pending) r (se_state sample_pending)
         (map_option ri_rqid (se_submitted_request sample_pending)) = Inr x \<and> rr_status x = Accept"
proof -
  have "\<not> isl (reduce_event (se_state sample_before) sample_switch)" by code_simp
  then show "\<exists>st. reduce_event (se_state sample_before) sample_switch = Inr st"
    by (metis isl_def sum.exhaust_sel sum.collapse(2))
  have "case se_pending_request sample_pending of None \<Rightarrow> False
     | Some r \<Rightarrow> dr_kind r = Move_Request \<and> se_pending_trace sample_pending = None
         \<and> (case reconcile (se_room_id sample_pending) r (se_state sample_pending)
              (map_option ri_rqid (se_submitted_request sample_pending)) of
              Inl _ \<Rightarrow> False | Inr x \<Rightarrow> rr_status x = Accept)"
    by code_simp
  then show "\<exists>r x. se_pending_request sample_pending = Some r \<and> dr_kind r = Move_Request
     \<and> se_pending_trace sample_pending = None
     \<and> reconcile (se_room_id sample_pending) r (se_state sample_pending)
         (map_option ri_rqid (se_submitted_request sample_pending)) = Inr x \<and> rr_status x = Accept"
    by (auto split: option.splits sum.splits)
qed

lemma sample_pending_inv: "session_inv sample_pending"
proof -
  note start = new_session_ok [OF sample_start]
  have b: "session_inv sample_before" unfolding sample_before_def
    by (rule run_session_ok(1) [OF start(1,2)])
  obtain st where st: "reduce_event (se_state sample_before) sample_switch = Inr st"
    using sample_pending_facts(1) by blast
  have "wf_state st" using b st wf_reduce
    by (auto simp: session_inv_def session_core_def)
  then show ?thesis using b st
    by (simp add: sample_pending_def session_inv_def session_core_def requests_ok_def records_ok_def
        pending_ok_def open_ok_def)
qed

section \<open>Decision records\<close>

definition sample_digest :: string where
  "sample_digest = ''sha256:'' @ replicate 64 (CHR ''0'')"

definition sample_binding :: resolved_binding where
  "sample_binding = \<lparr>rb_evaluation_run_binding_digest = sample_digest,
     rb_registration_digest = sample_digest, rb_arm_binding_digest = sample_digest,
     rb_schedule_digest = sample_digest, rb_budget_profile_digest = sample_digest,
     rb_seed_family_digest = sample_digest, rb_arm_id = ''arm-1'',
     rb_runtime_and_contract_digests = \<lparr>rd_runtime_digest = sample_digest,
       rd_contract_set_digest = sample_digest, rd_policy_digest = sample_digest,
       rd_fallback_and_safety_digest = sample_digest\<rparr>\<rparr>"

definition sample_scope :: run_scope_payload where
  "sample_scope = \<lparr>rs_registration_digest = sample_digest, rs_arm_binding_digest = sample_digest,
     rs_schedule_digest = sample_digest, rs_schedule_row_id = sample_digest,
     rs_budget_profile_digest = sample_digest, rs_seed_family_digest = sample_digest,
     rs_runtime_digest = sample_digest, rs_contract_set_digest = sample_digest\<rparr>"

definition sample_manifest :: digest_fn where
  "sample_manifest = (\<lambda>_. Inr sample_digest)"

definition sample_context :: measurement_run_context where
  "sample_context = (case create_run_context sample_manifest sample_binding sample_scope 0 of Inr c \<Rightarrow> c)"

lemma sample_context:
  "create_run_context sample_manifest sample_binding sample_scope 0 = Inr sample_context"
proof -
  have "\<not> isl (create_run_context sample_manifest sample_binding sample_scope 0)" by code_simp
  then show ?thesis unfolding sample_context_def by (auto simp: isl_def split: sum.split)
qed

definition sample_record :: decision_record where
  "sample_record = (case make_record 2 Wait_Noop sample_context sample_binding 0
     (Public \<lparr>pi_rqid = 3, pi_request_digest = sample_digest\<rparr>) sample_digest sample_digest None None None
     of Inr r \<Rightarrow> r)"

lemma sample_record:
  "make_record 2 Wait_Noop sample_context sample_binding 0
     (Public \<lparr>pi_rqid = 3, pi_request_digest = sample_digest\<rparr>) sample_digest sample_digest None None None
     = Inr sample_record"
proof -
  have "\<not> isl (make_record 2 Wait_Noop sample_context sample_binding 0
     (Public \<lparr>pi_rqid = 3, pi_request_digest = sample_digest\<rparr>) sample_digest sample_digest None None None)"
    by code_simp
  then show ?thesis unfolding sample_record_def by (auto simp: isl_def split: sum.split)
qed

lemma sample_envelope: "\<exists>env. to_envelope sample_manifest sample_record = Inr env"
proof -
  have "\<not> isl (to_envelope sample_manifest sample_record)" by code_simp
  then show ?thesis by (metis sum.collapse(2))
qed

text \<open>The sample session again, with a trace.\<close>

definition sample_traced :: battle_session where
  "sample_traced = (case new_session sample_room ''alice'' None True (Some sample_context) of Inr s \<Rightarrow> s)"

lemma sample_traced: "new_session sample_room ''alice'' None True (Some sample_context) = Inr sample_traced"
  by (simp add: sample_traced_def new_session_def)

text \<open>One evaluation of the run, with all that is read off it.\<close>

definition traced_as_expected :: "battle_session \<Rightarrow> bool" where
  "traced_as_expected s \<longleftrightarrow> map de_record_status (se_emitted s) = [Submitted] \<and> countable s
     \<and> se_primary_error s = None \<and> state_outcome (se_state s) = Some Our_Win"

lemma sample_run: "traced_as_expected (run_session sample_env sample_traced sample_lines None)"
  by code_simp

lemma sample_emitted:
  "map de_record_status (se_emitted (run_session sample_env sample_traced sample_lines None))
    = [Submitted]"
  using sample_run by (simp add: traced_as_expected_def)

section \<open>Measurement runs\<close>

definition sample_seed :: string where
  "sample_seed = replicate 64 CHR ''0''"

definition sample_family :: seed_family where
  "sample_family = \<lparr>sf_derivation_id = seed_derivation_id, sf_search_seed = sample_seed,
     sf_world_seed = sample_seed, sf_policy_seed = sample_seed, sf_simulator_seed = sample_seed,
     sf_schedule_seed = sample_seed, sf_side_assignment_seed = sample_seed\<rparr>"

definition sample_row :: schedule_row where
  "sample_row = \<lparr>sr_row_id = sample_digest, sr_base_matchup_id = sample_digest,
     sr_side_assignment = Side_P1, sr_schedule_block = ''main'', sr_seed_family = sample_family,
     sr_repetition_index = 0\<rparr>"

lemma sample_digest_text: "is_digest_text sample_digest"
  by code_simp

lemma sample_total: "total_digest (en_manifest sample_env)"
  using sample_digest_text by (simp add: total_digest_def sample_env_def sample_digest_def)

lemma sample_binding_checked: "check_binding sample_binding = Inr ()"
proof -
  have "128 \<ge> length (rb_arm_id sample_binding)" "is_arm_id (rb_arm_id sample_binding)" by code_simp+
  then show ?thesis
    using sample_digest_text
    by (simp add: check_binding_def sample_binding_def require_digests_def require_digest_def)
qed

lemma sample_runner: "new_runner (en_manifest sample_env) sample_context sample_row = Inr ()"
proof -
  have "mc_run_scope sample_context = sample_scope"
    by (rule created_context_bound(4) [OF sample_context])
  then show ?thesis
    by (simp add: new_runner_def sample_scope_def sample_row_def sample_env_def sample_digest_def)
qed

section \<open>Schedules\<close>

definition sample_hex :: hex_fn where
  "sample_hex v = (case v of JObject kvs \<Rightarrow>
       (let text = (\<lambda>k. case map_of kvs k of Some (JString s) \<Rightarrow> s | _ \<Rightarrow> ''0'');
            c = last (text (if map_of kvs ''hero_team'' = None then ''base_matchup_id'' else ''hero_team''));
            c' = (if is_hex_lower c then c else CHR ''0'');
            d = (if map_of kvs ''repetition_index'' = Some (JInt 1) then CHR ''1'' else CHR ''0'')
        in Inr (replicate 62 CHR ''a'' @ [d, c']))
     | _ \<Rightarrow> Inr (replicate 64 CHR ''f''))"

definition sample_key :: "string \<Rightarrow> base_matchup_key" where
  "sample_key team = \<lparr>bk_hero_team = team, bk_opponent_team = ''9'', bk_opponent_archetype = ''stall'',
     bk_opponent_policy_checkpoint = ''v1'', bk_schedule_block = ''main''\<rparr>"

lemma sample_total_hex: "total_hex sample_hex"
proof -
  have "is_hex_lower CHR ''a''" "is_hex_lower CHR ''f''" "is_hex_lower CHR ''0''"
    "is_hex_lower CHR ''1''" by code_simp+
  then have "is_hex64 (replicate 62 CHR ''a'' @ [if b then CHR ''1'' else CHR ''0'',
      if is_hex_lower c then c else CHR ''0''])" "is_hex64 (replicate 64 CHR ''f'')" for b c
    by (simp_all add: is_hex64_def list_all_iff)
  then show ?thesis
    by (auto simp: total_hex_def sample_hex_def Let_def simp del: replicate_0 append.simps
        split del: if_split split: json.split)
qed

lemma sample_row_ids:
  assumes "build_rows sample_hex reg m 2 (base, k) = Inr rows" and hex: "is_hex_lower (last base)"
  shows "map sr_row_id rows = map (\<lambda>d. ''sha256:'' @ replicate 62 CHR ''a'' @ [d, last base])
    [CHR ''0'', CHR ''1'']"
proof -
  have "[0..2 - 1] = [0, 1::int]" by (simp add: upto_rec1)
  then show ?thesis using assms(1) hex
    by (auto simp: build_rows_def build_row_def Let_def ebind_eq_Inr derive_schedule_row_id_def
        manifest_digest_def sample_hex_def)
qed

lemma sample_keys_checked: "\<forall>k\<in>set [sample_key ''2'', sample_key ''1'']. check_matchup_key k = Inr ()"
  by (simp add: sample_key_def check_matchup_key_def)

lemma sample_texts: "is_hex64 sample_seed" "(2::int) \<le> max_safe_integer"
  by (code_simp, simp add: max_safe_integer_def)

lemma sample_schedule:
  "\<exists>s. build_schedule sample_hex sample_digest sample_seed [sample_key ''2'', sample_key ''1''] 2 True
     = Inr s"
proof -
  let ?keys = "[sample_key ''2'', sample_key ''1'']"
  have o': "ordered_keys sample_hex ?keys =
    Inr [(''sha256:'' @ replicate 62 CHR ''a'' @ ''01'', sample_key ''1''),
         (''sha256:'' @ replicate 62 CHR ''a'' @ ''02'', sample_key ''2'')]" by code_simp
  obtain rowss where
    e: "emap (build_rows sample_hex sample_digest sample_seed 2)
      [(''sha256:'' @ replicate 62 CHR ''a'' @ ''01'', sample_key ''1''),
       (''sha256:'' @ replicate 62 CHR ''a'' @ ''02'', sample_key ''2'')] = Inr rowss"
    and *: "distinct (map sr_row_id (concat rowss)) \<longrightarrow> (\<exists>d. build_schedule sample_hex
      sample_digest sample_seed ?keys 2 True = Inr \<lparr>sd_rows = concat rowss, sd_digest = d\<rparr>)"
    using schedule_total [OF sample_total_hex _ sample_texts(2) _ sample_digest_text sample_texts(1)
        _ sample_keys_checked, of True] o'
    by auto
  have "distinct (map sr_row_id (concat rowss))"
  proof -
    have "is_hex_lower CHR ''1''" "is_hex_lower CHR ''2''" by code_simp+
    then show ?thesis using e by (auto simp: ebind_eq_Inr sample_row_ids)
  qed
  with * show ?thesis by blast
qed

section \<open>Unclassified errors\<close>

definition sample_bad_request :: string where
  "sample_bad_request = ''{\"rqid\":3,\"active\":[{\"moves\":[{\"move\":\"Tackle\",\"id\":\"tackle!\"}]}],'' @
     ''\"side\":{\"name\":\"Alice\",\"id\":\"p1\",\"pokemon\":[{\"ident\":\"p1: Pika\",\"details\":\"Pikachu, M\",'' @
     ''\"condition\":\"100/100\",\"active\":true}]}}''"

definition sample_bad_lines :: "room_line list" where
  "sample_bad_lines = take 8 sample_lines
     @ in_room [''|switch|p2a: Blob|Ditto|100/100'', ''|-boost|p2a: Blob|bogus|1'']"

end
