(* ===== verification/Engine_Samples.thy ===== *)
theory Engine_Samples
  imports Engine_Failures Samples
begin

text \<open>Concrete values at which the properties of the engine's components are applied.\<close>

section \<open>A qualified manifest\<close>

lemma sample_digest_checked [simp]: "require_digest sample_digest = Inr ()"
  by (simp add: require_digest_def raise_if_def sample_digest_text)

definition cap_value_name :: string where
  "cap_value_name = ''gen9.switch.voluntary''"

definition cap_catalog :: capability_catalog where
  "cap_catalog = \<lparr>cc_catalog_id = ''catalog'', cc_catalog_version = ''1'', cc_generation = 9,
     cc_format = gen9ou, cc_capability_contract_id = ''capabilities'',
     cc_capability_contract_version = ''1'', cc_capability_contract_digest = sample_digest,
     cc_canonicalization_contract_id = ''canonical'', cc_canonicalization_contract_version = ''1'',
     cc_canonicalization_contract_digest = sample_digest, cc_catalog_digest = sample_digest,
     cc_definitions = [\<lparr>cd_value = cap_value_name, cd_description = ''switching''\<rparr>]\<rparr>"

definition cap_id :: capability_id where
  "cap_id = \<lparr>ci_value = cap_value_name, ci_catalog_digest = sample_digest\<rparr>"

definition cap_ref :: evidence_ref where
  "cap_ref = \<lparr>er_evidence_id = ''evidence'', er_evidence_digest = sample_digest,
     er_catalog_id = ''catalog'', er_catalog_version = ''1'', er_capability_id = cap_id,
     er_catalog_digest = sample_digest, er_canonicalization_contract_digest = sample_digest,
     er_environment_cell_id = ''linux-x86_64'', er_engine_source_manifest_digest = sample_digest,
     er_engine_build_manifest_digest = sample_digest, er_artifact_index_digest = sample_digest,
     er_wheel_digest = sample_digest, er_transition_adapter_id = ''adapter'',
     er_transition_adapter_version = ''1'', er_transition_adapter_source_digest = sample_digest,
     er_transition_model_contract_digest = sample_digest,
     er_transition_adapter_conformance_digest = sample_digest,
     er_oracle_source_manifest_digest = sample_digest, er_oracle_build_manifest_digest = sample_digest,
     er_ruleset_digest = sample_digest, er_corpus_digest = sample_digest,
     er_runner_source_digest = sample_digest, er_classifier_source_digest = sample_digest,
     er_qualification_result_schema_id = ''urn:battlebelief:schema:result:v1'',
     er_qualification_result_digest = sample_digest\<rparr>"

definition cap_claim :: capability_claim where
  "cap_claim = \<lparr>cl_capability_id = cap_id, cl_status = Cap_Exact, cl_evidence_refs = [cap_ref],
     cl_approximation = None\<rparr>"

definition cap_cell :: environment_binding where
  "cap_cell = \<lparr>eb_environment_cell_id = ''linux-x86_64'', eb_engine_build_manifest_digest = sample_digest,
     eb_wheel_digest = sample_digest\<rparr>"

definition cap_manifest :: capability_manifest where
  "cap_manifest = \<lparr>em_manifest_id = ''engine'', em_catalog = cap_catalog, em_generation = 9,
     em_format = gen9ou, em_engine_source_manifest_digest = sample_digest,
     em_artifact_index_digest = sample_digest, em_environment_bindings = [cap_cell],
     em_transition_adapter_id = Some ''adapter'', em_transition_adapter_version = Some ''1'',
     em_transition_adapter_source_digest = Some sample_digest,
     em_transition_model_contract_digest = Some sample_digest,
     em_transition_adapter_conformance_digest = Some sample_digest,
     em_oracle_source_manifest_digest = Some sample_digest,
     em_oracle_build_manifest_digest = Some sample_digest, em_ruleset_digest = Some sample_digest,
     em_corpus_digest = Some sample_digest, em_runner_source_digest = Some sample_digest,
     em_classifier_source_digest = Some sample_digest, em_evidence_set_digest = Some sample_digest,
     em_canonicalization_contract_digest = sample_digest, em_migration = None,
     em_claims = [cap_claim]\<rparr>"

lemma cap_names: "is_canonical_id ''catalog''" "is_canonical_id ''capabilities''"
  "is_canonical_id ''canonical''" "is_canonical_id ''engine''" "is_canonical_id ''adapter''"
  "is_canonical_id ''evidence''" "is_environment_cell_id ''linux-x86_64''"
  "is_schema_id ''urn:battlebelief:schema:result:v1''" "is_capability_id ''gen9.switch.voluntary''"
  by code_simp+

lemma cap_catalog_checked: "check_catalog (\<lambda>_. Inr sample_digest) cap_catalog = Inr ()"
  by (simp add: cap_catalog_def check_catalog_def require_canonical_id_def require_nonempty_def
      cap_names derive_catalog_digest_def definition_values_def uniquely_sorted_def)

lemma cap_definition_checked: "list_all (\<lambda>d. check_definition d = Inr ()) (cc_definitions cap_catalog)"
  unfolding cap_catalog_def cap_value_name_def by code_simp

lemma cap_manifest_checked: "check_manifest (\<lambda>_. Inr sample_digest) cap_manifest = Inr ()"
  by (simp add: cap_manifest_def check_manifest_def require_canonical_id_def require_nonempty_def
      cap_names cap_catalog_def require_digests_def cap_cell_def bound_cells_def uniquely_sorted_def
      check_adapter_def adapter_values_def closure_values_def check_optional_digest_def cap_claim_def
      require_capability_def cap_id_def definition_values_def cap_value_name_def check_qualification_def
      manifest_refs_def evidence_set_digest_for_def qualifying_claims_def qualifying_def
      require_matching_evidence_def binding_of_def ref_provenance_def manifest_provenance_def
      cap_ref_def)

lemma cap_claim_checked: "check_claim cap_claim = Inr ()" "check_evidence_ref cap_ref = Inr ()"
  by (simp_all add: cap_claim_def cap_ref_def check_claim_def uniquely_sorted_def qualifying_def
      check_evidence_ref_def require_canonical_id_def require_nonempty_def require_environment_cell_id_def
      require_schema_id_def cap_names sample_digest_text evidence_digests_def require_digests_def cap_id_def)

end
