(* ===== verification/Engine_Run.thy ===== *)
theory Engine_Run
  imports Engine_Samples
begin

text \<open>
  A native engine small enough to evaluate, a root prepared for it from a public observation
  and two hypotheses on the opponent's item, and the transition from each: the properties of the
  engine's adapter are applied here.
\<close>

section \<open>A native engine\<close>

text \<open>
  A state is what is left of the hit points of the second side's only Pokemon and whether it holds
  an item; a step takes hit points away; all other native objects are placeholders.
\<close>

datatype sample_native = Hp_State int bool | Hp_Step int | Hp_Part string

definition state_text :: "string \<Rightarrow> bool \<Rightarrow> string" where
  "state_text t b = t @ (if b then ''i'' else [])"

definition sample_states :: "(string \<times> sample_native) list" where
  "sample_states = [(''100'', Hp_State 100 False), (''90'', Hp_State 90 False), (''80'', Hp_State 80 False),
     (''100i'', Hp_State 100 True), (''90i'', Hp_State 90 True), (''80i'', Hp_State 80 True)]"

definition sample_attacker :: native_pokemon where
  "sample_attacker = \<lparr>np_id = ''DRAGONITE'', np_hp = 100, np_maxhp = 100, np_ability = ''none'',
     np_item = ''none'', np_status = ''none'', np_types = [''dragon'', ''flying''], np_tera_type = ''fire'',
     np_terastallized = False, np_moves = [\<lparr>nm_id = ''TACKLE'', nm_pp = 8, nm_disabled = False\<rparr>],
     np_attack = 10, np_defense = 10, np_special_attack = 10, np_special_defense = 10, np_speed = 10\<rparr>"

definition sample_view :: "sample_native \<Rightarrow> native_state" where
  "sample_view x = (case x of
     Hp_State n b \<Rightarrow>
       \<lparr>nv_side_one = \<lparr>nd_pokemon = [sample_attacker], nd_active_index = 0, nd_force_switch = False\<rparr>,
        nv_side_two = \<lparr>nd_pokemon = [sample_attacker\<lparr>np_hp := n, np_item := if b then ''leftovers'' else ''none''\<rparr>], nd_active_index = 0, nd_force_switch = False\<rparr>,
        nv_weather = ''none'', nv_terrain = ''none'', nv_trick_room = False\<rparr>
   | _ \<Rightarrow>
       \<lparr>nv_side_one = \<lparr>nd_pokemon = [], nd_active_index = 0, nd_force_switch = False\<rparr>,
        nv_side_two = \<lparr>nd_pokemon = [], nd_active_index = 0, nd_force_switch = False\<rparr>,
        nv_weather = ''none'', nv_terrain = ''none'', nv_trick_room = False\<rparr>)"

definition sample_engine :: "sample_native native_engine" where
  "sample_engine =
     \<lparr>ne_from_string = (\<lambda>t. case map_of sample_states t of Some x \<Rightarrow> Inr x | None \<Rightarrow> Inl Native_Raised),
      ne_to_string = (\<lambda>x. case find (\<lambda>p. snd p = x) sample_states of Some p \<Rightarrow> Inr (fst p)
        | None \<Rightarrow> Inl Native_Raised),
      ne_view = sample_view,
      ne_legal_choices = (\<lambda>_. Inr (Native_Tuple [Native_List [Native_Text ''tackle''],
        Native_List [Native_Text ''tackle'']])),
      ne_generate_instructions = (\<lambda>_ _ _. Inr (Some [Hp_Step 10, Hp_Step 20])),
      ne_percentage = (\<lambda>x. if x = Hp_Step 10 then Pct_Float 625 (-1) else Pct_Float 375 (-1)),
      ne_apply_instructions = (\<lambda>x i. case (x, i) of (Hp_State n b, Hp_Step k) \<Rightarrow> Inr (Hp_State (n - k) b)
        | _ \<Rightarrow> Inl Native_Raised),
      ne_move = (\<lambda>i _ _. Inr (Hp_Part i)),
      ne_move_id = (\<lambda>x. case x of Hp_Part i \<Rightarrow> i | _ \<Rightarrow> []),
      ne_pokemon = (\<lambda>args _. Inr (Hp_State (pa_hp args) (pa_item args = ''leftovers''))),
      ne_pokemon_index = (\<lambda>i. Inr (Hp_Part i)),
      ne_side_conditions = (\<lambda>_. Inr (Hp_Part [])),
      ne_side = (\<lambda>ps _ _ _ _. case ps of p # _ \<Rightarrow> Inr p | [] \<Rightarrow> Inl Native_Raised),
      ne_weather = (\<lambda>t. Some (Hp_Part t)),
      ne_terrain = (\<lambda>t. Some (Hp_Part t)),
      ne_state = (\<lambda>_ two _ _ _. Inr two)\<rparr>"

text \<open>Digests that tell one native state from the rest; the hash of a state is its text.\<close>

definition other_digest :: string where
  "other_digest = ''sha256:'' @ replicate 64 (CHR ''1'')"

definition engine_manifest :: digest_fn where
  "engine_manifest v = Inr
     (case v of
        JObject [(_, JString t), _] \<Rightarrow> if t \<in> {''sha256:80'', ''sha256:80i''} then other_digest else sample_digest
      | _ \<Rightarrow> sample_digest)"

lemma other_digest_text: "is_digest_text other_digest"
  by code_simp

lemma engine_manifest_total: "total_digest engine_manifest"
  by (simp add: total_digest_def engine_manifest_def sample_digest_text other_digest_text
      split: json.split list.split)

definition engine_catalog :: capability_catalog where
  "engine_catalog = cap_catalog\<lparr>cc_definitions := map (\<lambda>v. \<lparr>cd_value = v, cd_description = ''sample''\<rparr>)
     [''gen9.legality.move.selection'', ''gen9.transition.chance.damage-roll'',
      ''gen9.transition.move.direct-damage'', ''gen9.transition.order.priority'',
      ''gen9.transition.order.speed'', ''gen9.transition.terminal.detection'',
      ''gen9.transition.terminal.value'']\<rparr>"

definition sample_identity :: artifact_identity where
  "sample_identity = \<lparr>ai_artifact_index_digest = sample_digest, ai_source_manifest_digest = sample_digest,
     ai_build_manifest_digest = sample_digest, ai_wheel_sha256 = sample_digest,
     ai_wheel_filename = ''engine.whl'', ai_cell_id = ''linux-x86_64'', ai_distribution_name = ''poke-engine'',
     ai_distribution_version = ''1'', ai_python_tag = ''cp312'', ai_abi_tag = ''cp312'',
     ai_platform_tag = ''linux'', ai_operating_system = ''linux'', ai_architecture = ''x86_64'',
     ai_features = engine_features, ai_adapter_version = expected_artifact_adapter,
     ai_release_tag = ''v1'', ai_release_asset_url = ''https://'',
     ai_sentinel_fixture_digest = sample_digest, ai_sentinel_result_digest = sample_digest,
     ai_sentinel_configuration_digest = sample_digest\<rparr>"

definition sample_model :: "sample_native engine_model" where
  "sample_model = \<lparr>md_native = sample_engine, md_catalog = engine_catalog,
     md_artifact_identity = sample_identity, md_backend_identity_digest = sample_digest,
     md_backend_health = Healthy\<rparr>"

definition sample_observation :: observed_state where
  "sample_observation = (initial_state ''alice'')\<lparr>os_our_side := Some ''p1'', os_generation := Some 9,
     os_game_type := Some ''singles'', os_tier := Some gen9ou, os_room_initialized := True,
     os_battle_started := True\<rparr>"

definition sample_safe :: safe_submission_set where
  "sample_safe = \<lparr>ss_request_identity = \<lparr>ri_room_id = ''battle-1'', ri_rqid = 3, ri_request_digest = sample_digest\<rparr>,
     ss_submissions = [\<lparr>bs_kind = Move, bs_provenance = Explicit_Request, bs_slot = Some 1,
       bs_move_id = Some ''tackle'', bs_terastallize = False, bs_team_order = []\<rparr>]\<rparr>"

definition sample_pokemon_document :: "bool \<Rightarrow> json" where
  "sample_pokemon_document b = JObject
     [(''id'', JString ''dragonite''), (''level'', JInt 100), (''types'', JList [JString ''dragon'', JString ''flying'']),
      (''base_types'', JList [JString ''dragon'', JString ''flying'']), (''hp'', JInt 100), (''maxhp'', JInt 100),
      (''ability'', JString ''none''), (''base_ability'', JString ''none''), (''item'', JString (if b then ''leftovers'' else ''none'')),
      (''nature'', JString ''serious''), (''evs'', JList (map JInt [0, 0, 0, 0, 0, 0])),
      (''attack'', JInt 10), (''defense'', JInt 10), (''special_attack'', JInt 10),
      (''special_defense'', JInt 10), (''speed'', JInt 10), (''status'', JString ''none''),
      (''tera_type'', JString ''fire''), (''terastallized'', JBool False),
      (''moves'', JList [JObject [(''id'', JString ''tackle''), (''pp'', JInt 8), (''disabled'', JBool False)]])]"

definition sample_side_document :: "bool \<Rightarrow> json" where
  "sample_side_document b = JObject
     [(''pokemon'', JList [sample_pokemon_document b]), (''active_index'', JInt 0),
      (''force_switch'', JBool False), (''force_trapped'', JBool False), (''side_conditions'', JObject [])]"

text \<open>Two hypotheses on the opponent's item.\<close>

definition sample_document :: "bool \<Rightarrow> json" where
  "sample_document b = JObject
     [(''schema_version'', JInt 1), (''fixture_id'', JString ''sample''), (''generation'', JInt 9),
      (''format'', JString gen9ou),
      (''field'', JObject [(''weather'', JString ''none''), (''weather_turns_remaining'', JInt 0),
        (''terrain'', JString ''none''), (''terrain_turns_remaining'', JInt 0), (''trick_room'', JBool False),
        (''trick_room_turns_remaining'', JInt 0)]),
      (''sides'', JObject [(''p1'', sample_side_document False), (''p2'', sample_side_document b)])]"

definition seen_root :: observed_root where
  "seen_root = \<lparr>ro_root_player = ''p1'', ro_digest = sample_digest,
     ro_public_hp = ((Percent, 100), (Percent, 100))\<rparr>"

definition mapped_at :: "string \<Rightarrow> mapped_state" where
  "mapped_at t = \<lparr>ms_native_state = t, ms_view_digests = (sample_digest, sample_digest),
     ms_active_indexes = (0, 0), ms_active_types = ([''dragon'', ''flying''], [''dragon'', ''flying'']),
     ms_terastallized = (False, False), ms_terminal_outcome = None,
     ms_public_hp = ((Percent, 100), (Percent, 100))\<rparr>"

definition sample_root :: root_identity where
  "sample_root = \<lparr>rt_request_identity_digest = sample_digest, rt_safe_submission_set_digest = sample_digest,
     rt_observed_state_digest = sample_digest, rt_prepared_root_digest = sample_digest,
     rt_ruleset_digest = sample_digest, rt_backend_identity_digest = sample_digest,
     rt_capability_catalog_digest = sample_digest, rt_root_player = ''p1''\<rparr>"

definition move_requirement :: "string \<Rightarrow> capability_id" where
  "move_requirement v = \<lparr>ci_value = v, ci_catalog_digest = sample_digest\<rparr>"

definition tackle_submission :: battle_submission where
  "tackle_submission = hd (ss_submissions sample_safe)"

definition tackle_action :: "root_identity option \<Rightarrow> search_action" where
  "tackle_action r = \<lparr>sa_action_id = sample_digest, sa_kind = ''move'',
     sa_required_capabilities = [move_requirement ''gen9.legality.move.selection''],
     sa_root_submission_index = map_option (\<lambda>_. 0) r, sa_root_identity = r\<rparr>"

definition tackle_binding :: action_binding where
  "tackle_binding = \<lparr>ab_action = tackle_action (Some sample_root), ab_native_choice = ''tackle'',
     ab_submission = Some tackle_submission\<rparr>"

lemma catalog_digest [simp]: "cc_catalog_digest engine_catalog = sample_digest"
  by (simp add: engine_catalog_def cap_catalog_def)

lemma observed_run: "map_observed_root engine_manifest sample_observation = Inr seen_root"
  by code_simp

lemma world_run: "map_complete_world engine_manifest (\<lambda>_. None) sample_engine (sample_document b) sample_digest
    ((Percent, 100), (Percent, 100)) = Inr (mapped_at (state_text ''100'' b))"
  by (induct b) code_simp+

lemma request_run: "request_identity_digest engine_manifest (ss_request_identity sample_safe) = Inr sample_digest"
  by code_simp

lemma safe_run: "safe_submission_set_digest engine_manifest sample_safe = Inr sample_digest"
  by code_simp

lemma root_run: "create_root engine_manifest sample_digest sample_digest sample_digest ''p1'' sample_digest
    sample_digest sample_digest = Inr sample_root"
  by (simp add: create_root_def require_digests_def require_player_def engine_manifest_def sample_root_def)

lemma submission_run: "battle_submission_digest engine_manifest tackle_submission = Inr sample_digest"
  by code_simp

lemma requirement_run:
  "capabilities_for engine_catalog (move_capabilities False) = Inr [move_requirement ''gen9.legality.move.selection'']"
  by code_simp

definition catalog_ids :: "string list" where
  "catalog_ids = definition_values engine_catalog"

lemma preflight_run: "preflight_capabilities engine_catalog
    = Inr (map move_requirement catalog_ids)"
  by code_simp

lemma sample_digest_filled [simp]: "sample_digest \<noteq> []"
  by (simp add: sample_digest_def)

lemma tackle_checked: "check_action (tackle_action (Some sample_root)) = Inr ()" "check_action (tackle_action None) = Inr ()"
  by (simp_all add: check_action_def tackle_action_def require_internal_id_def check_capabilities_def
      uniquely_sorted_def move_requirement_def sample_root_def sample_digest_text)

lemma bindings_run:
  "map_root_actions engine_manifest sample_safe sample_root [''tackle''] [''dragonite''] [''tackle''] False engine_catalog
     = Inr [tackle_binding]"
proof -
  have safe: "ss_submissions sample_safe = [tackle_submission]"
    by (simp add: sample_safe_def tackle_submission_def)
  have kind: "bs_kind tackle_submission = Move" "bs_terastallize tackle_submission = False"
    by (simp_all add: sample_safe_def tackle_submission_def)
  have choice: "submission_choice tackle_submission [''dragonite''] [''tackle''] = Inr ''tackle''"
    by code_simp
  have id: "engine_manifest (JObject [(''safe_submission_index'', JInt 0),
      (''submission_digest'', JString sample_digest)]) = Inr sample_digest"
    by (simp add: engine_manifest_def)
  have action: "make_action sample_digest ''move'' [move_requirement ''gen9.legality.move.selection'']
      (Some 0) (Some sample_root) = Inr (tackle_action (Some sample_root))"
    using tackle_checked(1) by (simp add: make_action_def tackle_action_def)
  show ?thesis
    by (simp add: map_root_actions_def safe map_root_action_def kind choice submission_run id requirement_run
        action tackle_binding_def)
qed

lemma from_string_run: "ne_from_string sample_engine (state_text ''100'' b) = Inr (Hp_State 100 b)"
  by (cases b) (simp_all add: sample_engine_def sample_states_def state_text_def)

lemma to_string_run: "ne_to_string sample_engine x = Inr t \<Longrightarrow> (t, x) \<in> set sample_states"
  by (auto simp: sample_engine_def find_Some_iff in_set_conv_nth split: option.splits)

lemma choices_run: "legal_choice_values x sample_model = (Inr ([''tackle''], [''tackle'']), sample_model)"
  by (simp add: legal_choice_values_def sample_model_def sample_engine_def texts_of_def)

lemma model_fields [simp]: "md_native sample_model = sample_engine" "md_catalog sample_model = engine_catalog"
  "md_backend_identity_digest sample_model = sample_digest"
  by (simp_all add: sample_model_def)

lemma view_run: "ne_view sample_engine (Hp_State 100 b)
  = \<lparr>nv_side_one = \<lparr>nd_pokemon = [sample_attacker], nd_active_index = 0, nd_force_switch = False\<rparr>,
     nv_side_two = \<lparr>nd_pokemon = [sample_attacker\<lparr>np_item := if b then ''leftovers'' else ''none''\<rparr>],
       nd_active_index = 0, nd_force_switch = False\<rparr>,
     nv_weather = ''none'', nv_terrain = ''none'', nv_trick_room = False\<rparr>"
  by (simp add: sample_engine_def sample_view_def sample_attacker_def)

lemma attacker_run: "lower (np_id sample_attacker) = ''dragonite''"
  "map (lower \<circ> nm_id) (np_moves sample_attacker) = [''tackle'']"
  by code_simp+

definition sample_report :: "report_classification \<Rightarrow> string list \<Rightarrow> int \<Rightarrow> mapping_report" where
  "sample_report c capability_ids work = \<lparr>mr_classification = c, mr_adapter_id = adapter_id,
     mr_adapter_version = adapter_version, mr_backend_identity_digest = sample_digest,
     mr_observed_state_digest = Some sample_digest, mr_request_identity_digest = Some sample_digest,
     mr_safe_submission_set_digest = Some sample_digest, mr_capability_ids = capability_ids,
     mr_work_units = work, mr_failure_class = None\<rparr>"

lemma report_run:
  assumes "uniquely_sorted ids" "ids = sort (remdups (map ci_value cs))" "0 \<le> work"
  shows "success_report c (Some sample_digest, Some sample_digest, Some sample_digest) cs work sample_model
    = (Inr (sample_report c ids work), sample_model)"
  using assms
  by (simp add: success_report_def make_report_def check_report_def sample_report_def adapter_tokens
      check_optional_digest_def)

lemma catalog_ids_run: "uniquely_sorted catalog_ids"
  "sort (remdups (map ci_value (map move_requirement catalog_ids))) = catalog_ids"
  by code_simp+

definition sample_payload :: "string \<Rightarrow> mapping_report \<Rightarrow> int \<Rightarrow> poke_world" where
  "sample_payload t report ply = \<lparr>po_native_state = t, po_observed_state_digest = sample_digest,
     po_root_player = ''p1'', po_view_digests = (sample_digest, sample_digest), po_active_indexes = (0, 0),
     po_active_types = ([''dragon'', ''flying''], [''dragon'', ''flying'']), po_terastallized = (False, False),
     po_terminal_outcome = None, po_public_hp = ((Percent, 100), (Percent, 100)),
     po_root_bindings = [tackle_binding], po_required_capabilities = map move_requirement catalog_ids,
     po_report = report, po_ply = ply\<rparr>"

definition sample_node :: "string \<Rightarrow> mapping_report \<Rightarrow> int \<Rightarrow> engine_world" where
  "sample_node t report ply = \<lparr>pw_opaque = sample_payload t report ply, pw_root_identity = sample_root,
     pw_root_actions = [tackle_action (Some sample_root)],
     pw_required_capabilities = map move_requirement catalog_ids\<rparr>"

lemma node_run: "make_world (sample_payload t report ply) sample_root [tackle_action (Some sample_root)]
    (map move_requirement catalog_ids) = Inr (sample_node t report ply)"
proof -
  have "map ci_value (map move_requirement catalog_ids) = catalog_ids"
    and digest: "\<And>v. ci_catalog_digest (move_requirement v) = sample_digest"
    by (simp_all add: move_requirement_def comp_def)
  moreover have "hd (map move_requirement catalog_ids) = move_requirement (hd catalog_ids)" by code_simp
  ultimately have "check_capabilities (map move_requirement catalog_ids) (Some sample_digest) = Inr ()"
    using catalog_ids_run(1) by (auto simp: check_capabilities_def list_all_iff)
  then show ?thesis
    by (simp add: make_world_def check_world_def sample_node_def root_action_at_def tackle_action_def sample_root_def)
qed

definition sample_prepared :: "bool \<Rightarrow> engine_world" where
  "sample_prepared b = sample_node (state_text ''100'' b) (sample_report Report_Mapped catalog_ids 0) 0"

lemma sample_prepared:
  "prepare_battle_root engine_manifest (\<lambda>_. None) sample_observation sample_safe (sample_document b) sample_digest
     None sample_model = (Inr (sample_prepared b), sample_model)"
proof -
  have seen: "ro_digest seen_root = sample_digest" "ro_root_player seen_root = ''p1''"
    "ro_public_hp seen_root = ((Percent, 100), (Percent, 100))"
    by (simp_all add: seen_root_def)
  have mapped: "ms_native_state (mapped_at t) = t" for t by (simp add: mapped_at_def)
  have active: "active_pokemon \<lparr>nd_pokemon = [sample_attacker], nd_active_index = 0, nd_force_switch = False\<rparr>
      = Inr sample_attacker"
    by (simp add: active_pokemon_def py_index_def)
  have ident: "rt_backend_identity_digest sample_root = sample_digest" "rt_capability_catalog_digest sample_root = sample_digest"
    by (simp_all add: sample_root_def)
  have node: "prepare_root (sample_payload (state_text ''100'' b) (sample_report Report_Mapped catalog_ids 0) 0) sample_root
      [tackle_action (Some sample_root)] sample_model = (Inr (sample_prepared b), sample_model)"
    using node_run [of "state_text ''100'' b" "sample_report Report_Mapped catalog_ids 0" 0]
    by (simp add: prepare_root_def ident sample_payload_def tackle_binding_def sample_prepared_def)
  have root: "prepare_mapped_root engine_manifest seen_root (mapped_at (state_text ''100'' b)) sample_safe
      (Some sample_digest, Some sample_digest, Some sample_digest) sample_root sample_model
      = (Inr (sample_prepared b), sample_model)"
    using node report_run [OF catalog_ids_run(1) catalog_ids_run(2) [symmetric], of 0 Report_Mapped]
    by (simp add: prepare_mapped_root_def mbind_def mreturn_def state_from_string_def mapped from_string_run
        choices_run seen view_run side_of_def active attacker_run bindings_run Let_def
        tackle_binding_def preflight_run mapped_at_def sample_payload_def)
  show ?thesis
    using root
    by (simp add: prepare_battle_root_def mbind_def mreturn_def mcatch_def observed_run request_run safe_run
        seen world_run root_run Let_def)
qed


definition reply_binding :: action_binding where
  "reply_binding = \<lparr>ab_action = tackle_action None, ab_native_choice = ''tackle'', ab_submission = None\<rparr>"

lemma reply_run: "map_native_actions engine_manifest [''tackle''] False engine_catalog = Inr [reply_binding]"
proof -
  have native: "is_switch_choice ''tackle'' = False" "is_move_choice ''tackle''" "ends_with ''-tera'' ''tackle'' = False"
    "map_ensure Unknown_Native_Choice (''tackle'' \<noteq> [] \<and> list_all is_ascii ''tackle'') = Inr ()"
    by code_simp+
  have id: "engine_manifest (JObject [(''kind'', JString ''move''), (''native_choice'', JString ''tackle'')])
      = Inr sample_digest"
    by (simp add: engine_manifest_def)
  have action: "make_action sample_digest ''move'' [move_requirement ''gen9.legality.move.selection''] None None
      = Inr (tackle_action None)"
    using tackle_checked(2) by (simp add: make_action_def tackle_action_def)
  show ?thesis
    by (simp add: map_native_actions_def map_native_action_def native [simplified] requirement_run id action reply_binding_def)
qed

lemma tackle_actions_differ: "tackle_action (Some sample_root) \<noteq> tackle_action None"
  by (simp add: tackle_action_def)

lemma node_fields [simp]: "pw_opaque (sample_node t r k) = sample_payload t r k"
  "pw_root_identity (sample_node t r k) = sample_root"
  "pw_root_actions (sample_node t r k) = [tackle_action (Some sample_root)]"
  "pw_required_capabilities (sample_node t r k) = map move_requirement catalog_ids"
  by (simp_all add: sample_node_def)

lemma chosen_run:
  "choose_bindings engine_manifest (sample_prepared b) (Hp_State 100 b) (tackle_action (Some sample_root))
     (tackle_action None) sample_model = (Inr (tackle_binding, reply_binding), sample_model)"
  by (simp add: choose_bindings_def mbind_def mreturn_def choices_run bindings_of_def at_root_def
      sample_prepared_def sample_payload_def native_bindings_def view_run side_of_def reply_run pick_def
      binding_for_action_def tackle_binding_def reply_binding_def)

lemma mapped_90:
  "map_native_state engine_manifest sample_engine (Hp_State 90 b) sample_digest
     (Some ((sample_digest, sample_digest), Hp_State 100 b)) ((Percent, 100), (Percent, 100))
     = Inr (mapped_at (state_text ''90'' b))"
  by (induct b) code_simp+

lemma mapped_80:
  "map_native_state engine_manifest sample_engine (Hp_State 80 b) sample_digest
     (Some ((sample_digest, sample_digest), Hp_State 100 b)) ((Percent, 100), (Percent, 100))
     = Inr (mapped_at (state_text ''80'' b))"
  by (induct b) code_simp+

lemma percentages_run: "off_hundred (decimal_sum [(625, -1), (375, -1)]) = False"
  "rat_of_decimal (625, -1) = 125 / 2" "rat_of_decimal (375, -1) = 75 / 2"
  by code_simp+


definition sample_weights :: "bool \<Rightarrow> (mapped_state \<times> rat) list" where
  "sample_weights b = [(mapped_at (state_text ''80'' b), 3 / 8), (mapped_at (state_text ''90'' b), 5 / 8)]"

lemma engine_fields:
  "ne_percentage sample_engine (Hp_Step 10) = Pct_Float 625 (-1)"
  "ne_percentage sample_engine (Hp_Step 20) = Pct_Float 375 (-1)"
  "ne_apply_instructions sample_engine (Hp_State 100 b) (Hp_Step 10) = Inr (Hp_State 90 b)"
  "ne_apply_instructions sample_engine (Hp_State 100 b) (Hp_Step 20) = Inr (Hp_State 80 b)"
  "ne_generate_instructions sample_engine x one two = Inr (Some [Hp_Step 10, Hp_Step 20])"
  by (simp_all add: sample_engine_def)

lemma sorted_texts: "state_text ''80'' b < state_text ''90'' b"
  by (induct b) code_simp+

lemma weights_run:
  "mapped_successors engine_manifest (Hp_State 100 b) (sample_prepared b) (Some [Hp_Step 10, Hp_Step 20]) sample_model
     = (Inr (sample_weights b), sample_model)"
proof -
  have "state_text ''80'' b \<noteq> state_text ''90'' b" using sorted_texts [of b] by simp
  then show ?thesis
    using sorted_texts [of b] less_imp_le [OF sorted_texts [of b]] leD [OF less_imp_le [OF sorted_texts [of b]]]
    by (simp add: mapped_successors_def engine_fields decimal_of_percentage_def percentages_run mbind_def mreturn_def
        apply_instruction_def sample_prepared_def sample_payload_def mapped_90 mapped_80 chance_weight_def mapped_at_def
        normalize_weights_def Let_def sort_key_def insort_key_def sample_weights_def)
qed

definition transition_ids :: "string list" where
  "transition_ids = [''gen9.transition.chance.damage-roll'', ''gen9.transition.move.direct-damage'',
     ''gen9.transition.order.priority'', ''gen9.transition.order.speed'',
     ''gen9.transition.terminal.detection'', ''gen9.transition.terminal.value'']"

lemma capabilities_run:
  "transition_capabilities engine_catalog (tackle_action (Some sample_root)) (tackle_action None)
     = Inr (map move_requirement transition_ids)"
  by code_simp

lemma required_run:
  "canonical_capabilities (map move_requirement catalog_ids @ map move_requirement transition_ids)
     = Inr (map move_requirement catalog_ids)"
  by code_simp

lemma transition_ids_run: "uniquely_sorted transition_ids"
  "sort (remdups (map ci_value (map move_requirement transition_ids))) = transition_ids"
  by code_simp+

definition sample_successor :: "string \<Rightarrow> string \<Rightarrow> int \<Rightarrow> poke_world transition_successor" where
  "sample_successor t i n = \<lparr>ts_outcome_id = i,
     ts_world = sample_node t (sample_report Report_Transitioned transition_ids 1) 1,
     ts_probability_numerator = n\<rparr>"

lemma shares_run: "numerator_of (5 / 8) * (8 div denominator_of (5 / 8)) = 5"
  "numerator_of (3 / 8) * (8 div denominator_of (3 / 8)) = 3"
  by code_simp+

lemma denominator_run: "common_denominator (sample_weights b) = 8"
  by (induct b) code_simp+

lemma outcome_ids_run:
  "engine_manifest (JObject [(''native_state_digest'', JString (''sha256:'' @ state_text ''90'' b)), (''ply'', JInt 1)]) = Inr sample_digest"
  "engine_manifest (JObject [(''native_state_digest'', JString (''sha256:'' @ state_text ''80'' b)), (''ply'', JInt 1)]) = Inr other_digest"
  by (simp_all add: engine_manifest_def state_text_def)

lemma successor_step:
  assumes "engine_manifest (JObject [(''native_state_digest'', JString (''sha256:'' @ t)), (''ply'', JInt 1)]) = Inr i"
    and "is_digest_text i" "numerator_of q * (8 div denominator_of q) = n" "0 < n"
  shows "successor_of engine_manifest (\<lambda>t. t) (sample_prepared b) (map move_requirement transition_ids) 8
     (mapped_at t, q) sample_model = (Inr (sample_successor t i n), sample_model)"
proof -
  have filled: "i \<noteq> []" using assms(2) by (auto simp: is_digest_text_def)
  have node: "make_world (sample_payload t (sample_report Report_Transitioned transition_ids 1) 1) sample_root
      [tackle_action (Some sample_root)] (map move_requirement catalog_ids)
      = Inr (sample_node t (sample_report Report_Transitioned transition_ids 1) 1)"
    by (rule node_run)
  have report: "success_report Report_Transitioned (Some sample_digest, Some sample_digest, Some sample_digest)
      (map move_requirement transition_ids) 1 sample_model
      = (Inr (sample_report Report_Transitioned transition_ids 1), sample_model)"
    by (rule report_run) (simp_all add: transition_ids_run [simplified])
  have fields: "mr_request_identity_digest (sample_report c ids w) = Some sample_digest"
    "mr_safe_submission_set_digest (sample_report c ids w) = Some sample_digest" for c ids w
    by (simp_all add: sample_report_def)
  show ?thesis
    using assms
    by (simp add: successor_of_def Let_def mbind_def mreturn_def sample_prepared_def sample_payload_def fields report
        required_run node [unfolded sample_payload_def] mapped_at_def check_successor_def require_internal_id_def filled
        sample_successor_def)
qed

lemma sample_successors_run:
  "successors_of engine_manifest (\<lambda>t. t) (sample_prepared b) (map move_requirement transition_ids) (sample_weights b) sample_model
     = (Inr [sample_successor (state_text ''90'' b) sample_digest 5, sample_successor (state_text ''80'' b) other_digest 3], sample_model)"
proof -
  have "successor_of engine_manifest (\<lambda>t. t) (sample_prepared b) (map move_requirement transition_ids) 8
      (mapped_at (state_text ''80'' b), 3 / 8) sample_model = (Inr (sample_successor (state_text ''80'' b) other_digest 3), sample_model)"
    by (rule successor_step [OF outcome_ids_run(2) other_digest_text shares_run(2)]) simp
  moreover have "successor_of engine_manifest (\<lambda>t. t) (sample_prepared b) (map move_requirement transition_ids) 8
      (mapped_at (state_text ''90'' b), 5 / 8) sample_model = (Inr (sample_successor (state_text ''90'' b) sample_digest 5), sample_model)"
    by (rule successor_step [OF outcome_ids_run(1) sample_digest_text shares_run(1)]) simp
  moreover have "sample_digest < other_digest" by code_simp
  ultimately show ?thesis
    by (simp add: successors_of_def denominator_run sample_weights_def [symmetric])
      (simp add: sample_weights_def mbind_def mreturn_def sort_key_def insort_key_def sample_successor_def)
qed

definition sample_outcome :: "bool \<Rightarrow> poke_world transition_outcome" where
  "sample_outcome b = \<lparr>to_successors = [sample_successor (state_text ''90'' b) sample_digest 5, sample_successor (state_text ''80'' b) other_digest 3],
     to_probability_denominator = 8, to_work = 1, to_required_capabilities = map move_requirement transition_ids\<rparr>"

lemma outcome_run:
  "make_outcome [sample_successor (state_text ''90'' b) sample_digest 5, sample_successor (state_text ''80'' b) other_digest 3]
     (map move_requirement transition_ids) = Inr (sample_outcome b)"
proof -
  have "uniquely_sorted [sample_digest, other_digest]" by code_simp
  moreover have "check_capabilities (map move_requirement transition_ids) (Some sample_digest) = Inr ()" by code_simp
  moreover have "rt_capability_catalog_digest sample_root = sample_digest" by (simp add: sample_root_def)
  ultimately show ?thesis
    by (simp add: make_outcome_def check_outcome_value_def sample_successor_def sample_outcome_def successor_root_def)
qed

lemma sample_transition:
  "transition engine_manifest (\<lambda>t. t) (sample_prepared b) (tackle_action (Some sample_root)) (tackle_action None) sample_model
     = (Inr (sample_outcome b), sample_model)"
proof -
  have "validate_against_source (sample_outcome b) (sample_prepared b) = Inr ()"
    by (simp add: validate_against_source_def preserves_root_def sample_outcome_def successor_root_def
        sample_successor_def sample_prepared_def)
  moreover have "po_native_state (pw_opaque (sample_prepared b)) = state_text ''100'' b"
    by (simp add: sample_prepared_def sample_payload_def)
  ultimately show ?thesis
    by (simp add: transition_def mbind_def mreturn_def mcatch_def state_from_string_def from_string_run
        chosen_run generate_instructions_def engine_fields weights_run capabilities_run sample_successors_run outcome_run)
qed

text \<open>What the first side's player sees does not depend on the item.\<close>

lemma sample_alike:
  "looks_alike ''p1'' ((Percent, 100), (Percent, 100)) (ne_view sample_engine (Hp_State n False))
    (ne_view sample_engine (Hp_State n True))"
  by (simp add: sample_engine_def sample_view_def looks_alike_def side_of_def other_player_def
      pick_def same_own_side_def same_shown_side_def active_pokemon_def py_index_def same_shown_def)

lemma to_string_state:
  assumes "ne_to_string sample_engine x = Inr (state_text ''90'' b)"
  shows "x = Hp_State 90 b"
proof -
  have "(state_text ''90'' b, x) \<in> set sample_states" by (rule to_string_run [OF assms])
  then show ?thesis by (cases b) (simp_all add: sample_states_def state_text_def)
qed

section \<open>A failing native call\<close>

definition broken_world :: engine_world where
  "broken_world = sample_node ''70'' (sample_report Report_Mapped catalog_ids 0) 0"

lemma broken_run: "\<exists>e. legal_actions engine_manifest broken_world ''p2'' sample_model
    = (Inl e, sample_model\<lparr>md_backend_health := Unhealthy\<rparr>)"
proof -
  have "ne_from_string sample_engine ''70'' = Inl Native_Raised"
    by (simp add: sample_engine_def sample_states_def)
  moreover obtain e where "failure_with sample_digest Malformed_Native_Result no_digests 0
      = (Inl e :: engine_exc + sample_native)"
    using failure_with_Inl by blast
  ultimately show ?thesis
    by (simp add: legal_actions_def player_index_def mbind_def mreturn_def at_root_def broken_world_def
        sample_payload_def deep_bindings_def state_from_string_def mark_unhealthy_def raise_failure_def)
qed

text \<open>A level that is no positive integer is reported as an exception of native code.\<close>

definition bad_level_document :: json where
  "bad_level_document = (case sample_pokemon_document False of
     JObject d \<Rightarrow> JObject (AList.update ''level'' (JInt 0) d) | v \<Rightarrow> v)"

theorem bad_level_is_native_exception:
  "build_pokemon sample_engine (sample_pokemon_document False) = Inr (Hp_State 100 False)
   \<and> build_pokemon sample_engine bad_level_document = Inl (Mapping_Error Native_Exception)"
  by code_simp

section \<open>A fainted lead\<close>

definition fainted_token :: hp_token where
  "fainted_token = \<lparr>tok_current = 0, tok_maximum = 1, tok_status = None, tok_fainted = True\<rparr>"

definition fainted_lead :: "battle_event list" where
  "fainted_lead =
     [Metadata (PlayerDeclared 0 ''p1'' ''alice'' ''Alice''),
      Pokemon (PokemonSwitched 2 ''p2'' 1 ''Blob'' ''Ditto'' sample_hp),
      Pokemon (HealthChanged 3 ''p2'' (Some 1) ''Blob'' fainted_token []),
      Pokemon (PokemonSwitched 4 ''p2'' 1 ''Pika'' ''Pikachu, M'' sample_hp)]"

definition shown_hp :: "side_view \<Rightarrow> (bool \<times> hp_precision option) list" where
  "shown_hp s = map (\<lambda>p. (pv_active p, map_option hp_precision (pv_hp p))) (sv_pokemon s)"

lemma fainted_lead_run:
  "case efold reduce_event (initial_state ''alice'') fainted_lead of
     Inl _ \<Rightarrow> False
   | Inr st \<Rightarrow> sv_active_slot (os_p2 st) = Some 1
       \<and> shown_hp (os_p2 st) = [(False, Some Pixel), (True, Some Percent)]
       \<and> map_option hp_maximum (pv_hp (hd (sv_pokemon (os_p2 st)))) = Some 1"
  by code_simp

end
