(* ===== verification/Oracle_Protocol.thy ===== *)
theory Oracle_Protocol
  imports Json Wire
begin

text \<open>
  \<open>battlebelief_lab/oracle/showdown/protocol.py\<close>: the codec between the evaluation oracle and a
  local simulator process. A \<open>decoder\<close> is the state of \<open>ShowdownProtocolDecoder\<close>; \<open>feed\<close>
  takes a chunk of output, \<open>finish\<close> the end of it. A byte is the \<open>char\<close> of its value, and UTF-8 is
  decoded to code points; a text with a code point above U+00FF, which a \<open>string\<close> of the
  development does not hold, ends in \<open>Beyond_Latin1_Text\<close>, outside of the model.
  The canonicalizer of JSON (a third-party package, \<open>None\<close> where it raises), the hexadecimal
  SHA-256 and the Unicode table
  of normalization forms are arguments. The lemmas show that frames are decoded one by one
  wherever the chunks are cut, that what is decoded follows the grammar \<open>transcript\<close>, and that
  commands come back from their encoding.
\<close>

type_synonym bytes = string

record oracle_text =
  ot_is_nfc :: "string \<Rightarrow> bool"
  ot_canonicalize :: "json \<Rightarrow> bytes option"
  ot_sha256 :: "bytes \<Rightarrow> string"

section \<open>Failures\<close>

datatype oracle_failure_class =
    NODE_NOT_FOUND | NODE_VERSION_NOT_APPROVED | SOURCE_MISSING | SOURCE_COMMIT_MISMATCH
  | SOURCE_DIRTY | LICENSE_MISMATCH | LOCKFILE_MISMATCH | NPM_VERSION_MISMATCH | BUILD_FAILED
  | BUILD_OUTPUT_MISSING | START_TIMEOUT | WRITE_TIMEOUT | RESPONSE_TIMEOUT | FIXTURE_TIMEOUT
  | MALFORMED_OUTPUT | PROTOCOL_DESYNCHRONIZATION | RULESET_REJECTED | PROCESS_CRASH
  | UNEXPECTED_EXIT_CODE | SHUTDOWN_FAILED | ORPHANED_CHILD_PROCESS | EXTERNAL_NETWORK_ATTEMPT
  | INPUT_TOO_LARGE | OUTPUT_TOO_LARGE | TOOL_INPUT_INVALID

fun oracle_failure_value :: "oracle_failure_class \<Rightarrow> string" where
  "oracle_failure_value NODE_NOT_FOUND = ''node_not_found''"
| "oracle_failure_value NODE_VERSION_NOT_APPROVED = ''node_version_not_approved''"
| "oracle_failure_value SOURCE_MISSING = ''source_missing''"
| "oracle_failure_value SOURCE_COMMIT_MISMATCH = ''source_commit_mismatch''"
| "oracle_failure_value SOURCE_DIRTY = ''source_dirty''"
| "oracle_failure_value LICENSE_MISMATCH = ''license_mismatch''"
| "oracle_failure_value LOCKFILE_MISMATCH = ''lockfile_mismatch''"
| "oracle_failure_value NPM_VERSION_MISMATCH = ''npm_version_mismatch''"
| "oracle_failure_value BUILD_FAILED = ''build_failed''"
| "oracle_failure_value BUILD_OUTPUT_MISSING = ''build_output_missing''"
| "oracle_failure_value START_TIMEOUT = ''start_timeout''"
| "oracle_failure_value WRITE_TIMEOUT = ''write_timeout''"
| "oracle_failure_value RESPONSE_TIMEOUT = ''response_timeout''"
| "oracle_failure_value FIXTURE_TIMEOUT = ''fixture_timeout''"
| "oracle_failure_value MALFORMED_OUTPUT = ''malformed_output''"
| "oracle_failure_value PROTOCOL_DESYNCHRONIZATION = ''protocol_desynchronization''"
| "oracle_failure_value RULESET_REJECTED = ''ruleset_rejected''"
| "oracle_failure_value PROCESS_CRASH = ''process_crash''"
| "oracle_failure_value UNEXPECTED_EXIT_CODE = ''unexpected_exit_code''"
| "oracle_failure_value SHUTDOWN_FAILED = ''shutdown_failed''"
| "oracle_failure_value ORPHANED_CHILD_PROCESS = ''orphaned_child_process''"
| "oracle_failure_value EXTERNAL_NETWORK_ATTEMPT = ''external_network_attempt''"
| "oracle_failure_value INPUT_TOO_LARGE = ''input_too_large''"
| "oracle_failure_value OUTPUT_TOO_LARGE = ''output_too_large''"
| "oracle_failure_value TOOL_INPUT_INVALID = ''tool_input_invalid''"

text \<open>
  \<open>Value_Raised\<close> is a plain \<open>ValueError\<close>, \<open>Unicode_Decode_Error\<close> its subclass, \<open>Exception_Raised\<close>
  any exception of a library that the source does not name.
\<close>

datatype oracle_error =
    OracleProtocolError oracle_failure_class
  | OracleProcessError oracle_failure_class
  | Value_Raised
  | Type_Raised
  | Exception_Raised
  | Unicode_Decode_Error
  | Beyond_Latin1_Text

section \<open>UTF-8\<close>

text \<open>A continuation byte, within the range its predecessor leaves it, and its six bits.\<close>

definition continues :: "nat \<Rightarrow> nat \<Rightarrow> char \<Rightarrow> bool" where
  "continues lo hi b \<longleftrightarrow> lo \<le> code b \<and> code b \<le> hi"

definition six_bits :: "char \<Rightarrow> nat" where
  "six_bits b = code b - 128"

text \<open>\<open>bytes.decode("utf-8", errors="strict")\<close>; \<open>None\<close> is \<open>UnicodeDecodeError\<close>.\<close>

fun utf8_decode :: "bytes \<Rightarrow> nat list option" where
  "utf8_decode [] = Some []"
| "utf8_decode (a # s) =
     (if code a < 128 then map_option ((#) (code a)) (utf8_decode s)
      else if 194 \<le> code a \<and> code a \<le> 223 then
        (case s of
           b # t \<Rightarrow>
             if continues 128 191 b
             then map_option ((#) ((code a - 192) * 64 + six_bits b)) (utf8_decode t)
             else None
         | _ \<Rightarrow> None)
      else if 224 \<le> code a \<and> code a \<le> 239 then
        (case s of
           b # c # t \<Rightarrow>
             if continues (if code a = 224 then 160 else 128) (if code a = 237 then 159 else 191) b
               \<and> continues 128 191 c
             then map_option ((#) (((code a - 224) * 64 + six_bits b) * 64 + six_bits c)) (utf8_decode t)
             else None
         | _ \<Rightarrow> None)
      else if 240 \<le> code a \<and> code a \<le> 244 then
        (case s of
           b # c # d # t \<Rightarrow>
             if continues (if code a = 240 then 144 else 128) (if code a = 244 then 143 else 191) b
               \<and> continues 128 191 c \<and> continues 128 191 d
             then map_option
               ((#) ((((code a - 240) * 64 + six_bits b) * 64 + six_bits c) * 64 + six_bits d))
               (utf8_decode t)
             else None
         | _ \<Rightarrow> None)
      else None)"

definition utf8_char :: "char \<Rightarrow> bytes" where
  "utf8_char c =
     (if code c < 128 then [c] else [char_of (192 + code c div 64), char_of (128 + code c mod 64)])"

definition utf8_encode :: "string \<Rightarrow> bytes" where
  "utf8_encode s = concat (map utf8_char s)"

definition decode_text :: "bytes \<Rightarrow> oracle_error + string" where
  "decode_text raw =
     (case utf8_decode raw of
        None \<Rightarrow> Inl Unicode_Decode_Error
      | Some points \<Rightarrow>
          if \<forall>p\<in>set points. p < 256 then Inr (map char_of points) else Inl Beyond_Latin1_Text)"

section \<open>JSON\<close>

definition add_key ::
    "(string \<times> json) list \<Rightarrow> string \<times> json \<Rightarrow> json_error + (string \<times> json) list" where
  "add_key result pair =
     (if fst pair \<in> fst ` set result then Inl Json_Hook_Error else Inr (result @ [pair]))"

definition reject_duplicate_keys :: "(string \<times> json) list \<Rightarrow> json_error + json" where
  "reject_duplicate_keys pairs = ebind (efold add_key [] pairs) (\<lambda>result. Inr (JObject result))"

definition reject_nonfinite :: "string \<Rightarrow> json_error + json" where
  "reject_nonfinite value = Inl Json_Hook_Error"

text \<open>
  A literal of a JSON float as a whole number times a power of ten. \<open>float\<close> of it is finite below
  the midpoint between the largest binary64 number and the next power of two.
\<close>

definition float_parts :: "string \<Rightarrow> int \<times> int" where
  "float_parts value =
     (let t = remove_prefix ''-'' value;
          whole = takeWhile is_dec t;
          u = dropWhile is_dec t;
          fraction = (if starts_with ''.'' u then takeWhile is_dec (drop 1 u) else []);
          v = (if starts_with ''.'' u then dropWhile is_dec (drop 1 u) else u);
          e = drop 1 v;
          exponent = (if starts_with ''-'' e then - digits_value (drop 1 e)
            else digits_value (remove_prefix ''+'' e))
      in (digits_value (whole @ fraction), exponent - int (length fraction)))"

definition float_is_finite :: "string \<Rightarrow> bool" where
  "float_is_finite value =
     (let (m, e) = float_parts value
      in if 0 \<le> e then m * 10 ^ nat e < 2 ^ 1024 - 2 ^ 970
         else m < (2 ^ 1024 - 2 ^ 970) * 10 ^ nat (- e))"

definition parse_finite_float :: "string \<Rightarrow> json_error + json" where
  "parse_finite_float value =
     (if float_is_finite value then Inr (JFloat value) else Inl Json_Hook_Error)"

definition strict_hooks :: json_hooks where
  "strict_hooks = \<lparr>jh_pairs = reject_duplicate_keys, jh_constant = reject_nonfinite,
     jh_float = parse_finite_float\<rparr>"

fun is_nfc_json :: "oracle_text \<Rightarrow> json \<Rightarrow> bool" where
  "is_nfc_json ot (JString s) \<longleftrightarrow> ot_is_nfc ot s"
| "is_nfc_json ot (JList vs) \<longleftrightarrow> list_all (is_nfc_json ot) vs"
| "is_nfc_json ot (JObject kvs) \<longleftrightarrow>
     list_all (\<lambda>kv. ot_is_nfc ot (fst kv) \<and> is_nfc_json ot (snd kv)) kvs"
| "is_nfc_json ot _ \<longleftrightarrow> True"

definition load_json :: "oracle_text \<Rightarrow> string \<Rightarrow> oracle_error + json" where
  "load_json ot payload =
     (case json_loads_with strict_hooks payload of
        Inl Json_Beyond_Latin1 \<Rightarrow> Inl Beyond_Latin1_Text
      | Inl _ \<Rightarrow> Inl (OracleProtocolError MALFORMED_OUTPUT)
      | Inr value \<Rightarrow>
          if \<not> is_nfc_json ot value \<or> ot_canonicalize ot value = None
          then Inl (OracleProtocolError MALFORMED_OUTPUT) else Inr value)"

definition canonical_json :: "oracle_text \<Rightarrow> string \<Rightarrow> bool \<Rightarrow> oracle_error + bytes" where
  "canonical_json ot payload allow_null =
     ebind (load_json ot payload) (\<lambda>value.
       if value = JNull \<and> allow_null then Inr ''null''
       else (case value of
          JObject _ \<Rightarrow> of_option Value_Raised (ot_canonicalize ot value)
        | _ \<Rightarrow> Inl (OracleProtocolError PROTOCOL_DESYNCHRONIZATION)))"

section \<open>Messages\<close>

datatype oracle_message =
    UpdateMessage "string list"
  | SideUpdateMessage string "string list" bytes
  | SideErrorMessage string string
  | EndMessage bytes

definition player_sides :: "string list" where
  "player_sides = [''p1'', ''p2'']"

definition validate_protocol_lines :: "string list \<Rightarrow> oracle_error + unit" where
  "validate_protocol_lines lines =
     ebind (raise_if (lines = [] \<or> (\<exists>line\<in>set lines. \<not> starts_with ''|'' line))
       (OracleProtocolError PROTOCOL_DESYNCHRONIZATION)) (\<lambda>_.
     raise_if (\<exists>line\<in>set lines. starts_with ''|error|'' line)
       (OracleProtocolError RULESET_REJECTED))"

definition is_timestamp_line :: "string \<Rightarrow> bool" where
  "is_timestamp_line line \<longleftrightarrow> starts_with ''|t:|'' line
     \<and> drop 4 line \<noteq> [] \<and> list_all is_dec (drop 4 line)"

definition semantic_lines :: "string list \<Rightarrow> string list" where
  "semantic_lines lines = filter (\<lambda>line. \<not> is_timestamp_line line) lines"

definition decode_update :: "string list \<Rightarrow> oracle_error + oracle_message" where
  "decode_update lines =
     ebind (validate_protocol_lines lines) (\<lambda>_. Inr (UpdateMessage (semantic_lines lines)))"

definition decode_sideupdate :: "oracle_text \<Rightarrow> string list \<Rightarrow> oracle_error + oracle_message" where
  "decode_sideupdate ot lines =
     (case lines of
        [side, line] \<Rightarrow>
          if side \<notin> set player_sides then Inl (OracleProtocolError PROTOCOL_DESYNCHRONIZATION)
          else if starts_with ''|error|'' line \<and> length ''|error|'' < length line
          then Inr (SideErrorMessage side line)
          else if \<not> starts_with ''|request|'' line
          then Inl (OracleProtocolError PROTOCOL_DESYNCHRONIZATION)
          else
            ebind (canonical_json ot (remove_prefix ''|request|'' line) True) (\<lambda>request_json.
            ebind (decode_text request_json) (\<lambda>text.
              Inr (SideUpdateMessage side [''|request|'' @ text] request_json)))
      | _ \<Rightarrow> Inl (OracleProtocolError PROTOCOL_DESYNCHRONIZATION))"

definition decode_end :: "oracle_text \<Rightarrow> string list \<Rightarrow> oracle_error + oracle_message" where
  "decode_end ot lines =
     (case lines of
        [line] \<Rightarrow> ebind (canonical_json ot line False) (\<lambda>log_json. Inr (EndMessage log_json))
      | _ \<Rightarrow> Inl (OracleProtocolError PROTOCOL_DESYNCHRONIZATION))"

section \<open>The decoder\<close>

record decoder =
  dc_max_frame_bytes :: int
  dc_max_buffer_bytes :: int
  dc_buffer :: bytes
  dc_started :: bool
  dc_ended :: bool
  dc_finished :: bool
  dc_failed :: bool

definition default_max_frame_bytes :: int where "default_max_frame_bytes = 4 * 1024 * 1024"

definition default_max_command_bytes :: int where "default_max_command_bytes = 1024 * 1024"

definition default_max_input_bytes :: int where "default_max_input_bytes = 16 * 1024 * 1024"

definition new_decoder :: "int \<Rightarrow> int \<Rightarrow> oracle_error + decoder" where
  "new_decoder max_frame_bytes max_buffer_bytes =
     (if max_frame_bytes \<le> 0 \<or> max_buffer_bytes \<le> 0 then Inl Value_Raised
      else Inr \<lparr>dc_max_frame_bytes = max_frame_bytes, dc_max_buffer_bytes = max_buffer_bytes,
        dc_buffer = [], dc_started = False, dc_ended = False, dc_finished = False,
        dc_failed = False\<rparr>)"

definition frame_text :: "oracle_text \<Rightarrow> bytes \<Rightarrow> oracle_error + string" where
  "frame_text ot frame =
     (case decode_text frame of
        Inl Unicode_Decode_Error \<Rightarrow> Inl (OracleProtocolError MALFORMED_OUTPUT)
      | Inl e \<Rightarrow> Inl e
      | Inr text \<Rightarrow>
          if carriage_return \<in> set text \<or> CHR 0x00 \<in> set text \<or> \<not> ot_is_nfc ot text
          then Inl (OracleProtocolError MALFORMED_OUTPUT) else Inr text)"

definition is_side_update :: "oracle_message \<Rightarrow> bool" where
  "is_side_update m \<longleftrightarrow> (case m of SideUpdateMessage _ _ _ \<Rightarrow> True | _ \<Rightarrow> False)"

text \<open>\<open>_decode_frame\<close>; a frame that raises leaves the decoder alone.\<close>

definition decode_frame_message ::
    "oracle_text \<Rightarrow> decoder \<Rightarrow> bytes \<Rightarrow> oracle_error + (oracle_message \<times> decoder)" where
  "decode_frame_message ot d frame =
     (if frame = [] then Inl (OracleProtocolError PROTOCOL_DESYNCHRONIZATION)
      else ebind (frame_text ot frame) (\<lambda>text.
        let lines = split_on newline text; frame_kind = hd lines in
        if dc_ended d then Inl (OracleProtocolError PROTOCOL_DESYNCHRONIZATION)
        else if frame_kind = ''update'' then
          ebind (decode_update (tl lines)) (\<lambda>m. Inr (m, d\<lparr>dc_started := True\<rparr>))
        else if frame_kind = ''sideupdate'' then
          ebind (decode_sideupdate ot (tl lines)) (\<lambda>m.
            if is_side_update m \<and> \<not> dc_started d
            then Inl (OracleProtocolError PROTOCOL_DESYNCHRONIZATION) else Inr (m, d))
        else if frame_kind = ''end'' then
          (if \<not> dc_started d then Inl (OracleProtocolError PROTOCOL_DESYNCHRONIZATION)
           else ebind (decode_end ot (tl lines)) (\<lambda>m. Inr (m, d\<lparr>dc_ended := True\<rparr>)))
        else Inl (OracleProtocolError PROTOCOL_DESYNCHRONIZATION)))"

definition delimiter :: bytes where "delimiter = [newline, newline]"

lemma decode_frame_message_keeps:
  "decode_frame_message ot d frame = Inr (m, d') \<Longrightarrow>
   dc_buffer d' = dc_buffer d \<and> dc_max_frame_bytes d' = dc_max_frame_bytes d
   \<and> dc_max_buffer_bytes d' = dc_max_buffer_bytes d \<and> dc_finished d' = dc_finished d
   \<and> dc_failed d' = dc_failed d"
  by (auto simp: decode_frame_message_def Let_def ebind_eq_Inr split: if_splits)

text \<open>The loop of \<open>feed\<close> over the complete frames of the buffer.\<close>

function feed_loop ::
    "oracle_text \<Rightarrow> decoder \<Rightarrow> oracle_message list \<Rightarrow>
     (oracle_error + oracle_message list) \<times> decoder" where
  "feed_loop ot d messages =
     (case cut_at delimiter (dc_buffer d) of
        None \<Rightarrow> (Inr messages, d)
      | Some (frame, rest) \<Rightarrow>
          let d' = d\<lparr>dc_buffer := rest\<rparr> in
          if dc_max_frame_bytes d < int (length frame)
          then (Inl (OracleProtocolError OUTPUT_TOO_LARGE), d')
          else (case decode_frame_message ot d' frame of
              Inl e \<Rightarrow> (Inl e, d')
            | Inr (m, d'') \<Rightarrow> feed_loop ot d'' (messages @ [m])))"
  by pat_completeness auto
termination
  by (relation "measure (\<lambda>(ot, d, messages). length (dc_buffer d))")
    (auto dest!: cut_at_length decode_frame_message_keeps simp: delimiter_def)

declare feed_loop.simps [simp del]

definition feed ::
    "oracle_text \<Rightarrow> decoder \<Rightarrow> bytes \<Rightarrow> (oracle_error + oracle_message list) \<times> decoder" where
  "feed ot d chunk =
     (if dc_failed d \<or> dc_finished d then (Inl (OracleProtocolError PROTOCOL_DESYNCHRONIZATION), d)
      else (case feed_loop ot (d\<lparr>dc_buffer := dc_buffer d @ chunk\<rparr>) [] of
          (Inl (OracleProtocolError f), d') \<Rightarrow> (Inl (OracleProtocolError f), d'\<lparr>dc_failed := True\<rparr>)
        | (Inl e, d') \<Rightarrow> (Inl e, d')
        | (Inr messages, d') \<Rightarrow>
            if min (dc_max_frame_bytes d') (dc_max_buffer_bytes d') < int (length (dc_buffer d'))
            then (Inl (OracleProtocolError OUTPUT_TOO_LARGE), d'\<lparr>dc_failed := True\<rparr>)
            else (Inr messages, d')))"

definition finish :: "decoder \<Rightarrow> (oracle_error + unit) \<times> decoder" where
  "finish d =
     (if dc_finished d then (Inr (), d)
      else if dc_failed d then (Inl (OracleProtocolError PROTOCOL_DESYNCHRONIZATION), d)
      else
        (let d' = d\<lparr>dc_finished := True\<rparr> in
         if dc_buffer d \<noteq> [] then
           (Inl (OracleProtocolError (if utf8_decode (dc_buffer d) = None then MALFORMED_OUTPUT
              else PROTOCOL_DESYNCHRONIZATION)), d')
         else if \<not> dc_ended d then (Inl (OracleProtocolError PROTOCOL_DESYNCHRONIZATION), d')
         else (Inr (), d')))"

section \<open>Commands\<close>

definition command_shape_ok :: "oracle_text \<Rightarrow> string \<Rightarrow> bool" where
  "command_shape_ok ot command \<longleftrightarrow> starts_with ''>'' command \<and> carriage_return \<notin> set command
     \<and> newline \<notin> set command \<and> CHR 0x00 \<notin> set command \<and> ot_is_nfc ot command"

definition encode_command ::
    "oracle_text \<Rightarrow> int \<Rightarrow> int \<Rightarrow> bytes list \<times> int \<Rightarrow> string \<Rightarrow> oracle_error + (bytes list \<times> int)" where
  "encode_command ot max_command_bytes max_total_bytes acc command =
     (if \<not> command_shape_ok ot command then Inl (OracleProtocolError PROTOCOL_DESYNCHRONIZATION)
      else
        (let encoded = utf8_encode command; total_bytes = snd acc + int (length encoded) + 1 in
         if max_command_bytes < int (length encoded) then Inl (OracleProtocolError INPUT_TOO_LARGE)
         else if max_total_bytes < total_bytes then Inl (OracleProtocolError INPUT_TOO_LARGE)
         else Inr (fst acc @ [encoded @ [newline]], total_bytes)))"

definition encode_commands :: "oracle_text \<Rightarrow> int \<Rightarrow> int \<Rightarrow> string list \<Rightarrow> oracle_error + bytes" where
  "encode_commands ot max_command_bytes max_total_bytes commands =
     (if max_command_bytes \<le> 0 \<or> max_total_bytes \<le> 0 then Inl Value_Raised
      else if commands = [] then Inl (OracleProtocolError PROTOCOL_DESYNCHRONIZATION)
      else ebind (efold (encode_command ot max_command_bytes max_total_bytes) ([], 0) commands)
        (\<lambda>acc. Inr (concat (fst acc))))"

section \<open>The cuts between chunks\<close>

lemma starts_with_longer: "starts_with p s \<Longrightarrow> starts_with p (s @ t)"
  by (auto simp: starts_with_iff)

lemma cut_at_append: "cut_at sep s = Some (a, b) \<Longrightarrow> cut_at sep (s @ t) = Some (a, b @ t)"
proof (induction s arbitrary: a)
  case Nil
  then show ?case by (cases t) (auto simp: starts_with_def split: if_splits)
next
  case (Cons c s)
  show ?case
  proof (cases "starts_with sep (c # s)")
    case True
    then have "length sep \<le> length (c # s)" unfolding starts_with_iff by (metis length_append le_add1)
    then have "drop (length sep) (c # s @ t) = drop (length sep) (c # s) @ t"
      by (cases "length sep") auto
    with True Cons.prems starts_with_longer [OF True, of t] show ?thesis by auto
  next
    case False
    with Cons.prems obtain a' where a': "a = c # a'" "cut_at sep s = Some (a', b)"
      by (auto split: if_splits)
    from Cons.IH [OF a'(2)] have "cut_at sep (s @ t) = Some (a', b @ t)" .
    moreover have "\<not> starts_with sep (c # s @ t)"
    proof
      assume st: "starts_with sep (c # s @ t)"
      then have "take (length sep) (c # s @ t) = sep" by (simp add: starts_with_def)
      moreover have "length sep \<le> length (c # s)" using cut_at_Some [OF a'(2)] by simp
      then have "take (length sep) (c # s @ t) = take (length sep) (c # s)"
        by (cases "length sep") auto
      ultimately show False using False by (simp add: starts_with_def)
    qed
    ultimately show ?thesis using a'(1) by simp
  qed
qed

text \<open>
  The complete frames of a buffer and what is left of it. The loop of \<open>feed\<close> is the run of the
  machine \<open>frame_step\<close> over them.
\<close>

function cut_frames :: "bytes \<Rightarrow> bytes list \<times> bytes" where
  "cut_frames buffer =
     (case cut_at delimiter buffer of
        None \<Rightarrow> ([], buffer)
      | Some (frame, rest) \<Rightarrow> (frame # fst (cut_frames rest), snd (cut_frames rest)))"
  by pat_completeness auto
termination
  by (relation "measure length") (auto dest: cut_at_length simp: delimiter_def)

declare cut_frames.simps [simp del]

definition frame_step ::
    "oracle_text \<Rightarrow> decoder \<times> oracle_message list \<Rightarrow> bytes \<Rightarrow>
     oracle_error + (decoder \<times> oracle_message list)" where
  "frame_step ot s frame =
     (if dc_max_frame_bytes (fst s) < int (length frame)
      then Inl (OracleProtocolError OUTPUT_TOO_LARGE)
      else ebind (decode_frame_message ot (fst s) frame) (\<lambda>(m, d). Inr (d, snd s @ [m])))"

lemma frame_step_pair:
  "frame_step ot (d, ms) f =
     (if dc_max_frame_bytes d < int (length f) then Inl (OracleProtocolError OUTPUT_TOO_LARGE)
      else (case decode_frame_message ot d f of Inl e \<Rightarrow> Inl e | Inr (m, d') \<Rightarrow> Inr (d', ms @ [m])))"
  by (simp add: frame_step_def ebind_def split: sum.split prod.split)

lemma cut_frames_None: "cut_at delimiter b = None \<Longrightarrow> cut_frames b = ([], b)"
  by (simp add: cut_frames.simps [of b])

lemma cut_frames_Some:
  "cut_at delimiter b = Some (f, r) \<Longrightarrow> cut_frames b = (f # fst (cut_frames r), snd (cut_frames r))"
  by (simp add: cut_frames.simps [of b])

lemma cut_frames_append:
  "cut_frames (x @ c) = (fst (cut_frames x) @ fst (cut_frames (snd (cut_frames x) @ c)),
     snd (cut_frames (snd (cut_frames x) @ c)))"
proof (induction x rule: cut_frames.induct)
  case (1 x)
  show ?case
  proof (cases "cut_at delimiter x")
    case (Some p)
    then obtain f r where "cut_at delimiter x = Some (f, r)" by (cases p) simp
    with 1 show ?thesis by (simp add: cut_frames_Some cut_at_append)
  qed (simp add: cut_frames_None)
qed

lemma cut_frames_join:
  "b = concat (map (\<lambda>f. f @ delimiter) (fst (cut_frames b))) @ snd (cut_frames b)"
proof (induction b rule: cut_frames.induct)
  case (1 b)
  show ?case
  proof (cases "cut_at delimiter b")
    case (Some p)
    then obtain f r where "cut_at delimiter b = Some (f, r)" by (cases p) simp
    with 1 cut_at_Some [of delimiter b f r] show ?thesis by (simp add: cut_frames_Some)
  qed (simp add: cut_frames_None)
qed

lemma decode_frame_message_buffer:
  "decode_frame_message ot (d\<lparr>dc_buffer := x\<rparr>) frame =
     map_sum id (\<lambda>(m, d'). (m, d'\<lparr>dc_buffer := x\<rparr>)) (decode_frame_message ot d frame)"
  by (auto simp: decode_frame_message_def Let_def ebind_def split: sum.split)

lemma feed_loop_Some:
  assumes "cut_at delimiter (dc_buffer d) = Some (frame, rest)"
  shows "feed_loop ot d ms =
    (if dc_max_frame_bytes d < int (length frame)
     then (Inl (OracleProtocolError OUTPUT_TOO_LARGE), d\<lparr>dc_buffer := rest\<rparr>)
     else (case decode_frame_message ot (d\<lparr>dc_buffer := []\<rparr>) frame of
         Inl e \<Rightarrow> (Inl e, d\<lparr>dc_buffer := rest\<rparr>)
       | Inr (m, d') \<Rightarrow> feed_loop ot (d'\<lparr>dc_buffer := rest\<rparr>) (ms @ [m])))"
  using assms decode_frame_message_buffer [of ot rest "d\<lparr>dc_buffer := []\<rparr>" frame]
  by (simp add: feed_loop.simps [of ot d] Let_def split: sum.split)

lemma feed_loop_run:
  "case efold (frame_step ot) (d\<lparr>dc_buffer := []\<rparr>, ms) (fst (cut_frames (dc_buffer d))) of
     Inl e \<Rightarrow> fst (feed_loop ot d ms) = Inl e
   | Inr (d', ms') \<Rightarrow> feed_loop ot d ms = (Inr ms', d'\<lparr>dc_buffer := snd (cut_frames (dc_buffer d))\<rparr>)"
proof (induction "length (dc_buffer d)" arbitrary: d ms rule: less_induct)
  case less
  show ?case
  proof (cases "cut_at delimiter (dc_buffer d)")
    case None
    then show ?thesis by (simp add: cut_frames_None feed_loop.simps [of ot d])
  next
    case (Some p)
    then obtain f r where p: "cut_at delimiter (dc_buffer d) = Some (f, r)" by (cases p) simp
    have shorter: "length r < length (dc_buffer d)"
      using cut_at_length [OF p] by (simp add: delimiter_def)
    show ?thesis
    proof (cases "decode_frame_message ot (d\<lparr>dc_buffer := []\<rparr>) f")
      case (Inl e)
      then show ?thesis by (simp add: feed_loop_Some [OF p] cut_frames_Some [OF p] frame_step_pair)
    next
      case (Inr q)
      then obtain m d' where q: "decode_frame_message ot (d\<lparr>dc_buffer := []\<rparr>) f = Inr (m, d')"
        by (cases q) simp
      then have "d'\<lparr>dc_buffer := []\<rparr> = d'" using decode_frame_message_keeps [OF q] by simp
      with less [of "d'\<lparr>dc_buffer := r\<rparr>" "ms @ [m]"] shorter q show ?thesis
        by (auto simp: feed_loop_Some [OF p] cut_frames_Some [OF p] frame_step_pair
            split: sum.splits)
    qed
  qed
qed

lemma frame_step_keeps:
  "frame_step ot s f = Inr s' \<Longrightarrow>
   dc_buffer (fst s') = dc_buffer (fst s) \<and> dc_max_frame_bytes (fst s') = dc_max_frame_bytes (fst s)
   \<and> dc_max_buffer_bytes (fst s') = dc_max_buffer_bytes (fst s)
   \<and> dc_finished (fst s') = dc_finished (fst s) \<and> dc_failed (fst s') = dc_failed (fst s)"
  by (auto simp: frame_step_def ebind_eq_Inr dest: decode_frame_message_keeps split: if_splits)

lemma frames_keep:
  "efold (frame_step ot) s fs = Inr s' \<Longrightarrow>
   dc_buffer (fst s') = dc_buffer (fst s) \<and> dc_max_frame_bytes (fst s') = dc_max_frame_bytes (fst s)
   \<and> dc_max_buffer_bytes (fst s') = dc_max_buffer_bytes (fst s)
   \<and> dc_finished (fst s') = dc_finished (fst s) \<and> dc_failed (fst s') = dc_failed (fst s)"
  by (induction fs arbitrary: s) (auto simp: ebind_eq_Inr dest!: frame_step_keeps)

lemma frames_messages:
  "efold (frame_step ot) (d, ms) fs =
     map_sum id (\<lambda>(d', ms'). (d', ms @ ms')) (efold (frame_step ot) (d, []) fs)"
proof (induction fs arbitrary: d ms)
  case (Cons f fs)
  show ?case
  proof (cases "decode_frame_message ot d f")
    case (Inr q)
    then obtain m d' where "decode_frame_message ot d f = Inr (m, d')" by (cases q) simp
    with Cons [of d' "ms @ [m]"] Cons [of d' "[m]"] show ?thesis
      by (cases "efold (frame_step ot) (d', []) fs") (auto simp: frame_step_pair)
  qed (simp add: frame_step_pair)
qed simp

lemma frames_count: "efold (frame_step ot) s fs = Inr s' \<Longrightarrow> length (snd s') = length (snd s) + length fs"
  by (induction fs arbitrary: s) (auto simp: frame_step_def ebind_eq_Inr split: if_splits)

definition fits :: "decoder \<Rightarrow> bool" where
  "fits d \<longleftrightarrow> int (length (dc_buffer d)) \<le> min (dc_max_frame_bytes d) (dc_max_buffer_bytes d)"

definition open_decoder :: "decoder \<Rightarrow> bool" where
  "open_decoder d \<longleftrightarrow> \<not> dc_failed d \<and> \<not> dc_finished d"

text \<open>A feed that succeeds is a run over the frames of the buffer with the chunk.\<close>

lemma feed_eq_Inr:
  "feed ot d c = (Inr ms, d') \<longleftrightarrow> open_decoder d \<and> fits d' \<and>
     (\<exists>d0. efold (frame_step ot) (d\<lparr>dc_buffer := []\<rparr>, []) (fst (cut_frames (dc_buffer d @ c))) = Inr (d0, ms)
       \<and> d' = d0\<lparr>dc_buffer := snd (cut_frames (dc_buffer d @ c))\<rparr>)"
  using feed_loop_run [of ot "d\<lparr>dc_buffer := dc_buffer d @ c\<rparr>" "[]"]
  by (cases "feed_loop ot (d\<lparr>dc_buffer := dc_buffer d @ c\<rparr>) []")
    (auto simp: feed_def open_decoder_def fits_def split: sum.splits oracle_error.splits if_splits)

lemma feed_Inl:
  assumes "open_decoder d"
    "efold (frame_step ot) (d\<lparr>dc_buffer := []\<rparr>, []) (fst (cut_frames (dc_buffer d @ c))) = Inl e"
  shows "fst (feed ot d c) = Inl e"
  using assms feed_loop_run [of ot "d\<lparr>dc_buffer := dc_buffer d @ c\<rparr>" "[]"]
  by (cases "feed_loop ot (d\<lparr>dc_buffer := dc_buffer d @ c\<rparr>) []")
    (auto simp: feed_def open_decoder_def split: oracle_error.splits)

text \<open>Several chunks, as the reader of the process feeds them.\<close>

fun feed_all ::
    "oracle_text \<Rightarrow> decoder \<Rightarrow> bytes list \<Rightarrow> (oracle_error + oracle_message list) \<times> decoder" where
  "feed_all ot d [] = (Inr [], d)"
| "feed_all ot d (c # cs) =
     (case feed ot d c of
        (Inl e, d') \<Rightarrow> (Inl e, d')
      | (Inr ms, d') \<Rightarrow> (case feed_all ot d' cs of (r, d'') \<Rightarrow> (map_sum id ((@) ms) r, d'')))"

text \<open>A decoder between two chunks: no complete frame is left in its buffer.\<close>

definition idle :: "decoder \<Rightarrow> bool" where
  "idle d \<longleftrightarrow> open_decoder d \<and> fits d \<and> cut_at delimiter (dc_buffer d) = None"

lemma new_decoder_idle: "new_decoder mf mb = Inr d \<Longrightarrow> idle d"
  by (auto simp: new_decoder_def idle_def open_decoder_def fits_def delimiter_def split: if_splits)

lemma cut_frames_rest: "cut_at delimiter (snd (cut_frames b)) = None"
proof (induction b rule: cut_frames.induct)
  case (1 b)
  then show ?case by (cases "cut_at delimiter b") (auto simp: cut_frames_None cut_frames_Some)
qed

lemma feed_idle: "feed ot d c = (Inr ms, d') \<Longrightarrow> idle d'"
  using cut_frames_rest
  by (auto simp: feed_eq_Inr idle_def open_decoder_def dest!: frames_keep)

lemma feed_Nil: "idle d \<Longrightarrow> feed ot d [] = (Inr [], d)"
  by (simp add: feed_eq_Inr idle_def cut_frames_None)

lemma frames_buffer:
  "efold (frame_step ot) (d\<lparr>dc_buffer := []\<rparr>, []) fs = Inr (d0, ms) \<Longrightarrow> d0\<lparr>dc_buffer := []\<rparr> = d0"
  by (auto dest!: frames_keep)

lemma feed_append:
  assumes "feed ot d c = (Inr m1, d1)" "feed ot d1 x = (Inr m2, d')"
  shows "feed ot d (c @ x) = (Inr (m1 @ m2), d')"
proof -
  let ?q = "cut_frames (dc_buffer d @ c)"
  obtain d0 where d0: "open_decoder d" "efold (frame_step ot) (d\<lparr>dc_buffer := []\<rparr>, []) (fst ?q) = Inr (d0, m1)"
    "d1 = d0\<lparr>dc_buffer := snd ?q\<rparr>"
    using assms(1) by (auto simp: feed_eq_Inr)
  have "efold (frame_step ot) (d0, m1) (fst (cut_frames (snd ?q @ x))) =
      map_sum id (\<lambda>(e, ms). (e, m1 @ ms)) (efold (frame_step ot) (d0, []) (fst (cut_frames (snd ?q @ x))))"
    by (rule frames_messages)
  with assms(2) d0 frames_buffer [OF d0(2)] show ?thesis
    by (auto simp: feed_eq_Inr efold_append cut_frames_append [of "dc_buffer d @ c" x, simplified])
qed

lemma feed_split:
  assumes "feed ot d (c @ x) = (Inr ms, d')"
  shows "fst (feed ot d c) = Inl (OracleProtocolError OUTPUT_TOO_LARGE)
    \<or> (\<exists>m1 d1 m2. feed ot d c = (Inr m1, d1) \<and> feed ot d1 x = (Inr m2, d') \<and> ms = m1 @ m2)"
proof -
  let ?q = "cut_frames (dc_buffer d @ c)"
  obtain d2 where run: "open_decoder d" "fits d'"
    "efold (frame_step ot) (d\<lparr>dc_buffer := []\<rparr>, []) (fst ?q @ fst (cut_frames (snd ?q @ x))) = Inr (d2, ms)"
    "d' = d2\<lparr>dc_buffer := snd (cut_frames (snd ?q @ x))\<rparr>"
    using assms by (auto simp: feed_eq_Inr cut_frames_append [of "dc_buffer d @ c" x, simplified])
  then obtain d0 m1 where first: "efold (frame_step ot) (d\<lparr>dc_buffer := []\<rparr>, []) (fst ?q) = Inr (d0, m1)"
    and rest: "efold (frame_step ot) (d0, m1) (fst (cut_frames (snd ?q @ x))) = Inr (d2, ms)"
    by (auto simp: efold_append ebind_eq_Inr)
  from rest obtain m2 where m2: "ms = m1 @ m2"
    "efold (frame_step ot) (d0, []) (fst (cut_frames (snd ?q @ x))) = Inr (d2, m2)"
    using frames_messages [of ot d0 m1]
    by (cases "efold (frame_step ot) (d0, []) (fst (cut_frames (snd ?q @ x)))") auto
  let ?d1 = "d0\<lparr>dc_buffer := snd ?q\<rparr>"
  show ?thesis
  proof (cases "fits ?d1")
    case True
    then have "feed ot d c = (Inr m1, ?d1)" using first run(1) by (simp add: feed_eq_Inr)
    moreover have "open_decoder ?d1"
      using run(1) frames_keep [OF first] by (simp add: open_decoder_def)
    then have "feed ot ?d1 x = (Inr m2, d')"
      using m2 run frames_buffer [OF first] by (simp add: feed_eq_Inr)
    ultimately show ?thesis using m2(1) by blast
  next
    case False
    have "feed_loop ot (d\<lparr>dc_buffer := dc_buffer d @ c\<rparr>) [] = (Inr m1, ?d1)"
      using feed_loop_run [of ot "d\<lparr>dc_buffer := dc_buffer d @ c\<rparr>" "[]"] first by simp
    with False run(1) show ?thesis by (auto simp: feed_def open_decoder_def fits_def)
  qed
qed

lemma map_sum_eq_Inr: "map_sum f g r = Inr y \<longleftrightarrow> (\<exists>x. r = Inr x \<and> y = g x)"
  by (cases r) auto

lemma feed_all_concat:
  "idle d \<Longrightarrow> feed_all ot d cs = (Inr ms, d') \<Longrightarrow> feed ot d (concat cs) = (Inr ms, d')"
proof (induction cs arbitrary: d ms)
  case Nil
  then show ?case by (simp add: feed_Nil)
next
  case (Cons c cs)
  then obtain m1 d1 m2 where "feed ot d c = (Inr m1, d1)" "feed_all ot d1 cs = (Inr m2, d')" "ms = m1 @ m2"
    by (auto simp: map_sum_eq_Inr split: prod.splits sum.splits)
  with Cons.IH feed_idle feed_append show ?case by fastforce
qed

lemma feed_all_of_concat:
  "idle d \<Longrightarrow> feed ot d (concat cs) = (Inr ms, d') \<Longrightarrow>
   feed_all ot d cs = (Inr ms, d') \<or> fst (feed_all ot d cs) = Inl (OracleProtocolError OUTPUT_TOO_LARGE)"
proof (induction cs arbitrary: d ms)
  case Nil
  then show ?case by (simp add: feed_Nil)
next
  case (Cons c cs)
  then consider "fst (feed ot d c) = Inl (OracleProtocolError OUTPUT_TOO_LARGE)"
    | m1 d1 m2 where "feed ot d c = (Inr m1, d1)" "feed ot d1 (concat cs) = (Inr m2, d')" "ms = m1 @ m2"
    using feed_split [of ot d c "concat cs" ms d'] by auto
  then show ?case
  proof cases
    case 1
    then show ?thesis by (cases "feed ot d c") simp
  next
    case 2
    with Cons.IH [OF feed_idle [OF 2(1)] 2(2)] show ?thesis by (cases "feed_all ot d1 cs") auto
  qed
qed

section \<open>The grammar of a stream\<close>

text \<open>
  What a simulator may say, by whether the battle has started and has ended: requests only after
  the first update, one end, and nothing after it. Lines are what the decoder lets through.
\<close>

definition clean_lines :: "string list \<Rightarrow> bool" where
  "clean_lines ls \<longleftrightarrow> (\<forall>l\<in>set ls. starts_with ''|'' l \<and> \<not> starts_with ''|error|'' l
     \<and> \<not> is_timestamp_line l)"

inductive transcript :: "bool \<Rightarrow> bool \<Rightarrow> oracle_message list \<Rightarrow> bool" where
  transcript_start: "transcript False False []"
| transcript_update: "transcript started False ms \<Longrightarrow> clean_lines ls \<Longrightarrow>
    transcript True False (ms @ [UpdateMessage ls])"
| transcript_request: "transcript True False ms \<Longrightarrow> side \<in> set player_sides \<Longrightarrow>
    decode_text request = Inr text \<Longrightarrow>
    transcript True False (ms @ [SideUpdateMessage side [''|request|'' @ text] request])"
| transcript_error: "transcript started False ms \<Longrightarrow> side \<in> set player_sides \<Longrightarrow>
    starts_with ''|error|'' line \<Longrightarrow> transcript started False (ms @ [SideErrorMessage side line])"
| transcript_end: "transcript True False ms \<Longrightarrow> transcript True True (ms @ [EndMessage log])"

definition is_end :: "oracle_message \<Rightarrow> bool" where
  "is_end m \<longleftrightarrow> (case m of EndMessage _ \<Rightarrow> True | _ \<Rightarrow> False)"

definition is_update :: "oracle_message \<Rightarrow> bool" where
  "is_update m \<longleftrightarrow> (case m of UpdateMessage _ \<Rightarrow> True | _ \<Rightarrow> False)"

lemma message_kinds [simp]:
  "is_end (UpdateMessage ls) = False" "is_end (SideUpdateMessage s l r) = False"
  "is_end (SideErrorMessage s e) = False" "is_end (EndMessage log) = True"
  "is_update (UpdateMessage ls) = True" "is_update (SideUpdateMessage s l r) = False"
  "is_update (SideErrorMessage s e) = False" "is_update (EndMessage log) = False"
  "is_side_update (UpdateMessage ls) = False" "is_side_update (SideUpdateMessage s l r) = True"
  "is_side_update (SideErrorMessage s e) = False" "is_side_update (EndMessage log) = False"
  by (simp_all add: is_end_def is_update_def is_side_update_def)

lemma transcript_open: "transcript started False ms \<Longrightarrow> \<not> list_ex is_end ms"
  by (induction started False ms rule: transcript.induct) auto

lemma transcript_started: "transcript True e ms \<Longrightarrow> list_ex is_update ms"
  by (induction True e ms rule: transcript.induct) auto

lemma transcript_ends:
  "transcript s True ms \<Longrightarrow> \<exists>ms' log. ms = ms' @ [EndMessage log] \<and> \<not> list_ex is_end ms'
     \<and> list_ex is_update ms'"
  by (erule transcript.cases) (auto dest: transcript_open transcript_started)

lemma decode_update_clean:
  "decode_update ls = Inr m \<Longrightarrow> \<exists>ls'. m = UpdateMessage ls' \<and> clean_lines ls'
     \<and> ls' = filter (\<lambda>l. \<not> is_timestamp_line l) ls"
  by (auto simp: decode_update_def validate_protocol_lines_def semantic_lines_def clean_lines_def
      result_simps)

lemma decode_sideupdate_cases:
  "decode_sideupdate ot ls = Inr m \<Longrightarrow>
   (\<exists>side line. m = SideErrorMessage side line \<and> side \<in> set player_sides \<and> starts_with ''|error|'' line)
   \<or> (\<exists>side text request. m = SideUpdateMessage side [''|request|'' @ text] request
       \<and> side \<in> set player_sides \<and> decode_text request = Inr text)"
  by (auto simp: decode_sideupdate_def ebind_eq_Inr split: list.splits if_splits)

lemma frame_step_transcript:
  assumes "transcript (dc_started (fst s)) (dc_ended (fst s)) (snd s)" "frame_step ot s f = Inr s'"
  shows "transcript (dc_started (fst s')) (dc_ended (fst s')) (snd s')"
proof -
  obtain d ms where s: "s = (d, ms)" by (cases s)
  from assms(2) obtain m d' where m: "decode_frame_message ot d f = Inr (m, d')"
    and s': "s' = (d', ms @ [m])"
    by (auto simp: frame_step_def s ebind_eq_Inr split: if_splits)
  have open_stream: "dc_ended d = False"
    using m by (auto simp: decode_frame_message_def Let_def ebind_eq_Inr split: if_splits)
  consider ls where "decode_update ls = Inr m" "d' = d\<lparr>dc_started := True\<rparr>"
    | ls where "decode_sideupdate ot ls = Inr m" "d' = d" "is_side_update m \<longrightarrow> dc_started d"
    | log where "m = EndMessage log" "dc_started d" "d' = d\<lparr>dc_ended := True\<rparr>"
    using m by (auto simp: decode_frame_message_def Let_def ebind_eq_Inr decode_end_def
        split: if_splits list.splits)
  then show ?thesis
  proof cases
    case 1
    with assms(1) open_stream s s' show ?thesis
      by (auto dest!: decode_update_clean intro: transcript_update)
  next
    case 2
    with assms(1) open_stream s s' show ?thesis
      by (auto dest!: decode_sideupdate_cases intro: transcript_request [simplified] transcript_error)
  next
    case 3
    with assms(1) open_stream s s' show ?thesis by (auto intro: transcript_end)
  qed
qed

interpretation frames: fallible_machine "frame_step ot"
    "\<lambda>s. transcript (dc_started (fst s)) (dc_ended (fst s)) (snd s)" for ot
  by unfold_locales (rule frame_step_transcript)

text \<open>Requests and logs are canonical JSON objects, except for a request that is \<open>null\<close>.\<close>

definition decoded_by :: "oracle_text \<Rightarrow> oracle_message \<Rightarrow> bool" where
  "decoded_by ot m \<longleftrightarrow> (case m of
     SideUpdateMessage player _ request \<Rightarrow> player \<in> set player_sides
       \<and> (request = ''null'' \<or> (\<exists>d. ot_canonicalize ot (JObject d) = Some request))
   | EndMessage log \<Rightarrow> \<exists>d. ot_canonicalize ot (JObject d) = Some log
   | _ \<Rightarrow> True)"

lemma canonical_json_object_or_null:
  "canonical_json ot payload allow_null = Inr raw \<Longrightarrow>
   allow_null \<and> raw = ''null'' \<or> (\<exists>d. ot_canonicalize ot (JObject d) = Some raw)"
  by (auto simp: canonical_json_def result_simps split: if_splits json.splits)

lemma frame_step_decoded:
  assumes "list_all (decoded_by ot) (snd s)" "frame_step ot s f = Inr s'"
  shows "list_all (decoded_by ot) (snd s')"
proof -
  obtain d ms where s: "s = (d, ms)" by (cases s)
  from assms(2) obtain m d' where m: "decode_frame_message ot d f = Inr (m, d')"
    and s': "s' = (d', ms @ [m])"
    by (auto simp: frame_step_def s ebind_eq_Inr split: if_splits)
  have "decoded_by ot m"
    using m by (auto simp: decode_frame_message_def Let_def ebind_eq_Inr decode_end_def decode_update_def
        decode_sideupdate_def decoded_by_def split: if_splits list.splits dest!: canonical_json_object_or_null)
  with assms(1) s s' show ?thesis by simp
qed

interpretation decoded: fallible_machine "frame_step ot" "\<lambda>s. list_all (decoded_by ot) (snd s)" for ot
  by unfold_locales (rule frame_step_decoded)

lemma feed_decoded:
  assumes "feed ot d c = (Inr new, d')"
  shows "list_all (decoded_by ot) new"
proof -
  obtain d0 where "efold (frame_step ot) (d\<lparr>dc_buffer := []\<rparr>, []) (fst (cut_frames (dc_buffer d @ c))) =
      Inr (d0, new)"
    using assms by (auto simp: feed_eq_Inr)
  from decoded.inv_run [OF _ this] show ?thesis by simp
qed

text \<open>The messages of one feed go on where those before it stopped.\<close>

lemma feed_transcript:
  assumes "transcript (dc_started d) (dc_ended d) ms" "feed ot d c = (Inr new, d')"
  shows "transcript (dc_started d') (dc_ended d') (ms @ new)"
proof -
  obtain d0 where d0: "efold (frame_step ot) (d\<lparr>dc_buffer := []\<rparr>, []) (fst (cut_frames (dc_buffer d @ c))) =
      Inr (d0, new)" "d' = d0\<lparr>dc_buffer := snd (cut_frames (dc_buffer d @ c))\<rparr>"
    using assms(2) by (auto simp: feed_eq_Inr)
  then have "efold (frame_step ot) (d\<lparr>dc_buffer := []\<rparr>, ms) (fst (cut_frames (dc_buffer d @ c))) =
      Inr (d0, ms @ new)"
    using frames_messages [of ot "d\<lparr>dc_buffer := []\<rparr>" ms] by simp
  from frames.inv_run [OF _ this] assms(1) d0(2) show ?thesis by simp
qed

section \<open>Commands come back\<close>

lemma code_char_of: "code (char_of (n :: nat)) = n mod 256"
  by (simp add: code_def)

lemma utf8_decode_char: "utf8_decode (utf8_char c @ s) = map_option ((#) (code c)) (utf8_decode s)"
proof (cases "code c < 128")
  case False
  define q r where "q = code c div 64" and "r = code c mod 64"
  have c: "code c = 64 * q + r" and r: "r < 64" by (simp_all add: q_def r_def)
  with False code_less [of c] have q: "q = 2 \<or> q = 3" by arith
  have "utf8_char c = [char_of (192 + q), char_of (128 + r)]"
    using False by (simp add: utf8_char_def q_def r_def)
  with q r c show ?thesis
    by (auto simp: code_char_of continues_def six_bits_def)
qed (simp add: utf8_char_def)

lemma utf8_round_trip: "utf8_decode (utf8_encode s) = Some (map code s)"
  by (induction s) (simp_all add: utf8_encode_def utf8_decode_char)

lemma char_of_code [simp]: "char_of (code c) = c"
  by (simp add: code_def)

lemma decode_text_utf8: "decode_text (utf8_encode s) = Inr s"
  by (simp add: decode_text_def utf8_round_trip code_less o_def)

lemma utf8_encode_append [simp]: "utf8_encode (s @ t) = utf8_encode s @ utf8_encode t"
  by (simp add: utf8_encode_def)

lemma utf8_encode_ascii [simp]: "code c < 128 \<Longrightarrow> utf8_encode [c] = [c]"
  by (simp add: utf8_encode_def utf8_char_def)

lemma code_newline: "code newline = 10"
  by (simp add: code_def newline_def)

lemma newline_utf8: "newline \<notin> set s \<Longrightarrow> newline \<notin> set (utf8_encode s)"
proof -
  have "newline \<noteq> char_of (n :: nat)" if "128 \<le> n" "n < 256" for n
    using that code_char_of [of n] code_newline by auto
  moreover have "192 + code c div 64 < 256" for c using code_less [of c] by auto
  ultimately show "newline \<notin> set s \<Longrightarrow> newline \<notin> set (utf8_encode s)"
    by (auto simp: utf8_encode_def utf8_char_def)
qed

definition encoded_size :: "string list \<Rightarrow> int" where
  "encoded_size commands = (\<Sum>c\<leftarrow>commands. int (length (utf8_encode c)) + 1)"

lemma encoded_size_simps [simp]:
  "encoded_size [] = 0" "encoded_size (c # cs) = int (length (utf8_encode c)) + 1 + encoded_size cs"
  by (simp_all add: encoded_size_def)

lemma encoded_size_nonneg: "0 \<le> encoded_size cs"
  by (induction cs) simp_all

lemma encode_fold:
  "efold (encode_command ot mc mt) (bs, n) cs = Inr acc \<longleftrightarrow>
     (\<forall>c\<in>set cs. command_shape_ok ot c \<and> int (length (utf8_encode c)) \<le> mc)
     \<and> (cs = [] \<or> n + encoded_size cs \<le> mt)
     \<and> acc = (bs @ map (\<lambda>c. utf8_encode c @ [newline]) cs, n + encoded_size cs)"
proof (induction cs arbitrary: bs n)
  case (Cons c cs)
  show ?case
    using Cons [of "bs @ [utf8_encode c @ [newline]]" "n + int (length (utf8_encode c)) + 1"]
      encoded_size_nonneg [of cs]
    by (cases "cs = []") (auto simp: encode_command_def Let_def algebra_simps)
qed auto

text \<open>When commands are encoded, and to what.\<close>

lemma encode_commands_eq_Inr:
  "encode_commands ot mc mt cs = Inr out \<longleftrightarrow>
     0 < mc \<and> 0 < mt \<and> cs \<noteq> [] \<and> (\<forall>c\<in>set cs. command_shape_ok ot c \<and> int (length (utf8_encode c)) \<le> mc)
     \<and> encoded_size cs \<le> mt \<and> out = concat (map (\<lambda>c. utf8_encode c @ [newline]) cs)"
  by (cases "cs = []") (auto simp: encode_commands_def ebind_eq_Inr encode_fold)

lemma length_encoded: "int (length (concat (map (\<lambda>c. utf8_encode c @ [newline]) cs))) = encoded_size cs"
  by (induction cs) simp_all

lemma split_terminated:
  "\<forall>w\<in>set ws. newline \<notin> set w \<Longrightarrow>
   split_on newline (concat (map (\<lambda>w. w @ [newline]) ws)) = ws @ [[]]"
  by (induction ws) (simp_all add: split_on_append_sep)

lemma encoded_text:
  "concat (map (\<lambda>c. utf8_encode c @ [newline]) cs) = utf8_encode (concat (map (\<lambda>c. c @ [newline]) cs))"
  by (induction cs) (simp_all add: utf8_encode_def utf8_char_def code_newline)

lemma encode_commands_reads_back:
  assumes "encode_commands ot mc mt cs = Inr out"
  shows "int (length out) \<le> mt"
    and "split_on newline out = map utf8_encode cs @ [[]]"
    and "\<exists>text. decode_text out = Inr text \<and> split_on newline text = cs @ [[]]"
proof -
  have cs: "\<forall>c\<in>set cs. newline \<notin> set c" and out: "out = concat (map (\<lambda>c. utf8_encode c @ [newline]) cs)"
    and "encoded_size cs \<le> mt"
    using assms by (auto simp: encode_commands_eq_Inr command_shape_ok_def)
  then show "int (length out) \<le> mt" by (simp add: length_encoded)
  have "out = concat (map (\<lambda>w. w @ [newline]) (map utf8_encode cs))" using out by (simp add: o_def)
  then show "split_on newline out = map utf8_encode cs @ [[]]"
    using cs newline_utf8 split_terminated [of "map utf8_encode cs"] by simp
  have "decode_text out = Inr (concat (map (\<lambda>c. c @ [newline]) cs))"
    by (simp add: out encoded_text decode_text_utf8)
  then show "\<exists>text. decode_text out = Inr text \<and> split_on newline text = cs @ [[]]"
    using cs split_terminated by blast
qed

section \<open>What JSON the decoder accepts\<close>

lemma add_key_eq_Inr: "add_key result kv = Inr r \<longleftrightarrow> fst kv \<notin> fst ` set result \<and> r = result @ [kv]"
  by (auto simp: add_key_def)

lemma add_keys:
  "efold add_key acc kvs = Inr r \<longleftrightarrow>
     distinct (map fst kvs) \<and> fst ` set acc \<inter> fst ` set kvs = {} \<and> r = acc @ kvs"
  by (induction kvs arbitrary: acc) (auto simp: ebind_eq_Inr add_key_eq_Inr)

lemma reject_duplicate_keys_eq_Inr:
  "reject_duplicate_keys kvs = Inr v \<longleftrightarrow> distinct (map fst kvs) \<and> v = JObject kvs"
  by (auto simp: reject_duplicate_keys_def ebind_eq_Inr add_keys)

text \<open>No object at any depth repeats a key, and every float is finite.\<close>

fun strict_json :: "json \<Rightarrow> bool" where
  "strict_json (JFloat t) \<longleftrightarrow> float_is_finite t"
| "strict_json (JList vs) \<longleftrightarrow> list_all strict_json vs"
| "strict_json (JObject kvs) \<longleftrightarrow> distinct (map fst kvs) \<and> list_all (\<lambda>kv. strict_json (snd kv)) kvs"
| "strict_json _ \<longleftrightarrow> True"

lemma strict_number: "scan_number strict_hooks s = Inr (v, rest) \<Longrightarrow> strict_json v"
  by (auto simp: scan_number_def Let_def ebind_eq_Inr strict_hooks_def parse_finite_float_def
      split: prod.splits if_splits)

lemma strict_plain: "scan_plain strict_hooks s = Inr (v, rest) \<Longrightarrow> strict_json v"
  by (auto simp: scan_plain_def json_words_def strict_hooks_def reject_nonfinite_def
      split: option.splits if_splits dest: strict_number [unfolded strict_hooks_def])

lemma strict_scan:
  "(\<forall>s v rest. scan_value strict_hooks n s = Inr (v, rest) \<longrightarrow> strict_json v)
   \<and> (\<forall>s vs rest. scan_elements strict_hooks n s = Inr (vs, rest) \<longrightarrow> list_all strict_json vs)
   \<and> (\<forall>s kvs rest. scan_members strict_hooks n s = Inr (kvs, rest) \<longrightarrow> list_all (\<lambda>kv. strict_json (snd kv)) kvs)"
proof (induction n)
  case (Suc n)
  have pairs [simp]: "jh_pairs strict_hooks kvs = Inr v \<longleftrightarrow> distinct (map fst kvs) \<and> v = JObject kvs" for kvs v
    by (simp add: strict_hooks_def reject_duplicate_keys_eq_Inr)
  have mems: "scan_members strict_hooks n s = Inr (kvs, rest) \<Longrightarrow> list_all (\<lambda>kv. strict_json (snd kv)) kvs"
    and els: "scan_elements strict_hooks n s = Inr (vs, rest) \<Longrightarrow> list_all strict_json vs"
    and val: "scan_value strict_hooks n s = Inr (v, rest) \<Longrightarrow> strict_json v"
    for s v kvs vs rest using Suc by blast+
  have "strict_json v" if run: "scan_value strict_hooks (Suc n) s = Inr (v, rest)" for s v rest
  proof -
    consider r where "v = JString r" | "v = JObject []" | "v = JList []"
      | kvs t where "scan_members strict_hooks n t = Inr (kvs, rest)" "distinct (map fst kvs)" "v = JObject kvs"
      | vs t where "scan_elements strict_hooks n t = Inr (vs, rest)" "v = JList vs"
      | "scan_plain strict_hooks s = Inr (v, rest)"
      using run by (auto simp: ebind_eq_Inr split: list.splits if_splits prod.splits)
    then show ?thesis
      by cases (simp_all add: mems els strict_plain)
  qed
  moreover have "list_all strict_json vs" if run: "scan_elements strict_hooks (Suc n) s = Inr (vs, rest)" for s vs rest
  proof -
    obtain v t where v: "scan_value strict_hooks n s = Inr (v, t)"
      using run by (cases "scan_value strict_hooks n s") auto
    with run show ?thesis
      by (cases "skip_space t") (auto simp: ebind_eq_Inr val [OF v] dest!: els split: if_splits)
  qed
  moreover have "list_all (\<lambda>kv. strict_json (snd kv)) kvs"
    if run: "scan_members strict_hooks (Suc n) s = Inr (kvs, rest)" for s kvs rest
  proof -
    obtain t1 k t2 t3 v t where v: "scan_value strict_hooks n (skip_space t3) = Inr (v, t)"
      and run': "(case skip_space t of [] \<Rightarrow> Inl Json_Decode_Error
        | d # u \<Rightarrow> if d = CHR ''}'' then Inr ([(k, v)], u)
            else if d = CHR '','' then
              ebind (scan_members strict_hooks n (skip_space u)) (\<lambda>(kvs, rest'). Inr ((k, v) # kvs, rest'))
            else Inl Json_Decode_Error) = Inr (kvs, rest)"
      using run unfolding scan_members.simps ebind_eq_Inr by (elim exE conjE) (auto simp: ebind_eq_Inr split: prod.splits)
    from run' show ?thesis
      by (cases "skip_space t") (auto simp: ebind_eq_Inr val [OF v] dest!: mems split: if_splits)
  qed
  ultimately show ?case by blast
qed simp

lemma json_loads_strict: "json_loads_with strict_hooks s = Inr v \<Longrightarrow> strict_json v"
  using strict_scan [THEN conjunct1, rule_format]
  by (auto simp: json_loads_with_def ebind_eq_Inr simp del: scan_value.simps split: if_splits prod.splits)

lemma load_json_strict:
  "load_json ot payload = Inr v \<Longrightarrow> strict_json v \<and> is_nfc_json ot v \<and> (\<exists>raw. ot_canonicalize ot v = Some raw)"
  by (auto simp: load_json_def json_loads_strict split: sum.splits json_error.splits if_splits)

lemma fuel_free_strict: "fuel_free strict_hooks"
proof -
  have "raises {Json_Hook_Error} (efold add_key acc kvs)" for acc kvs
    by (induction kvs arbitrary: acc) (auto simp: add_key_def)
  then have "reject_duplicate_keys kvs \<noteq> Inl Json_Out_Of_Fuel" for kvs
    by (auto simp: reject_duplicate_keys_def raises_def ebind_eq_Inl)
  then show ?thesis
    by (simp add: fuel_free_def strict_hooks_def reject_nonfinite_def parse_finite_float_def)
qed

end
