(* ===== verification/Oracle_Process.thy ===== *)
theory Oracle_Process
  imports Oracle_Protocol Complex_Main
begin

text \<open>
  \<open>battlebelief_lab/oracle/showdown/process.py\<close>: one simulator process from its start to its
  cleanup. What the operating system and \<open>asyncio\<close> do is an environment, \<open>run_env\<close>: the outcome
  of the launch, of every write and wait, the chunks of output, the exit code. Between two awaits
  no other task runs, so \<open>_wait_for_barrier\<close> is a walk over the states it sees when it wakes up,
  and its second look at the messages, with no await in between, sees what the first one saw.
  Not modelled: Windows Job Objects, process enumeration, and the text of the sanitized stderr.
\<close>

section \<open>Barriers, steps, limits\<close>

record response_barrier =
  rb_request_sides :: "string list"
  rb_end :: bool

definition check_barrier :: "response_barrier \<Rightarrow> oracle_error + unit" where
  "check_barrier b = raise_if (rb_request_sides b = [] \<and> \<not> rb_end b) Value_Raised"

definition side_of_update :: "oracle_message \<Rightarrow> string option" where
  "side_of_update m = (case m of SideUpdateMessage side _ _ \<Rightarrow> Some side | _ \<Rightarrow> None)"

definition is_satisfied_by :: "response_barrier \<Rightarrow> oracle_message list \<Rightarrow> bool" where
  "is_satisfied_by b messages \<longleftrightarrow>
     (\<forall>side\<in>set (rb_request_sides b). Some side \<in> side_of_update ` set messages)
     \<and> (rb_end b \<longrightarrow> list_ex is_end messages)"

record interaction_step =
  is_input_bytes :: bytes
  is_barrier :: response_barrier

definition check_step :: "interaction_step \<Rightarrow> oracle_error + unit" where
  "check_step s = raise_if (is_input_bytes s = [] \<or> \<not> ends_with [newline] (is_input_bytes s)) Value_Raised"

record process_limits =
  pl_start_timeout_seconds :: rat
  pl_write_timeout_seconds :: rat
  pl_response_timeout_seconds :: rat
  pl_fixture_timeout_seconds :: rat
  pl_graceful_shutdown_timeout_seconds :: rat
  pl_forced_shutdown_timeout_seconds :: rat
  pl_max_stdout_bytes :: int
  pl_max_messages :: int
  pl_max_input_bytes :: int
  pl_max_stderr_bytes :: int

definition check_limits :: "process_limits \<Rightarrow> oracle_error + unit" where
  "check_limits l =
     ebind (raise_if (\<exists>v\<in>set [pl_start_timeout_seconds l, pl_write_timeout_seconds l,
         pl_response_timeout_seconds l, pl_fixture_timeout_seconds l,
         pl_graceful_shutdown_timeout_seconds l, pl_forced_shutdown_timeout_seconds l]. v \<le> 0)
       Value_Raised) (\<lambda>_.
     raise_if (pl_max_stdout_bytes l \<le> 0 \<or> pl_max_messages l \<le> 0 \<or> pl_max_input_bytes l \<le> 0
       \<or> pl_max_stderr_bytes l \<le> 0) Value_Raised)"

record process_spec =
  ps_argv :: "string list"
  ps_env :: "(string \<times> string) list"
  ps_steps :: "interaction_step list"

definition check_spec :: "process_spec \<Rightarrow> oracle_error + unit" where
  "check_spec s =
     ebind (raise_if (ps_argv s = [] \<or> [] \<in> set (ps_argv s)) Value_Raised) (\<lambda>_.
     raise_if (ps_steps s = []) Value_Raised)"

section \<open>Reading the streams\<close>

record drain_state =
  dn_messages :: "oracle_message list"
  dn_stdout_bytes :: int
  dn_stderr_bytes :: int
  dn_stderr :: bytes

definition empty_drain :: drain_state where
  "empty_drain = \<lparr>dn_messages = [], dn_stdout_bytes = 0, dn_stderr_bytes = 0, dn_stderr = []\<rparr>"

text \<open>\<open>OracleProtocolError\<close> becomes \<open>OracleProcessError\<close> with its class; others go on as they are.\<close>

definition as_process_error :: "oracle_error \<Rightarrow> oracle_error" where
  "as_process_error e = (case e of OracleProtocolError f \<Rightarrow> OracleProcessError f | _ \<Rightarrow> e)"

text \<open>The chunks \<open>read\<close> returns; an empty one is the end of the stream.\<close>

fun drain_chunks ::
    "oracle_text \<Rightarrow> process_limits \<Rightarrow> decoder \<Rightarrow> drain_state \<Rightarrow> bytes list \<Rightarrow>
     (oracle_error + decoder) \<times> drain_state" where
  "drain_chunks ot l d st [] = (Inr d, st)"
| "drain_chunks ot l d st (chunk # chunks) =
     (if chunk = [] then (Inr d, st)
      else
        (let st1 = st\<lparr>dn_stdout_bytes := dn_stdout_bytes st + int (length chunk)\<rparr> in
         if pl_max_stdout_bytes l < dn_stdout_bytes st1
         then (Inl (OracleProcessError OUTPUT_TOO_LARGE), st1)
         else (case feed ot d chunk of
             (Inl e, d') \<Rightarrow> (Inl (as_process_error e), st1)
           | (Inr messages, d') \<Rightarrow>
               (let st2 = st1\<lparr>dn_messages := dn_messages st1 @ messages\<rparr> in
                if pl_max_messages l < int (length (dn_messages st2))
                then (Inl (OracleProcessError OUTPUT_TOO_LARGE), st2)
                else drain_chunks ot l d' st2 chunks))))"

definition drain_stdout ::
    "oracle_text \<Rightarrow> process_limits \<Rightarrow> drain_state \<Rightarrow> bytes list \<Rightarrow> (oracle_error + unit) \<times> drain_state" where
  "drain_stdout ot l st chunks =
     (case new_decoder default_max_frame_bytes (pl_max_stdout_bytes l) of
        Inl e \<Rightarrow> (Inl e, st)
      | Inr d \<Rightarrow>
          (case drain_chunks ot l d st chunks of
             (Inl e, st') \<Rightarrow> (Inl e, st')
           | (Inr d', st') \<Rightarrow>
               (case fst (finish d') of Inl e \<Rightarrow> (Inl (as_process_error e), st') | Inr u \<Rightarrow> (Inr u, st'))))"

fun drain_stderr ::
    "process_limits \<Rightarrow> drain_state \<Rightarrow> bytes list \<Rightarrow> (oracle_error + unit) \<times> drain_state" where
  "drain_stderr l st [] = (Inr (), st)"
| "drain_stderr l st (chunk # chunks) =
     (if chunk = [] then (Inr (), st)
      else
        (let st1 = st\<lparr>dn_stderr_bytes := dn_stderr_bytes st + int (length chunk)\<rparr> in
         if pl_max_stderr_bytes l < dn_stderr_bytes st1
         then (Inl (OracleProcessError OUTPUT_TOO_LARGE), st1)
         else drain_stderr l (st1\<lparr>dn_stderr := dn_stderr st1 @ chunk\<rparr>) chunks))"

section \<open>Waiting for a response\<close>

text \<open>A task that reads a stream: running, or done with what it returned or raised.\<close>

datatype drain_status = Drain_Running | Drain_Done "oracle_error + unit"

datatype exit_status = Exit_Pending | Exited int | Exit_Raised

definition raise_drain_failure :: "drain_status \<Rightarrow> oracle_error + unit" where
  "raise_drain_failure task =
     (case task of
        Drain_Done (Inr u) \<Rightarrow> Inr u
      | Drain_Done (Inl (OracleProcessError f)) \<Rightarrow> Inl (OracleProcessError f)
      | Drain_Done (Inl (OracleProtocolError f)) \<Rightarrow> Inl (OracleProcessError f)
      | Drain_Done (Inl Beyond_Latin1_Text) \<Rightarrow> Inl Beyond_Latin1_Text
      | _ \<Rightarrow> Inl (OracleProcessError PROCESS_CRASH))"

definition raise_completed_drain_failures :: "drain_status \<Rightarrow> drain_status \<Rightarrow> oracle_error + unit" where
  "raise_completed_drain_failures stdout_task stderr_task =
     ebind (if stdout_task \<noteq> Drain_Running then raise_drain_failure stdout_task else Inr ()) (\<lambda>_.
     if stderr_task \<noteq> Drain_Running then raise_drain_failure stderr_task else Inr ())"

text \<open>What the waiting task sees when it runs.\<close>

record wake_up =
  wu_messages :: "oracle_message list"
  wu_stdout :: drain_status
  wu_stderr :: drain_status
  wu_exit :: exit_status

definition is_side_error :: "oracle_message \<Rightarrow> bool" where
  "is_side_error m \<longleftrightarrow> (case m of SideErrorMessage _ _ \<Rightarrow> True | _ \<Rightarrow> False)"

text \<open>\<open>None\<close>: it waits on. \<open>Some\<close>: it returns, with a side error or without.\<close>

definition barrier_turn ::
    "response_barrier \<Rightarrow> nat \<Rightarrow> wake_up \<Rightarrow> oracle_error + oracle_message option option" where
  "barrier_turn barrier message_start_index w =
     ebind (raise_completed_drain_failures (wu_stdout w) (wu_stderr w)) (\<lambda>_.
       (let messages = drop message_start_index (wu_messages w) in
        if is_satisfied_by barrier messages then Inr (Some None)
        else (case find is_side_error messages of
            Some m \<Rightarrow> Inr (Some (Some m))
          | None \<Rightarrow>
              ebind (case wu_exit w of
                  Exited returncode \<Rightarrow>
                    if returncode < 0 then Inl (OracleProcessError PROCESS_CRASH)
                    else raise_if (0 < returncode) (OracleProcessError UNEXPECTED_EXIT_CODE)
                | Exit_Raised \<Rightarrow> Inl Exception_Raised
                | Exit_Pending \<Rightarrow> Inr ()) (\<lambda>_.
              if wu_stdout w \<noteq> Drain_Running then
                ebind (raise_drain_failure (wu_stdout w)) (\<lambda>_.
                  Inl (OracleProcessError PROTOCOL_DESYNCHRONIZATION))
              else Inr None))))"

text \<open>The deadline that ends a wait without a response: that of the response or of the fixture.\<close>

datatype deadline = Response_Deadline | Fixture_Deadline

definition deadline_error :: "deadline \<Rightarrow> oracle_error" where
  "deadline_error dl = (case dl of Response_Deadline \<Rightarrow> OracleProcessError RESPONSE_TIMEOUT
     | Fixture_Deadline \<Rightarrow> OracleProcessError FIXTURE_TIMEOUT)"

fun wait_for_barrier ::
    "response_barrier \<Rightarrow> nat \<Rightarrow> deadline \<Rightarrow> wake_up list \<Rightarrow> oracle_error + oracle_message option" where
  "wait_for_barrier barrier start dl [] = Inl (deadline_error dl)"
| "wait_for_barrier barrier start dl (w # ws) =
     ebind (barrier_turn barrier start w) (\<lambda>turn.
       (case turn of Some result \<Rightarrow> Inr result | None \<Rightarrow> wait_for_barrier barrier start dl ws))"

datatype write_outcome =
    Written | Write_Timed_Out | Write_Broken | Write_Fixture_Timed_Out | Write_Raised

definition write_input :: "write_outcome \<Rightarrow> oracle_error + unit" where
  "write_input w = (case w of
     Written \<Rightarrow> Inr ()
   | Write_Timed_Out \<Rightarrow> Inl (OracleProcessError WRITE_TIMEOUT)
   | Write_Broken \<Rightarrow> Inl (OracleProcessError PROCESS_CRASH)
   | Write_Fixture_Timed_Out \<Rightarrow> Inl (OracleProcessError FIXTURE_TIMEOUT)
   | Write_Raised \<Rightarrow> Inl Exception_Raised)"

text \<open>What happens at one step: the messages before it, its write, the wake-ups after it.\<close>

record step_run =
  sr_messages_before :: "oracle_message list"
  sr_write :: write_outcome
  sr_wake_ups :: "wake_up list"
  sr_deadline :: deadline

fun interact :: "(nat \<Rightarrow> step_run) \<Rightarrow> nat \<Rightarrow> interaction_step list \<Rightarrow> oracle_error + oracle_message option" where
  "interact runs i [] = Inr None"
| "interact runs i (step # steps) =
     ebind (write_input (sr_write (runs i))) (\<lambda>_.
     ebind (wait_for_barrier (is_barrier step) (length (sr_messages_before (runs i)))
         (sr_deadline (runs i)) (sr_wake_ups (runs i))) (\<lambda>terminal_side_error.
       (case terminal_side_error of
          Some m \<Rightarrow> Inr (Some m)
        | None \<Rightarrow> interact runs (Suc i) steps)))"

section \<open>Shutdown\<close>

text \<open>The process after a wait: it has exited, the deadline came first, or the wait raised.\<close>

datatype wait_outcome = Exited_In_Time | Deadline_Passed | Wait_Raised

record shutdown_env =
  sh_graceful :: wait_outcome
  sh_terminated :: bool
  sh_after_terminate :: wait_outcome
  sh_killed :: bool
  sh_after_kill :: wait_outcome
  sh_orphaned :: "bool \<times> bool"
  sh_contained :: bool
  sh_after_contain :: wait_outcome
  sh_orphaned_finally :: "bool \<times> bool"
  sh_job_closed :: bool

definition wait_exit :: "wait_outcome \<Rightarrow> oracle_error + bool" where
  "wait_exit w = (case w of Exited_In_Time \<Rightarrow> Inr True | Deadline_Passed \<Rightarrow> Inr False
     | Wait_Raised \<Rightarrow> Inl Exception_Raised)"

text \<open>\<open>_orphan_status\<close> is the pair of an orphan and a failed check.\<close>

definition finish_orphan_check :: "shutdown_env \<Rightarrow> bool \<Rightarrow> bool \<Rightarrow> oracle_error + bool" where
  "finish_orphan_check env cleanup_failed forced =
     (let (orphaned, verifier_failed) = sh_orphaned env;
          cleanup_failed1 = (cleanup_failed \<or> verifier_failed)
      in ebind (if orphaned \<or> verifier_failed then
            ebind (wait_exit (sh_after_contain env)) (\<lambda>exited.
              (let (orphaned', final_verifier_failed) = sh_orphaned_finally env in
               Inr (cleanup_failed1 \<or> \<not> sh_contained env \<or> \<not> exited \<or> final_verifier_failed,
                 orphaned', True)))
          else Inr (cleanup_failed1, orphaned, forced)) (\<lambda>(cleanup_failed2, orphaned2, forced2).
        let cleanup_failed3 = (cleanup_failed2 \<or> \<not> sh_job_closed env) in
        if cleanup_failed3 then Inl (OracleProcessError SHUTDOWN_FAILED)
        else if orphaned2 then Inl (OracleProcessError ORPHANED_CHILD_PROCESS)
        else Inr forced2))"

definition shutdown :: "shutdown_env \<Rightarrow> oracle_error + bool" where
  "shutdown env =
     ebind (wait_exit (sh_graceful env)) (\<lambda>exited.
       if exited then finish_orphan_check env False False
       else
         ebind (if sh_terminated env then wait_exit (sh_after_terminate env) else Inr False) (\<lambda>exited1.
         ebind (if \<not> exited1 then
              ebind (wait_exit (sh_after_kill env)) (\<lambda>exited2.
                Inr (\<not> sh_terminated env \<or> \<not> sh_killed env \<or> \<not> exited2))
            else Inr (\<not> sh_terminated env)) (\<lambda>cleanup_failed.
         finish_orphan_check env cleanup_failed True)))"

section \<open>The run\<close>

datatype launch = Launched | Launch_Job_Error bool | Launch_Not_Found | Launch_Timed_Out | Launch_Raised

record run_env =
  re_launch :: launch
  re_has_streams :: bool
  re_steps :: "nat \<Rightarrow> step_run"
  re_shutdown :: shutdown_env
  re_streams_close :: bool
  re_stdout_chunks :: "bytes list"
  re_stderr_chunks :: "bytes list"
  re_exit :: exit_status
  re_returncode :: "int option"
  re_awaited :: "oracle_error + int"

record process_result =
  pr_messages :: "oracle_message list"
  pr_returncode :: int
  pr_forced_shutdown :: bool
  pr_completed_barriers :: bool
  pr_terminal_side_error :: "oracle_message option"

definition external_network_marker :: string where
  "external_network_marker = ''BATTLEBELIEF_ORACLE_EXTERNAL_NETWORK_ATTEMPT''"

definition classify_network_marker :: "bytes \<Rightarrow> oracle_failure_class option" where
  "classify_network_marker stderr =
     (if contains external_network_marker stderr then Some EXTERNAL_NETWORK_ATTEMPT else None)"

definition start_process :: "process_limits \<Rightarrow> interaction_step list \<Rightarrow> launch \<Rightarrow> oracle_error + unit" where
  "start_process l steps outcome =
     (if pl_max_input_bytes l < (\<Sum>step\<leftarrow>steps. int (length (is_input_bytes step)))
      then Inl (OracleProcessError INPUT_TOO_LARGE)
      else (case outcome of
          Launched \<Rightarrow> Inr ()
        | Launch_Job_Error cleanup_failed \<Rightarrow>
            Inl (OracleProcessError (if cleanup_failed then SHUTDOWN_FAILED else PROCESS_CRASH))
        | Launch_Not_Found \<Rightarrow> Inl (OracleProcessError NODE_NOT_FOUND)
        | Launch_Timed_Out \<Rightarrow> Inl (OracleProcessError START_TIMEOUT)
        | Launch_Raised \<Rightarrow> Inl Exception_Raised))"

definition interaction :: "run_env \<Rightarrow> interaction_step list \<Rightarrow> oracle_error + oracle_message option" where
  "interaction env steps =
     (if \<not> re_has_streams env then Inl (OracleProcessError PROTOCOL_DESYNCHRONIZATION)
      else interact (re_steps env) 0 steps)"

text \<open>The pending error of the run: an unexpected exception is a crash.\<close>

definition pending_class :: "oracle_error \<Rightarrow> oracle_failure_class" where
  "pending_class e = (case e of OracleProcessError f \<Rightarrow> f | _ \<Rightarrow> PROCESS_CRASH)"

definition after_shutdown ::
    "oracle_failure_class option \<Rightarrow> oracle_error + bool \<Rightarrow> oracle_failure_class option \<times> bool" where
  "after_shutdown pending outcome =
     (case outcome of
        Inr forced \<Rightarrow> (pending, forced)
      | Inl (OracleProcessError f) \<Rightarrow>
          (if pending = None \<or> f = SHUTDOWN_FAILED then Some f else pending, False)
      | Inl _ \<Rightarrow> (Some SHUTDOWN_FAILED, False))"

definition prefer_independent_exit_failure ::
    "oracle_failure_class \<Rightarrow> exit_status \<Rightarrow> bool \<Rightarrow> oracle_failure_class" where
  "prefer_independent_exit_failure pending exit_task forced_shutdown =
     (if forced_shutdown \<or> pending \<notin> {MALFORMED_OUTPUT, PROTOCOL_DESYNCHRONIZATION}
         \<or> pending \<in> {OUTPUT_TOO_LARGE, EXTERNAL_NETWORK_ATTEMPT}
      then pending
      else (case exit_task of
          Exited returncode \<Rightarrow>
            if returncode < 0 then PROCESS_CRASH
            else if 0 < returncode then UNEXPECTED_EXIT_CODE else pending
        | _ \<Rightarrow> pending))"

text \<open>The streams as the reading tasks left them.\<close>

definition drained :: "oracle_text \<Rightarrow> process_limits \<Rightarrow> run_env \<Rightarrow>
    (oracle_error + unit) \<times> (oracle_error + unit) \<times> drain_state" where
  "drained ot l env =
     (if re_has_streams env then
        (case drain_stdout ot l empty_drain (re_stdout_chunks env) of (out, st) \<Rightarrow>
          (case drain_stderr l st (re_stderr_chunks env) of (err, st') \<Rightarrow> (out, err, st')))
      else (Inr (), Inr (), empty_drain))"

definition exit_checked :: "run_env \<Rightarrow> bool \<Rightarrow> oracle_error + int" where
  "exit_checked env forced =
     ebind (case re_returncode env of Some n \<Rightarrow> Inr n | None \<Rightarrow> re_awaited env) (\<lambda>returncode.
     ebind (raise_if (returncode < 0 \<and> \<not> forced) (OracleProcessError PROCESS_CRASH)) (\<lambda>_.
     ebind (raise_if (0 < returncode \<and> \<not> forced) (OracleProcessError UNEXPECTED_EXIT_CODE)) (\<lambda>_.
     Inr returncode)))"

definition run_process ::
    "oracle_text \<Rightarrow> process_limits \<Rightarrow> interaction_step list \<Rightarrow> run_env \<Rightarrow> oracle_error + process_result" where
  "run_process ot l steps env =
     (case start_process l steps (re_launch env) of
        Inl e \<Rightarrow> Inl (OracleProcessError (pending_class e))
      | Inr _ \<Rightarrow>
        (let outcome = interaction env steps;
             pending = (case outcome of Inl e \<Rightarrow> Some (pending_class e) | Inr _ \<Rightarrow> None);
             terminal_side_error = (case outcome of Inl _ \<Rightarrow> None | Inr t \<Rightarrow> t);
             (pending1, forced) = after_shutdown pending (shutdown (re_shutdown env));
             (out, err, st) = drained ot l env;
             pending2 = (if pending1 = None \<and> terminal_side_error = None \<and> \<not> re_streams_close env
               then Some SHUTDOWN_FAILED else pending1)
         in ebind (if pending2 = None \<and> terminal_side_error = None
              then ebind (raise_drain_failure (Drain_Done out)) (\<lambda>_. raise_drain_failure (Drain_Done err))
              else Inr ()) (\<lambda>_.
            if classify_network_marker (dn_stderr st) = Some EXTERNAL_NETWORK_ATTEMPT
            then Inl (OracleProcessError EXTERNAL_NETWORK_ATTEMPT)
            else (case pending2 of
                Some f \<Rightarrow> Inl (OracleProcessError (prefer_independent_exit_failure f (re_exit env) forced))
              | None \<Rightarrow>
                  ebind (exit_checked env forced) (\<lambda>returncode.
                    Inr \<lparr>pr_messages = dn_messages st, pr_returncode = returncode,
                      pr_forced_shutdown = forced,
                      pr_completed_barriers = (terminal_side_error = None),
                      pr_terminal_side_error = terminal_side_error\<rparr>)))))"

section \<open>What a drained stream holds\<close>

lemma finish_eq_Inr:
  "open_decoder d \<Longrightarrow> fst (finish d) = Inr u \<longleftrightarrow> dc_buffer d = [] \<and> dc_ended d"
  by (auto simp: finish_def open_decoder_def Let_def)

text \<open>The chunks up to the first empty one, which is the end of the stream.\<close>

abbreviation until_end :: "bytes list \<Rightarrow> bytes list" where
  "until_end chunks \<equiv> takeWhile (\<lambda>c. c \<noteq> []) chunks"

lemma drain_chunks_feed:
  "drain_chunks ot l d st chunks = (Inr d', st') \<Longrightarrow>
   \<exists>new. feed_all ot d (until_end chunks) = (Inr new, d')
     \<and> st' = st\<lparr>dn_messages := dn_messages st @ new,
         dn_stdout_bytes := dn_stdout_bytes st + int (length (concat (until_end chunks)))\<rparr>
     \<and> (until_end chunks \<noteq> [] \<longrightarrow> dn_stdout_bytes st' \<le> pl_max_stdout_bytes l
         \<and> int (length (dn_messages st')) \<le> pl_max_messages l)"
proof (induction chunks arbitrary: d st)
  case (Cons chunk chunks)
  show ?case
  proof (cases "chunk = []")
    case True
    then show ?thesis using Cons.prems by simp
  next
    case False
    define n where "n = dn_stdout_bytes st + int (length chunk)"
    obtain ms d1 where f: "feed ot d chunk = (Inr ms, d1)" and n: "n \<le> pl_max_stdout_bytes l"
      and ms: "int (length (dn_messages st @ ms)) \<le> pl_max_messages l"
      and rest: "drain_chunks ot l d1 (st\<lparr>dn_stdout_bytes := n, dn_messages := dn_messages st @ ms\<rparr>) chunks = (Inr d', st')"
      using Cons.prems False by (auto simp: Let_def n_def split: if_splits prod.splits sum.splits)
    from Cons.IH [OF rest] obtain new where new: "feed_all ot d1 (until_end chunks) = (Inr new, d')"
      "st' = st\<lparr>dn_messages := dn_messages st @ ms @ new,
         dn_stdout_bytes := n + int (length (concat (until_end chunks)))\<rparr>"
      "until_end chunks \<noteq> [] \<longrightarrow> dn_stdout_bytes st' \<le> pl_max_stdout_bytes l
         \<and> int (length (dn_messages st')) \<le> pl_max_messages l"
      by auto
    have "until_end chunks = [] \<Longrightarrow> new = []" using new(1) by simp
    with new n ms f False show ?thesis
      by (cases "until_end chunks = []") (simp_all add: n_def)
  qed
qed simp

lemma drain_stdout_complete:
  assumes "drain_stdout ot l empty_drain chunks = (Inr (), st)"
  shows "transcript True True (dn_messages st)"
    and "dn_stdout_bytes st = int (length (concat (until_end chunks)))"
    and "dn_stdout_bytes st \<le> pl_max_stdout_bytes l"
    and "int (length (dn_messages st)) \<le> pl_max_messages l"
    and "\<exists>frames. concat (until_end chunks) = concat (map (\<lambda>f. f @ delimiter) frames)
      \<and> length frames = length (dn_messages st)"
proof -
  obtain d d' where d: "new_decoder default_max_frame_bytes (pl_max_stdout_bytes l) = Inr d"
    and run: "drain_chunks ot l d empty_drain chunks = (Inr d', st)" and fin: "fst (finish d') = Inr ()"
    using assms by (auto simp: drain_stdout_def split: sum.splits prod.splits)
  have fresh: "dc_buffer d = []" "dc_started d = False" "dc_ended d = False"
    using d by (auto simp: new_decoder_def split: if_splits)
  obtain new where new: "feed_all ot d (until_end chunks) = (Inr new, d')"
    and st: "dn_messages st = new" "dn_stdout_bytes st = int (length (concat (until_end chunks)))"
    and bounds: "until_end chunks \<noteq> [] \<longrightarrow> dn_stdout_bytes st \<le> pl_max_stdout_bytes l
         \<and> int (length (dn_messages st)) \<le> pl_max_messages l"
    using drain_chunks_feed [OF run] by (auto simp: empty_drain_def)
  have whole: "feed ot d (concat (until_end chunks)) = (Inr new, d')"
    by (rule feed_all_concat [OF new_decoder_idle [OF d] new])
  then have "idle d'" by (rule feed_idle)
  then have ended: "dc_buffer d' = []" "dc_ended d'"
    using fin by (simp_all add: idle_def finish_eq_Inr)
  have grammar: "transcript (dc_started d') (dc_ended d') new"
    using feed_transcript [OF _ whole, of "[]"] fresh transcript_start by simp
  then show "transcript True True (dn_messages st)"
    using ended by (cases rule: transcript.cases) (auto simp: st intro: transcript_end)
  show "dn_stdout_bytes st = int (length (concat (until_end chunks)))" by (rule st(2))
  have "until_end chunks \<noteq> []"
  proof
    assume "until_end chunks = []"
    then have "d' = d" using new by simp
    then show False using ended fresh by simp
  qed
  with bounds show "dn_stdout_bytes st \<le> pl_max_stdout_bytes l"
    "int (length (dn_messages st)) \<le> pl_max_messages l" by simp_all
  obtain d0 where frames: "efold (frame_step ot) (d\<lparr>dc_buffer := []\<rparr>, [])
      (fst (cut_frames (concat (until_end chunks)))) = Inr (d0, new)"
    and rest: "snd (cut_frames (concat (until_end chunks))) = []"
    using whole ended(1) fresh by (auto simp: feed_eq_Inr)
  have "length new = length (fst (cut_frames (concat (until_end chunks))))"
    using frames_count [OF frames] by simp
  then show "\<exists>frames. concat (until_end chunks) = concat (map (\<lambda>f. f @ delimiter) frames)
      \<and> length frames = length (dn_messages st)"
    using cut_frames_join [of "concat (until_end chunks)"] rest st(1) by fastforce
qed

section \<open>What a run promises\<close>

text \<open>The cleanup succeeded: the process was seen to exit, and no child is left.\<close>

definition cleaned_up :: "shutdown_env \<Rightarrow> bool" where
  "cleaned_up env \<longleftrightarrow>
     (sh_graceful env = Exited_In_Time
      \<or> sh_terminated env \<and> (sh_after_terminate env = Exited_In_Time
          \<or> sh_killed env \<and> sh_after_kill env = Exited_In_Time))
     \<and> (sh_orphaned env = (False, False)
        \<or> sh_contained env \<and> sh_after_contain env = Exited_In_Time
          \<and> sh_orphaned_finally env = (False, False) \<and> snd (sh_orphaned env) = False)
     \<and> sh_job_closed env"

lemma wait_exit_eq_Inr: "wait_exit w = Inr b \<longleftrightarrow> w \<noteq> Wait_Raised \<and> b = (w = Exited_In_Time)"
  by (cases w) (auto simp: wait_exit_def)

lemma finish_orphan_check_ok:
  assumes "finish_orphan_check env failed forced = Inr b"
  shows "\<not> failed \<and> (sh_orphaned env = (False, False)
        \<or> sh_contained env \<and> sh_after_contain env = Exited_In_Time
          \<and> sh_orphaned_finally env = (False, False) \<and> snd (sh_orphaned env) = False)
     \<and> sh_job_closed env \<and> b = (forced \<or> fst (sh_orphaned env))"
  using assms
  by (auto simp: finish_orphan_check_def Let_def ebind_eq_Inr wait_exit_eq_Inr split: prod.splits if_splits)

lemma shutdown_ok:
  assumes "shutdown env = Inr b"
  shows "cleaned_up env \<and> (\<not> b \<longrightarrow> sh_graceful env = Exited_In_Time \<and> \<not> fst (sh_orphaned env))"
  using assms
  by (auto simp: shutdown_def ebind_eq_Inr wait_exit_eq_Inr cleaned_up_def
      dest!: finish_orphan_check_ok split: if_splits)

lemma barrier_turn_done:
  "barrier_turn b start w = Inr (Some None) \<Longrightarrow> is_satisfied_by b (drop start (wu_messages w))"
  by (auto simp: barrier_turn_def Let_def ebind_eq_Inr raise_if_def
      split: if_splits option.splits exit_status.splits)

lemma wait_for_barrier_done:
  "wait_for_barrier b start dl ws = Inr None \<Longrightarrow> \<exists>w\<in>set ws. is_satisfied_by b (drop start (wu_messages w))"
proof (induction b start dl ws rule: wait_for_barrier.induct)
  case (2 b start dl w ws)
  then obtain turn where turn: "barrier_turn b start w = Inr turn"
    by (cases "barrier_turn b start w") auto
  with 2 barrier_turn_done [of b start w] show ?case by (cases turn) auto
qed simp

text \<open>Every step of the interaction from the \<open>i\<close>-th on was written and answered.\<close>

definition answered :: "(nat \<Rightarrow> step_run) \<Rightarrow> nat \<Rightarrow> interaction_step list \<Rightarrow> bool" where
  "answered runs i steps \<longleftrightarrow>
     (\<forall>k<length steps. sr_write (runs (i + k)) = Written
        \<and> (\<exists>w\<in>set (sr_wake_ups (runs (i + k))). is_satisfied_by (is_barrier (steps ! k))
             (drop (length (sr_messages_before (runs (i + k)))) (wu_messages w))))"

lemma answered_Cons:
  "sr_write (runs i) = Written \<Longrightarrow>
   \<exists>w\<in>set (sr_wake_ups (runs i)). is_satisfied_by (is_barrier step)
     (drop (length (sr_messages_before (runs i))) (wu_messages w)) \<Longrightarrow>
   answered runs (Suc i) steps \<Longrightarrow> answered runs i (step # steps)"
  unfolding answered_def by (auto simp: nth_Cons' less_Suc_eq_0_disj all_conj_distrib All_less_Suc2)

lemma interact_answered: "interact runs i steps = Inr None \<Longrightarrow> answered runs i steps"
proof (induction runs i steps rule: interact.induct)
  case (2 runs i step steps)
  then have "sr_write (runs i) = Written"
    by (auto simp: ebind_eq_Inr write_input_def split: write_outcome.splits)
  with 2 show ?case
    by (auto simp: ebind_eq_Inr intro!: answered_Cons dest!: wait_for_barrier_done split: option.splits)
qed (simp add: answered_def)

text \<open>A run that gives a result, taken apart.\<close>

lemma run_process_Inr:
  assumes "run_process ot l steps env = Inr r"
  obtains forced terminal where
    "re_launch env = Launched" "re_has_streams env"
    "interact (re_steps env) 0 steps = Inr terminal"
    "shutdown (re_shutdown env) = Inr forced"
    "pr_messages r = dn_messages (snd (snd (drained ot l env)))"
    "\<not> contains external_network_marker (dn_stderr (snd (snd (drained ot l env))))"
    "pr_forced_shutdown r = forced" "forced \<or> pr_returncode r = 0"
    "pr_terminal_side_error r = terminal" "pr_completed_barriers r = (terminal = None)"
    "terminal = None \<longrightarrow> fst (drained ot l env) = Inr () \<and> fst (snd (drained ot l env)) = Inr ()"
proof -
  obtain out err st where d: "drained ot l env = (out, err, st)" by (cases "drained ot l env")
  have started: "start_process l steps (re_launch env) = Inr ()"
    using assms by (auto simp: run_process_def split: sum.splits)
  then have launched: "re_launch env = Launched"
    by (auto simp: start_process_def split: if_splits launch.splits)
  obtain terminal where t: "interaction env steps = Inr terminal"
    using assms started d
    by (cases "interaction env steps")
      (auto simp: run_process_def Let_def ebind_eq_Inr after_shutdown_def
        split: sum.splits oracle_error.splits if_splits)
  obtain forced where f: "shutdown (re_shutdown env) = Inr forced"
    using assms started d t
    by (cases "shutdown (re_shutdown env)")
      (auto simp: run_process_def Let_def ebind_eq_Inr after_shutdown_def
        split: sum.splits oracle_error.splits if_splits)
  have drain: "raise_drain_failure (Drain_Done x) = Inr u \<longleftrightarrow> x = Inr ()" for x and u :: unit
    by (auto simp: raise_drain_failure_def split: sum.splits oracle_error.splits)
  show ?thesis
    using assms started d t f
    by (intro that [of terminal forced])
      (auto simp: launched run_process_def Let_def after_shutdown_def ebind_eq_Inr drain raise_if_def
        classify_network_marker_def exit_checked_def interaction_def split: if_splits)
qed

text \<open>A failure of the final drain is raised at once, before the marker and the exit code are seen.\<close>

lemma run_process_drain_failure:
  assumes "start_process l steps (re_launch env) = Inr ()" "interaction env steps = Inr None"
    "shutdown (re_shutdown env) = Inr forced" "re_streams_close env"
    "fst (drained ot l env) = Inl (OracleProcessError f)"
  shows "run_process ot l steps env = Inl (OracleProcessError f)"
  using assms
  by (cases "drained ot l env") (simp add: run_process_def after_shutdown_def raise_drain_failure_def)

lemma drain_chunks_errors:
  "drain_chunks ot l d st chunks = (Inl e, st') \<Longrightarrow> \<nexists>f. e = OracleProtocolError f"
proof (induction ot l d st chunks rule: drain_chunks.induct)
  case (2 ot l d st chunk chunks)
  then show ?case
    by (auto simp: Let_def as_process_error_def split: if_splits prod.splits sum.splits oracle_error.splits)
qed simp

lemma drain_stderr_messages: "drain_stderr l st chunks = (r, st') \<Longrightarrow> dn_messages st' = dn_messages st"
  by (induction l st chunks rule: drain_stderr.induct) (auto simp: Let_def split: if_splits)

lemma drain_chunks_decoded:
  "drain_chunks ot l d st chunks = (r, st') \<Longrightarrow> list_all (decoded_by ot) (dn_messages st) \<Longrightarrow>
   list_all (decoded_by ot) (dn_messages st')"
proof (induction ot l d st chunks rule: drain_chunks.induct)
  case (2 ot l d st chunk chunks)
  then show ?case
    by (auto simp: Let_def split: if_splits prod.splits sum.splits dest: feed_decoded)
qed simp

lemma drained_decoded: "list_all (decoded_by ot) (dn_messages (snd (snd (drained ot l env))))"
proof (cases "re_has_streams env")
  case True
  obtain r st where st: "drain_stdout ot l empty_drain (re_stdout_chunks env) = (r, st)"
    by (cases "drain_stdout ot l empty_drain (re_stdout_chunks env)")
  have "list_all (decoded_by ot) (dn_messages st)"
    using st drain_chunks_decoded [of ot l _ empty_drain]
    by (auto simp: drain_stdout_def empty_drain_def split: sum.splits prod.splits)
  moreover obtain r' st' where st': "drain_stderr l st (re_stderr_chunks env) = (r', st')"
    by (cases "drain_stderr l st (re_stderr_chunks env)")
  ultimately show ?thesis
    using True st drain_stderr_messages [OF st'] by (simp add: drained_def)
qed (simp add: drained_def empty_drain_def)

lemma drained_complete:
  assumes "re_has_streams env" "fst (drained ot l env) = Inr ()"
  shows "transcript True True (dn_messages (snd (snd (drained ot l env))))"
proof -
  obtain st where st: "drain_stdout ot l empty_drain (re_stdout_chunks env) = (Inr (), st)"
    using assms by (auto simp: drained_def split: prod.splits)
  obtain r st' where st': "drain_stderr l st (re_stderr_chunks env) = (r, st')"
    by (cases "drain_stderr l st (re_stderr_chunks env)")
  then show ?thesis
    using drain_stdout_complete(1) [OF st] drain_stderr_messages [OF st'] assms(1) st
    by (simp add: drained_def)
qed

lemma run_process_messages:
  "run_process ot l steps env = Inr r \<Longrightarrow> pr_messages r = dn_messages (snd (snd (drained ot l env)))"
  by (erule run_process_Inr)

lemma run_process_trusted:
  assumes "run_process ot l steps env = Inr r"
  shows "cleaned_up (re_shutdown env) \<and> (pr_forced_shutdown r \<or> pr_returncode r = 0)
    \<and> \<not> contains external_network_marker (dn_stderr (snd (snd (drained ot l env))))
    \<and> (pr_terminal_side_error r = None \<longrightarrow>
        transcript True True (pr_messages r) \<and> answered (re_steps env) 0 steps)"
  using assms
proof (rule run_process_Inr, goal_cases)
  case (1 forced terminal)
  then show ?case
    using shutdown_ok [OF 1(4)] drained_complete [OF 1(2), of ot l] interact_answered by auto
qed

end
