(* ===== verification/Oracle_Session.thy ===== *)
theory Oracle_Session
  imports Oracle_Process Capabilities
begin

text \<open>
  \<open>battlebelief_lab/oracle/showdown/session.py\<close>: a fixture is parsed and bound to its digests, turned
  into the commands of four interaction steps, run by one simulator process, and its transcript
  becomes an \<open>oracle_result\<close> that carries canonical evidence. The verification of the build, the
  guard file and the process runner are fields of the configuration.
\<close>

section \<open>Canonical documents\<close>

definition canonical :: "oracle_text \<Rightarrow> json \<Rightarrow> oracle_error + bytes" where
  "canonical ot v = of_option Value_Raised (ot_canonicalize ot v)"

definition oracle_digest :: "oracle_text \<Rightarrow> json \<Rightarrow> oracle_error + string" where
  "oracle_digest ot v = ebind (canonical ot v) (\<lambda>raw. Inr (''sha256:'' @ ot_sha256 ot raw))"

text \<open>\<open>json.loads\<close>; its errors are \<open>ValueError\<close>s.\<close>

definition loads_text :: "string \<Rightarrow> oracle_error + json" where
  "loads_text t = (case json_loads t of
     Inr v \<Rightarrow> Inr v | Inl Json_Beyond_Latin1 \<Rightarrow> Inl Beyond_Latin1_Text | Inl _ \<Rightarrow> Inl Value_Raised)"

definition canonical_json_object :: "oracle_text \<Rightarrow> bytes \<Rightarrow> oracle_error + json" where
  "canonical_json_object ot raw =
     ebind (decode_text raw) (\<lambda>t.
     ebind (loads_text t) (\<lambda>value.
     ebind (canonical ot value) (\<lambda>again.
     if again \<noteq> raw then Inl Value_Raised else Inr value)))"

definition is_json_object :: "json \<Rightarrow> bool" where
  "is_json_object v = (case v of JObject _ \<Rightarrow> True | _ \<Rightarrow> False)"

definition is_json_list :: "json \<Rightarrow> bool" where
  "is_json_list v = (case v of JList _ \<Rightarrow> True | _ \<Rightarrow> False)"

definition canonical_evidence_document ::
    "oracle_text \<Rightarrow> bytes \<Rightarrow> (json \<Rightarrow> bool) \<Rightarrow> oracle_error + json" where
  "canonical_evidence_document ot raw expected_type =
     (case ebind (decode_text raw) loads_text of
        Inl Unicode_Decode_Error \<Rightarrow> Inl Value_Raised
      | Inl e \<Rightarrow> Inl e
      | Inr value \<Rightarrow>
          if \<not> expected_type value then Inl Value_Raised
          else ebind (canonical ot value) (\<lambda>again.
            if again \<noteq> raw then Inl Value_Raised else Inr value))"

section \<open>Identities and results\<close>

definition is_fixture_id :: "string \<Rightarrow> bool" where
  "is_fixture_id s \<longleftrightarrow> list_all (\<lambda>w. w \<noteq> [] \<and> list_all is_id_char w) (split_on CHR ''-'' s)"

record oracle_request_identity =
  oi_fixture_id :: string
  oi_sequence :: int
  oi_side :: string
  oi_request_digest :: string

definition check_oracle_identity :: "oracle_request_identity \<Rightarrow> oracle_error + unit" where
  "check_oracle_identity i =
     ebind (raise_if (\<not> is_fixture_id (oi_fixture_id i)) Value_Raised) (\<lambda>_.
     ebind (raise_if (\<not> (0 \<le> oi_sequence i \<and> oi_sequence i \<le> max_safe_integer)) Value_Raised) (\<lambda>_.
     ebind (raise_if (oi_side i \<notin> set player_sides) Value_Raised) (\<lambda>_.
     raise_if (\<not> is_digest_text (oi_request_digest i)) Value_Raised)))"

definition oracle_identity_dict :: "oracle_request_identity \<Rightarrow> json" where
  "oracle_identity_dict i = JObject [(''fixture_id'', JString (oi_fixture_id i)),
     (''sequence'', JInt (oi_sequence i)), (''side'', JString (oi_side i)),
     (''request_digest'', JString (oi_request_digest i))]"

record oracle_result =
  or_fixture_id :: string
  or_status :: string
  or_failure_class :: "oracle_failure_class option"
  or_source_manifest_digest :: string
  or_build_manifest_digest :: string
  or_ruleset_snapshot_digest :: string
  or_fixture_digest :: string
  or_seed_digest :: string
  or_input_digest :: string
  or_transcript_digest :: string
  or_canonical_input :: bytes
  or_canonical_transcript :: bytes
  or_request_identities :: "oracle_request_identity list"

text \<open>
  The side requests a transcript records, with the digests of their requests. A list or an
  object is no member of a set: \<open>TypeError\<close>.
\<close>

definition entry_identity :: "oracle_text \<Rightarrow> json \<Rightarrow> oracle_error + (string \<times> string) list" where
  "entry_identity ot entry =
     (case entry of
        JObject d \<Rightarrow>
          if map_of d ''kind'' \<noteq> Some (JString ''side_request'') then Inr []
          else (case (map_of d ''side'', map_of d ''request_json'') of
              (Some (JString player), Some (JObject request)) \<Rightarrow>
                if player \<in> set player_sides
                then ebind (oracle_digest ot (JObject request)) (\<lambda>digest. Inr [(player, digest)])
                else Inl Value_Raised
            | (Some (JList _), _) \<Rightarrow> Inl Type_Raised
            | (Some (JObject _), _) \<Rightarrow> Inl Type_Raised
            | _ \<Rightarrow> Inl Value_Raised)
      | _ \<Rightarrow> Inr [])"

definition transcript_identities :: "oracle_text \<Rightarrow> json \<Rightarrow> oracle_error + (string \<times> string) list" where
  "transcript_identities ot document =
     (case document of
        JList entries \<Rightarrow> ebind (emap (entry_identity ot) entries) (\<lambda>pairs. Inr (concat pairs))
      | _ \<Rightarrow> Inr [])"

definition result_digests :: "oracle_result \<Rightarrow> string list" where
  "result_digests r = [or_source_manifest_digest r, or_build_manifest_digest r,
     or_ruleset_snapshot_digest r, or_fixture_digest r, or_seed_digest r, or_input_digest r,
     or_transcript_digest r]"

definition document_field :: "json \<Rightarrow> string \<Rightarrow> json option" where
  "document_field v key = (case v of JObject d \<Rightarrow> map_of d key | _ \<Rightarrow> None)"

definition check_oracle_result :: "oracle_text \<Rightarrow> oracle_result \<Rightarrow> oracle_error + unit" where
  "check_oracle_result ot r =
     ebind (raise_if (\<not> is_fixture_id (or_fixture_id r)) Value_Raised) (\<lambda>_.
     ebind (raise_if (or_status r \<notin> {''success'', ''failure''}) Value_Raised) (\<lambda>_.
     ebind (raise_if ((or_status r = ''success'') \<noteq> (or_failure_class r = None)) Value_Raised) (\<lambda>_.
     ebind (raise_if (\<not> list_all is_digest_text (result_digests r)) Value_Raised) (\<lambda>_.
     ebind (canonical_evidence_document ot (or_canonical_input r) is_json_object) (\<lambda>input_document.
     ebind (canonical_evidence_document ot (or_canonical_transcript r) is_json_list) (\<lambda>transcript_document.
     ebind (oracle_digest ot input_document) (\<lambda>input_digest.
     ebind (raise_if (input_digest \<noteq> or_input_digest r) Value_Raised) (\<lambda>_.
     ebind (oracle_digest ot transcript_document) (\<lambda>transcript_digest.
     ebind (raise_if (transcript_digest \<noteq> or_transcript_digest r) Value_Raised) (\<lambda>_.
     ebind (raise_if (document_field input_document ''fixture_id'' \<noteq> Some (JString (or_fixture_id r)))
       Value_Raised) (\<lambda>_.
     ebind (raise_if (map oi_sequence (or_request_identities r)
         \<noteq> map int [0..<length (or_request_identities r)]) Value_Raised) (\<lambda>_.
     ebind (raise_if (\<exists>i\<in>set (or_request_identities r). oi_fixture_id i \<noteq> or_fixture_id r)
       Value_Raised) (\<lambda>_.
     ebind (transcript_identities ot transcript_document) (\<lambda>identities.
     raise_if (map (\<lambda>i. (oi_side i, oi_request_digest i)) (or_request_identities r) \<noteq> identities)
       Value_Raised))))))))))))))"

definition make_oracle_result :: "oracle_text \<Rightarrow> oracle_result \<Rightarrow> oracle_error + oracle_result" where
  "make_oracle_result ot r = ebind (check_oracle_result ot r) (\<lambda>_. Inr r)"

definition oracle_result_dict :: "oracle_text \<Rightarrow> oracle_result \<Rightarrow> oracle_error + json" where
  "oracle_result_dict ot r =
     ebind (canonical_evidence_document ot (or_canonical_input r) is_json_object) (\<lambda>input_document.
     ebind (canonical_evidence_document ot (or_canonical_transcript r) is_json_list) (\<lambda>transcript_document.
     Inr (JObject [(''fixture_id'', JString (or_fixture_id r)), (''status'', JString (or_status r)),
       (''failure_class'', case or_failure_class r of None \<Rightarrow> JNull
          | Some f \<Rightarrow> JString (oracle_failure_value f)),
       (''source_manifest_digest'', JString (or_source_manifest_digest r)),
       (''build_manifest_digest'', JString (or_build_manifest_digest r)),
       (''ruleset_snapshot_digest'', JString (or_ruleset_snapshot_digest r)),
       (''fixture_digest'', JString (or_fixture_digest r)), (''seed_digest'', JString (or_seed_digest r)),
       (''input_digest'', JString (or_input_digest r)),
       (''transcript_digest'', JString (or_transcript_digest r)),
       (''input'', input_document), (''transcript'', transcript_document),
       (''request_identities'', JList (map oracle_identity_dict (or_request_identities r)))])))"

section \<open>Fixtures\<close>

record fixture_player =
  fp_name :: string
  fp_team :: string
  fp_team_choice :: string
  fp_move_choice :: string

record fixture =
  fx_fixture_id :: string
  fx_canonical_document :: bytes
  fx_fixture_digest :: string
  fx_ruleset_snapshot_digest :: string
  fx_seed_domain :: string
  fx_seed :: "int list"
  fx_p1 :: fixture_player
  fx_p2 :: fixture_player
  fx_expected_tera_line :: "string option"

definition require_digest_value :: "json \<Rightarrow> oracle_error + string" where
  "require_digest_value v = (case v of
     JString s \<Rightarrow> if is_digest_text s then Inr s else Inl Value_Raised | _ \<Rightarrow> Inl Value_Raised)"

definition require_line :: "json \<Rightarrow> oracle_error + string" where
  "require_line v = (case v of
     JString s \<Rightarrow> if s = [] \<or> carriage_return \<in> set s \<or> newline \<in> set s \<or> CHR 0x00 \<in> set s
       then Inl Value_Raised else Inr s
   | _ \<Rightarrow> Inl Value_Raised)"

text \<open>\<open>value == 1\<close>, which a Boolean and a float that rounds to one also satisfy.\<close>

definition equals_one :: "json \<Rightarrow> bool" where
  "equals_one v = (case v of
     JInt n \<Rightarrow> n = 1
   | JBool b \<Rightarrow> b
   | JFloat t \<Rightarrow>
       (let (m, e) = float_parts t; s = 10 ^ nat (- e); n = m * 10 ^ nat e
        in \<not> starts_with ''-'' t \<and> (2 ^ 54 - 1) * s \<le> n * 2 ^ 54 \<and> n * 2 ^ 53 \<le> (2 ^ 53 + 1) * s)
   | _ \<Rightarrow> False)"

definition object_with_keys :: "string list \<Rightarrow> json \<Rightarrow> oracle_error + (string \<times> json) list" where
  "object_with_keys keys v = (case v of
     JObject d \<Rightarrow> if has_exact_keys keys d then Inr d else Inl Value_Raised | _ \<Rightarrow> Inl Value_Raised)"

definition parse_player :: "string \<Rightarrow> json \<Rightarrow> oracle_error + fixture_player" where
  "parse_player player value =
     ebind (object_with_keys [''name'', ''team'', ''team_choice'', ''move_choice''] value) (\<lambda>d.
     ebind (require_line (lookup_json d ''name'')) (\<lambda>name.
     ebind (raise_if (name \<noteq> player) Value_Raised) (\<lambda>_.
     ebind (require_line (lookup_json d ''team'')) (\<lambda>team.
     ebind (require_line (lookup_json d ''team_choice'')) (\<lambda>team_choice.
     ebind (require_line (lookup_json d ''move_choice'')) (\<lambda>move_choice.
     ebind (raise_if (team_choice \<noteq> ''team 1'') Value_Raised) (\<lambda>_.
     ebind (raise_if (move_choice \<notin> {''move 1'', ''move 1 terastallize''}) Value_Raised) (\<lambda>_.
     Inr \<lparr>fp_name = name, fp_team = team, fp_team_choice = team_choice, fp_move_choice = move_choice\<rparr>))))))))"

definition approved_tera_line :: string where
  "approved_tera_line = ''|-terastallize|p1a: Garchomp|Ground''"

definition fixture_fields :: "string list" where
  "fixture_fields = [''schema_version'', ''fixture_id'', ''format_id'', ''ruleset_snapshot_digest'',
     ''seed_domain'', ''seed'', ''players'', ''expected_tera_line'']"

definition parse_seed :: "json \<Rightarrow> oracle_error + int list" where
  "parse_seed v = (case v of
     JList items \<Rightarrow>
       if length items \<noteq> 4 then Inl Value_Raised
       else emap (\<lambda>i. case i of JInt n \<Rightarrow> if 0 \<le> n \<and> n \<le> max_safe_integer then Inr n else Inl Value_Raised
         | _ \<Rightarrow> Inl Value_Raised) items
   | _ \<Rightarrow> Inl Value_Raised)"

definition parse_tera_line :: "json \<Rightarrow> oracle_error + string option" where
  "parse_tera_line v =
     (if v = JNull then Inr None
      else ebind (require_line v) (\<lambda>line.
        if line \<noteq> approved_tera_line then Inl Value_Raised else Inr (Some line)))"

definition player_dict :: "fixture_player \<Rightarrow> json" where
  "player_dict p = JObject [(''name'', JString (fp_name p)), (''team'', JString (fp_team p)),
     (''team_choice'', JString (fp_team_choice p)), (''move_choice'', JString (fp_move_choice p))]"

definition fixture_document ::
    "string \<Rightarrow> string \<Rightarrow> string \<Rightarrow> int list \<Rightarrow> fixture_player \<Rightarrow> fixture_player \<Rightarrow> string option \<Rightarrow> json" where
  "fixture_document fixture_id ruleset seed_domain seed p1 p2 tera =
     JObject [(''schema_version'', JInt 1), (''fixture_id'', JString fixture_id),
       (''format_id'', JString ''gen9ou''), (''ruleset_snapshot_digest'', JString ruleset),
       (''seed_domain'', JString seed_domain), (''seed'', JList (map JInt seed)),
       (''players'', JObject [(''p1'', player_dict p1), (''p2'', player_dict p2)]),
       (''expected_tera_line'', case tera of None \<Rightarrow> JNull | Some line \<Rightarrow> JString line)]"

definition parse_fixture :: "oracle_text \<Rightarrow> json \<Rightarrow> oracle_error + fixture" where
  "parse_fixture ot value =
     ebind (object_with_keys fixture_fields value) (\<lambda>d.
     ebind (raise_if (\<not> equals_one (lookup_json d ''schema_version'')) Value_Raised) (\<lambda>_.
     ebind (require_line (lookup_json d ''fixture_id'')) (\<lambda>fixture_id.
     ebind (raise_if (\<not> is_fixture_id fixture_id) Value_Raised) (\<lambda>_.
     ebind (raise_if (lookup_json d ''format_id'' \<noteq> JString ''gen9ou'') Value_Raised) (\<lambda>_.
     ebind (require_digest_value (lookup_json d ''ruleset_snapshot_digest'')) (\<lambda>ruleset.
     ebind (require_line (lookup_json d ''seed_domain'')) (\<lambda>seed_domain.
     ebind (raise_if (seed_domain \<noteq> ''showdown-fixture-v1'') Value_Raised) (\<lambda>_.
     ebind (parse_seed (lookup_json d ''seed'')) (\<lambda>seed.
     ebind (object_with_keys [''p1'', ''p2''] (lookup_json d ''players'')) (\<lambda>players.
     ebind (parse_player ''p1'' (lookup_json players ''p1'')) (\<lambda>p1.
     ebind (parse_player ''p2'' (lookup_json players ''p2'')) (\<lambda>p2.
     ebind (parse_tera_line (lookup_json d ''expected_tera_line'')) (\<lambda>tera.
     ebind (raise_if ((tera = None) \<noteq> (fp_move_choice p1 = ''move 1'')) Value_Raised) (\<lambda>_.
     ebind (raise_if (fp_move_choice p2 \<noteq> ''move 1'') Value_Raised) (\<lambda>_.
     ebind (canonical ot (fixture_document fixture_id ruleset seed_domain seed p1 p2 tera)) (\<lambda>document.
     ebind (ebind (decode_text document) loads_text) (\<lambda>loaded.
     ebind (oracle_digest ot loaded) (\<lambda>digest.
     Inr \<lparr>fx_fixture_id = fixture_id, fx_canonical_document = document, fx_fixture_digest = digest,
       fx_ruleset_snapshot_digest = ruleset, fx_seed_domain = seed_domain, fx_seed = seed,
       fx_p1 = p1, fx_p2 = p2, fx_expected_tera_line = tera\<rparr>))))))))))))))))))"

definition seed_digest :: "oracle_text \<Rightarrow> fixture \<Rightarrow> oracle_error + string" where
  "seed_digest ot f = oracle_digest ot
     (JObject [(''seed_domain'', JString (fx_seed_domain f)), (''seed'', JList (map JInt (fx_seed f)))])"

section \<open>Steps and transcripts\<close>

definition command_json :: "oracle_text \<Rightarrow> string \<Rightarrow> json \<Rightarrow> oracle_error + string" where
  "command_json ot prefix payload =
     ebind (canonical ot payload) (\<lambda>raw. ebind (decode_text raw) (\<lambda>t. Inr (prefix @ t)))"

definition encode_default :: "oracle_text \<Rightarrow> string list \<Rightarrow> oracle_error + bytes" where
  "encode_default ot commands =
     encode_commands ot default_max_command_bytes default_max_input_bytes commands"

definition make_step :: "bytes \<Rightarrow> response_barrier \<Rightarrow> oracle_error + interaction_step" where
  "make_step input barrier =
     (let step = \<lparr>is_input_bytes = input, is_barrier = barrier\<rparr>
      in ebind (check_step step) (\<lambda>_. Inr step))"

definition both_requests :: response_barrier where
  "both_requests = \<lparr>rb_request_sides = [''p1'', ''p2''], rb_end = False\<rparr>"

definition the_end :: response_barrier where
  "the_end = \<lparr>rb_request_sides = [], rb_end = True\<rparr>"

definition player_command :: "fixture_player \<Rightarrow> json" where
  "player_command p = JObject [(''name'', JString (fp_name p)), (''team'', JString (fp_team p))]"

definition build_steps :: "oracle_text \<Rightarrow> fixture \<Rightarrow> oracle_error + interaction_step list" where
  "build_steps ot f =
     ebind (command_json ot ''>start '' (JObject [(''formatid'', JString ''gen9ou''),
       (''seed'', JList (map JInt (fx_seed f)))])) (\<lambda>start.
     ebind (command_json ot ''>player p1 '' (player_command (fx_p1 f))) (\<lambda>player1.
     ebind (command_json ot ''>player p2 '' (player_command (fx_p2 f))) (\<lambda>player2.
     ebind (encode_default ot [start, player1, player2]) (\<lambda>initial.
     ebind (encode_default ot [''>p1 '' @ fp_team_choice (fx_p1 f), ''>p2 '' @ fp_team_choice (fx_p2 f)]) (\<lambda>teams.
     ebind (encode_default ot [''>p1 '' @ fp_move_choice (fx_p1 f), ''>p2 '' @ fp_move_choice (fx_p2 f)]) (\<lambda>moves.
     ebind (encode_default ot [''>forcetie'']) (\<lambda>tie.
     ebind (make_step initial both_requests) (\<lambda>s1.
     ebind (make_step teams both_requests) (\<lambda>s2.
     ebind (make_step moves both_requests) (\<lambda>s3.
     ebind (make_step tie the_end) (\<lambda>s4.
     Inr [s1, s2, s3, s4])))))))))))"

definition transcript_entry :: "oracle_text \<Rightarrow> oracle_message \<Rightarrow> oracle_error + json" where
  "transcript_entry ot m = (case m of
     UpdateMessage ls \<Rightarrow> Inr (JObject [(''kind'', JString ''update''), (''lines'', JList (map JString ls))])
   | SideUpdateMessage player _ request_json \<Rightarrow>
       ebind (canonical_json_object ot request_json) (\<lambda>request.
       Inr (JObject [(''kind'', JString ''side_request''), (''side'', JString player),
         (''request_json'', request)]))
   | SideErrorMessage player line \<Rightarrow>
       Inr (JObject [(''kind'', JString ''side_error''), (''side'', JString player), (''line'', JString line)])
   | EndMessage log_json \<Rightarrow>
       ebind (canonical_json_object ot log_json) (\<lambda>log.
       Inr (JObject [(''kind'', JString ''end''), (''log_json'', log)])))"

definition transcript_document :: "oracle_text \<Rightarrow> oracle_message list \<Rightarrow> oracle_error + json list" where
  "transcript_document ot messages = emap (transcript_entry ot) messages"

definition add_identity ::
    "oracle_text \<Rightarrow> string \<Rightarrow> oracle_request_identity list \<Rightarrow> oracle_message \<Rightarrow>
     oracle_error + oracle_request_identity list" where
  "add_identity ot fixture_id identities m = (case m of
     SideUpdateMessage player _ request_json \<Rightarrow>
       ebind (canonical_json_object ot request_json) (\<lambda>request.
       ebind (oracle_digest ot request) (\<lambda>digest.
       (let i = \<lparr>oi_fixture_id = fixture_id, oi_sequence = int (length identities), oi_side = player,
          oi_request_digest = digest\<rparr>
        in ebind (check_oracle_identity i) (\<lambda>_. Inr (identities @ [i])))))
   | _ \<Rightarrow> Inr identities)"

definition request_identities ::
    "oracle_text \<Rightarrow> string \<Rightarrow> oracle_message list \<Rightarrow> oracle_error + oracle_request_identity list" where
  "request_identities ot fixture_id messages = efold (add_identity ot fixture_id) [] messages"

section \<open>The session\<close>

text \<open>
  The outcome of \<open>verify_build_manifest\<close>, the presence of the packaged guard, and the runner;
  the digests are those of the two manifests of the configuration.
\<close>

record oracle_config =
  oc_source_manifest_digest :: string
  oc_build_manifest_digest :: string
  oc_ruleset_snapshot_digest :: string
  oc_verified :: "oracle_failure_class option"
  oc_guarded :: bool
  oc_run :: "interaction_step list \<Rightarrow> oracle_error + process_result"

record evidence =
  ev_fixture :: fixture
  ev_seed_digest :: string
  ev_input_digest :: string
  ev_canonical_input :: bytes

definition result_of ::
    "oracle_config \<Rightarrow> evidence \<Rightarrow> oracle_failure_class option \<Rightarrow> string \<Rightarrow> bytes \<Rightarrow>
     oracle_request_identity list \<Rightarrow> oracle_result" where
  "result_of cfg ev failure transcript_digest canonical_transcript identities =
     \<lparr>or_fixture_id = fx_fixture_id (ev_fixture ev),
      or_status = (if failure = None then ''success'' else ''failure''), or_failure_class = failure,
      or_source_manifest_digest = oc_source_manifest_digest cfg,
      or_build_manifest_digest = oc_build_manifest_digest cfg,
      or_ruleset_snapshot_digest = fx_ruleset_snapshot_digest (ev_fixture ev),
      or_fixture_digest = fx_fixture_digest (ev_fixture ev), or_seed_digest = ev_seed_digest ev,
      or_input_digest = ev_input_digest ev, or_transcript_digest = transcript_digest,
      or_canonical_input = ev_canonical_input ev, or_canonical_transcript = canonical_transcript,
      or_request_identities = identities\<rparr>"

definition finish_result ::
    "oracle_text \<Rightarrow> oracle_config \<Rightarrow> evidence \<Rightarrow> oracle_failure_class option \<Rightarrow> json list \<Rightarrow>
     oracle_request_identity list \<Rightarrow> oracle_error + oracle_result" where
  "finish_result ot cfg ev failure entries identities =
     ebind (oracle_digest ot (JList entries)) (\<lambda>digest.
     ebind (canonical ot (JList entries)) (\<lambda>raw.
     make_oracle_result ot (result_of cfg ev failure digest raw identities)))"

text \<open>How a run that returned is judged: the first failing check names the failure.\<close>

definition judge :: "fixture \<Rightarrow> process_result \<Rightarrow> oracle_failure_class option" where
  "judge f r =
     (if pr_terminal_side_error r \<noteq> None then Some RULESET_REJECTED
      else if \<not> pr_completed_barriers r then Some PROTOCOL_DESYNCHRONIZATION
      else if \<not> list_ex is_end (pr_messages r) then Some PROTOCOL_DESYNCHRONIZATION
      else (case fx_expected_tera_line f of
          Some line \<Rightarrow>
            if list_ex (\<lambda>m. case m of UpdateMessage ls \<Rightarrow> line \<in> set ls | _ \<Rightarrow> False) (pr_messages r)
            then None else Some RULESET_REJECTED
        | None \<Rightarrow> None))"

definition evidence_of :: "oracle_text \<Rightarrow> fixture \<Rightarrow> interaction_step list \<Rightarrow> oracle_error + evidence" where
  "evidence_of ot f steps =
     ebind (emap (\<lambda>s. decode_text (is_input_bytes s)) steps) (\<lambda>texts.
     (let input_document = JObject [(''fixture_id'', JString (fx_fixture_id f)),
        (''steps'', JList (map JString texts))]
      in ebind (canonical ot input_document) (\<lambda>raw.
         ebind (oracle_digest ot input_document) (\<lambda>digest.
         ebind (seed_digest ot f) (\<lambda>seed.
         Inr \<lparr>ev_fixture = f, ev_seed_digest = seed, ev_input_digest = digest,
           ev_canonical_input = raw\<rparr>)))))"

definition conclude ::
    "oracle_text \<Rightarrow> oracle_config \<Rightarrow> evidence \<Rightarrow> process_result \<Rightarrow> oracle_error + oracle_result" where
  "conclude ot cfg ev r =
     ebind (transcript_document ot (pr_messages r)) (\<lambda>entries.
     ebind (request_identities ot (fx_fixture_id (ev_fixture ev)) (pr_messages r)) (\<lambda>identities.
     finish_result ot cfg ev (judge (ev_fixture ev) r) entries identities))"

definition run_fixture :: "oracle_text \<Rightarrow> oracle_config \<Rightarrow> json \<Rightarrow> oracle_error + oracle_result" where
  "run_fixture ot cfg document =
     ebind (parse_fixture ot document) (\<lambda>f.
     ebind (raise_if (fx_ruleset_snapshot_digest f \<noteq> oc_ruleset_snapshot_digest cfg) Value_Raised) (\<lambda>_.
     ebind (build_steps ot f) (\<lambda>steps.
     ebind (evidence_of ot f steps) (\<lambda>ev.
     (case oc_verified cfg of
        Some failure \<Rightarrow> finish_result ot cfg ev (Some failure) [] []
      | None \<Rightarrow>
          if \<not> oc_guarded cfg then finish_result ot cfg ev (Some BUILD_OUTPUT_MISSING) [] []
          else (case oc_run cfg steps of
              Inl (OracleProcessError failure) \<Rightarrow> finish_result ot cfg ev (Some failure) [] []
            | Inl e \<Rightarrow> Inl e
            | Inr r \<Rightarrow> conclude ot cfg ev r))))))"

section \<open>What the canonicalizer and the hash are relied on for\<close>

text \<open>
  RFC 8785: the canonical bytes are UTF-8 of a JSON text; reading it gives the value up to the
  order of keys and the text of floats (\<open>nf\<close>), with the same canonical bytes. A digest is 64
  hexadecimal digits.
\<close>

definition canonicalizer_sound :: "oracle_text \<Rightarrow> (json \<Rightarrow> json) \<Rightarrow> bool" where
  "canonicalizer_sound ot nf \<longleftrightarrow>
     (\<forall>v raw. ot_canonicalize ot v = Some raw \<longrightarrow>
        (\<exists>t. decode_text raw = Inr t \<and> json_loads t = Inr (nf v)) \<and> ot_canonicalize ot (nf v) = Some raw)
     \<and> (\<forall>vs. nf (JList vs) = JList (map nf vs))
     \<and> (\<forall>d. \<exists>d'. nf (JObject d) = JObject d'
          \<and> (distinct (map fst d) \<longrightarrow> (\<forall>k. map_of d' k = map_option nf (map_of d k))))
     \<and> (\<forall>s. nf (JString s) = JString s) \<and> nf JNull = JNull
     \<and> (\<forall>raw. is_digest_text (''sha256:'' @ ot_sha256 ot raw))"

lemma soundD:
  assumes "canonicalizer_sound ot nf"
  shows "ot_canonicalize ot v = Some raw \<Longrightarrow> \<exists>t. decode_text raw = Inr t \<and> json_loads t = Inr (nf v)"
    and "ot_canonicalize ot v = Some raw \<Longrightarrow> ot_canonicalize ot (nf v) = Some raw"
    and "nf (JList vs) = JList (map nf vs)"
    and "\<exists>d'. nf (JObject d) = JObject d'
          \<and> (distinct (map fst d) \<longrightarrow> (\<forall>k. map_of d' k = map_option nf (map_of d k)))"
    and "nf (JString s) = JString s" and "nf JNull = JNull"
    and "is_digest_text (''sha256:'' @ ot_sha256 ot b)"
  using assms unfolding canonicalizer_sound_def by blast+

lemma oracle_digest_eq_Inr:
  "oracle_digest ot v = Inr s \<longleftrightarrow> (\<exists>raw. ot_canonicalize ot v = Some raw \<and> s = ''sha256:'' @ ot_sha256 ot raw)"
  by (auto simp: oracle_digest_def canonical_def result_simps)

lemma canonical_json_object_canonical:
  assumes "canonicalizer_sound ot nf" "ot_canonicalize ot v = Some raw"
  shows "canonical_json_object ot raw = Inr (nf v)"
  using soundD(1,2) [OF assms] by (auto simp: canonical_json_object_def loads_text_def canonical_def)

lemma evidence_document_canonical:
  assumes "canonicalizer_sound ot nf" "ot_canonicalize ot v = Some raw" "expected (nf v)"
  shows "canonical_evidence_document ot raw expected = Inr (nf v)"
  using soundD(1,2) [OF assms(1,2)] assms(3)
  by (auto simp: canonical_evidence_document_def loads_text_def canonical_def)

lemma json_loads_null: "json_loads ''null'' = Inr JNull"
  by code_simp

lemma decode_null: "decode_text ''null'' = Inr ''null''"
  by code_simp

lemma object_not_null:
  assumes "canonicalizer_sound ot nf"
  shows "ot_canonicalize ot (JObject d) \<noteq> Some ''null''"
proof
  assume "ot_canonicalize ot (JObject d) = Some ''null''"
  from soundD(1) [OF assms this] have "json_loads ''null'' = Inr (nf (JObject d))"
    by (auto simp: decode_null)
  with soundD(4) [OF assms, of d] json_loads_null show False by auto
qed

section \<open>Messages and the transcript\<close>

definition is_null_request :: "oracle_message \<Rightarrow> bool" where
  "is_null_request m \<longleftrightarrow> (case m of SideUpdateMessage _ _ request \<Rightarrow> request = ''null'' | _ \<Rightarrow> False)"

definition identity_pairs :: "oracle_text \<Rightarrow> oracle_message \<Rightarrow> (string \<times> string) list" where
  "identity_pairs ot m = (case m of
     SideUpdateMessage player _ request \<Rightarrow> [(player, ''sha256:'' @ ot_sha256 ot request)] | _ \<Rightarrow> [])"

text \<open>The fields of an entry, as they are read back.\<close>

lemma entry_read_back:
  assumes "canonicalizer_sound ot nf" "distinct (map fst d)"
  shows "entry_identity ot (nf (JObject d)) =
    (if map_option nf (map_of d ''kind'') \<noteq> Some (JString ''side_request'') then Inr []
     else (case (map_option nf (map_of d ''side''), map_option nf (map_of d ''request_json'')) of
         (Some (JString player), Some (JObject request)) \<Rightarrow>
           if player \<in> set player_sides
           then ebind (oracle_digest ot (JObject request)) (\<lambda>digest. Inr [(player, digest)])
           else Inl Value_Raised
       | (Some (JList _), _) \<Rightarrow> Inl Type_Raised
       | (Some (JObject _), _) \<Rightarrow> Inl Type_Raised
       | _ \<Rightarrow> Inl Value_Raised))"
proof -
  obtain d' where d': "nf (JObject d) = JObject d'" and fields: "map_of d' k = map_option nf (map_of d k)" for k
    using soundD(4) [OF assms(1), of d] assms(2) by auto
  show ?thesis by (simp only: entry_identity_def d' json.case fields)
qed

lemma transcript_entry_request:
  assumes sound: "canonicalizer_sound ot nf" and m: "decoded_by ot m" "\<not> is_null_request m"
  shows "\<exists>e. transcript_entry ot m = Inr e \<and> entry_identity ot (nf e) = Inr (identity_pairs ot m)"
proof (cases m)
  case (SideUpdateMessage player ls request)
  then obtain d where d: "ot_canonicalize ot (JObject d) = Some request" and player: "player \<in> set player_sides"
    using m by (auto simp: decoded_by_def is_null_request_def)
  obtain d1 where d1: "nf (JObject d) = JObject d1" using soundD(4) [OF sound] by blast
  have c1: "ot_canonicalize ot (JObject d1) = Some request" using soundD(2) [OF sound d] d1 by simp
  obtain d2 where d2: "nf (JObject d1) = JObject d2" using soundD(4) [OF sound] by blast
  have "ot_canonicalize ot (JObject d2) = Some request" using soundD(2) [OF sound c1] d2 by simp
  then have "oracle_digest ot (JObject d2) = Inr (''sha256:'' @ ot_sha256 ot request)"
    by (simp add: oracle_digest_eq_Inr)
  then show ?thesis
    using canonical_json_object_canonical [OF sound d] player d1 d2 SideUpdateMessage
    by (auto simp: transcript_entry_def entry_read_back [OF sound] soundD(5) [OF sound] identity_pairs_def)
next
  case (EndMessage log)
  then obtain d where d: "ot_canonicalize ot (JObject d) = Some log"
    using m by (auto simp: decoded_by_def)
  then show ?thesis
    using canonical_json_object_canonical [OF sound d] EndMessage
    by (auto simp: transcript_entry_def entry_read_back [OF sound] soundD(5) [OF sound] identity_pairs_def)
qed (auto simp: transcript_entry_def entry_read_back [OF sound] soundD(5) [OF sound] identity_pairs_def)

lemma null_object: "canonical_json_object ot ''null'' = (if ot_canonicalize ot JNull = Some ''null'' then Inr JNull else Inl Value_Raised)"
  by (auto simp: canonical_json_object_def loads_text_def json_loads_null decode_null canonical_def
      of_option_def split: option.split)

lemma transcript_entry_null:
  assumes sound: "canonicalizer_sound ot nf" and m: "decoded_by ot m" "is_null_request m"
  shows "transcript_entry ot m = Inl Value_Raised
    \<or> (\<exists>e. transcript_entry ot m = Inr e \<and> entry_identity ot (nf e) = Inl Value_Raised)"
proof -
  obtain player ls where p: "m = SideUpdateMessage player ls ''null''"
    using m by (cases m) (auto simp: is_null_request_def)
  then show ?thesis
    by (auto simp: transcript_entry_def null_object entry_read_back [OF sound] soundD(5,6) [OF sound])
qed

lemma transcript_without_null:
  assumes sound: "canonicalizer_sound ot nf"
  shows "list_all (decoded_by ot) ms \<Longrightarrow> \<not> list_ex is_null_request ms \<Longrightarrow>
    \<exists>es. transcript_document ot ms = Inr es
      \<and> emap (entry_identity ot) (map nf es) = Inr (map (identity_pairs ot) ms)"
proof (induction ms)
  case (Cons m ms)
  then show ?case using transcript_entry_request [OF sound, of m] by (auto simp: transcript_document_def)
qed (simp add: transcript_document_def)

lemma transcript_with_null:
  assumes sound: "canonicalizer_sound ot nf"
  shows "list_all (decoded_by ot) ms \<Longrightarrow> list_ex is_null_request ms \<Longrightarrow>
    transcript_document ot ms = Inl Value_Raised
    \<or> (\<exists>es. transcript_document ot ms = Inr es \<and> emap (entry_identity ot) (map nf es) = Inl Value_Raised)"
proof (induction ms)
  case (Cons m ms)
  have rest: "transcript_document ot ms = Inl Value_Raised \<or> (\<exists>es. transcript_document ot ms = Inr es)"
    using Cons transcript_without_null [OF sound, of ms] by (cases "list_ex is_null_request ms") auto
  show ?case
  proof (cases "is_null_request m")
    case True
    then show ?thesis
      using transcript_entry_null [OF sound, of m] Cons.prems rest by (auto simp: transcript_document_def)
  next
    case False
    then show ?thesis
      using transcript_entry_request [OF sound, of m] Cons by (auto simp: transcript_document_def)
  qed
qed simp

text \<open>The identities of the requests, numbered from \<open>n\<close> on.\<close>

definition numbered :: "oracle_text \<Rightarrow> string \<Rightarrow> nat \<Rightarrow> oracle_message list \<Rightarrow> oracle_request_identity list \<Rightarrow> bool" where
  "numbered ot fixture_id n ms new \<longleftrightarrow>
     map (\<lambda>i. (oi_side i, oi_request_digest i)) new = concat (map (identity_pairs ot) ms)
     \<and> map oi_sequence new = map int [n..<n + length new]
     \<and> (\<forall>i\<in>set new. oi_fixture_id i = fixture_id) \<and> length new \<le> length ms"

lemma add_identity_ok:
  assumes sound: "canonicalizer_sound ot nf" and m: "decoded_by ot m" "transcript_entry ot m = Inr e"
    and ids: "is_fixture_id fid" "int (length ids) \<le> max_safe_integer"
  shows "\<exists>new. add_identity ot fid ids m = Inr (ids @ new) \<and> numbered ot fid (length ids) [m] new"
proof (cases m)
  case (SideUpdateMessage player ls request)
  then obtain v where v: "canonical_json_object ot request = Inr v"
    using m(2) by (auto simp: transcript_entry_def ebind_eq_Inr)
  then have digest: "oracle_digest ot v = Inr (''sha256:'' @ ot_sha256 ot request)"
    by (auto simp: canonical_json_object_def canonical_def oracle_digest_def result_simps split: if_splits)
  have player: "player \<in> set player_sides" using SideUpdateMessage m(1) by (simp add: decoded_by_def)
  let ?i = "\<lparr>oi_fixture_id = fid, oi_sequence = int (length ids), oi_side = player,
      oi_request_digest = ''sha256:'' @ ot_sha256 ot request\<rparr>"
  have check: "check_oracle_identity ?i = Inr ()"
    using player ids soundD(7) [OF sound] by (simp add: check_oracle_identity_def)
  have "add_identity ot fid ids m = Inr (ids @ [?i])"
    unfolding add_identity_def SideUpdateMessage
    using v digest check by (simp add: Let_def)
  moreover have "numbered ot fid (length ids) [m] [?i]"
    by (simp add: numbered_def identity_pairs_def SideUpdateMessage)
  ultimately show ?thesis by blast
qed (simp_all add: add_identity_def numbered_def identity_pairs_def)

lemma identities_ok:
  assumes sound: "canonicalizer_sound ot nf" and fid: "is_fixture_id fid"
  shows "list_all (decoded_by ot) ms \<Longrightarrow> transcript_document ot ms = Inr es \<Longrightarrow>
    int (length ids + length ms) \<le> max_safe_integer + 1 \<Longrightarrow>
    \<exists>new. efold (add_identity ot fid) ids ms = Inr (ids @ new) \<and> numbered ot fid (length ids) ms new"
proof (induction ms arbitrary: ids es)
  case Nil
  then show ?case by (simp add: numbered_def)
next
  case (Cons m ms)
  then obtain e es' where e: "transcript_entry ot m = Inr e" and es': "transcript_document ot ms = Inr es'"
    by (auto simp: transcript_document_def ebind_eq_Inr)
  have "int (length ids) \<le> max_safe_integer" "decoded_by ot m" using Cons.prems by simp_all
  then obtain a where a: "add_identity ot fid ids m = Inr (ids @ a)" "numbered ot fid (length ids) [m] a"
    using add_identity_ok [OF sound _ e fid] by blast
  then have "length a \<le> 1" by (simp add: numbered_def)
  then obtain new where new: "efold (add_identity ot fid) (ids @ a) ms = Inr (ids @ a @ new)"
    "numbered ot fid (length ids + length a) ms new"
    using Cons.IH [of es' "ids @ a"] es' Cons.prems by auto
  have "numbered ot fid (length ids) (m # ms) (a @ new)"
    using a(2) new(2) by (auto simp: numbered_def upt_add_eq_append [of "length ids" "length ids + length a"] add.assoc [symmetric])
  with a(1) new(1) show ?case by auto
qed

section \<open>Results\<close>

text \<open>Evidence whose documents and digests fit: what parsing a fixture and building steps give.\<close>

definition evidence_fits :: "oracle_text \<Rightarrow> evidence \<Rightarrow> bool" where
  "evidence_fits ot ev \<longleftrightarrow>
     is_fixture_id (fx_fixture_id (ev_fixture ev))
     \<and> list_all is_digest_text [fx_ruleset_snapshot_digest (ev_fixture ev), fx_fixture_digest (ev_fixture ev),
         ev_seed_digest ev, ev_input_digest ev]
     \<and> (\<exists>texts. ot_canonicalize ot (JObject [(''fixture_id'', JString (fx_fixture_id (ev_fixture ev))),
           (''steps'', JList (map JString texts))]) = Some (ev_canonical_input ev))
     \<and> ev_input_digest ev = ''sha256:'' @ ot_sha256 ot (ev_canonical_input ev)"

lemma require_digest_value_eq_Inr: "require_digest_value v = Inr s \<longleftrightarrow> v = JString s \<and> is_digest_text s"
  by (auto simp: require_digest_value_def split: json.splits)

lemma parse_fixture_fits:
  assumes "canonicalizer_sound ot nf" "parse_fixture ot document = Inr f"
  shows "is_fixture_id (fx_fixture_id f) \<and> is_digest_text (fx_ruleset_snapshot_digest f)
    \<and> is_digest_text (fx_fixture_digest f)"
  using assms(2) soundD(7) [OF assms(1)]
  by (auto simp: parse_fixture_def require_digest_value_eq_Inr oracle_digest_eq_Inr result_simps)

lemma evidence_of_fits:
  assumes "canonicalizer_sound ot nf" "parse_fixture ot document = Inr f" "evidence_of ot f steps = Inr ev"
  shows "ev_fixture ev = f \<and> evidence_fits ot ev"
  using assms(3) parse_fixture_fits [OF assms(1,2)] soundD(7) [OF assms(1)]
  by (auto simp: evidence_of_def Let_def evidence_fits_def canonical_def oracle_digest_eq_Inr
      seed_digest_def result_simps)

definition config_fits :: "oracle_config \<Rightarrow> bool" where
  "config_fits cfg \<longleftrightarrow> is_digest_text (oc_source_manifest_digest cfg) \<and> is_digest_text (oc_build_manifest_digest cfg)"

lemma check_result_of:
  assumes sound: "canonicalizer_sound ot nf" and ev: "evidence_fits ot ev" and cfg: "config_fits cfg"
    and raw: "ot_canonicalize ot (JList es) = Some raw"
    and ids: "map oi_sequence ids = map int [0..<length ids]"
      "\<forall>i\<in>set ids. oi_fixture_id i = fx_fixture_id (ev_fixture ev)"
  shows "check_oracle_result ot (result_of cfg ev failure (''sha256:'' @ ot_sha256 ot raw) raw ids) =
    ebind (emap (entry_identity ot) (map nf es)) (\<lambda>pairs.
      raise_if (map (\<lambda>i. (oi_side i, oi_request_digest i)) ids \<noteq> concat pairs) Value_Raised)"
proof -
  obtain texts where input: "ot_canonicalize ot (JObject
      [(''fixture_id'', JString (fx_fixture_id (ev_fixture ev))), (''steps'', JList (map JString texts))]) =
      Some (ev_canonical_input ev)"
    using ev by (auto simp: evidence_fits_def)
  obtain d' where d': "nf (JObject [(''fixture_id'', JString (fx_fixture_id (ev_fixture ev))),
        (''steps'', JList (map JString texts))]) = JObject d'"
    and field: "map_of d' ''fixture_id'' = Some (JString (fx_fixture_id (ev_fixture ev)))"
    using soundD(4) [OF sound, of "[(''fixture_id'', JString (fx_fixture_id (ev_fixture ev))),
        (''steps'', JList (map JString texts))]"] soundD(5) [OF sound] by auto
  have 1: "canonical_evidence_document ot (ev_canonical_input ev) is_json_object = Inr (JObject d')"
    using evidence_document_canonical [OF sound input] d' by (simp add: is_json_object_def)
  have 2: "canonical_evidence_document ot raw is_json_list = Inr (JList (map nf es))"
    using evidence_document_canonical [OF sound raw] soundD(3) [OF sound] by (simp add: is_json_list_def)
  have 3: "oracle_digest ot (JObject d') = Inr (ev_input_digest ev)"
    using soundD(2) [OF sound input] d' ev by (simp add: oracle_digest_eq_Inr evidence_fits_def)
  have 4: "oracle_digest ot (JList (map nf es)) = Inr (''sha256:'' @ ot_sha256 ot raw)"
    using soundD(2) [OF sound raw] soundD(3) [OF sound] by (simp add: oracle_digest_eq_Inr)
  show ?thesis
    using ev cfg ids soundD(7) [OF sound]
    by (simp add: check_oracle_result_def result_of_def result_digests_def 1 2 3 4 field document_field_def
        transcript_identities_def ebind_assoc evidence_fits_def config_fits_def del: append.simps)
qed

lemma numberedD:
  "numbered ot fid 0 ms ids \<Longrightarrow> map oi_sequence ids = map int [0..<length ids]
     \<and> (\<forall>i\<in>set ids. oi_fixture_id i = fid)
     \<and> map (\<lambda>i. (oi_side i, oi_request_digest i)) ids = concat (map (identity_pairs ot) ms)"
  by (simp add: numbered_def)

lemma finish_result_ok:
  assumes sound: "canonicalizer_sound ot nf" and ev: "evidence_fits ot ev" and cfg: "config_fits cfg"
    and raw: "ot_canonicalize ot (JList es) = Some raw"
    and ids: "numbered ot (fx_fixture_id (ev_fixture ev)) 0 ms ids"
    and pairs: "emap (entry_identity ot) (map nf es) = Inr (map (identity_pairs ot) ms)"
  shows "\<exists>res. finish_result ot cfg ev failure es ids = Inr res \<and> check_oracle_result ot res = Inr ()
    \<and> res = result_of cfg ev failure (''sha256:'' @ ot_sha256 ot raw) raw ids"
  using check_result_of [OF sound ev cfg raw, of ids failure] numberedD [OF ids] pairs raw
  by (simp add: finish_result_def oracle_digest_def canonical_def make_oracle_result_def)

text \<open>A result for a run that failed has no transcript.\<close>

lemma failure_result_ok:
  assumes "canonicalizer_sound ot nf" "evidence_fits ot ev" "config_fits cfg"
    "ot_canonicalize ot (JList []) \<noteq> None"
  shows "\<exists>res. finish_result ot cfg ev failure [] [] = Inr res \<and> check_oracle_result ot res = Inr ()
    \<and> or_failure_class res = failure \<and> or_request_identities res = []"
proof -
  obtain raw where raw: "ot_canonicalize ot (JList []) = Some raw" using assms(4) by auto
  have "numbered ot (fx_fixture_id (ev_fixture ev)) 0 [] []" by (simp add: numbered_def)
  from finish_result_ok [OF assms(1-3) raw this, of failure] show ?thesis by (auto simp: result_of_def)
qed

text \<open>
  A run that returned: its result passes its own checks, unless a request is \<open>null\<close>, which the
  decoder lets through and the checks of the result refuse.
\<close>

lemma conclude_ok:
  assumes sound: "canonicalizer_sound ot nf" and ev: "evidence_fits ot ev" and cfg: "config_fits cfg"
    and msgs: "list_all (decoded_by ot) (pr_messages r)" "int (length (pr_messages r)) \<le> max_safe_integer"
    and doc: "\<And>es. transcript_document ot (pr_messages r) = Inr es \<Longrightarrow> ot_canonicalize ot (JList es) \<noteq> None"
  shows "if list_ex is_null_request (pr_messages r) then conclude ot cfg ev r = Inl Value_Raised
    else \<exists>res. conclude ot cfg ev r = Inr res \<and> check_oracle_result ot res = Inr ()
      \<and> or_failure_class res = judge (ev_fixture ev) r
      \<and> map (\<lambda>i. (oi_side i, oi_request_digest i)) (or_request_identities res)
          = concat (map (identity_pairs ot) (pr_messages r))"
proof -
  let ?ms = "pr_messages r"
  let ?fid = "fx_fixture_id (ev_fixture ev)"
  have fid: "is_fixture_id ?fid" using ev by (simp add: evidence_fits_def)
  have ids: "\<exists>ids. request_identities ot ?fid ?ms = Inr ids \<and> numbered ot ?fid 0 ?ms ids"
    if "transcript_document ot ?ms = Inr es" for es
    using identities_ok [OF sound fid msgs(1) that, of "[]"] msgs(2) by (auto simp: request_identities_def)
  show ?thesis
  proof (cases "list_ex is_null_request ?ms")
    case True
    from transcript_with_null [OF sound msgs(1) True] show ?thesis
    proof (elim disjE exE conjE)
      fix es assume es: "transcript_document ot ?ms = Inr es" "emap (entry_identity ot) (map nf es) = Inl Value_Raised"
      obtain i where i: "request_identities ot ?fid ?ms = Inr i" "numbered ot ?fid 0 ?ms i" using ids [OF es(1)] by blast
      obtain raw where raw: "ot_canonicalize ot (JList es) = Some raw" using doc [OF es(1)] by auto
      have "finish_result ot cfg ev (judge (ev_fixture ev) r) es i = Inl Value_Raised"
        using check_result_of [OF sound ev cfg raw, of i] numberedD [OF i(2)] es(2) raw
        by (simp add: finish_result_def oracle_digest_def canonical_def make_oracle_result_def)
      with True es(1) i(1) show ?thesis by (simp add: conclude_def)
    qed (simp add: True conclude_def)
  next
    case False
    obtain es where es: "transcript_document ot ?ms = Inr es"
      "emap (entry_identity ot) (map nf es) = Inr (map (identity_pairs ot) ?ms)"
      using transcript_without_null [OF sound msgs(1) False] by blast
    obtain i where i: "request_identities ot ?fid ?ms = Inr i" "numbered ot ?fid 0 ?ms i" using ids [OF es(1)] by blast
    obtain raw where raw: "ot_canonicalize ot (JList es) = Some raw" using doc [OF es(1)] by auto
    from finish_result_ok [OF sound ev cfg raw i(2) es(2), of "judge (ev_fixture ev) r"]
    show ?thesis using False es(1) i(1) numberedD [OF i(2)] by (auto simp: conclude_def result_of_def)
  qed
qed

lemma run_fixture_parsed:
  assumes "parse_fixture ot document = Inr f" "fx_ruleset_snapshot_digest f = oc_ruleset_snapshot_digest cfg"
    "build_steps ot f = Inr steps" "evidence_of ot f steps = Inr ev" "oc_verified cfg = None" "oc_guarded cfg"
  shows "run_fixture ot cfg document =
    (case oc_run cfg steps of
       Inl (OracleProcessError failure) \<Rightarrow> finish_result ot cfg ev (Some failure) [] []
     | Inl e \<Rightarrow> Inl e
     | Inr r \<Rightarrow> conclude ot cfg ev r)"
  using assms by (simp add: run_fixture_def)

lemma judge_None:
  "judge f r = None \<Longrightarrow> pr_terminal_side_error r = None \<and> pr_completed_barriers r
     \<and> list_ex is_end (pr_messages r)"
  by (simp add: judge_def split: if_splits)

end
