(* ===== verification/Json_Round_Trip.thy ===== *)
theory Json_Round_Trip
  imports Request_Reader
begin

text \<open>
  Reading back what is printed: \<open>json.loads\<close> of the compact text with sorted keys gives the
  value with its keys sorted, for values without floats and with integers in the range that the
  canonical form of JSON allows. The scanner needs no more fuel than the text is long.
\<close>

section \<open>Values with a canonical text\<close>

fun sorted_json :: "json \<Rightarrow> json" where
  "sorted_json (JList vs) = JList (map sorted_json vs)"
| "sorted_json (JObject kvs) = JObject (sort_key fst (map (\<lambda>kv. (fst kv, sorted_json (snd kv))) kvs))"
| "sorted_json v = v"

fun plain_json :: "json \<Rightarrow> bool" where
  "plain_json (JInt n) \<longleftrightarrow> - 9007199254740991 \<le> n \<and> n \<le> 9007199254740991"
| "plain_json (JFloat t) \<longleftrightarrow> False"
| "plain_json (JList vs) \<longleftrightarrow> list_all plain_json vs"
| "plain_json (JObject kvs) \<longleftrightarrow> distinct (map fst kvs) \<and> list_all (\<lambda>kv. plain_json (snd kv)) kvs"
| "plain_json v \<longleftrightarrow> True"

abbreviation print_json :: "json \<Rightarrow> string" where
  "print_json \<equiv> json_dumps (\<lambda>t. t)"

lemma insort_key_map: "(\<And>x. g (f x) = h x) \<Longrightarrow> insort_key g (f x) (map f xs) = map f (insort_key h x xs)"
  by (induction xs) auto

lemma sort_key_map: "(\<And>x. g (f x) = h x) \<Longrightarrow> sort_key g (map f xs) = map f (sort_key h xs)"
  by (induction xs) (simp_all add: insort_key_map)

section \<open>Strings\<close>

lemma code_of_char: "code (char_of (n :: nat)) = n mod 256"
  by (simp add: code_def)

lemma hex_value_hex_char: "k < 16 \<Longrightarrow> hex_value (hex_char k) = Some k"
  by (auto simp: hex_char_def hex_value_def is_dec_def code_of_char)

lemma hex4_code: "hex4 (CHR ''0'') (CHR ''0'') (hex_char (code c div 16)) (hex_char (code c mod 16)) = Some (code c)"
proof -
  have zero: "hex_value (CHR ''0'') = Some 0" by (simp add: hex_value_def is_dec_def code_def)
  have "code c div 16 < 16" using code_less [of c] by simp
  then show ?thesis by (simp add: hex4_def zero hex_value_hex_char)
qed

lemma char_of_its_code: "char_of (code c) = c"
  by (simp add: code_def)

lemma scan_escape:
  "scan_string (json_escape c @ s) = ebind (scan_string s) (\<lambda>(r, rest). Inr (c # r, rest))"
proof (cases "c \<in> {CHR 0x22, CHR 0x5C, CHR 0x0A, CHR 0x0D, CHR 0x09, CHR 0x0C, CHR 0x08}")
  case True
  then show ?thesis by (auto simp: json_escape_def simple_escape_def split: prod.split)
next
  case False
  show ?thesis
  proof (cases "32 \<le> code c \<and> code c \<le> 126")
    case True
    with False show ?thesis by (simp add: json_escape_def split: prod.split)
  next
    case outside: False
    with False have "json_escape c = [CHR 0x5C, CHR ''u'', CHR ''0'', CHR ''0'',
        hex_char (code c div 16), hex_char (code c mod 16)]"
      by (simp add: json_escape_def)
    then show ?thesis
      using code_less [of c] by (simp add: hex4_code char_of_its_code split: prod.split)
  qed
qed

lemma scan_escaped: "scan_string (concat (map json_escape s) @ CHR 0x22 # rest) = Inr (s, rest)"
proof (induction s)
  case (Cons c s)
  then show ?case by (simp add: scan_escape)
qed simp

section \<open>Numbers\<close>

text \<open>What may follow a value: nothing, or the end or a comma of a list or object.\<close>

definition closes :: "string \<Rightarrow> bool" where
  "closes rest \<longleftrightarrow> rest = [] \<or> hd rest \<in> {CHR '','', CHR '']'', CHR ''}''}"

lemma closes_chars:
  "closes (c # t) \<Longrightarrow> \<not> is_dec c \<and> c \<noteq> CHR ''.'' \<and> c \<noteq> CHR ''e'' \<and> c \<noteq> CHR ''E'' \<and> \<not> json_space c"
  by (auto simp: closes_def is_dec_def json_space_def code_def)

lemma digits_show_nat: "digits_value (show_nat n) = int n"
proof (induction n rule: show_nat.induct)
  case (1 n)
  show ?case
  proof (cases "n < 10")
    case True
    then show ?thesis by (simp add: show_nat.simps [of n] digits_value_def)
  next
    case False
    with 1 have "digits_value (show_nat n) = int (n div 10) * 10 + int (n mod 10)"
      by (simp add: show_nat.simps [of n] digits_value_def)
    then show ?thesis by presburger
  qed
qed

lemma hd_show_nat: "hd (show_nat n) = CHR ''0'' \<Longrightarrow> n = 0"
proof (induction n rule: show_nat.induct)
  case (1 n)
  show ?case
  proof (cases "n < 10")
    case True
    then have "code (dec_char n) = 48" using 1 by (simp add: show_nat.simps [of n]) (simp add: code_def)
    with True show ?thesis by (simp add: code_dec_char)
  next
    case False
    with 1 have "n div 10 = 0" by (simp add: show_nat.simps [of n])
    with False show ?thesis by simp
  qed
qed

lemma length_show_nat: "n < 10 ^ Suc k \<Longrightarrow> length (show_nat n) \<le> Suc k"
proof (induction k arbitrary: n)
  case 0
  then show ?case by (simp add: show_nat.simps [of n])
next
  case (Suc k)
  show ?case
  proof (cases "n < 10")
    case False
    from Suc.prems have "n div 10 < 10 ^ Suc k" by (simp add: less_mult_imp_div_less)
    with Suc.IH [of "n div 10"] False show ?thesis by (simp add: show_nat.simps [of n])
  qed (simp add: show_nat.simps [of n])
qed

lemma takeWhile_digits:
  assumes "\<And>c t. rest = c # t \<Longrightarrow> \<not> is_dec c"
  shows "takeWhile is_dec (show_nat n @ rest) = show_nat n"
proof -
  have "\<forall>c\<in>set (show_nat n). is_dec c" using show_nat_digits by blast
  then show ?thesis using assms by (cases rest) (auto simp: takeWhile_append2)
qed

text \<open>The digits a scan finds at the start of a printed number.\<close>

lemma printed_digits:
  assumes "closes rest" "show_nat n @ rest = c # t"
  shows "(if c = CHR ''0'' then [c] else takeWhile is_dec (c # t)) = show_nat n"
proof -
  obtain u where u: "show_nat n = c # u" using assms(2) by (cases "show_nat n") auto
  show ?thesis
  proof (cases "c = CHR ''0''")
    case True
    then have "show_nat n = [CHR ''0'']"
      using hd_show_nat [of n] u by (simp add: show_nat.simps [of 0] dec_char_def)
    then show ?thesis using True by simp
  next
    case False
    have "takeWhile is_dec (show_nat n @ rest) = show_nat n"
      using assms(1) closes_chars by (intro takeWhile_digits) blast
    with False assms(2) show ?thesis by simp
  qed
qed

lemma scan_tail: "closes rest \<Longrightarrow> scan_fraction rest = ([], rest) \<and> scan_exponent rest = ([], rest)"
  by (cases rest) (auto simp: scan_fraction_def scan_exponent_def dest: closes_chars)

lemma scan_printed_int:
  assumes "closes rest" "- 9007199254740991 \<le> i" "i \<le> 9007199254740991"
  shows "scan_number h (show_int i @ rest) = Inr (JInt i, rest)"
proof -
  define n where "n = nat \<bar>i\<bar>"
  have "nat \<bar>i\<bar> < 10000000000000000" using assms(2,3) by arith
  then have small: "\<not> max_int_digits < length (show_nat n)"
    using length_show_nat [of n 15] by (simp add: n_def max_int_digits_def)
  obtain c t where ct: "show_nat n @ rest = c # t" by (cases "show_nat n @ rest") auto
  then have "c \<in> set (show_nat n)" by (cases "show_nat n") auto
  then have c: "c \<noteq> CHR ''-''" using show_nat_digits is_dec_not_special by blast
  note digits = printed_digits [OF assms(1) ct]
  have rest: "drop (length (show_nat n)) (c # t) = rest" by (simp flip: ct)
  note tail = scan_tail [OF assms(1), THEN conjunct1] scan_tail [OF assms(1), THEN conjunct2]
  have one: "drop 1 (x # xs) = xs" for x :: char and xs by simp
  note steps = scan_number_def Let_def list.case simp_thms if_True if_False one digits rest tail prod.case
  show ?thesis
  proof (cases "i < 0")
    case True
    then have "show_int i @ rest = CHR ''-'' # c # t" "- int n = i"
      using ct by (simp_all add: show_int_def n_def)
    then show ?thesis using small by (simp only: steps) (simp add: digits_show_nat)
  next
    case False
    then have "show_int i @ rest = c # t" "int n = i" using ct by (simp_all add: show_int_def n_def)
    then show ?thesis using small c by (simp only: steps) (simp add: digits_show_nat)
  qed
qed

section \<open>Values\<close>

text \<open>The first character of a printed value tells the scanner what it is.\<close>

lemma printed_int_starts:
  "\<exists>c t. show_int i @ rest = c # t \<and> c \<noteq> CHR 0x22 \<and> c \<noteq> CHR ''{'' \<and> c \<noteq> CHR ''['' \<and> \<not> json_space c
     \<and> c \<noteq> CHR '']'' \<and> (\<forall>w\<in>{''null'', ''true'', ''false'', ''NaN'', ''Infinity'', ''-Infinity''}. \<not> starts_with w (c # t))"
proof -
  obtain d u where s: "show_nat (nat \<bar>i\<bar>) = d # u" by (cases "show_nat (nat \<bar>i\<bar>)") auto
  have "is_dec d" using show_nat_digits [of d "nat \<bar>i\<bar>"] s by simp
  then have "code d \<le> 57" "48 \<le> code d" by (simp_all add: is_dec_def)
  then have d: "d \<notin> set ''ntfNI\"{[]''" "d \<noteq> CHR ''-''" "\<not> json_space d"
    by (auto simp: code_def json_space_def)
  show ?thesis
  proof (cases "i < 0")
    case True
    then have "show_int i @ rest = CHR ''-'' # d # u @ rest" using s by (simp add: show_int_def)
    with d show ?thesis by (auto simp: starts_with_code json_space_def code_def)
  next
    case False
    then have "show_int i @ rest = d # u @ rest" using s by (simp add: show_int_def)
    with d show ?thesis by (auto simp: starts_with_code)
  qed
qed

lemma scan_word_None: "\<forall>(w, v)\<in>set ws. \<not> starts_with w s \<Longrightarrow> scan_word ws s = None"
  by (induction ws s rule: scan_word.induct) auto

lemma scan_int_value:
  assumes "closes rest" "- 9007199254740991 \<le> i" "i \<le> 9007199254740991"
  shows "scan_value h (Suc n) (show_int i @ rest) = Inr (JInt i, rest)"
proof -
  obtain c t where c: "show_int i @ rest = c # t" "c \<noteq> CHR 0x22" "c \<noteq> CHR ''{''" "c \<noteq> CHR ''[''"
    "\<forall>w\<in>{''null'', ''true'', ''false'', ''NaN'', ''Infinity'', ''-Infinity''}. \<not> starts_with w (c # t)"
    using printed_int_starts by blast
  then have "scan_word (json_words h) (c # t) = None"
    by (intro scan_word_None) (auto simp: json_words_def)
  then show ?thesis using c scan_printed_int [OF assms, of h] by (simp add: scan_plain_def)
qed

lemma skip_space_id: "s = [] \<or> \<not> json_space (hd s) \<Longrightarrow> skip_space s = s"
  by (cases s) (auto simp: skip_space_def)

lemma print_starts: "plain_json v \<Longrightarrow> \<exists>c t. print_json v @ rest = c # t \<and> \<not> json_space c \<and> c \<noteq> CHR '']''"
  using printed_int_starts by (cases v) (fastforce simp: json_quote_def json_space_def code_def)+

lemma length_print_pos: "plain_json v \<Longrightarrow> 1 \<le> length (print_json v)"
  using print_starts [of v "[]"] by (cases "print_json v") auto

lemma skip_space_printed: "plain_json v \<Longrightarrow> skip_space (print_json v @ rest) = print_json v @ rest"
  using print_starts [of v rest] by (auto simp: skip_space_def)

lemma join_starts: "\<exists>tail. join_with sep (w # ws) @ rest = w @ tail"
  by (cases ws) auto

definition reads :: "nat \<Rightarrow> json \<Rightarrow> bool" where
  "reads n v \<longleftrightarrow> (\<forall>rest. closes rest \<longrightarrow>
     scan_value default_hooks n (print_json v @ rest) = Inr (sorted_json v, rest))"

lemma scan_printed_elements:
  assumes "vs \<noteq> []" "\<And>v m. v \<in> set vs \<Longrightarrow> length (print_json v) \<le> m \<Longrightarrow> reads m v" "list_all plain_json vs"
    "length (join_with '','' (map print_json vs)) < n"
  shows "scan_elements default_hooks n (join_with '','' (map print_json vs) @ CHR '']'' # rest) =
    Inr (map sorted_json vs, rest)"
  using assms
proof (induction vs arbitrary: n)
  case (Cons v vs)
  then obtain m where n: "n = Suc m" by (cases n) auto
  show ?case
  proof (cases "vs = []")
    case True
    with Cons n have "reads m v" by simp
    then have "scan_value default_hooks m (print_json v @ CHR '']'' # rest) = Inr (sorted_json v, CHR '']'' # rest)"
      by (simp add: reads_def closes_def)
    with True n show ?thesis by (simp add: skip_space_id json_space_def code_def)
  next
    case False
    then obtain w ws where ws: "vs = w # ws" by (cases vs) auto
    let ?more = "join_with '','' (map print_json vs) @ CHR '']'' # rest"
    have shown: "join_with '','' (map print_json (v # vs)) @ CHR '']'' # rest = print_json v @ CHR '','' # ?more"
      using ws by simp
    have "reads m v" using Cons.prems n ws by simp
    then have 1: "scan_value default_hooks m (print_json v @ CHR '','' # ?more) = Inr (sorted_json v, CHR '','' # ?more)"
      by (simp add: reads_def closes_def)
    have 2: "scan_elements default_hooks m ?more = Inr (map sorted_json vs, rest)"
      using Cons.IH [of m] Cons.prems n ws False by simp
    have "plain_json w" using Cons.prems ws by simp
    then have "skip_space ?more = ?more" using skip_space_printed join_starts ws by (metis list.simps(9))
    with 1 2 show ?thesis
      unfolding shown n by (simp add: skip_space_id json_space_def code_def)
  qed
qed simp

definition print_member :: "string \<times> json \<Rightarrow> string" where
  "print_member kv = json_quote (fst kv) @ '':'' @ print_json (snd kv)"

lemma scan_printed_members:
  assumes "kvs \<noteq> []" "\<And>kv m. kv \<in> set kvs \<Longrightarrow> length (print_json (snd kv)) \<le> m \<Longrightarrow> reads m (snd kv)"
    "list_all (\<lambda>kv. plain_json (snd kv)) kvs" "length (join_with '','' (map print_member kvs)) < n"
  shows "scan_members default_hooks n (join_with '','' (map print_member kvs) @ CHR ''}'' # rest) =
    Inr (map (\<lambda>kv. (fst kv, sorted_json (snd kv))) kvs, rest)"
  using assms
proof (induction kvs arbitrary: n)
  case (Cons kv kvs)
  then obtain m where n: "n = Suc m" by (cases n) auto
  obtain k v where kv: "kv = (k, v)" by (cases kv)
  have v: "plain_json v" using Cons.prems kv by simp
  have head: "scan_string (concat (map json_escape k) @ CHR 0x22 # t) = Inr (k, t)" for t
    by (rule scan_escaped)
  have skip: "skip_space (CHR '':'' # t) = CHR '':'' # t" "skip_space (print_json v @ t) = print_json v @ t" for t
    using skip_space_printed [OF v] by (simp_all add: skip_space_def json_space_def code_def)
  have reads_v: "reads m v" if "length (print_member kv) \<le> m" using that Cons.prems(2) [of "(k, v)" m] kv by (simp add: print_member_def)
  show ?case
  proof (cases "kvs = []")
    case True
    then have "reads m v" using Cons.prems n reads_v by simp
    then have "scan_value default_hooks m (print_json v @ CHR ''}'' # rest) = Inr (sorted_json v, CHR ''}'' # rest)"
      by (simp add: reads_def closes_def)
    with True n kv head skip show ?thesis
      by (simp add: print_member_def json_quote_def expect_def skip_space_def json_space_def code_def)
  next
    case False
    then obtain w ws where ws: "kvs = w # ws" by (cases kvs) auto
    let ?more = "join_with '','' (map print_member kvs) @ CHR ''}'' # rest"
    have shown: "join_with '','' (map print_member (kv # kvs)) @ CHR ''}'' # rest = print_member kv @ CHR '','' # ?more"
      using ws by simp
    have "reads m v" using Cons.prems n ws reads_v by simp
    then have 1: "scan_value default_hooks m (print_json v @ CHR '','' # ?more) = Inr (sorted_json v, CHR '','' # ?more)"
      by (simp add: reads_def closes_def)
    have 2: "scan_members default_hooks m ?more = Inr (map (\<lambda>kv. (fst kv, sorted_json (snd kv))) kvs, rest)"
      using Cons.IH [of m] Cons.prems n ws False by simp
    obtain tail where "?more = CHR 0x22 # tail"
      using join_starts [of "'',''" "print_member w"] ws by (fastforce simp: print_member_def json_quote_def)
    then have "skip_space ?more = ?more" by (simp add: skip_space_def json_space_def code_def)
    with 1 2 head skip show ?thesis
      unfolding shown n by (simp add: kv print_member_def json_quote_def expect_def skip_space_def json_space_def code_def)
  qed
qed simp

lemma print_object:
  "print_json (JObject kvs) = ''{'' @ join_with '','' (map print_member (sort_key fst kvs)) @ ''}''"
proof -
  have "sort_key fst (map (\<lambda>kv. (fst kv, print_json (snd kv))) kvs) =
      map (\<lambda>kv. (fst kv, print_json (snd kv))) (sort_key fst kvs)"
    by (rule sort_key_map) simp
  then show ?thesis by (simp add: print_member_def [abs_def] comp_def)
qed

lemma scan_list_text:
  "T = c # t \<Longrightarrow> \<not> json_space c \<Longrightarrow> c \<noteq> CHR '']'' \<Longrightarrow>
   scan_value h (Suc m) (CHR ''['' # T) = ebind (scan_elements h m T) (\<lambda>(vs, rest). Inr (JList vs, rest))"
  by (simp add: skip_space_def)

lemma scan_object_text:
  "T = CHR 0x22 # t \<Longrightarrow> scan_value h (Suc m) (CHR ''{'' # T) =
     ebind (scan_members h m T) (\<lambda>(kvs, rest). ebind (jh_pairs h kvs) (\<lambda>v. Inr (v, rest)))"
  by (simp add: skip_space_def json_space_def code_def)

theorem scan_printed: "plain_json v \<Longrightarrow> length (print_json v) \<le> n \<Longrightarrow> reads n v"
proof (induction v arbitrary: n)
  case (JInt i)
  then obtain m where "n = Suc m" using length_print_pos [of "JInt i"] by (cases n) auto
  with JInt show ?case by (simp add: reads_def scan_int_value del: scan_value.simps)
next
  case (JString s)
  then obtain m where "n = Suc m" using length_print_pos [of "JString s"] by (cases n) auto
  then show ?case by (simp add: reads_def json_quote_def scan_escaped)
next
  case (JList vs)
  then obtain m where n: "n = Suc m" using length_print_pos [of "JList vs"] by (cases n) auto
  show ?case
  proof (cases "vs = []")
    case True
    with n show ?thesis by (simp add: reads_def skip_space_def json_space_def code_def)
  next
    case False
    then obtain w ws where ws: "vs = w # ws" by (cases vs) auto
    have els: "scan_elements default_hooks m (join_with '','' (map print_json vs) @ CHR '']'' # rest) =
        Inr (map sorted_json vs, rest)" for rest
      by (rule scan_printed_elements) (use JList False n in \<open>auto simp: list_all_iff\<close>)
    have w: "plain_json w" using JList.prems ws by simp
    have "scan_value default_hooks n (print_json (JList vs) @ rest) = Inr (sorted_json (JList vs), rest)" for rest
    proof -
      let ?T = "join_with '','' (map print_json vs) @ CHR '']'' # rest"
      obtain tail where "?T = print_json w @ tail"
        using join_starts [of "'',''" "print_json w" "map print_json ws"] ws by force
      then obtain c t where "?T = c # t" "\<not> json_space c" "c \<noteq> CHR '']''"
        using print_starts [OF w] by metis
      from scan_list_text [OF this, of default_hooks m] els [of rest] show ?thesis
        by (simp add: n del: scan_value.simps)
    qed
    then show ?thesis by (simp add: reads_def)
  qed
next
  case (JObject kvs)
  then obtain m where n: "n = Suc m" using length_print_pos [of "JObject kvs"] by (cases n) auto
  let ?kvs = "sort_key fst kvs"
  show ?case
  proof (cases "kvs = []")
    case True
    with n show ?thesis
      by (simp add: reads_def skip_space_def json_space_def code_def default_hooks_def dict_of_def)
  next
    case False
    then obtain w ws where ws: "?kvs = w # ws" by (cases ?kvs) (auto dest: arg_cong [of _ _ set])
    have mems: "scan_members default_hooks m (join_with '','' (map print_member ?kvs) @ CHR ''}'' # rest) =
        Inr (map (\<lambda>kv. (fst kv, sorted_json (snd kv))) ?kvs, rest)" for rest
    proof (rule scan_printed_members)
      show "?kvs \<noteq> []" using ws by simp
      show "reads l (snd kv)" if "kv \<in> set ?kvs" "length (print_json (snd kv)) \<le> l" for kv l
        using JObject.IH [of kv "snd kv" l] JObject.prems(1) that by (cases kv) (auto simp: list_all_iff)
      show "list_all (\<lambda>kv. plain_json (snd kv)) ?kvs" using JObject.prems(1) by (simp add: list_all_iff)
      show "length (join_with '','' (map print_member ?kvs)) < m"
        using JObject.prems(2) n unfolding print_object by simp
    qed
    have sorted: "sort_key fst (map (\<lambda>kv. (fst kv, sorted_json (snd kv))) kvs) =
        map (\<lambda>kv. (fst kv, sorted_json (snd kv))) ?kvs"
      by (rule sort_key_map) simp
    have "distinct (map fst ?kvs)"
      using JObject.prems(1) by (simp add: distinct_map inj_on_def)
    then have "distinct (map fst (map (\<lambda>kv. (fst kv, sorted_json (snd kv))) ?kvs))" by (simp add: comp_def)
    then have pairs: "jh_pairs default_hooks (map (\<lambda>kv. (fst kv, sorted_json (snd kv))) ?kvs) = Inr (sorted_json (JObject kvs))"
      by (simp add: default_hooks_def dict_of_distinct sorted)
    have "scan_value default_hooks n (print_json (JObject kvs) @ rest) = Inr (sorted_json (JObject kvs), rest)" for rest
    proof -
      let ?T = "join_with '','' (map print_member ?kvs) @ CHR ''}'' # rest"
      obtain t where "?T = CHR 0x22 # t"
        using join_starts [of "'',''" "print_member w" "map print_member ws"] ws
        by (force simp: print_member_def json_quote_def)
      from scan_object_text [OF this, of default_hooks m] mems [of rest] pairs show ?thesis
        unfolding print_object n by (simp del: scan_value.simps sorted_json.simps)
    qed
    then show ?thesis by (simp add: reads_def)
  qed
next
  case JNull
  then obtain m where "n = Suc m" by (cases n) auto
  then show ?case by (simp add: reads_def scan_plain_def json_words_def starts_with_code)
next
  case (JBool b)
  then obtain m where "n = Suc m" by (cases n; cases b) auto
  then show ?case by (cases b) (simp_all add: reads_def scan_plain_def json_words_def starts_with_code)
qed simp

text \<open>Printing and reading back.\<close>

theorem json_round_trip:
  assumes "plain_json v"
  shows "json_loads (print_json v) = Inr (sorted_json v)"
proof -
  have "reads (Suc (2 * length (print_json v))) v" by (rule scan_printed) (simp_all add: assms)
  then have "scan_value default_hooks (Suc (2 * length (print_json v))) (print_json v @ []) = Inr (sorted_json v, [])"
    unfolding reads_def closes_def by blast
  moreover have "skip_space (print_json v) = print_json v"
    using skip_space_printed [OF assms, of "[]"] by simp
  ultimately show ?thesis
    by (simp add: json_loads_def json_loads_with_def skip_space_def del: scan_value.simps)
qed

section \<open>The printed text depends on the sorted value only\<close>

lemma sort_members:
  "sort_key fst (map (\<lambda>kv. (fst kv, f (snd kv))) kvs) = map (\<lambda>kv. (fst kv, f (snd kv))) (sort_key fst kvs)"
  by (rule sort_key_map) simp

lemma sorted_json_idem [simp]: "sorted_json (sorted_json v) = sorted_json v"
proof (induction v)
  case (JObject kvs)
  let ?f = "\<lambda>kv. (fst kv, sorted_json (snd kv))"
  have "map ?f (map ?f (sort_key fst kvs)) = map ?f (sort_key fst kvs)"
    using JObject by (fastforce simp: comp_def)
  moreover have "sort_key fst (map ?f (sort_key fst kvs)) = map ?f (sort_key fst (sort_key fst kvs))"
    by (rule sort_members)
  ultimately show ?case by (simp only: sorted_json.simps sort_members) (simp add: sort_key_id_if_sorted)
qed simp_all

lemma print_sorted [simp]: "print_json (sorted_json v) = print_json v"
proof (induction v)
  case (JObject kvs)
  let ?f = "\<lambda>kv. (fst kv, sorted_json (snd kv))"
  have "sort_key fst (sort_key fst (map ?f kvs)) = sort_key fst (map ?f kvs)"
    by (simp add: sort_key_id_if_sorted)
  also have "\<dots> = map ?f (sort_key fst kvs)" by (rule sort_key_map) simp
  finally have "map print_member (sort_key fst (sort_key fst (map ?f kvs))) = map (\<lambda>kv. print_member (?f kv)) (sort_key fst kvs)"
    by simp
  also have "\<dots> = map print_member (sort_key fst kvs)"
    using JObject by (fastforce simp: print_member_def)
  finally show ?case by (simp only: sorted_json.simps print_object)
next
  case (JList vs)
  then have "map print_json (map sorted_json vs) = map print_json vs" by simp
  then show ?case by (simp only: sorted_json.simps json_dumps.simps)
qed simp_all

lemma distinct_keys_sort [simp]: "distinct (map fst (sort_key fst kvs)) = distinct (map fst kvs)"
  by (simp add: distinct_map inj_on_def)

lemma plain_sorted [simp]: "plain_json (sorted_json v) = plain_json v"
  by (induction v) (auto simp: list_all_iff sort_members comp_def)

text \<open>Values that print alike are equal up to the order of keys.\<close>

theorem print_json_inj:
  "plain_json v \<Longrightarrow> plain_json w \<Longrightarrow> print_json v = print_json w \<longleftrightarrow> sorted_json v = sorted_json w"
  by (metis json_round_trip print_sorted sum.inject(2))

lemma map_of_sorted:
  assumes "distinct (map fst kvs)"
  shows "map_of (sort_key fst (map (\<lambda>kv. (fst kv, f (snd kv))) kvs)) k = map_option f (map_of kvs k)"
proof -
  let ?g = "\<lambda>kv. (fst kv, f (snd kv))"
  have sort: "sort_key fst (map ?g kvs) = map ?g (sort_key fst kvs)" by (rule sort_key_map) simp
  have "distinct (map fst (sort_key fst kvs))" using assms by (simp add: distinct_map inj_on_def)
  then have "map_of (sort_key fst kvs) = map_of kvs" using assms by (intro map_of_inject_set [THEN iffD2]) simp_all
  then show ?thesis by (simp add: sort map_of_map [unfolded case_prod_beta'])
qed

text \<open>Without floats the printed form of floats does not matter.\<close>

lemma dumps_plain: "plain_json v \<Longrightarrow> json_dumps float_repr v = print_json v"
proof (induction v)
  case (JList vs)
  then have "map (json_dumps float_repr) vs = map print_json vs" by (simp add: list_all_iff)
  then show ?case by (simp only: json_dumps.simps)
next
  case (JObject kvs)
  have "json_dumps float_repr (snd kv) = print_json (snd kv)" if "kv \<in> set kvs" for kv
    using JObject.IH [of kv "snd kv"] JObject.prems that by (cases kv) (auto simp: list_all_iff)
  then have "map (\<lambda>kv. (fst kv, json_dumps float_repr (snd kv))) kvs = map (\<lambda>kv. (fst kv, print_json (snd kv))) kvs"
    by simp
  then show ?case by (simp only: json_dumps.simps)
qed simp_all

end
