(* ===== verification/Oracle_Run.thy ===== *)
theory Oracle_Run
  imports Oracle_Session Json_Round_Trip
begin

text \<open>
  Inputs at which the properties of the oracle are applied: a canonicalizer that prints with
  sorted keys, a fixture, the environments of a clean run, of a run with a \<open>null\<close> request, and of
  one whose output goes on after its end while the process tried to reach the network.
\<close>

section \<open>A canonicalizer\<close>

definition sample_canonicalize :: "json \<Rightarrow> bytes option" where
  "sample_canonicalize v = (if plain_json v then Some (print_json v) else None)"

definition sample_text :: oracle_text where
  "sample_text = \<lparr>ot_is_nfc = \<lambda>_. True, ot_canonicalize = sample_canonicalize,
     ot_sha256 = \<lambda>_. replicate 64 (CHR ''0'')\<rparr>"

text \<open>Printed text is printable ASCII.\<close>

definition printable :: "char \<Rightarrow> bool" where
  "printable c \<longleftrightarrow> 32 \<le> code c \<and> code c \<le> 126"

lemma printable_hex: "k < 16 \<Longrightarrow> printable (hex_char k)"
  by (auto simp: hex_char_def printable_def code_char_of)

lemma printable_escape: "d \<in> set (json_escape c) \<Longrightarrow> printable d"
proof -
  have "code c div 16 < 16" using code_less [of c] by simp
  then have "printable (hex_char (code c div 16))" "printable (hex_char (code c mod 16))"
    by (simp_all add: printable_hex)
  moreover have "list_all printable (CHR 0x22 # CHR 0x5C # ''nrtfbu0'')" by code_simp
  moreover assume "d \<in> set (json_escape c)"
  ultimately show ?thesis by (auto simp: json_escape_def printable_def split: if_splits)
qed

lemma printable_quote: "d \<in> set (json_quote s) \<Longrightarrow> printable d"
  using printable_escape by (auto simp: json_quote_def printable_def code_def)

lemma printable_int: "d \<in> set (show_int i) \<Longrightarrow> printable d"
  using show_nat_digits by (fastforce simp: show_int_def printable_def is_dec_def code_def split: if_splits)

lemma set_join: "d \<in> set (join_with sep ws) \<Longrightarrow> d \<in> set sep \<or> (\<exists>w\<in>set ws. d \<in> set w)"
  by (induction sep ws rule: join_with.induct) auto

lemma printable_print: "plain_json v \<Longrightarrow> d \<in> set (print_json v) \<Longrightarrow> printable d"
proof (induction v)
  case (JList vs)
  have "list_all printable ''[,]''" by code_simp
  with JList show ?case by (auto simp: list_all_iff dest!: set_join)
next
  case (JObject kvs)
  have vals: "printable d" if "kv \<in> set kvs" "d \<in> set (print_json (snd kv))" for kv
    using JObject.IH [of kv "snd kv"] JObject.prems(1) that by (cases kv) (auto simp: list_all_iff)
  have punctuation: "list_all printable ''{,:}''" by code_simp
  have member: "printable d" if "kv \<in> set kvs" "d \<in> set (print_member kv)" for kv
    using that(2) printable_quote [of d "fst kv"] vals [OF that(1)] punctuation by (auto simp: print_member_def)
  have "d \<in> set ''{,}'' \<or> (\<exists>kv\<in>set kvs. d \<in> set (print_member kv))"
    using JObject.prems(2) unfolding print_object by (auto dest!: set_join)
  with punctuation member show ?case by auto
next
  case JNull
  have "list_all printable ''null''" by code_simp
  with JNull show ?case by auto
next
  case (JBool b)
  have "list_all printable ''truefals''" by code_simp
  with JBool show ?case by (auto split: if_splits)
qed (auto dest: printable_int printable_quote)

lemma utf8_ascii: "\<forall>c\<in>set s. code c < 128 \<Longrightarrow> utf8_encode s = s"
  by (induction s) (simp_all add: utf8_encode_def utf8_char_def)

lemma decode_ascii: "\<forall>c\<in>set s. code c < 128 \<Longrightarrow> decode_text s = Inr s"
  using decode_text_utf8 [of s] by (simp add: utf8_ascii)

lemma decode_print: "plain_json v \<Longrightarrow> decode_text (print_json v) = Inr (print_json v)"
  by (rule decode_ascii) (auto dest!: printable_print simp: printable_def)

lemma sample_canonicalizer_sound: "canonicalizer_sound sample_text sorted_json"
proof -
  have "is_digest_text (''sha256:'' @ replicate 64 (CHR ''0''))" by code_simp
  then show ?thesis
    using decode_print json_round_trip map_of_sorted [of _ sorted_json]
    by (auto simp: canonicalizer_sound_def sample_text_def sample_canonicalize_def split: if_splits)
qed

text \<open>Transcripts have a canonical form.\<close>

lemma sample_object: "canonical_json_object sample_text raw = Inr v \<Longrightarrow> plain_json v"
  by (auto simp: canonical_json_object_def canonical_def sample_text_def sample_canonicalize_def result_simps
      split: if_splits)

lemma sample_entry: "transcript_entry sample_text m = Inr e \<Longrightarrow> plain_json e"
  by (cases m) (auto simp: transcript_entry_def ebind_eq_Inr list_all_iff dest: sample_object)

lemma sample_transcript:
  assumes "transcript_document sample_text ms = Inr es"
  shows "ot_canonicalize sample_text (JList es) \<noteq> None"
proof -
  have "plain_json e" if "e \<in> set es" for e
    using emap_Inr_in_set [OF assms [unfolded transcript_document_def] that] sample_entry by auto
  then show ?thesis by (simp add: sample_text_def sample_canonicalize_def list_all_iff)
qed

section \<open>A fixture\<close>

definition sample_fixture_digest :: string where
  "sample_fixture_digest = ''sha256:'' @ replicate 64 (CHR ''0'')"

definition sample_player :: "string \<Rightarrow> json" where
  "sample_player name = JObject [(''name'', JString name), (''team'', JString ''Garchomp||''),
     (''team_choice'', JString ''team 1''), (''move_choice'', JString ''move 1'')]"

definition sample_fixture_json :: json where
  "sample_fixture_json = JObject [(''schema_version'', JInt 1), (''fixture_id'', JString ''turn-1''),
     (''format_id'', JString ''gen9ou''), (''ruleset_snapshot_digest'', JString sample_fixture_digest),
     (''seed_domain'', JString ''showdown-fixture-v1''),
     (''seed'', JList [JInt 1, JInt 2, JInt 3, JInt 4]),
     (''players'', JObject [(''p1'', sample_player ''p1''), (''p2'', sample_player ''p2'')]),
     (''expected_tera_line'', JNull)]"

definition sample_members :: "(string \<times> json) list" where
  "sample_members = (case sample_fixture_json of JObject d \<Rightarrow> d | _ \<Rightarrow> [])"

definition sample_fixture_player :: "string \<Rightarrow> fixture_player" where
  "sample_fixture_player name = \<lparr>fp_name = name, fp_team = ''Garchomp||'', fp_team_choice = ''team 1'',
     fp_move_choice = ''move 1''\<rparr>"

definition sample_fixture_document :: json where
  "sample_fixture_document = fixture_document ''turn-1'' sample_fixture_digest ''showdown-fixture-v1''
     [1, 2, 3, 4] (sample_fixture_player ''p1'') (sample_fixture_player ''p2'') None"

definition sample_fixture :: fixture where
  "sample_fixture = \<lparr>fx_fixture_id = ''turn-1'', fx_canonical_document = print_json sample_fixture_document,
     fx_fixture_digest = sample_fixture_digest, fx_ruleset_snapshot_digest = sample_fixture_digest,
     fx_seed_domain = ''showdown-fixture-v1'', fx_seed = [1, 2, 3, 4],
     fx_p1 = sample_fixture_player ''p1'', fx_p2 = sample_fixture_player ''p2'',
     fx_expected_tera_line = None\<rparr>"

lemma sample_canonical: "plain_json v \<Longrightarrow> canonical sample_text v = Inr (print_json v)"
  by (simp add: canonical_def sample_text_def sample_canonicalize_def)

lemma sample_oracle_digest: "plain_json v \<Longrightarrow> oracle_digest sample_text v = Inr sample_fixture_digest"
  by (simp add: oracle_digest_def sample_canonical sample_fixture_digest_def) (simp add: sample_text_def)

lemma sample_loads: "plain_json v \<Longrightarrow> ebind (decode_text (print_json v)) loads_text = Inr (sorted_json v)"
  by (simp add: decode_print loads_text_def json_round_trip)

lemma sample_fields:
  "object_with_keys fixture_fields sample_fixture_json = Inr sample_members"
  "equals_one (lookup_json sample_members ''schema_version'')"
  "require_line (lookup_json sample_members ''fixture_id'') = Inr ''turn-1''" "is_fixture_id ''turn-1''"
  "lookup_json sample_members ''format_id'' = JString ''gen9ou''"
  "require_digest_value (lookup_json sample_members ''ruleset_snapshot_digest'') = Inr sample_fixture_digest"
  "require_line (lookup_json sample_members ''seed_domain'') = Inr ''showdown-fixture-v1''"
  "parse_seed (lookup_json sample_members ''seed'') = Inr [1, 2, 3, 4]"
  "object_with_keys [''p1'', ''p2''] (lookup_json sample_members ''players'') =
     Inr [(''p1'', sample_player ''p1''), (''p2'', sample_player ''p2'')]"
  "parse_player ''p1'' (sample_player ''p1'') = Inr (sample_fixture_player ''p1'')"
  "parse_player ''p2'' (sample_player ''p2'') = Inr (sample_fixture_player ''p2'')"
  "parse_tera_line (lookup_json sample_members ''expected_tera_line'') = Inr None"
  "plain_json sample_fixture_document"
  by code_simp+

lemma sample_parsed: "parse_fixture sample_text sample_fixture_json = Inr sample_fixture"
proof -
  have players: "lookup_json [(''p1'', sample_player ''p1''), (''p2'', sample_player ''p2'')] ''p1'' = sample_player ''p1''"
    "lookup_json [(''p1'', sample_player ''p1''), (''p2'', sample_player ''p2'')] ''p2'' = sample_player ''p2''"
    by (simp_all add: lookup_json_def)
  have moves: "fp_move_choice (sample_fixture_player n) = ''move 1''" for n by (simp add: sample_fixture_player_def)
  have "plain_json (sorted_json sample_fixture_document)" using sample_fields(13) by simp
  then show ?thesis
    using sample_fields(2)
    by (simp add: parse_fixture_def sample_fields players moves raise_if_def sample_canonical sample_loads
        sample_oracle_digest sample_fixture_document_def [symmetric] sample_fixture_def
        del: sorted_json.simps plain_sorted)
qed

section \<open>Its steps\<close>

definition start_payload :: json where
  "start_payload = JObject [(''formatid'', JString ''gen9ou''), (''seed'', JList (map JInt [1, 2, 3, 4]))]"

definition sample_commands :: "string list list" where
  "sample_commands =
     [[''>start '' @ print_json start_payload,
       ''>player p1 '' @ print_json (player_command (sample_fixture_player ''p1'')),
       ''>player p2 '' @ print_json (player_command (sample_fixture_player ''p2''))],
      [''>p1 team 1'', ''>p2 team 1''], [''>p1 move 1'', ''>p2 move 1''], [''>forcetie'']]"

definition sample_steps :: "interaction_step list" where
  "sample_steps = map2 (\<lambda>commands barrier. \<lparr>is_input_bytes = concat (map (\<lambda>c. utf8_encode c @ [newline]) commands),
     is_barrier = barrier\<rparr>) sample_commands [both_requests, both_requests, both_requests, the_end]"

lemma sample_built: "build_steps sample_text sample_fixture = Inr sample_steps"
  by code_simp

lemma sample_evidence:
  "\<exists>ev. evidence_of sample_text sample_fixture sample_steps = Inr ev"
proof -
  let ?texts = "map (\<lambda>cs. concat (map (\<lambda>c. c @ [newline]) cs)) sample_commands"
  have texts: "emap (\<lambda>s. decode_text (is_input_bytes s)) sample_steps = Inr ?texts"
    by (simp add: sample_steps_def sample_commands_def encoded_text decode_text_utf8)
  show ?thesis
    by (simp add: evidence_of_def texts Let_def seed_digest_def sample_canonical sample_oracle_digest list_all_iff
        sample_fixture_def)
qed

section \<open>Runs\<close>

definition sample_limits :: process_limits where
  "sample_limits = \<lparr>pl_start_timeout_seconds = 10, pl_write_timeout_seconds = 10,
     pl_response_timeout_seconds = 10, pl_fixture_timeout_seconds = 60,
     pl_graceful_shutdown_timeout_seconds = 5, pl_forced_shutdown_timeout_seconds = 5,
     pl_max_stdout_bytes = 4096, pl_max_messages = 64, pl_max_input_bytes = 4096, pl_max_stderr_bytes = 1024\<rparr>"

definition request_of :: "string \<Rightarrow> oracle_message" where
  "request_of player = SideUpdateMessage player [''|request|{}''] ''{}''"

definition sample_messages :: "oracle_message list" where
  "sample_messages = [UpdateMessage [''|start''], request_of ''p1'', request_of ''p2'', request_of ''p1'',
     request_of ''p2'', request_of ''p1'', request_of ''p2'', EndMessage ''{}'']"

definition lines_text :: "string list \<Rightarrow> bytes" where
  "lines_text ls = join_with [newline] ls"

definition request_frame :: "string \<Rightarrow> string \<Rightarrow> bytes" where
  "request_frame player request =
     lines_text [''sideupdate'', player, ''|request|'' @ request] @ delimiter"

text \<open>One chunk ends inside a frame, another between the two characters of a delimiter.\<close>

definition sample_chunks :: "bytes list" where
  "sample_chunks =
     [lines_text [''update'', ''|t:|1700000000'', ''|start''] @ delimiter @ ''side'',
      drop 4 (request_frame ''p1'' ''{}'') @ butlast (request_frame ''p2'' ''{}''),
      [newline] @ request_frame ''p1'' ''{}'' @ request_frame ''p2'' ''{}'',
      request_frame ''p1'' ''{}'' @ request_frame ''p2'' ''{}'',
      lines_text [''end'', ''{}''] @ delimiter]"

definition sample_wake_up :: "nat \<Rightarrow> wake_up" where
  "sample_wake_up n = \<lparr>wu_messages = take n sample_messages, wu_stdout = Drain_Running,
     wu_stderr = Drain_Running, wu_exit = Exit_Pending\<rparr>"

definition sample_step_run :: "nat \<Rightarrow> step_run" where
  "sample_step_run k =
     (let before = (if k = 0 then 0 else 1 + 2 * k); after = (if k = 3 then 8 else 3 + 2 * k)
      in \<lparr>sr_messages_before = take before sample_messages, sr_write = Written,
        sr_wake_ups = [sample_wake_up before, sample_wake_up after], sr_deadline = Response_Deadline\<rparr>)"

definition clean_shutdown :: shutdown_env where
  "clean_shutdown = \<lparr>sh_graceful = Exited_In_Time, sh_terminated = True, sh_after_terminate = Exited_In_Time,
     sh_killed = True, sh_after_kill = Exited_In_Time, sh_orphaned = (False, False), sh_contained = True,
     sh_after_contain = Exited_In_Time, sh_orphaned_finally = (False, False), sh_job_closed = True\<rparr>"

definition clean_run :: run_env where
  "clean_run = \<lparr>re_launch = Launched, re_has_streams = True, re_steps = sample_step_run,
     re_shutdown = clean_shutdown, re_streams_close = True, re_stdout_chunks = sample_chunks,
     re_stderr_chunks = [''warning''], re_exit = Exited 0, re_returncode = Some 0, re_awaited = Inr 0\<rparr>"

text \<open>One request is \<open>null\<close>; output goes on after the end while the guard has denied a connection.\<close>

definition null_run :: run_env where
  "null_run = clean_run\<lparr>re_stdout_chunks := butlast sample_chunks @
     [request_frame ''p1'' ''null'' @ lines_text [''end'', ''{}''] @ delimiter]\<rparr>"

definition denied_run :: run_env where
  "denied_run = clean_run\<lparr>re_stdout_chunks := sample_chunks @ [''update''],
     re_stderr_chunks := [external_network_marker], re_exit := Exited 7, re_returncode := Some 7\<rparr>"

definition sample_result :: process_result where
  "sample_result = \<lparr>pr_messages = sample_messages, pr_returncode = 0, pr_forced_shutdown = False,
     pr_completed_barriers = True, pr_terminal_side_error = None\<rparr>"

lemma sample_drained:
  "fst (drained sample_text sample_limits clean_run) = Inr ()"
  "dn_messages (snd (snd (drained sample_text sample_limits clean_run))) = sample_messages"
  by code_simp+

lemma clean_run_result: "run_process sample_text sample_limits sample_steps clean_run = Inr sample_result"
  by code_simp

definition sample_config :: oracle_config where
  "sample_config = \<lparr>oc_source_manifest_digest = sample_fixture_digest,
     oc_build_manifest_digest = sample_fixture_digest, oc_ruleset_snapshot_digest = sample_fixture_digest,
     oc_verified = None, oc_guarded = True,
     oc_run = \<lambda>steps. run_process sample_text sample_limits steps clean_run\<rparr>"

lemma sample_config_fits: "config_fits sample_config"
  by code_simp

text \<open>A decoder whose frames are at most nine bytes long, and a frame of nine bytes in two chunks.\<close>

definition tight_chunks :: "bytes list" where
  "tight_chunks = [lines_text [''update'', ''|x''] @ [newline], [newline]]"

definition tight_decoder :: decoder where
  "tight_decoder = \<lparr>dc_max_frame_bytes = 9, dc_max_buffer_bytes = 9, dc_buffer = [], dc_started = False,
     dc_ended = False, dc_finished = False, dc_failed = False\<rparr>"

lemma tight_runs:
  "new_decoder 9 9 = Inr tight_decoder"
  "fst (feed sample_text tight_decoder (concat tight_chunks)) = Inr [UpdateMessage [''|x'']]"
  "fst (feed_all sample_text tight_decoder tight_chunks) \<noteq> Inr [UpdateMessage [''|x'']]"
  by code_simp+

lemma denied_run_facts:
  "start_process sample_limits sample_steps (re_launch denied_run) = Inr ()"
  "interaction denied_run sample_steps = Inr None" "shutdown (re_shutdown denied_run) = Inr False"
  "re_streams_close denied_run"
  by code_simp+

lemma denied_run_drained:
  "fst (drained sample_text sample_limits denied_run) = Inl (OracleProcessError PROTOCOL_DESYNCHRONIZATION)"
  by code_simp

lemma denied_run_stderr:
  "dn_stderr (snd (snd (drained sample_text sample_limits denied_run))) = external_network_marker"
  by code_simp

lemma contains_self: "sub \<noteq> [] \<Longrightarrow> contains sub sub"
  using starts_with_append [of sub "[]"] by (cases sub) (simp_all add: contains_def)

lemma denied_run_marker:
  "contains external_network_marker (dn_stderr (snd (snd (drained sample_text sample_limits denied_run))))"
  unfolding denied_run_stderr by (rule contains_self) (simp add: external_network_marker_def)

lemma null_run_facts:
  "case run_process sample_text sample_limits sample_steps null_run of
     Inr r \<Rightarrow> list_ex is_null_request (pr_messages r) \<and> pr_completed_barriers r | Inl _ \<Rightarrow> False"
  by code_simp

lemma sample_drained_out:
  "fst (drain_stdout sample_text sample_limits empty_drain sample_chunks) = Inr ()"
  "dn_messages (snd (drain_stdout sample_text sample_limits empty_drain sample_chunks)) = sample_messages"
  by code_simp+

lemma two_commands_encoded:
  "\<exists>out. encode_commands sample_text 100 100 [''>p1 team 1'', ''>forcetie''] = Inr out"
proof -
  have "case encode_commands sample_text 100 100 [''>p1 team 1'', ''>forcetie''] of Inr _ \<Rightarrow> True | Inl _ \<Rightarrow> False"
    by code_simp
  then show ?thesis by (simp split: sum.splits)
qed

end
