(* ===== verification/Spec2Isabelle.thy ===== *)
theory Spec2Isabelle
  imports Engine_Run Oracle_Run
begin

text \<open>
  BattleBelief: a bot that plays Generation 9 OU battles on a Pokemon Showdown server. This
  development models the path of a battle from the bytes of the server to the commands sent
  back, and proves what makes it safe.

  \<^bold>\<open>The program and the theories.\<close> Paths are under \<open>src/packages\<close>, in the packages
  \<open>battlebelief_core\<close> (pure domain logic) and \<open>battlebelief_runtime\<close> (adapters and composition).
  \<^item> \<open>Prelude\<close>: exceptions as values of a sum (\<open>ebind\<close>, \<open>emap\<close>, \<open>efold\<close>), the judgement
    \<open>raises\<close>, insertion-ordered dictionaries, and the locales \<open>fallible_machine\<close> and
    \<open>ordered_machine\<close> of machines whose steps may fail. \<open>Errors\<close>: the exception classes and
    their codes. \<open>Py_Strings\<close>: Python's string operations over Latin-1 text.
  \<^item> \<open>Battle_State\<close>, \<open>Events\<close>, \<open>Reducer\<close> (\<open>domain/state\<close>, \<open>domain/events\<close>,
    \<open>application/observation/reducer.py\<close>): the observation of a battle and the pure step
    \<open>reduce_event\<close>. \<open>Reducer_Inv\<close> proves the well-formedness \<open>wf_state\<close> preserved handler by
    handler; \<open>Reducer_History\<close> proves that the observation only grows, the frame of each event
    and the effect of a switch, and interprets \<open>ordered_machine\<close> (\<open>reducer\<close>).
  \<^item> \<open>Actions\<close> (\<open>domain/actions\<close>, the heuristic policy, the action gate, the command encoder):
    submissions with their validation; the locale \<open>decision_policy\<close> is the contract of a policy
    and \<open>heuristic\<close> its interpretation. \<open>Reconciler\<close> (\<open>application/safety/request_reconciler.py\<close>):
    the checks in order, and the predicate \<open>acceptable\<close> they refine.
  \<^item> \<open>Wire\<close>, \<open>Parser\<close>, \<open>Parser_Facts\<close>, \<open>Json\<close>, \<open>Request_Reader\<close>, \<open>Request_Errors\<close>,
    \<open>Challenge\<close> (\<open>adapters/showdown_protocol\<close>, \<open>adapters/team_files\<close>): frames, lines, events,
    requests with their safe sets, the state of the challenge, the packed team.
  \<^item> \<open>Public_Projection\<close>, \<open>Decision_Record\<close> (\<open>domain/records\<close>): what leaves the program, and
    the records bound to it by digests.
  \<^item> \<open>Session\<close>, \<open>Session_Inv\<close> (\<open>composition/battle_session.py\<close>): one battle as a machine over
    its lines; its invariant and its forward order are interpreted as \<open>session\<close>.
  \<^item> \<open>Discovery\<close>, \<open>Coordinator\<close> (\<open>composition/battle_coordinator.py\<close>): the set-up of the battle as
    a machine (\<open>discovery\<close>) and the whole run.
  \<^item> \<open>Session_Trace\<close> (\<open>testing/recording_trace_sink.py\<close>): the ledger of accepted records and the
    invariant that ties the session's counters and errors to it. \<open>Measurement\<close>, \<open>Measured\<close>
    (\<open>battlebelief_lab/evaluation/measurement_runner.py\<close>): results of measurement runs, their
    validation and the runner; \<open>reportable\<close> is the contract between session and runner.
  \<^item> \<open>Schedule\<close> (\<open>evaluation/schedule.py\<close>, \<open>seed_families.py\<close>, \<open>matchup_blocks.py\<close>): seeds,
    matchup keys and side-balanced schedules; \<open>matchup_rows_ok\<close> is their specification.
  \<^item> \<open>Capabilities\<close> (\<open>domain/engine_capabilities.py\<close>): catalogs, claims with their evidence, and
    the manifest that decides what an engine may claim.
  \<^item> \<open>Search\<close> (\<open>domain/search.py\<close>, \<open>ports/random_source.py\<close>): the values of engine-neutral
    search, the payload check on object graphs (\<open>sound_object\<close> is its specification), streams.
  \<^item> \<open>Engine_Actions\<close>, \<open>Engine_State\<close>, \<open>Engine_Model\<close> (\<open>adapters/poke_engine\<close>,
    \<open>search_status.py\<close>): the adapter to the native engine. \<open>Engine_Facts\<close> proves that a method that
    succeeds leaves the model alone (\<open>keeps\<close>) and that transitions are exact; \<open>Engine_Root\<close> that a
    root holds the safe set (\<open>root_of_safe_set\<close>) and that views are private (\<open>looks_alike\<close>);
    \<open>Engine_Failures\<close> that everything fails closed (\<open>fails_in\<close>, \<open>closed_exc\<close>).
  \<^item> \<open>Json_Round_Trip\<close> (\<open>request_reader.py\<close>, \<open>_canonical_digest\<close>): printed JSON reads back, so
    that the digest of a request identifies it up to the order of its keys.
  \<^item> \<open>Oracle_Protocol\<close> (\<open>battlebelief_lab/oracle/showdown\<close>: \<open>errors.py\<close>, \<open>protocol.py\<close>): the
    decoder of a simulator's output, its strict JSON, the encoder of commands. \<open>transcript\<close> is the
    grammar of the protocol; \<open>frames\<close> and \<open>decoded\<close> are the decoder as a \<open>fallible_machine\<close>.
    \<open>Oracle_Process\<close> (\<open>process.py\<close>, \<open>network.py\<close>): the run of the process as a function of what
    its streams, clocks and exit do (\<open>run_env\<close>); \<open>answered\<close> and \<open>cleaned_up\<close> specify it.
    \<open>Oracle_Session\<close> (\<open>session.py\<close>): fixtures, their steps, and the checked result of a run.
  \<^item> \<open>Samples\<close>, \<open>Engine_Samples\<close>, \<open>Engine_Run\<close>, \<open>Oracle_Run\<close>: the inputs at which the properties
    are applied.

  \<^bold>\<open>How state and effects are modelled.\<close> A class with attributes is a record; a method that
  may raise returns the exception with the state as it is at that point. Calls to the outside
  are logged in the state (\<open>se_sent\<close>, \<open>se_emitted\<close>, \<open>ds_global\<close>) and their outcomes are given by an
  environment (\<open>session_env\<close>, \<open>coordinator_env\<close>, \<open>native_engine\<close>), over which every property
  quantifies. A method of the engine's model is a function of its state (\<open>engine_method\<close>). A stream
  of lines is a list with the exception it ends with, if any. Integers are unbounded as in
  Python. Strings are Latin-1: a JSON escape beyond it is reported as outside the model.

  \<^bold>\<open>Parameters.\<close> SHA-256, the digest of a canonical JSON document (a third-party
  canonicalizer), its output (\<open>canonicalizer_sound\<close>: it reads back as the value), the Unicode
  table of normal forms, the printed form of floats, the native engine, policies, connections and trace
  sinks are arguments of the definitions; what a property assumes of them is among its hypotheses.

  \<^bold>\<open>Fuel.\<close> Only the JSON scanner uses fuel, twice the length of the text and one; \<open>Json\<close>
  proves that it is never used up. The deadline of the set-up is the number of lines that
  arrive before it, or a send that meets it. The process of the oracle is waited for as often as
  its environment wakes the waiter up before the deadline.

  \<^bold>\<open>Not modelled.\<close> The connection itself (WebSocket, login), the verification of installed
  artifacts and the import of native code (files and subprocesses), configuration and command line,
  the rest of the evaluation package, build tools; of the oracle its installation, manifests and
  server, the job objects of Windows and the enumeration of processes, and the cleaning of the
  error output for a report; texts of messages;
  \<open>DecisionRecord.with_updates\<close>, which nothing calls. Floats that overflow or are subnormal, which
  hit points do not reach, are outside \<open>rounded_share\<close>.
\<close>


section \<open>The session\<close>

text \<open>
  C1: Whatever the lines, the policy, the connection and the trace sink do, every command a
  session sends goes to its own room, is the encoding of a submission of the safe set of the
  request it answers with the rqid of that request, was made for a request (not a wait) that
  agreed with the public state observed at that moment, and no request is answered twice: the
  rqids of the commands grow strictly.
\<close>

theorem session_sends_safe:
  assumes "new_session room user None sink ctx = Inr s0"
  shows "(\<forall>c\<in>set (se_sent (run_session env s0 lines failure)).
      sc_room c = room
      \<and> sc_command c = choose_command (sc_submission c) (request_rqid (sc_request c))
      \<and> sc_submission c \<in> set (ss_submissions (dr_safe_submissions (sc_request c)))
      \<and> valid_submission (sc_submission c) \<and> dr_kind (sc_request c) \<noteq> Wait
      \<and> acceptable room (sc_request c) (sc_observed c) None)
    \<and> sorted_wrt (\<lambda>a b. request_rqid (sc_request a) < request_rqid (sc_request b))
        (se_sent (run_session env s0 lines failure))"
proof -
  note start = new_session_ok [OF assms]
  note run = run_session_ok [OF start(1,2), of env lines failure]
  have "se_room_id (run_session env s0 lines failure) = room"
    using run(2) start(3) by (simp add: session_extends_def)
  then show ?thesis
    using run(1) unfolding session_inv_def session_core_def requests_ok_def send_ok_def by blast
qed

theorem session_sends_safe_witness:
  "\<exists>c. se_sent (run_session sample_env sample_start sample_lines None) = [c]
    \<and> sc_command c = ''/choose move 1|3'' \<and> sc_room c = sample_room
    \<and> acceptable sample_room (sc_request c) (sc_observed c) None"
proof -
  obtain c where c: "se_sent (run_session sample_env sample_start sample_lines None) = [c]"
    "sc_command c = ''/choose move 1|3''"
    using sample_sent by auto
  with session_sends_safe [OF sample_start, of sample_env sample_lines None] show ?thesis by simp
qed



text \<open>
  C3: From any reachable session, a run never takes anything back: the first error stays the
  reported one, the commands and the records already out stay a prefix of those out later, the
  latest rqid never decreases, the observation only extends its history, and the session stops
  only with an error or at a terminal state of the battle.
\<close>

theorem session_never_takes_back:
  assumes "session_inv s" "\<not> se_done s"
  shows "session_extends s (run_session env s lines failure)"
  by (rule run_session_ok(2) [OF assms])

theorem session_never_takes_back_witness:
  "session_extends sample_start (run_session sample_env sample_start sample_lines None)"
  using new_session_ok [OF sample_start] session_never_takes_back by blast

text \<open>
  C4: The decision records a session emits have strictly increasing decision indices, each has
  an outcome allowed by the table of statuses, and a record with status submitted names the
  submission and the rqid of a command that was delivered.
\<close>

theorem session_records:
  assumes "new_session room user None sink ctx = Inr s0"
  shows "sorted_wrt (\<lambda>a b. de_decision_index a < de_decision_index b)
        (se_emitted (run_session env s0 lines failure))
    \<and> (\<forall>r\<in>set (se_emitted (run_session env s0 lines failure)).
        outcome_agrees (de_record_status r) (de_selected_submission r)
          (de_submission_provenance r) (de_fallback_or_error_class r)
        \<and> (de_record_status r = Submitted \<longrightarrow>
            (\<exists>c\<in>set (se_sent (run_session env s0 lines failure)). sc_delivered c
              \<and> de_selected_submission r = Some (sc_submission c)
              \<and> pi_rqid (de_request_identity r) = request_rqid (sc_request c))))"
proof -
  note start = new_session_ok [OF assms]
  have "session_inv (run_session env s0 lines failure)" by (rule run_session_ok(1) [OF start(1,2)])
  then show ?thesis unfolding session_inv_def session_core_def records_ok_def record_ok_def by blast
qed

theorem session_records_witness:
  "map de_record_status (se_emitted (run_session sample_env sample_traced sample_lines None)) = [Submitted]
    \<and> (\<exists>c\<in>set (se_sent (run_session sample_env sample_traced sample_lines None)). sc_delivered c)"
proof -
  obtain r where r: "se_emitted (run_session sample_env sample_traced sample_lines None) = [r]"
    "de_record_status r = Submitted"
    using sample_emitted by auto
  with session_records [OF sample_traced, of sample_env sample_lines None] sample_emitted
  show ?thesis by auto
qed



section \<open>The coordinator\<close>

text \<open>
  C6: A run of the coordinator that returns has found a room with our battle: the room was not
  there before the challenge, both players are the two accounts, format, generation and tier
  are ours and no metadata was in error. The session ran on a prefix of exactly the lines of
  that room in the whole stream, buffered and live, so no line is lost or reordered at the
  handover; and the result names an error unless the battle was won or tied.
\<close>

theorem coordinator_result:
  assumes "run_coordinator cd env lines failure budget = Inr r"
  shows "\<exists>c rest st seen s. discover cd (ce_global env) lines failure budget = (Inr (c, rest), st)
      \<and> lines = seen @ rest \<and> found_ok cd st seen c
      \<and> ran_on cd (ce_session env) lines c s \<and> r = require_terminal (result_snapshot None s)
      \<and> session_inv s
      \<and> (re_primary_error r \<noteq> None \<or> os_winner (re_state r) \<noteq> None \<or> os_tied (re_state r))"
proof -
  from run_coordinator_Inr [OF assms] obtain c rest st seen s where
    facts: "discover cd (ce_global env) lines failure budget = (Inr (c, rest), st)"
      "lines = seen @ rest" "found_ok cd st seen c" "ran_on cd (ce_session env) lines c s"
      "r = require_terminal (result_snapshot None s)" by blast
  have "re_primary_error r \<noteq> None \<or> os_winner (re_state r) \<noteq> None \<or> os_tied (re_state r)"
    using require_terminal_ok require_terminal_state facts(5) by metis
  with facts ran_on_ok [OF facts(4)] show ?thesis by blast
qed

theorem coordinator_result_witness:
  "\<exists>r c s. run_coordinator sample_coordinator sample_world (sample_setup @ sample_lines) None 40 = Inr r
    \<and> is_matching_candidate sample_coordinator c
    \<and> ran_on sample_coordinator sample_env (sample_setup @ sample_lines) c s
    \<and> os_winner (re_state r) = Some ''Alice''"
proof -
  from sample_coordinated obtain r where
    r: "run_coordinator sample_coordinator sample_world (sample_setup @ sample_lines) None 40 = Inr r"
    "os_winner (re_state r) = Some ''Alice''" by blast
  from coordinator_result [OF r(1)] r show ?thesis
    by (auto simp: found_ok_def sample_world_def)
qed

text \<open>
  C7: Whatever the stream and the connection do, the global commands of a setup are an initial
  part of: ask for the account's rooms, set the team, challenge the opponent. The challenge is
  never sent without the team, nor twice.
\<close>

theorem setup_commands_in_order:
  "\<exists>n. ds_global (snd (discover cd sends lines failure budget)) = take n (setup_commands cd)"
  using discover_log [of cd sends lines failure budget] by (metis prod.collapse)

text \<open>
  A team that the loader accepts is accepted by the coordinator, for every pair of names
  with an identifier and a display name without separators or unprintable characters.
\<close>

theorem loaded_team_coordinates:
  assumes "load_packed_team sha256 text = Inr team"
    and "to_id user \<noteq> []" "to_id opponent \<noteq> []"
    and "\<forall>c\<in>set opponent. is_printable c \<and> c \<notin> {CHR '','', CHR ''|'', cr_char, line_feed}"
  shows "make_coordinator sha256 user opponent team True
    = Inr \<lparr>cd_our_user_id = to_id user, cd_opponent_display = opponent,
           cd_opponent_user_id = to_id opponent, cd_team = team\<rparr>"
proof -
  have "team_consistent sha256 team" by (rule load_packed_team_ok(1) [OF assms(1)])
  then show ?thesis
    using assms(2-4) by (auto simp: make_coordinator_def team_consistent_def list_ex_iff list_all_iff)
qed

theorem loaded_team_coordinates_witness:
  "\<exists>team. load_packed_team (\<lambda>t. ''d'') ''Pika|||||||||||'' = Inr team
    \<and> make_coordinator (\<lambda>t. ''d'') ''Alice'' ''Bob'' team True
      = Inr \<lparr>cd_our_user_id = ''alice'', cd_opponent_display = ''Bob'',
             cd_opponent_user_id = ''bob'', cd_team = team\<rparr>"
proof -
  have "\<not> isl (load_packed_team (\<lambda>t. ''d'') ''Pika|||||||||||'')" by code_simp
  then obtain team where "load_packed_team (\<lambda>t. ''d'') ''Pika|||||||||||'' = Inr team"
    by (auto simp: isl_def) (metis sum.exhaust)
  moreover have "to_id ''Alice'' = ''alice''" "to_id ''Bob'' = ''bob''"
    "list_all (\<lambda>c. is_printable c \<and> c \<notin> {CHR '','', CHR ''|'', cr_char, line_feed}) ''Bob''"
    by code_simp+
  ultimately show ?thesis
    using loaded_team_coordinates [of "\<lambda>t. ''d''" "''Pika|||||||||||''" _ "''Alice''" "''Bob''"]
    by (simp add: list_all_iff)
qed

section \<open>Measurement runs\<close>



section \<open>Observation\<close>

text \<open>
  C9: Every run of the reducer from the initial state, over any sequence of events it accepts,
  ends in a well-formed observation: boosts are seven values in [-6, 6], evidence intervals are
  chronological and disjoint, HP values are legal, a benched Pokemon carries no battle-only
  state, a side has one active Pokemon once its slot is taken, side conditions stay within
  their layer caps and the evidence log is ordered.
\<close>

theorem reducer_run_invariant:
  assumes "efold reduce_event (initial_state user) events = Inr st"
  shows "wf_state st"
  by (rule reducer.inv_run [OF wf_initial assms])

theorem reducer_run_invariant_witness:
  "\<exists>st. efold reduce_event (initial_state ''alice'') sample_events = Inr st \<and> wf_state st"
  using sample_accepted reducer_run_invariant by blast

text \<open>
  C10: The observation only grows: over any accepted run the rules, the evidence and the
  revealed moves are extended at the end, evidence intervals are at most closed, our side, the
  user and the progress flags never revert, no known Pokemon disappears; and the accepted events
  come in strictly increasing index order.
\<close>

theorem reducer_run_history:
  assumes "wf_state st" "efold reduce_event st events = Inr st'"
  shows "state_extends st st' \<and> sorted_wrt (\<lambda>a b. event_index a < event_index b) events"
  using reducer.le_run [OF assms] run_indices [OF assms] by blast

theorem reducer_run_history_witness:
  "\<exists>st. efold reduce_event (initial_state ''alice'') sample_events = Inr st
    \<and> state_extends (initial_state ''alice'') st"
  using sample_accepted reducer_run_history [OF wf_initial] by blast

text \<open>
  C11: An accepted event changes no side but those it concerns (\<open>event_sides\<close>).
\<close>

theorem reducer_frame:
  assumes "wf_state st" "reduce_event st e = Inr st'"
  shows "(''p1'' \<notin> event_sides e \<longrightarrow> os_p1 st' = os_p1 st)
    \<and> (''p2'' \<notin> event_sides e \<longrightarrow> os_p2 st' = os_p2 st)"
  using reduce_step(1) [OF assms] by (simp add: step_ok_def)

theorem reducer_frame_witness:
  "\<exists>st. reduce_event (initial_state ''alice'')
      (Pokemon (PokemonSwitched 0 ''p1'' 1 ''Pika'' ''Pikachu, M'' sample_hp)) = Inr st
    \<and> os_p2 st = os_p2 (initial_state ''alice'')"
proof -
  have "\<not> isl (reduce_event (initial_state ''alice'')
      (Pokemon (PokemonSwitched 0 ''p1'' 1 ''Pika'' ''Pikachu, M'' sample_hp)))" by code_simp
  then obtain st where "reduce_event (initial_state ''alice'')
      (Pokemon (PokemonSwitched 0 ''p1'' 1 ''Pika'' ''Pikachu, M'' sample_hp)) = Inr st"
    by (metis sum.collapse(2))
  with reducer_frame [OF wf_initial this] show ?thesis by simp
qed

text \<open>
  After a switch or a drag the named Pokemon is the only active one of its side, with the
  observed HP, status and details, neutral boosts and no volatile state; all benched Pokemon
  of the side are neutral too.
\<close>

theorem switch_postcondition:
  assumes "wf_state st"
    and "e \<in> {PokemonSwitched ei sd sl n d hp, PokemonDragged ei sd sl n d hp}"
    and "reduce_event st (Pokemon e) = Inr st'"
  shows "\<exists>s h. side st' sd = Inr s \<and> token_to_observation hp sd (os_our_side st) = Inr h
    \<and> switched_in s n d hp h"
  by (rule switch_result [OF assms])

theorem switch_postcondition_witness:
  "\<exists>st s h. reduce_event (initial_state ''alice'')
      (Pokemon (PokemonSwitched 0 ''p1'' 1 ''Pika'' ''Pikachu, M'' sample_hp)) = Inr st
    \<and> side st ''p1'' = Inr s \<and> switched_in s ''Pika'' ''Pikachu, M'' sample_hp h"
proof -
  have "\<not> isl (reduce_event (initial_state ''alice'')
      (Pokemon (PokemonSwitched 0 ''p1'' 1 ''Pika'' ''Pikachu, M'' sample_hp)))" by code_simp
  then obtain st where st: "reduce_event (initial_state ''alice'')
      (Pokemon (PokemonSwitched 0 ''p1'' 1 ''Pika'' ''Pikachu, M'' sample_hp)) = Inr st"
    by (metis sum.collapse(2))
  with switch_postcondition [OF wf_initial _ this] show ?thesis by blast
qed

section \<open>Requests and actions\<close>

text \<open>
  C12: The reconciler accepts a request exactly when it is for this room, carries its own
  identity, is not older than the last submitted one, is for our side of a Generation 9
  singles OU battle, has a team of 1 to 6, submissions that fit its kind (a default among them,
  team orders that cover the team), the known team size and, where it needs one, the nickname
  of our active Pokemon.
\<close>

theorem reconcile_accepts_iff:
  assumes "reconcile room r st latest = Inr x"
  shows "rr_status x = Accept \<longleftrightarrow> acceptable room r st latest"
  by (rule reconcile_accept [OF assms])

theorem reconcile_accepts_iff_witness:
  "\<exists>r x. se_pending_request sample_pending = Some r
    \<and> reconcile (se_room_id sample_pending) r (se_state sample_pending)
        (map_option ri_rqid (se_submitted_request sample_pending)) = Inr x
    \<and> acceptable (se_room_id sample_pending) r (se_state sample_pending)
        (map_option ri_rqid (se_submitted_request sample_pending))"
  using sample_pending_facts(2) reconcile_accepts_iff by blast

text \<open>
  C13: Every request the reader returns is for its room, has a nonnegative rqid, a side p1 or
  p2, 1 to 6 members, and a safe set bound to its own identity whose members are all valid
  submissions of kinds its own kind allows, with a default among them unless it is a wait.
\<close>

theorem read_request_sound:
  assumes "read_request float_repr sha256 room payload = Inr r"
  shows "reader_ok room r"
  by (rule read_request_ok [OF assms])

theorem read_request_sound_witness:
  "reader_ok sample_room sample_decision \<and> dr_kind sample_decision = Move_Request"
  using read_request_sound [OF sample_decision] sample_decision_facts by blast



text \<open>
  C15: The safe set of a normal turn holds exactly the legal actions: the default; and, unless
  a move may be disabled or locked, every enabled move by its slot (with a terastallized
  variant when that is allowed) and, unless the Pokemon is or may be trapped, a switch to every
  unfainted benched member.
\<close>

theorem normal_turn_actions:
  assumes "normal_submissions ar pokemon = Inr subs"
  shows "(\<forall>b. b \<in> set subs \<longleftrightarrow> normal_action ar pokemon b) \<and> (\<forall>b\<in>set subs. valid_submission b)"
  using normal_submissions_set [OF assms] by blast

definition sample_active :: active_request where
  "sample_active = \<lparr>ar_moves = [\<lparr>rm_move_id = ''tackle'', rm_disabled = False\<rparr>],
     ar_can_terastallize = ''Fire'', ar_trapped = False, ar_maybe_trapped = False,
     ar_maybe_disabled = False, ar_maybe_locked = False\<rparr>"

theorem normal_turn_actions_witness:
  "\<exists>subs. normal_submissions sample_active [] = Inr subs
    \<and> move_action 1 ''tackle'' True \<in> set subs \<and> valid_submission (move_action 1 ''tackle'' True)"
proof -
  have "\<not> isl (normal_submissions sample_active [])" by code_simp
  then obtain subs where subs: "normal_submissions sample_active [] = Inr subs"
    by (metis sum.collapse(2))
  have "normal_action sample_active [] (move_action 1 ''tackle'' True)"
    by (auto simp: normal_action_def sample_active_def)
  with normal_turn_actions [OF subs] subs show ?thesis by blast
qed

text \<open>
  C16: The safe set of a team preview is the default and the orders that are permutations of
  the team, each valid.
\<close>

theorem team_preview_actions:
  assumes "read_team_preview ident side_id pokemon data = Inr r"
  shows "dr_kind r = Team_Preview
    \<and> (\<forall>b. b \<in> set (ss_submissions (dr_safe_submissions r)) \<longleftrightarrow>
         b = default_action \<or> (\<exists>p. mset p = mset [1..int (length pokemon)] \<and> b = team_action p))
    \<and> (\<forall>b\<in>set (ss_submissions (dr_safe_submissions r)). valid_submission b)"
proof -
  obtain subs where r: "r = make_request ident Team_Preview side_id (int (length pokemon)) None
      (subs @ [default_action]) False"
    and subs: "\<And>b. b \<in> set subs \<longleftrightarrow> (\<exists>p. mset p = mset [1..int (length pokemon)] \<and> b = team_action p)"
    and v: "\<forall>b\<in>set subs. valid_submission b"
    using assms by (rule read_team_preview_Inr) blast
  have "valid_submission default_action" by (simp add: valid_submission_def default_action_def)
  then show ?thesis using subs v unfolding r make_request_def by auto
qed

definition sample_member :: request_pokemon where
  "sample_member = \<lparr>rp_ident = ''p1: Pika'', rp_details = ''Pikachu, M'', rp_condition = ''100/100'',
     rp_active = False, rp_reviving = False\<rparr>"

theorem team_preview_actions_witness:
  "\<exists>r. read_team_preview (dr_identity sample_decision) ''p1'' [sample_member, sample_member] [] = Inr r
    \<and> team_action [2, 1] \<in> set (ss_submissions (dr_safe_submissions r))"
proof -
  have "\<not> isl (read_team_preview (dr_identity sample_decision) ''p1'' [sample_member, sample_member] [])"
    by (simp add: read_team_preview_def get_or_def Let_def upto.simps make_submission_def
        post_init_def raise_if_def default_submission_def py_permutations.simps)
  then obtain r where r: "read_team_preview (dr_identity sample_decision) ''p1''
      [sample_member, sample_member] [] = Inr r"
    by (metis sum.collapse(2))
  have "mset [2, 1] = mset [1..int (length [sample_member, sample_member])]"
    by (simp add: upto.simps)
  with team_preview_actions [OF r] r show ?thesis by blast
qed

text \<open>
  C17: Different submissions of a request's safe set are encoded as different commands.
\<close>

theorem safe_set_encoding_injective:
  assumes "read_request float_repr sha256 room payload = Inr r"
  shows "inj_on encode_submission (set (ss_submissions (dr_safe_submissions r)))"
  by (rule read_request_encode [OF assms])

theorem safe_set_encoding_injective_witness:
  "inj_on encode_submission (set (ss_submissions (dr_safe_submissions sample_decision)))
    \<and> map encode_submission (ss_submissions (dr_safe_submissions sample_decision))
      = [''move 1'', ''default'']"
  using safe_set_encoding_injective [OF sample_decision] sample_decision_facts by blast

text \<open>
  The checks of a submission's constructor succeed exactly on the well-formed
  submissions of each kind, and otherwise raise a \<open>ValueError\<close>.
\<close>

theorem submission_checks:
  "post_init b = (if valid_submission b then Inr () else Inl ValueError)"
  using post_init_iff [of b "()"] post_init_error [of b] by (cases "post_init b") auto

text \<open>
  C18: The heuristic policy fails exactly on an empty safe set; otherwise it takes a member of
  the least priority class, the earliest of those, and the gate authorizes the choice for a
  request that carries its own identity.
\<close>

theorem heuristic_choice:
  assumes "dr_identity r = ss_request_identity (dr_safe_submissions r)"
  shows "(ss_submissions (dr_safe_submissions r) = [] \<and> heuristic_select r = Inl NoLegalActionError)
    \<or> (\<exists>before b after. ss_submissions (dr_safe_submissions r) = before @ b # after
        \<and> heuristic_select r = Inr b
        \<and> (\<forall>x\<in>set before. priority b < priority x) \<and> (\<forall>x\<in>set after. priority b \<le> priority x)
        \<and> authorize b (dr_identity r) (dr_safe_submissions r) = Inr b)"
proof (cases "ss_submissions (dr_safe_submissions r)")
  case Nil
  then show ?thesis by (simp add: heuristic_select_def)
next
  case (Cons x xs)
  let ?b = "min_by priority x xs"
  have sel: "heuristic_select r = Inr ?b" using Cons by (simp add: heuristic_select_def)
  obtain ys zs where split: "x # xs = ys @ ?b # zs" and before: "\<forall>y\<in>set ys. priority ?b < priority y"
    using min_by_first [of x xs priority] by (elim exE conjE)
  have "set zs \<subseteq> set (x # xs)" by (subst split) auto
  then have after: "\<forall>y\<in>set zs. priority ?b \<le> priority y"
    using min_by_least [of _ x xs priority] by (meson subsetD)
  have "authorize ?b (dr_identity r) (dr_safe_submissions r) = Inr ?b"
    by (rule heuristic.gate_accepts [OF assms sel])
  with Cons sel split before after show ?thesis
    by (intro disjI2 exI [of _ ys] exI [of _ ?b] exI [of _ zs] conjI) simp_all
qed

theorem heuristic_choice_witness:
  "heuristic_select sample_decision = Inr (move_action 1 ''tackle'' False)
    \<and> (\<exists>b. authorize b (dr_identity sample_decision) (dr_safe_submissions sample_decision) = Inr b)"
proof -
  have sel: "heuristic_select sample_decision = Inr (move_action 1 ''tackle'' False)" by code_simp
  have "dr_identity sample_decision = ss_request_identity (dr_safe_submissions sample_decision)"
    using read_request_ok [OF sample_decision] by (simp add: reader_ok_def)
  from heuristic_choice [OF this] sel show ?thesis by auto
qed

section \<open>The protocol\<close>

text \<open>
  C19: Decoding is the inverse of rendering: a frame made of blocks of lines, one room marker
  each, decodes to exactly these lines, in order and each in its room.
\<close>

theorem frame_round_trip:
  assumes "\<forall>b\<in>set blocks. block_ok b"
  shows "decode_frame (render_frame blocks) = Inr (concat (map block_lines blocks))"
  by (rule decode_render [OF assms])

theorem frame_round_trip_witness:
  "decode_frame (render_frame [(''battle-1'', [''|start'', ''|turn|1'']), (''lobby'', [''hi''])])
    = Inr [\<lparr>rl_room_id = Some ''battle-1'', rl_payload = ''|start''\<rparr>,
           \<lparr>rl_room_id = Some ''battle-1'', rl_payload = ''|turn|1''\<rparr>,
           \<lparr>rl_room_id = Some ''lobby'', rl_payload = ''hi''\<rparr>]"
  using frame_round_trip [of "[(''battle-1'', [''|start'', ''|turn|1'']), (''lobby'', [''hi''])]"]
  by (simp add: block_ok_def plain_line_def newline_def carriage_return_def block_lines_def)

text \<open>
  Every line a frame decodes to has a payload that is not empty, holds no line break and is
  not a room marker, and its room id, if any, is not empty.
\<close>

theorem decoded_lines_clean:
  assumes "decode_frame f = Inr ls" "l \<in> set ls"
  shows "rl_payload l \<noteq> [] \<and> \<not> starts_with ''>'' (rl_payload l) \<and> newline \<notin> set (rl_payload l)
    \<and> rl_room_id l \<noteq> Some []"
  using decode_frame_lines_ok [OF assms] by (simp add: line_ok_def)

theorem decoded_lines_clean_witness:
  "\<exists>l. decode_frame (Text ''|start'') = Inr [l] \<and> rl_payload l \<noteq> [] \<and> newline \<notin> set (rl_payload l)"
proof -
  let ?l = "\<lparr>rl_room_id = None, rl_payload = ''|start''\<rparr>"
  have run: "decode_frame (Text ''|start'') = Inr [?l]" by code_simp
  have "?l \<in> set [?l]" by simp
  from decoded_lines_clean [OF run this] run show ?thesis by blast
qed

text \<open>
  The classifier and the parser agree: a line classified as a battle event either becomes
  an event that carries the index it was parsed with, or is malformed, or reports a forfeit; it
  is never an unknown event.
\<close>

theorem classified_lines_parse:
  assumes "classify_room_payload payload = Battle_Event"
  shows "(\<exists>e. parse_battle_line payload ei room_id = Inr e \<and> event_index e = ei)
    \<or> parse_battle_line payload ei room_id = Inl MalformedProtocolMessage
    \<or> (\<exists>m. parse_battle_line payload ei room_id = Inl (TimerOrForfeit m))"
  using parse_index [of payload ei room_id] parse_classified [OF assms, of ei room_id]
  by (cases "parse_battle_line payload ei room_id") auto

theorem classified_lines_parse_witness:
  "classify_room_payload ''|turn|1'' = Battle_Event
    \<and> (\<exists>e. parse_battle_line ''|turn|1'' 4 None = Inr e \<and> event_index e = 4)"
proof -
  have c: "classify_room_payload ''|turn|1'' = Battle_Event" by code_simp
  have p: "parse_battle_line ''|turn|1'' 4 None = Inr (Progress (TurnStarted 4 1))" by code_simp
  from classified_lines_parse [OF c, of 4 None] c p show ?thesis by simp
qed

text \<open>
  C20: Whatever text arrives, the battle line parser raises only the protocol's own errors:
  malformed, unknown with the wire type of the line, or a forfeit.
\<close>

theorem parser_errors:
  assumes "parse_battle_line payload ei room_id = Inl x"
  shows "x = MalformedProtocolMessage \<or> x = UnknownProtocolEvent (fst (split_payload payload))
    \<or> (\<exists>m. x = TimerOrForfeit m)"
  by (rule parse_errors [OF assms])

theorem parser_errors_witness:
  "parse_battle_line ''|bogus|1'' 0 None = Inl (UnknownProtocolEvent ''bogus'')
    \<and> fst (split_payload ''|bogus|1'') = ''bogus''"
proof -
  have p: "parse_battle_line ''|bogus|1'' 0 None = Inl (UnknownProtocolEvent ''bogus'')" by code_simp
  from parser_errors [OF p] p show ?thesis by simp
qed

text \<open>
  Reading a request terminates on every text (the scanner's fuel, twice the length of the
  text and one, is never used up) and raises only the errors of the protocol, or a
  \<open>ValueError\<close>. Texts with characters beyond Latin-1 are outside the model.
\<close>

theorem read_request_errors:
  assumes "read_request float_repr sha256 room payload = Inl e"
  shows "json_loads payload \<noteq> Inl Json_Out_Of_Fuel
    \<and> e \<in> {MalformedProtocolMessage, RequestStateReconciliationMismatch, ValueError,
        RuntimeError ''text outside the model''}"
  using json_loads_fuel raises_read_request [of float_repr sha256 room payload] assms
  by (simp add: raises_def reader_errors_def)

theorem read_request_errors_witness:
  "\<exists>e. read_request (\<lambda>s. s) (\<lambda>s. s) sample_room ''{'' = Inl e
    \<and> e \<in> {MalformedProtocolMessage, RequestStateReconciliationMismatch, ValueError,
        RuntimeError ''text outside the model''}"
proof -
  have "isl (read_request (\<lambda>s. s) (\<lambda>s. s) sample_room ''{'')" by code_simp
  then obtain e where "read_request (\<lambda>s. s) (\<lambda>s. s) sample_room ''{'' = Inl e" by (auto simp: isl_def)
  with read_request_errors [OF this] show ?thesis by blast
qed

text \<open>
  An observation of the challenge is about the target alone, and names our format exactly
  when it says that the challenge is pending.
\<close>

theorem challenge_observations:
  assumes "read_challenge_state reader payload = Inr (Some o')"
  shows "co_target_user_id o' = cr_target_user_id reader
    \<and> co_format_id o' = (if co_status o' = Challenge_Pending then Some (cr_format_id reader) else None)"
  using read_challenge_ok [OF assms] by (simp add: challenge_ok_def)

theorem challenge_observations_witness:
  "\<exists>o'. read_challenge_state \<lparr>cr_our_user_id = ''alice'', cr_target_user_id = ''bob'',
        cr_format_id = ''gen9ou''\<rparr> ''|updatechallenges|{}'' = Inr (Some o')
    \<and> co_target_user_id o' = ''bob''"
proof -
  let ?c = "\<lparr>cr_our_user_id = ''alice'', cr_target_user_id = ''bob'', cr_format_id = ''gen9ou''\<rparr>"
  have "case read_challenge_state ?c ''|updatechallenges|{}'' of Inr (Some _) \<Rightarrow> True | _ \<Rightarrow> False"
    by code_simp
  then obtain o' where "read_challenge_state ?c ''|updatechallenges|{}'' = Inr (Some o')"
    by (auto split: sum.splits option.splits)
  with challenge_observations [OF this] show ?thesis by simp
qed

section \<open>Public projections and decision records\<close>


text \<open>
  The projection of a submission loses nothing, and that of a request's identity does not
  tell the room.
\<close>

theorem projection_exact:
  "(project_battle_submission b = project_battle_submission c \<longleftrightarrow> b = c)
    \<and> project_request_identity (ident\<lparr>ri_room_id := room\<rparr>) = project_request_identity ident"
  using project_submission_inj project_identity_room by auto

text \<open>
  A decision record that is constructed has the outcome its status demands: a selected
  submission with its provenance exactly where the status has one, and an error code from the
  status's row of the table.
\<close>

theorem record_outcomes:
  assumes "make_record v st ctx b i ident sd ss sel prov err = Inr r"
  shows "de_record_status r = st \<and> de_selected_submission r = sel \<and> de_decision_index r = i
    \<and> 0 \<le> i \<and> i \<le> max_safe_integer
    \<and> outcome_agrees st sel prov (de_fallback_or_error_class r)
    \<and> parse_error_class err = Inr (de_fallback_or_error_class r)"
  using make_record_Inr [OF assms] by simp

theorem record_outcomes_witness:
  "de_record_status sample_record = Wait_Noop \<and> de_selected_submission sample_record = None
    \<and> de_fallback_or_error_class sample_record = None"
  using record_outcomes [OF sample_record] by (simp add: outcome_agrees_def status_error_codes_def)

text \<open>
  C22: The envelope a record renders is valid by the envelope's own validator: identity,
  digest and payload agree, for every canonical digest function.
\<close>

theorem record_envelope_valid:
  assumes "to_envelope manifest r = Inr env"
  shows "validate_decision_record_envelope manifest env = Inr []"
  by (rule envelope_valid [OF assms])

theorem record_envelope_valid_witness:
  "\<exists>env. to_envelope sample_manifest sample_record = Inr env
    \<and> validate_decision_record_envelope sample_manifest env = Inr []"
  using sample_envelope record_envelope_valid by blast

text \<open>
  A measurement context that is created passes the validation of its own document, and so
  can be read back by whoever holds the digest function.
\<close>

theorem created_context_validates:
  assumes "create_run_context manifest b s n = Inr c"
  shows "validate_measurement_run_context manifest (run_context_items c) = Inr []"
  by (rule created_context_valid [OF assms])

theorem created_context_validates_witness:
  "validate_measurement_run_context sample_manifest (run_context_items sample_context) = Inr []"
  by (rule created_context_validates [OF sample_context])

section \<open>Where the code and its contracts part\<close>



section \<open>Schedules\<close>

text \<open>
  C25: A schedule that was built gives every matchup key exactly the asked number of rows,
  numbered from zero, in the key's block, with the sides alternating; so the two sides differ by
  at most one battle, and not at all when the number is even.
\<close>

theorem schedule_balanced:
  assumes "build_schedule hex registration seed keys n exact = Inr s" "k \<in> set keys"
  shows "\<exists>base. base_matchup_id hex k = Inr base \<and> matchup_rows_ok k n (rows_of base (sd_rows s))
    \<and> \<bar>side_count Side_P1 (rows_of base (sd_rows s)) - side_count Side_P2 (rows_of base (sd_rows s))\<bar>
      = n mod 2"
  by (rule schedule_rows [OF assms])

theorem schedule_balanced_witness:
  "\<exists>s base. build_schedule sample_hex sample_digest sample_seed [sample_key ''2'', sample_key ''1''] 2 True
      = Inr s \<and> map sr_repetition_index (rows_of base (sd_rows s)) = [0, 1]
    \<and> side_count Side_P1 (rows_of base (sd_rows s)) = side_count Side_P2 (rows_of base (sd_rows s))"
proof -
  obtain s where s: "build_schedule sample_hex sample_digest sample_seed
      [sample_key ''2'', sample_key ''1''] 2 True = Inr s"
    using sample_schedule by blast
  have "[0..2 - 1] = [0, 1::int]" by (simp add: upto_rec1)
  moreover obtain base where "matchup_rows_ok (sample_key ''1'') 2 (rows_of base (sd_rows s))"
    "\<bar>side_count Side_P1 (rows_of base (sd_rows s)) - side_count Side_P2 (rows_of base (sd_rows s))\<bar>
      = 2 mod 2"
    using schedule_balanced [OF s, of "sample_key ''1''"] by auto
  ultimately show ?thesis
    using s by (intro exI [of _ s] exI [of _ base]) (simp add: matchup_rows_ok_def)
qed

text \<open>
  The schedule depends on the set of the matchup keys only, not on their order or
  repetitions, although digests are all it sorts by.
\<close>

theorem schedule_of_the_set:
  assumes "build_schedule hex registration seed keys n exact = Inr s" "set keys' = set keys"
  shows "build_schedule hex registration seed keys' n exact = Inr s"
  by (rule schedule_order_independent [OF assms])

theorem schedule_of_the_set_witness:
  "\<exists>s. build_schedule sample_hex sample_digest sample_seed
      [sample_key ''1'', sample_key ''2'', sample_key ''1''] 2 True = Inr s
    \<and> build_schedule sample_hex sample_digest sample_seed [sample_key ''2'', sample_key ''1''] 2 True = Inr s"
proof -
  obtain s where s: "build_schedule sample_hex sample_digest sample_seed
      [sample_key ''2'', sample_key ''1''] 2 True = Inr s"
    using sample_schedule by blast
  have "set [sample_key ''1'', sample_key ''2'', sample_key ''1''] = set [sample_key ''2'', sample_key ''1'']"
    by auto
  from schedule_of_the_set [OF s this] s show ?thesis by blast
qed



section \<open>What an engine may claim\<close>

text \<open>
  C27: A capability that an accepted manifest calls exact or bounded has, for each environment
  cell the manifest binds, an evidence reference that names the build and the wheel of that cell, the
  manifest's catalog and its whole provenance; the backend of each cell has an identity. A
  manifest migrated from the older schema claims nothing, and no capability of another catalog
  has a status.
\<close>

theorem manifest_status_evidenced:
  assumes "check_manifest manifest m = Inr ()" "status_for m i = Inr s"
  shows "(s = Cap_Exact \<or> s = Cap_Bounded \<longrightarrow> em_migration m = None
      \<and> em_environment_bindings m \<noteq> []
      \<and> (\<forall>b\<in>set (em_environment_bindings m).
          (\<exists>c\<in>set (em_claims m). cl_capability_id c = i \<and> cl_status c = s
            \<and> (\<exists>r\<in>set (cl_evidence_refs c). er_environment_cell_id r = eb_environment_cell_id b
              \<and> er_engine_build_manifest_digest r = eb_engine_build_manifest_digest b
              \<and> er_wheel_digest r = eb_wheel_digest b
              \<and> er_catalog_digest r = cc_catalog_digest (em_catalog m)
              \<and> map Some (ref_provenance r) = manifest_provenance m))
          \<and> (\<exists>document. backend_identity_digest manifest m (eb_environment_cell_id b)
              = manifest document)))
    \<and> (em_migration m \<noteq> None \<longrightarrow> s = Cap_Unknown)
    \<and> ci_catalog_digest i = cc_catalog_digest (em_catalog m)
    \<and> ci_value i \<in> set (definition_values (em_catalog m))"
proof (intro conjI impI ballI)
  assume q: "s = Cap_Exact \<or> s = Cap_Bounded"
  show "em_migration m = None" using migrated_unknown [OF assms] q by (cases "em_migration m") auto
  show "em_environment_bindings m \<noteq> []" by (rule evidenced_cells [OF assms q])
  fix b assume b: "b \<in> set (em_environment_bindings m)"
  show "\<exists>c\<in>set (em_claims m). cl_capability_id c = i \<and> cl_status c = s
      \<and> (\<exists>r\<in>set (cl_evidence_refs c). er_environment_cell_id r = eb_environment_cell_id b
        \<and> er_engine_build_manifest_digest r = eb_engine_build_manifest_digest b
        \<and> er_wheel_digest r = eb_wheel_digest b
        \<and> er_catalog_digest r = cc_catalog_digest (em_catalog m)
        \<and> map Some (ref_provenance r) = manifest_provenance m)"
    by (rule evidenced_status [OF assms q b])
  show "\<exists>document. backend_identity_digest manifest m (eb_environment_cell_id b) = manifest document"
    by (rule evidenced_backend [OF assms q b])
qed (use migrated_unknown [OF assms] status_of_catalog [OF assms(2)] in auto)

theorem manifest_status_evidenced_witness:
  "status_for cap_manifest cap_id = Inr Cap_Exact
    \<and> er_wheel_digest cap_ref = eb_wheel_digest cap_cell
    \<and> em_migration cap_manifest = None"
proof -
  have s: "status_for cap_manifest cap_id = Inr Cap_Exact" by code_simp
  have "em_environment_bindings cap_manifest = [cap_cell]" "em_claims cap_manifest = [cap_claim]"
    "cl_evidence_refs cap_claim = [cap_ref]"
    by (simp_all add: cap_manifest_def cap_claim_def)
  with manifest_status_evidenced [OF cap_manifest_checked s] s show ?thesis by simp
qed

section \<open>The native engine\<close>

text \<open>
  C28: A root prepared for the search holds exactly the safe submissions of the request, in order:
  each has one action with a choice the engine offers, no choice of the engine is left out, and the
  action picked by a search is turned back into the safe submission it stands for and into no other.
\<close>

theorem engine_root_answers_safe_set:
  assumes "prepare_battle_root manifest float_integer observed safe world ruleset given s = (Inr w, s')"
  shows "s' = s \<and> root_of_safe_set (md_native s) safe w
    \<and> check_world (\<lambda>_. Inr ()) w = Inr ()
    \<and> (\<forall>i<length (ss_submissions safe).
         root_submission w (pw_root_actions w ! i) s = (Inr (ss_submissions safe ! i), s))
    \<and> (\<forall>a b t. root_submission w a s = (Inr b, t) \<longrightarrow>
         (\<exists>i<length (ss_submissions safe). a = pw_root_actions w ! i \<and> b = ss_submissions safe ! i))"
proof -
  obtain seen mapped ident digests where
    "prepare_mapped_root manifest seen mapped safe digests ident s = (Inr w, s')"
    using prepare_battle_run [OF assms] by blast
  note root = prepare_mapped_run [OF this]
  show ?thesis
    using root(1,2,9) root_submission_found(2) [OF root(1)] root_submission_only [OF root(1)] by blast
qed

theorem engine_root_answers_safe_set_witness:
  "root_of_safe_set sample_engine sample_safe (sample_prepared True)
    \<and> root_submission (sample_prepared True) (tackle_action (Some sample_root)) sample_model
      = (Inr tackle_submission, sample_model)"
proof -
  have "pw_root_actions (sample_prepared True) = [tackle_action (Some sample_root)]"
    "ss_submissions sample_safe = [tackle_submission]"
    by (simp_all add: sample_prepared_def sample_safe_def tackle_submission_def)
  then show ?thesis
    using engine_root_answers_safe_set [OF sample_prepared [of True]] by simp
qed



text \<open>
  C30: A player's view does not depend on what that player cannot see: if the states before two
  transitions look alike to the player and their views agree, then successors whose native states look
  alike again have the same view, whatever the opponent's bench, item, ability, moves, statistics,
  unused tera type and exact hit points are.
\<close>

theorem engine_views_private:
  assumes "player = ''p1'' \<or> player = ''p2''"
    and "transition manifest sha w a b s = (Inr t, s1)" "transition manifest sha' w' a' b' s = (Inr t', s2)"
    and "ne_from_string (md_native s) (po_native_state (pw_opaque w)) = Inr st"
      "ne_from_string (md_native s) (po_native_state (pw_opaque w')) = Inr st'"
    and "looks_alike player hps (ne_view (md_native s) st) (ne_view (md_native s) st')"
      "pick player (po_view_digests (pw_opaque w)) = pick player (po_view_digests (pw_opaque w'))"
      "po_public_hp (pw_opaque w) = hps" "po_public_hp (pw_opaque w') = hps"
    and "u \<in> set (to_successors t)" "u' \<in> set (to_successors t')"
    and "\<And>x x'. ne_to_string (md_native s) x = Inr (po_native_state (pw_opaque (ts_world u)))
      \<Longrightarrow> ne_to_string (md_native s) x' = Inr (po_native_state (pw_opaque (ts_world u')))
      \<Longrightarrow> looks_alike player hps (ne_view (md_native s) x) (ne_view (md_native s) x')"
  shows "pick player (po_view_digests (pw_opaque (ts_world u)))
    = pick player (po_view_digests (pw_opaque (ts_world u')))"
  by (rule transition_views [OF assms])

theorem engine_views_private_witness:
  "pick ''p1'' (po_view_digests (pw_opaque (ts_world (hd (to_successors (sample_outcome False))))))
    = pick ''p1'' (po_view_digests (pw_opaque (ts_world (hd (to_successors (sample_outcome True))))))"
proof -
  let ?hps = "((Percent, 100), (Percent, 100)) :: public_hp \<times> public_hp"
  have source: "ne_from_string (md_native sample_model) (po_native_state (pw_opaque (sample_prepared b))) = Inr (Hp_State 100 b)"
    "po_public_hp (pw_opaque (sample_prepared b)) = ?hps"
    "po_view_digests (pw_opaque (sample_prepared b)) = (sample_digest, sample_digest)" for b
    by (simp_all add: sample_prepared_def sample_payload_def from_string_run)
  have alike: "looks_alike ''p1'' ?hps (ne_view (md_native sample_model) (Hp_State n False))
      (ne_view (md_native sample_model) (Hp_State n True))" for n
    by (simp add: sample_alike)
  have views: "pick ''p1'' (po_view_digests (pw_opaque (sample_prepared False)))
      = pick ''p1'' (po_view_digests (pw_opaque (sample_prepared True)))"
    by (simp add: source)
  have u: "hd (to_successors (sample_outcome b)) \<in> set (to_successors (sample_outcome b))"
    "po_native_state (pw_opaque (ts_world (hd (to_successors (sample_outcome b))))) = state_text ''90'' b" for b
    by (simp_all add: sample_outcome_def sample_successor_def sample_payload_def)
  have after: "looks_alike ''p1'' ?hps (ne_view (md_native sample_model) x) (ne_view (md_native sample_model) x')"
    if "ne_to_string (md_native sample_model) x
        = Inr (po_native_state (pw_opaque (ts_world (hd (to_successors (sample_outcome False))))))"
      "ne_to_string (md_native sample_model) x'
        = Inr (po_native_state (pw_opaque (ts_world (hd (to_successors (sample_outcome True))))))" for x x'
    using that alike [of 90] to_string_state [of x False] to_string_state [of x' True] by (simp add: u)
  show ?thesis
    by (rule engine_views_private [OF disjI1 [OF refl] sample_transition sample_transition source(1) source(1)
        alike views source(2) source(2) u(1) u(1) after])
qed



text \<open>
  C32: The precision of hit points that a root takes from an observation is that of the Pokemon a side
  showed first, not of the one on the field: the slot it reads is the place on the field, always one.
  After the lead fainted, the percentages of the Pokemon on the field are read as pixels of one.
\<close>

theorem hp_precision_of_first_seen:
  assumes "efold reduce_event (initial_state user) events = Inr st" "s = os_p1 st \<or> s = os_p2 st"
    and "sv_active_slot s \<noteq> None"
  shows "observed_hp_precision s = (case pv_hp (hd (sv_pokemon s)) of
     None \<Rightarrow> (Percent, 100) | Some hp \<Rightarrow> (hp_precision hp, hp_maximum hp))"
proof -
  have "wf_state st" by (rule reducer.inv_run [OF wf_initial assms(1)])
  then show ?thesis using assms(2,3) observed_precision_of_first by (auto simp: wf_state_def)
qed

theorem hp_precision_of_first_seen_witness:
  "\<exists>st. efold reduce_event (initial_state ''alice'') fainted_lead = Inr st
    \<and> shown_hp (os_p2 st) = [(False, Some Pixel), (True, Some Percent)]
    \<and> observed_hp_precision (os_p2 st) = (Pixel, 1)"
proof -
  obtain st where run: "efold reduce_event (initial_state ''alice'') fainted_lead = Inr st"
    and st: "sv_active_slot (os_p2 st) = Some 1" "shown_hp (os_p2 st) = [(False, Some Pixel), (True, Some Percent)]"
      "map_option hp_maximum (pv_hp (hd (sv_pokemon (os_p2 st)))) = Some 1"
    using fainted_lead_run by (auto split: sum.splits)
  have "observed_hp_precision (os_p2 st) = (case pv_hp (hd (sv_pokemon (os_p2 st))) of
      None \<Rightarrow> (Percent, 100) | Some hp \<Rightarrow> (hp_precision hp, hp_maximum hp))"
    using hp_precision_of_first_seen [OF run, of "os_p2 st"] st(1) by simp
  then show ?thesis using run st by (auto simp: shown_hp_def)
qed

text \<open>
  C33: The payload check of a prepared world always ends, and accepts exactly the payloads that are
  deeply immutable: nothing mutable and no unknown object is reachable, and no object reaches itself.
\<close>

theorem payload_check_exact:
  "deeply_immutable h [] r = Inr () \<longleftrightarrow>
     \<not> ref_mutable r \<and> (\<forall>a. ref_object r = Some a \<longrightarrow> sound_object h a)"
  by (rule immutable_iff)

theorem payload_check_exact_witness:
  "sound_object [(0, Node_Tuple [Ref_Object 1, Ref_Object 1]), (1, Node_Frozenset [Ref_Atom])] 0
   \<and> \<not> sound_object [(0, Node_Tuple [Ref_Object 1]), (1, Node_Tuple [Ref_Object 0])] 0"
proof -
  have "deeply_immutable [(0, Node_Tuple [Ref_Object 1, Ref_Object 1]), (1, Node_Frozenset [Ref_Atom])] [] (Ref_Object 0)
      = Inr ()"
    "deeply_immutable [(0, Node_Tuple [Ref_Object 1]), (1, Node_Tuple [Ref_Object 0])] [] (Ref_Object 0) \<noteq> Inr ()"
    by code_simp+
  then show ?thesis by (simp add: payload_check_exact)
qed

section \<open>The oracle\<close>

text \<open>
  C34: The session of the oracle answers every verified fixture with a result that passes its own
  checks: its digests are those of its canonical documents, and the identities of its requests
  are those its transcript records. The failure it names is that of the process, or the verdict on
  the run; a result without a failure comes from a process that is gone with all its children
  and a complete transcript whose steps were all answered. The exception is a transcript with a
  \<open>null\<close> request, which the decoder accepts and the result refuses: there is no result at all.
\<close>

theorem oracle_results:
  assumes "canonicalizer_sound ot nf" "config_fits cfg" "parse_fixture ot document = Inr f"
    and "fx_ruleset_snapshot_digest f = oc_ruleset_snapshot_digest cfg" "build_steps ot f = Inr steps"
    and "evidence_of ot f steps = Inr ev" "oc_verified cfg = None" "oc_guarded cfg"
    and "oc_run cfg = (\<lambda>steps. run_process ot l steps env)"
    and "int (length (dn_messages (snd (snd (drained ot l env))))) \<le> max_safe_integer"
    and "\<And>ms es. transcript_document ot ms = Inr es \<Longrightarrow> ot_canonicalize ot (JList es) \<noteq> None"
  shows "case run_process ot l steps env of
      Inl (OracleProcessError c) \<Rightarrow> (\<exists>res. run_fixture ot cfg document = Inr res
        \<and> check_oracle_result ot res = Inr () \<and> or_failure_class res = Some c)
    | Inl e \<Rightarrow> run_fixture ot cfg document = Inl e
    | Inr r \<Rightarrow>
        if list_ex is_null_request (pr_messages r) then run_fixture ot cfg document = Inl Value_Raised
        else \<exists>res. run_fixture ot cfg document = Inr res \<and> check_oracle_result ot res = Inr ()
          \<and> or_failure_class res = judge f r
          \<and> map (\<lambda>i. (oi_side i, oi_request_digest i)) (or_request_identities res)
              = concat (map (identity_pairs ot) (pr_messages r))
          \<and> (or_failure_class res = None \<longrightarrow> cleaned_up (re_shutdown env)
              \<and> transcript True True (pr_messages r) \<and> answered (re_steps env) 0 steps)"
proof -
  note run = run_fixture_parsed [OF assms(3-8)]
  have ev: "ev_fixture ev = f" "evidence_fits ot ev" using evidence_of_fits [OF assms(1,3,6)] by simp_all
  have "ot_canonicalize ot (JList []) \<noteq> None" using assms(11) [of "[]"] by (simp add: transcript_document_def)
  note failed = failure_result_ok [OF assms(1) ev(2) assms(2) this]
  show ?thesis
  proof (cases "run_process ot l steps env")
    case (Inl e)
    then show ?thesis using run assms(9) failed by (cases e) fastforce+
  next
    case (Inr r)
    note parts = run_process_trusted [OF Inr]
    have msgs: "pr_messages r = dn_messages (snd (snd (drained ot l env)))" by (rule run_process_messages [OF Inr])
    have "judge f r = None \<Longrightarrow> pr_terminal_side_error r = None" by (simp add: judge_None)
    with conclude_ok [OF assms(1) ev(2) assms(2), of r] drained_decoded assms(10,11) msgs parts
    show ?thesis using run assms(9) Inr ev(1) by (fastforce split: if_splits)
  qed
qed

theorem oracle_results_witness:
  "\<exists>res. run_fixture sample_text sample_config sample_fixture_json = Inr res
    \<and> check_oracle_result sample_text res = Inr () \<and> or_failure_class res = None
    \<and> length (or_request_identities res) = 6"
proof -
  obtain ev where "evidence_of sample_text sample_fixture sample_steps = Inr ev" using sample_evidence by blast
  note result = oracle_results [OF sample_canonicalizer_sound sample_config_fits sample_parsed _ sample_built this,
    of sample_limits clean_run]
  have "\<not> list_ex is_null_request (pr_messages sample_result)" "judge sample_fixture sample_result = None"
    "length (concat (map (identity_pairs sample_text) (pr_messages sample_result))) = 6"
    by code_simp+
  moreover have "int (length sample_messages) \<le> max_safe_integer" by code_simp
  ultimately show ?thesis
    using result sample_transcript
    by (fastforce simp: sample_config_def sample_fixture_def clean_run_result sample_drained
        dest: arg_cong [of _ _ length])
qed

text \<open>
  C35: A run of the simulator gives a result only when its process is seen to exit and no child of
  it is left, its exit code is zero or it was forced, and its error output does not hold the
  marker of the network guard. Without an error of a player, every batch of commands was answered
  as its barrier demands, and the messages are one whole battle: requests only after the first
  update, one end, nothing after it.
\<close>

theorem process_result_trusted:
  assumes "run_process ot l steps env = Inr r"
  shows "cleaned_up (re_shutdown env) \<and> (pr_forced_shutdown r \<or> pr_returncode r = 0)
    \<and> \<not> contains external_network_marker (dn_stderr (snd (snd (drained ot l env))))
    \<and> (pr_terminal_side_error r = None \<longrightarrow>
        transcript True True (pr_messages r) \<and> answered (re_steps env) 0 steps)"
  by (rule run_process_trusted [OF assms])

theorem process_result_trusted_witness:
  "transcript True True sample_messages \<and> answered sample_step_run 0 sample_steps"
  using process_result_trusted [OF clean_run_result] by (simp add: sample_result_def clean_run_def)

text \<open>
  C36: A failure of the final drain of the streams is raised as it is, whatever the exit code of
  the process and whatever its error output: also when the network guard denied a connection,
  whose marker is meant to come first.
\<close>

theorem drain_failure_hides_marker:
  assumes "start_process l steps (re_launch env) = Inr ()" "interaction env steps = Inr None"
    and "shutdown (re_shutdown env) = Inr forced" "re_streams_close env"
    and "fst (drained ot l env) = Inl (OracleProcessError f)"
  shows "run_process ot l steps (env\<lparr>re_stderr_chunks := errors, re_exit := x, re_returncode := c\<rparr>)
    = Inl (OracleProcessError f)"
proof (rule run_process_drain_failure)
  show "fst (drained ot l (env\<lparr>re_stderr_chunks := errors, re_exit := x, re_returncode := c\<rparr>)) =
      Inl (OracleProcessError f)"
    using assms(5) by (auto simp: drained_def split: prod.splits if_splits)
qed (use assms in \<open>auto simp: interaction_def split: if_splits\<close>)

theorem drain_failure_hides_marker_witness:
  "run_process sample_text sample_limits sample_steps denied_run
      = Inl (OracleProcessError PROTOCOL_DESYNCHRONIZATION)
    \<and> contains external_network_marker (dn_stderr (snd (snd (drained sample_text sample_limits denied_run))))
    \<and> re_returncode denied_run = Some 7"
proof -
  have "run_process sample_text sample_limits sample_steps
      (denied_run\<lparr>re_stderr_chunks := [external_network_marker], re_exit := Exited 7, re_returncode := Some 7\<rparr>)
      = Inl (OracleProcessError PROTOCOL_DESYNCHRONIZATION)"
    by (rule drain_failure_hides_marker [OF denied_run_facts denied_run_drained])
  then show ?thesis using denied_run_marker by (simp add: denied_run_def)
qed

text \<open>
  C37: The decoder of the simulator's output does not depend on where the output is cut into
  chunks, except that a cut may make it fail: chunks that are accepted one by one are accepted
  as one, with the same messages and the same decoder afterwards, and output that is accepted as
  one is decoded alike in chunks or refused as too large. (It is refused when a chunk ends between
  the two line breaks after a frame of the greatest length: one of them counts for the frame.)
\<close>

theorem decoder_chunking:
  assumes "new_decoder max_frame max_buffer = Inr d"
  shows "(feed_all ot d cs = (Inr ms, d') \<longrightarrow> feed ot d (concat cs) = (Inr ms, d'))
    \<and> (feed ot d (concat cs) = (Inr ms, d') \<longrightarrow> feed_all ot d cs = (Inr ms, d')
        \<or> fst (feed_all ot d cs) = Inl (OracleProtocolError OUTPUT_TOO_LARGE))"
  using feed_all_concat feed_all_of_concat new_decoder_idle [OF assms] by blast

theorem decoder_chunking_witness:
  "fst (feed sample_text tight_decoder (concat tight_chunks)) = Inr [UpdateMessage [''|x'']]
    \<and> fst (feed_all sample_text tight_decoder tight_chunks) = Inl (OracleProtocolError OUTPUT_TOO_LARGE)"
proof -
  obtain d where "feed sample_text tight_decoder (concat tight_chunks) = (Inr [UpdateMessage [''|x'']], d)"
    using tight_runs(2) by (cases "feed sample_text tight_decoder (concat tight_chunks)") simp
  with decoder_chunking [OF tight_runs(1), of sample_text tight_chunks] tight_runs(2,3) show ?thesis by fastforce
qed



text \<open>
  C39: Encoded commands read back: the bytes are within the limit, they are UTF-8, and their lines
  are the commands in their order, each of which begins with its marker and holds no line break.
\<close>

theorem commands_read_back:
  assumes "encode_commands ot max_command max_total cs = Inr out"
  shows "int (length out) \<le> max_total \<and> (\<exists>t. decode_text out = Inr t \<and> split_on newline t = cs @ [[]])
    \<and> (\<forall>c\<in>set cs. starts_with ''>'' c \<and> newline \<notin> set c \<and> int (length (utf8_encode c)) \<le> max_command)"
  using encode_commands_reads_back [OF assms] assms by (auto simp: encode_commands_eq_Inr command_shape_ok_def)

theorem commands_read_back_witness:
  "\<exists>out t. encode_commands sample_text 100 100 [''>p1 team 1'', ''>forcetie''] = Inr out
    \<and> decode_text out = Inr t \<and> split_on newline t = [''>p1 team 1'', ''>forcetie'', []]"
proof -
  obtain out where "encode_commands sample_text 100 100 [''>p1 team 1'', ''>forcetie''] = Inr out"
    using two_commands_encoded by blast
  with commands_read_back [OF this] show ?thesis by auto
qed



end
